(* ===== verification/Prelude.thy ===== *)
theory Prelude
  imports Main "HOL-Library.AList" "HOL-Library.List_Lexorder" "HOL-Library.Char_ord"
    "HOL-Library.Product_Lexorder"
begin

section \<open>Shared vocabulary of the development\<close>

text \<open>
  Python values as the modelled code sees them, results with errors, dictionaries that keep
  their insertion order, and the generic lemmas the components share.

  \<^item> A Python \<^verbatim>\<open>str\<close> is its UTF-8 encoding as a \<open>string\<close>: equality is preserved and
    bytewise lexicographic order is code-point order, so \<^verbatim>\<open>sorted\<close> agrees.
  \<^item> A JSON-like value (the \<^verbatim>\<open>Any\<close> of the source after decoding) is of type \<open>json\<close>. A float
    is carried by its \<^verbatim>\<open>repr\<close>, which identifies it.
  \<^item> A \<^verbatim>\<open>dict\<close> is an association list in insertion order with distinct keys; assignment is
    \<open>AList.update\<close>, which overwrites in place and appends a new key at the end.
  \<^item> A raising function returns \<open>error + value\<close>.
\<close>

datatype json =
    JNull
  | JBool bool
  | JInt int
  | JFloat string
  | JStr string
  | JArr "json list"
  | JObj "(string \<times> json) list"

subsection \<open>Python's view of a value\<close>

text \<open>Truthiness, \<^verbatim>\<open>bool(x)\<close>; the two float zeros are false.\<close>

fun truthy :: "json \<Rightarrow> bool" where
  "truthy JNull = False"
| "truthy (JBool b) = b"
| "truthy (JInt n) = (n \<noteq> 0)"
| "truthy (JFloat r) = (r \<noteq> ''0.0'' \<and> r \<noteq> ''-0.0'')"
| "truthy (JStr s) = (s \<noteq> [])"
| "truthy (JArr xs) = (xs \<noteq> [])"
| "truthy (JObj kvs) = (kvs \<noteq> [])"

text \<open>\<^verbatim>\<open>isinstance(x, str)\<close> and its kin as partial projections; \<^verbatim>\<open>bool\<close> is a subclass of
  \<^verbatim>\<open>int\<close>, so \<^verbatim>\<open>isinstance(True, int)\<close> holds and \<^verbatim>\<open>True\<close> counts as 1.\<close>

fun as_str :: "json \<Rightarrow> string option" where
  "as_str (JStr s) = Some s"
| "as_str _ = None"

fun as_int :: "json \<Rightarrow> int option" where
  "as_int (JInt n) = Some n"
| "as_int (JBool b) = Some (if b then 1 else 0)"
| "as_int _ = None"

fun as_list :: "json \<Rightarrow> json list option" where
  "as_list (JArr xs) = Some xs"
| "as_list _ = None"

fun as_dict :: "json \<Rightarrow> (string \<times> json) list option" where
  "as_dict (JObj kvs) = Some kvs"
| "as_dict _ = None"

text \<open>\<^verbatim>\<open>d.get(k, default)\<close> on a dictionary.\<close>

definition dget :: "(string \<times> json) list \<Rightarrow> string \<Rightarrow> json \<Rightarrow> json" where
  "dget d k dflt = (case map_of d k of Some v \<Rightarrow> v | None \<Rightarrow> dflt)"

text \<open>\<^verbatim>\<open>x if isinstance(x, dict) else {}\<close>.\<close>

definition dict_or_empty :: "json \<Rightarrow> (string \<times> json) list" where
  "dict_or_empty v = (case as_dict v of Some d \<Rightarrow> d | None \<Rightarrow> [])"

text \<open>\<^verbatim>\<open>None\<close> or an encoded value.\<close>

fun opt_json :: "('a \<Rightarrow> json) \<Rightarrow> 'a option \<Rightarrow> json" where
  "opt_json f None = JNull"
| "opt_json f (Some x) = f x"

text \<open>\<^verbatim>\<open>math.isfinite\<close> on the \<^verbatim>\<open>repr\<close> of a float, and a value without non-finite floats.\<close>

definition finite_float :: "string \<Rightarrow> bool" where
  "finite_float r \<longleftrightarrow> r \<notin> {''nan'', ''inf'', ''-inf''}"

fun finite_json :: "json \<Rightarrow> bool" where
  "finite_json (JFloat r) = finite_float r"
| "finite_json (JArr xs) = list_all finite_json xs"
| "finite_json (JObj kvs) = list_all (\<lambda>(k, v). finite_json v) kvs"
| "finite_json _ = True"

lemma as_dict_Some_iff [simp]: "as_dict v = Some d \<longleftrightarrow> v = JObj d"
  by (cases v) auto

lemma as_str_Some_iff [simp]: "as_str v = Some s \<longleftrightarrow> v = JStr s"
  by (cases v) auto

lemma as_list_Some_iff [simp]: "as_list v = Some xs \<longleftrightarrow> v = JArr xs"
  by (cases v) auto

lemma dict_or_empty_simps [simp]:
  "dict_or_empty (JObj d) = d"
  "dict_or_empty JNull = []"
  by (simp_all add: dict_or_empty_def)

lemma dget_Nil [simp]: "dget [] k v = v"
  by (simp add: dget_def)

lemma dget_Cons: "dget ((k', v) # d) k w = (if k' = k then v else dget d k w)"
  by (simp add: dget_def)

lemma dget_update [simp]: "dget (AList.update k v d) k' w = (if k' = k then v else dget d k' w)"
  by (auto simp: dget_def update_conv)

lemma dget_delete [simp]: "dget (AList.delete k d) k' v = (if k = k' then v else dget d k' v)"
  by (simp add: dget_def delete_conv)

text \<open>\<^verbatim>\<open>d.update(other)\<close>.\<close>

definition dict_update :: "('k \<times> 'v) list \<Rightarrow> ('k \<times> 'v) list \<Rightarrow> ('k \<times> 'v) list" where
  "dict_update d kvs = fold (\<lambda>(k, v). AList.update k v) kvs d"

lemma dict_update_simps [simp]:
  "dict_update d [] = d"
  "dict_update d ((k, v) # kvs) = dict_update (AList.update k v d) kvs"
  by (simp_all add: dict_update_def)

lemma distinct_dict_update: "distinct (map fst d) \<Longrightarrow> distinct (map fst (dict_update d kvs))"
  by (induction kvs arbitrary: d) (auto simp: distinct_update)

lemma map_of_dict_update: "map_of (dict_update d kvs) k =
    (case map_of (rev kvs) k of Some v \<Rightarrow> Some v | None \<Rightarrow> map_of d k)"
proof (induction kvs arbitrary: d)
  case Nil
  then show ?case by simp
next
  case (Cons kv kvs)
  then show ?case
    by (cases kv) (simp add: map_add_def update_conv split: option.split)
qed

subsection \<open>Results\<close>

text \<open>The standard exceptions the modelled code raises itself.\<close>

datatype py_error = ValueError | TypeError | KeyError

text \<open>Sequencing of raising computations: the first error stops the rest.\<close>

fun res_bind :: "'e + 'a \<Rightarrow> ('a \<Rightarrow> 'e + 'b) \<Rightarrow> 'e + 'b" where
  "res_bind (Inl e) f = Inl e"
| "res_bind (Inr x) f = f x"

text \<open>\<^verbatim>\<open>if not cond: raise e\<close>.\<close>

definition ensure :: "bool \<Rightarrow> 'e \<Rightarrow> 'e + unit" where
  "ensure c e = (if c then Inr () else Inl e)"

text \<open>A loop that raises at the first bad element.\<close>

fun res_map :: "('a \<Rightarrow> 'e + 'b) \<Rightarrow> 'a list \<Rightarrow> 'e + 'b list" where
  "res_map f [] = Inr []"
| "res_map f (x # xs) =
     res_bind (f x) (\<lambda>y. res_bind (res_map f xs) (\<lambda>ys. Inr (y # ys)))"

lemma res_bind_Inr_iff [simp]:
  "res_bind r f = Inr y \<longleftrightarrow> (\<exists>x. r = Inr x \<and> f x = Inr y)"
  by (cases r) auto

lemma res_bind_Inl_iff:
  "res_bind r f = Inl e \<longleftrightarrow> r = Inl e \<or> (\<exists>x. r = Inr x \<and> f x = Inl e)"
  by (cases r) auto

lemma ensure_Inr_iff [simp]: "ensure c e = Inr u \<longleftrightarrow> c"
  by (simp add: ensure_def)

lemma ensure_Inl_iff [simp]: "ensure c e = Inl e' \<longleftrightarrow> \<not> c \<and> e' = e"
  by (auto simp: ensure_def)

lemma ensure_simps [simp]: "ensure True e = Inr ()" "ensure False e = Inl e"
  by (simp_all add: ensure_def)

lemma res_map_Inr_set: "res_map f xs = Inr ys \<Longrightarrow> y \<in> set ys \<Longrightarrow> \<exists>x \<in> set xs. f x = Inr y"
  by (induction xs arbitrary: ys) auto

lemma res_map_id: "(\<And>x. x \<in> set xs \<Longrightarrow> f x = Inr x) \<Longrightarrow> res_map f xs = Inr xs"
  by (induction xs) auto

lemma res_map_length: "res_map f xs = Inr ys \<Longrightarrow> length ys = length xs"
  by (induction xs arbitrary: ys) auto

subsection \<open>Sets as sorted lists\<close>

text \<open>\<^verbatim>\<open>tuple(sorted({...}))\<close>: the strictly increasing list of the elements.\<close>

definition sorted_set :: "'a::linorder list \<Rightarrow> 'a list" where
  "sorted_set xs = sort (remdups xs)"

lemma set_sorted_set [simp]: "set (sorted_set xs) = set xs"
  by (simp add: sorted_set_def)

lemma sorted_sorted_set [simp]: "sorted (sorted_set xs)"
  by (simp add: sorted_set_def)

lemma distinct_sorted_set [simp]: "distinct (sorted_set xs)"
  by (simp add: sorted_set_def)

lemma sorted_set_cong: "set xs = set ys \<Longrightarrow> sorted_set xs = sorted_set ys"
  by (rule sorted_distinct_set_unique) simp_all

lemma sorted_set_ident: "sorted xs \<Longrightarrow> distinct xs \<Longrightarrow> sorted_set xs = xs"
  by (simp add: sorted_set_def distinct_remdups_id sort_key_id_if_sorted)

lemma sorted_set_idem [simp]: "sorted_set (sorted_set xs) = sorted_set xs"
  by (simp add: sorted_set_ident)

text \<open>\<^verbatim>\<open>tuple(dict.fromkeys(xs))\<close>: first occurrences, in order.\<close>

fun first_occurrences :: "'a list \<Rightarrow> 'a list" where
  "first_occurrences [] = []"
| "first_occurrences (x # xs) = x # filter (\<lambda>y. y \<noteq> x) (first_occurrences xs)"

lemma set_first_occurrences [simp]: "set (first_occurrences xs) = set xs"
  by (induction xs) auto

lemma distinct_first_occurrences [simp]: "distinct (first_occurrences xs)"
  by (induction xs) auto

lemma first_occurrences_ident: "distinct xs \<Longrightarrow> first_occurrences xs = xs"
  by (induction xs) (auto intro: filter_True)

subsection \<open>Decimal numerals\<close>

text \<open>\<^verbatim>\<open>str(n)\<close>.\<close>

definition digit :: "nat \<Rightarrow> char" where
  "digit d = char_of (48 + d)"

fun nat_str :: "nat \<Rightarrow> string" where
  "nat_str n = (if n < 10 then [digit n] else nat_str (n div 10) @ [digit (n mod 10)])"

declare nat_str.simps [simp del]

definition int_str :: "int \<Rightarrow> string" where
  "int_str i = (if i < 0 then CHR ''-'' # nat_str (nat (- i)) else nat_str (nat i))"

text \<open>A numeral determines its number.\<close>

definition digits_value :: "string \<Rightarrow> nat" where
  "digits_value s = foldl (\<lambda>a c. 10 * a + (of_char c - 48)) 0 s"

lemma of_char_digit: "d < 10 \<Longrightarrow> of_char (digit d) = 48 + d"
  by (simp add: digit_def of_char_of)

lemma digits_value_nat_str [simp]: "digits_value (nat_str n) = n"
proof (induction n rule: nat_str.induct)
  case (1 n)
  show ?case
  proof (cases "n < 10")
    case True
    then show ?thesis
      by (simp add: nat_str.simps [of n] digits_value_def of_char_digit)
  next
    case False
    with 1 have "digits_value (nat_str (n div 10)) = n div 10" by simp
    with False show ?thesis
      by (simp add: nat_str.simps [of n] digits_value_def of_char_digit)
  qed
qed

lemma nat_str_inject [simp]: "nat_str m = nat_str n \<longleftrightarrow> m = n"
  by (metis digits_value_nat_str)

definition digit_char :: "char \<Rightarrow> bool" where
  "digit_char c \<longleftrightarrow> of_char c \<in> {48..57 :: nat}"

lemma nat_str_digits: "c \<in> set (nat_str n) \<Longrightarrow> digit_char c"
proof (induction n rule: nat_str.induct)
  case (1 n)
  then show ?case
    by (cases "n < 10") (auto simp: nat_str.simps [of n] digit_char_def of_char_digit)
qed

lemma nat_str_nonempty [simp]: "nat_str n \<noteq> []"
  by (simp add: nat_str.simps [of n])

lemma not_digit_char: "\<not> digit_char CHR ''-''" "\<not> digit_char CHR ''.''" "\<not> digit_char CHR ''e''"
  by (simp_all add: digit_char_def)

lemma int_str_inject [simp]: "int_str i = int_str j \<longleftrightarrow> i = j"
proof
  assume eq: "int_str i = int_str j"
  have "hd (nat_str n) \<noteq> CHR ''-''" for n
    using nat_str_digits [of "hd (nat_str n)" n] not_digit_char(1) by auto
  then have neq: "nat_str n \<noteq> CHR ''-'' # s" for n s
    by (metis list.sel(1))
  from eq neq show "i = j"
    by (auto simp: int_str_def split: if_splits dest: sym)
qed simp

subsection \<open>Lists cut into chunks\<close>

text \<open>\<^verbatim>\<open>for i in range(0, len(xs), n): yield xs[i:i + n]\<close>, for a positive \<open>n\<close>.\<close>

function chunks :: "nat \<Rightarrow> 'a list \<Rightarrow> 'a list list" where
  "chunks n xs = (if xs = [] \<or> n = 0 then [] else take n xs # chunks n (drop n xs))"
  by pat_completeness auto
termination
  by (relation "measure (\<lambda>(n, xs). length xs)") auto

declare chunks.simps [simp del]

lemma chunks_Nil [simp]: "chunks n [] = []"
  by (subst chunks.simps) simp

lemma concat_chunks: "0 < n \<Longrightarrow> concat (chunks n xs) = xs"
proof (induction n xs rule: chunks.induct)
  case (1 n xs)
  then show ?case
    by (cases "xs = []") (simp_all add: chunks.simps [of n xs])
qed

lemma chunks_sizes: "ys \<in> set (chunks n xs) \<Longrightarrow> ys \<noteq> [] \<and> length ys \<le> n"
proof (induction n xs rule: chunks.induct)
  case (1 n xs)
  then show ?case
    by (cases "xs = [] \<or> n = 0") (auto simp: chunks.simps [of n xs])
qed

lemma distinct_map_sort_key: "distinct (map f (sort_key f xs)) \<longleftrightarrow> distinct (map f xs)"
  by (induction xs) (auto simp: distinct_insort_key)

end
