(* ===== verification/Plan_Workflow.thy ===== *)
theory Plan_Workflow
  imports Prelude
begin

section \<open>The planning lifecycle and its realized graph\<close>

text \<open>
  The state machine that drives a plan through prep, plan, critique, gate, revise, finalize,
  execute and review: the canonical states (\<^verbatim>\<open>planning/state.py\<close>), the transition tables
  (\<^verbatim>\<open>_core/workflow_data.py\<close>), the robustness overlays and the queries over them
  (\<^verbatim>\<open>_core/workflow.py\<close>), and the realized graph (\<^verbatim>\<open>_core/topology.py\<close>). A plan's state is
  the decoded \<^verbatim>\<open>state.json\<close> dictionary. Lifecycle states and edge conditions, string constants
  in the source, are datatypes with their string in \<open>state_value\<close>; step names and robustness
  names stay strings.
\<close>

subsection \<open>Lifecycle states\<close>

datatype plan_state =
    STATE_INITIALIZED | STATE_PREPPED | STATE_PLANNED | STATE_CRITIQUED | STATE_GATED
  | STATE_FINALIZED | STATE_EXECUTED | STATE_REVIEWED | STATE_DONE | STATE_ABORTED
  | STATE_FAILED | STATE_BLOCKED | STATE_PAUSED | STATE_CANCELLED | STATE_AWAITING_PR_MERGE
  | STATE_AWAITING_HUMAN_VERIFY | STATE_TIEBREAKER_PENDING | STATE_TIEBREAKER_READY

abbreviation STATE_AWAITING_HUMAN :: plan_state where
  "STATE_AWAITING_HUMAN \<equiv> STATE_AWAITING_HUMAN_VERIFY"

fun state_value :: "plan_state \<Rightarrow> string" where
  "state_value STATE_INITIALIZED = ''initialized''"
| "state_value STATE_PREPPED = ''prepped''"
| "state_value STATE_PLANNED = ''planned''"
| "state_value STATE_CRITIQUED = ''critiqued''"
| "state_value STATE_GATED = ''gated''"
| "state_value STATE_FINALIZED = ''finalized''"
| "state_value STATE_EXECUTED = ''executed''"
| "state_value STATE_REVIEWED = ''reviewed''"
| "state_value STATE_DONE = ''done''"
| "state_value STATE_ABORTED = ''aborted''"
| "state_value STATE_FAILED = ''failed''"
| "state_value STATE_BLOCKED = ''blocked''"
| "state_value STATE_PAUSED = ''paused''"
| "state_value STATE_CANCELLED = ''cancelled''"
| "state_value STATE_AWAITING_PR_MERGE = ''awaiting_pr_merge''"
| "state_value STATE_AWAITING_HUMAN_VERIFY = ''awaiting_human_verify''"
| "state_value STATE_TIEBREAKER_PENDING = ''tiebreaker_pending''"
| "state_value STATE_TIEBREAKER_READY = ''tiebreaker_ready''"

definition CANONICAL_PLAN_STATES :: "plan_state list" where
  "CANONICAL_PLAN_STATES =
     [STATE_INITIALIZED, STATE_PREPPED, STATE_PLANNED, STATE_CRITIQUED, STATE_GATED,
      STATE_FINALIZED, STATE_EXECUTED, STATE_REVIEWED, STATE_DONE, STATE_ABORTED, STATE_FAILED,
      STATE_BLOCKED, STATE_PAUSED, STATE_CANCELLED, STATE_AWAITING_PR_MERGE,
      STATE_AWAITING_HUMAN_VERIFY, STATE_TIEBREAKER_PENDING, STATE_TIEBREAKER_READY]"

definition TERMINAL_STATES :: "plan_state list" where
  "TERMINAL_STATES = [STATE_DONE, STATE_ABORTED, STATE_FAILED, STATE_BLOCKED, STATE_CANCELLED]"

definition AUTOMATION_TERMINAL_STATES :: "plan_state list" where
  "AUTOMATION_TERMINAL_STATES =
     TERMINAL_STATES @ [STATE_PAUSED, STATE_AWAITING_HUMAN_VERIFY, STATE_TIEBREAKER_PENDING,
                        STATE_TIEBREAKER_READY]"

definition PLAN_PROGRESSION_RUNGS :: "plan_state list" where
  "PLAN_PROGRESSION_RUNGS =
     [STATE_PREPPED, STATE_PLANNED, STATE_CRITIQUED, STATE_GATED, STATE_FINALIZED,
      STATE_EXECUTED, STATE_REVIEWED, STATE_DONE]"

text \<open>An unhashable value (a list or a dictionary) makes the set membership test itself raise.\<close>

definition validate_plan_current_state :: "json \<Rightarrow> py_error + string" where
  "validate_plan_current_state value =
     (case value of
        JStr s \<Rightarrow> if s \<in> set (map state_value CANONICAL_PLAN_STATES) then Inr s else Inl ValueError
      | JArr _ \<Rightarrow> Inl TypeError
      | JObj _ \<Rightarrow> Inl TypeError
      | _ \<Rightarrow> Inl ValueError)"

lemma state_value_inject [simp]: "state_value s = state_value t \<longleftrightarrow> s = t"
  by (cases s; cases t) simp_all

lemma CANONICAL_PLAN_STATES_all: "s \<in> set CANONICAL_PLAN_STATES"
  by (cases s) (simp_all add: CANONICAL_PLAN_STATES_def)

subsection \<open>Transition tables\<close>

datatype cond =
    Always | Gate_unset | Gate_iterate | Gate_escalate | Gate_tiebreaker
  | Gate_proceed_agent_availability_blocked | Gate_proceed_blocked | Gate_proceed

datatype transition =
  Transition (next_step: string) (next_state: plan_state) (condition: cond)

type_synonym workflow = "(plan_state \<times> transition list) list"

definition WORKFLOW :: workflow where
  "WORKFLOW =
    [(STATE_INITIALIZED,
       [Transition ''prep'' STATE_PREPPED Always,
        Transition ''prep'' STATE_AWAITING_HUMAN Always]),
     (STATE_PREPPED,
       [Transition ''plan'' STATE_PLANNED Always]),
     (STATE_PLANNED,
       [Transition ''critique'' STATE_CRITIQUED Always,
        Transition ''plan'' STATE_PLANNED Always]),
     (STATE_CRITIQUED,
       [Transition ''gate'' STATE_GATED Gate_unset,
        Transition ''revise'' STATE_PLANNED Gate_iterate,
        Transition ''tiebreaker'' STATE_TIEBREAKER_PENDING Gate_tiebreaker,
        Transition ''override add-note'' STATE_CRITIQUED Gate_escalate,
        Transition ''override force-proceed'' STATE_GATED Gate_escalate,
        Transition ''override abort'' STATE_ABORTED Gate_escalate,
        Transition ''override force-proceed'' STATE_GATED Gate_proceed_agent_availability_blocked,
        Transition ''gate'' STATE_GATED Gate_proceed_blocked,
        Transition ''gate'' STATE_GATED Gate_proceed]),
     (STATE_GATED,
       [Transition ''finalize'' STATE_FINALIZED Always,
        Transition ''override replan'' STATE_PLANNED Always]),
     (STATE_BLOCKED,
       [Transition ''override force-proceed'' STATE_FINALIZED Always]),
     (STATE_FINALIZED,
       [Transition ''execute'' STATE_EXECUTED Always,
        Transition ''override replan'' STATE_PLANNED Always]),
     (STATE_EXECUTED,
       [Transition ''review'' STATE_DONE Always]),
     (STATE_AWAITING_HUMAN_VERIFY,
       [Transition ''verify-human'' STATE_DONE Always,
        Transition ''resume-clarify'' STATE_PREPPED Always]),
     (STATE_TIEBREAKER_PENDING,
       [Transition ''tiebreaker-run'' STATE_TIEBREAKER_READY Always]),
     (STATE_TIEBREAKER_READY,
       [Transition ''tiebreaker-decide'' STATE_CRITIQUED Always])]"

definition ROBUSTNESS_OVERRIDES :: "(string \<times> workflow) list" where
  "ROBUSTNESS_OVERRIDES =
    [(''extreme'', []),
     (''thorough'', []),
     (''full'', [(STATE_INITIALIZED, [Transition ''plan'' STATE_PLANNED Always])]),
     (''light'',
       [(STATE_INITIALIZED, [Transition ''plan'' STATE_PLANNED Always]),
        (STATE_CRITIQUED, [Transition ''revise'' STATE_GATED Always]),
        (STATE_EXECUTED, [])]),
     (''bare'', [(STATE_PLANNED, [Transition ''finalize'' STATE_GATED Always])])]"

definition ROBUSTNESS_WORKFLOW_LEVELS :: "(string \<times> string list) list" where
  "ROBUSTNESS_WORKFLOW_LEVELS =
    [(''extreme'', [''extreme'']),
     (''thorough'', [''thorough'']),
     (''full'', [''full'']),
     (''light'', [''full'', ''light'']),
     (''bare'', [''full'', ''light'', ''bare''])]"

subsection \<open>Robustness levels\<close>

definition ROBUSTNESS_LEVELS :: "string list" where
  "ROBUSTNESS_LEVELS = [''bare'', ''light'', ''full'', ''thorough'', ''extreme'']"

definition ROBUSTNESS_ALIASES :: "(string \<times> string) list" where
  "ROBUSTNESS_ALIASES =
    [(''tiny'', ''bare''), (''medium'', ''light''), (''standard'', ''full''),
     (''robust'', ''thorough''), (''superrobust'', ''extreme'')]"

definition normalize_robustness :: "json \<Rightarrow> string" where
  "normalize_robustness value =
     (case as_str value of
        Some v \<Rightarrow>
          if v \<in> set ROBUSTNESS_LEVELS then v
          else (case map_of ROBUSTNESS_ALIASES v of Some l \<Rightarrow> l | None \<Rightarrow> ''full'')
      | None \<Rightarrow> ''full'')"

lemma normalize_robustness_range: "normalize_robustness v \<in> set ROBUSTNESS_LEVELS"
  by (auto simp: normalize_robustness_def ROBUSTNESS_LEVELS_def ROBUSTNESS_ALIASES_def
      split: option.splits if_splits)

lemma normalize_robustness_idem [simp]:
  "normalize_robustness (JStr (normalize_robustness v)) = normalize_robustness v"
  using normalize_robustness_range [of v] by (simp add: normalize_robustness_def [of "JStr _"])

definition resolve_overrides :: "string \<Rightarrow> bool \<Rightarrow> workflow" where
  "resolve_overrides robustness creative =
     (if \<not> creative then
        (case map_of ROBUSTNESS_OVERRIDES robustness of Some w \<Rightarrow> w | None \<Rightarrow> [])
      else if robustness \<in> {''extreme'', ''thorough'', ''full''} then []
      else if robustness = ''light'' then
        [(STATE_PLANNED, [Transition ''finalize'' STATE_GATED Always]),
         (STATE_CRITIQUED, [Transition ''revise'' STATE_GATED Always]),
         (STATE_EXECUTED, [])]
      else (case map_of ROBUSTNESS_OVERRIDES robustness of Some w \<Rightarrow> w | None \<Rightarrow> []))"

record topology_config =
  cfg_robustness :: string
  cfg_creative :: bool
  cfg_with_prep :: bool
  cfg_with_feedback :: bool

text \<open>The overlay fold: the base table, then each level's overrides, then the two init flags.\<close>

definition overlay_levels :: "string \<Rightarrow> string list" where
  "overlay_levels normalized =
     (case map_of ROBUSTNESS_WORKFLOW_LEVELS normalized of
        Some ls \<Rightarrow> ls
      | None \<Rightarrow> (case map_of ROBUSTNESS_WORKFLOW_LEVELS ''full'' of Some ls \<Rightarrow> ls | None \<Rightarrow> []))"

definition overlay_fold :: "string list \<Rightarrow> bool \<Rightarrow> workflow" where
  "overlay_fold levels creative =
     fold (\<lambda>level w. dict_update w (resolve_overrides level creative)) levels WORKFLOW"

definition workflow_for_robustness :: "string \<Rightarrow> bool \<Rightarrow> bool \<Rightarrow> bool \<Rightarrow> workflow" where
  "workflow_for_robustness robustness creative with_prep with_feedback =
     (let merged = overlay_fold (overlay_levels (normalize_robustness (JStr robustness))) creative;
          merged = (if with_prep then
                      (case map_of WORKFLOW STATE_INITIALIZED of
                         Some ts \<Rightarrow> AList.update STATE_INITIALIZED ts merged
                       | None \<Rightarrow> merged)
                    else merged)
      in if with_feedback then
           AList.update STATE_REVIEWED [Transition ''feedback'' STATE_DONE Always]
             (AList.update STATE_EXECUTED [Transition ''review'' STATE_REVIEWED Always] merged)
         else merged)"

subsection \<open>Reading a plan's state\<close>

type_synonym plan = "(string \<times> json) list"

definition plan_config :: "plan \<Rightarrow> json" where
  "plan_config state = dget state ''config'' (JObj [])"

definition workflow_robustness_from_state :: "plan \<Rightarrow> string" where
  "workflow_robustness_from_state state =
     (case as_dict (plan_config state) of
        None \<Rightarrow> ''full''
      | Some config \<Rightarrow> normalize_robustness (dget config ''robustness'' (JStr ''full'')))"

definition with_prep_from_state :: "plan \<Rightarrow> bool" where
  "with_prep_from_state state =
     (case as_dict (plan_config state) of
        None \<Rightarrow> False
      | Some config \<Rightarrow> truthy (dget config ''with_prep'' (JBool False)))"

definition with_feedback_from_state :: "plan \<Rightarrow> bool" where
  "with_feedback_from_state state =
     (case as_dict (plan_config state) of
        None \<Rightarrow> False
      | Some config \<Rightarrow> truthy (dget config ''with_feedback'' (JBool False)))"

definition plan_mode :: "plan \<Rightarrow> json" where
  "plan_mode state = dget (dict_or_empty (plan_config state)) ''mode'' (JStr ''code'')"

definition is_creative_mode :: "plan \<Rightarrow> bool" where
  "is_creative_mode state = (plan_mode state \<in> {JStr ''creative'', JStr ''joke''})"

definition creative_form_id :: "plan \<Rightarrow> string option" where
  "creative_form_id state =
     (if plan_mode state \<notin> {JStr ''creative'', JStr ''joke''} then None
      else (case dget (dict_or_empty (plan_config state)) ''form'' JNull of
              JStr f \<Rightarrow> if f \<noteq> [] then Some f
                        else if plan_mode state = JStr ''joke'' then Some ''joke'' else None
            | _ \<Rightarrow> if plan_mode state = JStr ''joke'' then Some ''joke'' else None))"

definition is_prose_mode :: "plan \<Rightarrow> bool" where
  "is_prose_mode state = (plan_mode state \<in> {JStr ''doc'', JStr ''joke'', JStr ''creative''})"

definition gate_of :: "plan \<Rightarrow> (string \<times> json) list" where
  "gate_of state = dict_or_empty (dget state ''last_gate'' (JObj []))"

definition recommendation_of :: "plan \<Rightarrow> json" where
  "recommendation_of state = dget (gate_of state) ''recommendation'' JNull"

definition gate_passed :: "plan \<Rightarrow> bool" where
  "gate_passed state = truthy (dget (gate_of state) ''passed'' (JBool False))"

definition failed_preflights :: "plan \<Rightarrow> string list" where
  "failed_preflights state =
     map fst (filter (\<lambda>(name, passed). \<not> truthy passed)
       (dict_or_empty (dget (gate_of state) ''preflight_results'' (JObj []))))"

fun transition_matches :: "plan \<Rightarrow> cond \<Rightarrow> bool" where
  "transition_matches state Always = True"
| "transition_matches state Gate_unset = (\<not> truthy (recommendation_of state))"
| "transition_matches state Gate_iterate = (recommendation_of state = JStr ''ITERATE'')"
| "transition_matches state Gate_escalate = (recommendation_of state = JStr ''ESCALATE'')"
| "transition_matches state Gate_tiebreaker = (recommendation_of state = JStr ''TIEBREAKER'')"
| "transition_matches state Gate_proceed_agent_availability_blocked =
     (recommendation_of state = JStr ''PROCEED'' \<and> \<not> gate_passed state
      \<and> failed_preflights state \<noteq> []
      \<and> set (failed_preflights state) \<subseteq> {''claude_available'', ''codex_available''})"
| "transition_matches state Gate_proceed_blocked =
     (recommendation_of state = JStr ''PROCEED'' \<and> \<not> gate_passed state)"
| "transition_matches state Gate_proceed =
     (recommendation_of state = JStr ''PROCEED'' \<and> gate_passed state)"

subsection \<open>The realized graph\<close>

datatype edge = Edge (src: plan_state) (dst: plan_state) (step: string) (edge_condition: cond)

record graph =
  nodes :: "plan_state set"
  edges :: "edge list"

definition edges_from_workflow :: "workflow \<Rightarrow> edge list \<times> plan_state set" where
  "edges_from_workflow workflow =
     (concat (map (\<lambda>(s, ts). map (\<lambda>t. Edge s (next_state t) (next_step t) (condition t)) ts) workflow),
      set (concat (map (\<lambda>(s, ts). s # map next_state ts) workflow)))"

definition build_topology :: "topology_config \<Rightarrow> graph" where
  "build_topology config =
     (let (es, ns) = edges_from_workflow
            (workflow_for_robustness (cfg_robustness config) (cfg_creative config)
               (cfg_with_prep config) (cfg_with_feedback config))
      in \<lparr>nodes = ns, edges = es\<rparr>)"

definition successors :: "graph \<Rightarrow> string \<Rightarrow> cond option \<Rightarrow> edge list" where
  "successors g state c =
     (let out = filter (\<lambda>e. state_value (src e) = state) (edges g)
      in case c of None \<Rightarrow> out | Some c \<Rightarrow> filter (\<lambda>e. edge_condition e = c) out)"

definition predecessors :: "graph \<Rightarrow> string \<Rightarrow> cond option \<Rightarrow> edge list" where
  "predecessors g state c =
     (let out = filter (\<lambda>e. state_value (dst e) = state) (edges g)
      in case c of None \<Rightarrow> out | Some c \<Rightarrow> filter (\<lambda>e. edge_condition e = c) out)"

fun has_edge_in :: "edge list \<Rightarrow> string \<Rightarrow> string \<Rightarrow> cond option \<Rightarrow> string option \<Rightarrow> bool" where
  "has_edge_in [] s d c st = False"
| "has_edge_in (e # es) s d c st =
     (if state_value (src e) \<noteq> s \<or> state_value (dst e) \<noteq> d then has_edge_in es s d c st
      else if c \<noteq> None \<and> c \<noteq> Some (edge_condition e) then has_edge_in es s d c st
      else if st \<noteq> None \<and> st \<noteq> Some (step e) then has_edge_in es s d c st
      else True)"

definition has_edge :: "graph \<Rightarrow> string \<Rightarrow> string \<Rightarrow> cond option \<Rightarrow> string option \<Rightarrow> bool" where
  "has_edge g s d c st = has_edge_in (edges g) s d c st"

definition topology_config_of :: "plan \<Rightarrow> topology_config" where
  "topology_config_of state =
     \<lparr>cfg_robustness = workflow_robustness_from_state state,
      cfg_creative = is_creative_mode state,
      cfg_with_prep = with_prep_from_state state,
      cfg_with_feedback = with_feedback_from_state state\<rparr>"

subsection \<open>Queries of the drivers\<close>

definition STEP_CONTEXT_STATES :: "plan_state list" where
  "STEP_CONTEXT_STATES = [STATE_PLANNED, STATE_CRITIQUED, STATE_GATED, STATE_FINALIZED]"

definition next_steps :: "graph \<Rightarrow> plan \<Rightarrow> string list" where
  "next_steps g state =
     (case as_str (dget state ''current_state'' JNull) of
        None \<Rightarrow> []
      | Some current \<Rightarrow>
          map step (filter (\<lambda>e. transition_matches state (edge_condition e))
                      (successors g current None))
          @ (if current \<in> set (map state_value STEP_CONTEXT_STATES) then [''step''] else []))"

definition workflow_next :: "plan \<Rightarrow> string list" where
  "workflow_next state =
     (case as_str (dget state ''current_state'' JNull) of
        None \<Rightarrow> []
      | Some current \<Rightarrow>
          (let g = build_topology (topology_config_of state);
               steps = map step (filter (\<lambda>e. transition_matches state (edge_condition e))
                                   (successors g current None))
           in if current \<in> set (map state_value STEP_CONTEXT_STATES) then steps @ [''step'']
              else steps))"

definition workflow_transition :: "plan \<Rightarrow> string \<Rightarrow> transition option" where
  "workflow_transition state st =
     (case as_str (dget state ''current_state'' JNull) of
        None \<Rightarrow> None
      | Some current \<Rightarrow>
          map_option (\<lambda>e. Transition (step e) (dst e) (edge_condition e))
            (find (\<lambda>e. step e = st \<and> transition_matches state (edge_condition e))
               (successors (build_topology (topology_config_of state)) current None)))"

definition workflow_includes_step :: "json \<Rightarrow> string \<Rightarrow> bool \<Rightarrow> bool \<Rightarrow> bool" where
  "workflow_includes_step robustness st with_prep with_feedback =
     (st = ''step'' \<or>
      list_ex (\<lambda>e. step e = st)
        (edges (build_topology
           \<lparr>cfg_robustness = normalize_robustness robustness, cfg_creative = False,
            cfg_with_prep = with_prep, cfg_with_feedback = with_feedback\<rparr>)))"

definition phase_produced_state :: "plan \<Rightarrow> string \<Rightarrow> string \<Rightarrow> bool" where
  "phase_produced_state state phase produced =
     (if phase = [] \<or> produced = [] then False
      else list_ex (\<lambda>(s, ts). list_ex
               (\<lambda>t. next_step t = phase \<and> state_value (next_state t) = produced) ts)
             (workflow_for_robustness (workflow_robustness_from_state state)
                (is_creative_mode state) (with_prep_from_state state)
                (with_feedback_from_state state)))"

datatype cli_error =
  Invalid_transition (invalid_step: string) (invalid_current: json) (valid_next: "string list")
  | Missing_current_state

definition require_state :: "plan \<Rightarrow> string \<Rightarrow> string list \<Rightarrow> cli_error + unit" where
  "require_state state st allowed =
     (case map_of state ''current_state'' of
        None \<Rightarrow> Inl Missing_current_state
      | Some current \<Rightarrow>
          (if current \<in> JStr ` set allowed then Inr ()
           else Inl (Invalid_transition st current (workflow_next state))))"

subsection \<open>Stage labels of the in-process executor\<close>

definition CONDITIONS :: "cond list" where
  "CONDITIONS =
     [Always, Gate_unset, Gate_iterate, Gate_escalate, Gate_tiebreaker,
      Gate_proceed_agent_availability_blocked, Gate_proceed_blocked, Gate_proceed]"

definition STAGE_TO_STATE :: "(string \<times> plan_state) list" where
  "STAGE_TO_STATE =
     [(''prep'', STATE_INITIALIZED), (''plan'', STATE_INITIALIZED), (''critique'', STATE_PLANNED),
      (''gate'', STATE_CRITIQUED), (''revise'', STATE_CRITIQUED), (''finalize'', STATE_GATED),
      (''execute'', STATE_FINALIZED), (''review'', STATE_EXECUTED), (''feedback'', STATE_REVIEWED)]"

definition STATE_TO_STAGE :: "(plan_state \<times> string list) list" where
  "STATE_TO_STAGE =
     [(STATE_INITIALIZED, [''prep'', ''plan'']), (STATE_PLANNED, [''critique'']),
      (STATE_CRITIQUED, [''gate'', ''revise'']), (STATE_GATED, [''finalize'']),
      (STATE_FINALIZED, [''execute'']), (STATE_EXECUTED, [''review'']),
      (STATE_REVIEWED, [''feedback''])]"

definition next_label :: "graph \<Rightarrow> string \<Rightarrow> plan \<Rightarrow> plan \<Rightarrow> string" where
  "next_label g phase before after =
     (let current = as_str (dget after ''current_state'' JNull);
          before_state =
            (case as_str (dget before ''current_state'' JNull) of
               Some b \<Rightarrow> Some b
             | None \<Rightarrow> map_option state_value (map_of STAGE_TO_STATE phase));
          direct =
            (case current of
               None \<Rightarrow> None
             | Some c \<Rightarrow> find (\<lambda>e. transition_matches after (edge_condition e))
                           (successors g c None));
          taken =
            (case (before_state, current) of
               (Some b, Some c) \<Rightarrow>
                 find (\<lambda>e. step e = phase \<and> state_value (dst e) = c
                           \<and> transition_matches after (edge_condition e))
                   (successors g b None)
             | _ \<Rightarrow> None)
      in case direct of
           Some e \<Rightarrow> step e
         | None \<Rightarrow> (case taken of Some e \<Rightarrow> step e | None \<Rightarrow> ''halt''))"

definition STAGE_PROBE_CONFIGS :: "topology_config list" where
  "STAGE_PROBE_CONFIGS =
     [\<lparr>cfg_robustness = ''full'', cfg_creative = False, cfg_with_prep = False,
        cfg_with_feedback = True\<rparr>,
      \<lparr>cfg_robustness = ''extreme'', cfg_creative = False, cfg_with_prep = True,
        cfg_with_feedback = True\<rparr>]"

definition RECOVERY_POLICIES :: "string list" where
  "RECOVERY_POLICIES = [''recovery'', ''resume'']"

definition stage_predecessor :: "string \<Rightarrow> string \<Rightarrow> py_error + plan_state option" where
  "stage_predecessor stage policy =
     (if policy \<notin> set RECOVERY_POLICIES then Inl ValueError
      else Inr (map_of STAGE_TO_STATE stage))"

subsection \<open>Resuming a phase\<close>

definition resume_phase_args :: "string \<Rightarrow> (string \<times> json) list \<Rightarrow> string \<Rightarrow> string list" where
  "resume_phase_args phase cursor plan_name =
     [phase, ''--plan'', plan_name] @
     (if phase = ''execute'' then
        [''--confirm-destructive'', ''--user-approved''] @
        (case dget cursor ''batch_index'' JNull of
           JInt n \<Rightarrow> if n > 0 then [''--batch'', int_str n] else []
         | JBool b \<Rightarrow> if b then [''--batch'', ''True''] else []
         | _ \<Rightarrow> [])
      else [])"

definition run_id_from_state :: "plan \<Rightarrow> string \<Rightarrow> string" where
  "run_id_from_state state plan_name =
     (case dget state ''name'' JNull of
        JStr r \<Rightarrow> if r \<noteq> [] then r else plan_name
      | _ \<Rightarrow> plan_name)"

definition nonempty_str :: "json \<Rightarrow> string option" where
  "nonempty_str v = (case v of JStr x \<Rightarrow> if x \<noteq> [] then Some x else None | _ \<Rightarrow> None)"

definition task_id_from_record :: "json \<Rightarrow> string" where
  "task_id_from_record task =
     (case as_dict task of
        None \<Rightarrow> []
      | Some d \<Rightarrow>
          (let value = (if truthy (dget d ''id'' JNull) then dget d ''id'' JNull
                        else dget d ''task_id'' JNull)
           in case nonempty_str value of Some x \<Rightarrow> x | None \<Rightarrow> []))"

definition resolve_resume_phase :: "(string \<times> json) list \<Rightarrow> plan \<Rightarrow> string option" where
  "resolve_resume_phase cursor previous_state =
     (case nonempty_str (dget cursor ''phase'' JNull) of
        Some p \<Rightarrow> Some p
      | None \<Rightarrow>
     (case nonempty_str (dget cursor ''stage'' JNull) of
        Some p \<Rightarrow> Some p
      | None \<Rightarrow>
     (case nonempty_str (dget previous_state ''_pipeline_paused_stage'' JNull) of
        Some p \<Rightarrow> Some p
      | None \<Rightarrow>
     (case dget previous_state ''current_state'' JNull of
        JStr c \<Rightarrow> if c \<in> set (map (state_value \<circ> fst) WORKFLOW) then Some c else None
      | _ \<Rightarrow> None))))"

end
