(* ===== verification/Plan_Lifecycle.thy ===== *)
theory Plan_Lifecycle
  imports Plan_Workflow
begin

section \<open>Correctness of the planning lifecycle\<close>

text \<open>
  What the transition tables, the overlay fold and the realized graph guarantee. The overlay
  fold is first shown equal to a closed-form table (\<open>lifecycle_row\<close>); the graph queries are
  then shown to be lookups in it, and the lifecycle properties follow by cases.
\<close>

subsection \<open>The closed form of the overlay fold\<close>

definition lifecycle_row ::
    "string \<Rightarrow> bool \<Rightarrow> bool \<Rightarrow> bool \<Rightarrow> plan_state \<Rightarrow> transition list option" where
  "lifecycle_row r creative with_prep with_feedback s =
     (let low = r \<in> {''light'', ''bare''};
          direct_plan = \<not> creative \<and> r \<in> {''full'', ''light'', ''bare''} \<and> \<not> with_prep
      in case s of
        STATE_INITIALIZED \<Rightarrow>
          Some (if direct_plan then [Transition ''plan'' STATE_PLANNED Always]
                else [Transition ''prep'' STATE_PREPPED Always,
                      Transition ''prep'' STATE_AWAITING_HUMAN Always])
      | STATE_PLANNED \<Rightarrow>
          Some (if r = ''bare'' \<or> creative \<and> r = ''light''
                then [Transition ''finalize'' STATE_GATED Always]
                else [Transition ''critique'' STATE_CRITIQUED Always,
                      Transition ''plan'' STATE_PLANNED Always])
      | STATE_CRITIQUED \<Rightarrow>
          (if low then Some [Transition ''revise'' STATE_GATED Always]
           else map_of WORKFLOW STATE_CRITIQUED)
      | STATE_EXECUTED \<Rightarrow>
          Some (if with_feedback then [Transition ''review'' STATE_REVIEWED Always]
                else if low then [] else [Transition ''review'' STATE_DONE Always])
      | STATE_REVIEWED \<Rightarrow>
          (if with_feedback then Some [Transition ''feedback'' STATE_DONE Always] else None)
      | _ \<Rightarrow> map_of WORKFLOW s)"

text \<open>The override dictionaries of the levels each robustness folds.\<close>

lemma overlay_levels_simps [simp]:
  "overlay_levels ''bare'' = [''full'', ''light'', ''bare'']"
  "overlay_levels ''light'' = [''full'', ''light'']"
  "overlay_levels ''full'' = [''full'']"
  "overlay_levels ''thorough'' = [''thorough'']"
  "overlay_levels ''extreme'' = [''extreme'']"
  by (simp_all add: overlay_levels_def ROBUSTNESS_WORKFLOW_LEVELS_def)

lemma resolve_overrides_simps [simp]:
  "resolve_overrides ''extreme'' c = []"
  "resolve_overrides ''thorough'' c = []"
  "resolve_overrides ''full'' c =
     (if c then [] else [(STATE_INITIALIZED, [Transition ''plan'' STATE_PLANNED Always])])"
  "resolve_overrides ''light'' c =
     (if c then [(STATE_PLANNED, [Transition ''finalize'' STATE_GATED Always])]
      else [(STATE_INITIALIZED, [Transition ''plan'' STATE_PLANNED Always])]) @
     [(STATE_CRITIQUED, [Transition ''revise'' STATE_GATED Always]), (STATE_EXECUTED, [])]"
  "resolve_overrides ''bare'' c = [(STATE_PLANNED, [Transition ''finalize'' STATE_GATED Always])]"
  by (simp_all add: resolve_overrides_def ROBUSTNESS_OVERRIDES_def)

lemma robustness_levels_cases:
  assumes "r \<in> set ROBUSTNESS_LEVELS"
  obtains "r = ''bare''" | "r = ''light''" | "r = ''full''" | "r = ''thorough''" | "r = ''extreme''"
  using assms unfolding ROBUSTNESS_LEVELS_def list.set insert_iff empty_iff by blast

lemma normalize_robustness_level [simp]:
  "r \<in> set ROBUSTNESS_LEVELS \<Longrightarrow> normalize_robustness (JStr r) = r"
  by (simp add: normalize_robustness_def)

lemma WORKFLOW_row [simp]:
  "map_of WORKFLOW STATE_INITIALIZED = Some
     [Transition ''prep'' STATE_PREPPED Always, Transition ''prep'' STATE_AWAITING_HUMAN Always]"
  "map_of WORKFLOW STATE_PLANNED = Some
     [Transition ''critique'' STATE_CRITIQUED Always, Transition ''plan'' STATE_PLANNED Always]"
  "map_of WORKFLOW STATE_EXECUTED = Some [Transition ''review'' STATE_DONE Always]"
  "map_of WORKFLOW STATE_REVIEWED = None"
  by (simp_all add: WORKFLOW_def)

lemma overlay_fold_row:
  assumes "r \<in> set ROBUSTNESS_LEVELS"
  shows "map_of (overlay_fold (overlay_levels r) c) s = lifecycle_row r c False False s"
  using assms
proof (cases rule: robustness_levels_cases)
  case 1
  then show ?thesis
    by (cases s) (simp_all add: overlay_fold_def update_conv lifecycle_row_def Let_def)
next
  case 2
  then show ?thesis
    by (cases s) (simp_all add: overlay_fold_def update_conv lifecycle_row_def Let_def)
next
  case 3
  then show ?thesis
    by (cases s) (simp_all add: overlay_fold_def update_conv lifecycle_row_def Let_def)
next
  case 4
  then show ?thesis
    by (cases s) (simp_all add: overlay_fold_def lifecycle_row_def Let_def)
next
  case 5
  then show ?thesis
    by (cases s) (simp_all add: overlay_fold_def lifecycle_row_def Let_def)
qed

lemma lifecycle_row_flags: "lifecycle_row r c p f s =
    (if f \<and> s = STATE_REVIEWED then Some [Transition ''feedback'' STATE_DONE Always]
     else if f \<and> s = STATE_EXECUTED then Some [Transition ''review'' STATE_REVIEWED Always]
     else if p \<and> s = STATE_INITIALIZED then map_of WORKFLOW STATE_INITIALIZED
     else lifecycle_row r c False False s)"
  by (cases s) (simp_all add: lifecycle_row_def Let_def)

lemma workflow_row:
  assumes "r \<in> set ROBUSTNESS_LEVELS"
  shows "map_of (workflow_for_robustness r c p f) s = lifecycle_row r c p f s"
  unfolding lifecycle_row_flags [of r c p f s] overlay_fold_row [OF assms, symmetric]
  using assms by (simp add: workflow_for_robustness_def update_conv Let_def)

lemma workflow_row_normalized: "map_of (workflow_for_robustness r c p f) s =
    lifecycle_row (normalize_robustness (JStr r)) c p f s"
  using workflow_row [OF normalize_robustness_range, of "JStr r" c p f s]
  by (simp add: workflow_for_robustness_def)

subsection \<open>The realized graph is the table\<close>

definition row_edges :: "plan_state \<Rightarrow> transition list \<Rightarrow> edge list" where
  "row_edges s ts = map (\<lambda>t. Edge s (next_state t) (next_step t) (condition t)) ts"

definition config_row :: "topology_config \<Rightarrow> plan_state \<Rightarrow> transition list option" where
  "config_row cfg = lifecycle_row (normalize_robustness (JStr (cfg_robustness cfg)))
     (cfg_creative cfg) (cfg_with_prep cfg) (cfg_with_feedback cfg)"

lemma distinct_WORKFLOW: "distinct (map fst WORKFLOW)"
  by (simp add: WORKFLOW_def)

lemma distinct_overlay_fold: "distinct (map fst (overlay_fold ls c))"
proof -
  have "distinct (map fst w) \<Longrightarrow>
    distinct (map fst (fold (\<lambda>level w. dict_update w (resolve_overrides level c)) ls w))" for w
    by (induction ls arbitrary: w) (auto intro: distinct_dict_update)
  then show ?thesis by (simp add: overlay_fold_def distinct_WORKFLOW)
qed

lemma distinct_workflow: "distinct (map fst (workflow_for_robustness r c p f))"
  using distinct_overlay_fold [of "overlay_levels (normalize_robustness (JStr r))" c]
  by (auto simp: workflow_for_robustness_def Let_def intro: distinct_update split: option.split)

lemma edges_build_topology: "edges (build_topology cfg) =
    concat (map (\<lambda>(s, ts). row_edges s ts)
      (workflow_for_robustness (cfg_robustness cfg) (cfg_creative cfg) (cfg_with_prep cfg)
        (cfg_with_feedback cfg)))"
  by (simp add: build_topology_def edges_from_workflow_def row_edges_def)

lemma filter_row_edges:
  "distinct (map fst w) \<Longrightarrow>
   filter (\<lambda>e. state_value (src e) = state_value s) (concat (map (\<lambda>(s, ts). row_edges s ts) w)) =
   (case map_of w s of None \<Rightarrow> [] | Some ts \<Rightarrow> row_edges s ts)"
proof (induction w)
  case Nil
  then show ?case by simp
next
  case (Cons a w)
  obtain s' ts where a: "a = (s', ts)" by (cases a)
  have "filter (\<lambda>e. state_value (src e) = state_value s) (row_edges s' ts) =
      (if s' = s then row_edges s ts else [])"
    by (auto simp: row_edges_def)
  moreover have "map_of w s = None" if "s' = s"
    using Cons.prems that by (auto simp: a map_of_eq_None_iff)
  ultimately show ?case
    using Cons by (auto simp: a)
qed

lemma successors_row: "successors (build_topology cfg) (state_value s) None =
    (case config_row cfg s of None \<Rightarrow> [] | Some ts \<Rightarrow> row_edges s ts)"
  using filter_row_edges [OF distinct_workflow]
  by (simp add: successors_def edges_build_topology workflow_row_normalized config_row_def)

lemma edges_row_iff: "e \<in> set (edges (build_topology cfg)) \<longleftrightarrow>
    (\<exists>ts. config_row cfg (src e) = Some ts \<and> e \<in> set (row_edges (src e) ts))"
proof -
  have "e \<in> set (edges (build_topology cfg)) \<longleftrightarrow>
      e \<in> set (successors (build_topology cfg) (state_value (src e)) None)"
    by (simp add: successors_def)
  then show ?thesis
    by (cases "config_row cfg (src e)") (simp_all add: successors_row)
qed

lemma successors_unknown:
  "st \<notin> range state_value \<Longrightarrow> successors g st None = []"
  by (auto simp: successors_def filter_empty_conv)

subsection \<open>Paths\<close>

inductive lifecycle_path :: "graph \<Rightarrow> plan_state \<Rightarrow> plan_state list \<Rightarrow> plan_state \<Rightarrow> bool"
  for g where
  path_nil [intro]: "lifecycle_path g s [] s"
| path_step: "e \<in> set (edges g) \<Longrightarrow> src e = s \<Longrightarrow> dst e = u \<Longrightarrow> lifecycle_path g u ss t \<Longrightarrow>
    lifecycle_path g s (s # ss) t"

inductive_cases lifecycle_path_ConsE: "lifecycle_path g s (x # ss) t"

text \<open>A set of states that can only be left from \<open>c\<close> is left through \<open>c\<close>.\<close>

lemma path_cut:
  assumes "lifecycle_path g s ss t" and "s \<in> A" and "t \<notin> A"
    and "\<And>e. e \<in> set (edges g) \<Longrightarrow> src e \<in> A \<Longrightarrow> dst e \<notin> A \<Longrightarrow> src e = c"
  shows "c \<in> set ss"
  using assms(1-3)
proof (induction rule: lifecycle_path.induct)
  case (path_nil s)
  then show ?case by simp
next
  case (path_step e s u ss t)
  then show ?case
    by (cases "u \<in> A") (auto dest: assms(4))
qed

lemma path_first_edge:
  "lifecycle_path g s ss t \<Longrightarrow> s = t \<or> (\<exists>e \<in> set (edges g). src e = s)"
  by (erule lifecycle_path.cases) auto

lemma path_append:
  "lifecycle_path g s ss u \<Longrightarrow> lifecycle_path g u us t \<Longrightarrow> lifecycle_path g s (ss @ us) t"
  by (induction rule: lifecycle_path.induct) (auto intro: path_step)

subsection \<open>Edges of the graph, state by state\<close>

lemma config_row_simps:
  "config_row cfg STATE_PREPPED = Some [Transition ''plan'' STATE_PLANNED Always]"
  "config_row cfg STATE_GATED = Some [Transition ''finalize'' STATE_FINALIZED Always,
     Transition ''override replan'' STATE_PLANNED Always]"
  "config_row cfg STATE_BLOCKED = Some [Transition ''override force-proceed'' STATE_FINALIZED Always]"
  "config_row cfg STATE_FINALIZED = Some [Transition ''execute'' STATE_EXECUTED Always,
     Transition ''override replan'' STATE_PLANNED Always]"
  "config_row cfg STATE_AWAITING_HUMAN_VERIFY = Some [Transition ''verify-human'' STATE_DONE Always,
     Transition ''resume-clarify'' STATE_PREPPED Always]"
  "config_row cfg STATE_TIEBREAKER_PENDING =
     Some [Transition ''tiebreaker-run'' STATE_TIEBREAKER_READY Always]"
  "config_row cfg STATE_TIEBREAKER_READY =
     Some [Transition ''tiebreaker-decide'' STATE_CRITIQUED Always]"
  "config_row cfg STATE_DONE = None" "config_row cfg STATE_ABORTED = None"
  "config_row cfg STATE_FAILED = None" "config_row cfg STATE_PAUSED = None"
  "config_row cfg STATE_CANCELLED = None" "config_row cfg STATE_AWAITING_PR_MERGE = None"
  by (simp_all add: config_row_def lifecycle_row_def WORKFLOW_def Let_def)

lemma WORKFLOW_critiqued: "map_of WORKFLOW STATE_CRITIQUED = Some
    [Transition ''gate'' STATE_GATED Gate_unset,
     Transition ''revise'' STATE_PLANNED Gate_iterate,
     Transition ''tiebreaker'' STATE_TIEBREAKER_PENDING Gate_tiebreaker,
     Transition ''override add-note'' STATE_CRITIQUED Gate_escalate,
     Transition ''override force-proceed'' STATE_GATED Gate_escalate,
     Transition ''override abort'' STATE_ABORTED Gate_escalate,
     Transition ''override force-proceed'' STATE_GATED Gate_proceed_agent_availability_blocked,
     Transition ''gate'' STATE_GATED Gate_proceed_blocked,
     Transition ''gate'' STATE_GATED Gate_proceed]"
  by (simp add: WORKFLOW_def)

definition low_robustness :: "topology_config \<Rightarrow> bool" where
  "low_robustness cfg =
     (normalize_robustness (JStr (cfg_robustness cfg)) \<in> {''light'', ''bare''})"

lemma config_row_variable:
  "config_row cfg STATE_CRITIQUED =
     (if low_robustness cfg then Some [Transition ''revise'' STATE_GATED Always]
      else map_of WORKFLOW STATE_CRITIQUED)"
  "config_row cfg STATE_EXECUTED =
     Some (if cfg_with_feedback cfg then [Transition ''review'' STATE_REVIEWED Always]
           else if low_robustness cfg then [] else [Transition ''review'' STATE_DONE Always])"
  "config_row cfg STATE_REVIEWED =
     (if cfg_with_feedback cfg then Some [Transition ''feedback'' STATE_DONE Always] else None)"
  by (simp_all add: config_row_def lifecycle_row_def low_robustness_def Let_def)

lemma config_row_choices:
  "config_row cfg STATE_INITIALIZED \<in>
     {Some [Transition ''plan'' STATE_PLANNED Always],
      Some [Transition ''prep'' STATE_PREPPED Always,
            Transition ''prep'' STATE_AWAITING_HUMAN Always]}"
  "config_row cfg STATE_PLANNED \<in>
     {Some [Transition ''finalize'' STATE_GATED Always],
      Some [Transition ''critique'' STATE_CRITIQUED Always,
            Transition ''plan'' STATE_PLANNED Always]}"
  by (simp_all add: config_row_def lifecycle_row_def Let_def)

lemma early_row:
  assumes "s \<in> {STATE_INITIALIZED, STATE_PLANNED}"
  obtains t ts where "config_row cfg s = Some (t # ts)" and "condition t = Always"
    and "next_step t \<noteq> ''step''"
  using assms config_row_choices [of cfg] by (elim insertE emptyE) simp_all

lemmas config_rows = config_row_simps config_row_variable WORKFLOW_critiqued row_edges_def

lemma edge_into_executed:
  "e \<in> set (edges (build_topology cfg)) \<Longrightarrow> dst e = STATE_EXECUTED \<Longrightarrow> src e = STATE_FINALIZED"
  using config_row_choices [of cfg]
  by (cases "src e") (auto simp: edges_row_iff config_rows split: if_splits)

lemma edge_into_finalized:
  "e \<in> set (edges (build_topology cfg)) \<Longrightarrow> dst e = STATE_FINALIZED \<Longrightarrow>
   src e \<in> {STATE_GATED, STATE_BLOCKED}"
  using config_row_choices [of cfg]
  by (cases "src e") (auto simp: edges_row_iff config_rows split: if_splits)

lemma no_edge_into_blocked:
  "e \<in> set (edges (build_topology cfg)) \<Longrightarrow> dst e \<noteq> STATE_BLOCKED"
  using config_row_choices [of cfg]
  by (cases "src e") (auto simp: edges_row_iff config_rows split: if_splits)

subsection \<open>Properties\<close>

text \<open>C1. The overlay fold over the base table, the per-level overrides and the two init flags
  builds, for every requested robustness name (canonical, legacy or unknown), mode and flags,
  exactly the closed-form transition table \<open>lifecycle_row\<close> of the normalised level.\<close>

theorem overlay_fold_is_lifecycle_table:
  "map_of (workflow_for_robustness r creative with_prep with_feedback) s =
   lifecycle_row (normalize_robustness (JStr r)) creative with_prep with_feedback s"
  by (rule workflow_row_normalized)

text \<open>Querying the realized graph for the successors of a state name is the lookup of that
  state in the folded workflow dictionary, with the edges in the dictionary's order (the order
  encodes the gate priority); a name that is no lifecycle state has no successors.\<close>

theorem successors_are_workflow_lookup:
  "successors (build_topology cfg) name None =
   (case find (\<lambda>s. state_value s = name) CANONICAL_PLAN_STATES of
      None \<Rightarrow> []
    | Some s \<Rightarrow>
        (case map_of (workflow_for_robustness (cfg_robustness cfg) (cfg_creative cfg)
                        (cfg_with_prep cfg) (cfg_with_feedback cfg)) s of
           None \<Rightarrow> []
         | Some ts \<Rightarrow> map (\<lambda>t. Edge s (next_state t) (next_step t) (condition t)) ts))"
proof (cases "find (\<lambda>s. state_value s = name) CANONICAL_PLAN_STATES")
  case None
  then have "name \<notin> range state_value"
    using CANONICAL_PLAN_STATES_all by (auto simp: find_None_iff)
  with None show ?thesis by (simp add: successors_unknown)
next
  case (Some s)
  then have "name = state_value s"
    by (auto simp: find_Some_iff)
  with Some show ?thesis
    by (simp add: successors_row config_row_def workflow_row_normalized row_edges_def
        split: option.split)
qed

text \<open>Reading the table at a plan's own state and configuration.\<close>

definition plan_at :: "plan \<Rightarrow> plan_state \<Rightarrow> bool" where
  "plan_at state s \<longleftrightarrow> dget state ''current_state'' JNull = JStr (state_value s)"

definition matching_edges :: "plan \<Rightarrow> plan_state \<Rightarrow> edge list" where
  "matching_edges state s =
     filter (\<lambda>e. transition_matches state (edge_condition e))
       (case config_row (topology_config_of state) s of None \<Rightarrow> [] | Some ts \<Rightarrow> row_edges s ts)"

lemma step_context_iff:
  "state_value s \<in> set (map state_value STEP_CONTEXT_STATES) \<longleftrightarrow>
   s \<in> {STATE_PLANNED, STATE_CRITIQUED, STATE_GATED, STATE_FINALIZED}"
  by (auto simp: STEP_CONTEXT_STATES_def simp del: state_value.simps)

lemma workflow_next_at: "plan_at state s \<Longrightarrow> workflow_next state =
    map step (matching_edges state s) @
    (if s \<in> {STATE_PLANNED, STATE_CRITIQUED, STATE_GATED, STATE_FINALIZED} then [''step''] else [])"
  using step_context_iff [of s]
  by (simp add: plan_at_def workflow_next_def matching_edges_def successors_row Let_def
      del: state_value.simps)

lemma no_edge_named_step:
  "e \<in> set (edges (build_topology cfg)) \<Longrightarrow> step e \<noteq> ''step''"
  using config_row_choices [of cfg]
  by (cases "src e") (auto simp: edges_row_iff config_rows split: if_splits)

lemma find_None_conv: "find P xs = None \<longleftrightarrow> (\<forall>x \<in> set xs. \<not> P x)"
  by (auto simp: find_None_iff)

text \<open>C3. The two workflow queries agree: \<open>workflow_transition\<close> finds a transition for a step
  exactly when \<open>workflow_next\<close> offers that step, except for the synthetic \<^verbatim>\<open>step\<close> affordance, for
  which there is no transition; and the realized graph's own projection returns the same list.\<close>

theorem workflow_transition_iff_offered:
  "(workflow_transition state st \<noteq> None \<longleftrightarrow> st \<in> set (workflow_next state) \<and> st \<noteq> ''step'')
   \<and> workflow_next state = next_steps (build_topology (topology_config_of state)) state"
proof (cases "as_str (dget state ''current_state'' JNull)")
  case None
  then show ?thesis by (simp add: workflow_transition_def workflow_next_def next_steps_def)
next
  case (Some current)
  define g where "g = build_topology (topology_config_of state)"
  define es where "es = filter (\<lambda>e. transition_matches state (edge_condition e))
    (successors g current None)"
  have real: "step e \<noteq> ''step''" if "e \<in> set es" for e
    using that no_edge_named_step by (auto simp: es_def g_def successors_def)
  have next_eq: "workflow_next state = map step es @
      (if current \<in> set (map state_value STEP_CONTEXT_STATES) then [''step''] else [])"
    using Some by (simp add: workflow_next_def es_def g_def Let_def)
  have "workflow_transition state st \<noteq> None \<longleftrightarrow> (\<exists>e \<in> set es. step e = st)"
    using Some by (auto simp: workflow_transition_def es_def g_def find_None_conv)
  with real next_eq have "workflow_transition state st \<noteq> None \<longleftrightarrow>
      st \<in> set (workflow_next state) \<and> st \<noteq> ''step''"
    by (auto split: if_splits)
  moreover have "workflow_next state = next_steps g state"
    using Some next_eq by (simp add: next_steps_def es_def)
  ultimately show ?thesis by (simp add: g_def)
qed

definition verdict_steps :: "plan \<Rightarrow> string list" where
  "verdict_steps state =
    (if \<not> truthy (recommendation_of state) then [''gate'']
     else if recommendation_of state = JStr ''ITERATE'' then [''revise'']
     else if recommendation_of state = JStr ''TIEBREAKER'' then [''tiebreaker'']
     else if recommendation_of state = JStr ''ESCALATE'' then
       [''override add-note'', ''override force-proceed'', ''override abort'']
     else if recommendation_of state = JStr ''PROCEED'' then
       (if \<not> gate_passed state \<and> failed_preflights state \<noteq> [] \<and>
           set (failed_preflights state) \<subseteq> {''claude_available'', ''codex_available''}
        then [''override force-proceed'', ''gate''] else [''gate''])
     else [])"

lemma verdict_steps_idle: "set (verdict_steps state) \<subseteq> {''step''} \<longleftrightarrow>
    truthy (recommendation_of state) \<and> recommendation_of state \<notin>
      {JStr ''ITERATE'', JStr ''TIEBREAKER'', JStr ''ESCALATE'', JStr ''PROCEED''}"
proof (cases "recommendation_of state = JStr ''PROCEED''")
  case True
  then show ?thesis by (simp add: verdict_steps_def)
next
  case False
  then show ?thesis by (simp add: verdict_steps_def)
qed

lemma critiqued_next:
  "plan_at state STATE_CRITIQUED \<Longrightarrow> workflow_next state =
     (if low_robustness (topology_config_of state) then [''revise''] else verdict_steps state)
     @ [''step'']"
  by (simp add: workflow_next_at matching_edges_def config_rows verdict_steps_def)

text \<open>At a critiqued plan of robustness full or above, the offered steps are a function of the
  gate verdict: no verdict runs the gate; ITERATE revises; TIEBREAKER opens the tiebreaker;
  ESCALATE offers the three operator overrides; PROCEED runs the gate, preceded by a
  force-proceed when the gate did not pass and every failed preflight is the availability of an
  agent. Any other verdict offers nothing but the synthetic step.\<close>

theorem critiqued_steps_by_verdict:
  assumes "plan_at state STATE_CRITIQUED"
    and "\<not> low_robustness (topology_config_of state)"
  shows "workflow_next state = verdict_steps state @ [''step'']"
  using assms by (simp add: critiqued_next)

text \<open>A concrete plan: default robustness, critiqued, the gate said PROCEED but did not pass because
  the claude agent is unavailable.\<close>

definition blocked_plan :: plan where
  "blocked_plan =
     [(''current_state'', JStr ''critiqued''),
      (''config'', JObj [(''robustness'', JStr ''full'')]),
      (''last_gate'', JObj [(''recommendation'', JStr ''PROCEED''), (''passed'', JBool False),
         (''preflight_results'', JObj [(''claude_available'', JBool False)])])]"

lemma blocked_plan_facts:
  "plan_at blocked_plan STATE_CRITIQUED"
  "\<not> low_robustness (topology_config_of blocked_plan)"
  "recommendation_of blocked_plan = JStr ''PROCEED''"
  "\<not> gate_passed blocked_plan"
  "failed_preflights blocked_plan = [''claude_available'']"
  by (simp_all add: blocked_plan_def plan_at_def low_robustness_def topology_config_of_def
      workflow_robustness_from_state_def plan_config_def dget_def recommendation_of_def
      gate_of_def gate_passed_def failed_preflights_def normalize_robustness_def
      ROBUSTNESS_LEVELS_def)

theorem critiqued_steps_by_verdict_witness:
  "workflow_next blocked_plan = [''override force-proceed'', ''gate'', ''step'']"
  using critiqued_steps_by_verdict [OF blocked_plan_facts(1,2)]
  by (simp add: blocked_plan_facts verdict_steps_def)

text \<open>A plan is stuck, offered no real step, exactly in the states that end it (done, aborted,
  failed, paused, cancelled, awaiting a pull-request merge), when executed at light or bare
  robustness without feedback, when reviewed without feedback, or when critiqued at full
  robustness or above with a gate verdict outside the four recognised ones.\<close>

theorem no_real_step_iff:
  assumes "plan_at state s"
  shows "set (workflow_next state) \<subseteq> {''step''} \<longleftrightarrow>
    s \<in> {STATE_DONE, STATE_ABORTED, STATE_FAILED, STATE_PAUSED, STATE_CANCELLED,
          STATE_AWAITING_PR_MERGE}
    \<or> \<not> with_feedback_from_state state \<and>
        (s = STATE_REVIEWED \<or> s = STATE_EXECUTED \<and> low_robustness (topology_config_of state))
    \<or> s = STATE_CRITIQUED \<and> \<not> low_robustness (topology_config_of state)
        \<and> truthy (recommendation_of state)
        \<and> recommendation_of state \<notin>
            {JStr ''ITERATE'', JStr ''TIEBREAKER'', JStr ''ESCALATE'', JStr ''PROCEED''}"
proof -
  have f: "cfg_with_feedback (topology_config_of state) = with_feedback_from_state state"
    by (simp add: topology_config_of_def)
  note n = workflow_next_at [OF assms] matching_edges_def config_rows f
  show ?thesis
  proof (cases "s \<in> {STATE_INITIALIZED, STATE_PLANNED}")
    case True
    then obtain t ts where row: "config_row (topology_config_of state) s = Some (t # ts)"
      and t: "condition t = Always" "next_step t \<noteq> ''step''"
      by (rule early_row)
    then have "next_step t \<in> set (workflow_next state)"
      by (simp add: workflow_next_at [OF assms] matching_edges_def row_edges_def)
    with t True show ?thesis by auto
  next
    case False
    show ?thesis
    proof (cases "s = STATE_CRITIQUED")
      case True
      with assms show ?thesis by (simp add: critiqued_next verdict_steps_idle)
    next
      case other: False
      with False show ?thesis
        by (cases s) (simp_all add: n)
    qed
  qed
qed

theorem no_real_step_iff_witness:
  "plan_at blocked_plan STATE_CRITIQUED \<and> \<not> set (workflow_next blocked_plan) \<subseteq> {''step''}"
  using no_real_step_iff [OF blocked_plan_facts(1)] blocked_plan_facts(1)
  by (simp add: blocked_plan_facts)

text \<open>C7. In the realized graph of every configuration, a path from the initial state to execution
  passes through the gate and through finalization: no robustness level, mode or flag opens a
  way to execute an ungated or unfinalized plan.\<close>

theorem execution_is_gated_and_finalized:
  assumes "lifecycle_path (build_topology cfg) STATE_INITIALIZED ss STATE_EXECUTED"
  shows "STATE_GATED \<in> set ss \<and> STATE_FINALIZED \<in> set ss"
proof
  show "STATE_FINALIZED \<in> set ss"
    by (rule path_cut [OF assms, where A = "- {STATE_EXECUTED}"])
       (auto dest: edge_into_executed)
  show "STATE_GATED \<in> set ss"
  proof (rule path_cut [OF assms, where A = "- {STATE_EXECUTED, STATE_FINALIZED, STATE_BLOCKED}"])
    fix e
    assume e: "e \<in> set (edges (build_topology cfg))"
      and out: "src e \<in> - {STATE_EXECUTED, STATE_FINALIZED, STATE_BLOCKED}"
        "dst e \<notin> - {STATE_EXECUTED, STATE_FINALIZED, STATE_BLOCKED}"
    then show "src e = STATE_GATED"
      using edge_into_executed [OF e] edge_into_finalized [OF e] no_edge_into_blocked [OF e]
      by auto
  qed simp_all
qed

definition reaches :: "graph \<Rightarrow> plan_state \<Rightarrow> plan_state \<Rightarrow> bool" where
  "reaches g s t \<longleftrightarrow> (\<exists>ss. lifecycle_path g s ss t)"

lemma reaches_trans: "reaches g s u \<Longrightarrow> reaches g u t \<Longrightarrow> reaches g s t"
  by (auto simp: reaches_def intro: path_append)

lemma path_row_step:
  assumes "config_row cfg s = Some ts" and "t \<in> set ts" and "next_state t = u"
    and "lifecycle_path (build_topology cfg) u ss v"
  shows "lifecycle_path (build_topology cfg) s (s # ss) v"
proof (rule path_step [OF _ _ _ assms(4)])
  show "Edge s u (next_step t) (condition t) \<in> set (edges (build_topology cfg))"
    using assms(1-3) by (auto simp: edges_row_iff row_edges_def)
qed simp_all

lemma reaches_row_step:
  "config_row cfg s = Some ts \<Longrightarrow> t \<in> set ts \<Longrightarrow> reaches (build_topology cfg) s (next_state t)"
  unfolding reaches_def by (blast intro: path_row_step)

lemma reaches_planned: "reaches (build_topology cfg) STATE_INITIALIZED STATE_PLANNED"
proof -
  consider "config_row cfg STATE_INITIALIZED = Some [Transition ''plan'' STATE_PLANNED Always]"
    | "config_row cfg STATE_INITIALIZED = Some [Transition ''prep'' STATE_PREPPED Always,
         Transition ''prep'' STATE_AWAITING_HUMAN Always]"
    using config_row_choices(1) [of cfg] by blast
  then show ?thesis
  proof cases
    case 1
    from reaches_row_step [OF this] show ?thesis by simp
  next
    case 2
    from reaches_row_step [OF this, of "Transition ''prep'' STATE_PREPPED Always"]
    have "reaches (build_topology cfg) STATE_INITIALIZED STATE_PREPPED" by simp
    moreover from reaches_row_step [OF config_row_simps(1)]
    have "reaches (build_topology cfg) STATE_PREPPED STATE_PLANNED" by simp
    ultimately show ?thesis by (rule reaches_trans)
  qed
qed

lemma reaches_gated_from_critiqued: "reaches (build_topology cfg) STATE_CRITIQUED STATE_GATED"
proof (cases "low_robustness cfg")
  case True
  then have "config_row cfg STATE_CRITIQUED = Some [Transition ''revise'' STATE_GATED Always]"
    by (simp add: config_row_variable)
  from reaches_row_step [OF this] show ?thesis by simp
next
  case False
  then have row: "config_row cfg STATE_CRITIQUED = map_of WORKFLOW STATE_CRITIQUED"
    by (simp add: config_row_variable)
  from reaches_row_step [OF row [unfolded WORKFLOW_critiqued],
      of "Transition ''gate'' STATE_GATED Gate_unset"]
  show ?thesis by simp
qed

lemma reaches_gated: "reaches (build_topology cfg) STATE_PLANNED STATE_GATED"
proof -
  consider "config_row cfg STATE_PLANNED = Some [Transition ''finalize'' STATE_GATED Always]"
    | "config_row cfg STATE_PLANNED = Some [Transition ''critique'' STATE_CRITIQUED Always,
         Transition ''plan'' STATE_PLANNED Always]"
    using config_row_choices(2) [of cfg] by blast
  then show ?thesis
  proof cases
    case 1
    from reaches_row_step [OF this] show ?thesis by simp
  next
    case 2
    from reaches_row_step [OF this, of "Transition ''critique'' STATE_CRITIQUED Always"]
    have "reaches (build_topology cfg) STATE_PLANNED STATE_CRITIQUED" by simp
    then show ?thesis by (rule reaches_trans [OF _ reaches_gated_from_critiqued])
  qed
qed

lemma reaches_executed: "reaches (build_topology cfg) STATE_GATED STATE_EXECUTED"
proof -
  have "reaches (build_topology cfg) STATE_GATED STATE_FINALIZED"
    using reaches_row_step [OF config_row_simps(2),
        of "Transition ''finalize'' STATE_FINALIZED Always" cfg] by simp
  moreover have "reaches (build_topology cfg) STATE_FINALIZED STATE_EXECUTED"
    using reaches_row_step [OF config_row_simps(4),
        of "Transition ''execute'' STATE_EXECUTED Always" cfg] by simp
  ultimately show ?thesis by (rule reaches_trans)
qed

lemma executed_reaches_done: "reaches (build_topology cfg) STATE_EXECUTED STATE_DONE \<longleftrightarrow>
    cfg_with_feedback cfg \<or> \<not> low_robustness cfg"
proof
  assume "cfg_with_feedback cfg \<or> \<not> low_robustness cfg"
  then show "reaches (build_topology cfg) STATE_EXECUTED STATE_DONE"
  proof (cases "cfg_with_feedback cfg")
    case True
    have "reaches (build_topology cfg) STATE_EXECUTED STATE_REVIEWED"
      using reaches_row_step [OF config_row_variable(2),
          of "Transition ''review'' STATE_REVIEWED Always" cfg] True by simp
    moreover have "config_row cfg STATE_REVIEWED = Some [Transition ''feedback'' STATE_DONE Always]"
      using True by (simp add: config_row_variable)
    from reaches_row_step [OF this] have "reaches (build_topology cfg) STATE_REVIEWED STATE_DONE"
      by simp
    ultimately show ?thesis by (rule reaches_trans)
  next
    case False
    then show ?thesis
      using reaches_row_step [OF config_row_variable(2),
          of "Transition ''review'' STATE_DONE Always" cfg]
        \<open>cfg_with_feedback cfg \<or> \<not> low_robustness cfg\<close> by simp
  qed
next
  assume r: "reaches (build_topology cfg) STATE_EXECUTED STATE_DONE"
  have "\<not> reaches (build_topology cfg) STATE_EXECUTED STATE_DONE"
    if "\<not> cfg_with_feedback cfg" "low_robustness cfg"
  proof -
    have "config_row cfg STATE_EXECUTED = Some []"
      using that by (simp add: config_row_variable)
    then have "\<not> (\<exists>e \<in> set (edges (build_topology cfg)). src e = STATE_EXECUTED)"
      by (auto simp: edges_row_iff row_edges_def)
    then show ?thesis
      using path_first_edge by (fastforce simp: reaches_def)
  qed
  with r show "cfg_with_feedback cfg \<or> \<not> low_robustness cfg" by blast
qed

theorem execution_is_gated_and_finalized_witness:
  "\<exists>ss. lifecycle_path (build_topology
       \<lparr>cfg_robustness = ''bare'', cfg_creative = False, cfg_with_prep = False,
        cfg_with_feedback = False\<rparr>) STATE_INITIALIZED ss STATE_EXECUTED
     \<and> STATE_GATED \<in> set ss \<and> STATE_FINALIZED \<in> set ss"
proof -
  define cfg where "cfg = \<lparr>cfg_robustness = ''bare'', cfg_creative = False, cfg_with_prep = False,
    cfg_with_feedback = False\<rparr>"
  obtain ss where p: "lifecycle_path (build_topology cfg) STATE_INITIALIZED ss STATE_EXECUTED"
    using reaches_trans [OF reaches_planned reaches_trans [OF reaches_gated reaches_executed]]
    by (auto simp: reaches_def)
  from p execution_is_gated_and_finalized [OF p] show ?thesis
    unfolding cfg_def by blast
qed

text \<open>C8. Execution is reachable from the initial state in the realized graph of every
  configuration, and from an executed plan the graph leads to done except at light and bare
  robustness without feedback, where the graph itself ends at executed.\<close>

theorem execution_reachable_and_done_reachable:
  "reaches (build_topology cfg) STATE_INITIALIZED STATE_EXECUTED \<and>
   (reaches (build_topology cfg) STATE_EXECUTED STATE_DONE \<longleftrightarrow>
      \<not> (low_robustness cfg \<and> \<not> cfg_with_feedback cfg))"
  using reaches_trans [OF reaches_planned reaches_trans [OF reaches_gated reaches_executed]]
    executed_reaches_done by blast

end
