(* ===== verification/Py_Text.thy ===== *)
theory Py_Text
  imports Prelude
begin

section \<open>Text operations\<close>

text \<open>
  The methods of \<^verbatim>\<open>str\<close> and the patterns of \<^verbatim>\<open>re\<close> the modelled code uses, on UTF-8 text. A character
  starts at a byte that is not a continuation byte; white space is Unicode white space. Case folding
  is that of ASCII letters: the texts it is applied to are taken to have no other cased letters.
\<close>

subsection \<open>Characters and white space\<close>

text \<open>\<^verbatim>\<open>not value.strip()\<close>: only Unicode white space, on the UTF-8 text.\<close>

definition ascii_space :: "nat \<Rightarrow> bool" where
  "ascii_space n \<longleftrightarrow> 9 \<le> n \<and> n \<le> 13 \<or> 28 \<le> n \<and> n \<le> 32"

fun space2 :: "nat \<Rightarrow> nat \<Rightarrow> bool" where
  "space2 a b \<longleftrightarrow> a = 0xC2 \<and> (b = 0x85 \<or> b = 0xA0)"

fun space3 :: "nat \<Rightarrow> nat \<Rightarrow> nat \<Rightarrow> bool" where
  "space3 a b c \<longleftrightarrow>
     a = 0xE1 \<and> b = 0x9A \<and> c = 0x80 \<or>
     a = 0xE2 \<and> b = 0x80 \<and> (0x80 \<le> c \<and> c \<le> 0x8A \<or> c = 0xA8 \<or> c = 0xA9 \<or> c = 0xAF) \<or>
     a = 0xE2 \<and> b = 0x81 \<and> c = 0x9F \<or>
     a = 0xE3 \<and> b = 0x80 \<and> c = 0x80"

fun blank_bytes :: "nat list \<Rightarrow> bool" where
  "blank_bytes [] = True"
| "blank_bytes [a] = ascii_space a"
| "blank_bytes [a, b] = (if ascii_space a then blank_bytes [b] else space2 a b)"
| "blank_bytes (a # b # c # s) =
     (if ascii_space a then blank_bytes (b # c # s)
      else if space2 a b then blank_bytes (c # s)
      else space3 a b c \<and> blank_bytes s)"

definition blank :: "string \<Rightarrow> bool" where
  "blank s = blank_bytes (map of_char s)"

definition continuation_byte :: "char \<Rightarrow> bool" where
  "continuation_byte c \<longleftrightarrow> (0x80 :: nat) \<le> of_char c \<and> of_char c < (0xC0 :: nat)"

function utf8_chars :: "string \<Rightarrow> string list" where
  "utf8_chars [] = []"
| "utf8_chars (c # s) =
     (c # takeWhile continuation_byte s) # utf8_chars (dropWhile continuation_byte s)"
  by pat_completeness auto
termination
  by (relation "measure length") (auto simp: length_dropWhile_le le_imp_less_Suc)

subsection \<open>Stripping, folding and splitting\<close>

text \<open>\<^verbatim>\<open>s.strip()\<close> and \<^verbatim>\<open>s.strip(chars)\<close>.\<close>

definition strip_by :: "('a \<Rightarrow> bool) \<Rightarrow> 'a list \<Rightarrow> 'a list" where
  "strip_by p xs = rev (dropWhile p (rev (dropWhile p xs)))"

definition strip :: "string \<Rightarrow> string" where
  "strip s = concat (strip_by blank (utf8_chars s))"

definition strip_chars :: "string \<Rightarrow> string \<Rightarrow> string" where
  "strip_chars cs s = strip_by (\<lambda>c. c \<in> set cs) s"

definition lower_char :: "char \<Rightarrow> char" where
  "lower_char c = (if c \<in> set ''ABCDEFGHIJKLMNOPQRSTUVWXYZ'' then char_of (of_char c + 32 :: nat) else c)"

definition upper_char :: "char \<Rightarrow> char" where
  "upper_char c = (if c \<in> set ''abcdefghijklmnopqrstuvwxyz'' then char_of (of_char c - 32 :: nat) else c)"

definition lower :: "string \<Rightarrow> string" where
  "lower = map lower_char"

definition upper :: "string \<Rightarrow> string" where
  "upper = map upper_char"

lemma strip_by_prefix: "\<exists>b. dropWhile p xs = strip_by p xs @ b"
proof -
  have "dropWhile p xs = rev (dropWhile p (rev (dropWhile p xs))) @ rev (takeWhile p (rev (dropWhile p xs)))"
    by (metis rev_append rev_rev_ident takeWhile_dropWhile_id)
  then show ?thesis unfolding strip_by_def by blast
qed

lemma strip_by_infix: "\<exists>a b. xs = a @ strip_by p xs @ b"
  by (metis strip_by_prefix takeWhile_dropWhile_id)

lemma dropWhile_ident: "xs = [] \<or> \<not> p (hd xs) \<Longrightarrow> dropWhile p xs = xs"
  by (cases xs) auto

lemma strip_by_idem: "strip_by p (strip_by p xs) = strip_by p xs"
proof -
  obtain b where b: "dropWhile p xs = strip_by p xs @ b" using strip_by_prefix by blast
  have "strip_by p xs = [] \<or> \<not> p (hd (strip_by p xs))"
    using b hd_dropWhile [of p xs] by (metis append_is_Nil_conv hd_append2)
  then have *: "dropWhile p (strip_by p xs) = strip_by p xs"
    by (rule dropWhile_ident)
  have "strip_by p (strip_by p xs) = rev (dropWhile p (rev (strip_by p xs)))"
    by (simp add: strip_by_def [of p "strip_by p xs"] *)
  also have "\<dots> = strip_by p xs"
    by (simp add: strip_by_def)
  finally show ?thesis .
qed

text \<open>A list of characters: each its first byte and continuation bytes, the first of which may lack a
  leading byte.\<close>

definition char_list :: "string list \<Rightarrow> bool" where
  "char_list cs \<longleftrightarrow> (\<forall>c\<in>set cs. c \<noteq> [] \<and> list_all continuation_byte (tl c)) \<and>
     (\<forall>c\<in>set (tl cs). \<not> continuation_byte (hd c))"

lemma utf8_chars_Nil_iff: "utf8_chars s = [] \<longleftrightarrow> s = []"
  by (cases s) auto

lemma hd_utf8_chars: "s \<noteq> [] \<Longrightarrow> hd (hd (utf8_chars s)) = hd s"
  by (cases s) auto

lemma char_list_utf8_chars: "char_list (utf8_chars s)"
proof (induction s rule: utf8_chars.induct)
  case 1
  then show ?case by (simp add: char_list_def)
next
  case (2 c s)
  let ?r = "dropWhile continuation_byte s"
  have "\<not> continuation_byte (hd x)" if "x \<in> set (utf8_chars ?r)" for x
  proof (cases "utf8_chars ?r")
    case Nil
    then show ?thesis using that by simp
  next
    case (Cons y ys)
    then have "?r \<noteq> []" using utf8_chars_Nil_iff [of ?r] by (metis list.distinct(1))
    then have "hd y = hd ?r" using hd_utf8_chars [of ?r] Cons by simp
    then have "\<not> continuation_byte (hd y)" using hd_dropWhile \<open>?r \<noteq> []\<close> by metis
    then show ?thesis using 2 that Cons by (auto simp: char_list_def)
  qed
  then show ?case using 2 by (auto simp: char_list_def list_all_iff dest: set_takeWhileD)
qed

lemma utf8_chars_concat: "char_list cs \<Longrightarrow> utf8_chars (concat cs) = cs"
proof (induction cs)
  case Nil
  then show ?case by simp
next
  case (Cons c cs)
  from Cons.prems obtain b bs where c: "c = b # bs" "list_all continuation_byte bs"
    by (cases c) (auto simp: char_list_def)
  have cs: "char_list cs" using Cons.prems by (cases cs) (auto simp: char_list_def)
  have stop: "concat cs = [] \<or> \<not> continuation_byte (hd (concat cs))"
    using Cons.prems by (cases cs) (auto simp: char_list_def hd_append)
  have "takeWhile continuation_byte (bs @ t) = bs \<and> dropWhile continuation_byte (bs @ t) = t"
    if "t = [] \<or> \<not> continuation_byte (hd t)" for t
    using c(2) that by (cases t) (auto simp: list_all_iff)
  from this [OF stop] show ?case using Cons.IH [OF cs] c(1) by simp
qed

lemma char_list_infix: "char_list (a @ cs @ b) \<Longrightarrow> char_list cs"
  by (cases cs; cases a) (auto simp: char_list_def)

lemma strip_Nil [simp]: "strip [] = []"
  by (simp add: strip_def strip_by_def)

lemma strip_idem [simp]: "strip (strip s) = strip s"
proof -
  have "char_list (strip_by blank (utf8_chars s))"
    using strip_by_infix [of "utf8_chars s" blank] char_list_utf8_chars [of s] char_list_infix
    by metis
  then show ?thesis by (simp add: strip_def utf8_chars_concat strip_by_idem)
qed

text \<open>The maximal runs of elements with a property: \<^verbatim>\<open>s.split()\<close>, or the non-empty parts of
  \<^verbatim>\<open>re.split\<close> on a character class.\<close>

function runs :: "('a \<Rightarrow> bool) \<Rightarrow> 'a list \<Rightarrow> 'a list list" where
  "runs p [] = []"
| "runs p (x # xs) =
     (if p x then (x # takeWhile p xs) # runs p (dropWhile p xs) else runs p xs)"
  by pat_completeness auto
termination
  by (relation "measure (\<lambda>(p, xs). length xs)") (auto simp: length_dropWhile_le le_imp_less_Suc)

definition split_words :: "string \<Rightarrow> string list" where
  "split_words s = map concat (runs (\<lambda>c. \<not> blank c) (utf8_chars s))"

text \<open>\<^verbatim>\<open>sep.join(parts)\<close>.\<close>

fun join :: "string \<Rightarrow> string list \<Rightarrow> string" where
  "join sep [] = []"
| "join sep [s] = s"
| "join sep (s # t # ts) = s @ sep @ join sep (t # ts)"

text \<open>\<^verbatim>\<open>needle in s\<close>.\<close>

fun contains :: "string \<Rightarrow> string \<Rightarrow> bool" where
  "contains needle [] = (needle = [])"
| "contains needle (c # s) = (take (length needle) (c # s) = needle \<or> contains needle s)"

text \<open>\<^verbatim>\<open>f"{n:03d}"\<close> of a natural number.\<close>

definition nat_str3 :: "nat \<Rightarrow> string" where
  "nat_str3 n = (let s = nat_str n in replicate (3 - length s) CHR ''0'' @ s)"

text \<open>\<^verbatim>\<open>re.fullmatch(prefix + r"(\d+)", s)\<close> and the number it captures, for ASCII digits.\<close>

definition numbered :: "string \<Rightarrow> string \<Rightarrow> nat option" where
  "numbered pre s =
     (let n = length pre; digits = drop n s in
      if take n s = pre \<and> digits \<noteq> [] \<and> list_all digit_char digits
      then Some (digits_value digits) else None)"

lemma digits_value_zeros: "digits_value (replicate k CHR ''0'' @ s) = digits_value s"
  by (induction k) (simp_all add: digits_value_def)

lemma digits_value_nat_str3 [simp]: "digits_value (nat_str3 n) = n"
  by (simp add: nat_str3_def Let_def digits_value_zeros)

lemma numbered_nat_str3 [simp]: "numbered pre (pre @ nat_str3 n) = Some n"
proof -
  have "list_all digit_char (nat_str3 n)"
    by (auto simp: nat_str3_def Let_def list_all_iff digit_char_def dest: nat_str_digits [unfolded digit_char_def])
  moreover have "nat_str3 n \<noteq> []" by (simp add: nat_str3_def Let_def)
  ultimately show ?thesis by (simp add: numbered_def)
qed

subsection \<open>ASCII JSON text\<close>

text \<open>\<^verbatim>\<open>json.dumps(value, sort_keys=True)\<close>: the default separators, and every character outside the
  printable ASCII range as a \<^verbatim>\<open>\u\<close> escape of its UTF-16 code units.\<close>

fun code_point :: "nat list \<Rightarrow> nat" where
  "code_point [a, b] = (a mod 32) * 64 + b mod 64"
| "code_point [a, b, c] = (a mod 16) * 4096 + (b mod 64) * 64 + c mod 64"
| "code_point [a, b, c, d] =
     (a mod 8) * 262144 + (b mod 64) * 4096 + (c mod 64) * 64 + d mod 64"
| "code_point (a # _) = a"
| "code_point [] = 0"

definition hex4 :: "nat \<Rightarrow> string" where
  "hex4 n = map (\<lambda>k. let d = n div 16 ^ k mod 16 in
     if d < 10 then char_of (48 + d) else char_of (87 + d)) [3, 2, 1, 0]"

definition unicode_escape :: "nat \<Rightarrow> string" where
  "unicode_escape n = CHR 0x5C # CHR ''u'' # hex4 n"

definition ascii_escape :: "string \<Rightarrow> string" where
  "ascii_escape ch =
     (let n = code_point (map of_char ch) in
      if n = 0x22 \<or> n = 0x5C then CHR 0x5C # ch
      else if n = 0x0A then [CHR 0x5C, CHR ''n'']
      else if n = 0x0D then [CHR 0x5C, CHR ''r'']
      else if n = 0x09 then [CHR 0x5C, CHR ''t'']
      else if n = 0x0C then [CHR 0x5C, CHR ''f'']
      else if n = 0x08 then [CHR 0x5C, CHR ''b'']
      else if 0x20 \<le> n \<and> n \<le> 0x7E then ch
      else if n < 0x10000 then unicode_escape n
      else unicode_escape (0xD800 + (n - 0x10000) div 0x400) @
           unicode_escape (0xDC00 + (n - 0x10000) mod 0x400))"

definition ascii_quote :: "string \<Rightarrow> string" where
  "ascii_quote s = CHR 0x22 # concat (map ascii_escape (utf8_chars s)) @ [CHR 0x22]"

fun dumps :: "json \<Rightarrow> string" and dumps_items :: "(string \<times> json) list \<Rightarrow> (string \<times> string) list" where
  "dumps JNull = ''null''"
| "dumps (JBool b) = (if b then ''true'' else ''false'')"
| "dumps (JInt i) = int_str i"
| "dumps (JFloat r) = (if r = ''nan'' then ''NaN'' else if r = ''inf'' then ''Infinity''
     else if r = ''-inf'' then ''-Infinity'' else r)"
| "dumps (JStr s) = ascii_quote s"
| "dumps (JArr xs) = ''['' @ join '', '' (map dumps xs) @ '']''"
| "dumps (JObj kvs) = ''{'' @ join '', ''
     (map (\<lambda>(k, t). ascii_quote k @ '': '' @ t) (sort_key fst (dumps_items kvs))) @ ''}''"
| "dumps_items [] = []"
| "dumps_items ((k, v) # kvs) = (k, dumps v) # dumps_items kvs"

end
