(* ===== verification/Flag_Registry.thy ===== *)
theory Flag_Registry
  imports Py_Text
begin

section \<open>The flag registry\<close>

text \<open>
  The flags a critique raises about a plan (\<^verbatim>\<open>megaplan/flags.py\<close>) and the registries they and the
  accepted debt live in (\<^verbatim>\<open>megaplan/_core/registries.py\<close>). A registry is the list of its records; an
  operation takes the registry read from its file and returns the one that is saved. Python reaches
  a record through the dictionary \<^verbatim>\<open>by_id\<close>, whose entry for an id is the last record with it.
\<close>

subsection \<open>Flags\<close>

record flag =
  fl_id :: string
  fl_concern :: string
  fl_category :: string
  fl_status :: string
  fl_severity_hint :: "string option"
  fl_evidence :: "string option"
  fl_raised_in :: "string option"
  fl_severity :: "string option"
  fl_verified :: "bool option"
  fl_verified_in :: "string option"
  fl_addressed_in :: "string option"
  fl_settled_by_tiebreaker :: "string option"
  fl_resolution :: "(string \<times> json) list option"
  fl_verify_rationale :: "json option"
  fl_gate_resolution :: "(string \<times> json) list option"

definition FLAG_BLOCKING_STATUSES :: "string list" where
  "FLAG_BLOCKING_STATUSES = [''open'', ''disputed'', ''addressed'']"

definition unresolved_significant_flags :: "flag list \<Rightarrow> flag list" where
  "unresolved_significant_flags registry =
     filter (\<lambda>f. fl_severity f = Some ''significant'' \<and> fl_status f \<in> set FLAG_BLOCKING_STATUSES)
       registry"

definition SCOPE_CREEP_TERMS :: "string list" where
  "SCOPE_CREEP_TERMS =
     [''scope creep'', ''out of scope'', ''beyond the original idea'', ''beyond original idea'',
      ''beyond user intent'', ''expanded scope'']"

definition is_scope_creep_flag :: "flag \<Rightarrow> bool" where
  "is_scope_creep_flag f =
     (let txt = lower (fl_concern f @ '' '' @
            (case fl_evidence f of None \<Rightarrow> [] | Some e \<Rightarrow> e))
      in list_ex (\<lambda>term'. contains term' txt) SCOPE_CREEP_TERMS)"

definition scope_creep_flags :: "flag list \<Rightarrow> string list option \<Rightarrow> flag list" where
  "scope_creep_flags registry statuses =
     filter (\<lambda>f. (case statuses of None \<Rightarrow> True | Some ss \<Rightarrow> fl_status f \<in> set ss) \<and>
       is_scope_creep_flag f) registry"

text \<open>\<^verbatim>\<open>by_id[i]\<close>: the last record of the id, updated in place.\<close>

fun update_last :: "string \<Rightarrow> (flag \<Rightarrow> flag) \<Rightarrow> flag list \<Rightarrow> flag list" where
  "update_last i g [] = []"
| "update_last i g (f # fs) =
     (if fl_id f = i \<and> i \<notin> set (map fl_id fs) then g f # fs else f # update_last i g fs)"

subsection \<open>Normalizing a raised flag\<close>

text \<open>A flag of a payload, as the schema of the payload admits it: its texts are present or missing;
  concern and evidence may be any value.\<close>

record raw_flag =
  rw_id :: "string option"
  rw_concern :: json
  rw_category :: "string option"
  rw_severity_hint :: "string option"
  rw_evidence :: json
  rw_source_check_id :: "string option"

record normal_flag =
  nf_id :: string
  nf_concern :: string
  nf_category :: string
  nf_severity_hint :: string
  nf_evidence :: string

definition ALLOWED_CATEGORIES :: "string list" where
  "ALLOWED_CATEGORIES =
     [''correctness'', ''security'', ''completeness'', ''performance'', ''maintainability'',
      ''doc-quality'', ''other'', ''verifiability'']"

definition SEVERITY_OF_HINT :: "(string \<times> string) list" where
  "SEVERITY_OF_HINT =
     [(''likely-significant'', ''significant''), (''likely-minor'', ''minor''),
      (''uncertain'', ''significant'')]"

definition resolve_severity :: "string \<Rightarrow> string" where
  "resolve_severity hint =
     (case map_of SEVERITY_OF_HINT hint of Some s \<Rightarrow> s | None \<Rightarrow> ''significant'')"

fun coerce_flag_text :: "json \<Rightarrow> string" where
  "coerce_flag_text JNull = []"
| "coerce_flag_text (JStr s) = strip s"
| "coerce_flag_text (JArr xs) =
     join [CHR 0x0A] (filter (\<lambda>part. part \<noteq> []) (map coerce_flag_text xs))"
| "coerce_flag_text (JObj kvs) = dumps (JObj kvs)"
| "coerce_flag_text (JBool b) = (if b then ''True'' else ''False'')"
| "coerce_flag_text (JInt n) = int_str n"
| "coerce_flag_text (JFloat r) = r"

text \<open>The values an id may have that stand for a missing one.\<close>

definition no_flag_id :: "string option \<Rightarrow> bool" where
  "no_flag_id i \<longleftrightarrow> i \<in> {None, Some [], Some ''FLAG-000''}"

definition normalize_flag_record :: "raw_flag \<Rightarrow> string \<Rightarrow> normal_flag" where
  "normalize_flag_record raw fallback_id =
     (let category = (case rw_category raw of None \<Rightarrow> ''other'' | Some c \<Rightarrow> c);
          hint = (case rw_severity_hint raw of
                    None \<Rightarrow> ''uncertain'' | Some h \<Rightarrow> if h = [] then ''uncertain'' else h)
      in \<lparr>nf_id = (if no_flag_id (rw_id raw) then fallback_id else the (rw_id raw)),
          nf_concern = coerce_flag_text (rw_concern raw),
          nf_category = (if category \<in> set ALLOWED_CATEGORIES then category else ''other''),
          nf_severity_hint =
            (if hint \<in> set (map fst SEVERITY_OF_HINT) then hint else ''uncertain''),
          nf_evidence = coerce_flag_text (rw_evidence raw)\<rparr>)"

subsection \<open>Updates after a critique or a review\<close>

definition next_flag_number :: "flag list \<Rightarrow> nat" where
  "next_flag_number flags =
     foldl (\<lambda>highest f. case numbered ''FLAG-'' (fl_id f) of
        None \<Rightarrow> highest | Some n \<Rightarrow> max highest n) 0 flags + 1"

definition make_flag_id :: "nat \<Rightarrow> string" where
  "make_flag_id n = ''FLAG-'' @ nat_str3 n"

definition artifact_name :: "string \<Rightarrow> int \<Rightarrow> string" where
  "artifact_name prefix iteration = prefix @ ''_v'' @ int_str iteration @ ''.json''"

definition mark_verified :: "string \<Rightarrow> flag \<Rightarrow> flag" where
  "mark_verified source f =
     f\<lparr>fl_status := ''verified'', fl_verified := Some True, fl_verified_in := Some source\<rparr>"

definition mark_disputed :: "flag \<Rightarrow> flag" where
  "mark_disputed f = f\<lparr>fl_status := ''disputed''\<rparr>"

text \<open>\<^verbatim>\<open>existing.update(normalized)\<close> and the reset to open; the other fields stay.\<close>

definition reopen_flag :: "string \<Rightarrow> normal_flag \<Rightarrow> flag \<Rightarrow> flag" where
  "reopen_flag source n f =
     f\<lparr>fl_id := nf_id n, fl_concern := nf_concern n, fl_category := nf_category n,
       fl_severity_hint := Some (nf_severity_hint n), fl_evidence := Some (nf_evidence n),
       fl_status := ''open'', fl_severity := Some (resolve_severity (nf_severity_hint n)),
       fl_raised_in := Some source\<rparr>"

definition created_flag :: "string \<Rightarrow> normal_flag \<Rightarrow> flag" where
  "created_flag source n =
     \<lparr>fl_id = nf_id n, fl_concern = nf_concern n, fl_category = nf_category n, fl_status = ''open'',
      fl_severity_hint = Some (nf_severity_hint n), fl_evidence = Some (nf_evidence n),
      fl_raised_in = Some source, fl_severity = Some (resolve_severity (nf_severity_hint n)),
      fl_verified = Some False, fl_verified_in = None, fl_addressed_in = None,
      fl_settled_by_tiebreaker = None, fl_resolution = None, fl_verify_rationale = None,
      fl_gate_resolution = None\<rparr>"

text \<open>The loop over the raised flags, with the next free number.\<close>

fun raise_flags ::
    "string \<Rightarrow> string list \<Rightarrow> raw_flag list \<Rightarrow> nat \<Rightarrow> flag list \<Rightarrow> flag list" where
  "raise_flags source skip [] next_number flags = flags"
| "raise_flags source skip (raw # raws) next_number flags =
     (let unnamed = no_flag_id (rw_id raw);
          proposed_id = (if unnamed then make_flag_id next_number else the (rw_id raw));
          next_number = (if unnamed then next_number + 1 else next_number);
          n = normalize_flag_record raw proposed_id
      in raise_flags source skip raws next_number
           (if nf_id n \<in> set skip then flags
            else if nf_id n \<in> set (map fl_id flags) then
              update_last (nf_id n) (reopen_flag source n) flags
            else flags @ [created_flag source n]))"

record flag_payload =
  up_verified_flag_ids :: "string list"
  up_disputed_flag_ids :: "string list"
  up_flags :: "raw_flag list"

definition apply_flag_updates ::
    "flag_payload \<Rightarrow> int \<Rightarrow> string \<Rightarrow> string list \<Rightarrow> flag list \<Rightarrow> flag list" where
  "apply_flag_updates payload iteration artifact_prefix skip registry =
     (let source = artifact_name artifact_prefix iteration;
          next_number = next_flag_number registry;
          verified = fold (\<lambda>i. update_last i (mark_verified source))
            (filter (\<lambda>i. i \<notin> set skip) (up_verified_flag_ids payload)) registry;
          disputed = fold (\<lambda>i. update_last i mark_disputed)
            (filter (\<lambda>i. i \<notin> set skip) (up_disputed_flag_ids payload)) verified
      in raise_flags source skip (up_flags payload) next_number disputed)"

subsection \<open>Flags synthesized from check findings\<close>

record check_finding =
  fd_detail :: string
  fd_flagged :: bool

record check_result =
  ck_id :: string
  ck_question :: string
  ck_status :: "string option"
  ck_findings :: "check_finding list"

text \<open>The check tables, as far as the synthesis reads them: category and default severity by id.\<close>

definition CRITIQUE_CHECKS :: "(string \<times> string \<times> string) list" where
  "CRITIQUE_CHECKS =
     [(''issue_hints'', ''completeness'', ''likely-significant''),
      (''correctness'', ''correctness'', ''likely-significant''),
      (''scope'', ''completeness'', ''likely-significant''),
      (''all_locations'', ''completeness'', ''likely-significant''),
      (''callers'', ''correctness'', ''likely-significant''),
      (''conventions'', ''maintainability'', ''likely-minor''),
      (''verification'', ''completeness'', ''likely-minor''),
      (''criteria_quality'', ''completeness'', ''likely-significant''),
      (''prerequisite_ordering'', ''correctness'', ''likely-significant'')]"

definition REVIEW_CHECKS :: "(string \<times> string \<times> string) list" where
  "REVIEW_CHECKS =
     [(''coverage'', ''completeness'', ''likely-significant''),
      (''placement'', ''correctness'', ''likely-significant''),
      (''adjacent_calls'', ''completeness'', ''likely-significant''),
      (''simplicity'', ''maintainability'', ''likely-significant'')]"

definition is_unverifiable_check :: "check_result \<Rightarrow> bool" where
  "is_unverifiable_check c \<longleftrightarrow>
     ck_status c = Some ''unverifiable'' \<or>
     list_ex (\<lambda>f. take 13 (lower (strip (fd_detail f))) = ''unverifiable:'') (ck_findings c)"

definition review_flag_id :: "string \<Rightarrow> nat \<Rightarrow> string" where
  "review_flag_id check_id index =
     (let stem = join ''_'' (runs (\<lambda>c. c \<in> set ''ABCDEFGHIJKLMNOPQRSTUVWXYZ0123456789'') (upper check_id))
      in ''REVIEW-'' @ (if stem = [] then ''CHECK'' else stem) @ ''-'' @ nat_str3 index)"

definition synthesized_flag ::
    "(string \<times> string \<times> string) list \<Rightarrow> bool \<Rightarrow> check_result \<Rightarrow> nat \<Rightarrow> nat \<times> check_finding \<Rightarrow> raw_flag" where
  "synthesized_flag checks review c count entry =
     (let (index, finding) = entry; def = map_of checks (ck_id c) in
      \<lparr>rw_id = Some (if review then review_flag_id (ck_id c) index
                     else if count = 1 then ck_id c else ck_id c @ ''-'' @ nat_str index),
       rw_concern = JStr (ck_question c @ '': '' @ fd_detail finding),
       rw_category = Some (case def of None \<Rightarrow> ''correctness'' | Some (category, _) \<Rightarrow> category),
       rw_severity_hint = Some (case def of None \<Rightarrow> ''uncertain'' | Some (_, severity) \<Rightarrow> severity),
       rw_evidence = JStr (fd_detail finding),
       rw_source_check_id = Some (ck_id c)\<rparr>)"

definition synthesize_flags_from_checks ::
    "(string \<times> string \<times> string) list \<Rightarrow> bool \<Rightarrow> check_result list \<Rightarrow> raw_flag list" where
  "synthesize_flags_from_checks checks review results =
     concat (map (\<lambda>c.
       let flagged = filter fd_flagged (ck_findings c) in
       map (synthesized_flag checks review c (length flagged)) (enumerate 1 flagged))
       (filter (\<lambda>c. \<not> is_unverifiable_check c \<and> ck_id c \<noteq> []) results))"

text \<open>The first explicit flag with the evidence of the candidate that is of its check or of none takes
  the candidate's check id.\<close>

fun attach_source :: "string \<Rightarrow> string \<Rightarrow> raw_flag list \<Rightarrow> raw_flag list option" where
  "attach_source check_id evidence [] = None"
| "attach_source check_id evidence (r # rs) =
     (if coerce_flag_text (rw_evidence r) = evidence \<and>
         rw_source_check_id r \<in> {None, Some [], Some check_id}
      then Some (r\<lparr>rw_source_check_id := Some check_id\<rparr> # rs)
      else map_option ((#) r) (attach_source check_id evidence rs))"

definition add_candidate :: "raw_flag \<Rightarrow> raw_flag list \<Rightarrow> raw_flag list" where
  "add_candidate candidate raw_flags =
     (let check_id = (case rw_source_check_id candidate of None \<Rightarrow> [] | Some i \<Rightarrow> i) in
      case attach_source check_id (coerce_flag_text (rw_evidence candidate)) raw_flags of
        None \<Rightarrow> raw_flags @ [candidate]
      | Some rs \<Rightarrow> rs)"

definition synthesize_critique_flags :: "check_result list \<Rightarrow> raw_flag list \<Rightarrow> raw_flag list" where
  "synthesize_critique_flags results raw_flags =
     fold add_candidate (synthesize_flags_from_checks CRITIQUE_CHECKS False results) raw_flags"

definition update_flags_after_critique ::
    "flag_payload \<Rightarrow> check_result list \<Rightarrow> int \<Rightarrow> string list \<Rightarrow> flag list \<Rightarrow> flag list" where
  "update_flags_after_critique critique results iteration skip registry =
     apply_flag_updates
       (critique\<lparr>up_flags := synthesize_critique_flags results (up_flags critique)\<rparr>)
       iteration ''critique'' skip registry"

definition update_flags_after_review ::
    "flag_payload \<Rightarrow> check_result list \<Rightarrow> int \<Rightarrow> flag list \<Rightarrow> flag list" where
  "update_flags_after_review payload results iteration registry =
     apply_flag_updates
       (payload\<lparr>up_flags := up_flags payload @
          synthesize_flags_from_checks REVIEW_CHECKS True results\<rparr>)
       iteration ''review'' [] registry"

subsection \<open>Verdicts of the evaluator\<close>

record flag_verification =
  fv_flag_id :: string
  fv_outcome :: string
  fv_rationale :: json

definition verify_flag :: "flag_verification \<Rightarrow> flag \<Rightarrow> flag" where
  "verify_flag fv f =
     (let f = f\<lparr>fl_verify_rationale := Some (fv_rationale fv)\<rparr> in
      if fv_outcome fv = ''verified'' then mark_verified ''evaluator_verdict.json'' f
      else if fv_outcome fv = ''open'' then
        f\<lparr>fl_status := ''open'', fl_verified := Some False, fl_verified_in := None\<rparr>
      else if fv_outcome fv = ''accepted_tradeoff'' then f\<lparr>fl_status := ''accepted_tradeoff''\<rparr>
      else f)"

text \<open>The ids adjudicated, in the order of the verdicts, and the registry.\<close>

definition apply_flag_verifications ::
    "flag_verification list \<Rightarrow> flag list \<Rightarrow> string list \<times> flag list" where
  "apply_flag_verifications verifications registry =
     (let known = filter (\<lambda>fv. fv_flag_id fv \<noteq> [] \<and> fv_flag_id fv \<in> set (map fl_id registry))
            verifications
      in (map fv_flag_id known,
          fold (\<lambda>fv. update_last (fv_flag_id fv) (verify_flag fv)) known registry))"

subsection \<open>Updates after a revision\<close>

text \<open>An item of \<^verbatim>\<open>flags_addressed\<close>: a plain id, or a resolution record whose missing resolution means
  addressed; anything else is ignored.\<close>

datatype addressed_item =
    PlainItem string
  | RecordItem string "string option" json json
  | OtherItem

definition where_text :: "json \<Rightarrow> json" where
  "where_text w = (case as_str w of Some s \<Rightarrow> JStr s | None \<Rightarrow> JStr [])"

definition item_resolution :: "string \<Rightarrow> json \<Rightarrow> json \<Rightarrow> (string \<times> json) list" where
  "item_resolution kind reason where' =
     [(''kind'', JStr kind), (''claim'', reason), (''where'', where_text where')]"

fun addressed_id :: "addressed_item \<Rightarrow> string option" where
  "addressed_id (PlainItem i) = (if i = [] then None else Some i)"
| "addressed_id (RecordItem i resolution _ _) =
     (if i = [] \<or> resolution = Some ''rejected'' then None else Some i)"
| "addressed_id OtherItem = None"

fun resolution_entry :: "addressed_item \<Rightarrow> (string \<times> (string \<times> json) list) option" where
  "resolution_entry (RecordItem i resolution reason where') =
     (if i = [] then None
      else Some (i, item_resolution (if resolution = Some ''rejected'' then ''rejected'' else ''fixed'')
             reason where'))"
| "resolution_entry _ = None"

text \<open>A later resolution of an id replaces an earlier one.\<close>

definition update_flags_after_revise ::
    "addressed_item list \<Rightarrow> string \<Rightarrow> flag list \<Rightarrow> flag list" where
  "update_flags_after_revise flags_addressed plan_file registry =
     (let addressed_ids = List.map_filter addressed_id flags_addressed;
          item_resolutions = dict_update [] (List.map_filter resolution_entry flags_addressed)
      in map (\<lambda>f.
           let f = (if fl_id f \<in> set addressed_ids
                    then f\<lparr>fl_status := ''addressed'', fl_addressed_in := Some plan_file\<rparr> else f)
           in case map_of item_resolutions (fl_id f) of
                None \<Rightarrow> f | Some r \<Rightarrow> f\<lparr>fl_resolution := Some r\<rparr>) registry)"

definition flag_resolution_summary :: "flag \<Rightarrow> json" where
  "flag_resolution_summary f =
     (let evidence = (case fl_evidence f of None \<Rightarrow> JStr [] | Some e \<Rightarrow> JStr e) in
      case fl_resolution f of
        None \<Rightarrow> evidence
      | Some r \<Rightarrow> if truthy (dget r ''claim'' JNull) then dget r ''claim'' JNull else evidence)"

subsection \<open>Updates after the gate\<close>

record flag_resolution =
  rs_flag_id :: string
  rs_action :: string
  rs_evidence :: string
  rs_rationale :: string

definition resolve_flag :: "flag_resolution \<Rightarrow> flag \<Rightarrow> flag" where
  "resolve_flag res f =
     (let f = (if rs_action res = ''dispute'' then f\<lparr>fl_status := ''gate_disputed''\<rparr>
               else if rs_action res = ''accept_tradeoff'' then f\<lparr>fl_status := ''accepted_tradeoff''\<rparr>
               else if rs_action res = ''verify_fixed'' then mark_verified ''gate.json'' f
               else f)
      in f\<lparr>fl_gate_resolution := Some
            [(''action'', JStr (rs_action res)), (''evidence'', JStr (strip (rs_evidence res))),
             (''rationale'', JStr (strip (rs_rationale res)))]\<rparr>)"

definition update_flags_after_gate :: "flag_resolution list \<Rightarrow> flag list \<Rightarrow> flag list" where
  "update_flags_after_gate resolutions registry =
     fold (\<lambda>res. update_last (rs_flag_id res) (resolve_flag res)) resolutions registry"

end
