(* ===== verification/North_Star.thy ===== *)
theory North_Star
  imports Py_Text Plan_Workflow
begin

section \<open>North Star actions\<close>

text \<open>
  The actions by which a gate keeps a plan to its North Star
  (\<^verbatim>\<open>megaplan/north_star_actions.py\<close>): their strict normalization, the operator dispositions
  that settle a question for a human, the settlements a carried action gets back, and the closeout
  check. An action is a dictionary. The items of \<^verbatim>\<open>plan_refs\<close> are strings by the schema of an
  action, on which the \<^verbatim>\<open>str\<close> of the source is the identity.
\<close>

subsection \<open>Vocabulary\<close>

definition NORTH_STAR_DANGEROUS_CATEGORIES :: "string list" where
  "NORTH_STAR_DANGEROUS_CATEGORIES =
     [''route_authority'', ''baselines'', ''row_carrier_exemptions'', ''target_narrowing'',
      ''generated_conformance_authority'', ''live_plan_topology_resume_risk'']"

definition ADVISORY_CATEGORIES :: "string list" where
  "ADVISORY_CATEGORIES =
     [''correctness'', ''completeness'', ''scope'', ''verification'', ''conventions'', ''other'']"

definition NORTH_STAR_ACTION_CATEGORIES :: "string list" where
  "NORTH_STAR_ACTION_CATEGORIES = sort NORTH_STAR_DANGEROUS_CATEGORIES @ ADVISORY_CATEGORIES"

definition NORTH_STAR_ACTION_TYPES :: "string list" where
  "NORTH_STAR_ACTION_TYPES =
     [''change_plan'', ''add_gate'', ''add_scenario'', ''add_checker'', ''dead_delete'',
      ''add_human_halt'']"

definition NORTH_STAR_ACTION_RESOLUTIONS :: "string list" where
  "NORTH_STAR_ACTION_RESOLUTIONS = [''addressed'', ''halted'', ''rejected'']"

definition NORTH_STAR_SEVERITY_SOURCES :: "string list" where
  "NORTH_STAR_SEVERITY_SOURCES = [''schema'', ''worker'', ''reviewer'', ''explicit'']"

text \<open>\<^verbatim>\<open>v in names\<close> for a value and a tuple of strings.\<close>

definition among :: "json \<Rightarrow> string list \<Rightarrow> bool" where
  "among v names \<longleftrightarrow> v \<in> JStr ` set names"

definition is_blocking_category :: "json \<Rightarrow> bool" where
  "is_blocking_category category = among category NORTH_STAR_DANGEROUS_CATEGORIES"

definition is_blocking_action :: "(string \<times> json) list \<Rightarrow> bool" where
  "is_blocking_action action \<longleftrightarrow> dget action ''severity'' JNull = JStr ''blocking''"

subsection \<open>Normalization\<close>

datatype north_star_error =
    Not_an_object
  | Missing_id
  | Missing_concern string
  | Invalid_category string json
  | Invalid_action_type string json
  | Missing_evidence string json
  | Invalid_resolution string json
  | Missing_reason string

text \<open>A value that is stripped when it is a string, and the non-empty string it must then be.\<close>

fun stripped :: "json \<Rightarrow> json" where
  "stripped (JStr s) = JStr (strip s)"
| "stripped v = v"

definition text_of :: "json \<Rightarrow> string option" where
  "text_of v = (case stripped v of JStr s \<Rightarrow> if s = [] then None else Some s | _ \<Rightarrow> None)"

text \<open>An optional field, copied when its text is not blank, and \<^verbatim>\<open>plan_refs\<close>, copied when it is a
  list.\<close>

definition text_field :: "(string \<times> json) list \<Rightarrow> string \<Rightarrow> (string \<times> json) list" where
  "text_field raw k = (case text_of (dget raw k JNull) of Some s \<Rightarrow> [(k, JStr s)] | None \<Rightarrow> [])"

definition refs_field :: "(string \<times> json) list \<Rightarrow> (string \<times> json) list" where
  "refs_field raw = (case as_list (dget raw ''plan_refs'' JNull) of
       Some refs \<Rightarrow> [(''plan_refs'', JArr refs)] | None \<Rightarrow> [])"

definition action_severity :: "(string \<times> json) list \<Rightarrow> string \<times> json" where
  "action_severity raw =
     (if is_blocking_category (dget raw ''category'' JNull) then (''blocking'', JStr ''schema'')
      else
        (if dget raw ''severity'' JNull = JStr ''blocking'' then ''blocking'' else ''advisory'',
         let provided_source = dget raw ''severity_source'' JNull in
         if among provided_source NORTH_STAR_SEVERITY_SOURCES \<and> provided_source \<noteq> JStr ''schema''
         then provided_source else JStr ''explicit''))"

definition evidence_text :: "(string \<times> json) list \<Rightarrow> string" where
  "evidence_text raw = (case as_str (dget raw ''evidence'' JNull) of Some s \<Rightarrow> strip s | None \<Rightarrow> [])"

definition carried_form :: "(string \<times> json) list \<Rightarrow> string \<Rightarrow> (string \<times> json) list" where
  "carried_form raw action_id =
     [(''id'', JStr action_id), (''concern'', stripped (dget raw ''concern'' JNull)),
      (''category'', dget raw ''category'' JNull), (''action_type'', dget raw ''action_type'' JNull),
      (''severity'', JStr (fst (action_severity raw))),
      (''severity_source'', snd (action_severity raw)),
      (''evidence'', JStr (evidence_text raw))] @
     text_field raw ''question_id'' @ text_field raw ''question'' @ refs_field raw @
     text_field raw ''required_change''"

definition normalize_north_star_action ::
    "json \<Rightarrow> north_star_error + (string \<times> json) list" where
  "normalize_north_star_action value =
     (case as_dict value of
        None \<Rightarrow> Inl Not_an_object
      | Some raw \<Rightarrow>
     (case text_of (dget raw ''id'' JNull) of
        None \<Rightarrow> Inl Missing_id
      | Some action_id \<Rightarrow>
          res_bind (ensure (truthy (stripped (dget raw ''concern'' JNull))) (Missing_concern action_id))
          (\<lambda>_. res_bind (ensure (among (dget raw ''category'' JNull) NORTH_STAR_ACTION_CATEGORIES)
                 (Invalid_category action_id (dget raw ''category'' JNull)))
          (\<lambda>_. res_bind (ensure (among (dget raw ''action_type'' JNull) NORTH_STAR_ACTION_TYPES)
                 (Invalid_action_type action_id (dget raw ''action_type'' JNull)))
          (\<lambda>_. res_bind (ensure (fst (action_severity raw) = ''blocking'' \<longrightarrow> evidence_text raw \<noteq> [])
                 (Missing_evidence action_id (dget raw ''category'' JNull)))
          (\<lambda>_. Inr (carried_form raw action_id)))))))"

text \<open>The first malformed action, with its index, stops the batch.\<close>

fun normalize_from ::
    "nat \<Rightarrow> json list \<Rightarrow> (nat \<times> north_star_error) + (string \<times> json) list list" where
  "normalize_from index [] = Inr []"
| "normalize_from index (item # items) =
     (case normalize_north_star_action item of
        Inl e \<Rightarrow> Inl (index, e)
      | Inr a \<Rightarrow> res_bind (normalize_from (Suc index) items) (\<lambda>as. Inr (a # as)))"

datatype actions_error = Not_a_list | Malformed nat north_star_error

definition normalize_north_star_actions ::
    "json \<Rightarrow> actions_error + (string \<times> json) list list" where
  "normalize_north_star_actions raw =
     (case raw of
        JNull \<Rightarrow> Inr []
      | JArr items \<Rightarrow> (case normalize_from 0 items of
            Inl (index, e) \<Rightarrow> Inl (Malformed index e) | Inr as \<Rightarrow> Inr as)
      | _ \<Rightarrow> Inl Not_a_list)"

definition blocking_north_star_actions :: "json list \<Rightarrow> (string \<times> json) list list" where
  "blocking_north_star_actions actions = filter is_blocking_action (List.map_filter as_dict actions)"

subsection \<open>Addressed actions\<close>

definition normalize_north_star_action_addressed ::
    "json \<Rightarrow> north_star_error + (string \<times> json) list" where
  "normalize_north_star_action_addressed value =
     (case as_dict value of
        None \<Rightarrow> Inl Not_an_object
      | Some raw \<Rightarrow>
     (case text_of (dget raw ''action_id'' JNull) of
        None \<Rightarrow> Inl Missing_id
      | Some action_id \<Rightarrow>
          res_bind (ensure (among (dget raw ''resolution'' JNull) NORTH_STAR_ACTION_RESOLUTIONS)
                 (Invalid_resolution action_id (dget raw ''resolution'' JNull)))
          (\<lambda>_. res_bind (ensure (truthy (stripped (dget raw ''reason'' JNull))) (Missing_reason action_id))
          (\<lambda>_. Inr ([(''action_id'', JStr action_id), (''resolution'', dget raw ''resolution'' JNull),
                (''reason'', stripped (dget raw ''reason'' JNull))] @
               text_field raw ''where'' @ refs_field raw @
               (if among (dget raw ''action_type'' JNull) NORTH_STAR_ACTION_TYPES
                then [(''action_type'', dget raw ''action_type'' JNull)] else []))))))"

datatype unresolved_action =
    Addressed_missing json json
  | Omitted json json
  | Prose_only json json
  | Type_mismatch json json json

text \<open>The first record of an action id, ids compared without surrounding white space.\<close>

definition addressed_record ::
    "json list \<Rightarrow> string \<Rightarrow> (string \<times> json) list option" where
  "addressed_record addressed aid =
     find (\<lambda>rec. text_of (dget rec ''action_id'' JNull) = Some aid) (List.map_filter as_dict addressed)"

definition has_concrete_refs :: "(string \<times> json) list \<Rightarrow> bool" where
  "has_concrete_refs rec =
     (case as_list (dget rec ''plan_refs'' JNull) of
        None \<Rightarrow> False | Some refs \<Rightarrow> list_ex (\<lambda>ref. text_of ref \<noteq> None) refs)"

definition closeout_of ::
    "json list \<Rightarrow> (string \<times> json) list \<Rightarrow> unresolved_action option" where
  "closeout_of addressed action =
     (let aid = dget action ''id'' JNull; action_type = dget action ''action_type'' JNull in
      case Option.bind (text_of aid) (addressed_record addressed) of
        None \<Rightarrow> Some (Omitted aid action_type)
      | Some rec \<Rightarrow>
          if \<not> has_concrete_refs rec then Some (Prose_only aid action_type)
          else if dget rec ''action_type'' JNull \<noteq> action_type
          then Some (Type_mismatch aid action_type (dget rec ''action_type'' JNull))
          else None)"

definition find_unresolved_blocking_actions ::
    "json list \<Rightarrow> json list option \<Rightarrow> unresolved_action list" where
  "find_unresolved_blocking_actions carried_blocking addressed =
     (let actions = List.map_filter as_dict carried_blocking in
      case addressed of
        None \<Rightarrow> map (\<lambda>a. Addressed_missing (dget a ''id'' JNull) (dget a ''action_type'' JNull)) actions
      | Some records \<Rightarrow> List.map_filter (closeout_of records) actions)"

subsection \<open>Operator dispositions\<close>

text \<open>
  The two patterns of a recorded decision, on the characters of a note; letters are compared without
  case, and a character outside ASCII is taken to be no letter and no digit. An identifier and a
  decision are maximal runs, since what must follow them is not among their characters.
\<close>

definition ascii_letter :: "char \<Rightarrow> bool" where
  "ascii_letter c \<longleftrightarrow>
     c \<in> set ''ABCDEFGHIJKLMNOPQRSTUVWXYZabcdefghijklmnopqrstuvwxyz''"

fun letter_or_digit :: "string \<Rightarrow> bool" where
  "letter_or_digit [c] = (ascii_letter c \<or> digit_char c)"
| "letter_or_digit _ = False"

definition word_char :: "string \<Rightarrow> bool" where
  "word_char c \<longleftrightarrow> letter_or_digit c \<or> c = ''_''"

definition id_char :: "string \<Rightarrow> bool" where
  "id_char c \<longleftrightarrow> letter_or_digit c \<or> c \<in> {''.'', ''_'', ''-''}"

definition decision_start :: "string \<Rightarrow> bool" where
  "decision_start c \<longleftrightarrow> word_char c \<and> \<not> list_ex digit_char c"

text \<open>Matching a literal, white space, and a run with a first character of its own.\<close>

fun eat :: "string \<Rightarrow> string list \<Rightarrow> string list option" where
  "eat [] t = Some t"
| "eat (w # ws) [] = None"
| "eat (w # ws) (c # t) = (if lower c = lower [w] then eat ws t else None)"

definition spaces1 :: "string list \<Rightarrow> string list option" where
  "spaces1 t = (if t \<noteq> [] \<and> blank (hd t) then Some (dropWhile blank t) else None)"

definition run_of ::
    "(string \<Rightarrow> bool) \<Rightarrow> (string \<Rightarrow> bool) \<Rightarrow> string list \<Rightarrow> (string \<times> string list) option" where
  "run_of first rest t =
     (if t \<noteq> [] \<and> first (hd t)
      then Some (hd t @ concat (takeWhile rest (tl t)), dropWhile rest (tl t)) else None)"

definition canonical_at :: "string list \<Rightarrow> (string \<times> string) option" where
  "canonical_at t =
     Option.bind (eat ''OPERATOR_DISPOSITION'' t) (\<lambda>t.
     Option.bind (spaces1 t) (\<lambda>t.
     Option.bind (eat ''question_id='' t) (\<lambda>t.
     Option.bind (run_of letter_or_digit id_char t) (\<lambda>(question_id, t).
     Option.bind (spaces1 t) (\<lambda>t.
     Option.bind (eat ''decision='' t) (\<lambda>t.
     map_option (\<lambda>(decision, _). (question_id, decision)) (run_of decision_start word_char t)))))))"

definition EM_DASH :: string where
  "EM_DASH = [CHR 0xE2, CHR 0x80, CHR 0x94]"

definition eat_dash :: "string list \<Rightarrow> string list option" where
  "eat_dash t = (if t \<noteq> [] \<and> hd t \<in> {EM_DASH, ''-''} then Some (tl t) else None)"

definition legacy_at :: "string list \<Rightarrow> (string \<times> string) option" where
  "legacy_at t =
     Option.bind (eat ''OPERATOR'' t) (\<lambda>t.
     Option.bind (spaces1 t) (\<lambda>t.
     Option.bind (eat ''DECISION'' t) (\<lambda>t.
     Option.bind (eat_dash (dropWhile blank t)) (\<lambda>t.
     Option.bind (run_of letter_or_digit id_char (dropWhile blank t)) (\<lambda>(question_id, t).
     Option.bind (eat '':'' (dropWhile blank t)) (\<lambda>t.
     map_option (\<lambda>(decision, _). (question_id, decision))
       (run_of decision_start word_char (dropWhile blank t))))))))"

text \<open>\<^verbatim>\<open>re.search\<close> of a pattern that starts at a word boundary before a letter.\<close>

fun search_word :: "(string list \<Rightarrow> 'a option) \<Rightarrow> string \<Rightarrow> string list \<Rightarrow> 'a option" where
  "search_word m previous [] = None"
| "search_word m previous (c # t) =
     (case if word_char previous then None else m (c # t) of
        Some x \<Rightarrow> Some x | None \<Rightarrow> search_word m c t)"

definition OPERATOR_DISPOSITION_DECISIONS :: "string list" where
  "OPERATOR_DISPOSITION_DECISIONS =
     [''APPROVED'', ''ACCEPTED'', ''AUTHORIZED'', ''GRANTED'', ''DENIED'', ''REJECTED'',
      ''NOT_AUTHORIZED'']"

definition final_decision :: "string \<times> string \<Rightarrow> (string \<times> string) option" where
  "final_decision found =
     (let decision = upper (snd found) in
      if decision \<in> set OPERATOR_DISPOSITION_DECISIONS then Some (fst found, decision) else None)"

definition parse_operator_disposition :: "json \<Rightarrow> (string \<times> string) option" where
  "parse_operator_disposition note =
     (case text_of note of
        None \<Rightarrow> None
      | Some _ \<Rightarrow>
     (let t = utf8_chars (the (as_str note)) in
      case search_word canonical_at [] t of
        Some found \<Rightarrow> final_decision found
      | None \<Rightarrow> Option.bind (search_word legacy_at [] t) final_decision))"

text \<open>\<^verbatim>\<open>sha256\<close> is the hexadecimal digest of \<^verbatim>\<open>hashlib\<close>.\<close>

definition user_note :: "json \<Rightarrow> string \<Rightarrow> (string \<times> (string \<times> json) list) option" where
  "user_note note question_id =
     (case as_dict note of
        None \<Rightarrow> None
      | Some d \<Rightarrow>
     (case as_str (dget d ''source'' JNull) of
        None \<Rightarrow> None
      | Some source \<Rightarrow>
          if lower (strip source) \<noteq> ''user'' then None
          else (case parse_operator_disposition (dget d ''note'' JNull) of
              Some (i, decision) \<Rightarrow> if i = question_id then Some (decision, d) else None
            | None \<Rightarrow> None)))"

fun first_disposition ::
    "(string \<Rightarrow> string) \<Rightarrow> string \<Rightarrow> nat \<Rightarrow> json list \<Rightarrow> (string \<times> json) list option" where
  "first_disposition sha256 question_id index [] = None"
| "first_disposition sha256 question_id index (note # notes) =
     (case user_note note question_id of
        Some (decision, d) \<Rightarrow>
          Some [(''question_id'', JStr question_id), (''decision'', JStr decision),
                (''source'', JStr ''user''),
                (''timestamp'', (case as_str (dget d ''timestamp'' JNull) of
                    Some timestamp \<Rightarrow> JStr timestamp | None \<Rightarrow> JStr [])),
                (''note_index'', JInt (int index)),
                (''note_sha256'', JStr (sha256 (the (as_str (dget d ''note'' JNull)))))]
      | None \<Rightarrow> first_disposition sha256 question_id (Suc index) notes)"

definition plan_meta :: "plan \<Rightarrow> (string \<times> json) list" where
  "plan_meta state = dict_or_empty (dget state ''meta'' JNull)"

definition operator_disposition_for_action ::
    "(string \<Rightarrow> string) \<Rightarrow> plan \<Rightarrow> json \<Rightarrow> (string \<times> json) list option" where
  "operator_disposition_for_action sha256 state action =
     (let a = dict_or_empty action in
      if dget a ''action_type'' JNull \<noteq> JStr ''add_human_halt'' then None
      else case text_of (dget a ''question_id'' JNull) of
        None \<Rightarrow> None
      | Some question_id \<Rightarrow>
          (case as_list (dget (plan_meta state) ''notes'' JNull) of
             None \<Rightarrow> None
           | Some notes \<Rightarrow> first_disposition sha256 question_id 0 notes))"

definition resolved_by_operator_disposition :: "(string \<Rightarrow> string) \<Rightarrow> plan \<Rightarrow> json \<Rightarrow> bool" where
  "resolved_by_operator_disposition sha256 state action \<longleftrightarrow>
     operator_disposition_for_action sha256 state action \<noteq> None"

subsection \<open>Carried actions\<close>

text \<open>The settlement records of a carry by action id, a later one replacing an earlier one.\<close>

definition settled_by_id :: "json list \<Rightarrow> (string \<times> (string \<times> json) list) list" where
  "settled_by_id settled =
     dict_update [] (List.map_filter
       (\<lambda>d. map_option (\<lambda>aid. (aid, d)) (text_of (dget d ''id'' JNull))) (List.map_filter as_dict settled))"

definition settle_action ::
    "(string \<times> (string \<times> json) list) list \<Rightarrow> (string \<times> json) list \<Rightarrow> (string \<times> json) list" where
  "settle_action settlements action =
     (case Option.bind (as_str (dget action ''id'' JNull)) (map_of settlements) of
        None \<Rightarrow> action
      | Some rec \<Rightarrow>
          if dget rec ''resolved'' JNull \<noteq> JBool True then action
          else
            (let annotated = AList.update ''status'' (JStr ''resolved'')
                   (AList.update ''resolved'' (JBool True) action) in
             case as_dict (dget rec ''operator_disposition'' JNull) of
               Some disposition \<Rightarrow>
                 AList.update ''operator_disposition'' (JObj disposition) annotated
             | None \<Rightarrow> annotated))"

definition reapply_carried_settlements ::
    "(string \<times> json) list \<Rightarrow> (string \<times> json) list list \<Rightarrow> (string \<times> json) list list" where
  "reapply_carried_settlements carry normalized =
     (case as_list (dget carry ''settled_north_star_actions'' JNull) of
        None \<Rightarrow> normalized
      | Some settled \<Rightarrow> map (settle_action (settled_by_id settled)) normalized)"

datatype carry_error = Unreadable | Not_an_object_file | Missing_actions | Actions_not_a_list
  | Bad_actions actions_error

definition carried_list :: "json \<Rightarrow> carry_error + json list" where
  "carried_list file =
     (case as_dict file of
        None \<Rightarrow> Inl Not_an_object_file
      | Some d \<Rightarrow>
     (case map_of d ''north_star_actions'' of
        None \<Rightarrow> Inl Missing_actions
      | Some v \<Rightarrow> (case as_list v of None \<Rightarrow> Inl Actions_not_a_list | Some actions \<Rightarrow> Inr actions)))"

definition carried_actions :: "json \<Rightarrow> carry_error + (string \<times> json) list list" where
  "carried_actions file =
     res_bind (carried_list file) (\<lambda>actions.
       case normalize_north_star_actions (JArr actions) of
         Inl e \<Rightarrow> Inl (Bad_actions e) | Inr as \<Rightarrow> Inr as)"

text \<open>A file is absent, unreadable or holds a JSON value.\<close>

datatype json_file = Absent | Corrupt | Holds json

fun read_carried_north_star_actions ::
    "json_file \<Rightarrow> json_file \<Rightarrow> carry_error + (string \<times> json) list list" where
  "read_carried_north_star_actions (Holds carry) gate =
     res_bind (carried_actions carry) (\<lambda>as. Inr (reapply_carried_settlements (dict_or_empty carry) as))"
| "read_carried_north_star_actions Corrupt gate = Inl Unreadable"
| "read_carried_north_star_actions Absent (Holds g) = carried_actions g"
| "read_carried_north_star_actions Absent Corrupt = Inl Unreadable"
| "read_carried_north_star_actions Absent Absent = Inr []"

subsection \<open>Facts about normalization\<close>

text \<open>Normalization is idempotent: a carried action normalizes to itself.\<close>

lemma text_of_Some: "text_of v = Some s \<longleftrightarrow> (\<exists>t. v = JStr t \<and> strip t = s \<and> s \<noteq> [])"
  by (cases v) (auto simp: text_of_def)

lemma text_of_stripped: "text_of v = Some s \<Longrightarrow> text_of (JStr s) = Some s"
  by (auto simp: text_of_Some)

lemma text_of_JNull [simp]: "text_of JNull = None"
  by (simp add: text_of_def)

lemma stripped_stripped [simp]: "stripped (stripped v) = stripped v"
  by (cases v) simp_all

lemma map_of_text_field: "map_of (text_field raw k) k' =
    (if k' = k then map_option JStr (text_of (dget raw k JNull)) else None)"
  by (auto simp: text_field_def split: option.split)

lemma map_of_refs_field: "map_of (refs_field raw) k' =
    (if k' = ''plan_refs'' then map_option JArr (as_list (dget raw ''plan_refs'' JNull)) else None)"
  by (auto simp: refs_field_def split: option.split)

lemmas carried_lookup = carried_form_def dget_def map_add_def map_of_text_field map_of_refs_field

lemma carried_form_get [simp]:
  "dget (carried_form raw i) ''id'' d = JStr i"
  "dget (carried_form raw i) ''concern'' d = stripped (dget raw ''concern'' JNull)"
  "dget (carried_form raw i) ''category'' d = dget raw ''category'' JNull"
  "dget (carried_form raw i) ''action_type'' d = dget raw ''action_type'' JNull"
  "dget (carried_form raw i) ''severity'' d = JStr (fst (action_severity raw))"
  "dget (carried_form raw i) ''severity_source'' d = snd (action_severity raw)"
  "dget (carried_form raw i) ''evidence'' d = JStr (evidence_text raw)"
  by (simp_all add: carried_lookup)

lemma carried_form_optional:
  "dget (carried_form raw i) ''question_id'' JNull =
     (case text_of (dget raw ''question_id'' JNull) of Some s \<Rightarrow> JStr s | None \<Rightarrow> JNull)"
  "dget (carried_form raw i) ''question'' JNull =
     (case text_of (dget raw ''question'' JNull) of Some s \<Rightarrow> JStr s | None \<Rightarrow> JNull)"
  "dget (carried_form raw i) ''required_change'' JNull =
     (case text_of (dget raw ''required_change'' JNull) of Some s \<Rightarrow> JStr s | None \<Rightarrow> JNull)"
  "dget (carried_form raw i) ''plan_refs'' JNull =
     (case as_list (dget raw ''plan_refs'' JNull) of Some rs \<Rightarrow> JArr rs | None \<Rightarrow> JNull)"
  by (simp_all add: carried_lookup split: option.split)

lemma text_field_again:
  assumes "dget c k JNull = (case text_of (dget raw k JNull) of Some s \<Rightarrow> JStr s | None \<Rightarrow> JNull)"
  shows "text_field c k = text_field raw k"
  using assms by (cases "text_of (dget raw k JNull)") (auto simp: text_field_def text_of_stripped)

lemma fields_again [simp]:
  "text_field (carried_form raw i) ''question_id'' = text_field raw ''question_id''"
  "text_field (carried_form raw i) ''question'' = text_field raw ''question''"
  "text_field (carried_form raw i) ''required_change'' = text_field raw ''required_change''"
  "refs_field (carried_form raw i) = refs_field raw"
  by (rule text_field_again, rule carried_form_optional)+
     (simp add: refs_field_def carried_form_optional split: option.split)

lemma among_explicit: "among (JStr ''explicit'') NORTH_STAR_SEVERITY_SOURCES"
  by (simp add: among_def NORTH_STAR_SEVERITY_SOURCES_def)

lemma action_severity_again [simp]:
  "action_severity (carried_form raw i) = action_severity raw"
  by (simp add: action_severity_def [of "carried_form raw i"])
     (auto simp: action_severity_def Let_def among_explicit)

lemma evidence_text_again [simp]: "evidence_text (carried_form raw i) = evidence_text raw"
  by (auto simp: evidence_text_def split: option.split)

lemma carried_form_again [simp]: "carried_form (carried_form raw i) i = carried_form raw i"
  by (simp add: carried_form_def [of "carried_form raw i"]) (simp add: carried_form_def)

lemma normalize_Inr_iff: "normalize_north_star_action value = Inr a \<longleftrightarrow>
    (\<exists>raw i. value = JObj raw \<and> text_of (dget raw ''id'' JNull) = Some i \<and>
       truthy (stripped (dget raw ''concern'' JNull)) \<and>
       among (dget raw ''category'' JNull) NORTH_STAR_ACTION_CATEGORIES \<and>
       among (dget raw ''action_type'' JNull) NORTH_STAR_ACTION_TYPES \<and>
       (fst (action_severity raw) = ''blocking'' \<longrightarrow> evidence_text raw \<noteq> []) \<and>
       a = carried_form raw i)"
  unfolding normalize_north_star_action_def
  by (auto split: option.splits)

lemma normalize_again:
  assumes "normalize_north_star_action value = Inr a"
  shows "normalize_north_star_action (JObj a) = Inr a"
proof -
  from assms obtain raw i where *: "text_of (dget raw ''id'' JNull) = Some i"
      "truthy (stripped (dget raw ''concern'' JNull))"
      "among (dget raw ''category'' JNull) NORTH_STAR_ACTION_CATEGORIES"
      "among (dget raw ''action_type'' JNull) NORTH_STAR_ACTION_TYPES"
      "fst (action_severity raw) = ''blocking'' \<longrightarrow> evidence_text raw \<noteq> []"
      "a = carried_form raw i"
    unfolding normalize_Inr_iff by blast
  then have "text_of (dget a ''id'' JNull) = Some i"
    by (simp add: text_of_stripped)
  then show ?thesis unfolding normalize_Inr_iff
    using * by (intro exI [of _ a] exI [of _ i]) simp
qed

lemma normalize_from_again: "normalize_from k values = Inr as \<Longrightarrow> normalize_from m (map JObj as) = Inr as"
  by (induction "values" arbitrary: k m as) (auto simp: normalize_again split: sum.splits)

lemma carried_actions_normalized:
  "carried_actions file = Inr as \<Longrightarrow> normalize_north_star_actions (JArr (map JObj as)) = Inr as"
  by (auto simp: carried_actions_def normalize_north_star_actions_def normalize_from_again
      split: sum.splits)

end
