(* ===== verification/Gate_Routing.thy ===== *)
theory Gate_Routing
  imports Flag_Registry North_Star
begin

section \<open>The gate\<close>

text \<open>
  The gate between critique and finalize (\<^verbatim>\<open>megaplan/handlers/gate.py\<close>), the checks before it
  (\<^verbatim>\<open>orchestration/gate_checks.py\<close>, \<^verbatim>\<open>rubber_stamp.py\<close>), the termination policy of the critique loop
  (\<^verbatim>\<open>workflows/components.py\<close>) and the validation of a tiebreaker
  (\<^verbatim>\<open>orchestration/critique_runtime.py\<close>). A plan is the dictionary of its state, whose \<^verbatim>\<open>meta\<close> and
  \<^verbatim>\<open>config\<close> are dictionaries and whose counters are integers; a payload is one that passed the audit
  against its schema. The answers of the model are arguments. Left out are the texts for the operator
  (summaries, guidance, warnings, rationales, settled decisions), the accounting of costs, and the
  records of debt; of the records a gate writes, the model keeps the fields that the code modelled here
  reads back.
\<close>

subsection \<open>Rubber stamps\<close>

definition GENERIC_ACKS :: "string list" where
  "GENERIC_ACKS =
     [''ack'', ''checked'', ''confirmed'', ''done'', ''good'', ''looks good'', ''n/a'', ''na'', ''ok'',
      ''verified'', ''yes'']"

definition normalize_text :: "string \<Rightarrow> string" where
  "normalize_text text = join '' '' (split_words (lower (strip text)))"

definition is_rubber_stamp :: "string \<Rightarrow> bool \<Rightarrow> bool" where
  "is_rubber_stamp text strict =
     (let stripped_text = strip text; words = split_words stripped_text in
      if strip_chars '' .!?,;:'' (normalize_text text) \<in> set GENERIC_ACKS then True
      else if \<not> strict then False
      else length (utf8_chars stripped_text) \<le> 20 \<or> length words < 4 \<or>
           card (set (map lower words)) < 3)"

subsection \<open>Preflight checks\<close>

definition config_of :: "plan \<Rightarrow> (string \<times> json) list" where
  "config_of state = dict_or_empty (plan_config state)"

text \<open>What the checks see of the machine and of the metadata of the latest plan.\<close>

record preflight_env =
  pe_project_dir_exists :: bool
  pe_project_dir_writable :: bool
  pe_success_criteria :: "json list"
  pe_find_command :: "string \<Rightarrow> string option"

definition found_command :: "preflight_env \<Rightarrow> string \<Rightarrow> bool" where
  "found_command env name =
     (case pe_find_command env name of None \<Rightarrow> False | Some path \<Rightarrow> path \<noteq> [])"

definition run_gate_checks :: "preflight_env \<Rightarrow> plan \<Rightarrow> (string \<times> bool) list" where
  "run_gate_checks env state =
     [(''project_dir_exists'', pe_project_dir_exists env),
      (''project_dir_writable'', pe_project_dir_writable env),
      (''success_criteria_present'', pe_success_criteria env \<noteq> [])] @
     (if dget (config_of state) ''agent'' (JStr []) = JStr ''omp'' then []
      else [(''claude_available'', found_command env ''claude''),
            (''codex_available'', found_command env ''codex'')])"

definition AGENT_AVAILABILITY_PREFLIGHT_CHECKS :: "string list" where
  "AGENT_AVAILABILITY_PREFLIGHT_CHECKS = [''claude_available'', ''codex_available'']"

definition failed_preflight_checks :: "(string \<times> bool) list \<Rightarrow> string list" where
  "failed_preflight_checks preflight_results = map fst (filter (\<lambda>(_, passed). \<not> passed) preflight_results)"

definition only_agent_availability_preflight_failed :: "(string \<times> bool) list \<Rightarrow> bool" where
  "only_agent_availability_preflight_failed preflight_results =
     (let failed = failed_preflight_checks preflight_results in
      failed \<noteq> [] \<and> set failed \<subseteq> set AGENT_AVAILABILITY_PREFLIGHT_CHECKS)"

subsection \<open>Signals, payload and summary\<close>

record addressed_flag =
  af_id :: string
  af_concern :: string
  af_category :: string
  af_severity :: string
  af_resolution :: json
  af_addressed_in :: string

definition addressed_flags :: "flag list \<Rightarrow> addressed_flag list" where
  "addressed_flags registry =
     map (\<lambda>f. \<lparr>af_id = fl_id f, af_concern = fl_concern f, af_category = fl_category f,
            af_severity = (case fl_severity f of Some s \<Rightarrow> s | None \<Rightarrow> ''unknown''),
            af_resolution = flag_resolution_summary f,
            af_addressed_in = (case fl_addressed_in f of Some p \<Rightarrow> p | None \<Rightarrow> [])\<rparr>)
       (filter (\<lambda>f. fl_status f = ''addressed'') registry)"

record gate_signals =
  sg_preflight_results :: "(string \<times> bool) list"
  sg_unresolved_flags :: "flag list"
  sg_addressed_flags :: "addressed_flag list"

definition build_gate_signals :: "preflight_env \<Rightarrow> plan \<Rightarrow> flag list \<Rightarrow> gate_signals" where
  "build_gate_signals env state registry =
     \<lparr>sg_preflight_results = run_gate_checks env state,
      sg_unresolved_flags = unresolved_significant_flags registry,
      sg_addressed_flags = addressed_flags registry\<rparr>"

record gate_payload =
  gp_recommendation :: string
  gp_flag_resolutions :: "flag_resolution list"
  gp_north_star_actions :: "json list"
  gp_tiebreaker_question :: string
  gp_tiebreaker_flag_ids :: "string list"
  gp_tiebreaker_fuzzy_group_id :: string

record gate_summary =
  gs_recommendation :: string
  gs_passed :: bool
  gs_preflight_results :: "(string \<times> bool) list"
  gs_unresolved_flags :: "flag list"
  gs_addressed_flags :: "addressed_flag list"
  gs_flag_resolutions :: "flag_resolution list"
  gs_north_star_actions :: "(string \<times> json) list list"
  gs_operator_settled_actions :: "(string \<times> json) list list"
  gs_reprompted :: bool
  gs_tiebreaker_question :: string
  gs_tiebreaker_flag_ids :: "string list"
  gs_tiebreaker_fuzzy_group_id :: string

definition normalize_gate_payload :: "gate_payload \<Rightarrow> gate_payload" where
  "normalize_gate_payload payload =
     (let recommendation = upper (strip (gp_recommendation payload)) in
      if recommendation = [] then payload else payload\<lparr>gp_recommendation := recommendation\<rparr>)"

definition build_gate_artifact :: "gate_signals \<Rightarrow> gate_payload \<Rightarrow> actions_error + gate_summary" where
  "build_gate_artifact signals payload =
     res_bind (normalize_north_star_actions (JArr (gp_north_star_actions payload))) (\<lambda>actions.
       Inr \<lparr>gs_recommendation = gp_recommendation payload,
            gs_passed = (gp_recommendation payload = ''PROCEED'' \<and>
              list_all snd (sg_preflight_results signals)),
            gs_preflight_results = sg_preflight_results signals,
            gs_unresolved_flags = sg_unresolved_flags signals,
            gs_addressed_flags = sg_addressed_flags signals,
            gs_flag_resolutions = gp_flag_resolutions payload,
            gs_north_star_actions = actions,
            gs_operator_settled_actions = [],
            gs_reprompted = False,
            gs_tiebreaker_question = gp_tiebreaker_question payload,
            gs_tiebreaker_flag_ids = gp_tiebreaker_flag_ids payload,
            gs_tiebreaker_fuzzy_group_id = gp_tiebreaker_fuzzy_group_id payload\<rparr>)"

text \<open>The actions a user's recorded decision settles, annotated, and the carry that keeps them.\<close>

definition apply_operator_dispositions ::
    "(string \<Rightarrow> string) \<Rightarrow> plan \<Rightarrow> gate_summary \<Rightarrow> gate_summary" where
  "apply_operator_dispositions sha256 state s =
     s\<lparr>gs_operator_settled_actions := List.map_filter
         (\<lambda>a. map_option
            (\<lambda>disposition. AList.update ''operator_disposition'' (JObj disposition)
               (AList.update ''status'' (JStr ''resolved'')
                 (AList.update ''resolved'' (JBool True) a)))
            (operator_disposition_for_action sha256 state (JObj a)))
         (gs_north_star_actions s)\<rparr>"

definition build_gate_carry :: "gate_summary \<Rightarrow> (string \<times> json) list" where
  "build_gate_carry s =
     [(''recommendation'', JStr (gs_recommendation s)), (''passed'', JBool (gs_passed s)),
      (''north_star_actions'', JArr (map JObj (gs_north_star_actions s))),
      (''settled_north_star_actions'', JArr (map JObj (gs_operator_settled_actions s)))]"

subsection \<open>The cap of the critique loop\<close>

text \<open>\<^verbatim>\<open>int(v or 0)\<close> of a counter.\<close>

definition count_of :: "json \<Rightarrow> int" where
  "count_of v = (case as_int v of Some n \<Rightarrow> n | None \<Rightarrow> 0)"

definition with_meta :: "plan \<Rightarrow> (string \<times> json) list \<Rightarrow> plan" where
  "with_meta state meta = AList.update ''meta'' (JObj meta) state"

definition apply_state_projection :: "plan \<Rightarrow> plan_state \<Rightarrow> plan" where
  "apply_state_projection state s = AList.update ''current_state'' (JStr (state_value s)) state"

text \<open>The defaults of the limits, and their value when the user's configuration sets one.\<close>

definition CRITIQUE_DEFAULTS :: "(string \<times> int) list" where
  "CRITIQUE_DEFAULTS =
     [(''max_critique_iterations'', 4), (''max_robust_critique_iterations'', 6),
      (''max_critique_no_progress'', 2)]"

definition get_effective :: "(string \<times> int) list \<Rightarrow> string \<Rightarrow> int" where
  "get_effective execution_config key =
     (case map_of execution_config key of
        Some value \<Rightarrow> value
      | None \<Rightarrow> (case map_of CRITIQUE_DEFAULTS key of Some value \<Rightarrow> value | None \<Rightarrow> 0))"

definition critique_cap_key :: "string \<Rightarrow> string" where
  "critique_cap_key robustness =
     (if robustness \<in> {''thorough'', ''extreme''} then ''max_robust_critique_iterations''
      else ''max_critique_iterations'')"

definition ROBUSTNESS_CAP_OVERRIDES :: "(string \<times> int) list" where
  "ROBUSTNESS_CAP_OVERRIDES = [(''light'', 2)]"

definition effective_critique_cap :: "(string \<times> int) list \<Rightarrow> string \<Rightarrow> int" where
  "effective_critique_cap execution_config robustness =
     (let cap = get_effective execution_config (critique_cap_key robustness) in
      case map_of ROBUSTNESS_CAP_OVERRIDES robustness of
        Some max_value \<Rightarrow> min cap max_value | None \<Rightarrow> cap)"

definition history_of :: "plan \<Rightarrow> (string \<times> json) list list" where
  "history_of state =
     (case as_list (dget state ''history'' (JArr [])) of
        Some entries \<Rightarrow> map dict_or_empty entries | None \<Rightarrow> [])"

definition is_iterate_round :: "(string \<times> json) list \<Rightarrow> bool" where
  "is_iterate_round entry \<longleftrightarrow>
     dget entry ''step'' JNull = JStr ''gate'' \<and> dget entry ''recommendation'' JNull = JStr ''ITERATE''"

definition prior_iterate_rounds :: "plan \<Rightarrow> int" where
  "prior_iterate_rounds state = int (length (filter is_iterate_round (history_of state)))"

text \<open>The severity policy of the termination.\<close>

definition SIGNIFICANT_SEVERITIES :: "string list" where
  "SIGNIFICANT_SEVERITIES = [''significant'', ''likely-significant'']"

definition COSMETIC_SEVERITIES :: "string list" where
  "COSMETIC_SEVERITIES = [''minor'', ''likely-minor'', ''trivial'', ''cosmetic'', ''low'', ''nit'']"

definition CRITICAL_CATEGORIES :: "string list" where
  "CRITICAL_CATEGORIES = [''correctness'', ''security'']"

definition is_cap_blocking_flag :: "flag \<Rightarrow> bool" where
  "is_cap_blocking_flag f =
     (if fl_status f \<notin> set FLAG_BLOCKING_STATUSES then False
      else if fl_severity f \<in> Some ` set SIGNIFICANT_SEVERITIES then True
      else if fl_severity f \<in> Some ` set COSMETIC_SEVERITIES then False
      else fl_category f \<in> set CRITICAL_CATEGORIES)"

definition open_blocking_flags :: "gate_summary \<Rightarrow> flag list" where
  "open_blocking_flags s = filter is_cap_blocking_flag (gs_unresolved_flags s)"

text \<open>The environment of a gate: the execution section of the user's configuration, the signal file
  of each iteration, the digest, and the switch of the canary.\<close>

record gate_env =
  ge_execution :: "(string \<times> int) list"
  ge_signals_file :: "int \<Rightarrow> json_file"
  ge_sha256 :: "string \<Rightarrow> string"
  ge_zero_recovery_canary :: bool

definition plan_iteration :: "plan \<Rightarrow> int" where
  "plan_iteration state = count_of (dget state ''iteration'' (JInt 0))"

definition prior_unresolved_flag_ids :: "gate_env \<Rightarrow> int \<Rightarrow> json list" where
  "prior_unresolved_flag_ids env current_iteration =
     (if current_iteration \<le> 1 then []
      else case ge_signals_file env (current_iteration - 1) of
        Holds data \<Rightarrow>
          filter truthy (map (\<lambda>d. dget d ''id'' JNull) (List.map_filter as_dict
            (case as_list (dget (dict_or_empty data) ''unresolved_flags'' (JArr [])) of
               Some flags \<Rightarrow> flags | None \<Rightarrow> [])))
      | _ \<Rightarrow> [])"

definition blocking_flag_ids :: "gate_summary \<Rightarrow> json list" where
  "blocking_flag_ids s =
     map (JStr \<circ> fl_id)
       (filter (\<lambda>f. fl_id f \<noteq> [] \<and> fl_status f \<in> set FLAG_BLOCKING_STATUSES) (gs_unresolved_flags s))"

text \<open>No prior blocking flag was closed in this round and a fresh one appeared.\<close>

definition no_net_progress :: "gate_env \<Rightarrow> plan \<Rightarrow> gate_summary \<Rightarrow> bool" where
  "no_net_progress env state s \<longleftrightarrow>
     set (prior_unresolved_flag_ids env (plan_iteration state)) \<subseteq> set (blocking_flag_ids s) \<and>
     \<not> set (blocking_flag_ids s) \<subseteq> set (prior_unresolved_flag_ids env (plan_iteration state))"

definition critique_no_progress_streak ::
    "gate_env \<Rightarrow> plan \<Rightarrow> gate_summary \<Rightarrow> int \<times> plan" where
  "critique_no_progress_streak env state s =
     (let iteration = plan_iteration state;
          meta = plan_meta state;
          streak = count_of (dget meta ''critique_no_progress_streak'' (JInt 0));
          scored = dget meta ''critique_no_progress_iteration'' (JInt (-1))
      in if (if truthy scored then count_of scored else -1) = iteration
         then (streak, with_meta state meta)
         else let streak' = (if no_net_progress env state s then streak + 1 else 0) in
           (streak',
            with_meta state (AList.update ''critique_no_progress_iteration'' (JInt iteration)
              (AList.update ''critique_no_progress_streak'' (JInt streak') meta))))"

subsection \<open>Routing\<close>

record gate_route =
  rt_result :: string
  rt_signal :: string
  rt_blocking_unresolved_ids :: "string list"
  rt_fallback_payload :: "(string \<times> json) list option"

definition plain_route :: "string \<Rightarrow> string \<Rightarrow> gate_route" where
  "plain_route result signal =
     \<lparr>rt_result = result, rt_signal = signal, rt_blocking_unresolved_ids = [],
      rt_fallback_payload = None\<rparr>"

definition fallback_route :: "string \<Rightarrow> string \<Rightarrow> (string \<times> json) list \<Rightarrow> gate_route" where
  "fallback_route result signal payload =
     (plain_route result signal)\<lparr>rt_fallback_payload := Some payload\<rparr>"

definition critique_terminate_branch :: "plan \<Rightarrow> gate_summary \<Rightarrow> plan \<times> gate_route" where
  "critique_terminate_branch state s =
     (if open_blocking_flags s \<noteq> []
      then (apply_state_projection state STATE_BLOCKED,
            fallback_route ''blocked'' ''escalate''
              [(''kind'', JStr ''critique_cap''), (''reason'', JStr ''correctness_or_security_flags'')])
      else (apply_state_projection state STATE_GATED,
            fallback_route ''blocked'' ''force_proceed''
              [(''kind'', JStr ''critique_cap''), (''reason'', JStr ''cosmetic_flags_only'')]))"

definition significant_addressed :: "gate_summary \<Rightarrow> addressed_flag list" where
  "significant_addressed s =
     filter (\<lambda>f. af_severity f \<in> set SIGNIFICANT_SEVERITIES) (gs_addressed_flags s)"

definition nonempty_ids :: "string list \<Rightarrow> string list" where
  "nonempty_ids ids = filter (\<lambda>i. i \<noteq> []) ids"

definition substantiated :: "string \<Rightarrow> bool" where
  "substantiated text \<longleftrightarrow> strip text \<noteq> [] \<and> \<not> is_rubber_stamp (strip text) True"

definition valid_resolution :: "gate_summary \<Rightarrow> flag_resolution \<Rightarrow> bool" where
  "valid_resolution s res =
     (let addressed_ids = nonempty_ids (map af_id (significant_addressed s));
          unresolved_ids = nonempty_ids (map fl_id (gs_unresolved_flags s))
      in if rs_action res = ''verify_fixed'' then
           substantiated (rs_evidence res) \<and> rs_flag_id res \<in> set addressed_ids \<union> set unresolved_ids
         else if rs_action res = ''dispute'' then
           substantiated (rs_evidence res) \<and> rs_flag_id res \<notin> set addressed_ids
         else if rs_action res = ''accept_tradeoff'' then
           substantiated (rs_rationale res) \<and> rs_flag_id res \<notin> set addressed_ids
         else False)"

definition valid_resolutions :: "gate_summary \<Rightarrow> flag_resolution list" where
  "valid_resolutions s = filter (valid_resolution s) (gs_flag_resolutions s)"

definition is_open_significant :: "flag \<Rightarrow> bool" where
  "is_open_significant f \<longleftrightarrow>
     fl_severity f \<in> Some ` set SIGNIFICANT_SEVERITIES \<and> fl_status f \<in> set FLAG_BLOCKING_STATUSES"

definition blocking_unresolved_ids :: "gate_summary \<Rightarrow> string list" where
  "blocking_unresolved_ids s =
     (let resolved = rs_flag_id ` set (valid_resolutions s) in
      first_occurrences (nonempty_ids
        (filter (\<lambda>i. i \<notin> resolved)
          (map fl_id (filter is_open_significant (gs_unresolved_flags s)) @
           map af_id (significant_addressed s)))))"

text \<open>An escalation that rests on questions for a human alone, each settled by a recorded decision.\<close>

definition escalation_settled :: "gate_env \<Rightarrow> plan \<Rightarrow> gate_summary \<Rightarrow> bool" where
  "escalation_settled env state s \<longleftrightarrow>
     gs_north_star_actions s \<noteq> [] \<and>
     list_all snd (gs_preflight_results s) \<and>
     filter is_open_significant (gs_unresolved_flags s) = [] \<and>
     list_all (\<lambda>a. dget a ''action_type'' JNull = JStr ''add_human_halt'' \<and>
         dget a ''severity'' JNull = JStr ''blocking'' \<and>
         resolved_by_operator_disposition (ge_sha256 env) state (JObj a)) (gs_north_star_actions s)"

text \<open>\<^verbatim>\<open>state["meta"].pop("user_approved_gate", None)\<close>\<close>

definition open_gate :: "plan \<Rightarrow> plan" where
  "open_gate state =
     (let gated = apply_state_projection state STATE_GATED in
      with_meta gated (AList.delete ''user_approved_gate'' (plan_meta gated)))"

definition route_proceed :: "gate_summary \<Rightarrow> plan \<Rightarrow> plan \<times> gate_route" where
  "route_proceed s state =
     (let blocking = blocking_unresolved_ids s in
      if blocking \<noteq> [] then
        (apply_state_projection state STATE_CRITIQUED,
         (fallback_route ''unresolved_flags'' ''retry_gate''
            [(''kind'', JStr ''blocking_flag_reprompt''),
             (''blocking_unresolved_ids'', JArr (map JStr blocking))])
           \<lparr>rt_blocking_unresolved_ids := blocking\<rparr>)
      else if gs_passed s then (open_gate state, plain_route ''success'' ''proceed'')
      else
        (apply_state_projection state STATE_CRITIQUED,
         if only_agent_availability_preflight_failed (gs_preflight_results s)
         then fallback_route ''blocked'' ''blocked_preflight''
           [(''kind'', JStr ''preflight_failed''), (''reason'', JStr ''agent_availability_only''),
            (''allow_force_proceed'', JBool True)]
         else fallback_route ''blocked'' ''blocked_preflight''
           [(''kind'', JStr ''preflight_failed''), (''reason'', JStr ''blocking_checks''),
            (''allow_force_proceed'', JBool False)]))"

definition route_iterate :: "gate_env \<Rightarrow> string \<Rightarrow> gate_summary \<Rightarrow> plan \<Rightarrow> plan \<times> gate_route" where
  "route_iterate env robustness s state =
     (let (streak, state') = critique_no_progress_streak env (apply_state_projection state STATE_CRITIQUED) s;
          prior_rounds = prior_iterate_rounds state';
          max_iter = effective_critique_cap (ge_execution env) robustness;
          max_no_progress = get_effective (ge_execution env) ''max_critique_no_progress''
      in if prior_rounds \<ge> max_iter \<or> streak \<ge> max_no_progress
         then critique_terminate_branch state' s
         else (state', plain_route ''success'' ''iterate''))"

definition route_escalate :: "gate_env \<Rightarrow> gate_summary \<Rightarrow> plan \<Rightarrow> plan \<times> gate_route" where
  "route_escalate env s state =
     (let state' = apply_state_projection state STATE_CRITIQUED in
      if escalation_settled env state' s then (open_gate state', plain_route ''success'' ''proceed'')
      else (state', plain_route ''success'' ''escalate''))"

text \<open>The route, the plan and the flag registry after it.\<close>

definition build_gate_route_signal ::
    "gate_env \<Rightarrow> string \<Rightarrow> gate_summary \<Rightarrow> plan \<times> flag list \<Rightarrow> (plan \<times> flag list) \<times> gate_route" where
  "build_gate_route_signal env robustness s st =
     (let (state, registry) = st; recommendation = gs_recommendation s in
      if recommendation = ''PROCEED'' then
        (let (state', route) = route_proceed s state in
         ((state', update_flags_after_gate (valid_resolutions s) registry), route))
      else
        (let (state', route) =
          (if recommendation = ''ITERATE'' then route_iterate env robustness s state
           else if recommendation = ''ESCALATE'' then route_escalate env s state
           else if recommendation = ''TIEBREAKER'' then
             (apply_state_projection state STATE_CRITIQUED,
              plain_route ''tiebreaker_recommended'' ''tiebreaker'')
           else
             (apply_state_projection state STATE_CRITIQUED,
              fallback_route ''unknown_recommendation'' ''escalate''
                [(''kind'', JStr ''unknown_recommendation''),
                 (''recommendation'', JStr recommendation)]))
         in ((state', registry), route)))"

subsection \<open>Tiebreakers\<close>

text \<open>
  The answers of the model in one gate, and what \<^verbatim>\<open>has_mechanical_recurrence\<close> reads from the
  plan's artifacts before and after the question about it.
\<close>

record gate_answers =
  an_first :: gate_payload
  an_reprompt :: gate_payload
  an_tiebreaker :: gate_payload
  an_recurrence :: bool
  an_recurrence_retry :: bool

definition blocklisted :: "json list \<Rightarrow> flag list \<Rightarrow> string \<Rightarrow> bool" where
  "blocklisted blocklist registry fid \<longleftrightarrow>
     JStr (case find (\<lambda>f. fl_id f = fid) (rev registry) of Some f \<Rightarrow> fl_category f | None \<Rightarrow> [])
       \<in> set blocklist"

definition downgrade_recommendation :: "string \<Rightarrow> gate_summary \<Rightarrow> gate_summary" where
  "downgrade_recommendation recommendation s = s\<lparr>gs_recommendation := recommendation\<rparr>"

text \<open>The next step: \<^verbatim>\<open>proceed\<close> for finalize, \<^verbatim>\<open>iterate\<close> for revise, \<^verbatim>\<open>escalate\<close> otherwise.\<close>

definition validate_tiebreaker ::
    "gate_signals \<Rightarrow> gate_answers \<Rightarrow> gate_summary \<Rightarrow> plan \<times> flag list \<Rightarrow>
     actions_error + (plan \<times> gate_summary \<times> string \<times> string)" where
  "validate_tiebreaker signals answers s st =
     (let (state, registry) = st;
          config = config_of state;
          critiqued = apply_state_projection state STATE_CRITIQUED;
          tiebreaker_count = count_of (dget (plan_meta state) ''tiebreaker_count'' (JInt 0));
          max_tiebreakers = count_of (dget config ''max_tiebreakers_per_plan'' (JInt 2));
          blocklist = (case as_list (dget config ''tiebreaker_blocklist'' (JArr [])) of
                         Some items \<Rightarrow> items | None \<Rightarrow> []);
          approved = Inr (with_meta (apply_state_projection state STATE_TIEBREAKER_PENDING)
              (AList.update ''tiebreaker_count'' (JInt (tiebreaker_count + 1)) (plan_meta state)),
            s, ''tiebreaker_approved'', ''escalate'')
      in if \<not> truthy (dget config ''allow_tiebreaker'' (JBool True)) then
           Inr (critiqued, downgrade_recommendation ''ITERATE'' s, ''tiebreaker_rejected_disabled'', ''iterate'')
         else if tiebreaker_count \<ge> max_tiebreakers then
           Inr (critiqued, downgrade_recommendation ''ESCALATE'' s, ''tiebreaker_rejected_budget'', ''escalate'')
         else if list_ex (blocklisted blocklist registry) (gs_tiebreaker_flag_ids s) then
           Inr (critiqued, downgrade_recommendation ''ITERATE'' s, ''tiebreaker_rejected_blocklist'', ''iterate'')
         else if gs_tiebreaker_question s = [] \<or> gs_tiebreaker_flag_ids s = [] \<or>
                 gs_tiebreaker_fuzzy_group_id s = [] then
           Inr (critiqued, downgrade_recommendation ''ITERATE'' s,
             ''tiebreaker_rejected_missing_fields'', ''iterate'')
         else if an_recurrence answers then approved
         else if gp_recommendation (an_tiebreaker answers) = ''TIEBREAKER'' then
           (if an_recurrence_retry answers then approved
            else Inr (critiqued, downgrade_recommendation ''ITERATE'' s,
              ''tiebreaker_rejected_no_signal'', ''iterate''))
         else res_bind (build_gate_artifact signals (an_tiebreaker answers)) (\<lambda>summary.
           let summary = summary\<lparr>gs_reprompted := gs_reprompted s,
                 gs_operator_settled_actions := gs_operator_settled_actions s\<rparr>
           in if gs_recommendation summary = ''PROCEED'' \<and> gs_passed summary
              then Inr (apply_state_projection state STATE_GATED, summary, ''success'', ''proceed'')
              else Inr (critiqued, summary, ''success'', ''iterate'')))"

subsection \<open>One round of the gate\<close>

definition build_reprompt_downgrade_route ::
    "gate_summary \<Rightarrow> string list \<Rightarrow> gate_summary \<times> gate_route" where
  "build_reprompt_downgrade_route s blocking =
     (s\<lparr>gs_recommendation := ''ITERATE'', gs_passed := False\<rparr>,
      fallback_route ''blocked'' ''reprompt_downgrade''
        [(''kind'', JStr ''reprompt_downgrade''),
         (''blocking_unresolved_ids'', JArr (map JStr blocking))])"

definition append_to_meta :: "string \<Rightarrow> json \<Rightarrow> plan \<Rightarrow> plan" where
  "append_to_meta field value state =
     (let meta = plan_meta state; old = (case as_list (dget meta field (JArr [])) of
            Some items \<Rightarrow> items | None \<Rightarrow> [])
      in with_meta state (AList.update field (JArr (old @ [value])) meta))"

definition post_revise_gate_allowed :: "plan \<Rightarrow> json_file \<Rightarrow> bool" where
  "post_revise_gate_allowed state latest_meta \<longleftrightarrow>
     dget state ''current_state'' JNull = JStr (state_value STATE_PLANNED) \<and>
     plan_iteration state \<ge> 2 \<and>
     (case latest_meta of
        Holds data \<Rightarrow> (case as_list (dget (dict_or_empty data) ''flags_addressed'' JNull) of
            Some items \<Rightarrow> items \<noteq> [] | None \<Rightarrow> False)
      | _ \<Rightarrow> False) \<and>
     history_of state \<noteq> [] \<and> dget (last (history_of state)) ''step'' JNull = JStr ''revise''"

definition sync_legacy_last_gate :: "gate_summary \<Rightarrow> plan \<Rightarrow> plan" where
  "sync_legacy_last_gate s state =
     (let state' = AList.update ''last_gate'' (JObj
            [(''recommendation'', JStr (gs_recommendation s)),
             (''reprompted'', JBool (gs_reprompted s)),
             (''passed'', JBool (gs_passed s)),
             (''preflight_results'',
              JObj (map (\<lambda>(name, passed). (name, JBool passed)) (gs_preflight_results s)))]) state
      in with_meta state' (AList.delete ''gate_artifact_recovery'' (plan_meta state')))"

definition finish_gate :: "string \<Rightarrow> gate_summary \<Rightarrow> plan \<Rightarrow> plan" where
  "finish_gate result s state =
     (let success = (gs_recommendation s \<noteq> ''PROCEED'' \<or> gs_passed s);
          settled = (if success \<and> result = ''success''
            then AList.delete ''resume_cursor'' (AList.update ''latest_failure'' JNull state) else state);
          entries = (case as_list (dget settled ''history'' (JArr [])) of
            Some items \<Rightarrow> items | None \<Rightarrow> [])
      in AList.update ''history'' (JArr (entries @
           [JObj [(''step'', JStr ''gate''), (''result'', JStr result),
                  (''recommendation'', JStr (gs_recommendation s))]])) settled)"

datatype gate_error =
    Gate_transition cli_error
  | Bad_actions_in_payload actions_error
  | Zero_recovery_gate_not_proceed

definition gate_attempt ::
    "gate_env \<Rightarrow> gate_signals \<Rightarrow> bool \<Rightarrow> gate_payload \<Rightarrow> plan \<times> flag list \<Rightarrow>
     gate_error + (gate_summary \<times> (plan \<times> flag list) \<times> gate_route)" where
  "gate_attempt env signals reprompted payload st =
     (case build_gate_artifact signals (normalize_gate_payload payload) of
        Inl e \<Rightarrow> Inl (Bad_actions_in_payload e)
      | Inr s \<Rightarrow>
          (let s = apply_operator_dispositions (ge_sha256 env) (fst st) (s\<lparr>gs_reprompted := reprompted\<rparr>);
               (st', route) = build_gate_route_signal env (workflow_robustness_from_state (fst st)) s st
           in Inr (s, st', route)))"

text \<open>After the first attempt: the tiebreaker is validated, or unresolved blocking flags are asked for
  again, once.\<close>

definition settle_attempt ::
    "gate_env \<Rightarrow> gate_signals \<Rightarrow> gate_answers \<Rightarrow> gate_summary \<Rightarrow> plan \<times> flag list \<Rightarrow> gate_route \<Rightarrow>
     gate_error + (gate_summary \<times> (plan \<times> flag list) \<times> gate_route)" where
  "settle_attempt env signals answers s st route =
     (if ge_zero_recovery_canary env \<and> rt_blocking_unresolved_ids route \<noteq> [] then
        Inl Zero_recovery_gate_not_proceed
      else if rt_result route = ''tiebreaker_recommended'' then
        (if ge_zero_recovery_canary env then
           Inr (s, st, route\<lparr>rt_result := ''zero_recovery_tiebreaker_terminal'', rt_signal := ''escalate''\<rparr>)
         else case validate_tiebreaker signals answers s st of
             Inl e \<Rightarrow> Inl (Bad_actions_in_payload e)
           | Inr (state', s', result, signal) \<Rightarrow>
               Inr (s', (state', snd st), route\<lparr>rt_result := result, rt_signal := signal\<rparr>))
      else if rt_blocking_unresolved_ids route \<noteq> [] then
        res_bind (gate_attempt env signals True (an_reprompt answers) st) (\<lambda>(s', st', route').
          if rt_blocking_unresolved_ids route' \<noteq> [] then
            (let (s'', route'') = build_reprompt_downgrade_route s' (rt_blocking_unresolved_ids route')
             in Inr (s'', st', route''))
          else Inr (s', st', route'))
      else Inr (s, st, route))"

text \<open>The entry from critiqued, or from planned after a revision that addressed flags; \<open>latest_meta\<close> is
  the metadata file of the latest plan.\<close>

definition enter_gate :: "plan \<Rightarrow> json_file \<Rightarrow> gate_error + plan" where
  "enter_gate state latest_meta =
     (if post_revise_gate_allowed state latest_meta
      then Inr (append_to_meta ''post_revise_gate_iterations'' (dget state ''iteration'' JNull) state)
      else case require_state state ''gate'' [state_value STATE_CRITIQUED] of
          Inl e \<Rightarrow> Inl (Gate_transition e) | Inr _ \<Rightarrow> Inr state)"

definition record_weighted_score :: "json \<Rightarrow> plan \<Rightarrow> plan" where
  "record_weighted_score weighted_score state =
     (let scores = (case as_list (dget (plan_meta state) ''weighted_scores'' (JArr [])) of
            Some items \<Rightarrow> items | None \<Rightarrow> [])
      in if int (length scores) < plan_iteration state
         then append_to_meta ''weighted_scores'' weighted_score state else state)"

text \<open>The plan and the registry after \<^verbatim>\<open>handle_gate\<close>, with the summary and the route.\<close>

definition handle_gate ::
    "gate_env \<Rightarrow> preflight_env \<Rightarrow> json_file \<Rightarrow> json \<Rightarrow> gate_answers \<Rightarrow> plan \<times> flag list \<Rightarrow>
     gate_error + ((plan \<times> flag list) \<times> gate_summary \<times> gate_route)" where
  "handle_gate env preflight latest_meta weighted_score answers st =
     res_bind (enter_gate (fst st) latest_meta) (\<lambda>state.
     let signals = build_gate_signals preflight state (snd st) in
     res_bind (gate_attempt env signals False (an_first answers)
                (record_weighted_score weighted_score state, snd st)) (\<lambda>(s, st', route).
     res_bind (settle_attempt env signals answers s st' route) (\<lambda>(s, (state', registry'), route).
       Inr ((finish_gate (rt_result route) s (sync_legacy_last_gate s state'), registry'), s, route))))"

end
