(* ===== verification/Gate_Facts.thy ===== *)
theory Gate_Facts
  imports Gate_Routing Plan_Lifecycle
begin

section \<open>Facts about the gate\<close>

text \<open>
  Lemmas on the definitions of \<open>Gate_Routing\<close>, and the properties of a round of the gate.
\<close>

subsection \<open>Updates of a plan\<close>

lemma dget_projection [simp]:
  "dget (apply_state_projection state s) k d = (if k = ''current_state'' then JStr (state_value s) else dget state k d)"
  by (simp add: apply_state_projection_def)

lemma dget_with_meta [simp]:
  "dget (with_meta state m) k d = (if k = ''meta'' then JObj m else dget state k d)"
  by (simp add: with_meta_def)

lemma plan_meta_updates [simp]:
  "plan_meta (apply_state_projection state s) = plan_meta state"
  "plan_meta (with_meta state m) = m"
  by (simp_all add: plan_meta_def)

lemma history_of_updates [simp]:
  "history_of (apply_state_projection state s) = history_of state"
  "history_of (with_meta state m) = history_of state"
  by (simp_all add: history_of_def)

lemma plan_iteration_updates [simp]:
  "plan_iteration (apply_state_projection state s) = plan_iteration state"
  "plan_iteration (with_meta state m) = plan_iteration state"
  by (simp_all add: plan_iteration_def)

lemma config_updates [simp]:
  "plan_config (apply_state_projection state s) = plan_config state"
  "plan_config (with_meta state m) = plan_config state"
  by (simp_all add: plan_config_def)

lemma prior_rounds_updates [simp]:
  "prior_iterate_rounds (apply_state_projection state s) = prior_iterate_rounds state"
  "prior_iterate_rounds (with_meta state m) = prior_iterate_rounds state"
  by (simp_all add: prior_iterate_rounds_def)

lemma no_net_progress_updates [simp]:
  "no_net_progress env (apply_state_projection state s') s = no_net_progress env state s"
  by (simp add: no_net_progress_def)

lemma append_to_meta_updates [simp]:
  "dget (append_to_meta f v state) k d = (if k = ''meta'' then JObj (plan_meta (append_to_meta f v state)) else dget state k d)"
  "plan_config (append_to_meta f v state) = plan_config state"
  "prior_iterate_rounds (append_to_meta f v state) = prior_iterate_rounds state"
  by (simp_all add: append_to_meta_def Let_def)

lemma finish_sync [simp]:
  "dget (finish_gate result s (sync_legacy_last_gate s state)) ''current_state'' JNull =
     dget state ''current_state'' JNull"
  "plan_config (finish_gate result s (sync_legacy_last_gate s state)) = plan_config state"
  "recommendation_of (finish_gate result s (sync_legacy_last_gate s state)) = JStr (gs_recommendation s)"
  "gate_passed (finish_gate result s (sync_legacy_last_gate s state)) = gs_passed s"
  by (auto simp: finish_gate_def sync_legacy_last_gate_def Let_def plan_config_def recommendation_of_def
      gate_passed_def gate_of_def dget_Cons)

lemma history_finish_sync [simp]:
  "history_of (finish_gate result s (sync_legacy_last_gate s state)) = history_of state @
     [[(''step'', JStr ''gate''), (''result'', JStr result), (''recommendation'', JStr (gs_recommendation s))]]"
  by (simp add: finish_gate_def sync_legacy_last_gate_def Let_def history_of_def split: option.split)

lemma prior_rounds_finish_sync [simp]:
  "prior_iterate_rounds (finish_gate result s (sync_legacy_last_gate s state)) =
     prior_iterate_rounds state + (if gs_recommendation s = ''ITERATE'' then 1 else 0)"
  by (simp add: prior_iterate_rounds_def is_iterate_round_def dget_Cons)

lemma topology_config_cong:
  "plan_config state = plan_config state' \<Longrightarrow> topology_config_of state = topology_config_of state'"
  by (simp add: topology_config_of_def workflow_robustness_from_state_def is_creative_mode_def
      plan_mode_def with_prep_from_state_def with_feedback_from_state_def)

lemma workflow_robustness_cong:
  "plan_config state = plan_config state' \<Longrightarrow>
   workflow_robustness_from_state state = workflow_robustness_from_state state'"
  by (simp add: workflow_robustness_from_state_def)

lemma no_revise_after_gate:
  assumes "plan_at state s" "s \<in> {STATE_GATED, STATE_BLOCKED, STATE_TIEBREAKER_PENDING}"
  shows "''revise'' \<notin> set (workflow_next state)"
  using assms by (auto simp: workflow_next_at matching_edges_def config_rows)

lemma revise_at_critiqued:
  assumes "plan_at state STATE_CRITIQUED"
  shows "''revise'' \<in> set (workflow_next state) \<longleftrightarrow>
    low_robustness (topology_config_of state) \<or> recommendation_of state = JStr ''ITERATE''"
  by (simp add: critiqued_next [OF assms] verdict_steps_def)

subsection \<open>Resolutions of flags\<close>

definition blocking_status :: "flag \<Rightarrow> bool" where
  "blocking_status f \<longleftrightarrow> fl_status f \<in> set FLAG_BLOCKING_STATUSES"

lemma update_last_distinct:
  "distinct (map fl_id fs) \<Longrightarrow> update_last i g fs = map (\<lambda>f. if fl_id f = i then g f else f) fs"
proof (induction fs)
  case (Cons f fs)
  then show ?case by (cases "fl_id f = i") (auto intro!: map_idI [symmetric] simp: image_iff)
qed simp

lemma fl_id_resolve_flag [simp]: "fl_id (resolve_flag r f) = fl_id f"
  and fl_severity_resolve_flag [simp]: "fl_severity (resolve_flag r f) = fl_severity f"
  by (simp_all add: resolve_flag_def mark_verified_def Let_def)

text \<open>With distinct ids, each record takes the resolutions of its id in order.\<close>

definition resolve_all :: "flag_resolution list \<Rightarrow> flag \<Rightarrow> flag" where
  "resolve_all rs f = fold resolve_flag (filter (\<lambda>r. rs_flag_id r = fl_id f) rs) f"

lemma resolve_all_simps [simp]:
  "resolve_all [] f = f"
  "resolve_all (r # rs) f = resolve_all rs (if rs_flag_id r = fl_id f then resolve_flag r f else f)"
  by (simp_all add: resolve_all_def)

lemma resolve_all_fields [simp]:
  "fl_id (resolve_all rs f) = fl_id f" "fl_severity (resolve_all rs f) = fl_severity f"
  by (induction rs arbitrary: f) simp_all

lemma update_flags_after_gate_pointwise:
  "distinct (map fl_id registry) \<Longrightarrow> update_flags_after_gate rs registry = map (resolve_all rs) registry"
proof (induction rs arbitrary: registry)
  case Nil
  then show ?case by (simp add: update_flags_after_gate_def)
next
  case (Cons r rs)
  let ?g = "\<lambda>f. if fl_id f = rs_flag_id r then resolve_flag r f else f"
  have "map fl_id (map ?g registry) = map fl_id registry" by simp
  then have "distinct (map fl_id (map ?g registry))" using Cons.prems by (simp only:)
  from Cons.IH [OF this] show ?case
    using Cons.prems by (simp add: update_flags_after_gate_def update_last_distinct o_def eq_commute)
qed

definition closing_action :: "flag_resolution \<Rightarrow> bool" where
  "closing_action r \<longleftrightarrow> rs_action r \<in> {''dispute'', ''accept_tradeoff'', ''verify_fixed''}"

lemma closing_action_closes: "closing_action r \<Longrightarrow> \<not> blocking_status (resolve_flag r f)"
  by (auto simp: closing_action_def blocking_status_def resolve_flag_def mark_verified_def Let_def
      FLAG_BLOCKING_STATUSES_def)

lemma resolve_flag_keeps_closed: "\<not> blocking_status f \<Longrightarrow> \<not> blocking_status (resolve_flag r f)"
  by (auto simp: blocking_status_def resolve_flag_def mark_verified_def Let_def FLAG_BLOCKING_STATUSES_def)

lemma resolve_all_keeps_closed: "\<not> blocking_status f \<Longrightarrow> \<not> blocking_status (resolve_all rs f)"
  by (induction rs arbitrary: f) (simp_all add: resolve_flag_keeps_closed)

lemma resolve_all_closes:
  "r \<in> set rs \<Longrightarrow> rs_flag_id r = fl_id f \<Longrightarrow> closing_action r \<Longrightarrow> \<not> blocking_status (resolve_all rs f)"
  by (induction rs arbitrary: f) (auto simp: resolve_all_keeps_closed closing_action_closes)

lemma valid_resolutions_close: "r \<in> set (valid_resolutions s) \<Longrightarrow> closing_action r"
  by (auto simp: valid_resolutions_def valid_resolution_def closing_action_def Let_def split: if_splits)

subsection \<open>A round, opened\<close>

lemma build_gate_artifact_fields:
  assumes "build_gate_artifact signals p = Inr s"
  shows "gs_recommendation s = gp_recommendation p"
    and "gs_passed s = (gp_recommendation p = ''PROCEED'' \<and> list_all snd (sg_preflight_results signals))"
    and "gs_unresolved_flags s = sg_unresolved_flags signals"
    and "gs_addressed_flags s = sg_addressed_flags signals"
    and "gs_flag_resolutions s = gp_flag_resolutions p"
    and "gs_preflight_results s = sg_preflight_results signals"
    and "gs_reprompted s = False"
  using assms by (auto simp: build_gate_artifact_def)

lemma dispositions_fields [simp]:
  "gs_recommendation (apply_operator_dispositions h st s) = gs_recommendation s"
  "gs_passed (apply_operator_dispositions h st s) = gs_passed s"
  "gs_unresolved_flags (apply_operator_dispositions h st s) = gs_unresolved_flags s"
  "gs_addressed_flags (apply_operator_dispositions h st s) = gs_addressed_flags s"
  "gs_flag_resolutions (apply_operator_dispositions h st s) = gs_flag_resolutions s"
  "gs_preflight_results (apply_operator_dispositions h st s) = gs_preflight_results s"
  by (simp_all add: apply_operator_dispositions_def)

text \<open>What one attempt returns: the summary of its payload over the signals, and its route.\<close>

lemma gate_attempt_Inr:
  assumes "gate_attempt env signals reprompted p (state, registry) = Inr (s, st', route)"
  shows "gs_recommendation s = gp_recommendation (normalize_gate_payload p)"
    and "gs_passed s = (gs_recommendation s = ''PROCEED'' \<and> list_all snd (sg_preflight_results signals))"
    and "gs_unresolved_flags s = sg_unresolved_flags signals"
    and "gs_addressed_flags s = sg_addressed_flags signals"
    and "gs_flag_resolutions s = gp_flag_resolutions p"
    and "gs_preflight_results s = sg_preflight_results signals"
    and "build_gate_route_signal env (workflow_robustness_from_state state) s (state, registry) = (st', route)"
proof -
  obtain s0 where s0: "build_gate_artifact signals (normalize_gate_payload p) = Inr s0"
    and s: "s = apply_operator_dispositions (ge_sha256 env) state (s0\<lparr>gs_reprompted := reprompted\<rparr>)"
    and r: "build_gate_route_signal env (workflow_robustness_from_state state) s (state, registry) = (st', route)"
    using assms by (auto simp: gate_attempt_def Let_def split: sum.splits prod.splits)
  note f = build_gate_artifact_fields [OF s0]
  show "gs_recommendation s = gp_recommendation (normalize_gate_payload p)"
    "gs_passed s = (gs_recommendation s = ''PROCEED'' \<and> list_all snd (sg_preflight_results signals))"
    "gs_unresolved_flags s = sg_unresolved_flags signals"
    "gs_addressed_flags s = sg_addressed_flags signals"
    "gs_preflight_results s = sg_preflight_results signals"
    by (simp_all add: s f)
  show "gs_flag_resolutions s = gp_flag_resolutions p"
    by (simp add: s f normalize_gate_payload_def Let_def)
  show "build_gate_route_signal env (workflow_robustness_from_state state) s (state, registry) = (st', route)"
    by (fact r)
qed

lemma route_fields [simp]:
  "rt_blocking_unresolved_ids (plain_route r g) = []" "rt_blocking_unresolved_ids (fallback_route r g p) = []"
  "rt_result (plain_route r g) = r" "rt_result (fallback_route r g p) = r"
  "rt_signal (plain_route r g) = g" "rt_signal (fallback_route r g p) = g"
  by (simp_all add: plain_route_def fallback_route_def)

lemma route_proceed_simps:
  "blocking_unresolved_ids s \<noteq> [] \<Longrightarrow>
     fst (route_proceed s state) = apply_state_projection state STATE_CRITIQUED"
  "blocking_unresolved_ids s = [] \<Longrightarrow> gs_passed s \<Longrightarrow>
     route_proceed s state = (open_gate state, plain_route ''success'' ''proceed'')"
  "blocking_unresolved_ids s = [] \<Longrightarrow> \<not> gs_passed s \<Longrightarrow>
     fst (route_proceed s state) = apply_state_projection state STATE_CRITIQUED"
  "rt_blocking_unresolved_ids (snd (route_proceed s state)) = blocking_unresolved_ids s"
  by (auto simp: route_proceed_def Let_def)

lemma route_proceed_signal:
  "build_gate_route_signal env r s (state, registry) = ((state', registry'), route) \<Longrightarrow>
   gs_recommendation s = ''PROCEED'' \<Longrightarrow>
   state' = fst (route_proceed s state) \<and> route = snd (route_proceed s state) \<and>
   registry' = update_flags_after_gate (valid_resolutions s) registry"
  by (auto simp: build_gate_route_signal_def Let_def split: prod.splits)

lemma route_other_signal:
  "build_gate_route_signal env r s (state, registry) = ((state', registry'), route) \<Longrightarrow>
   gs_recommendation s \<noteq> ''PROCEED'' \<Longrightarrow> registry' = registry \<and> rt_blocking_unresolved_ids route = []"
  by (auto simp: build_gate_route_signal_def Let_def route_iterate_def route_escalate_def
      critique_terminate_branch_def split: prod.splits if_splits)

lemma handle_gate_Inr:
  assumes "handle_gate env preflight latest_meta ws answers (state, registry) = Inr ((state', registry'), s, route)"
  obtains signals scored s1 mid registry1 route1 final where
    "signals = build_gate_signals preflight state registry"
    "plan_config scored = plan_config state" "prior_iterate_rounds scored = prior_iterate_rounds state"
    "gate_attempt env signals False (an_first answers) (scored, registry) = Inr (s1, (mid, registry1), route1)"
    "settle_attempt env signals answers s1 (mid, registry1) route1 = Inr (s, (final, registry'), route)"
    "state' = finish_gate (rt_result route) s (sync_legacy_last_gate s final)"
proof -
  have checks: "build_gate_signals preflight x registry = build_gate_signals preflight state registry"
    if "plan_config x = plan_config state" for x
    using that by (simp add: build_gate_signals_def run_gate_checks_def config_of_def)
  from assms obtain entered where entered: "enter_gate state latest_meta = Inr entered"
    and rest: "res_bind (gate_attempt env (build_gate_signals preflight entered registry) False (an_first answers)
                (record_weighted_score ws entered, registry)) (\<lambda>(s, st', route).
     res_bind (settle_attempt env (build_gate_signals preflight entered registry) answers s st' route)
       (\<lambda>(s, (state', registry'), route).
       Inr ((finish_gate (rt_result route) s (sync_legacy_last_gate s state'), registry'), s, route)))
       = Inr ((state', registry'), s, route)"
    unfolding handle_gate_def Let_def by auto
  have e: "plan_config entered = plan_config state" "prior_iterate_rounds entered = prior_iterate_rounds state"
    using entered by (auto simp: enter_gate_def split: if_splits sum.splits)
  have w: "plan_config (record_weighted_score ws entered) = plan_config state"
      "prior_iterate_rounds (record_weighted_score ws entered) = prior_iterate_rounds state"
    by (simp_all add: record_weighted_score_def Let_def e)
  from rest obtain s1 mid registry1 route1 final where
    "gate_attempt env (build_gate_signals preflight state registry) False (an_first answers)
       (record_weighted_score ws entered, registry) = Inr (s1, (mid, registry1), route1)"
    "settle_attempt env (build_gate_signals preflight state registry) answers s1 (mid, registry1) route1
       = Inr (s, (final, registry'), route)"
    "state' = finish_gate (rt_result route) s (sync_legacy_last_gate s final)"
    unfolding checks [OF e(1)] by auto
  with w that show thesis by blast
qed

text \<open>A view of a registry that keeps ids and severities and reopens nothing.\<close>

definition settles :: "(flag \<Rightarrow> flag) \<Rightarrow> bool" where
  "settles h \<longleftrightarrow> (\<forall>f. fl_id (h f) = fl_id f \<and> fl_severity (h f) = fl_severity f \<and>
     (blocking_status (h f) \<longrightarrow> blocking_status f))"

lemma settlesD:
  assumes "settles h"
  shows "fl_id (h f) = fl_id f" "fl_severity (h f) = fl_severity f"
    "blocking_status (h f) \<Longrightarrow> blocking_status f"
  using assms by (simp_all add: settles_def)

lemma settles_resolve_all: "settles (resolve_all rs)"
  using resolve_all_keeps_closed by (auto simp: settles_def)

lemma settles_id: "settles (\<lambda>f. f)"
  by (simp add: settles_def)

lemma map_ids_settles: "settles h \<Longrightarrow> map fl_id (map h registry) = map fl_id registry"
  by (simp add: settles_def)

lemma set_blocking_unresolved_ids: "set (blocking_unresolved_ids s) =
    (fl_id ` {f \<in> set (gs_unresolved_flags s). is_open_significant f} \<union>
     af_id ` set (significant_addressed s)) - rs_flag_id ` set (valid_resolutions s) - {[]}"
  by (auto simp: blocking_unresolved_ids_def Let_def nonempty_ids_def)

lemma proceed_attempt_cleans:
  assumes d: "distinct (map fl_id registry)" and ne: "[] \<notin> set (map fl_id registry)"
    and h: "settles h"
    and a: "gate_attempt env (build_gate_signals preflight st0 registry) rp p (state, map h registry)
              = Inr (s, (state', registry'), route)"
    and rec: "gs_recommendation s = ''PROCEED''"
    and gated: "dget state' ''current_state'' JNull = JStr ''gated''"
  shows "unresolved_significant_flags registry' = [] \<and> list_all snd (run_gate_checks preflight st0)"
proof -
  note f = gate_attempt_Inr [OF a]
  from route_proceed_signal [OF f(7) rec]
  have state': "state' = fst (route_proceed s state)"
    and reg: "registry' = map (resolve_all (valid_resolutions s)) (map h registry)"
    using update_flags_after_gate_pointwise [of "map h registry", unfolded map_ids_settles [OF h], OF d]
    by (simp_all del: map_map)
  have clear: "blocking_unresolved_ids s = []" and passed: "gs_passed s"
    using gated route_proceed_simps(1,3) [of s state] unfolding state' by force+
  have "\<not> (fl_severity g = Some ''significant'' \<and> blocking_status g)" if "g \<in> set registry'" for g
  proof
    assume g: "fl_severity g = Some ''significant'' \<and> blocking_status g"
    from that reg obtain f where f0: "f \<in> set registry" "g = resolve_all (valid_resolutions s) (h f)" by auto
    have sf: "fl_severity f = Some ''significant''" "blocking_status f"
      using g f0(2) settlesD [OF h, of f] resolve_all_keeps_closed [of "h f" "valid_resolutions s"] by auto
    have open_f: "f \<in> set (filter is_open_significant (gs_unresolved_flags s))"
      using f0(1) sf by (auto simp: f(3) build_gate_signals_def unresolved_significant_flags_def
          is_open_significant_def blocking_status_def SIGNIFICANT_SEVERITIES_def)
    have "fl_id f \<noteq> []" using ne f0(1) by force
    with open_f clear have "fl_id f \<in> rs_flag_id ` set (valid_resolutions s)"
      using set_blocking_unresolved_ids [of s] by auto
    then obtain r where "r \<in> set (valid_resolutions s)" "rs_flag_id r = fl_id (h f)"
      using settlesD(1) [OF h, of f] by auto
    from resolve_all_closes [OF this valid_resolutions_close [OF this(1)]] g f0(2) show False by simp
  qed
  then have "unresolved_significant_flags registry' = []"
    by (auto simp: unresolved_significant_flags_def filter_empty_conv blocking_status_def)
  moreover have "list_all snd (run_gate_checks preflight st0)"
    using passed f(2) by (simp add: build_gate_signals_def)
  ultimately show ?thesis ..
qed

lemma tiebreaker_result_iff:
  assumes "build_gate_route_signal env r s st = (st', route)"
  shows "rt_result route = ''tiebreaker_recommended'' \<longleftrightarrow> gs_recommendation s = ''TIEBREAKER''"
  using assms
  by (auto simp: build_gate_route_signal_def Let_def route_proceed_def route_iterate_def route_escalate_def
      critique_terminate_branch_def split: prod.splits if_splits)

lemma settle_attempt_cases:
  assumes "settle_attempt env signals answers s1 st1 route1 = Inr (s, st, route)"
    and "rt_result route1 \<noteq> ''tiebreaker_recommended''"
  shows "rt_blocking_unresolved_ids route1 = [] \<and> s = s1 \<and> st = st1 \<and> route = route1 \<or>
    rt_blocking_unresolved_ids route1 \<noteq> [] \<and>
    (\<exists>s2 route2. gate_attempt env signals True (an_reprompt answers) st1 = Inr (s2, st, route2) \<and>
       (if rt_blocking_unresolved_ids route2 \<noteq> []
        then (s, route) = build_reprompt_downgrade_route s2 (rt_blocking_unresolved_ids route2)
        else s = s2 \<and> route = route2))"
proof (cases "rt_blocking_unresolved_ids route1 = []")
  case True
  then show ?thesis using assms by (simp add: settle_attempt_def)
next
  case False
  then obtain s2 st2 route2 where
    a: "gate_attempt env signals True (an_reprompt answers) st1 = Inr (s2, st2, route2)"
    and r: "(if rt_blocking_unresolved_ids route2 \<noteq> [] then
            (let (s'', route'') = build_reprompt_downgrade_route s2 (rt_blocking_unresolved_ids route2)
             in Inr (s'', st2, route'')) else Inr (s2, st2, route2)) = (Inr (s, st, route) ::
               gate_error + (gate_summary \<times> (plan \<times> flag list) \<times> gate_route))"
    using assms by (auto simp: settle_attempt_def split: if_splits)
  have "st2 = st" using r by (auto split: if_splits prod.splits)
  then have "if rt_blocking_unresolved_ids route2 \<noteq> []
      then (s, route) = build_reprompt_downgrade_route s2 (rt_blocking_unresolved_ids route2)
      else s = s2 \<and> route = route2"
    using r by (auto split: if_splits prod.splits)
  with a False \<open>st2 = st\<close> show ?thesis by blast
qed

lemma downgrade_fields:
  "build_reprompt_downgrade_route s b = (s', route) \<Longrightarrow>
     gs_recommendation s' = ''ITERATE'' \<and> gs_passed s' = False \<and> rt_signal route = ''reprompt_downgrade''"
  by (auto simp: build_reprompt_downgrade_route_def)

lemma route_iterate_signal:
  assumes "build_gate_route_signal env r s (state, registry) = ((state', registry'), route)"
    and "gs_recommendation s = ''ITERATE''"
  shows "prior_iterate_rounds state' = prior_iterate_rounds state"
    and "plan_config state' = plan_config state"
    and "dget state' ''current_state'' JNull = JStr ''critiqued'' \<and>
           prior_iterate_rounds state < effective_critique_cap (ge_execution env) r \<or>
         dget state' ''current_state'' JNull \<in> {JStr ''gated'', JStr ''blocked''}"
    and "rt_blocking_unresolved_ids route = []"
proof -
  obtain streak mid where m: "critique_no_progress_streak env (apply_state_projection state STATE_CRITIQUED) s = (streak, mid)"
    by (cases "critique_no_progress_streak env (apply_state_projection state STATE_CRITIQUED) s") auto
  then have mid: "prior_iterate_rounds mid = prior_iterate_rounds state" "plan_config mid = plan_config state"
      "dget mid ''current_state'' JNull = JStr ''critiqued''"
    by (auto simp: critique_no_progress_streak_def Let_def split: if_splits)
  have "(state', route) = route_iterate env r s state"
    using assms by (simp add: build_gate_route_signal_def Let_def split: prod.splits)
  then show "prior_iterate_rounds state' = prior_iterate_rounds state"
    and "plan_config state' = plan_config state"
    and "dget state' ''current_state'' JNull = JStr ''critiqued'' \<and>
           prior_iterate_rounds state < effective_critique_cap (ge_execution env) r \<or>
         dget state' ''current_state'' JNull \<in> {JStr ''gated'', JStr ''blocked''}"
    and "rt_blocking_unresolved_ids route = []"
    by (auto simp: route_iterate_def m mid critique_terminate_branch_def Let_def split: if_splits)
qed

text \<open>A round whose first answer is ITERATE.\<close>

lemma iterate_round:
  assumes run: "handle_gate env preflight latest_meta ws answers (state, registry) =
      Inr ((state', registry'), s, route)"
    and first: "gp_recommendation (normalize_gate_payload (an_first answers)) = ''ITERATE''"
  shows "prior_iterate_rounds state' = prior_iterate_rounds state + 1"
    and "''revise'' \<in> set (workflow_next state') \<Longrightarrow>
      prior_iterate_rounds state < effective_critique_cap (ge_execution env) (workflow_robustness_from_state state)"
    and "dget state' ''current_state'' JNull \<in> {JStr ''critiqued'', JStr ''gated'', JStr ''blocked''}"
proof -
  obtain signals scored s1 mid registry1 route1 final where
    scored: "plan_config scored = plan_config state" "prior_iterate_rounds scored = prior_iterate_rounds state"
    and a1: "gate_attempt env signals False (an_first answers) (scored, registry) = Inr (s1, (mid, registry1), route1)"
    and settle: "settle_attempt env signals answers s1 (mid, registry1) route1 = Inr (s, (final, registry'), route)"
    and state': "state' = finish_gate (rt_result route) s (sync_legacy_last_gate s final)"
    using handle_gate_Inr [OF run] by metis
  note f1 = gate_attempt_Inr [OF a1]
  have rec: "gs_recommendation s1 = ''ITERATE''" using f1(1) first by simp
  note r = route_iterate_signal [OF f1(7) rec]
  have nt: "rt_result route1 \<noteq> ''tiebreaker_recommended''"
    using tiebreaker_result_iff [OF f1(7)] rec by simp
  have same: "s = s1" "final = mid"
    using settle_attempt_cases [OF settle nt] r(4) by auto
  have rob: "workflow_robustness_from_state scored = workflow_robustness_from_state state"
    using scored(1) by (rule workflow_robustness_cong)
  show "prior_iterate_rounds state' = prior_iterate_rounds state + 1"
    using state' same rec r(1) scored(2) by simp
  have cases: "dget state' ''current_state'' JNull = JStr ''critiqued'' \<and>
      prior_iterate_rounds state < effective_critique_cap (ge_execution env) (workflow_robustness_from_state state) \<or>
    dget state' ''current_state'' JNull \<in> {JStr ''gated'', JStr ''blocked''}"
    using r(3) state' same scored(2) rob by simp
  then show "dget state' ''current_state'' JNull \<in> {JStr ''critiqued'', JStr ''gated'', JStr ''blocked''}"
    by auto
  assume "''revise'' \<in> set (workflow_next state')"
  then have "\<not> plan_at state' STATE_GATED" "\<not> plan_at state' STATE_BLOCKED"
    using no_revise_after_gate by blast+
  with cases show "prior_iterate_rounds state < effective_critique_cap (ge_execution env) (workflow_robustness_from_state state)"
    by (auto simp: plan_at_def)
qed

text \<open>A run in which the model keeps answering ITERATE: rounds of the gate that offer another revision,
  and between them any steps that keep the recorded rounds.\<close>

inductive iterate_run :: "gate_env \<Rightarrow> string \<Rightarrow> plan \<Rightarrow> nat \<Rightarrow> plan \<Rightarrow> bool" for env r start where
  begin_run: "iterate_run env r start 0 start"
| other_steps: "iterate_run env r start n state \<Longrightarrow> prior_iterate_rounds state \<le> prior_iterate_rounds state' \<Longrightarrow>
    iterate_run env r start n state'"
| gate_round: "iterate_run env r start n state \<Longrightarrow> workflow_robustness_from_state state = r \<Longrightarrow>
    handle_gate env preflight latest_meta ws answers (state, registry) = Inr ((state', registry'), s, route) \<Longrightarrow>
    gp_recommendation (normalize_gate_payload (an_first answers)) = ''ITERATE'' \<Longrightarrow>
    ''revise'' \<in> set (workflow_next state') \<Longrightarrow> iterate_run env r start (Suc n) state'"

lemma iterate_run_counts:
  "iterate_run env r start n state \<Longrightarrow> prior_iterate_rounds start + int n \<le> prior_iterate_rounds state \<and>
     (n = 0 \<or> prior_iterate_rounds start + int n \<le> effective_critique_cap (ge_execution env) r)"
proof (induction rule: iterate_run.induct)
  case (gate_round n state preflight latest_meta ws answers registry state' registry' s route)
  from iterate_round [OF gate_round.hyps(3,4)] gate_round show ?case by auto
qed auto

lemma enter_gate_critiqued:
  assumes "plan_at state STATE_CRITIQUED"
  shows "enter_gate state latest_meta = Inr state"
proof -
  have c: "dget state ''current_state'' JNull = JStr ''critiqued''" using assms by (simp add: plan_at_def)
  then have m: "map_of state ''current_state'' = Some (JStr ''critiqued'')"
    by (simp add: dget_def split: option.splits)
  have "\<not> post_revise_gate_allowed state latest_meta" by (simp add: post_revise_gate_allowed_def c)
  then show ?thesis by (simp add: enter_gate_def require_state_def m)
qed

lemma dget_record_weighted_score [simp]:
  "plan_config (record_weighted_score ws state) = plan_config state"
  "prior_iterate_rounds (record_weighted_score ws state) = prior_iterate_rounds state"
  "k \<noteq> ''meta'' \<Longrightarrow> dget (record_weighted_score ws state) k d = dget state k d"
  by (simp_all add: record_weighted_score_def Let_def)

text \<open>An answer that proceeds and names no resolution of a flag.\<close>

definition proceeds_over :: "flag \<Rightarrow> gate_payload \<Rightarrow> bool" where
  "proceeds_over f p \<longleftrightarrow>
     gp_recommendation (normalize_gate_payload p) = ''PROCEED'' \<and>
     normalize_north_star_actions (JArr (gp_north_star_actions p)) = Inr [] \<and>
     fl_id f \<notin> rs_flag_id ` set (gp_flag_resolutions p)"

lemma gate_attempt_refused:
  assumes over: "proceeds_over f p"
    and flag: "f \<in> set (sg_unresolved_flags signals)" "is_open_significant f" "fl_id f \<noteq> []"
  obtains s route registry' where
    "gate_attempt env signals rp p (state, registry) =
       Inr (s, (apply_state_projection state STATE_CRITIQUED, registry'), route)"
    "rt_blocking_unresolved_ids route \<noteq> []" "rt_result route \<noteq> ''tiebreaker_recommended''"
proof -
  have "gp_north_star_actions (normalize_gate_payload p) = gp_north_star_actions p"
    by (simp add: normalize_gate_payload_def Let_def)
  then obtain s0 where s0: "build_gate_artifact signals (normalize_gate_payload p) = Inr s0"
    using over by (simp add: build_gate_artifact_def proceeds_over_def)
  then obtain s state' registry' route where
    a: "gate_attempt env signals rp p (state, registry) = Inr (s, (state', registry'), route)"
    by (cases "gate_attempt env signals rp p (state, registry)")
       (auto simp: gate_attempt_def Let_def split: sum.splits prod.splits)
  note f = gate_attempt_Inr [OF a]
  have rs: "gs_recommendation s = ''PROCEED''" using f(1) over by (simp add: proceeds_over_def)
  have "fl_id f \<in> set (blocking_unresolved_ids s)"
    using flag over f(3,5) unfolding set_blocking_unresolved_ids proceeds_over_def
    by (auto simp: valid_resolutions_def)
  then have ne: "blocking_unresolved_ids s \<noteq> []" by auto
  note r = route_proceed_signal [OF f(7) rs]
  have "state' = apply_state_projection state STATE_CRITIQUED" "rt_blocking_unresolved_ids route \<noteq> []"
    using r ne route_proceed_simps(1,4) [of s state] by auto
  with that a tiebreaker_result_iff [OF f(7)] rs show thesis by simp
qed

lemma config_of_record_weighted_score [simp]: "config_of (record_weighted_score ws state) = config_of state"
  by (simp add: config_of_def)

text \<open>The first answer asks for a tiebreaker the plan admits, with no recurring critique behind it.\<close>

definition tiebreaker_admitted :: "plan \<Rightarrow> gate_payload \<Rightarrow> bool" where
  "tiebreaker_admitted state p \<longleftrightarrow>
     gp_recommendation (normalize_gate_payload p) = ''TIEBREAKER'' \<and>
     normalize_north_star_actions (JArr (gp_north_star_actions p)) = Inr [] \<and>
     truthy (dget (config_of state) ''allow_tiebreaker'' (JBool True)) \<and>
     count_of (dget (plan_meta state) ''tiebreaker_count'' (JInt 0)) <
       count_of (dget (config_of state) ''max_tiebreakers_per_plan'' (JInt 2)) \<and>
     dget (config_of state) ''tiebreaker_blocklist'' (JArr []) = JArr [] \<and>
     gp_tiebreaker_question p \<noteq> [] \<and> gp_tiebreaker_flag_ids p \<noteq> [] \<and>
     gp_tiebreaker_fuzzy_group_id p \<noteq> []"

subsection \<open>Carried actions\<close>

lemma normalize_from_each: "normalize_from k values = Inr as \<Longrightarrow> a \<in> set as \<Longrightarrow>
    \<exists>value \<in> set values. normalize_north_star_action value = Inr a"
proof (induction "values" arbitrary: k as)
  case (Cons v vs)
  then show ?case by (auto split: sum.splits) blast+
qed simp

lemma normalized_actions_again:
  assumes "normalize_north_star_actions raw = Inr as"
  shows "normalize_north_star_actions (JArr (map JObj as)) = Inr as"
    and "a \<in> set as \<Longrightarrow> normalize_north_star_action (JObj a) = Inr a"
proof -
  show "normalize_north_star_actions (JArr (map JObj as)) = Inr as"
    using assms by (auto simp: normalize_north_star_actions_def normalize_from_again
        split: json.splits sum.splits)
  assume "a \<in> set as"
  then show "normalize_north_star_action (JObj a) = Inr a"
    using assms normalize_again by (auto simp: normalize_north_star_actions_def dest: normalize_from_each
        split: json.splits sum.splits)
qed

text \<open>What a normalized action is sure of.\<close>

lemma normalized_action:
  assumes "normalize_north_star_action (JObj a) = Inr a"
  obtains i where "dget a ''id'' JNull = JStr i" "text_of (JStr i) = Some i"
    and "map_of a ''resolved'' = None"
    and "is_blocking_category (dget a ''category'' JNull) \<Longrightarrow>
      is_blocking_action a \<and> dget a ''severity_source'' JNull = JStr ''schema''"
proof -
  from assms obtain i where i: "text_of (dget a ''id'' JNull) = Some i" and c: "a = carried_form a i"
    unfolding normalize_Inr_iff by blast
  have id: "dget a ''id'' JNull = JStr i" by (subst c) simp
  moreover have "text_of (JStr i) = Some i" using i text_of_stripped by blast
  moreover have "map_of a ''resolved'' = None" by (subst c) (simp add: carried_lookup)
  moreover have "is_blocking_action a \<and> dget a ''severity_source'' JNull = JStr ''schema''"
    if "is_blocking_category (dget a ''category'' JNull)"
  proof -
    have "action_severity a = (''blocking'', JStr ''schema'')" using that by (simp add: action_severity_def)
    then have "dget (carried_form a i) ''severity'' JNull = JStr ''blocking''"
      "dget (carried_form a i) ''severity_source'' JNull = JStr ''schema''" by simp_all
    then show ?thesis using c by (simp add: is_blocking_action_def)
  qed
  ultimately show thesis by (rule that)
qed

lemma map_filter_as_dict_JObj [simp]: "List.map_filter as_dict (map JObj xs) = xs"
  by (induction xs) simp_all

lemma in_map_filter: "y \<in> set (List.map_filter f xs) \<longleftrightarrow> (\<exists>x \<in> set xs. f x = Some y)"
proof (induction xs)
  case (Cons x xs)
  then show ?case by (cases "f x") auto
qed simp

definition settlement_keys :: "string set" where
  "settlement_keys = {''resolved'', ''status'', ''operator_disposition''}"

definition settled_action :: "(string \<times> json) list \<Rightarrow> (string \<times> json) list \<Rightarrow> (string \<times> json) list" where
  "settled_action disposition a = AList.update ''operator_disposition'' (JObj disposition)
     (AList.update ''status'' (JStr ''resolved'') (AList.update ''resolved'' (JBool True) a))"

lemma map_of_settled_action: "map_of (settled_action d a) k =
    (if k = ''operator_disposition'' then Some (JObj d) else if k = ''status'' then Some (JStr ''resolved'')
     else if k = ''resolved'' then Some (JBool True) else map_of a k)"
  by (simp add: settled_action_def update_conv)

lemma dget_settled_id [simp]: "dget (settled_action d b) ''id'' w = dget b ''id'' w"
  by (simp add: settled_action_def)

lemma settle_action_cases:
  assumes table: "\<And>r. r \<in> set recs \<Longrightarrow> \<exists>d b. r = settled_action d b \<and> b \<in> set actions"
    and ids: "\<And>b. b \<in> set actions \<Longrightarrow> \<exists>i. dget b ''id'' JNull = JStr i \<and> text_of (JStr i) = Some i"
    and a: "a \<in> set actions" "map_of a ''resolved'' = None"
  shows "(\<forall>k. k \<notin> settlement_keys \<longrightarrow>
            map_of (settle_action (settled_by_id (map JObj recs)) a) k = map_of a k) \<and>
    (map_of (settle_action (settled_by_id (map JObj recs)) a) ''resolved'' \<noteq> None \<longleftrightarrow>
       (\<exists>r \<in> set recs. dget r ''id'' JNull = dget a ''id'' JNull))"
proof -
  obtain i where i: "dget a ''id'' JNull = JStr i" "text_of (JStr i) = Some i" using ids a(1) by blast
  define entries where "entries = List.map_filter (\<lambda>d. map_option (\<lambda>aid. (aid, d)) (text_of (dget d ''id'' JNull))) recs"
  have rid: "text_of (dget r ''id'' JNull) = Some j \<longleftrightarrow> dget r ''id'' JNull = JStr j" if "r \<in> set recs" for r j
  proof -
    from table [OF that] obtain d b where "r = settled_action d b" "b \<in> set actions" by blast
    then have "dget r ''id'' JNull = dget b ''id'' JNull" by (simp add: settled_action_def)
    with ids [OF \<open>b \<in> set actions\<close>] show ?thesis by auto
  qed
  have entry: "(j, r) \<in> set entries \<longleftrightarrow> r \<in> set recs \<and> dget r ''id'' JNull = JStr j" for j r
    using rid by (auto simp: entries_def in_map_filter)
  have look: "map_of (settled_by_id (map JObj recs)) i = map_of (rev entries) i"
    by (simp add: settled_by_id_def entries_def map_of_dict_update split: option.split)
  show ?thesis
  proof (cases "map_of (rev entries) i")
    case None
    then have "\<not> (\<exists>r \<in> set recs. dget r ''id'' JNull = JStr i)"
      using entry [of i] by (force simp: map_of_eq_None_iff)
    with None show ?thesis by (simp add: settle_action_def i look a(2))
  next
    case (Some r)
    then have "(i, r) \<in> set entries" using map_of_SomeD by fastforce
    then have r: "r \<in> set recs" "dget r ''id'' JNull = JStr i" using entry by blast+
    then obtain d b where db: "r = settled_action d b" using table by blast
    have "dget r ''resolved'' JNull = JBool True" "dget r ''operator_disposition'' JNull = JObj d"
      by (simp_all add: db settled_action_def)
    then have "settle_action (settled_by_id (map JObj recs)) a = settled_action d a"
      by (simp add: settle_action_def i look Some settled_action_def)
    with r i show ?thesis
      by (auto simp: map_of_settled_action settlement_keys_def)
  qed
qed

end
