(* ===== verification/Gate_Properties.thy ===== *)
theory Gate_Properties
  imports Gate_Facts
begin

section \<open>Properties of the gate\<close>

text \<open>
  What one round of the gate guarantees, what bounds the loop of critique, gate and revision, and two
  paths on which the guarantees do not hold; and what a carried action is when it is read back.
\<close>

subsection \<open>A concrete gate\<close>

definition example_plan :: plan where
  "example_plan =
     [(''current_state'', JStr ''critiqued''), (''iteration'', JInt 1),
      (''config'', JObj [(''robustness'', JStr ''full'')]), (''meta'', JObj []), (''history'', JArr [])]"

definition example_env :: gate_env where
  "example_env =
     \<lparr>ge_execution = [(''max_critique_iterations'', 2)], ge_signals_file = (\<lambda>_. Absent),
      ge_sha256 = (\<lambda>s. s), ge_zero_recovery_canary = False\<rparr>"

definition example_preflight :: preflight_env where
  "example_preflight =
     \<lparr>pe_project_dir_exists = True, pe_project_dir_writable = True,
      pe_success_criteria = [JStr ''all tests pass''], pe_find_command = (\<lambda>name. Some name)\<rparr>"

definition example_flag :: flag where
  "example_flag = created_flag ''critique_v1.json''
     \<lparr>nf_id = ''FLAG-001'', nf_concern = ''the cache is not locked'', nf_category = ''correctness'',
      nf_severity_hint = ''likely-significant'', nf_evidence = ''write path''\<rparr>"

definition example_answer :: "string \<Rightarrow> flag_resolution list \<Rightarrow> gate_payload" where
  "example_answer recommendation resolutions =
     \<lparr>gp_recommendation = recommendation, gp_flag_resolutions = resolutions, gp_north_star_actions = [],
      gp_tiebreaker_question = ''lock or queue?'', gp_tiebreaker_flag_ids = [''FLAG-001''],
      gp_tiebreaker_fuzzy_group_id = ''group-1''\<rparr>"

definition example_answers :: "gate_payload \<Rightarrow> gate_answers" where
  "example_answers first =
     \<lparr>an_first = first, an_reprompt = example_answer ''PROCEED'' [],
      an_tiebreaker = example_answer ''PROCEED'' [], an_recurrence = False, an_recurrence_retry = False\<rparr>"

definition example_resolution :: flag_resolution where
  "example_resolution =
     \<lparr>rs_flag_id = ''FLAG-001'', rs_action = ''verify_fixed'',
      rs_evidence = ''step three now takes the lock before the write'', rs_rationale = []\<rparr>"

definition example_round :: "gate_payload \<Rightarrow>
    gate_error + ((plan \<times> flag list) \<times> gate_summary \<times> gate_route)" where
  "example_round first = handle_gate example_env example_preflight Absent (JFloat ''2.0'')
     (example_answers first) (example_plan, [example_flag])"

lemmas example_defs = example_round_def example_plan_def example_env_def example_preflight_def
  example_flag_def example_answer_def example_answers_def example_resolution_def

lemma example_proceed:
  "case example_round (example_answer ''proceed'' [example_resolution]) of
     Inl _ \<Rightarrow> False
   | Inr ((state', registry'), s, route) \<Rightarrow>
       dget state' ''current_state'' JNull = JStr ''gated'' \<and> gs_recommendation s = ''PROCEED'' \<and>
       registry' \<noteq> []"
  by code_simp

lemma example_iterate:
  "case example_round (example_answer ''ITERATE'' []) of
     Inl _ \<Rightarrow> False
   | Inr ((state', registry'), s, route) \<Rightarrow> ''revise'' \<in> set (workflow_next state')"
  by code_simp

definition example_notes :: plan where
  "example_notes = AList.update ''meta'' (JObj [(''notes'', JArr [JObj [(''source'', JStr ''user''),
     (''note'', JStr ''OPERATOR_DISPOSITION question_id=Q1 decision=APPROVED'')]])]) example_plan"

text \<open>Two actions of one id: a question for a human and a change of the plan.\<close>

definition example_actions :: gate_payload where
  "example_actions = (example_answer ''ESCALATE'' [])\<lparr>gp_north_star_actions :=
     [JObj [(''id'', JStr ''NS-1''), (''concern'', JStr ''may the baseline move?''),
            (''category'', JStr ''baselines''), (''action_type'', JStr ''add_human_halt''),
            (''evidence'', JStr ''step two''), (''question_id'', JStr ''Q1'')],
      JObj [(''id'', JStr ''NS-1''), (''concern'', JStr ''route around the check''),
            (''category'', JStr ''route_authority''), (''action_type'', JStr ''change_plan''),
            (''evidence'', JStr ''step four'')]]\<rparr>"

definition example_settled :: gate_summary where
  "example_settled = apply_operator_dispositions (\<lambda>s. s) example_notes
     (projr (build_gate_artifact (build_gate_signals example_preflight example_notes []) example_actions))"

definition example_carried :: "(string \<times> json) list list" where
  "example_carried =
     [[(''id'', JStr ''NS-1''), (''concern'', JStr ''may the baseline move?''),
       (''category'', JStr ''baselines''), (''action_type'', JStr ''add_human_halt''),
       (''severity'', JStr ''blocking''), (''severity_source'', JStr ''schema''),
       (''evidence'', JStr ''step two''), (''question_id'', JStr ''Q1'')],
      [(''id'', JStr ''NS-1''), (''concern'', JStr ''route around the check''),
       (''category'', JStr ''route_authority''), (''action_type'', JStr ''change_plan''),
       (''severity'', JStr ''blocking''), (''severity_source'', JStr ''schema''),
       (''evidence'', JStr ''step four'')]]"

lemma example_normalized: "normalize_north_star_actions (JArr (gp_north_star_actions example_actions)) = Inr example_carried"
  by code_simp
lemma example_carries: "gs_north_star_actions example_settled = example_carried"
  by (simp add: example_settled_def build_gate_artifact_def example_normalized apply_operator_dispositions_def)
lemma example_disposed: "operator_disposition_for_action (\<lambda>s. s) example_notes (JObj (example_carried ! 0)) \<noteq> None"
  by code_simp
lemma example_undisposed: "operator_disposition_for_action (\<lambda>s. s) example_notes (JObj (example_carried ! 1)) = None"
  by (simp add: operator_disposition_for_action_def example_carried_def dget_Cons)

subsection \<open>What an open gate guarantees\<close>

text \<open>C2. When a round of the gate ends with the recommendation PROCEED and the plan gated, and the
  model did not ask for a tiebreaker first, no flag of the registry it leaves is significant and still
  open, disputed or merely addressed, and every preflight check of the round passed. The flags of a
  registry are taken to have distinct, non-empty ids.\<close>

theorem proceeding_gate_leaves_no_blocker:
  assumes run: "handle_gate env preflight latest_meta ws answers (state, registry) =
      Inr ((state', registry'), s, route)"
    and ids: "distinct (map fl_id registry)" "[] \<notin> set (map fl_id registry)"
    and first: "gp_recommendation (normalize_gate_payload (an_first answers)) \<noteq> ''TIEBREAKER''"
    and gated: "dget state' ''current_state'' JNull = JStr ''gated''"
    and proceed: "gs_recommendation s = ''PROCEED''"
  shows "unresolved_significant_flags registry' = [] \<and> list_all snd (run_gate_checks preflight state)"
proof -
  obtain signals scored s1 mid registry1 route1 final where
    signals: "signals = build_gate_signals preflight state registry"
    and a1: "gate_attempt env signals False (an_first answers) (scored, registry) = Inr (s1, (mid, registry1), route1)"
    and settle: "settle_attempt env signals answers s1 (mid, registry1) route1 = Inr (s, (final, registry'), route)"
    and state': "state' = finish_gate (rt_result route) s (sync_legacy_last_gate s final)"
    using handle_gate_Inr [OF run] by metis
  note f1 = gate_attempt_Inr [OF a1]
  have at: "dget final ''current_state'' JNull = JStr ''gated''"
    using gated state' by simp
  have nt: "rt_result route1 \<noteq> ''tiebreaker_recommended''"
    using tiebreaker_result_iff [OF f1(7)] f1(1) first by simp
  from settle_attempt_cases [OF settle nt] show ?thesis
  proof (elim disjE conjE exE)
    assume "s = s1" "(final, registry') = (mid, registry1)" "route = route1"
    with proceed_attempt_cleans [OF ids settles_id, of env preflight state False "an_first answers" scored s mid registry1 route]
      a1 proceed at signals show ?thesis by (simp add: prod_eq_iff)
  next
    fix s2 route2
    assume b1: "rt_blocking_unresolved_ids route1 \<noteq> []"
      and a2: "gate_attempt env signals True (an_reprompt answers) (mid, registry1) = Inr (s2, (final, registry'), route2)"
      and fin: "if rt_blocking_unresolved_ids route2 \<noteq> []
        then (s, route) = build_reprompt_downgrade_route s2 (rt_blocking_unresolved_ids route2)
        else s = s2 \<and> route = route2"
    have "gs_recommendation s1 = ''PROCEED''"
      using b1 route_other_signal [OF f1(7)] by blast
    then have r1: "registry1 = map (resolve_all (valid_resolutions s1)) registry"
      using route_proceed_signal [OF f1(7)] update_flags_after_gate_pointwise [OF ids(1)] by simp
    have "s = s2"
      using fin proceed downgrade_fields [of s2 "rt_blocking_unresolved_ids route2" s route]
      by (cases "rt_blocking_unresolved_ids route2 = []") auto
    with proceed_attempt_cleans [OF ids settles_resolve_all, of env preflight state True "an_reprompt answers" mid
        "valid_resolutions s1" s final registry' route2] a2 proceed at signals r1
    show ?thesis by simp
  qed
qed

theorem proceeding_gate_leaves_no_blocker_witness:
  "case example_round (example_answer ''proceed'' [example_resolution]) of
     Inl _ \<Rightarrow> False
   | Inr ((_, registry'), _) \<Rightarrow>
       registry' \<noteq> [] \<and> unresolved_significant_flags registry' = [] \<and>
       list_all snd (run_gate_checks example_preflight example_plan)"
proof -
  let ?p = "example_answer ''proceed'' [example_resolution]"
  obtain state' registry' s route where r: "example_round ?p = Inr ((state', registry'), s, route)"
      "dget state' ''current_state'' JNull = JStr ''gated''" "gs_recommendation s = ''PROCEED''" "registry' \<noteq> []"
    using example_proceed by (auto split: sum.splits)
  have ids: "distinct (map fl_id [example_flag])" "[] \<notin> set (map fl_id [example_flag])" by code_simp+
  have first: "gp_recommendation (normalize_gate_payload (an_first (example_answers ?p))) \<noteq> ''TIEBREAKER''"
    by code_simp
  with proceeding_gate_leaves_no_blocker [OF r(1) [unfolded example_round_def] ids first r(2,3)] r(1,4)
  show ?thesis by simp
qed

subsection \<open>The critique loop\<close>

text \<open>C18. The critique loop is bounded by its cap: in a run in which the model answers ITERATE at every
  gate, and no other step drops a recorded round, the number of gates that send the plan back to a
  revision is at most the effective cap of the plan's robustness less the rounds recorded at the start.\<close>

theorem critique_loop_is_bounded:
  assumes "iterate_run env r start n state"
  shows "int n \<le> max 0 (effective_critique_cap (ge_execution env) r - prior_iterate_rounds start)"
  using iterate_run_counts [OF assms] by auto

definition example_iterated :: plan where
  "example_iterated = fst (fst (projr (example_round (example_answer ''ITERATE'' []))))"

lemma example_run: "iterate_run example_env ''full'' example_plan 1 example_iterated"
proof -
  obtain state' registry' s route where
    r: "example_round (example_answer ''ITERATE'' []) = Inr ((state', registry'), s, route)"
      "''revise'' \<in> set (workflow_next state')"
    using example_iterate by (auto split: sum.splits)
  have rob: "workflow_robustness_from_state example_plan = ''full''" by code_simp
  have rec: "gp_recommendation (normalize_gate_payload (an_first (example_answers (example_answer ''ITERATE'' [])))) = ''ITERATE''"
    by code_simp
  show ?thesis
    using gate_round [OF begin_run rob r(1) [unfolded example_round_def] rec r(2)]
    by (simp add: example_iterated_def r(1))
qed

theorem critique_loop_is_bounded_witness:
  "int 1 \<le> max 0 (effective_critique_cap (ge_execution example_env) ''full'' - prior_iterate_rounds example_plan)"
  by (rule critique_loop_is_bounded [OF example_run])

text \<open>The cap does not bound the loop when the model answers PROCEED: if both the first answer and the
  answer to the reprompt proceed over an open significant flag they do not resolve, the round is
  downgraded to ITERATE and the plan is sent back to a revision, even when the recorded rounds have
  already reached the cap.\<close>

theorem reprompted_gate_ignores_the_cap:
  assumes at: "plan_at state STATE_CRITIQUED" and canary: "\<not> ge_zero_recovery_canary env"
    and flag: "f \<in> set (unresolved_significant_flags registry)" "fl_id f \<noteq> []"
    and answers: "proceeds_over f (an_first answers)" "proceeds_over f (an_reprompt answers)"
    and cap: "effective_critique_cap (ge_execution env) (workflow_robustness_from_state state)
        \<le> prior_iterate_rounds state"
  shows "\<exists>state' registry' s route.
      handle_gate env preflight latest_meta ws answers (state, registry) = Inr ((state', registry'), s, route) \<and>
      rt_signal route = ''reprompt_downgrade'' \<and> ''revise'' \<in> set (workflow_next state') \<and>
      prior_iterate_rounds state' = prior_iterate_rounds state + 1"
proof -
  define signals where "signals = build_gate_signals preflight state registry"
  define scored where "scored = record_weighted_score ws state"
  have f: "f \<in> set (sg_unresolved_flags signals)" "is_open_significant f"
    using flag(1) by (auto simp: signals_def build_gate_signals_def unresolved_significant_flags_def
        is_open_significant_def SIGNIFICANT_SEVERITIES_def)
  obtain s1 route1 registry1 where
    a1: "gate_attempt env signals False (an_first answers) (scored, registry) =
       Inr (s1, (apply_state_projection scored STATE_CRITIQUED, registry1), route1)"
    and b1: "rt_blocking_unresolved_ids route1 \<noteq> []" "rt_result route1 \<noteq> ''tiebreaker_recommended''"
    using gate_attempt_refused [OF answers(1) f flag(2)] by metis
  define mid where "mid = apply_state_projection scored STATE_CRITIQUED"
  obtain s2 route2 registry2 where
    a2: "gate_attempt env signals True (an_reprompt answers) (mid, registry1) =
       Inr (s2, (apply_state_projection mid STATE_CRITIQUED, registry2), route2)"
    and b2: "rt_blocking_unresolved_ids route2 \<noteq> []"
    using gate_attempt_refused [OF answers(2) f flag(2)] by metis
  obtain s3 route3 where d: "build_reprompt_downgrade_route s2 (rt_blocking_unresolved_ids route2) = (s3, route3)"
    by (cases "build_reprompt_downgrade_route s2 (rt_blocking_unresolved_ids route2)") auto
  note d3 = downgrade_fields [OF d]
  define final where "final = finish_gate (rt_result route3) s3
      (sync_legacy_last_gate s3 (apply_state_projection mid STATE_CRITIQUED))"
  have "handle_gate env preflight latest_meta ws answers (state, registry) = Inr ((final, registry2), s3, route3)"
    using a1 a2 b1 b2 canary
    by (simp add: handle_gate_def enter_gate_critiqued [OF at] settle_attempt_def d final_def
        flip: signals_def scored_def mid_def)
  moreover have "plan_at final STATE_CRITIQUED" "recommendation_of final = JStr ''ITERATE''"
    using d3 by (simp_all add: plan_at_def final_def)
  then have "''revise'' \<in> set (workflow_next final)"
    by (simp add: revise_at_critiqued)
  moreover have "prior_iterate_rounds final = prior_iterate_rounds state + 1"
    using d3 by (simp add: final_def mid_def scored_def)
  ultimately show ?thesis using d3 by blast
qed

definition example_capped :: plan where
  "example_capped = AList.update ''history'' (JArr (replicate 2
     (JObj [(''step'', JStr ''gate''), (''recommendation'', JStr ''ITERATE'')]))) example_plan"

theorem reprompted_gate_ignores_the_cap_witness:
  "prior_iterate_rounds example_capped = effective_critique_cap (ge_execution example_env) ''full'' \<and>
   (\<exists>state' registry' s route.
      handle_gate example_env example_preflight Absent (JFloat ''2.0'')
        (example_answers (example_answer ''PROCEED'' [])) (example_capped, [example_flag])
          = Inr ((state', registry'), s, route) \<and>
      ''revise'' \<in> set (workflow_next state'))"
proof -
  have "plan_at example_capped STATE_CRITIQUED" "\<not> ge_zero_recovery_canary example_env" by code_simp+
  moreover have "example_flag \<in> set (unresolved_significant_flags [example_flag])" "fl_id example_flag \<noteq> []"
    by (simp_all add: example_defs created_flag_def unresolved_significant_flags_def resolve_severity_def
        SEVERITY_OF_HINT_def FLAG_BLOCKING_STATUSES_def)
  moreover have "proceeds_over example_flag (an_first (example_answers (example_answer ''PROCEED'' [])))"
    "proceeds_over example_flag (an_reprompt (example_answers (example_answer ''PROCEED'' [])))"
    by code_simp+
  moreover have rounds: "prior_iterate_rounds example_capped = effective_critique_cap (ge_execution example_env) ''full''"
    "workflow_robustness_from_state example_capped = ''full''"
    by code_simp+
  moreover have "effective_critique_cap (ge_execution example_env) (workflow_robustness_from_state example_capped)
      \<le> prior_iterate_rounds example_capped"
    using rounds by simp
  ultimately show ?thesis
    using reprompted_gate_ignores_the_cap [of example_capped example_env example_flag "[example_flag]"
        "example_answers (example_answer ''PROCEED'' [])" example_preflight Absent "JFloat ''2.0''"]
    by blast
qed

text \<open>A tiebreaker opens the gate without looking at the flags: when the model first asks for a
  tiebreaker the plan admits, no critique recurs, and the answer to the question about it is PROCEED with
  passing preflight checks, the plan is gated as a success with the registry unchanged, whatever
  significant flags are open in it.\<close>

theorem tiebreaker_reprompt_skips_the_flags:
  assumes at: "plan_at state STATE_CRITIQUED" and canary: "\<not> ge_zero_recovery_canary env"
    and first: "tiebreaker_admitted state (an_first answers)" "\<not> an_recurrence answers"
    and retry: "gp_recommendation (an_tiebreaker answers) = ''PROCEED''"
      "normalize_north_star_actions (JArr (gp_north_star_actions (an_tiebreaker answers))) = Inr []"
    and preflight: "list_all snd (run_gate_checks preflight state)"
  shows "\<exists>state' s route.
      handle_gate env preflight latest_meta ws answers (state, registry) = Inr ((state', registry), s, route) \<and>
      plan_at state' STATE_GATED \<and> gate_passed state' \<and> rt_result route = ''success'' \<and>
      gs_unresolved_flags s = unresolved_significant_flags registry"
proof -
  define signals where "signals = build_gate_signals preflight state registry"
  define scored where "scored = record_weighted_score ws state"
  let ?p = "normalize_gate_payload (an_first answers)"
  have p: "gp_recommendation ?p = ''TIEBREAKER''" "gp_tiebreaker_question ?p \<noteq> []"
      "gp_tiebreaker_flag_ids ?p \<noteq> []" "gp_tiebreaker_fuzzy_group_id ?p \<noteq> []"
      "normalize_north_star_actions (JArr (gp_north_star_actions ?p)) = Inr []"
    using first(1) by (simp_all add: tiebreaker_admitted_def normalize_gate_payload_def Let_def)
  obtain s0 where s0: "build_gate_artifact signals ?p = Inr s0"
    using p(5) by (simp add: build_gate_artifact_def)
  define s1 where "s1 = apply_operator_dispositions (ge_sha256 env) scored (s0\<lparr>gs_reprompted := False\<rparr>)"
  define mid where "mid = apply_state_projection scored STATE_CRITIQUED"
  let ?route = "plain_route ''tiebreaker_recommended'' ''tiebreaker''"
  have rec: "gs_recommendation s1 = ''TIEBREAKER''"
    by (simp add: s1_def build_gate_artifact_fields [OF s0] p)
  have a1: "gate_attempt env signals False (an_first answers) (scored, registry) = Inr (s1, (mid, registry), ?route)"
    by (simp add: gate_attempt_def s0 build_gate_route_signal_def rec mid_def flip: s1_def)
  have tie: "gs_tiebreaker_question s1 \<noteq> []" "gs_tiebreaker_flag_ids s1 \<noteq> []" "gs_tiebreaker_fuzzy_group_id s1 \<noteq> []"
    using s0 p by (auto simp: s1_def apply_operator_dispositions_def build_gate_artifact_def)
  obtain s2 where s2: "build_gate_artifact signals (an_tiebreaker answers) = Inr s2"
    using retry(2) by (simp add: build_gate_artifact_def)
  note f2 = build_gate_artifact_fields [OF s2]
  define s3 where "s3 = s2\<lparr>gs_reprompted := gs_reprompted s1,
      gs_operator_settled_actions := gs_operator_settled_actions s1\<rparr>"
  have s3: "gs_recommendation s3 = ''PROCEED''" "gs_passed s3"
      "gs_unresolved_flags s3 = unresolved_significant_flags registry"
    using retry(1) preflight by (simp_all add: s3_def f2 signals_def build_gate_signals_def)
  have s2': "gs_recommendation s2 = ''PROCEED''" "gs_passed s2"
    using s3(1,2) by (simp_all add: s3_def)
  have meta: "dget (plan_meta mid) ''tiebreaker_count'' (JInt 0) = dget (plan_meta state) ''tiebreaker_count'' (JInt 0)"
    and conf: "config_of mid = config_of state"
    by (simp_all add: mid_def scored_def record_weighted_score_def append_to_meta_def config_of_def Let_def)
  have v: "validate_tiebreaker signals answers s1 (mid, registry) =
      Inr (apply_state_projection mid STATE_GATED, s3, ''success'', ''proceed'')"
    using first retry(1) tie s3(1,2) s2'
    by (simp add: validate_tiebreaker_def Let_def meta conf tiebreaker_admitted_def s2 blocklisted_def
        list_ex_iff flip: s3_def)
  define final where "final = finish_gate ''success'' s3
      (sync_legacy_last_gate s3 (apply_state_projection mid STATE_GATED))"
  have "handle_gate env preflight latest_meta ws answers (state, registry) =
      Inr ((final, registry), s3, ?route\<lparr>rt_result := ''success'', rt_signal := ''proceed''\<rparr>)"
    using canary
    by (simp add: handle_gate_def enter_gate_critiqued [OF at] a1 settle_attempt_def v final_def
        flip: signals_def scored_def)
  then show ?thesis using s3 by (auto simp: plan_at_def final_def)
qed

theorem tiebreaker_reprompt_skips_the_flags_witness:
  "(\<exists>state' s route.
      example_round (example_answer ''TIEBREAKER'' []) = Inr ((state', [example_flag]), s, route) \<and>
      plan_at state' STATE_GATED) \<and>
   unresolved_significant_flags [example_flag] = [example_flag]"
proof -
  let ?a = "example_answers (example_answer ''TIEBREAKER'' [])"
  have "plan_at example_plan STATE_CRITIQUED" "\<not> ge_zero_recovery_canary example_env"
    "tiebreaker_admitted example_plan (an_first ?a)" "\<not> an_recurrence ?a"
    "gp_recommendation (an_tiebreaker ?a) = ''PROCEED''"
    "normalize_north_star_actions (JArr (gp_north_star_actions (an_tiebreaker ?a))) = Inr []"
    "list_all snd (run_gate_checks example_preflight example_plan)"
    by code_simp+
  note g = tiebreaker_reprompt_skips_the_flags [OF this, of Absent "JFloat ''2.0''" "[example_flag]"]
  have "unresolved_significant_flags [example_flag] = [example_flag]"
    by (simp add: example_defs created_flag_def unresolved_significant_flags_def resolve_severity_def
        SEVERITY_OF_HINT_def FLAG_BLOCKING_STATUSES_def)
  with g show ?thesis unfolding example_round_def by blast
qed

subsection \<open>Carried actions\<close>

text \<open>The carry a gate writes reads back as its actions: an action keeps everything but its
  settlement, it comes back resolved exactly when a user's recorded decision settles some action of the
  same id, and an action of a dangerous category is blocking by the authority of the schema.\<close>

theorem carried_actions_read_back:
  assumes "build_gate_artifact signals p = Inr s0" and s_def: "s = apply_operator_dispositions h state s0"
  shows "\<exists>as. read_carried_north_star_actions (Holds (JObj (build_gate_carry s))) gate = Inr as \<and>
    list_all2 (\<lambda>a a'.
        (\<forall>k. k \<notin> settlement_keys \<longrightarrow> map_of a' k = map_of a k) \<and>
        (map_of a' ''resolved'' \<noteq> None \<longleftrightarrow>
           (\<exists>b \<in> set (gs_north_star_actions s). dget b ''id'' JNull = dget a ''id'' JNull \<and>
              resolved_by_operator_disposition h state (JObj b))) \<and>
        (is_blocking_category (dget a ''category'' JNull) \<longrightarrow>
           is_blocking_action a \<and> dget a ''severity_source'' JNull = JStr ''schema''))
      (gs_north_star_actions s) as"
proof -
  define actions where "actions = gs_north_star_actions s"
  define recs where "recs = gs_operator_settled_actions s"
  have n: "normalize_north_star_actions (JArr (gp_north_star_actions p)) = Inr actions"
    using assms(1) by (auto simp: actions_def s_def apply_operator_dispositions_def build_gate_artifact_def)
  note again = normalized_actions_again [OF n]
  have recs: "recs = List.map_filter
      (\<lambda>a. map_option (\<lambda>d. settled_action d a) (operator_disposition_for_action h state (JObj a))) actions"
    by (simp add: recs_def actions_def s_def apply_operator_dispositions_def settled_action_def)
  have rec: "r \<in> set recs \<longleftrightarrow> (\<exists>b d. b \<in> set actions \<and>
      operator_disposition_for_action h state (JObj b) = Some d \<and> r = settled_action d b)" for r
    by (auto simp: recs in_map_filter)
  let ?as = "map (settle_action (settled_by_id (map JObj recs))) actions"
  have "read_carried_north_star_actions (Holds (JObj (build_gate_carry s))) gate = Inr ?as"
    by (simp add: carried_actions_def carried_list_def build_gate_carry_def again(1)
        reapply_carried_settlements_def dget_Cons flip: actions_def recs_def)
  moreover have "(\<forall>k. k \<notin> settlement_keys \<longrightarrow> map_of a' k = map_of a k) \<and>
        (map_of a' ''resolved'' \<noteq> None \<longleftrightarrow> (\<exists>b \<in> set actions. dget b ''id'' JNull = dget a ''id'' JNull \<and>
              resolved_by_operator_disposition h state (JObj b))) \<and>
        (is_blocking_category (dget a ''category'' JNull) \<longrightarrow>
           is_blocking_action a \<and> dget a ''severity_source'' JNull = JStr ''schema'')"
    if a: "a \<in> set actions" and a': "a' = settle_action (settled_by_id (map JObj recs)) a" for a a'
  proof -
    have i: "map_of a ''resolved'' = None"
        "is_blocking_category (dget a ''category'' JNull) \<Longrightarrow>
          is_blocking_action a \<and> dget a ''severity_source'' JNull = JStr ''schema''"
      using normalized_action [OF again(2) [OF a]] by metis+
    have ids: "\<exists>i. dget b ''id'' JNull = JStr i \<and> text_of (JStr i) = Some i" if "b \<in> set actions" for b
      using normalized_action [OF again(2) [OF that]] by metis
    have tab: "\<exists>d b. r = settled_action d b \<and> b \<in> set actions" if "r \<in> set recs" for r
      using that rec by blast
    have "(\<exists>r \<in> set recs. dget r ''id'' JNull = dget a ''id'' JNull) \<longleftrightarrow>
        (\<exists>b \<in> set actions. dget b ''id'' JNull = dget a ''id'' JNull \<and>
              resolved_by_operator_disposition h state (JObj b))"
      using rec by (auto simp: resolved_by_operator_disposition_def) (metis dget_settled_id)+
    with settle_action_cases [OF tab ids a i(1)] i(2) a' show ?thesis by simp
  qed
  then have "list_all2 (\<lambda>a a'.
        (\<forall>k. k \<notin> settlement_keys \<longrightarrow> map_of a' k = map_of a k) \<and>
        (map_of a' ''resolved'' \<noteq> None \<longleftrightarrow> (\<exists>b \<in> set actions. dget b ''id'' JNull = dget a ''id'' JNull \<and>
              resolved_by_operator_disposition h state (JObj b))) \<and>
        (is_blocking_category (dget a ''category'' JNull) \<longrightarrow>
           is_blocking_action a \<and> dget a ''severity_source'' JNull = JStr ''schema''))
      actions ?as"
    by (simp add: list_all2_conv_all_nth)
  ultimately show ?thesis unfolding actions_def by blast
qed

theorem carried_actions_read_back_witness:
  "(\<exists>as. read_carried_north_star_actions (Holds (JObj (build_gate_carry example_settled))) Absent = Inr as \<and>
      map_of (as ! 1) ''resolved'' \<noteq> None) \<and>
   \<not> resolved_by_operator_disposition (\<lambda>s. s) example_notes (JObj (gs_north_star_actions example_settled ! 1))"
proof -
  let ?signals = "build_gate_signals example_preflight example_notes []"
  have "\<not> isl (build_gate_artifact ?signals example_actions)"
    by (simp add: build_gate_artifact_def example_normalized)
  then have b: "build_gate_artifact ?signals example_actions = Inr (projr (build_gate_artifact ?signals example_actions))"
    by simp
  have two: "length (gs_north_star_actions example_settled) = 2"
    and shared: "dget (gs_north_star_actions example_settled ! 0) ''id'' JNull =
      dget (gs_north_star_actions example_settled ! 1) ''id'' JNull"
    by (simp_all add: example_carries example_carried_def dget_Cons)
  have settled: "resolved_by_operator_disposition (\<lambda>s. s) example_notes (JObj (gs_north_star_actions example_settled ! 0))"
    and unsettled: "\<not> resolved_by_operator_disposition (\<lambda>s. s) example_notes (JObj (gs_north_star_actions example_settled ! 1))"
    using example_disposed example_undisposed
    by (simp_all add: example_carries resolved_by_operator_disposition_def)
  have first: "gs_north_star_actions example_settled ! 0 \<in> set (gs_north_star_actions example_settled)"
    and second: "1 < length (gs_north_star_actions example_settled)"
    using two by simp_all
  from carried_actions_read_back [OF b example_settled_def, of Absent]
  obtain as where as: "read_carried_north_star_actions (Holds (JObj (build_gate_carry example_settled))) Absent = Inr as"
    and all: "list_all2 (\<lambda>a a'.
        (\<forall>k. k \<notin> settlement_keys \<longrightarrow> map_of a' k = map_of a k) \<and>
        (map_of a' ''resolved'' \<noteq> None \<longleftrightarrow>
           (\<exists>b \<in> set (gs_north_star_actions example_settled). dget b ''id'' JNull = dget a ''id'' JNull \<and>
              resolved_by_operator_disposition (\<lambda>s. s) example_notes (JObj b))) \<and>
        (is_blocking_category (dget a ''category'' JNull) \<longrightarrow>
           is_blocking_action a \<and> dget a ''severity_source'' JNull = JStr ''schema''))
      (gs_north_star_actions example_settled) as"
    by blast
  have "map_of (as ! 1) ''resolved'' \<noteq> None"
    using list_all2_nthD [OF all second] first shared settled by blast
  with as unsettled show ?thesis by blast
qed

end
