(* ===== verification/Canonical_Json.thy ===== *)
theory Canonical_Json
  imports Prelude
begin

section \<open>Canonical JSON\<close>

text \<open>
  The canonical serialisation all authority contracts share (\<^verbatim>\<open>run_authority/contracts.py\<close>):
  freezing of a JSON value, its plain form with sorted keys, and the text
  \<^verbatim>\<open>json.dumps(..., ensure_ascii=False, sort_keys=True, separators=(",", ":"))\<close> prints. The main
  result is that the text determines the value, so grouping records by their text is grouping
  them by equality.
\<close>

subsection \<open>Errors of the contracts\<close>

datatype contract_error =
    ContractError | IdentityConflict | RevisionConflict | IdempotencyConflict | PayloadConflict
  | ContractTypeError

subsection \<open>Freezing and sorting\<close>

fun freeze_json :: "json \<Rightarrow> contract_error + json"
  and freeze_list :: "json list \<Rightarrow> contract_error + json list"
  and freeze_items :: "(string \<times> json) list \<Rightarrow> contract_error + (string \<times> json) list" where
  "freeze_json (JFloat r) = (if finite_float r then Inr (JFloat r) else Inl ContractError)"
| "freeze_json (JObj kvs) =
     res_bind (freeze_items kvs) (\<lambda>fs. Inr (JObj (sort_key fst fs)))"
| "freeze_json (JArr xs) = res_bind (freeze_list xs) (\<lambda>ys. Inr (JArr ys))"
| "freeze_json v = Inr v"
| "freeze_list [] = Inr []"
| "freeze_list (x # xs) =
     res_bind (freeze_json x) (\<lambda>y. res_bind (freeze_list xs) (\<lambda>ys. Inr (y # ys)))"
| "freeze_items [] = Inr []"
| "freeze_items ((k, x) # kvs) =
     res_bind (freeze_json x) (\<lambda>y. res_bind (freeze_items kvs) (\<lambda>ys. Inr ((k, y) # ys)))"

fun plain :: "json \<Rightarrow> json"
  and plain_items :: "(string \<times> json) list \<Rightarrow> (string \<times> json) list" where
  "plain (JObj kvs) = JObj (sort_key fst (plain_items kvs))"
| "plain (JArr xs) = JArr (map plain xs)"
| "plain v = v"
| "plain_items [] = []"
| "plain_items ((k, v) # kvs) = (k, plain v) # plain_items kvs"

subsection \<open>The text of a value\<close>

text \<open>Escapes of \<^verbatim>\<open>json.dumps\<close> with \<^verbatim>\<open>ensure_ascii=False\<close>: quote, backslash and the control
  characters below 0x20; every other character is copied.\<close>

definition hex_digit :: "nat \<Rightarrow> char" where
  "hex_digit d = (if d < 10 then char_of (48 + d) else char_of (87 + d))"

definition json_escape :: "char \<Rightarrow> string" where
  "json_escape c =
     (if c = CHR 0x22 then [CHR 0x5C, CHR 0x22]
      else if c = CHR 0x5C then [CHR 0x5C, CHR 0x5C]
      else if c = CHR 0x0A then [CHR 0x5C, CHR ''n'']
      else if c = CHR 0x0D then [CHR 0x5C, CHR ''r'']
      else if c = CHR 0x09 then [CHR 0x5C, CHR ''t'']
      else if c = CHR 0x0C then [CHR 0x5C, CHR ''f'']
      else if c = CHR 0x08 then [CHR 0x5C, CHR ''b'']
      else if of_char c < (32 :: nat) then
        [CHR 0x5C, CHR ''u'', CHR ''0'', CHR ''0'',
         hex_digit (of_char c div 16), hex_digit (of_char c mod 16)]
      else [c])"

definition json_quote :: "string \<Rightarrow> string" where
  "json_quote s = CHR 0x22 # concat (map json_escape s) @ [CHR 0x22]"

fun render :: "json \<Rightarrow> string"
  and render_list :: "json list \<Rightarrow> string"
  and render_items :: "(string \<times> json) list \<Rightarrow> string" where
  "render JNull = ''null''"
| "render (JBool b) = (if b then ''true'' else ''false'')"
| "render (JInt i) = int_str i"
| "render (JFloat r) = r"
| "render (JStr s) = json_quote s"
| "render (JArr xs) = CHR ''['' # render_list xs @ '']''"
| "render (JObj kvs) = CHR ''{'' # render_items kvs @ ''}''"
| "render_list [] = []"
| "render_list [x] = render x"
| "render_list (x # y # ys) = render x @ CHR '','' # render_list (y # ys)"
| "render_items [] = []"
| "render_items [(k, x)] = json_quote k @ CHR '':'' # render x"
| "render_items ((k, x) # kv # kvs) =
     json_quote k @ CHR '':'' # render x @ CHR '','' # render_items (kv # kvs)"

definition canonical_json :: "json \<Rightarrow> string" where
  "canonical_json v = render (plain v)"

text \<open>The digest function (SHA-256 of the UTF-8 text) is a parameter.\<close>

definition payload_digest :: "(string \<Rightarrow> string) \<Rightarrow> json \<Rightarrow> contract_error + string" where
  "payload_digest sha payload =
     res_bind (freeze_json payload)
       (\<lambda>frozen. case as_dict frozen of
          None \<Rightarrow> Inl ContractError
        | Some _ \<Rightarrow> Inr (sha (canonical_json frozen)))"

subsection \<open>Strings are prefix-free\<close>

lemma hex_digit_inject:
  assumes "a < 16" and "b < 16" and "hex_digit a = hex_digit b"
  shows "a = b"
proof -
  have v: "of_char (hex_digit d) = (if d < 10 then 48 + d else 87 + d :: nat)" if "d < 16" for d
    using that by (simp add: hex_digit_def)
  have "of_char (hex_digit a) = (of_char (hex_digit b) :: nat)"
    using assms(3) by simp
  then show ?thesis
    using assms(1,2) by (simp add: v split: if_splits)
qed

lemma of_char_inject: "(of_char c :: nat) = of_char d \<Longrightarrow> c = d"
  by (metis char_of_char)

text \<open>The escape of a control character that has no short form.\<close>

lemma control_escape_inject:
  assumes "(of_char c :: nat) < 32" and "(of_char d :: nat) < 32"
    and "hex_digit (of_char c div 16) = hex_digit (of_char d div 16)"
    and "hex_digit (of_char c mod 16) = hex_digit (of_char d mod 16)"
  shows "c = d"
proof -
  have "of_char c div 16 = (of_char d div 16 :: nat)"
    by (rule hex_digit_inject [OF _ _ assms(3)]) (use assms(1,2) in auto)
  moreover have "of_char c mod 16 = (of_char d mod 16 :: nat)"
    by (rule hex_digit_inject [OF _ _ assms(4)]) auto
  ultimately have "(of_char c :: nat) = of_char d"
    by (metis div_mult_mod_eq)
  then show ?thesis by (rule of_char_inject)
qed

lemma json_escape_nonempty [simp]: "json_escape c \<noteq> []"
  by (simp add: json_escape_def)

lemma hd_json_escape: "hd (json_escape c) \<noteq> CHR 0x22"
  by (simp add: json_escape_def)

lemma json_escape_prefix:
  "json_escape c @ u = json_escape d @ v \<Longrightarrow> c = d \<and> u = v"
  by (auto simp: json_escape_def split: if_splits intro: control_escape_inject)

lemma escaped_prefix:
  "concat (map json_escape s) @ CHR 0x22 # u = concat (map json_escape t) @ CHR 0x22 # v \<Longrightarrow>
   s = t \<and> u = v"
proof (induction s arbitrary: t)
  case Nil
  show ?case
  proof (cases t)
    case (Cons d t')
    with Nil have "hd (json_escape d) = CHR 0x22"
      by (cases "json_escape d") auto
    with hd_json_escape show ?thesis by blast
  qed (use Nil in simp)
next
  case (Cons c s)
  show ?case
  proof (cases t)
    case Nil
    with Cons.prems have "hd (json_escape c) = CHR 0x22"
      by (cases "json_escape c") auto
    with hd_json_escape show ?thesis by blast
  next
    case (Cons d t')
    with Cons.prems have "json_escape c @ (concat (map json_escape s) @ CHR 0x22 # u) =
        json_escape d @ (concat (map json_escape t') @ CHR 0x22 # v)"
      by simp
    from json_escape_prefix [OF this] Cons.IH [of t'] Cons show ?thesis by simp
  qed
qed

lemma json_quote_prefix: "json_quote s @ u = json_quote t @ v \<Longrightarrow> s = t \<and> u = v"
  using escaped_prefix [of s u t v] by (simp add: json_quote_def)

subsection \<open>Well-formed values\<close>

text \<open>The characters of a number's text, and the \<^verbatim>\<open>repr\<close> of a finite float: it has a point or an
  exponent.\<close>

definition num_char :: "char \<Rightarrow> bool" where
  "num_char c \<longleftrightarrow> digit_char c \<or> c \<in> {CHR ''-'', CHR ''+'', CHR ''.'', CHR ''e''}"

definition float_text :: "string \<Rightarrow> bool" where
  "float_text r \<longleftrightarrow> (\<forall>c \<in> set r. num_char c) \<and> (CHR ''.'' \<in> set r \<or> CHR ''e'' \<in> set r)"

fun wf_json :: "json \<Rightarrow> bool" where
  "wf_json (JFloat r) = float_text r"
| "wf_json (JArr xs) = list_all wf_json xs"
| "wf_json (JObj kvs) = list_all (\<lambda>(k, v). wf_json v) kvs"
| "wf_json _ = True"

lemma int_str_num_char: "c \<in> set (int_str i) \<Longrightarrow> num_char c"
  by (auto simp: int_str_def num_char_def dest: nat_str_digits split: if_splits)

lemma int_str_not_float: "\<not> float_text (int_str i)"
  using not_digit_char
  by (auto simp: float_text_def int_str_def dest: nat_str_digits split: if_splits)

text \<open>A number ends at the first character that is not one of its own.\<close>

definition delimited :: "string \<Rightarrow> bool" where
  "delimited u \<longleftrightarrow> (u = [] \<or> \<not> num_char (hd u))"

lemma num_prefix:
  assumes "\<forall>c \<in> set a. num_char c" and "\<forall>c \<in> set b. num_char c" and "delimited u" and "delimited v"
    and "a @ u = b @ v"
  shows "a = b \<and> u = v"
proof -
  have "takeWhile num_char (a @ u) = a"
    using assms(1,3) by (cases u) (auto simp: delimited_def takeWhile_append)
  moreover have "takeWhile num_char (b @ v) = b"
    using assms(2,4) by (cases v) (auto simp: delimited_def takeWhile_append)
  ultimately show ?thesis using assms(5) by simp
qed

lemma delimited_simps [simp]:
  "delimited []" "delimited (CHR '','' # u)" "delimited (CHR '']'' # u)" "delimited (CHR ''}'' # u)"
  by (simp_all add: delimited_def num_char_def digit_char_def)

text \<open>The kind of a value shows in the first character of its text.\<close>

lemma float_text_Cons: "float_text r \<Longrightarrow> \<exists>c w. r = c # w \<and> num_char c"
  by (cases r) (auto simp: float_text_def)

lemma int_str_nonempty [simp]: "int_str i \<noteq> []"
  by (simp add: int_str_def)

lemma int_str_Cons: "\<exists>c w. int_str i = c # w \<and> num_char c"
  using int_str_num_char [of _ i] by (cases "int_str i") auto

fun starts :: "json \<Rightarrow> char \<Rightarrow> bool" where
  "starts JNull c = (c = CHR ''n'')"
| "starts (JBool b) c = (c = (if b then CHR ''t'' else CHR ''f''))"
| "starts (JInt _) c = num_char c"
| "starts (JFloat _) c = num_char c"
| "starts (JStr _) c = (c = CHR 0x22)"
| "starts (JArr _) c = (c = CHR ''['')"
| "starts (JObj _) c = (c = CHR ''{'')"

lemma render_starts: "wf_json x \<Longrightarrow> \<exists>c w. render x = c # w \<and> starts x c"
  using int_str_Cons float_text_Cons by (cases x) (auto simp: json_quote_def)

lemma not_num_chars [simp]:
  "\<not> num_char CHR ''n''" "\<not> num_char CHR ''t''" "\<not> num_char CHR ''f''" "\<not> num_char CHR 0x22"
  "\<not> num_char CHR ''[''" "\<not> num_char CHR ''{''" "\<not> num_char CHR '']''" "\<not> num_char CHR ''}''"
  by (simp_all add: num_char_def digit_char_def)

fun is_number :: "json \<Rightarrow> bool" where
  "is_number (JInt _) = True"
| "is_number (JFloat _) = True"
| "is_number _ = False"

lemma number_chars: "is_number x \<Longrightarrow> wf_json x \<Longrightarrow> c \<in> set (render x) \<Longrightarrow> num_char c"
  by (cases x) (auto simp: float_text_def dest: int_str_num_char)

lemma number_text_inject:
  assumes "is_number x" and "is_number y" and "wf_json x" and "wf_json y" and "render x = render y"
  shows "x = y"
  using assms by (cases x; cases y) (auto simp: int_str_not_float)

lemma number_prefix:
  assumes "is_number x" and "wf_json x" and "wf_json y" and "delimited u" and "delimited v"
    and eq: "render x @ u = render y @ v"
  shows "x = y \<and> u = v"
proof -
  obtain c w where c: "render x = c # w" "starts x c"
    using render_starts [OF assms(2)] by blast
  obtain d z where d: "render y = d # z" "starts y d"
    using render_starts [OF assms(3)] by blast
  have y: "is_number y"
    using assms(1) c d eq by (cases x; cases y) (auto split: if_splits)
  have "render x = render y \<and> u = v"
    by (rule num_prefix [OF _ _ assms(4,5) eq])
      (use number_chars [OF assms(1,2)] number_chars [OF y assms(3)] in auto)
  with number_text_inject [OF assms(1) y assms(2,3)] show ?thesis by simp
qed

lemma render_kind:
  assumes "wf_json x" and "wf_json y" and "render x @ u = render y @ v" and "starts x c"
  shows "starts y c \<or> is_number x \<and> is_number y"
proof -
  obtain c' w where "render x = c' # w" "starts x c'"
    using render_starts [OF assms(1)] by blast
  moreover obtain d z where "render y = d # z" "starts y d"
    using render_starts [OF assms(2)] by blast
  ultimately show ?thesis
    using assms(3,4) by (cases x; cases y) (auto split: if_splits)
qed

lemma list_shape [case_names 1 2 3]:
  obtains "xs = []" | x where "xs = [x]" | x y ys where "xs = x # y # ys"
  by (rule remdups_adj.cases [of xs]) blast+

lemma item_shape [case_names 1 2 3]:
  obtains "xs = []" | k x where "xs = [(k, x)]" | k x y ys where "xs = (k, x) # y # ys"
  by (rule list_shape [of xs]) (metis surj_pair)+

lemma render_list_not_bracket:
  "list_all wf_json xs \<Longrightarrow> xs \<noteq> [] \<Longrightarrow> render_list xs @ u \<noteq> CHR '']'' # v"
proof (cases xs rule: list_shape)
  case (2 x)
  assume "list_all wf_json xs"
  with 2 obtain c w where "render x = c # w" "starts x c"
    using render_starts by fastforce
  with 2 show ?thesis by (cases x) (auto split: if_splits)
next
  case (3 x y ys)
  assume "list_all wf_json xs"
  with 3 obtain c w where "render x = c # w" "starts x c"
    using render_starts by fastforce
  with 3 show ?thesis by (cases x) (auto split: if_splits)
qed simp

lemma render_items_not_brace: "kvs \<noteq> [] \<Longrightarrow> render_items kvs @ u \<noteq> CHR ''}'' # v"
  by (cases kvs rule: item_shape) (auto simp: json_quote_def)

text \<open>The text of a well-formed value, followed by something that cannot continue a number,
  determines the value and where it ends.\<close>

lemma render_prefix:
  "wf_json x \<Longrightarrow> wf_json y \<Longrightarrow> delimited u \<Longrightarrow> delimited v \<Longrightarrow>
     render x @ u = render y @ v \<Longrightarrow> x = y \<and> u = v"
  "list_all wf_json xs \<Longrightarrow> list_all wf_json ys \<Longrightarrow>
     render_list xs @ CHR '']'' # u = render_list ys @ CHR '']'' # v \<Longrightarrow> xs = ys \<and> u = v"
  "list_all (\<lambda>(k, v). wf_json v) kvs \<Longrightarrow> list_all (\<lambda>(k, v). wf_json v) ws \<Longrightarrow>
     render_items kvs @ CHR ''}'' # u = render_items ws @ CHR ''}'' # v \<Longrightarrow> kvs = ws \<and> u = v"
proof (induction x and xs and kvs arbitrary: y u v and ys u v and ws u v
    rule: render_render_list_render_items.induct)
  case 1
  from render_kind [OF 1(1,2,5), of "CHR ''n''"] 1(5) show ?case by (cases y) (auto split: if_splits)
next
  case (2 b)
  from render_kind [OF 2(1,2,5), of "if b then CHR ''t'' else CHR ''f''"] 2(5) show ?case
    by (cases y) (auto split: if_splits)
next
  case (3 i)
  then show ?case using number_prefix [of "JInt i" y u v] by simp
next
  case (4 r)
  then show ?case using number_prefix [of "JFloat r" y u v] by simp
next
  case (5 s)
  from render_kind [OF 5(1,2,5), of "CHR 0x22"] obtain t where "y = JStr t"
    by (cases y) (auto split: if_splits)
  with json_quote_prefix [of s u t v] 5(5) show ?case by simp
next
  case (6 xs)
  from render_kind [OF 6(2,3,6), of "CHR ''[''"] obtain ys where "y = JArr ys"
    by (cases y) (auto split: if_splits)
  with 6(1) [of ys u v] 6(2-) show ?case by simp
next
  case (7 kvs)
  from render_kind [OF 7(2,3,6), of "CHR ''{''"] obtain ws where "y = JObj ws"
    by (cases y) (auto split: if_splits)
  with 7(1) [of ws u v] 7(2-) show ?case by simp
next
  case 8
  then show ?case using render_list_not_bracket [of ys] by (cases ys) (auto dest: sym)
next
  case (9 x)
  show ?case
  proof (cases ys rule: list_shape)
    case 1
    with 9 show ?thesis using render_list_not_bracket [of "[x]"] by auto
  next
    case (2 y)
    with 9(1) [of y "CHR '']'' # u" "CHR '']'' # v"] 9(2-) show ?thesis by simp
  next
    case (3 y z zs)
    with 9(1) [of y "CHR '']'' # u" "CHR '','' # render_list (z # zs) @ CHR '']'' # v"] 9(2-)
    show ?thesis by simp
  qed
next
  case (10 x x' xs)
  let ?r = "CHR '','' # render_list (x' # xs) @ CHR '']'' # u"
  show ?case
  proof (cases ys rule: list_shape)
    case 1
    with 10(3,5) show ?thesis using render_list_not_bracket [of "x # x' # xs"] by auto
  next
    case (2 y)
    with 10(1) [of y ?r "CHR '']'' # v"] 10(3-) show ?thesis by simp
  next
    case (3 y z zs)
    with 10(1) [of y ?r "CHR '','' # render_list (z # zs) @ CHR '']'' # v"] 10(3-)
    have "x = y" "render_list (x' # xs) @ CHR '']'' # u = render_list (z # zs) @ CHR '']'' # v"
      by simp_all
    with 10(2) [of "z # zs" u v] 10(3,4) 3 show ?thesis by simp
  qed
next
  case 11
  then show ?case using render_items_not_brace [of ws] by (cases ws) (auto dest: sym)
next
  case (12 k x)
  show ?case
  proof (cases ws rule: item_shape)
    case 1
    with 12(4) show ?thesis using render_items_not_brace [of "[(k, x)]"] by auto
  next
    case (2 k' y)
    with 12(4) have "k = k' \<and> render x @ CHR ''}'' # u = render y @ CHR ''}'' # v"
      using json_quote_prefix [of k "CHR '':'' # render x @ CHR ''}'' # u" k'] by simp
    with 12(1) [of y "CHR ''}'' # u" "CHR ''}'' # v"] 12(2,3) 2 show ?thesis by simp
  next
    case (3 k' y w ws')
    let ?s = "CHR '','' # render_items (w # ws') @ CHR ''}'' # v"
    from 3 12(4) have "render x @ CHR ''}'' # u = render y @ ?s"
      using json_quote_prefix [of k "CHR '':'' # render x @ CHR ''}'' # u" k'] by simp
    with 12(1) [of y "CHR ''}'' # u" ?s] 12(2,3) 3 show ?thesis by simp
  qed
next
  case (13 k x kv kvs)
  let ?r = "CHR '','' # render_items (kv # kvs) @ CHR ''}'' # u"
  show ?case
  proof (cases ws rule: item_shape)
    case 1
    with 13(5) show ?thesis using render_items_not_brace [of "(k, x) # kv # kvs"] by auto
  next
    case (2 k' y)
    with 13(5) have "render x @ ?r = render y @ CHR ''}'' # v"
      using json_quote_prefix [of k "CHR '':'' # render x @ ?r" k'] by simp
    with 13(1) [of y ?r "CHR ''}'' # v"] 13(3,4) 2 show ?thesis by simp
  next
    case (3 k' y w ws')
    let ?s = "CHR '','' # render_items (w # ws') @ CHR ''}'' # v"
    from 3 13(5) have k: "k = k'" and "render x @ ?r = render y @ ?s"
      using json_quote_prefix [of k "CHR '':'' # render x @ ?r" k' "CHR '':'' # render y @ ?s"]
      by simp_all
    with 13(1) [of y ?r ?s] 13(3,4) 3 have "x = y"
      "render_items (kv # kvs) @ CHR ''}'' # u = render_items (w # ws') @ CHR ''}'' # v"
      by simp_all
    with 13(2) [of "w # ws'" u v] 13(3,4) 3 k show ?thesis by simp
  qed
qed

lemma render_inject: "wf_json x \<Longrightarrow> wf_json y \<Longrightarrow> render x = render y \<Longrightarrow> x = y"
  using render_prefix(1) [of x y "[]" "[]"] by simp

subsection \<open>Plain forms\<close>

lemma plain_items_map: "plain_items kvs = map (\<lambda>(k, v). (k, plain v)) kvs"
  by (induction kvs) auto

lemma plain_wf: "wf_json x \<Longrightarrow> wf_json (plain x)"
  and plain_items_wf: "list_all (\<lambda>(k, v). wf_json v) kvs \<Longrightarrow>
    list_all (\<lambda>(k, v). wf_json v) (plain_items kvs)"
  by (induction x and kvs rule: plain_plain_items.induct) (auto simp: list_all_iff)

lemma canonical_json_plain:
  assumes "wf_json x" and "wf_json y"
  shows "canonical_json x = canonical_json y \<longleftrightarrow> plain x = plain y"
  using render_inject [OF plain_wf [OF assms(1)] plain_wf [OF assms(2)]]
  by (auto simp: canonical_json_def)

text \<open>Sorting by key commutes with a map that keeps the keys, so plain forms are stable.\<close>

lemma insort_key_map_fst:
  assumes "\<And>p. fst (g p) = fst p"
  shows "insort_key fst (g p) (map g ps) = map g (insort_key fst p ps)"
  by (induction ps) (simp_all add: assms)

lemma sort_key_map_fst:
  assumes "\<And>p. fst (g p) = fst p"
  shows "sort_key fst (map g ps) = map g (sort_key fst ps)"
  by (induction ps) (simp_all add: insort_key_map_fst [OF assms])

lemma plain_items_sort [simp]: "plain_items (sort_key fst kvs) = sort_key fst (plain_items kvs)"
  unfolding plain_items_map by (rule sort_key_map_fst [symmetric]) auto

lemma sort_key_idem [simp]: "sort_key f (sort_key f xs) = sort_key f xs"
  by (rule sort_key_id_if_sorted) simp

lemma plain_plain [simp]: "plain (plain x) = plain x"
  and plain_items_plain [simp]: "plain_items (plain_items kvs) = plain_items kvs"
  by (induction x and kvs rule: plain_plain_items.induct) auto

lemma map_of_plain_items: "map_of (plain_items kvs) k = map_option plain (map_of kvs k)"
  by (simp add: plain_items_map map_of_map)

lemma map_of_insort_key: "map_of (insort_key fst p kvs) k = map_of (p # kvs) k"
  by (induction kvs) auto

lemma map_of_sort_key [simp]: "map_of (sort_key fst kvs) k = map_of kvs k"
  by (induction kvs) (simp_all add: map_of_insort_key)

text \<open>What equality of canonical objects says of their fields.\<close>

lemma plain_JObj_eqD:
  assumes "plain (JObj a) = plain (JObj b)"
  shows "map_option plain (map_of a k) = map_option plain (map_of b k)"
proof -
  from assms have "sort_key fst (plain_items a) = sort_key fst (plain_items b)" by simp
  then have "map_of (plain_items a) k = map_of (plain_items b) k"
    by (metis map_of_sort_key)
  then show ?thesis by (simp add: map_of_plain_items)
qed

subsection \<open>Freezing is the plain form of a finite value\<close>

lemma freeze_json_eq:
  "freeze_json x = (if finite_json x then Inr (plain x) else Inl ContractError)"
  "freeze_list xs = (if list_all finite_json xs then Inr (map plain xs) else Inl ContractError)"
  "freeze_items kvs =
     (if list_all (\<lambda>(k, v). finite_json v) kvs then Inr (plain_items kvs) else Inl ContractError)"
  by (induction x and xs and kvs rule: freeze_json_freeze_list_freeze_items.induct) auto

lemma freeze_json_Inr [simp]: "freeze_json x = Inr y \<longleftrightarrow> finite_json x \<and> y = plain x"
  by (auto simp: freeze_json_eq)

lemma list_all_sort_key [simp]: "list_all P (sort_key f xs) \<longleftrightarrow> list_all P xs"
  by (simp add: list_all_iff)

lemma finite_json_plain [simp]: "finite_json (plain x) \<longleftrightarrow> finite_json x"
  and finite_plain_items [simp]: "list_all (\<lambda>(k, v). finite_json v) (plain_items kvs) \<longleftrightarrow>
    list_all (\<lambda>(k, v). finite_json v) kvs"
  by (induction x and kvs rule: plain_plain_items.induct) (auto simp: list_all_iff)

end
