(* ===== verification/Authority_Contracts.thy ===== *)
theory Authority_Contracts
  imports Canonical_Json Py_Text
begin

section \<open>Run-authority contracts\<close>

text \<open>
  The immutable records of \<^verbatim>\<open>arnold_pipelines/run_authority/contracts.py\<close>, one Isabelle record
  per dataclass. A constructor takes the arguments as the JSON-like values Python would receive
  and validates them in the order of \<^verbatim>\<open>__post_init__\<close>; \<^verbatim>\<open>field(init=False)\<close> fields are computed.
  The SHA-256 hex digest is the parameter \<open>sha\<close>.
\<close>

subsection \<open>Field validation\<close>

definition required :: "json \<Rightarrow> contract_error + string" where
  "required v =
     (case v of JStr s \<Rightarrow> if blank s then Inl ContractError else Inr s | _ \<Rightarrow> Inl ContractError)"

text \<open>\<^verbatim>\<open>tuple(values)\<close>: iterating a string gives its characters, a mapping its keys; other scalars
  raise \<^verbatim>\<open>TypeError\<close>.\<close>

fun iter_values :: "json \<Rightarrow> contract_error + json list" where
  "iter_values (JArr xs) = Inr xs"
| "iter_values (JStr s) = Inr (map JStr (utf8_chars s))"
| "iter_values (JObj kvs) = Inr (map (JStr \<circ> fst) kvs)"
| "iter_values _ = Inl ContractTypeError"

definition string_tuple :: "bool \<Rightarrow> json \<Rightarrow> contract_error + string list" where
  "string_tuple nonempty v =
     res_bind (iter_values v) (\<lambda>values.
     res_bind (res_map required values) (\<lambda>strings.
       let normalized = sorted_set strings in
       if nonempty \<and> normalized = [] then Inl ContractError else Inr normalized))"

text \<open>\<^verbatim>\<open>isinstance(v, int) and not isinstance(v, bool) and v >= low\<close>.\<close>

definition int_at_least :: "int \<Rightarrow> json \<Rightarrow> contract_error + int" where
  "int_at_least low v =
     (case v of JInt n \<Rightarrow> if low \<le> n then Inr n else Inl ContractError | _ \<Rightarrow> Inl ContractError)"

text \<open>A field that may be \<^verbatim>\<open>None\<close>.\<close>

definition nullable :: "(json \<Rightarrow> contract_error + 'a) \<Rightarrow> json \<Rightarrow> contract_error + 'a option" where
  "nullable check v = (if v = JNull then Inr None else res_bind (check v) (Inr \<circ> Some))"

text \<open>\<^verbatim>\<open>_initialize_payload\<close>: the frozen payload and its digest.\<close>

definition initialize_payload ::
    "(string \<Rightarrow> string) \<Rightarrow> json \<Rightarrow> contract_error + json \<times> string" where
  "initialize_payload sha v =
     res_bind (freeze_json v) (\<lambda>frozen.
       if as_dict frozen = None then Inl ContractError
       else res_bind (payload_digest sha frozen) (\<lambda>h. Inr (frozen, h)))"

subsection \<open>Evidence\<close>

record evidence_envelope =
  ev_evidence_id :: string
  ev_run_id :: string
  ev_run_revision :: string
  ev_evidence_type :: string
  ev_source :: string
  ev_payload :: json
  ev_payload_hash :: string

definition mk_evidence ::
    "(string \<Rightarrow> string) \<Rightarrow> json \<Rightarrow> json \<Rightarrow> json \<Rightarrow> json \<Rightarrow> json \<Rightarrow> json \<Rightarrow>
     contract_error + evidence_envelope" where
  "mk_evidence sha evidence_id run_id run_revision evidence_type source payload =
     res_bind (required evidence_id) (\<lambda>i.
     res_bind (required run_id) (\<lambda>run.
     res_bind (required run_revision) (\<lambda>rev.
     res_bind (required evidence_type) (\<lambda>t.
     res_bind (required source) (\<lambda>src.
     res_bind (initialize_payload sha payload) (\<lambda>(p, h).
       Inr \<lparr>ev_evidence_id = i, ev_run_id = run, ev_run_revision = rev, ev_evidence_type = t,
            ev_source = src, ev_payload = p, ev_payload_hash = h\<rparr>))))))"

subsection \<open>Observations and their coherence\<close>

datatype coherence = COHERENT | UNKNOWN | INCOHERENT

fun coherence_str :: "coherence \<Rightarrow> string" where
  "coherence_str COHERENT = ''COHERENT''"
| "coherence_str UNKNOWN = ''UNKNOWN''"
| "coherence_str INCOHERENT = ''INCOHERENT''"

definition coherence_of :: "json \<Rightarrow> contract_error + coherence" where
  "coherence_of v =
     (if v = JStr ''COHERENT'' then Inr COHERENT
      else if v = JStr ''UNKNOWN'' then Inr UNKNOWN
      else if v = JStr ''INCOHERENT'' then Inr INCOHERENT
      else Inl ContractError)"

definition RUNTIME_OBSERVATION_FIELDS :: "string list" where
  "RUNTIME_OBSERVATION_FIELDS =
     [''recorded_engine_root'', ''manifest_runtime_root'', ''manifest_expected_head'',
      ''live_import_root'', ''wrapper_digest'', ''dependency_generation'',
      ''environment_identity'', ''session_identity'']"

definition RUNTIME_ROOT_FIELDS :: "string list" where
  "RUNTIME_ROOT_FIELDS = [''recorded_engine_root'', ''manifest_runtime_root'', ''live_import_root'']"

definition COHERENCE_AWARE_FIELDS :: "string list" where
  "COHERENCE_AWARE_FIELDS =
     [''source_identity'', ''source_version'', ''source_cursor'', ''content_hash'',
      ''coherence'', ''coherence_reasons'', ''runtime_observation'']"

definition is_content_hash :: "string \<Rightarrow> bool" where
  "is_content_hash s \<longleftrightarrow>
     length s = 64 \<and> list_all (\<lambda>c. c \<in> set ''0123456789abcdef'') s"

text \<open>Absent, \<^verbatim>\<open>None\<close> or a blank string.\<close>

fun missing_value :: "json \<Rightarrow> bool" where
  "missing_value JNull = True"
| "missing_value (JStr s) = blank s"
| "missing_value _ = False"

definition evaluate_runtime_observation :: "json \<Rightarrow> coherence \<times> string list" where
  "evaluate_runtime_observation v =
     (let capture = dict_or_empty v;
          missing = filter (\<lambda>name. missing_value (dget capture name JNull))
                      RUNTIME_OBSERVATION_FIELDS;
          reasons = map (\<lambda>name. ''missing_runtime_observation_field:'' @ name) missing @
            (if dget capture ''stale'' JNull = JBool True then [''stale_runtime_observation''] else []);
          invalid = filter (\<lambda>name. as_str (dget capture name JNull) = None)
                      RUNTIME_OBSERVATION_FIELDS;
          roots = remdups (map (\<lambda>name. dget capture name JNull) RUNTIME_ROOT_FIELDS);
          incoherent =
            (if 1 < length roots then [''engine_root_mismatch''] else []) @
            (if dget capture ''environment_identity'' JNull \<noteq> dget capture ''session_identity'' JNull
             then [''environment_session_identity_mismatch''] else [])
      in if capture = [] then (UNKNOWN, [''missing_runtime_observation''])
         else if reasons \<noteq> [] then (UNKNOWN, reasons)
         else if invalid \<noteq> [] then
           (UNKNOWN, map (\<lambda>name. ''invalid_runtime_observation_field:'' @ name) invalid)
         else if incoherent \<noteq> [] then (INCOHERENT, incoherent)
         else (COHERENT, []))"

definition missing_provenance_fields :: "json \<Rightarrow> json \<Rightarrow> json \<Rightarrow> json \<Rightarrow> string list" where
  "missing_provenance_fields source_identity source_version source_cursor content_hash =
     map fst (filter (\<lambda>(name, v). missing_value v)
       [(''source_identity'', source_identity), (''source_version'', source_version),
        (''source_cursor'', source_cursor), (''content_hash'', content_hash)])"

definition evaluate_envelope ::
    "json \<Rightarrow> json \<Rightarrow> json \<Rightarrow> json \<Rightarrow> json \<Rightarrow> coherence \<times> string list" where
  "evaluate_envelope capture source_identity source_version source_cursor content_hash =
     (let (verdict, computed) = evaluate_runtime_observation capture;
          missing = missing_provenance_fields source_identity source_version source_cursor content_hash
      in if verdict = COHERENT \<and> missing \<noteq> [] then
           (UNKNOWN, map (\<lambda>name. ''missing_provenance_field:'' @ name) missing)
         else (verdict, computed))"

record observation_envelope =
  ob_observation_id :: string
  ob_run_id :: string
  ob_run_revision :: string
  ob_observation_type :: string
  ob_source :: string
  ob_evidence_ids :: "string list"
  ob_payload :: json
  ob_payload_hash :: string
  ob_source_identity :: "string option"
  ob_source_version :: "string option"
  ob_source_cursor :: "int option"
  ob_content_hash :: "string option"
  ob_coherence :: coherence
  ob_coherence_reasons :: "string list"
  ob_runtime_observation :: "json option"

definition content_hash_field :: "json \<Rightarrow> contract_error + string" where
  "content_hash_field v =
     (case v of JStr s \<Rightarrow> if is_content_hash s then Inr s else Inl ContractError
      | _ \<Rightarrow> Inl ContractError)"

definition capture_field :: "json \<Rightarrow> contract_error + json" where
  "capture_field v =
     res_bind (freeze_json v) (\<lambda>frozen.
       if as_dict frozen = None then Inl ContractError else Inr frozen)"

definition mk_observation ::
    "(string \<Rightarrow> string) \<Rightarrow> json \<Rightarrow> json \<Rightarrow> json \<Rightarrow> json \<Rightarrow> json \<Rightarrow> json \<Rightarrow> json \<Rightarrow>
     json \<Rightarrow> json \<Rightarrow> json \<Rightarrow> json \<Rightarrow> json \<Rightarrow> json \<Rightarrow> json \<Rightarrow> contract_error + observation_envelope" where
  "mk_observation sha observation_id run_id run_revision observation_type source evidence_ids payload
     source_identity source_version source_cursor content_hash coherence coherence_reasons
     runtime_observation =
     res_bind (required observation_id) (\<lambda>i.
     res_bind (required run_id) (\<lambda>run.
     res_bind (required run_revision) (\<lambda>rev.
     res_bind (required observation_type) (\<lambda>t.
     res_bind (required source) (\<lambda>src.
     res_bind (string_tuple False evidence_ids) (\<lambda>evs.
     res_bind (initialize_payload sha payload) (\<lambda>(p, h).
     res_bind (nullable required source_identity) (\<lambda>sid.
     res_bind (nullable required source_version) (\<lambda>sver.
     res_bind (nullable content_hash_field content_hash) (\<lambda>ch.
     res_bind (nullable (int_at_least 0) source_cursor) (\<lambda>cur.
     res_bind (coherence_of coherence) (\<lambda>coh.
     res_bind (string_tuple False coherence_reasons) (\<lambda>reasons.
     res_bind (nullable capture_field runtime_observation) (\<lambda>capture.
       let (verdict, computed) = evaluate_envelope (opt_json id capture)
             source_identity source_version source_cursor content_hash
       in if coh \<noteq> verdict then Inl ContractError
          else Inr \<lparr>ob_observation_id = i, ob_run_id = run, ob_run_revision = rev,
                 ob_observation_type = t, ob_source = src, ob_evidence_ids = evs,
                 ob_payload = p, ob_payload_hash = h, ob_source_identity = sid,
                 ob_source_version = sver, ob_source_cursor = cur, ob_content_hash = ch,
                 ob_coherence = coh,
                 ob_coherence_reasons = first_occurrences (computed @ reasons),
                 ob_runtime_observation = capture\<rparr>))))))))))))))"

definition is_dispatchable :: "observation_envelope \<Rightarrow> bool" where
  "is_dispatchable r \<longleftrightarrow> ob_coherence r = COHERENT"

text \<open>\<^verbatim>\<open>ObservationEnvelope.capture\<close>: the verdict and its reasons are computed, not supplied; the
  caller's extra reasons are a tuple.\<close>

definition capture_observation ::
    "(string \<Rightarrow> string) \<Rightarrow> json \<Rightarrow> json \<Rightarrow> json \<Rightarrow> json \<Rightarrow> json \<Rightarrow> json \<Rightarrow> json \<Rightarrow>
     json \<Rightarrow> json \<Rightarrow> json \<Rightarrow> json \<Rightarrow> json \<Rightarrow> json list \<Rightarrow> contract_error + observation_envelope" where
  "capture_observation sha observation_id run_id run_revision observation_type source evidence_ids
     payload runtime_observation source_identity source_version source_cursor content_hash
     coherence_reasons =
     (let (coh, reasons) = evaluate_envelope runtime_observation
            source_identity source_version source_cursor content_hash
      in mk_observation sha observation_id run_id run_revision observation_type source evidence_ids
           (if payload = JNull then JObj [] else payload)
           source_identity source_version source_cursor content_hash
           (JStr (coherence_str coh)) (JArr (map JStr reasons @ coherence_reasons))
           runtime_observation)"

subsection \<open>Fences, grants and attempts\<close>

record coordinator_fence =
  fe_run_id :: string
  fe_run_revision :: string
  fe_coordinator_attempt_id :: string
  fe_token :: int

definition mk_fence :: "json \<Rightarrow> json \<Rightarrow> json \<Rightarrow> json \<Rightarrow> contract_error + coordinator_fence" where
  "mk_fence run_id run_revision coordinator_attempt_id token =
     res_bind (required run_id) (\<lambda>run.
     res_bind (required run_revision) (\<lambda>rev.
     res_bind (required coordinator_attempt_id) (\<lambda>co.
     res_bind (int_at_least 0 token) (\<lambda>t.
       Inr \<lparr>fe_run_id = run, fe_run_revision = rev, fe_coordinator_attempt_id = co,
            fe_token = t\<rparr>))))"

record capability_grant =
  gr_grant_id :: string
  gr_run_id :: string
  gr_run_revision :: string
  gr_coordinator_attempt_id :: string
  gr_fence_token :: int
  gr_subject_ids :: "string list"
  gr_capabilities :: "string list"
  gr_evidence_ids :: "string list"

definition mk_grant ::
    "json \<Rightarrow> json \<Rightarrow> json \<Rightarrow> json \<Rightarrow> json \<Rightarrow> json \<Rightarrow> json \<Rightarrow> json \<Rightarrow>
     contract_error + capability_grant" where
  "mk_grant grant_id run_id run_revision coordinator_attempt_id fence_token subject_ids capabilities
     evidence_ids =
     res_bind (required grant_id) (\<lambda>i.
     res_bind (required run_id) (\<lambda>run.
     res_bind (required run_revision) (\<lambda>rev.
     res_bind (required coordinator_attempt_id) (\<lambda>co.
     res_bind (int_at_least 0 fence_token) (\<lambda>t.
     res_bind (string_tuple True subject_ids) (\<lambda>subs.
     res_bind (string_tuple True capabilities) (\<lambda>caps.
     res_bind (string_tuple False evidence_ids) (\<lambda>evs.
       Inr \<lparr>gr_grant_id = i, gr_run_id = run, gr_run_revision = rev,
            gr_coordinator_attempt_id = co, gr_fence_token = t, gr_subject_ids = subs,
            gr_capabilities = caps, gr_evidence_ids = evs\<rparr>))))))))"

record subject_attempt =
  at_attempt_id :: string
  at_run_id :: string
  at_run_revision :: string
  at_subject_id :: string
  at_grant_id :: string
  at_coordinator_attempt_id :: string
  at_fence_token :: int
  at_ordinal :: int

definition mk_attempt ::
    "json \<Rightarrow> json \<Rightarrow> json \<Rightarrow> json \<Rightarrow> json \<Rightarrow> json \<Rightarrow> json \<Rightarrow> json \<Rightarrow>
     contract_error + subject_attempt" where
  "mk_attempt attempt_id run_id run_revision subject_id grant_id coordinator_attempt_id fence_token
     ordinal =
     res_bind (required attempt_id) (\<lambda>i.
     res_bind (required run_id) (\<lambda>run.
     res_bind (required run_revision) (\<lambda>rev.
     res_bind (required subject_id) (\<lambda>sub.
     res_bind (required grant_id) (\<lambda>g.
     res_bind (required coordinator_attempt_id) (\<lambda>co.
     res_bind (int_at_least 0 fence_token) (\<lambda>t.
     res_bind (int_at_least 1 ordinal) (\<lambda>n.
       Inr \<lparr>at_attempt_id = i, at_run_id = run, at_run_revision = rev, at_subject_id = sub,
            at_grant_id = g, at_coordinator_attempt_id = co, at_fence_token = t,
            at_ordinal = n\<rparr>))))))))"

subsection \<open>Idempotency keys, claims and decisions\<close>

record idempotency_key =
  ik_value :: string
  ik_payload_hash :: string

definition mk_idempotency :: "json \<Rightarrow> json \<Rightarrow> contract_error + idempotency_key" where
  "mk_idempotency value payload_hash =
     res_bind (required value) (\<lambda>v.
     res_bind (required payload_hash) (\<lambda>h.
       Inr \<lparr>ik_value = v, ik_payload_hash = h\<rparr>))"

definition assert_compatible :: "idempotency_key \<Rightarrow> idempotency_key \<Rightarrow> contract_error + unit" where
  "assert_compatible this other =
     (if ik_value this = ik_value other \<and> ik_payload_hash this \<noteq> ik_payload_hash other
      then Inl IdempotencyConflict else Inr ())"

record authority_claim =
  cl_claim_id :: string
  cl_run_id :: string
  cl_run_revision :: string
  cl_subject_id :: string
  cl_attempt_id :: string
  cl_grant_id :: string
  cl_coordinator_attempt_id :: string
  cl_fence_token :: int
  cl_claim_type :: string
  cl_evidence_ids :: "string list"
  cl_idempotency_key :: string
  cl_payload :: json
  cl_payload_hash :: string

definition mk_claim ::
    "(string \<Rightarrow> string) \<Rightarrow> json \<Rightarrow> json \<Rightarrow> json \<Rightarrow> json \<Rightarrow> json \<Rightarrow> json \<Rightarrow> json \<Rightarrow> json \<Rightarrow> json \<Rightarrow> json \<Rightarrow>
     json \<Rightarrow> json \<Rightarrow> contract_error + authority_claim" where
  "mk_claim sha claim_id run_id run_revision subject_id attempt_id grant_id coordinator_attempt_id
     fence_token claim_type evidence_ids idempotency_key payload =
     res_bind (required claim_id) (\<lambda>i.
     res_bind (required run_id) (\<lambda>run.
     res_bind (required run_revision) (\<lambda>rev.
     res_bind (required subject_id) (\<lambda>sub.
     res_bind (required attempt_id) (\<lambda>att.
     res_bind (required grant_id) (\<lambda>g.
     res_bind (required coordinator_attempt_id) (\<lambda>co.
     res_bind (required claim_type) (\<lambda>ty.
     res_bind (required idempotency_key) (\<lambda>ik.
     res_bind (int_at_least 0 fence_token) (\<lambda>t.
     res_bind (string_tuple True evidence_ids) (\<lambda>evs.
     res_bind (initialize_payload sha payload) (\<lambda>(p, h).
       Inr \<lparr>cl_claim_id = i, cl_run_id = run, cl_run_revision = rev, cl_subject_id = sub,
            cl_attempt_id = att, cl_grant_id = g, cl_coordinator_attempt_id = co,
            cl_fence_token = t, cl_claim_type = ty, cl_evidence_ids = evs,
            cl_idempotency_key = ik, cl_payload = p, cl_payload_hash = h\<rparr>))))))))))))"

datatype outcome = Accepted | Rejected | Quarantined | Superseded

fun outcome_str :: "outcome \<Rightarrow> string" where
  "outcome_str Accepted = ''accepted''"
| "outcome_str Rejected = ''rejected''"
| "outcome_str Quarantined = ''quarantined''"
| "outcome_str Superseded = ''superseded''"

text \<open>Membership in a set hashes the value: a list or an object raises \<^verbatim>\<open>TypeError\<close>.\<close>

fun outcome_of :: "json \<Rightarrow> contract_error + outcome" where
  "outcome_of (JStr s) =
     (if s = ''accepted'' then Inr Accepted
      else if s = ''rejected'' then Inr Rejected
      else if s = ''quarantined'' then Inr Quarantined
      else if s = ''superseded'' then Inr Superseded
      else Inl ContractError)"
| "outcome_of (JArr _) = Inl ContractTypeError"
| "outcome_of (JObj _) = Inl ContractTypeError"
| "outcome_of _ = Inl ContractError"

record authority_decision =
  de_decision_id :: string
  de_run_id :: string
  de_run_revision :: string
  de_subject_id :: string
  de_attempt_id :: string
  de_grant_id :: string
  de_coordinator_attempt_id :: string
  de_fence_token :: int
  de_claim_id :: string
  de_outcome :: outcome
  de_evidence_ids :: "string list"
  de_idempotency_key :: string
  de_payload :: json
  de_payload_hash :: string

definition mk_decision ::
    "(string \<Rightarrow> string) \<Rightarrow> json \<Rightarrow> json \<Rightarrow> json \<Rightarrow> json \<Rightarrow> json \<Rightarrow> json \<Rightarrow> json \<Rightarrow> json \<Rightarrow> json \<Rightarrow> json \<Rightarrow>
     json \<Rightarrow> json \<Rightarrow> json \<Rightarrow> contract_error + authority_decision" where
  "mk_decision sha decision_id run_id run_revision subject_id attempt_id grant_id
     coordinator_attempt_id fence_token claim_id outcome evidence_ids idempotency_key payload =
     res_bind (required decision_id) (\<lambda>i.
     res_bind (required run_id) (\<lambda>run.
     res_bind (required run_revision) (\<lambda>rev.
     res_bind (required subject_id) (\<lambda>sub.
     res_bind (required attempt_id) (\<lambda>att.
     res_bind (required grant_id) (\<lambda>g.
     res_bind (required coordinator_attempt_id) (\<lambda>co.
     res_bind (required claim_id) (\<lambda>c.
     res_bind (required idempotency_key) (\<lambda>ik.
     res_bind (outcome_of outcome) (\<lambda>oc.
     res_bind (int_at_least 0 fence_token) (\<lambda>t.
     res_bind (string_tuple True evidence_ids) (\<lambda>evs.
     res_bind (initialize_payload sha payload) (\<lambda>(p, h).
       Inr \<lparr>de_decision_id = i, de_run_id = run, de_run_revision = rev, de_subject_id = sub,
            de_attempt_id = att, de_grant_id = g, de_coordinator_attempt_id = co,
            de_fence_token = t, de_claim_id = c, de_outcome = oc, de_evidence_ids = evs,
            de_idempotency_key = ik, de_payload = p, de_payload_hash = h\<rparr>)))))))))))))"

subsection \<open>Quarantine records, projection metadata, compare-and-swap expectations\<close>

record quarantine_record =
  qu_quarantine_id :: string
  qu_run_id :: string
  qu_run_revision :: string
  qu_record_type :: string
  qu_record_id :: string
  qu_reason :: string
  qu_source :: string
  qu_evidence_ids :: "string list"
  qu_payload :: json
  qu_payload_hash :: string

definition mk_quarantine ::
    "(string \<Rightarrow> string) \<Rightarrow> json \<Rightarrow> json \<Rightarrow> json \<Rightarrow> json \<Rightarrow> json \<Rightarrow> json \<Rightarrow> json \<Rightarrow> json \<Rightarrow> json \<Rightarrow>
     contract_error + quarantine_record" where
  "mk_quarantine sha quarantine_id run_id run_revision record_type record_id reason source
     evidence_ids payload =
     res_bind (required quarantine_id) (\<lambda>i.
     res_bind (required run_id) (\<lambda>run.
     res_bind (required run_revision) (\<lambda>rev.
     res_bind (required record_type) (\<lambda>ty.
     res_bind (required record_id) (\<lambda>rid.
     res_bind (required reason) (\<lambda>why.
     res_bind (required source) (\<lambda>src.
     res_bind (string_tuple False evidence_ids) (\<lambda>evs.
     res_bind (initialize_payload sha payload) (\<lambda>(p, h).
       Inr \<lparr>qu_quarantine_id = i, qu_run_id = run, qu_run_revision = rev, qu_record_type = ty,
            qu_record_id = rid, qu_reason = why, qu_source = src, qu_evidence_ids = evs,
            qu_payload = p, qu_payload_hash = h\<rparr>)))))))))"

record projection_metadata =
  pm_run_id :: string
  pm_run_revision :: string
  pm_journal_cursor :: int
  pm_evidence_set_digest :: string
  pm_view_hash :: string

definition mk_projection ::
    "json \<Rightarrow> json \<Rightarrow> json \<Rightarrow> json \<Rightarrow> json \<Rightarrow> contract_error + projection_metadata" where
  "mk_projection run_id run_revision journal_cursor evidence_set_digest view_hash =
     res_bind (required run_id) (\<lambda>run.
     res_bind (required run_revision) (\<lambda>rev.
     res_bind (required evidence_set_digest) (\<lambda>d.
     res_bind (required view_hash) (\<lambda>h.
     res_bind (int_at_least 0 journal_cursor) (\<lambda>c.
       Inr \<lparr>pm_run_id = run, pm_run_revision = rev, pm_journal_cursor = c,
            pm_evidence_set_digest = d, pm_view_hash = h\<rparr>)))))"

record cas_expectation =
  ca_run_id :: string
  ca_expected_revision :: string
  ca_expected_cursor :: "int option"

definition mk_cas :: "json \<Rightarrow> json \<Rightarrow> json \<Rightarrow> contract_error + cas_expectation" where
  "mk_cas run_id expected_revision expected_cursor =
     res_bind (required run_id) (\<lambda>run.
     res_bind (required expected_revision) (\<lambda>rev.
     res_bind (nullable (int_at_least 0) expected_cursor) (\<lambda>c.
       Inr \<lparr>ca_run_id = run, ca_expected_revision = rev, ca_expected_cursor = c\<rparr>)))"

definition assert_matches ::
    "cas_expectation \<Rightarrow> string \<Rightarrow> string \<Rightarrow> int option \<Rightarrow> contract_error + unit" where
  "assert_matches expected run_id revision cursor =
     res_bind (ensure (run_id = ca_run_id expected) IdentityConflict) (\<lambda>_.
     res_bind (ensure (revision = ca_expected_revision expected) RevisionConflict) (\<lambda>_.
       ensure (ca_expected_cursor expected = None \<or> cursor = ca_expected_cursor expected)
         RevisionConflict))"

subsection \<open>One type of contracts\<close>

datatype contract =
    EvidenceEnvelope evidence_envelope
  | ObservationEnvelope observation_envelope
  | CoordinatorFence coordinator_fence
  | CapabilityGrant capability_grant
  | SubjectAttempt subject_attempt
  | IdempotencyKey idempotency_key
  | Claim authority_claim
  | Decision authority_decision
  | QuarantineRecord quarantine_record
  | ProjectionMetadata projection_metadata
  | CASExpectation cas_expectation

datatype contract_class =
    EvidenceClass | ObservationClass | FenceClass | GrantClass | AttemptClass | IdempotencyClass
  | ClaimClass | DecisionClass | QuarantineClass | ProjectionClass | CASClass

fun class_of :: "contract \<Rightarrow> contract_class" where
  "class_of (EvidenceEnvelope _) = EvidenceClass"
| "class_of (ObservationEnvelope _) = ObservationClass"
| "class_of (CoordinatorFence _) = FenceClass"
| "class_of (CapabilityGrant _) = GrantClass"
| "class_of (SubjectAttempt _) = AttemptClass"
| "class_of (IdempotencyKey _) = IdempotencyClass"
| "class_of (Claim _) = ClaimClass"
| "class_of (Decision _) = DecisionClass"
| "class_of (QuarantineRecord _) = QuarantineClass"
| "class_of (ProjectionMetadata _) = ProjectionClass"
| "class_of (CASExpectation _) = CASClass"

fun type_name :: "contract_class \<Rightarrow> string" where
  "type_name EvidenceClass = ''evidence''"
| "type_name ObservationClass = ''observation''"
| "type_name FenceClass = ''coordinator_fence''"
| "type_name GrantClass = ''capability_grant''"
| "type_name AttemptClass = ''subject_attempt''"
| "type_name IdempotencyClass = ''idempotency_key''"
| "type_name ClaimClass = ''claim''"
| "type_name DecisionClass = ''decision''"
| "type_name QuarantineClass = ''quarantine''"
| "type_name ProjectionClass = ''projection_metadata''"
| "type_name CASClass = ''cas_expectation''"

definition contract_type :: "contract \<Rightarrow> string" where
  "contract_type r = type_name (class_of r)"

definition CONTRACT_TYPES :: "contract_class list" where
  "CONTRACT_TYPES =
     [EvidenceClass, ObservationClass, FenceClass, GrantClass, AttemptClass, IdempotencyClass,
      ClaimClass, DecisionClass, QuarantineClass, ProjectionClass, CASClass]"

text \<open>The names and values of \<^verbatim>\<open>fields(self)\<close>, in declaration order.\<close>

abbreviation (input) strs :: "string list \<Rightarrow> json" where
  "strs xs \<equiv> JArr (map JStr xs)"

fun contract_fields :: "contract \<Rightarrow> (string \<times> json) list" where
  "contract_fields (EvidenceEnvelope r) =
     [(''evidence_id'', JStr (ev_evidence_id r)), (''run_id'', JStr (ev_run_id r)),
      (''run_revision'', JStr (ev_run_revision r)), (''evidence_type'', JStr (ev_evidence_type r)),
      (''source'', JStr (ev_source r)), (''payload'', ev_payload r),
      (''payload_hash'', JStr (ev_payload_hash r))]"
| "contract_fields (ObservationEnvelope r) =
     [(''observation_id'', JStr (ob_observation_id r)), (''run_id'', JStr (ob_run_id r)),
      (''run_revision'', JStr (ob_run_revision r)),
      (''observation_type'', JStr (ob_observation_type r)), (''source'', JStr (ob_source r)),
      (''evidence_ids'', strs (ob_evidence_ids r)), (''payload'', ob_payload r),
      (''payload_hash'', JStr (ob_payload_hash r)),
      (''source_identity'', opt_json JStr (ob_source_identity r)),
      (''source_version'', opt_json JStr (ob_source_version r)),
      (''source_cursor'', opt_json JInt (ob_source_cursor r)),
      (''content_hash'', opt_json JStr (ob_content_hash r)),
      (''coherence'', JStr (coherence_str (ob_coherence r))),
      (''coherence_reasons'', strs (ob_coherence_reasons r)),
      (''runtime_observation'', opt_json id (ob_runtime_observation r))]"
| "contract_fields (CoordinatorFence r) =
     [(''run_id'', JStr (fe_run_id r)), (''run_revision'', JStr (fe_run_revision r)),
      (''coordinator_attempt_id'', JStr (fe_coordinator_attempt_id r)),
      (''token'', JInt (fe_token r))]"
| "contract_fields (CapabilityGrant r) =
     [(''grant_id'', JStr (gr_grant_id r)), (''run_id'', JStr (gr_run_id r)),
      (''run_revision'', JStr (gr_run_revision r)),
      (''coordinator_attempt_id'', JStr (gr_coordinator_attempt_id r)),
      (''fence_token'', JInt (gr_fence_token r)), (''subject_ids'', strs (gr_subject_ids r)),
      (''capabilities'', strs (gr_capabilities r)), (''evidence_ids'', strs (gr_evidence_ids r))]"
| "contract_fields (SubjectAttempt r) =
     [(''attempt_id'', JStr (at_attempt_id r)), (''run_id'', JStr (at_run_id r)),
      (''run_revision'', JStr (at_run_revision r)), (''subject_id'', JStr (at_subject_id r)),
      (''grant_id'', JStr (at_grant_id r)),
      (''coordinator_attempt_id'', JStr (at_coordinator_attempt_id r)),
      (''fence_token'', JInt (at_fence_token r)), (''ordinal'', JInt (at_ordinal r))]"
| "contract_fields (IdempotencyKey r) =
     [(''value'', JStr (ik_value r)), (''payload_hash'', JStr (ik_payload_hash r))]"
| "contract_fields (Claim r) =
     [(''claim_id'', JStr (cl_claim_id r)), (''run_id'', JStr (cl_run_id r)),
      (''run_revision'', JStr (cl_run_revision r)), (''subject_id'', JStr (cl_subject_id r)),
      (''attempt_id'', JStr (cl_attempt_id r)), (''grant_id'', JStr (cl_grant_id r)),
      (''coordinator_attempt_id'', JStr (cl_coordinator_attempt_id r)),
      (''fence_token'', JInt (cl_fence_token r)), (''claim_type'', JStr (cl_claim_type r)),
      (''evidence_ids'', strs (cl_evidence_ids r)),
      (''idempotency_key'', JStr (cl_idempotency_key r)), (''payload'', cl_payload r),
      (''payload_hash'', JStr (cl_payload_hash r))]"
| "contract_fields (Decision r) =
     [(''decision_id'', JStr (de_decision_id r)), (''run_id'', JStr (de_run_id r)),
      (''run_revision'', JStr (de_run_revision r)), (''subject_id'', JStr (de_subject_id r)),
      (''attempt_id'', JStr (de_attempt_id r)), (''grant_id'', JStr (de_grant_id r)),
      (''coordinator_attempt_id'', JStr (de_coordinator_attempt_id r)),
      (''fence_token'', JInt (de_fence_token r)), (''claim_id'', JStr (de_claim_id r)),
      (''outcome'', JStr (outcome_str (de_outcome r))),
      (''evidence_ids'', strs (de_evidence_ids r)),
      (''idempotency_key'', JStr (de_idempotency_key r)), (''payload'', de_payload r),
      (''payload_hash'', JStr (de_payload_hash r))]"
| "contract_fields (QuarantineRecord r) =
     [(''quarantine_id'', JStr (qu_quarantine_id r)), (''run_id'', JStr (qu_run_id r)),
      (''run_revision'', JStr (qu_run_revision r)), (''record_type'', JStr (qu_record_type r)),
      (''record_id'', JStr (qu_record_id r)), (''reason'', JStr (qu_reason r)),
      (''source'', JStr (qu_source r)), (''evidence_ids'', strs (qu_evidence_ids r)),
      (''payload'', qu_payload r), (''payload_hash'', JStr (qu_payload_hash r))]"
| "contract_fields (ProjectionMetadata r) =
     [(''run_id'', JStr (pm_run_id r)), (''run_revision'', JStr (pm_run_revision r)),
      (''journal_cursor'', JInt (pm_journal_cursor r)),
      (''evidence_set_digest'', JStr (pm_evidence_set_digest r)),
      (''view_hash'', JStr (pm_view_hash r))]"
| "contract_fields (CASExpectation r) =
     [(''run_id'', JStr (ca_run_id r)), (''expected_revision'', JStr (ca_expected_revision r)),
      (''expected_cursor'', opt_json JInt (ca_expected_cursor r))]"

fun class_fields :: "contract_class \<Rightarrow> string list" where
  "class_fields EvidenceClass =
     [''evidence_id'', ''run_id'', ''run_revision'', ''evidence_type'', ''source'', ''payload'',
      ''payload_hash'']"
| "class_fields ObservationClass =
     [''observation_id'', ''run_id'', ''run_revision'', ''observation_type'', ''source'',
      ''evidence_ids'', ''payload'', ''payload_hash'', ''source_identity'', ''source_version'',
      ''source_cursor'', ''content_hash'', ''coherence'', ''coherence_reasons'',
      ''runtime_observation'']"
| "class_fields FenceClass = [''run_id'', ''run_revision'', ''coordinator_attempt_id'', ''token'']"
| "class_fields GrantClass =
     [''grant_id'', ''run_id'', ''run_revision'', ''coordinator_attempt_id'', ''fence_token'',
      ''subject_ids'', ''capabilities'', ''evidence_ids'']"
| "class_fields AttemptClass =
     [''attempt_id'', ''run_id'', ''run_revision'', ''subject_id'', ''grant_id'',
      ''coordinator_attempt_id'', ''fence_token'', ''ordinal'']"
| "class_fields IdempotencyClass = [''value'', ''payload_hash'']"
| "class_fields ClaimClass =
     [''claim_id'', ''run_id'', ''run_revision'', ''subject_id'', ''attempt_id'', ''grant_id'',
      ''coordinator_attempt_id'', ''fence_token'', ''claim_type'', ''evidence_ids'',
      ''idempotency_key'', ''payload'', ''payload_hash'']"
| "class_fields DecisionClass =
     [''decision_id'', ''run_id'', ''run_revision'', ''subject_id'', ''attempt_id'', ''grant_id'',
      ''coordinator_attempt_id'', ''fence_token'', ''claim_id'', ''outcome'', ''evidence_ids'',
      ''idempotency_key'', ''payload'', ''payload_hash'']"
| "class_fields QuarantineClass =
     [''quarantine_id'', ''run_id'', ''run_revision'', ''record_type'', ''record_id'', ''reason'',
      ''source'', ''evidence_ids'', ''payload'', ''payload_hash'']"
| "class_fields ProjectionClass =
     [''run_id'', ''run_revision'', ''journal_cursor'', ''evidence_set_digest'', ''view_hash'']"
| "class_fields CASClass = [''run_id'', ''expected_revision'', ''expected_cursor'']"

text \<open>\<^verbatim>\<open>getattr(instance, "payload_hash", None)\<close>.\<close>

fun payload_hash :: "contract \<Rightarrow> json" where
  "payload_hash (EvidenceEnvelope r) = JStr (ev_payload_hash r)"
| "payload_hash (ObservationEnvelope r) = JStr (ob_payload_hash r)"
| "payload_hash (IdempotencyKey r) = JStr (ik_payload_hash r)"
| "payload_hash (Claim r) = JStr (cl_payload_hash r)"
| "payload_hash (Decision r) = JStr (de_payload_hash r)"
| "payload_hash (QuarantineRecord r) = JStr (qu_payload_hash r)"
| "payload_hash _ = JNull"

subsection \<open>Encoding\<close>

definition to_dict :: "contract \<Rightarrow> (string \<times> json) list" where
  "to_dict r = (''contract_type'', JStr (contract_type r)) # (''schema_version'', JInt 1) #
     map (\<lambda>(name, v). (name, plain v)) (contract_fields r)"

definition to_json :: "contract \<Rightarrow> string" where
  "to_json r = canonical_json (JObj (to_dict r))"

definition contract_digest :: "(string \<Rightarrow> string) \<Rightarrow> contract \<Rightarrow> string" where
  "contract_digest sha r = sha (to_json r)"

subsection \<open>Decoding\<close>

text \<open>\<^verbatim>\<open>value == 1\<close> in Python, where \<^verbatim>\<open>True == 1 == 1.0\<close>.\<close>

fun equals_one :: "json \<Rightarrow> bool" where
  "equals_one (JInt n) = (n = 1)"
| "equals_one (JBool b) = b"
| "equals_one (JFloat r) = (r = ''1.0'')"
| "equals_one _ = False"

text \<open>\<^verbatim>\<open>cls(**kwargs)\<close>.\<close>

definition res_apply :: "('a \<Rightarrow> 'b) \<Rightarrow> 'e + 'a \<Rightarrow> 'e + 'b" where
  "res_apply f r = res_bind r (Inr \<circ> f)"

fun construct ::
    "(string \<Rightarrow> string) \<Rightarrow> contract_class \<Rightarrow> (string \<Rightarrow> json) \<Rightarrow> contract_error + contract" where
  "construct sha EvidenceClass kw = res_apply EvidenceEnvelope
     (mk_evidence sha (kw ''evidence_id'') (kw ''run_id'') (kw ''run_revision'')
        (kw ''evidence_type'') (kw ''source'') (kw ''payload''))"
| "construct sha ObservationClass kw = res_apply ObservationEnvelope
     (mk_observation sha (kw ''observation_id'') (kw ''run_id'') (kw ''run_revision'')
        (kw ''observation_type'') (kw ''source'') (kw ''evidence_ids'') (kw ''payload'')
        (kw ''source_identity'') (kw ''source_version'') (kw ''source_cursor'')
        (kw ''content_hash'') (kw ''coherence'') (kw ''coherence_reasons'')
        (kw ''runtime_observation''))"
| "construct sha FenceClass kw = res_apply CoordinatorFence
     (mk_fence (kw ''run_id'') (kw ''run_revision'') (kw ''coordinator_attempt_id'')
        (kw ''token''))"
| "construct sha GrantClass kw = res_apply CapabilityGrant
     (mk_grant (kw ''grant_id'') (kw ''run_id'') (kw ''run_revision'')
        (kw ''coordinator_attempt_id'') (kw ''fence_token'') (kw ''subject_ids'')
        (kw ''capabilities'') (kw ''evidence_ids''))"
| "construct sha AttemptClass kw = res_apply SubjectAttempt
     (mk_attempt (kw ''attempt_id'') (kw ''run_id'') (kw ''run_revision'') (kw ''subject_id'')
        (kw ''grant_id'') (kw ''coordinator_attempt_id'') (kw ''fence_token'') (kw ''ordinal''))"
| "construct sha IdempotencyClass kw = res_apply IdempotencyKey
     (mk_idempotency (kw ''value'') (kw ''payload_hash''))"
| "construct sha ClaimClass kw = res_apply Claim
     (mk_claim sha (kw ''claim_id'') (kw ''run_id'') (kw ''run_revision'') (kw ''subject_id'')
        (kw ''attempt_id'') (kw ''grant_id'') (kw ''coordinator_attempt_id'') (kw ''fence_token'')
        (kw ''claim_type'') (kw ''evidence_ids'') (kw ''idempotency_key'') (kw ''payload''))"
| "construct sha DecisionClass kw = res_apply Decision
     (mk_decision sha (kw ''decision_id'') (kw ''run_id'') (kw ''run_revision'')
        (kw ''subject_id'') (kw ''attempt_id'') (kw ''grant_id'') (kw ''coordinator_attempt_id'')
        (kw ''fence_token'') (kw ''claim_id'') (kw ''outcome'') (kw ''evidence_ids'')
        (kw ''idempotency_key'') (kw ''payload''))"
| "construct sha QuarantineClass kw = res_apply QuarantineRecord
     (mk_quarantine sha (kw ''quarantine_id'') (kw ''run_id'') (kw ''run_revision'')
        (kw ''record_type'') (kw ''record_id'') (kw ''reason'') (kw ''source'')
        (kw ''evidence_ids'') (kw ''payload''))"
| "construct sha ProjectionClass kw = res_apply ProjectionMetadata
     (mk_projection (kw ''run_id'') (kw ''run_revision'') (kw ''journal_cursor'')
        (kw ''evidence_set_digest'') (kw ''view_hash''))"
| "construct sha CASClass kw = res_apply CASExpectation
     (mk_cas (kw ''run_id'') (kw ''expected_revision'') (kw ''expected_cursor''))"

text \<open>\<^verbatim>\<open>Contract.from_dict\<close>.\<close>

definition base_from_dict ::
    "(string \<Rightarrow> string) \<Rightarrow> contract_class \<Rightarrow> json \<Rightarrow> contract_error + contract" where
  "base_from_dict sha cls v =
     (case as_dict v of
        None \<Rightarrow> Inl ContractError
      | Some d \<Rightarrow>
          let expected = ''contract_type'' # ''schema_version'' # class_fields cls in
          res_bind (ensure (set (map fst d) = set expected) ContractError) (\<lambda>_.
          res_bind (ensure (dget d ''contract_type'' JNull = JStr (type_name cls)) ContractError) (\<lambda>_.
          res_bind (ensure (equals_one (dget d ''schema_version'' JNull)) ContractError) (\<lambda>_.
          res_bind (construct sha cls (\<lambda>name. dget d name JNull)) (\<lambda>instance'.
            let supplied = dget d ''payload_hash'' JNull in
            res_bind (ensure (supplied = JNull \<or> supplied = payload_hash instance') PayloadConflict)
              (\<lambda>_. Inr instance'))))))"

text \<open>\<^verbatim>\<open>ObservationEnvelope.from_dict\<close> completes a legacy record first.\<close>

definition legacy_reason :: string where
  "legacy_reason = ''legacy_record_without_coherence_fields''"

definition fill_legacy :: "string list \<Rightarrow> (string \<times> json) list \<Rightarrow> (string \<times> json) list" where
  "fill_legacy missing d =
     fold (\<lambda>name. AList.update name
       (if name = ''coherence_reasons'' then JArr []
        else if name = ''coherence'' then JStr ''UNKNOWN'' else JNull)) missing d"

definition complete_legacy :: "(string \<times> json) list \<Rightarrow> (string \<times> json) list" where
  "complete_legacy d =
     (let missing = filter (\<lambda>name. name \<notin> set (map fst d)) COHERENCE_AWARE_FIELDS in
      if missing = [] then d
      else
        let d1 = fill_legacy missing d;
            d2 = (if dget d1 ''coherence'' JNull = JNull
                  then AList.update ''coherence'' (JStr ''UNKNOWN'') d1 else d1);
            reasons = (case as_list (dget d2 ''coherence_reasons'' JNull) of
                         Some xs \<Rightarrow> xs | None \<Rightarrow> [])
        in if JStr legacy_reason \<notin> set reasons
           then AList.update ''coherence_reasons'' (JArr (reasons @ [JStr legacy_reason])) d2
           else d2)"

definition from_dict ::
    "(string \<Rightarrow> string) \<Rightarrow> contract_class \<Rightarrow> json \<Rightarrow> contract_error + contract" where
  "from_dict sha cls v =
     base_from_dict sha cls
       (case v of JObj d \<Rightarrow> if cls = ObservationClass then JObj (complete_legacy d) else v
        | _ \<Rightarrow> v)"

definition contract_from_dict :: "(string \<Rightarrow> string) \<Rightarrow> json \<Rightarrow> contract_error + contract" where
  "contract_from_dict sha v =
     (let contract_type = (case as_dict v of Some d \<Rightarrow> dget d ''contract_type'' JNull | None \<Rightarrow> JNull)
      in case find (\<lambda>cls. contract_type = JStr (type_name cls)) CONTRACT_TYPES of
           None \<Rightarrow> Inl ContractError
         | Some cls \<Rightarrow> from_dict sha cls v)"

subsection \<open>Idempotency and relationships\<close>

text \<open>\<^verbatim>\<open>Claim.idempotency\<close> and \<^verbatim>\<open>Decision.idempotency\<close>.\<close>

definition claim_idempotency :: "authority_claim \<Rightarrow> contract_error + idempotency_key" where
  "claim_idempotency r = mk_idempotency (JStr (cl_idempotency_key r)) (JStr (cl_payload_hash r))"

definition decision_idempotency :: "authority_decision \<Rightarrow> contract_error + idempotency_key" where
  "decision_idempotency r = mk_idempotency (JStr (de_idempotency_key r)) (JStr (de_payload_hash r))"

text \<open>\<^verbatim>\<open>assert_idempotent\<close> takes a claim or a decision on either side.\<close>

fun record_idempotency :: "authority_claim + authority_decision \<Rightarrow> contract_error + idempotency_key"
where
  "record_idempotency (Inl c) = claim_idempotency c"
| "record_idempotency (Inr d) = decision_idempotency d"

definition assert_idempotent ::
    "authority_claim + authority_decision \<Rightarrow> authority_claim + authority_decision \<Rightarrow>
     contract_error + unit" where
  "assert_idempotent existing candidate =
     res_bind (record_idempotency existing) (\<lambda>a.
     res_bind (record_idempotency candidate) (\<lambda>b.
       assert_compatible a b))"

text \<open>The identity a record shares with its fence.\<close>

definition same_context ::
    "coordinator_fence \<Rightarrow> string \<Rightarrow> string \<Rightarrow> string \<Rightarrow> int \<Rightarrow> contract_error + unit" where
  "same_context fence run revision co token =
     res_bind (ensure (run = fe_run_id fence) IdentityConflict) (\<lambda>_.
     res_bind (ensure (revision = fe_run_revision fence) RevisionConflict) (\<lambda>_.
     res_bind (ensure (co = fe_coordinator_attempt_id fence) IdentityConflict) (\<lambda>_.
       ensure (token = fe_token fence) IdentityConflict)))"

text \<open>The last loop of \<^verbatim>\<open>validate_relationships\<close>.\<close>

definition evidence_matches ::
    "coordinator_fence \<Rightarrow> evidence_envelope list \<Rightarrow> string \<Rightarrow> contract_error + unit" where
  "evidence_matches fence evidence i =
     (case find (\<lambda>item. ev_evidence_id item = i) evidence of
        None \<Rightarrow> Inl IdentityConflict
      | Some item \<Rightarrow>
          res_bind (ensure (ev_run_id item = fe_run_id fence) IdentityConflict) (\<lambda>_.
            ensure (ev_run_revision item = fe_run_revision fence) RevisionConflict))"

definition validate_relationships ::
    "coordinator_fence \<Rightarrow> capability_grant \<Rightarrow> subject_attempt \<Rightarrow> authority_claim \<Rightarrow>
     evidence_envelope list \<Rightarrow> authority_decision option \<Rightarrow> contract_error + unit" where
  "validate_relationships fence grant attempt claim evidence decision =
     res_bind (same_context fence (gr_run_id grant) (gr_run_revision grant)
                 (gr_coordinator_attempt_id grant) (gr_fence_token grant)) (\<lambda>_.
     res_bind (same_context fence (at_run_id attempt) (at_run_revision attempt)
                 (at_coordinator_attempt_id attempt) (at_fence_token attempt)) (\<lambda>_.
     res_bind (same_context fence (cl_run_id claim) (cl_run_revision claim)
                 (cl_coordinator_attempt_id claim) (cl_fence_token claim)) (\<lambda>_.
     res_bind (case decision of
                 None \<Rightarrow> Inr ()
               | Some d \<Rightarrow> same_context fence (de_run_id d) (de_run_revision d)
                             (de_coordinator_attempt_id d) (de_fence_token d)) (\<lambda>_.
     res_bind (ensure (at_grant_id attempt = gr_grant_id grant \<and>
                       cl_grant_id claim = gr_grant_id grant) IdentityConflict) (\<lambda>_.
     res_bind (ensure (at_subject_id attempt \<in> set (gr_subject_ids grant)) IdentityConflict) (\<lambda>_.
     res_bind (ensure (cl_subject_id claim = at_subject_id attempt \<and>
                       cl_attempt_id claim = at_attempt_id attempt) IdentityConflict) (\<lambda>_.
     res_bind (ensure (distinct (map ev_evidence_id evidence)) IdentityConflict) (\<lambda>_.
     res_bind (case decision of
                 None \<Rightarrow> Inr ()
               | Some d \<Rightarrow> ensure (de_claim_id d = cl_claim_id claim \<and>
                             de_subject_id d = cl_subject_id claim \<and>
                             de_attempt_id d = cl_attempt_id claim \<and>
                             de_grant_id d = cl_grant_id claim) IdentityConflict) (\<lambda>_.
       let needed = sorted_set (gr_evidence_ids grant @ cl_evidence_ids claim @
             (case decision of None \<Rightarrow> [] | Some d \<Rightarrow> de_evidence_ids d)) in
     res_bind (ensure (list_all (\<lambda>i. i \<in> set (map ev_evidence_id evidence)) needed)
                 IdentityConflict) (\<lambda>_.
     res_bind (res_map (evidence_matches fence evidence) needed) (\<lambda>_.
       Inr ())))))))))))"

definition validate_scope_binding ::
    "capability_grant \<Rightarrow> coordinator_fence \<Rightarrow> string \<Rightarrow> string \<Rightarrow> int option \<Rightarrow> string option \<Rightarrow>
     contract_error + unit" where
  "validate_scope_binding grant fence expected_grant_id subject_id fence_token required_capability =
     res_bind (ensure (gr_grant_id grant = expected_grant_id) RevisionConflict) (\<lambda>_.
     res_bind (ensure (gr_run_id grant = fe_run_id fence) IdentityConflict) (\<lambda>_.
     res_bind (ensure (gr_run_revision grant = fe_run_revision fence) RevisionConflict) (\<lambda>_.
     res_bind (ensure (gr_coordinator_attempt_id grant = fe_coordinator_attempt_id fence)
                 IdentityConflict) (\<lambda>_.
     res_bind (ensure (gr_fence_token grant = fe_token fence) IdentityConflict) (\<lambda>_.
     res_bind (ensure (fence_token = None \<or> fence_token = Some (gr_fence_token grant))
                 RevisionConflict) (\<lambda>_.
     res_bind (ensure (subject_id \<in> set (gr_subject_ids grant)) IdentityConflict) (\<lambda>_.
       ensure (case required_capability of
                 None \<Rightarrow> True
               | Some c \<Rightarrow> c = [] \<or> c \<in> set (gr_capabilities grant)) IdentityConflict)))))))"

end
