(* ===== verification/Authority_Facts.thy ===== *)
theory Authority_Facts
  imports Authority_Contracts
begin

section \<open>Facts about run-authority contracts\<close>

text \<open>
  The invariant \<open>wf_contract\<close> every constructor establishes, decoding as the inverse of encoding
  on records that satisfy it, and what a dispatchable observation and a validated relationship
  guarantee.
\<close>

named_theorems field_iff "when a field validator accepts"
named_theorems field_accepts "validators on values that are already normalised"

subsection \<open>Validators\<close>

definition text_ok :: "string \<Rightarrow> bool" where
  "text_ok s \<longleftrightarrow> \<not> blank s"

definition ids_ok :: "bool \<Rightarrow> string list \<Rightarrow> bool" where
  "ids_ok nonempty xs \<longleftrightarrow>
     sorted xs \<and> distinct xs \<and> list_all text_ok xs \<and> \<not> (nonempty \<and> xs = [])"

definition payload_ok :: "(string \<Rightarrow> string) \<Rightarrow> json \<Rightarrow> string \<Rightarrow> bool" where
  "payload_ok sha p h \<longleftrightarrow>
     as_dict p \<noteq> None \<and> finite_json p \<and> plain p = p \<and> h = sha (canonical_json p)"

lemma required_iff [field_iff]: "required v = Inr s \<longleftrightarrow> v = JStr s \<and> text_ok s"
  by (cases v) (auto simp: required_def text_ok_def)

lemma int_at_least_iff [field_iff]: "int_at_least low v = Inr n \<longleftrightarrow> v = JInt n \<and> low \<le> n"
  by (cases v) (auto simp: int_at_least_def)

lemma content_hash_field_iff [field_iff]:
  "content_hash_field v = Inr s \<longleftrightarrow> v = JStr s \<and> is_content_hash s"
  by (cases v) (auto simp: content_hash_field_def)

lemma coherence_of_iff [field_iff]: "coherence_of v = Inr c \<longleftrightarrow> v = JStr (coherence_str c)"
  by (cases c) (auto simp: coherence_of_def)

lemma outcome_of_iff [field_iff]: "outcome_of v = Inr c \<longleftrightarrow> v = JStr (outcome_str c)"
  by (cases c; cases v) auto

lemma nullable_iff:
  "nullable check v = Inr x \<longleftrightarrow>
     (case x of None \<Rightarrow> v = JNull | Some y \<Rightarrow> v \<noteq> JNull \<and> check v = Inr y)"
  by (auto simp: nullable_def split: option.split)

lemma res_map_required:
  "res_map required vs = Inr xs \<longleftrightarrow> vs = map JStr xs \<and> list_all text_ok xs"
proof (induction vs arbitrary: xs)
  case Nil
  then show ?case by auto
next
  case (Cons v vs)
  show ?case
  proof (cases xs)
    case Nil
    then show ?thesis by simp
  next
    case (Cons x xs')
    have "res_map required (v # vs) = Inr xs \<longleftrightarrow>
        required v = Inr x \<and> res_map required vs = Inr xs'"
      unfolding Cons res_map.simps res_bind_Inr_iff by blast
    then show ?thesis unfolding Cons Cons.IH required_iff by auto
  qed
qed

lemma string_tuple_ok: "string_tuple nonempty v = Inr xs \<Longrightarrow> ids_ok nonempty xs"
  by (auto simp: string_tuple_def ids_ok_def Let_def res_map_required list_all_iff split: if_splits)

lemma string_tuple_accepts [field_accepts]:
  "ids_ok nonempty xs \<Longrightarrow> string_tuple nonempty (JArr (map JStr xs)) = Inr xs"
  by (auto simp: string_tuple_def ids_ok_def Let_def res_map_required sorted_set_ident
    intro: exI [of _ xs])

lemma payload_digest_frozen:
  "as_dict p \<noteq> None \<Longrightarrow> finite_json p \<Longrightarrow> plain p = p \<Longrightarrow>
     payload_digest sha p = Inr (sha (canonical_json p))"
  by (auto simp: payload_digest_def freeze_json_eq)

lemma as_dict_plain [simp]: "as_dict (plain v) = None \<longleftrightarrow> as_dict v = None"
  by (cases v) auto

lemma initialize_payload_ok: "initialize_payload sha v = Inr (p, h) \<Longrightarrow> payload_ok sha p h"
  by (auto simp: initialize_payload_def payload_ok_def payload_digest_frozen split: if_splits)

lemma initialize_payload_accepts [field_accepts]:
  "payload_ok sha p h \<Longrightarrow> initialize_payload sha p = Inr (p, h)"
  by (auto simp: initialize_payload_def payload_ok_def payload_digest_frozen freeze_json_eq)

lemma required_accepts [field_accepts]: "text_ok s \<Longrightarrow> required (JStr s) = Inr s"
  by (simp add: required_iff)

lemma int_at_least_accepts [field_accepts]: "low \<le> n \<Longrightarrow> int_at_least low (JInt n) = Inr n"
  by (simp add: int_at_least_iff)

definition capture_ok :: "json \<Rightarrow> bool" where
  "capture_ok p \<longleftrightarrow> as_dict p \<noteq> None \<and> finite_json p \<and> plain p = p"

lemma capture_field_ok: "capture_field v = Inr p \<Longrightarrow> capture_ok p"
  by (auto simp: capture_field_def capture_ok_def split: if_splits)

lemma capture_field_accepts: "capture_ok p \<Longrightarrow> capture_field p = Inr p"
  by (auto simp: capture_field_def capture_ok_def freeze_json_eq)

subsection \<open>Observation reasons\<close>

lemma first_occurrences_append:
  "first_occurrences (xs @ ys) =
     first_occurrences xs @ filter (\<lambda>y. y \<notin> set xs) (first_occurrences ys)"
  by (induction xs) (auto intro: filter_cong)

lemma filter_sorted_set:
  "filter (\<lambda>y. y \<notin> set xs) (sorted_set (xs @ ys)) = filter (\<lambda>y. y \<notin> set xs) (sorted_set ys)"
  by (rule sorted_distinct_set_unique) (auto simp: sorted_wrt_filter)

text \<open>Sorting the stored reasons again and prefixing the verdict's gives them back.\<close>

lemma reasons_stable:
  assumes "sorted rs" and "distinct rs"
  shows "first_occurrences (computed @ sorted_set (first_occurrences (computed @ rs))) =
    first_occurrences (computed @ rs)"
proof -
  have rs: "sorted_set rs = rs" using assms by (rule sorted_set_ident)
  have "sorted_set (first_occurrences (computed @ rs)) = sorted_set (computed @ rs)"
    by (rule sorted_set_cong) simp
  then have "first_occurrences (computed @ sorted_set (first_occurrences (computed @ rs))) =
      first_occurrences computed @ filter (\<lambda>y. y \<notin> set computed) (sorted_set (computed @ rs))"
    by (simp add: first_occurrences_append first_occurrences_ident)
  also have "\<dots> = first_occurrences computed @ filter (\<lambda>y. y \<notin> set computed) rs"
    by (simp add: filter_sorted_set rs)
  also have "\<dots> = first_occurrences (computed @ rs)"
    by (simp add: first_occurrences_append first_occurrences_ident [OF assms(2)])
  finally show ?thesis .
qed

subsection \<open>The invariant of a constructed contract\<close>

definition opt_all :: "('a \<Rightarrow> bool) \<Rightarrow> 'a option \<Rightarrow> bool" where
  "opt_all P x \<longleftrightarrow> (case x of None \<Rightarrow> True | Some y \<Rightarrow> P y)"

lemma opt_all_simps [simp]: "opt_all P None" "opt_all P (Some y) = P y"
  by (simp_all add: opt_all_def)

text \<open>The reasons of an observation: the verdict's, then the caller's in order.\<close>

definition observation_verdict :: "observation_envelope \<Rightarrow> coherence \<times> string list" where
  "observation_verdict r =
     evaluate_envelope (opt_json id (ob_runtime_observation r))
       (opt_json JStr (ob_source_identity r)) (opt_json JStr (ob_source_version r))
       (opt_json JInt (ob_source_cursor r)) (opt_json JStr (ob_content_hash r))"

definition wf_observation :: "(string \<Rightarrow> string) \<Rightarrow> observation_envelope \<Rightarrow> bool" where
  "wf_observation sha r \<longleftrightarrow>
     list_all text_ok [ob_observation_id r, ob_run_id r, ob_run_revision r, ob_observation_type r,
       ob_source r] \<and>
     ids_ok False (ob_evidence_ids r) \<and> payload_ok sha (ob_payload r) (ob_payload_hash r) \<and>
     opt_all text_ok (ob_source_identity r) \<and> opt_all text_ok (ob_source_version r) \<and>
     opt_all ((\<le>) 0) (ob_source_cursor r) \<and> opt_all is_content_hash (ob_content_hash r) \<and>
     opt_all capture_ok (ob_runtime_observation r) \<and>
     list_all text_ok (ob_coherence_reasons r) \<and>
     ob_coherence r = fst (observation_verdict r) \<and>
     ob_coherence_reasons r =
       first_occurrences (snd (observation_verdict r) @ sorted_set (ob_coherence_reasons r))"

fun wf_contract :: "(string \<Rightarrow> string) \<Rightarrow> contract \<Rightarrow> bool" where
  "wf_contract sha (EvidenceEnvelope r) \<longleftrightarrow>
     list_all text_ok [ev_evidence_id r, ev_run_id r, ev_run_revision r, ev_evidence_type r,
       ev_source r] \<and> payload_ok sha (ev_payload r) (ev_payload_hash r)"
| "wf_contract sha (ObservationEnvelope r) \<longleftrightarrow> wf_observation sha r"
| "wf_contract sha (CoordinatorFence r) \<longleftrightarrow>
     list_all text_ok [fe_run_id r, fe_run_revision r, fe_coordinator_attempt_id r] \<and>
     0 \<le> fe_token r"
| "wf_contract sha (CapabilityGrant r) \<longleftrightarrow>
     list_all text_ok [gr_grant_id r, gr_run_id r, gr_run_revision r,
       gr_coordinator_attempt_id r] \<and> 0 \<le> gr_fence_token r \<and>
     ids_ok True (gr_subject_ids r) \<and> ids_ok True (gr_capabilities r) \<and>
     ids_ok False (gr_evidence_ids r)"
| "wf_contract sha (SubjectAttempt r) \<longleftrightarrow>
     list_all text_ok [at_attempt_id r, at_run_id r, at_run_revision r, at_subject_id r,
       at_grant_id r, at_coordinator_attempt_id r] \<and> 0 \<le> at_fence_token r \<and> 1 \<le> at_ordinal r"
| "wf_contract sha (IdempotencyKey r) \<longleftrightarrow>
     list_all text_ok [ik_value r, ik_payload_hash r]"
| "wf_contract sha (Claim r) \<longleftrightarrow>
     list_all text_ok [cl_claim_id r, cl_run_id r, cl_run_revision r, cl_subject_id r,
       cl_attempt_id r, cl_grant_id r, cl_coordinator_attempt_id r, cl_claim_type r,
       cl_idempotency_key r] \<and> 0 \<le> cl_fence_token r \<and> ids_ok True (cl_evidence_ids r) \<and>
     payload_ok sha (cl_payload r) (cl_payload_hash r)"
| "wf_contract sha (Decision r) \<longleftrightarrow>
     list_all text_ok [de_decision_id r, de_run_id r, de_run_revision r, de_subject_id r,
       de_attempt_id r, de_grant_id r, de_coordinator_attempt_id r, de_claim_id r,
       de_idempotency_key r] \<and> 0 \<le> de_fence_token r \<and> ids_ok True (de_evidence_ids r) \<and>
     payload_ok sha (de_payload r) (de_payload_hash r)"
| "wf_contract sha (QuarantineRecord r) \<longleftrightarrow>
     list_all text_ok [qu_quarantine_id r, qu_run_id r, qu_run_revision r, qu_record_type r,
       qu_record_id r, qu_reason r, qu_source r] \<and> ids_ok False (qu_evidence_ids r) \<and>
     payload_ok sha (qu_payload r) (qu_payload_hash r)"
| "wf_contract sha (ProjectionMetadata r) \<longleftrightarrow>
     list_all text_ok [pm_run_id r, pm_run_revision r, pm_evidence_set_digest r, pm_view_hash r] \<and>
     0 \<le> pm_journal_cursor r"
| "wf_contract sha (CASExpectation r) \<longleftrightarrow>
     list_all text_ok [ca_run_id r, ca_expected_revision r] \<and>
     opt_all ((\<le>) 0) (ca_expected_cursor r)"

lemma nullable_ok:
  "nullable check v = Inr x \<Longrightarrow> (\<And>v y. check v = Inr y \<Longrightarrow> P y) \<Longrightarrow> opt_all P x"
  by (cases x) (auto simp: nullable_iff)

lemmas validated = string_tuple_ok initialize_payload_ok

lemma mk_evidence_wf: "mk_evidence sha a b c d e p = Inr r \<Longrightarrow> wf_contract sha (EvidenceEnvelope r)"
  by (auto simp: mk_evidence_def field_iff dest: validated)

lemma mk_fence_wf: "mk_fence a b c d = Inr r \<Longrightarrow> wf_contract sha (CoordinatorFence r)"
  by (auto simp: mk_fence_def field_iff)

lemma mk_grant_wf: "mk_grant a b c d e f g h = Inr r \<Longrightarrow> wf_contract sha (CapabilityGrant r)"
  by (auto simp: mk_grant_def field_iff dest: validated)

lemma mk_attempt_wf: "mk_attempt a b c d e f g h = Inr r \<Longrightarrow> wf_contract sha (SubjectAttempt r)"
  by (auto simp: mk_attempt_def field_iff)

lemma mk_idempotency_wf: "mk_idempotency a b = Inr r \<Longrightarrow> wf_contract sha (IdempotencyKey r)"
  by (auto simp: mk_idempotency_def field_iff)

lemma mk_claim_wf: "mk_claim sha a b c d e f g h i j k p = Inr r \<Longrightarrow> wf_contract sha (Claim r)"
  by (auto simp: mk_claim_def field_iff dest: validated)

lemma mk_decision_wf:
  "mk_decision sha a b c d e f g h i j k l p = Inr r \<Longrightarrow> wf_contract sha (Decision r)"
  by (auto simp: mk_decision_def field_iff dest: validated)

lemma mk_quarantine_wf:
  "mk_quarantine sha a b c d e f g h p = Inr r \<Longrightarrow> wf_contract sha (QuarantineRecord r)"
  by (auto simp: mk_quarantine_def field_iff dest: validated)

lemma mk_projection_wf: "mk_projection a b c d e = Inr r \<Longrightarrow> wf_contract sha (ProjectionMetadata r)"
  by (auto simp: mk_projection_def field_iff)

lemma nullable_int_ok: "nullable (int_at_least low) v = Inr x \<Longrightarrow> opt_all ((\<le>) low) x"
  by (erule nullable_ok) (simp add: int_at_least_iff)

lemma mk_cas_wf: "mk_cas a b c = Inr r \<Longrightarrow> wf_contract sha (CASExpectation r)"
  by (auto simp: mk_cas_def field_iff nullable_int_ok)

text \<open>A text that starts with a visible ASCII character is not blank; so no reason is.\<close>

lemma text_ok_Cons:
  assumes "33 \<le> (of_char c :: nat)" and "of_char c < (128 :: nat)"
  shows "text_ok (c # s)"
proof (cases s)
  case Nil
  then show ?thesis using assms by (simp add: text_ok_def blank_def ascii_space_def)
next
  case (Cons d t)
  then show ?thesis
    using assms by (cases t) (simp_all add: text_ok_def blank_def ascii_space_def)
qed

lemma reasons_text_ok: "list_all text_ok (snd (evaluate_envelope v a b c d))"
  by (auto simp: evaluate_envelope_def evaluate_runtime_observation_def Let_def list_all_iff
    text_ok_Cons split: if_splits)

lemma nullable_json:
  assumes "nullable check v = Inr x" and "\<And>v y. check v = Inr y \<Longrightarrow> v = f y"
  shows "v = opt_json f x"
  using assms by (cases x) (auto simp: nullable_iff)

lemma nullable_accepts:
  assumes "opt_all P x" and "\<And>y. P y \<Longrightarrow> check (f y) = Inr y" and "\<And>y. P y \<Longrightarrow> f y \<noteq> JNull"
  shows "nullable check (opt_json f x) = Inr x"
  using assms by (cases x) (auto simp: nullable_iff)

lemma mk_observation_wf:
  assumes "mk_observation sha a b c d e f p sid sver cur ch coh reasons obs = Inr r"
  shows "wf_contract sha (ObservationEnvelope r)"
proof -
  from assms obtain evs rs cap where
    ids: "list_all text_ok [ob_observation_id r, ob_run_id r, ob_run_revision r,
       ob_observation_type r, ob_source r]"
    and evs: "string_tuple False f = Inr (ob_evidence_ids r)"
    and p: "initialize_payload sha p = Inr (ob_payload r, ob_payload_hash r)"
    and sid: "nullable required sid = Inr (ob_source_identity r)"
    and sver: "nullable required sver = Inr (ob_source_version r)"
    and ch: "nullable content_hash_field ch = Inr (ob_content_hash r)"
    and cur: "nullable (int_at_least 0) cur = Inr (ob_source_cursor r)"
    and rs: "string_tuple False reasons = Inr rs"
    and cap: "nullable capture_field obs = Inr (ob_runtime_observation r)"
    and verdict: "ob_coherence r =
      fst (evaluate_envelope (opt_json id (ob_runtime_observation r)) sid sver cur ch)"
    and reasons: "ob_coherence_reasons r = first_occurrences
      (snd (evaluate_envelope (opt_json id (ob_runtime_observation r)) sid sver cur ch) @ rs)"
    by (auto simp: mk_observation_def required_iff Let_def split_beta split: if_splits)
  note raw = nullable_json [OF sid, of JStr] nullable_json [OF sver, of JStr]
    nullable_json [OF ch, of JStr] nullable_json [OF cur, of JInt]
  have ver: "observation_verdict r =
      evaluate_envelope (opt_json id (ob_runtime_observation r)) sid sver cur ch"
    unfolding observation_verdict_def using raw by (simp add: field_iff)
  have rs_ok: "sorted rs" "distinct rs" "list_all text_ok rs"
    using string_tuple_ok [OF rs] by (auto simp: ids_ok_def)
  have "list_all text_ok (ob_coherence_reasons r)"
    using rs_ok(3) reasons_text_ok [of "opt_json id (ob_runtime_observation r)" sid sver cur ch]
    by (auto simp: reasons list_all_iff)
  moreover have "ob_coherence_reasons r =
      first_occurrences (snd (observation_verdict r) @ sorted_set (ob_coherence_reasons r))"
    unfolding reasons ver by (rule reasons_stable [OF rs_ok(1,2), symmetric])
  moreover have "opt_all text_ok (ob_source_identity r)" "opt_all text_ok (ob_source_version r)"
    "opt_all is_content_hash (ob_content_hash r)" "opt_all capture_ok (ob_runtime_observation r)"
    using nullable_ok [OF sid, of text_ok] nullable_ok [OF sver, of text_ok]
      nullable_ok [OF ch, of is_content_hash] nullable_ok [OF cap, of capture_ok] capture_field_ok
    by (auto simp: field_iff)
  ultimately show ?thesis
    using ids string_tuple_ok [OF evs] initialize_payload_ok [OF p] nullable_int_ok [OF cur]
    by (simp add: wf_observation_def verdict ver)
qed

lemma construct_wf: "construct sha cls kw = Inr r \<Longrightarrow> wf_contract sha r \<and> class_of r = cls"
  by (cases cls)
    (auto simp only: construct.simps res_apply_def res_bind_Inr_iff comp_apply sum.inject
      class_of.simps
      intro: mk_evidence_wf mk_observation_wf mk_fence_wf mk_grant_wf mk_attempt_wf
        mk_idempotency_wf mk_claim_wf mk_decision_wf mk_quarantine_wf mk_projection_wf mk_cas_wf)

subsection \<open>Decoding inverts encoding\<close>

lemma to_dict_keys: "map fst (to_dict r) = ''contract_type'' # ''schema_version'' # class_fields (class_of r)"
  by (cases r) (simp_all add: to_dict_def)

lemma dget_Cons_same [simp]: "dget ((k, v) # d) k w = v"
  by (simp add: dget_Cons)

lemma dget_to_dict:
  "dget (to_dict r) ''contract_type'' JNull = JStr (contract_type r)"
  "dget (to_dict r) ''schema_version'' JNull = JInt 1"
  by (simp_all add: to_dict_def dget_Cons)

lemma plain_comp_JStr [simp]: "plain \<circ> JStr = JStr"
  by (rule ext) simp

lemma plain_opt_json: "(\<And>y. plain (f y) = f y) \<Longrightarrow> plain (opt_json f x) = opt_json f x"
  by (cases x) auto

lemma plain_opt_scalar [simp]:
  "plain (opt_json JStr x) = opt_json JStr x" "plain (opt_json JInt i) = opt_json JInt i"
  by (simp_all add: plain_opt_json)

lemma plain_payload [simp]: "payload_ok sha p h \<Longrightarrow> plain p = p"
  by (simp add: payload_ok_def)

lemma plain_capture: "opt_all capture_ok x \<Longrightarrow> plain (opt_json id x) = opt_json id x"
  by (cases x) (auto simp: capture_ok_def)

lemma nullable_accepts_field [field_accepts]:
  "opt_all text_ok x \<Longrightarrow> nullable required (opt_json JStr x) = Inr x"
  "opt_all is_content_hash x \<Longrightarrow> nullable content_hash_field (opt_json JStr x) = Inr x"
  "opt_all ((\<le>) 0) i \<Longrightarrow> nullable (int_at_least 0) (opt_json JInt i) = Inr i"
  "opt_all capture_ok c \<Longrightarrow> nullable capture_field (opt_json id c) = Inr c"
  by (erule nullable_accepts; fastforce simp: field_iff capture_field_accepts capture_ok_def)+

lemma coherence_of_accepts [field_accepts]: "coherence_of (JStr (coherence_str c)) = Inr c"
  by (simp add: coherence_of_iff)

lemma outcome_of_accepts [field_accepts]: "outcome_of (JStr (outcome_str c)) = Inr c"
  by (cases c) simp_all

lemma string_tuple_text:
  "list_all text_ok xs \<Longrightarrow> string_tuple False (JArr (map JStr xs)) = Inr (sorted_set xs)"
  by (auto simp: string_tuple_def Let_def res_map_required intro: exI [of _ xs])

lemma mk_observation_accepts:
  assumes "wf_observation sha r"
  shows "mk_observation sha (JStr (ob_observation_id r)) (JStr (ob_run_id r))
    (JStr (ob_run_revision r)) (JStr (ob_observation_type r)) (JStr (ob_source r))
    (JArr (map JStr (ob_evidence_ids r))) (ob_payload r) (opt_json JStr (ob_source_identity r))
    (opt_json JStr (ob_source_version r)) (opt_json JInt (ob_source_cursor r))
    (opt_json JStr (ob_content_hash r)) (JStr (coherence_str (ob_coherence r)))
    (JArr (map JStr (ob_coherence_reasons r))) (opt_json id (ob_runtime_observation r)) = Inr r"
proof -
  have "first_occurrences (snd (observation_verdict r) @ sorted_set (ob_coherence_reasons r)) =
      ob_coherence_reasons r"
    and "fst (observation_verdict r) = ob_coherence r"
    using assms by (simp_all add: wf_observation_def)
  moreover have "list_all text_ok [ob_observation_id r, ob_run_id r, ob_run_revision r,
      ob_observation_type r, ob_source r]" "ids_ok False (ob_evidence_ids r)"
    "payload_ok sha (ob_payload r) (ob_payload_hash r)"
    "opt_all text_ok (ob_source_identity r)" "opt_all text_ok (ob_source_version r)"
    "opt_all ((\<le>) 0) (ob_source_cursor r)" "opt_all is_content_hash (ob_content_hash r)"
    "opt_all capture_ok (ob_runtime_observation r)" "list_all text_ok (ob_coherence_reasons r)"
    using assms by (simp_all only: wf_observation_def)
  ultimately show ?thesis
    unfolding observation_verdict_def
    by (simp add: mk_observation_def field_accepts string_tuple_text split_beta Let_def
        del: res_bind_Inr_iff)
qed

lemma construct_accepts:
  assumes "wf_contract sha r"
  shows "construct sha (class_of r) (\<lambda>name. dget (to_dict r) name JNull) = Inr r"
proof (cases r)
  case (ObservationEnvelope o')
  with assms have wf: "wf_observation sha o'" by simp
  then have "plain (ob_payload o') = ob_payload o'"
    "plain (opt_json id (ob_runtime_observation o')) = opt_json id (ob_runtime_observation o')"
    by (auto simp: wf_observation_def plain_capture)
  then show ?thesis
    using mk_observation_accepts [OF wf]
    by (simp add: ObservationEnvelope to_dict_def dget_Cons res_apply_def del: res_bind_Inr_iff)
qed (use assms in \<open>auto simp: to_dict_def dget_Cons res_apply_def field_accepts
      mk_evidence_def mk_fence_def mk_grant_def mk_attempt_def mk_idempotency_def mk_claim_def
      mk_decision_def mk_quarantine_def mk_projection_def mk_cas_def
      simp del: res_bind_Inr_iff outcome_of.simps\<close>)

lemma complete_legacy_total:
  "list_all (\<lambda>name. name \<in> set (map fst d)) COHERENCE_AWARE_FIELDS \<Longrightarrow> complete_legacy d = d"
  by (simp add: complete_legacy_def list_all_iff filter_empty_conv)

lemma complete_legacy_to_dict: "complete_legacy (to_dict (ObservationEnvelope r)) = to_dict (ObservationEnvelope r)"
  by (rule complete_legacy_total) (simp add: to_dict_keys COHERENCE_AWARE_FIELDS_def)

lemma dget_absent: "k \<notin> set (map fst d) \<Longrightarrow> dget d k w = w"
  by (simp add: dget_def map_of_eq_None_iff [symmetric])

lemma dget_payload_hash:
  "dget (to_dict r) ''payload_hash'' JNull = payload_hash r"
  by (cases r) (simp_all add: to_dict_def dget_Cons)

lemma base_from_dict_to_dict:
  "wf_contract sha r \<Longrightarrow> base_from_dict sha (class_of r) (JObj (to_dict r)) = Inr r"
  by (simp add: base_from_dict_def to_dict_keys dget_to_dict contract_type_def construct_accepts
      dget_payload_hash Let_def ensure_def)

lemma from_dict_to_dict:
  assumes "wf_contract sha r"
  shows "from_dict sha (class_of r) (JObj (to_dict r)) = Inr r"
proof (cases "class_of r = ObservationClass")
  case True
  then obtain o' where "r = ObservationEnvelope o'" by (cases r) auto
  with base_from_dict_to_dict [OF assms] show ?thesis
    by (simp add: from_dict_def complete_legacy_to_dict)
next
  case False
  with base_from_dict_to_dict [OF assms] show ?thesis by (simp add: from_dict_def)
qed

lemma find_class: "find (\<lambda>c. type_name cls = type_name c) CONTRACT_TYPES = Some cls"
  by (cases cls) (simp_all add: CONTRACT_TYPES_def)

lemma contract_roundtrip:
  "wf_contract sha r \<Longrightarrow> contract_from_dict sha (JObj (to_dict r)) = Inr r"
  by (simp add: contract_from_dict_def dget_to_dict contract_type_def find_class from_dict_to_dict)

subsection \<open>The canonical text identifies a record\<close>

lemma type_name_inject [simp]: "type_name a = type_name b \<longleftrightarrow> a = b"
  by (cases a; cases b) simp_all

lemma distinct_to_dict_keys: "distinct (map fst (to_dict r))"
  by (cases r) (simp_all add: to_dict_keys)

lemma plain_to_dict_value: "map_option plain (map_of (to_dict r) k) = map_of (to_dict r) k"
proof -
  have "plain_items (to_dict r) = to_dict r"
    by (simp add: to_dict_def plain_items_map split_beta)
  then show ?thesis by (metis map_of_plain_items)
qed

text \<open>Association lists with the same keys in the same order and the same lookups are equal.\<close>

lemma alist_eqI:
  assumes "map fst xs = map fst ys" and "distinct (map fst xs)"
    and "\<And>k. map_of xs k = map_of ys k"
  shows "xs = ys"
proof -
  have snds: "map snd zs = map (the \<circ> map_of zs) (map fst zs)" if "distinct (map fst zs)"
    for zs :: "('a \<times> 'b) list"
    using that by auto
  have "map snd xs = map (the \<circ> map_of xs) (map fst xs)"
    by (rule snds [OF assms(2)])
  also have "\<dots> = map (the \<circ> map_of ys) (map fst ys)"
    unfolding assms(1) using assms(3) by (intro map_cong) auto
  also have "\<dots> = map snd ys"
    by (rule snds [symmetric]) (use assms(1,2) in simp)
  finally have "map snd xs = map snd ys" .
  with assms(1) show ?thesis by (metis zip_map_fst_snd)
qed

lemma to_json_inject:
  assumes "wf_contract sha r" and "wf_contract sha s"
    and "wf_json (JObj (to_dict r))" and "wf_json (JObj (to_dict s))"
    and "to_json r = to_json s"
  shows "r = s"
proof -
  have "plain (JObj (to_dict r)) = plain (JObj (to_dict s))"
    using canonical_json_plain [OF assms(3,4)] assms(5) by (simp add: to_json_def)
  then have same: "map_of (to_dict r) k = map_of (to_dict s) k" for k
    using plain_JObj_eqD plain_to_dict_value by metis
  from same [of "''contract_type''"] have "class_of r = class_of s"
    by (simp add: to_dict_def contract_type_def)
  then have "to_dict r = to_dict s"
    using same distinct_to_dict_keys by (intro alist_eqI) (simp_all add: to_dict_keys)
  with contract_roundtrip [OF assms(1)] contract_roundtrip [OF assms(2)] show ?thesis
    by (metis sum.inject(2))
qed

subsection \<open>What dispatchability means\<close>

text \<open>A capture that names every runtime field with text, is not stale, and whose engine roots and
  identities agree.\<close>

definition field_text :: "(string \<times> json) list \<Rightarrow> string \<Rightarrow> bool" where
  "field_text d name = (case dget d name JNull of JStr s \<Rightarrow> text_ok s | _ \<Rightarrow> False)"

definition coherent_capture :: "(string \<times> json) list \<Rightarrow> bool" where
  "coherent_capture d \<longleftrightarrow>
     list_all (field_text d) RUNTIME_OBSERVATION_FIELDS \<and>
     dget d ''stale'' JNull \<noteq> JBool True \<and>
     dget d ''recorded_engine_root'' JNull = dget d ''manifest_runtime_root'' JNull \<and>
     dget d ''manifest_runtime_root'' JNull = dget d ''live_import_root'' JNull \<and>
     dget d ''environment_identity'' JNull = dget d ''session_identity'' JNull"

lemma field_text_iff:
  "field_text d name \<longleftrightarrow>
     \<not> missing_value (dget d name JNull) \<and> as_str (dget d name JNull) \<noteq> None"
  by (cases "dget d name JNull") (auto simp: field_text_def text_ok_def)

lemma field_text_all:
  "list_all (field_text d) names \<longleftrightarrow>
     filter (\<lambda>name. missing_value (dget d name JNull)) names = [] \<and>
     filter (\<lambda>name. as_str (dget d name JNull) = None) names = []"
  by (auto simp: field_text_iff list_all_iff filter_empty_conv)

lemma remdups_three: "Suc 0 < length (remdups [a, b, c]) \<longleftrightarrow> \<not> (a = b \<and> b = c)"
  by auto

lemma evaluate_runtime_observation_COHERENT:
  "fst (evaluate_runtime_observation (JObj d)) = COHERENT \<longleftrightarrow> coherent_capture d"
proof (cases "d = []")
  case True
  then show ?thesis
    by (simp add: evaluate_runtime_observation_def coherent_capture_def field_text_def
        RUNTIME_OBSERVATION_FIELDS_def)
next
  case False
  then show ?thesis
    unfolding coherent_capture_def field_text_all evaluate_runtime_observation_def
    by (auto simp add: Let_def RUNTIME_ROOT_FIELDS_def remdups_three simp del: remdups.simps)
qed

lemma missing_provenance_none:
  "missing_provenance_fields a b c d = [] \<longleftrightarrow>
     \<not> missing_value a \<and> \<not> missing_value b \<and> \<not> missing_value c \<and> \<not> missing_value d"
  by (simp add: missing_provenance_fields_def)

lemma evaluate_envelope_COHERENT:
  "fst (evaluate_envelope v a b c d) = COHERENT \<longleftrightarrow>
     fst (evaluate_runtime_observation v) = COHERENT \<and>
     \<not> missing_value a \<and> \<not> missing_value b \<and> \<not> missing_value c \<and> \<not> missing_value d"
  by (auto simp: evaluate_envelope_def split_beta Let_def missing_provenance_none [symmetric])

lemma missing_opt_text: "opt_all text_ok x \<Longrightarrow> missing_value (opt_json JStr x) \<longleftrightarrow> x = None"
  by (cases x) (auto simp: text_ok_def)

lemma missing_opt_int: "missing_value (opt_json JInt x) \<longleftrightarrow> x = None"
  by (cases x) auto

lemma content_hash_text_ok:
  assumes "is_content_hash s"
  shows "text_ok s"
proof -
  from assms obtain c t where s: "s = c # t" by (cases s) (auto simp: is_content_hash_def)
  with assms have "c \<in> set ''0123456789abcdef''" by (simp add: is_content_hash_def)
  then have "33 \<le> (of_char c :: nat) \<and> of_char c < (128 :: nat)"
    unfolding list.set insert_iff empty_iff by (elim disjE) simp_all
  with s text_ok_Cons show ?thesis by simp
qed

lemma wf_observation_dispatchable:
  assumes "wf_observation sha r"
  shows "is_dispatchable r \<longleftrightarrow>
    (\<exists>d. ob_runtime_observation r = Some (JObj d) \<and> coherent_capture d) \<and>
    ob_source_identity r \<noteq> None \<and> ob_source_version r \<noteq> None \<and>
    ob_source_cursor r \<noteq> None \<and> ob_content_hash r \<noteq> None"
proof -
  have ch: "opt_all text_ok (ob_content_hash r)"
    using assms content_hash_text_ok
    by (cases "ob_content_hash r") (auto simp: wf_observation_def)
  have cap: "fst (evaluate_runtime_observation (opt_json id (ob_runtime_observation r))) = COHERENT
      \<longleftrightarrow> (\<exists>d. ob_runtime_observation r = Some (JObj d) \<and> coherent_capture d)"
  proof (cases "ob_runtime_observation r")
    case None
    then show ?thesis
      by (simp add: evaluate_runtime_observation_def)
  next
    case (Some v)
    with assms have "as_dict v \<noteq> None" by (simp add: wf_observation_def capture_ok_def)
    then obtain d where "v = JObj d" by (cases "as_dict v") auto
    with Some show ?thesis by (simp add: evaluate_runtime_observation_COHERENT)
  qed
  have prov: "opt_all text_ok (ob_source_identity r)" "opt_all text_ok (ob_source_version r)"
    and verdict: "ob_coherence r = fst (observation_verdict r)"
    using assms by (simp_all add: wf_observation_def)
  show ?thesis
    unfolding is_dispatchable_def verdict observation_verdict_def evaluate_envelope_COHERENT cap
      missing_opt_text [OF prov(1)] missing_opt_text [OF prov(2)] missing_opt_text [OF ch]
      missing_opt_int
    by blast
qed

subsection \<open>Relationships\<close>

lemma same_context_iff:
  "same_context f run revision co token = Inr () \<longleftrightarrow>
     run = fe_run_id f \<and> revision = fe_run_revision f \<and> co = fe_coordinator_attempt_id f \<and>
     token = fe_token f"
  by (auto simp: same_context_def)

lemma res_map_unit: "res_map f xs = Inr us \<Longrightarrow> x \<in> set xs \<Longrightarrow> f x = Inr ()"
  by (induction xs arbitrary: us) auto

lemma res_map_unit_iff: "(\<exists>us. res_map f xs = Inr us) \<longleftrightarrow> (\<forall>x \<in> set xs. f x = Inr ())"
  by (induction xs) auto

lemma evidence_matches_iff:
  assumes "distinct (map ev_evidence_id evidence)"
  shows "evidence_matches f evidence i = Inr () \<longleftrightarrow>
    (\<exists>item \<in> set evidence. ev_evidence_id item = i \<and> ev_run_id item = fe_run_id f \<and>
       ev_run_revision item = fe_run_revision f)"
proof -
  have found: "find (\<lambda>item. ev_evidence_id item = i) evidence = Some item"
    if "item \<in> set evidence" "ev_evidence_id item = i" for item
    using that assms by (induction evidence) auto
  have hit: "item \<in> set evidence \<and> ev_evidence_id item = i"
    if "find (\<lambda>item. ev_evidence_id item = i) evidence = Some item" for item
    using that by (auto simp: find_Some_iff)
  show ?thesis
  proof (cases "find (\<lambda>item. ev_evidence_id item = i) evidence")
    case None
    then show ?thesis using found by (auto simp: evidence_matches_def)
  next
    case (Some item)
    with hit found show ?thesis by (fastforce simp: evidence_matches_def)
  qed
qed

text \<open>All the conditions of a validated relationship at once.\<close>

lemma validate_relationships_iff:
  "validate_relationships f g a c evidence dec = Inr () \<longleftrightarrow>
     same_context f (gr_run_id g) (gr_run_revision g) (gr_coordinator_attempt_id g)
       (gr_fence_token g) = Inr () \<and>
     same_context f (at_run_id a) (at_run_revision a) (at_coordinator_attempt_id a)
       (at_fence_token a) = Inr () \<and>
     same_context f (cl_run_id c) (cl_run_revision c) (cl_coordinator_attempt_id c)
       (cl_fence_token c) = Inr () \<and>
     opt_all (\<lambda>d. same_context f (de_run_id d) (de_run_revision d) (de_coordinator_attempt_id d)
       (de_fence_token d) = Inr () \<and> de_claim_id d = cl_claim_id c \<and>
       de_subject_id d = cl_subject_id c \<and> de_attempt_id d = cl_attempt_id c \<and>
       de_grant_id d = cl_grant_id c) dec \<and>
     at_grant_id a = gr_grant_id g \<and> cl_grant_id c = gr_grant_id g \<and>
     at_subject_id a \<in> set (gr_subject_ids g) \<and>
     cl_subject_id c = at_subject_id a \<and> cl_attempt_id c = at_attempt_id a \<and>
     distinct (map ev_evidence_id evidence) \<and>
     list_all (\<lambda>i. i \<in> set (map ev_evidence_id evidence) \<and> evidence_matches f evidence i = Inr ())
       (gr_evidence_ids g @ cl_evidence_ids c @
        (case dec of None \<Rightarrow> [] | Some d \<Rightarrow> de_evidence_ids d))"
proof -
  have loop: "(\<exists>us. res_map (evidence_matches f evidence) needed = Inr us) \<longleftrightarrow>
      list_all (\<lambda>i. evidence_matches f evidence i = Inr ()) needed" for needed
    by (simp add: res_map_unit_iff list_all_iff)
  show ?thesis
    unfolding validate_relationships_def res_bind_Inr_iff Let_def ensure_Inr_iff
    by (cases dec) (auto simp: loop list_all_iff)
qed

subsection \<open>A legacy record without its reasons\<close>

definition without :: "string \<Rightarrow> (string \<times> json) list \<Rightarrow> (string \<times> json) list" where
  "without name d = filter (\<lambda>(k, v). k \<noteq> name) d"

lemma dget_without: "dget (without name d) k w = (if k = name then w else dget d k w)"
  by (induction d) (auto simp: without_def dget_Cons)

lemma set_without: "set (map fst (without name d)) = set (map fst d) - {name}"
  by (auto simp: without_def)

lemma set_update_keys: "set (map fst (AList.update k v d)) = insert k (set (map fst d))"
  by (auto simp: update_keys)

lemma evaluate_COHERENT_no_reasons:
  "fst (evaluate_envelope v a b c d) = COHERENT \<Longrightarrow> snd (evaluate_envelope v a b c d) = []"
  by (auto simp: evaluate_envelope_def evaluate_runtime_observation_def Let_def split: if_splits)

lemma legacy_missing:
  "filter (\<lambda>name. name \<notin> set (map fst (without ''coherence_reasons''
     (to_dict (ObservationEnvelope r))))) COHERENCE_AWARE_FIELDS = [''coherence_reasons'']"
  unfolding set_without to_dict_keys by (simp add: COHERENCE_AWARE_FIELDS_def)

lemma dget_to_dict_reasons:
  "dget (to_dict (ObservationEnvelope (r\<lparr>ob_coherence_reasons := rs\<rparr>))) k w =
     (if k = ''coherence_reasons'' then JArr (map JStr rs) else dget (to_dict (ObservationEnvelope r)) k w)"
  by (simp add: to_dict_def dget_Cons contract_type_def)

lemma dget_to_dict_coherence:
  "dget (to_dict (ObservationEnvelope r)) ''coherence'' w = JStr (coherence_str (ob_coherence r))"
  by (simp add: to_dict_def dget_Cons)

lemma complete_legacy_reasons:
  "complete_legacy (without ''coherence_reasons'' (to_dict (ObservationEnvelope r))) =
     AList.update ''coherence_reasons'' (JArr [JStr legacy_reason])
       (AList.update ''coherence_reasons'' (JArr [])
         (without ''coherence_reasons'' (to_dict (ObservationEnvelope r))))"
  unfolding complete_legacy_def legacy_missing
  by (simp add: fill_legacy_def dget_without dget_to_dict_coherence)

lemma decode_without_reasons:
  assumes wf: "wf_observation sha r" and coh: "is_dispatchable r"
  shows "from_dict sha ObservationClass
      (JObj (without ''coherence_reasons'' (to_dict (ObservationEnvelope r)))) =
    Inr (ObservationEnvelope (r\<lparr>ob_coherence_reasons := [legacy_reason]\<rparr>))"
proof -
  let ?r = "r\<lparr>ob_coherence_reasons := [legacy_reason]\<rparr>"
  let ?d = "AList.update ''coherence_reasons'' (JArr [JStr legacy_reason])
       (AList.update ''coherence_reasons'' (JArr [])
         (without ''coherence_reasons'' (to_dict (ObservationEnvelope r))))"
  have verdict: "observation_verdict ?r = observation_verdict r"
    by (simp add: observation_verdict_def)
  have "snd (observation_verdict r) = []"
    using wf coh by (simp add: wf_observation_def is_dispatchable_def observation_verdict_def
        evaluate_COHERENT_no_reasons)
  moreover have "text_ok legacy_reason"
    by (simp add: legacy_reason_def text_ok_Cons)
  ultimately have "wf_contract sha (ObservationEnvelope ?r)"
    using wf verdict by (simp add: wf_observation_def sorted_set_def)
  then have "base_from_dict sha ObservationClass (JObj (to_dict (ObservationEnvelope ?r))) =
      Inr (ObservationEnvelope ?r)"
    using base_from_dict_to_dict [of sha "ObservationEnvelope ?r"] by simp
  moreover have "dget ?d k w = dget (to_dict (ObservationEnvelope ?r)) k w" for k w
    by (simp add: dget_without dget_to_dict_reasons)
  moreover have "set (map fst ?d) = set (map fst (to_dict (ObservationEnvelope ?r)))"
  proof -
    have keys: "set (map fst (to_dict (ObservationEnvelope ?r))) =
        set (map fst (to_dict (ObservationEnvelope r)))"
      unfolding to_dict_keys class_of.simps ..
    have mem: "''coherence_reasons'' \<in> set (map fst (to_dict (ObservationEnvelope r)))"
      unfolding to_dict_keys by simp
    show ?thesis
      unfolding keys set_update_keys set_without using mem by blast
  qed
  ultimately have "base_from_dict sha ObservationClass (JObj ?d) = Inr (ObservationEnvelope ?r)"
    by (simp only: base_from_dict_def as_dict.simps option.case)
  then show ?thesis
    by (simp add: from_dict_def complete_legacy_reasons)
qed

section \<open>Properties of the contracts\<close>

text \<open>C27. Whatever a constructor returns, decoding its dictionary through the versioned
  discriminator returns the same record.\<close>

theorem decoding_inverts_encoding:
  assumes "construct sha cls kw = Inr r"
  shows "contract_from_dict sha (JObj (to_dict r)) = Inr r"
  using contract_roundtrip construct_wf [OF assms] by blast

text \<open>Sample arguments: a claim with an unsorted evidence tuple and a nested payload, the same claim
  with its evidence and payload listed in another order, and a coherent observation.\<close>

definition sample_claim_arg :: "string \<Rightarrow> json" where
  "sample_claim_arg name =
     (if name = ''fence_token'' then JInt 3
      else if name = ''evidence_ids'' then JArr [JStr ''e2'', JStr ''e1'', JStr ''e2'']
      else if name = ''payload'' then JObj [(''b'', JNull), (''a'', JArr [JInt 1])]
      else JStr name)"

definition shuffled_claim_arg :: "string \<Rightarrow> json" where
  "shuffled_claim_arg name =
     (if name = ''evidence_ids'' then JArr [JStr ''e1'', JStr ''e2'']
      else if name = ''payload'' then JObj [(''a'', JArr [JInt 1]), (''b'', JNull)]
      else sample_claim_arg name)"

definition sample_observation_arg :: "string \<Rightarrow> json" where
  "sample_observation_arg name =
     (if name = ''source_cursor'' then JInt 1
      else if name = ''evidence_ids'' then JArr []
      else if name = ''coherence_reasons'' then JArr []
      else if name = ''coherence'' then JStr ''COHERENT''
      else if name = ''content_hash'' then JStr (replicate 64 CHR ''a'')
      else if name = ''payload'' then JObj []
      else if name = ''runtime_observation'' then
        JObj (map (\<lambda>f. (f, JStr ''x'')) RUNTIME_OBSERVATION_FIELDS)
      else JStr name)"

fun the_result :: "'e + 'a \<Rightarrow> 'a" where
  "the_result (Inr x) = x"

fun the_observation :: "contract \<Rightarrow> observation_envelope" where
  "the_observation (ObservationEnvelope r) = r"

definition sample_claim :: contract where
  "sample_claim = the_result (construct (\<lambda>s. s) ClaimClass sample_claim_arg)"

definition sample_observation :: observation_envelope where
  "sample_observation =
     the_observation (the_result (construct (\<lambda>s. s) ObservationClass sample_observation_arg))"

lemma sample_claim_constructed: "construct (\<lambda>s. s) ClaimClass sample_claim_arg = Inr sample_claim"
  by code_simp

lemma shuffled_claim_constructed:
  "construct (\<lambda>s. s) ClaimClass shuffled_claim_arg =
     Inr (the_result (construct (\<lambda>s. s) ClaimClass shuffled_claim_arg))"
  by code_simp

lemma sample_observation_constructed:
  "construct (\<lambda>s. s) ObservationClass sample_observation_arg = Inr (ObservationEnvelope sample_observation)"
  by code_simp

lemma decoding_inverts_encoding_witness:
  "contract_from_dict (\<lambda>s. s) (JObj (to_dict sample_claim)) = Inr sample_claim"
  by (rule decoding_inverts_encoding [OF sample_claim_constructed])

text \<open>Two constructed records with the same canonical text are the same record (the floats of
  their payloads being printed by \<^verbatim>\<open>repr\<close>).\<close>

theorem canonical_text_identifies_contract:
  assumes "construct sha cls kw = Inr r" and "construct sha cls' kw' = Inr s"
    and "wf_json (JObj (to_dict r))" and "wf_json (JObj (to_dict s))"
    and "to_json r = to_json s"
  shows "r = s"
  using to_json_inject assms construct_wf by blast

lemma canonical_text_identifies_contract_witness:
  "sample_claim = the_result (construct (\<lambda>s. s) ClaimClass shuffled_claim_arg)"
  by (rule canonical_text_identifies_contract
      [OF sample_claim_constructed shuffled_claim_constructed]; code_simp)

text \<open>An observation is dispatchable exactly when its capture names every runtime field, is not
  stale, has one engine root and one identity, and every provenance field is there.\<close>

theorem dispatchable_iff_coherent_capture:
  assumes "construct sha ObservationClass kw = Inr (ObservationEnvelope r)"
  shows "is_dispatchable r \<longleftrightarrow>
    (\<exists>d. ob_runtime_observation r = Some (JObj d) \<and> coherent_capture d) \<and>
    ob_source_identity r \<noteq> None \<and> ob_source_version r \<noteq> None \<and>
    ob_source_cursor r \<noteq> None \<and> ob_content_hash r \<noteq> None"
  using wf_observation_dispatchable construct_wf [OF assms] by simp

lemma dispatchable_iff_coherent_capture_witness:
  "is_dispatchable sample_observation \<longleftrightarrow>
    (\<exists>d. ob_runtime_observation sample_observation = Some (JObj d) \<and> coherent_capture d) \<and>
    ob_source_identity sample_observation \<noteq> None \<and> ob_source_version sample_observation \<noteq> None \<and>
    ob_source_cursor sample_observation \<noteq> None \<and> ob_content_hash sample_observation \<noteq> None"
  by (rule dispatchable_iff_coherent_capture [OF sample_observation_constructed])

text \<open>A relationship that validates, with or without a decision, keeps the claim inside the
  grant's current scope: the scope check of the claim's own subject, grant and token passes.\<close>

theorem validated_claim_is_in_scope:
  assumes "validate_relationships f g a c evidence dec = Inr ()"
  shows "validate_scope_binding g f (cl_grant_id c) (cl_subject_id c) (Some (cl_fence_token c)) None =
    Inr ()"
  using assms unfolding validate_relationships_iff same_context_iff
  by (auto simp: validate_scope_binding_def)

definition sample_fence :: coordinator_fence where
  "sample_fence = \<lparr>fe_run_id = ''r'', fe_run_revision = ''v'', fe_coordinator_attempt_id = ''c'',
     fe_token = 1\<rparr>"

definition sample_grant :: capability_grant where
  "sample_grant = \<lparr>gr_grant_id = ''g'', gr_run_id = ''r'', gr_run_revision = ''v'',
     gr_coordinator_attempt_id = ''c'', gr_fence_token = 1, gr_subject_ids = [''s''],
     gr_capabilities = [''k''], gr_evidence_ids = []\<rparr>"

definition sample_attempt :: subject_attempt where
  "sample_attempt = \<lparr>at_attempt_id = ''a'', at_run_id = ''r'', at_run_revision = ''v'',
     at_subject_id = ''s'', at_grant_id = ''g'', at_coordinator_attempt_id = ''c'',
     at_fence_token = 1, at_ordinal = 1\<rparr>"

definition sample_evidence :: evidence_envelope where
  "sample_evidence = \<lparr>ev_evidence_id = ''e'', ev_run_id = ''r'', ev_run_revision = ''v'',
     ev_evidence_type = ''t'', ev_source = ''src'', ev_payload = JObj [],
     ev_payload_hash = ''{}''\<rparr>"

definition linked_claim :: authority_claim where
  "linked_claim = \<lparr>cl_claim_id = ''c1'', cl_run_id = ''r'', cl_run_revision = ''v'',
     cl_subject_id = ''s'', cl_attempt_id = ''a'', cl_grant_id = ''g'',
     cl_coordinator_attempt_id = ''c'', cl_fence_token = 1, cl_claim_type = ''t'',
     cl_evidence_ids = [''e''], cl_idempotency_key = ''i'', cl_payload = JObj [],
     cl_payload_hash = ''{}''\<rparr>"

lemma validated_claim_is_in_scope_witness:
  "validate_scope_binding sample_grant sample_fence (cl_grant_id linked_claim)
     (cl_subject_id linked_claim) (Some (cl_fence_token linked_claim)) None = Inr ()"
  by (rule validated_claim_is_in_scope [of _ _ sample_attempt _ "[sample_evidence]" None]) code_simp

text \<open>A dispatchable observation serialised without its \<^verbatim>\<open>coherence_reasons\<close> is decoded as a
  legacy record and is still dispatchable; it carries the legacy reason, but is not demoted to
  unknown evidence.\<close>

theorem legacy_record_can_stay_dispatchable:
  assumes "construct sha ObservationClass kw = Inr (ObservationEnvelope r)"
    and "is_dispatchable r"
  shows "from_dict sha ObservationClass
      (JObj (without ''coherence_reasons'' (to_dict (ObservationEnvelope r)))) =
    Inr (ObservationEnvelope (r\<lparr>ob_coherence_reasons := [legacy_reason]\<rparr>))
    \<and> is_dispatchable (r\<lparr>ob_coherence_reasons := [legacy_reason]\<rparr>)"
  using decode_without_reasons construct_wf [OF assms(1)] assms(2)
  by (simp add: is_dispatchable_def)

lemma legacy_record_can_stay_dispatchable_witness:
  "from_dict (\<lambda>s. s) ObservationClass
      (JObj (without ''coherence_reasons'' (to_dict (ObservationEnvelope sample_observation)))) =
    Inr (ObservationEnvelope (sample_observation\<lparr>ob_coherence_reasons := [legacy_reason]\<rparr>))
    \<and> is_dispatchable (sample_observation\<lparr>ob_coherence_reasons := [legacy_reason]\<rparr>)"
  by (rule legacy_record_can_stay_dispatchable [OF sample_observation_constructed]) code_simp

end
