(* ===== verification/Authority_Reducer.thy ===== *)
theory Authority_Reducer
  imports Authority_Facts
begin

section \<open>The run-authority reducer\<close>

text \<open>
  \<^verbatim>\<open>arnold_pipelines/run_authority/reducer.py\<close>: the fold of the supplied records of a run into a
  canonical view. Dictionaries keep their insertion order; \<open>sha\<close> is the SHA-256 hex digest of the
  UTF-8 text.
\<close>

subsection \<open>Diagnostics\<close>

datatype authority_diagnostic =
  AuthorityDiagnostic (dg_code: string) (dg_record_type: string) (dg_record_id: string)
    (dg_reason: string) (dg_source: string)

text \<open>\<^verbatim>\<open>order=True\<close>: diagnostics are ordered by their fields.\<close>

definition diagnostic_key :: "authority_diagnostic \<Rightarrow> string \<times> string \<times> string \<times> string \<times> string" where
  "diagnostic_key d = (dg_code d, dg_record_type d, dg_record_id d, dg_reason d, dg_source d)"

lemma diagnostic_key_inject [simp]: "diagnostic_key a = diagnostic_key b \<longleftrightarrow> a = b"
  by (cases a; cases b) (simp add: diagnostic_key_def)

instantiation authority_diagnostic :: linorder
begin

definition less_eq_authority_diagnostic :: "authority_diagnostic \<Rightarrow> authority_diagnostic \<Rightarrow> bool" where
  "less_eq_authority_diagnostic a b \<longleftrightarrow> diagnostic_key a \<le> diagnostic_key b"

definition less_authority_diagnostic :: "authority_diagnostic \<Rightarrow> authority_diagnostic \<Rightarrow> bool" where
  "less_authority_diagnostic a b \<longleftrightarrow> diagnostic_key a < diagnostic_key b"

instance
proof
  fix a b c :: authority_diagnostic
  show "(a < b) = (a \<le> b \<and> \<not> b \<le> a)"
    unfolding less_eq_authority_diagnostic_def less_authority_diagnostic_def by (rule less_le_not_le)
  show "a \<le> a" unfolding less_eq_authority_diagnostic_def by simp
  show "a \<le> b \<Longrightarrow> b \<le> c \<Longrightarrow> a \<le> c"
    unfolding less_eq_authority_diagnostic_def by (rule order_trans)
  show "a \<le> b \<Longrightarrow> b \<le> a \<Longrightarrow> a = b"
    unfolding less_eq_authority_diagnostic_def using antisym diagnostic_key_inject by blast
  show "a \<le> b \<or> b \<le> a" unfolding less_eq_authority_diagnostic_def by (rule linear)
qed

end

definition diagnostic_dict :: "authority_diagnostic \<Rightarrow> json" where
  "diagnostic_dict d = JObj
     [(''code'', JStr (dg_code d)), (''record_type'', JStr (dg_record_type d)),
      (''record_id'', JStr (dg_record_id d)), (''reason'', JStr (dg_reason d)),
      (''source'', JStr (dg_source d))]"

subsection \<open>Identity, source and order of a record\<close>

definition record_sort_key :: "contract \<Rightarrow> string \<times> string" where
  "record_sort_key r = (contract_type r, to_json r)"

definition fence_key_text :: "coordinator_fence \<Rightarrow> string" where
  "fence_key_text r = fe_run_id r @ '':'' @ fe_run_revision r @ '':'' @
     fe_coordinator_attempt_id r @ '':'' @ int_str (fe_token r)"

fun identity_text :: "contract \<Rightarrow> string option" where
  "identity_text (EvidenceEnvelope r) = Some (ev_evidence_id r)"
| "identity_text (ObservationEnvelope r) = Some (ob_observation_id r)"
| "identity_text (CoordinatorFence r) = Some (fence_key_text r)"
| "identity_text (CapabilityGrant r) = Some (gr_grant_id r)"
| "identity_text (SubjectAttempt r) = Some (at_attempt_id r)"
| "identity_text (IdempotencyKey r) = Some (ik_value r)"
| "identity_text (Claim r) = Some (cl_claim_id r)"
| "identity_text (Decision r) = Some (de_decision_id r)"
| "identity_text (QuarantineRecord r) = Some (qu_quarantine_id r)"
| "identity_text (ProjectionMetadata _) = None"
| "identity_text (CASExpectation _) = None"

definition identity :: "contract \<Rightarrow> contract_error + string \<times> string" where
  "identity r = (case identity_text r of
     None \<Rightarrow> Inl ContractError | Some i \<Rightarrow> Inr (contract_type r, i))"

fun record_source :: "contract \<Rightarrow> contract_error + string" where
  "record_source (EvidenceEnvelope r) = Inr (ev_source r)"
| "record_source (ObservationEnvelope r) = Inr (ob_source r)"
| "record_source (QuarantineRecord r) = Inr (qu_source r)"
| "record_source r = res_bind (identity r) (\<lambda>(record_type, record_id).
     Inr (''contract://'' @ record_type @ ''/'' @ record_id))"

subsection \<open>Deduplication\<close>

type_synonym variants = "(string \<times> contract) list"

text \<open>\<^verbatim>\<open>grouped.setdefault(key, {})[record.to_json()] = record\<close> for each record in turn.\<close>

fun group_records ::
    "contract list \<Rightarrow> ((string \<times> string) \<times> variants) list \<Rightarrow>
     contract_error + ((string \<times> string) \<times> variants) list" where
  "group_records [] grouped = Inr grouped"
| "group_records (r # rs) grouped =
     res_bind (identity r) (\<lambda>key.
       let variants = (case map_of grouped key of Some vs \<Rightarrow> vs | None \<Rightarrow> []) in
       group_records rs (AList.update key (AList.update (to_json r) r variants) grouped))"

text \<open>\<^verbatim>\<open>",".join(sources)\<close>.\<close>

fun comma_join :: "string list \<Rightarrow> string" where
  "comma_join [] = []"
| "comma_join [s] = s"
| "comma_join (s # t # ts) = s @ '','' @ comma_join (t # ts)"

text \<open>The body of the loop over \<^verbatim>\<open>sorted(grouped.items())\<close>: a unique record or a diagnostic.\<close>

definition group_outcome ::
    "(string \<times> string) \<times> variants \<Rightarrow> contract_error + contract + authority_diagnostic" where
  "group_outcome entry =
     (let ((record_type, record_id), variants) = entry in
      case variants of
        [(_, r)] \<Rightarrow> Inr (Inl r)
      | _ \<Rightarrow>
          res_bind (res_map (record_source \<circ> snd) variants) (\<lambda>sources.
            Inr (Inr (AuthorityDiagnostic ''conflicting_duplicate_key'' record_type record_id
              (nat_str (length variants) @ '' distinct payloads share one record identity'')
              (comma_join (sorted_set sources))))))"

definition deduplicate ::
    "contract list \<Rightarrow> contract_error + contract list \<times> authority_diagnostic list" where
  "deduplicate records =
     res_bind (group_records records []) (\<lambda>grouped.
     res_bind (res_map group_outcome (sort_key fst grouped)) (\<lambda>outcomes.
       Inr (sort_key record_sort_key [r. Inl r \<leftarrow> outcomes],
            sort [d. Inr d \<leftarrow> outcomes])))"

subsection \<open>Quarantine of an incompletely linked record\<close>

text \<open>\<^verbatim>\<open>_generated_quarantine\<close> on a claim or a decision: its identity, its digest and its evidence.\<close>

definition generated_quarantine ::
    "(string \<Rightarrow> string) \<Rightarrow> contract \<Rightarrow> string \<Rightarrow> string list \<Rightarrow> string \<Rightarrow> string \<Rightarrow> string \<Rightarrow>
     contract_error + quarantine_record" where
  "generated_quarantine sha r record_id evidence_ids run_id run_revision reason =
     (let material = canonical_json (JObj
            [(''record_type'', JStr (contract_type r)), (''record_id'', JStr record_id),
             (''record_digest'', JStr (contract_digest sha r)), (''reason'', JStr reason),
             (''run_id'', JStr run_id), (''run_revision'', JStr run_revision)])
      in res_bind (record_source r) (\<lambda>source.
           mk_quarantine sha (JStr (''reducer-'' @ take 24 (sha material))) (JStr run_id)
             (JStr run_revision) (JStr (contract_type r)) (JStr record_id) (JStr reason)
             (JStr source) (JArr (map JStr evidence_ids))
             (JObj [(''record_digest'', JStr (contract_digest sha r))])))"

definition quarantine_claim ::
    "(string \<Rightarrow> string) \<Rightarrow> string \<Rightarrow> string \<Rightarrow> authority_claim \<Rightarrow> string \<Rightarrow>
     contract_error + quarantine_record" where
  "quarantine_claim sha run_id run_revision c reason =
     generated_quarantine sha (Claim c) (cl_claim_id c) (cl_evidence_ids c) run_id run_revision reason"

definition quarantine_decision ::
    "(string \<Rightarrow> string) \<Rightarrow> string \<Rightarrow> string \<Rightarrow> authority_decision \<Rightarrow> string \<Rightarrow>
     contract_error + quarantine_record" where
  "quarantine_decision sha run_id run_revision d reason =
     generated_quarantine sha (Decision d) (de_decision_id d) (de_evidence_ids d)
       run_id run_revision reason"

subsection \<open>Why a claim or a decision is not authority\<close>

record authority_index =
  ix_evidence :: "string \<rightharpoonup> evidence_envelope"
  ix_fences :: "string \<times> int \<rightharpoonup> coordinator_fence"
  ix_grants :: "string \<rightharpoonup> capability_grant"
  ix_attempts :: "string \<rightharpoonup> subject_attempt"
  ix_idempotency :: "string \<rightharpoonup> idempotency_key"

definition idempotent_in :: "(string \<rightharpoonup> idempotency_key) \<Rightarrow> string \<Rightarrow> string \<Rightarrow> bool" where
  "idempotent_in keys i h =
     (case keys i of None \<Rightarrow> False | Some key \<Rightarrow> ik_payload_hash key = h)"

definition evidence_current ::
    "(string \<rightharpoonup> evidence_envelope) \<Rightarrow> string \<Rightarrow> string \<Rightarrow> string \<Rightarrow> bool" where
  "evidence_current evidence run_id run_revision i =
     (case evidence i of
        None \<Rightarrow> False
      | Some item \<Rightarrow> ev_run_id item = run_id \<and> ev_run_revision item = run_revision)"

definition claim_reason ::
    "string \<Rightarrow> string \<Rightarrow> authority_index \<Rightarrow> authority_claim \<Rightarrow> string option" where
  "claim_reason run_id run_revision ix c =
     (if cl_run_id c \<noteq> run_id then Some ''run_identity_mismatch''
      else if cl_run_revision c \<noteq> run_revision then Some ''missing_matching_revision''
      else case ix_attempts ix (cl_attempt_id c) of
        None \<Rightarrow> Some ''missing_matching_attempt''
      | Some attempt \<Rightarrow>
      (case ix_grants ix (cl_grant_id c) of
        None \<Rightarrow> Some ''missing_matching_grant''
      | Some grant \<Rightarrow>
      (case ix_fences ix (cl_coordinator_attempt_id c, cl_fence_token c) of
        None \<Rightarrow> Some ''missing_matching_fence''
      | Some fence \<Rightarrow>
      if \<not> idempotent_in (ix_idempotency ix) (cl_idempotency_key c) (cl_payload_hash c)
      then Some ''missing_matching_idempotency_identity''
      else if list_ex (\<lambda>i. ix_evidence ix i = None) (cl_evidence_ids c @ gr_evidence_ids grant)
      then Some ''missing_matching_evidence''
      else if list_ex (\<lambda>x. x \<noteq> run_id) [at_run_id attempt, gr_run_id grant, fe_run_id fence]
      then Some ''run_identity_mismatch''
      else if list_ex (\<lambda>x. x \<noteq> run_revision)
                [at_run_revision attempt, gr_run_revision grant, fe_run_revision fence]
      then Some ''missing_matching_revision''
      else if at_subject_id attempt \<noteq> cl_subject_id c \<or> at_grant_id attempt \<noteq> gr_grant_id grant \<or>
        cl_subject_id c \<notin> set (gr_subject_ids grant) \<or>
        at_coordinator_attempt_id attempt \<noteq> cl_coordinator_attempt_id c \<or>
        gr_coordinator_attempt_id grant \<noteq> cl_coordinator_attempt_id c \<or>
        fe_coordinator_attempt_id fence \<noteq> cl_coordinator_attempt_id c \<or>
        at_fence_token attempt \<noteq> cl_fence_token c \<or> gr_fence_token grant \<noteq> cl_fence_token c
      then Some ''authority_identity_mismatch''
      else if list_ex (\<lambda>i. \<not> evidence_current (ix_evidence ix) run_id run_revision i)
                (cl_evidence_ids c @ gr_evidence_ids grant)
      then Some ''evidence_identity_mismatch''
      else None)))"

definition decision_reason ::
    "string \<Rightarrow> string \<Rightarrow> (string \<rightharpoonup> authority_claim) \<Rightarrow> authority_index \<Rightarrow> authority_decision \<Rightarrow>
     string option" where
  "decision_reason run_id run_revision claims ix d =
     (if de_run_id d \<noteq> run_id then Some ''run_identity_mismatch''
      else if de_run_revision d \<noteq> run_revision then Some ''missing_matching_revision''
      else case claims (de_claim_id d) of
        None \<Rightarrow> Some ''missing_authoritative_claim''
      | Some c \<Rightarrow>
      if \<not> idempotent_in (ix_idempotency ix) (de_idempotency_key d) (de_payload_hash d)
      then Some ''missing_matching_idempotency_identity''
      else if list_ex (\<lambda>i. ix_evidence ix i = None) (de_evidence_ids d)
      then Some ''missing_matching_evidence''
      else if de_subject_id d \<noteq> cl_subject_id c \<or> de_attempt_id d \<noteq> cl_attempt_id c \<or>
        de_grant_id d \<noteq> cl_grant_id c \<or>
        de_coordinator_attempt_id d \<noteq> cl_coordinator_attempt_id c \<or>
        de_fence_token d \<noteq> cl_fence_token c
      then Some ''decision_claim_identity_mismatch''
      else if list_ex (\<lambda>i. \<not> evidence_current (ix_evidence ix) run_id run_revision i)
                (de_evidence_ids d)
      then Some ''evidence_identity_mismatch''
      else None)"

text \<open>\<^verbatim>\<open>_by_id\<close>: a later record replaces an earlier one of the same key.\<close>

definition by_id :: "('a \<Rightarrow> 'k) \<Rightarrow> 'a list \<Rightarrow> 'k \<rightharpoonup> 'a" where
  "by_id f rs = map_of (rev (map (\<lambda>r. (f r, r)) rs))"

definition observation_is_current :: "string \<Rightarrow> int \<Rightarrow> observation_envelope \<Rightarrow> bool" where
  "observation_is_current run_revision journal_cursor o' \<longleftrightarrow>
     ob_run_revision o' = run_revision \<and>
     \<not> (case ob_source_cursor o' of None \<Rightarrow> False | Some n \<Rightarrow> journal_cursor < n)"

subsection \<open>The view\<close>

record run_authority_view =
  vw_run_id :: string
  vw_run_revision :: string
  vw_journal_cursor :: int
  vw_evidence_set_digest :: string
  vw_evidence :: "evidence_envelope list"
  vw_observations :: "observation_envelope list"
  vw_coherent_observations :: "observation_envelope list"
  vw_fences :: "coordinator_fence list"
  vw_grants :: "capability_grant list"
  vw_attempts :: "subject_attempt list"
  vw_claims :: "authority_claim list"
  vw_decisions :: "authority_decision list"
  vw_quarantines :: "quarantine_record list"
  vw_diagnostics :: "authority_diagnostic list"
  vw_view_hash :: string

definition records_dict :: "contract list \<Rightarrow> json" where
  "records_dict rs = JArr (map (JObj \<circ> to_dict) rs)"

text \<open>\<^verbatim>\<open>schema_version\<close> is always 1.\<close>

definition view_payload :: "run_authority_view \<Rightarrow> (string \<times> json) list" where
  "view_payload v =
     [(''schema_version'', JInt 1), (''run_id'', JStr (vw_run_id v)),
      (''run_revision'', JStr (vw_run_revision v)), (''journal_cursor'', JInt (vw_journal_cursor v)),
      (''evidence_set_digest'', JStr (vw_evidence_set_digest v)),
      (''evidence'', records_dict (map EvidenceEnvelope (vw_evidence v))),
      (''observations'', records_dict (map ObservationEnvelope (vw_observations v))),
      (''coherent_observations'', records_dict (map ObservationEnvelope (vw_coherent_observations v))),
      (''fences'', records_dict (map CoordinatorFence (vw_fences v))),
      (''grants'', records_dict (map CapabilityGrant (vw_grants v))),
      (''attempts'', records_dict (map SubjectAttempt (vw_attempts v))),
      (''claims'', records_dict (map Claim (vw_claims v))),
      (''decisions'', records_dict (map Decision (vw_decisions v))),
      (''quarantines'', records_dict (map QuarantineRecord (vw_quarantines v))),
      (''diagnostics'', JArr (map diagnostic_dict (vw_diagnostics v)))]"

definition view_to_json :: "run_authority_view \<Rightarrow> string" where
  "view_to_json v =
     canonical_json (JObj (view_payload v @ [(''view_hash'', JStr (vw_view_hash v))]))"

subsection \<open>The reduction\<close>

fun as_evidence :: "contract \<Rightarrow> evidence_envelope option" where
  "as_evidence (EvidenceEnvelope r) = Some r"
| "as_evidence _ = None"

fun as_observation :: "contract \<Rightarrow> observation_envelope option" where
  "as_observation (ObservationEnvelope r) = Some r"
| "as_observation _ = None"

fun as_fence :: "contract \<Rightarrow> coordinator_fence option" where
  "as_fence (CoordinatorFence r) = Some r"
| "as_fence _ = None"

fun as_grant :: "contract \<Rightarrow> capability_grant option" where
  "as_grant (CapabilityGrant r) = Some r"
| "as_grant _ = None"

fun as_attempt :: "contract \<Rightarrow> subject_attempt option" where
  "as_attempt (SubjectAttempt r) = Some r"
| "as_attempt _ = None"

fun as_idempotency :: "contract \<Rightarrow> idempotency_key option" where
  "as_idempotency (IdempotencyKey r) = Some r"
| "as_idempotency _ = None"

fun as_claim :: "contract \<Rightarrow> authority_claim option" where
  "as_claim (Claim r) = Some r"
| "as_claim _ = None"

fun as_decision :: "contract \<Rightarrow> authority_decision option" where
  "as_decision (Decision r) = Some r"
| "as_decision _ = None"

fun as_quarantine :: "contract \<Rightarrow> quarantine_record option" where
  "as_quarantine (QuarantineRecord r) = Some r"
| "as_quarantine _ = None"

text \<open>\<^verbatim>\<open>tuple(record for record in typed if isinstance(record, T) and keep(record))\<close>.\<close>

definition select :: "(contract \<Rightarrow> 'a option) \<Rightarrow> ('a \<Rightarrow> bool) \<Rightarrow> contract list \<Rightarrow> 'a list" where
  "select proj keep typed = filter keep (List.map_filter proj typed)"

definition sort_records :: "('a \<Rightarrow> contract) \<Rightarrow> 'a list \<Rightarrow> 'a list" where
  "sort_records wrap rs = sort_key (record_sort_key \<circ> wrap) rs"

text \<open>The diagnostic of an observation that does not authorise dispatch.\<close>

fun coherence_lower :: "coherence \<Rightarrow> string" where
  "coherence_lower COHERENT = ''coherent''"
| "coherence_lower UNKNOWN = ''unknown''"
| "coherence_lower INCOHERENT = ''incoherent''"

definition observation_diagnostic ::
    "string \<Rightarrow> int \<Rightarrow> observation_envelope \<Rightarrow> authority_diagnostic option" where
  "observation_diagnostic run_revision cursor o' =
     (if \<not> observation_is_current run_revision cursor o' then
        Some (AuthorityDiagnostic ''non_coherent_observation'' ''observation'' (ob_observation_id o')
          ''stale_observation_cannot_authorize_dispatch'' (ob_source o'))
      else if \<not> is_dispatchable o' then
        Some (AuthorityDiagnostic ''non_coherent_observation'' ''observation'' (ob_observation_id o')
          (coherence_lower (ob_coherence o') @ ''_observation_cannot_authorize_dispatch'')
          (ob_source o'))
      else None)"

definition build_index :: "string \<Rightarrow> string \<Rightarrow> contract list \<Rightarrow> authority_index" where
  "build_index run_id run_revision typed =
     \<lparr>ix_evidence = by_id ev_evidence_id
        (select as_evidence (\<lambda>r. ev_run_id r = run_id \<and> ev_run_revision r = run_revision) typed),
      ix_fences = by_id (\<lambda>r. (fe_coordinator_attempt_id r, fe_token r))
        (select as_fence (\<lambda>r. fe_run_id r = run_id \<and> fe_run_revision r = run_revision) typed),
      ix_grants = by_id gr_grant_id
        (select as_grant (\<lambda>r. gr_run_id r = run_id \<and> gr_run_revision r = run_revision) typed),
      ix_attempts = by_id at_attempt_id
        (select as_attempt (\<lambda>r. at_run_id r = run_id \<and> at_run_revision r = run_revision) typed),
      ix_idempotency = by_id ik_value (select as_idempotency (\<lambda>_. True) typed)\<rparr>"

text \<open>A loop over claims or decisions: the records without a reason are accepted; the others give
  a quarantine and a diagnostic each.\<close>

definition split_records ::
    "('a \<Rightarrow> string option) \<Rightarrow> ('a \<Rightarrow> string \<Rightarrow> contract_error + quarantine_record) \<Rightarrow>
     string \<Rightarrow> ('a \<Rightarrow> string) \<Rightarrow> 'a list \<Rightarrow>
     contract_error + 'a list \<times> quarantine_record list \<times> authority_diagnostic list" where
  "split_records reason quarantine record_type record_id rs =
     (let bad = [(r, why). r \<leftarrow> rs, why \<leftarrow> (case reason r of None \<Rightarrow> [] | Some why \<Rightarrow> [why])] in
      res_bind (res_map (\<lambda>(r, why). quarantine r why) bad) (\<lambda>generated.
        Inr (filter (\<lambda>r. reason r = None) rs, generated,
             map (\<lambda>((r, why), q). AuthorityDiagnostic ''quarantined_incomplete_link'' record_type
               (record_id r) why (qu_source q)) (zip bad generated))))"

definition evidence_digest_of ::
    "(string \<Rightarrow> string) \<Rightarrow> evidence_envelope list \<Rightarrow> string" where
  "evidence_digest_of sha items =
     sha (canonical_json (JObj [(''evidence'', JArr (map (\<lambda>r. JObj
       [(''evidence_id'', JStr (ev_evidence_id r)),
        (''digest'', JStr (contract_digest sha (EvidenceEnvelope r)))])
       (sort_records EvidenceEnvelope items)))]))"

text \<open>The body of \<^verbatim>\<open>reduce_run_authority\<close> after its arguments are validated and the inputs are
  deduplicated into \<open>typed\<close>.\<close>

definition reduce_unique ::
    "(string \<Rightarrow> string) \<Rightarrow> contract list \<Rightarrow> authority_diagnostic list \<Rightarrow> string \<Rightarrow> string \<Rightarrow> int \<Rightarrow>
     contract_error + run_authority_view" where
  "reduce_unique sha typed duplicate_diagnostics run_id run_revision cursor =
     (let evidence_items = select as_evidence
            (\<lambda>r. ev_run_id r = run_id \<and> ev_run_revision r = run_revision) typed;
          observations = select as_observation (\<lambda>r. ob_run_id r = run_id) typed;
          fences_items = select as_fence
            (\<lambda>r. fe_run_id r = run_id \<and> fe_run_revision r = run_revision) typed;
          grants_items = select as_grant
            (\<lambda>r. gr_run_id r = run_id \<and> gr_run_revision r = run_revision) typed;
          attempts_items = select as_attempt
            (\<lambda>r. at_run_id r = run_id \<and> at_run_revision r = run_revision) typed;
          ix = build_index run_id run_revision typed;
          coherent_observations = filter
            (\<lambda>r. observation_is_current run_revision cursor r \<and> is_dispatchable r) observations;
          observation_diagnostics =
            List.map_filter (observation_diagnostic run_revision cursor) observations
      in
      res_bind (split_records (claim_reason run_id run_revision ix)
                  (quarantine_claim sha run_id run_revision) ''claim'' cl_claim_id
                  (select as_claim (\<lambda>_. True) typed))
        (\<lambda>(accepted_claims, claim_quarantines, claim_diagnostics).
      res_bind (split_records
                  (decision_reason run_id run_revision (by_id cl_claim_id accepted_claims) ix)
                  (quarantine_decision sha run_id run_revision) ''decision'' de_decision_id
                  (select as_decision (\<lambda>_. True) typed))
        (\<lambda>(accepted_decisions, decision_quarantines, decision_diagnostics).
      res_bind (deduplicate (map QuarantineRecord
                  (select as_quarantine (\<lambda>r. qu_run_id r = run_id) typed @
                   claim_quarantines @ decision_quarantines)))
        (\<lambda>(all_quarantines, quarantine_conflicts).
      let view =
        \<lparr>vw_run_id = run_id, vw_run_revision = run_revision, vw_journal_cursor = cursor,
         vw_evidence_set_digest = evidence_digest_of sha evidence_items,
         vw_evidence = sort_records EvidenceEnvelope evidence_items,
         vw_observations = sort_records ObservationEnvelope observations,
         vw_coherent_observations = sort_records ObservationEnvelope coherent_observations,
         vw_fences = sort_records CoordinatorFence fences_items,
         vw_grants = sort_records CapabilityGrant grants_items,
         vw_attempts = sort_records SubjectAttempt attempts_items,
         vw_claims = sort_records Claim accepted_claims,
         vw_decisions = sort_records Decision accepted_decisions,
         vw_quarantines = sort_records QuarantineRecord (select as_quarantine (\<lambda>_. True) all_quarantines),
         vw_diagnostics = sorted_set (duplicate_diagnostics @ observation_diagnostics @
           claim_diagnostics @ decision_diagnostics @ quarantine_conflicts),
         vw_view_hash = ''pending''\<rparr>
      in Inr (view\<lparr>vw_view_hash := sha (canonical_json (JObj (view_payload view)))\<rparr>)))))"

definition reduce_run_authority ::
    "(string \<Rightarrow> string) \<Rightarrow> contract list \<Rightarrow> json \<Rightarrow> json \<Rightarrow> json \<Rightarrow>
     contract_error + run_authority_view" where
  "reduce_run_authority sha inputs run_id run_revision journal_cursor =
     res_bind (required run_id) (\<lambda>run.
     res_bind (required run_revision) (\<lambda>revision.
     res_bind (int_at_least 0
         (if journal_cursor = JNull then JInt (int (length inputs)) else journal_cursor)) (\<lambda>cursor.
     res_bind (deduplicate inputs) (\<lambda>(typed, duplicate_diagnostics).
       reduce_unique sha typed duplicate_diagnostics run revision cursor))))"

end
