(* ===== verification/Authority_Reducer_Facts.thy ===== *)
theory Authority_Reducer_Facts
  imports Authority_Reducer
begin

section \<open>Facts about the run-authority reducer\<close>

text \<open>
  Deduplication depends only on the set of supplied records; what it keeps; and the links every
  accepted claim and decision has in the reduced view.
\<close>

subsection \<open>Grouping\<close>

text \<open>The key a record is grouped under, for the record types the reducer supports.\<close>

definition group_key :: "contract \<Rightarrow> string \<times> string" where
  "group_key r = (contract_type r, the (identity_text r))"

definition identified :: "contract \<Rightarrow> bool" where
  "identified r \<longleftrightarrow> identity_text r \<noteq> None"

lemma identity_identified: "identified r \<Longrightarrow> identity r = Inr (group_key r)"
  by (auto simp: identified_def identity_def group_key_def)

lemma identity_unidentified: "\<not> identified r \<Longrightarrow> identity r = Inl ContractError"
  by (simp add: identified_def identity_def)

definition add_record ::
    "contract \<Rightarrow> ((string \<times> string) \<times> variants) list \<Rightarrow> ((string \<times> string) \<times> variants) list" where
  "add_record r grouped = AList.update (group_key r)
     (AList.update (to_json r) r
       (case map_of grouped (group_key r) of Some vs \<Rightarrow> vs | None \<Rightarrow> [])) grouped"

lemma group_records_eq:
  "group_records rs grouped =
     (if list_all identified rs then Inr (fold add_record rs grouped) else Inl ContractError)"
proof (induction rs arbitrary: grouped)
  case (Cons r rs)
  then show ?case
    by (cases "identified r") (simp_all add: identity_identified identity_unidentified Let_def add_record_def [of r])
qed simp

text \<open>The groups of a set of records.\<close>

definition groups_of :: "contract set \<Rightarrow> ((string \<times> string) \<times> variants) list \<Rightarrow> bool" where
  "groups_of R grouped \<longleftrightarrow>
     distinct (map fst grouped) \<and>
     (\<forall>k. map_of grouped k = None \<longleftrightarrow> (\<forall>r \<in> R. group_key r \<noteq> k)) \<and>
     (\<forall>k vs. map_of grouped k = Some vs \<longrightarrow>
        distinct (map fst vs) \<and> set vs = (\<lambda>r. (to_json r, r)) ` {r \<in> R. group_key r = k})"

lemma set_update_distinct:
  "distinct (map fst xs) \<Longrightarrow> set (AList.update k v xs) = insert (k, v) {p \<in> set xs. fst p \<noteq> k}"
  by (induction xs) (auto simp: image_iff)

lemma groups_of_add:
  assumes G: "groups_of R grouped" and inj: "inj_on to_json (insert r R)"
  shows "groups_of (insert r R) (add_record r grouped)"
proof -
  let ?k = "group_key r"
  let ?vs = "case map_of grouped ?k of Some vs \<Rightarrow> vs | None \<Rightarrow> []"
  have vs: "distinct (map fst ?vs)" "set ?vs = (\<lambda>s. (to_json s, s)) ` {s \<in> R. group_key s = ?k}"
  proof -
    have "distinct (map fst ?vs) \<and> set ?vs = (\<lambda>s. (to_json s, s)) ` {s \<in> R. group_key s = ?k}"
    proof (cases "map_of grouped ?k")
      case None
      then have "{s \<in> R. group_key s = ?k} = {}" using G unfolding groups_of_def by blast
      with None show ?thesis by simp
    next
      case (Some vs)
      then have "distinct (map fst vs) \<and> set vs = (\<lambda>s. (to_json s, s)) ` {s \<in> R. group_key s = ?k}"
        using G unfolding groups_of_def by blast
      with Some show ?thesis by simp
    qed
    then show "distinct (map fst ?vs)"
      "set ?vs = (\<lambda>s. (to_json s, s)) ` {s \<in> R. group_key s = ?k}" by blast+
  qed
  have drop: "{p \<in> set ?vs. fst p \<noteq> to_json r} = set ?vs - {(to_json r, r)}"
    using vs(2) inj by (auto simp: inj_on_def)
  have new: "distinct (map fst (AList.update (to_json r) r ?vs))"
    "set (AList.update (to_json r) r ?vs) =
       (\<lambda>s. (to_json s, s)) ` {s \<in> insert r R. group_key s = ?k}"
    using distinct_update [OF vs(1)] set_update_distinct [OF vs(1), of "to_json r" r] drop vs(2)
    by auto
  show ?thesis
    using G new unfolding groups_of_def add_record_def
    by (auto simp: update_conv distinct_update)
qed

lemma groups_of_fold:
  "groups_of R grouped \<Longrightarrow> inj_on to_json (set rs \<union> R) \<Longrightarrow>
     groups_of (set rs \<union> R) (fold add_record rs grouped)"
proof (induction rs arbitrary: R grouped)
  case (Cons r rs)
  have "groups_of (insert r R) (add_record r grouped)"
    by (rule groups_of_add [OF Cons.prems(1)]) (use Cons.prems(2) in \<open>auto simp: inj_on_def\<close>)
  from Cons.IH [OF this] Cons.prems(2) show ?case by simp
qed simp

lemma groups_of_records:
  "inj_on to_json (set rs) \<Longrightarrow> groups_of (set rs) (fold add_record rs [])"
  using groups_of_fold [of "{}" "[]" rs] by (simp add: groups_of_def)

subsection \<open>The outcome of a group\<close>

definition source_text :: "contract \<Rightarrow> string" where
  "source_text r = (case record_source r of Inr s \<Rightarrow> s | Inl _ \<Rightarrow> [])"

lemma record_source_identified: "identified r \<Longrightarrow> record_source r = Inr (source_text r)"
  by (cases r) (simp_all add: source_text_def identity_def identified_def)

lemma res_map_total: "(\<And>x. x \<in> set xs \<Longrightarrow> f x = Inr (g x)) \<Longrightarrow> res_map f xs = Inr (map g xs)"
  by (induction xs) auto

lemma res_map_cong: "map f xs = map g ys \<Longrightarrow> res_map f xs = res_map g ys"
  by (induction xs arbitrary: ys) (auto simp: Cons_eq_map_conv)

definition outcome_of_group :: "(string \<times> string) \<times> variants \<Rightarrow> contract + authority_diagnostic" where
  "outcome_of_group entry = (case group_outcome entry of Inr x \<Rightarrow> x | Inl _ \<Rightarrow> undefined)"

definition conflict_diagnostic :: "string \<times> string \<Rightarrow> contract set \<Rightarrow> authority_diagnostic" where
  "conflict_diagnostic k S = AuthorityDiagnostic ''conflicting_duplicate_key'' (fst k) (snd k)
     (nat_str (card S) @ '' distinct payloads share one record identity'')
     (comma_join (sorted_list_of_set (source_text ` S)))"

lemma sorted_set_list_of_set: "sorted_set xs = sorted_list_of_set (set xs)"
  by (simp add: sorted_set_def sorted_list_of_set_sort_remdups)

lemma group_outcome_conflict:
  assumes "\<nexists>p. vs = [p]"
  shows "group_outcome (k, vs) =
    res_bind (res_map (record_source \<circ> snd) vs) (\<lambda>sources.
      Inr (Inr (AuthorityDiagnostic ''conflicting_duplicate_key'' (fst k) (snd k)
        (nat_str (length vs) @ '' distinct payloads share one record identity'')
        (comma_join (sorted_set sources)))))"
  using assms by (cases vs rule: list_shape) (simp_all add: group_outcome_def split_beta)

text \<open>The outcome depends only on the key and the set of records of the group.\<close>

lemma group_outcome_eq:
  assumes "distinct (map fst vs)" and "set vs = (\<lambda>r. (to_json r, r)) ` S" and "S \<noteq> {}"
    and "\<forall>r \<in> S. identified r" and inj: "inj_on to_json S"
  shows "group_outcome (k, vs) =
    Inr (if is_singleton S then Inl (the_elem S) else Inr (conflict_diagnostic k S))"
proof -
  have len: "length vs = card S"
  proof -
    have "length vs = card (set vs)"
      using assms(1) by (metis distinct_card distinct_map)
    also have "\<dots> = card S"
      unfolding assms(2) by (rule card_image) (auto simp: inj_on_def)
    finally show ?thesis .
  qed
  show ?thesis
  proof (cases "is_singleton S")
    case True
    then obtain r where S: "S = {r}" by (auto simp: is_singleton_def)
    with len obtain p where vs: "vs = [p]" by (cases vs) auto
    with assms(2) S have "p = (to_json r, r)" by simp
    with vs S show ?thesis by (cases k) (simp add: group_outcome_def)
  next
    case False
    have "finite S" using assms(2) inj
      by (metis (no_types, lifting) finite_imageD finite_set inj_onI prod.inject)
    then have "length vs \<noteq> 1"
      using False len by (simp add: is_singleton_altdef)
    then have "\<nexists>p. vs = [p]" by auto
    moreover have "res_map (record_source \<circ> snd) vs = Inr (map (source_text \<circ> snd) vs)"
      by (rule res_map_total) (use assms(2,4) record_source_identified in auto)
    moreover have "set (map (source_text \<circ> snd) vs) = source_text ` S"
      unfolding set_map assms(2) image_image by simp
    ultimately show ?thesis
      unfolding conflict_diagnostic_def
      using False len by (simp add: group_outcome_conflict sorted_set_list_of_set)
  qed
qed

subsection \<open>Deduplication\<close>

text \<open>The records of a set that share a key.\<close>

definition same_key :: "contract set \<Rightarrow> string \<times> string \<Rightarrow> contract set" where
  "same_key R k = {r \<in> R. group_key r = k}"

definition key_outcome :: "contract set \<Rightarrow> string \<times> string \<Rightarrow> contract + authority_diagnostic" where
  "key_outcome R k =
     (if is_singleton (same_key R k) then Inl (the_elem (same_key R k))
      else Inr (conflict_diagnostic k (same_key R k)))"

definition keys_of :: "contract set \<Rightarrow> (string \<times> string) list" where
  "keys_of R = sorted_list_of_set (group_key ` R)"

lemma keys_of_groups:
  assumes "groups_of R grouped"
  shows "map fst (sort_key fst grouped) = keys_of R"
proof -
  have d: "distinct (map fst grouped)"
    and n: "\<And>k. map_of grouped k = None \<longleftrightarrow> (\<forall>r \<in> R. group_key r \<noteq> k)"
    using assms by (auto simp: groups_of_def)
  have "set (map fst grouped) = group_key ` R"
  proof (rule set_eqI)
    fix k
    have "k \<notin> set (map fst grouped) \<longleftrightarrow> (\<forall>r \<in> R. group_key r \<noteq> k)"
      unfolding n [symmetric] map_of_eq_None_iff by simp
    then show "k \<in> set (map fst grouped) \<longleftrightarrow> k \<in> group_key ` R" by blast
  qed
  moreover have "map fst (sort_key fst grouped) = sort (map fst grouped)"
    by (rule sorted_distinct_set_unique) (simp_all add: d distinct_map_sort_key)
  moreover have "sort (map fst grouped) = sorted_list_of_set (set (map fst grouped))"
    unfolding sorted_list_of_set_sort_remdups distinct_remdups_id [OF d] ..
  ultimately show ?thesis by (simp only: keys_of_def)
qed

lemma groups_ofD:
  assumes G: "groups_of R grouped" and k: "map_of grouped k = Some vs"
  shows "distinct (map fst vs)" and "set vs = (\<lambda>r. (to_json r, r)) ` same_key R k"
    and "same_key R k \<noteq> {}"
proof -
  have none: "\<forall>k. map_of grouped k = None \<longleftrightarrow> (\<forall>r \<in> R. group_key r \<noteq> k)"
    and some: "\<forall>k vs. map_of grouped k = Some vs \<longrightarrow>
        distinct (map fst vs) \<and> set vs = (\<lambda>r. (to_json r, r)) ` same_key R k"
    unfolding same_key_def
    by (rule conjunct1 [OF conjunct2 [OF G [unfolded groups_of_def]]],
        rule conjunct2 [OF conjunct2 [OF G [unfolded groups_of_def]]])
  from some [rule_format, OF k]
  show "distinct (map fst vs)" "set vs = (\<lambda>r. (to_json r, r)) ` same_key R k"
    by blast+
  from spec [OF none, of k] k show "same_key R k \<noteq> {}"
    by (simp add: same_key_def) blast
qed

lemma deduplicate_eq:
  assumes inj: "inj_on to_json (set rs)"
  shows "deduplicate rs =
    (if list_all identified rs then
       (let outcomes = map (key_outcome (set rs)) (keys_of (set rs)) in
        Inr (sort_key record_sort_key [r. Inl r \<leftarrow> outcomes], sort [d. Inr d \<leftarrow> outcomes]))
     else Inl ContractError)"
proof (cases "list_all identified rs")
  case True
  let ?R = "set rs" and ?G = "fold add_record rs []"
  have G: "groups_of ?R ?G" by (rule groups_of_records [OF inj])
  have each: "group_outcome entry = Inr (key_outcome ?R (fst entry))" if mem: "entry \<in> set ?G" for entry
  proof -
    obtain k vs where e: "entry = (k, vs)" by (cases entry)
    have "map_of ?G k = Some vs"
      using G mem e by (simp add: groups_of_def)
    note vs = groups_ofD [OF G this]
    have "group_outcome (k, vs) = Inr (if is_singleton (same_key ?R k)
        then Inl (the_elem (same_key ?R k)) else Inr (conflict_diagnostic k (same_key ?R k)))"
      by (rule group_outcome_eq [OF vs])
        (use True inj in \<open>auto simp: same_key_def list_all_iff inj_on_def\<close>)
    then show ?thesis by (simp add: e key_outcome_def)
  qed
  have "res_map group_outcome (sort_key fst ?G) =
      Inr (map (key_outcome ?R \<circ> fst) (sort_key fst ?G))"
    by (rule res_map_total) (simp add: each)
  also have "map (key_outcome ?R \<circ> fst) (sort_key fst ?G) = map (key_outcome ?R) (keys_of ?R)"
    unfolding keys_of_groups [OF G, symmetric] by simp
  finally show ?thesis
    using True by (simp add: deduplicate_def group_records_eq Let_def)
next
  case False
  then show ?thesis by (simp add: deduplicate_def group_records_eq)
qed

lemma deduplicate_cong:
  assumes "set rs = set ss" and "inj_on to_json (set rs)"
  shows "deduplicate rs = deduplicate ss"
  using assms by (simp add: deduplicate_eq list_all_iff)

text \<open>What deduplication keeps: the records that have no rival of the same key.\<close>

definition unrivalled :: "contract set \<Rightarrow> contract \<Rightarrow> bool" where
  "unrivalled R r \<longleftrightarrow> r \<in> R \<and> (\<forall>s \<in> R. group_key s = group_key r \<longrightarrow> s = r)"

lemma unrivalled_elem:
  "unrivalled R r \<Longrightarrow> same_key R (group_key r) = {r}"
  by (auto simp: same_key_def unrivalled_def)

lemma singleton_same_key:
  assumes "r \<in> R"
  shows "is_singleton (same_key R (group_key r)) \<longleftrightarrow> unrivalled R r"
proof
  assume "is_singleton (same_key R (group_key r))"
  then obtain x where x: "same_key R (group_key r) = {x}" by (auto simp: is_singleton_def)
  have mem: "s \<in> same_key R (group_key r) \<longleftrightarrow> s \<in> R \<and> group_key s = group_key r" for s
    by (simp add: same_key_def)
  from mem [of r] x assms have "x = r" by simp
  with mem x assms show "unrivalled R r" by (auto simp: unrivalled_def)
next
  assume "unrivalled R r"
  then show "is_singleton (same_key R (group_key r))" by (simp add: unrivalled_elem)
qed

text \<open>The kept records and the diagnostics.\<close>

lemma deduplicate_Inr:
  assumes inj: "inj_on to_json (set rs)" and res: "deduplicate rs = Inr (typed, ds)"
  shows "set typed = {r. unrivalled (set rs) r}"
    and "distinct typed"
    and "sorted (map record_sort_key typed)"
    and "set ds = {conflict_diagnostic (group_key r) (same_key (set rs) (group_key r)) | r.
           r \<in> set rs \<and> \<not> unrivalled (set rs) r}"
    and "list_all identified rs"
proof -
  let ?R = "set rs"
  from res show id: "list_all identified rs"
    by (simp add: deduplicate_eq [OF inj] split: if_splits)
  let ?outs = "map (key_outcome ?R) (keys_of ?R)"
  have typed: "typed = sort_key record_sort_key [r. Inl r \<leftarrow> ?outs]"
    and ds: "ds = sort [d. Inr d \<leftarrow> ?outs]"
    using res id by (simp_all add: deduplicate_eq [OF inj] Let_def)
  have keys: "set (keys_of ?R) = group_key ` ?R"
    by (simp add: keys_of_def)
  show "sorted (map record_sort_key typed)" by (simp add: typed)
  have out: "key_outcome ?R (group_key r) =
      (if unrivalled ?R r then Inl r
       else Inr (conflict_diagnostic (group_key r) (same_key ?R (group_key r))))" if "r \<in> ?R" for r
    using singleton_same_key [OF that] by (simp add: key_outcome_def unrivalled_elem)
  have outs: "set ?outs = (\<lambda>r. key_outcome ?R (group_key r)) ` ?R"
    by (simp add: keys image_image)
  show "set typed = {r. unrivalled ?R r}"
  proof (rule set_eqI)
    fix r
    have "r \<in> set typed \<longleftrightarrow> Inl r \<in> set ?outs" by (auto simp: typed)
    also have "\<dots> \<longleftrightarrow> unrivalled ?R r"
      unfolding outs using out by (auto simp: unrivalled_def image_iff split: if_splits)
    finally show "r \<in> set typed \<longleftrightarrow> r \<in> {r. unrivalled ?R r}" by simp
  qed
  show "set ds = {conflict_diagnostic (group_key r) (same_key ?R (group_key r)) | r.
           r \<in> ?R \<and> \<not> unrivalled ?R r}"
  proof (rule set_eqI)
    fix d
    have "d \<in> set ds \<longleftrightarrow> Inr d \<in> set ?outs" by (auto simp: ds)
    also have "\<dots> \<longleftrightarrow> d \<in> {conflict_diagnostic (group_key r) (same_key ?R (group_key r)) | r.
           r \<in> ?R \<and> \<not> unrivalled ?R r}"
      unfolding outs using out by (auto simp: image_iff split: if_splits)
    finally show "d \<in> set ds \<longleftrightarrow> d \<in> {conflict_diagnostic (group_key r) (same_key ?R (group_key r)) | r.
           r \<in> ?R \<and> \<not> unrivalled ?R r}" .
  qed
  have "distinct [r. Inl r \<leftarrow> map (key_outcome ?R) ks]"
    if "set ks \<subseteq> group_key ` ?R" and "distinct ks" for ks
    using that
  proof (induction ks)
    case (Cons k ks)
    have "r \<notin> set [r. Inl r \<leftarrow> map (key_outcome ?R) ks]" if "key_outcome ?R k = Inl r" for r
    proof
      assume "r \<in> set [r. Inl r \<leftarrow> map (key_outcome ?R) ks]"
      then obtain k' where k': "k' \<in> set ks" "key_outcome ?R k' = Inl r" by auto
      have "group_key r = k''" if "k'' \<in> group_key ` ?R" "key_outcome ?R k'' = Inl r" for k''
        using that out by (auto split: if_splits)
      from this [of k] this [of k'] k' that Cons.prems have "k = k'" by auto
      with k'(1) Cons.prems(2) show False by simp
    qed
    with Cons show ?case by (cases "key_outcome ?R k") auto
  qed simp
  then show "distinct typed"
    by (simp add: typed keys keys_of_def)
qed

end
