(* ===== verification/Authority_View.thy ===== *)
theory Authority_View
  imports Authority_Reducer_Facts
begin

section \<open>What a reduced view guarantees\<close>

text \<open>
  The properties of \<^verbatim>\<open>reduce_run_authority\<close>: independence of the input order, exclusion of
  conflicting identities, and the complete identity chain behind every accepted claim and decision.
\<close>

subsection \<open>Selections and indices\<close>

lemma as_contract_iff [simp]:
  "as_evidence r = Some x1 \<longleftrightarrow> r = EvidenceEnvelope x1"
  "as_observation r = Some x2 \<longleftrightarrow> r = ObservationEnvelope x2"
  "as_fence r = Some x3 \<longleftrightarrow> r = CoordinatorFence x3"
  "as_grant r = Some x4 \<longleftrightarrow> r = CapabilityGrant x4"
  "as_attempt r = Some x5 \<longleftrightarrow> r = SubjectAttempt x5"
  "as_idempotency r = Some x6 \<longleftrightarrow> r = IdempotencyKey x6"
  "as_claim r = Some x7 \<longleftrightarrow> r = Claim x7"
  "as_decision r = Some x8 \<longleftrightarrow> r = Decision x8"
  "as_quarantine r = Some x9 \<longleftrightarrow> r = QuarantineRecord x9"
  by (cases r; auto)+

lemma set_map_filter: "set (List.map_filter f xs) = {y. \<exists>x \<in> set xs. f x = Some y}"
  by (induction xs) (auto split: option.splits)

lemma set_select [simp]:
  "x \<in> set (select proj keep typed) \<longleftrightarrow> keep x \<and> (\<exists>r \<in> set typed. proj r = Some x)"
  by (auto simp: select_def set_map_filter)

lemma distinct_map_filter:
  assumes "distinct xs" and "\<And>x x' y. f x = Some y \<Longrightarrow> f x' = Some y \<Longrightarrow> x = x'"
  shows "distinct (List.map_filter f xs)"
  using assms unfolding List.map_filter_def
  by (auto simp: distinct_map intro!: inj_onI)

lemma set_sort_records [simp]: "set (sort_records wrap rs) = set rs"
  by (simp add: sort_records_def)

lemma by_id_SomeD: "by_id f rs k = Some x \<Longrightarrow> x \<in> set rs \<and> f x = k"
  by (auto simp: by_id_def dest: map_of_SomeD)

lemma by_id_None: "by_id f rs k = None \<longleftrightarrow> k \<notin> f ` set rs"
  by (auto simp: by_id_def map_of_eq_None_iff image_iff)

subsection \<open>Deduplicated records\<close>

definition unique_records :: "contract list \<Rightarrow> bool" where
  "unique_records typed \<longleftrightarrow>
     distinct typed \<and> (\<forall>r \<in> set typed. \<forall>s \<in> set typed. group_key r = group_key s \<longrightarrow> r = s)"

lemma deduplicate_unique:
  assumes "inj_on to_json (set rs)" and "deduplicate rs = Inr (typed, ds)"
  shows "unique_records typed"
  using deduplicate_Inr(1,2) [OF assms] by (auto simp: unique_records_def unrivalled_def)

lemma distinct_evidence_ids:
  assumes "unique_records typed"
  shows "distinct (map ev_evidence_id (sort_records EvidenceEnvelope (select as_evidence keep typed)))"
proof -
  have "distinct (select as_evidence keep typed)"
    using assms unfolding select_def unique_records_def
    by (intro distinct_filter distinct_map_filter) auto
  moreover have "inj_on ev_evidence_id (set (select as_evidence keep typed))"
  proof (rule inj_onI)
    fix a b
    assume "a \<in> set (select as_evidence keep typed)" "b \<in> set (select as_evidence keep typed)"
      and "ev_evidence_id a = ev_evidence_id b"
    then have "EvidenceEnvelope a \<in> set typed" "EvidenceEnvelope b \<in> set typed"
      "group_key (EvidenceEnvelope a) = group_key (EvidenceEnvelope b)"
      by (simp_all add: group_key_def contract_type_def)
    then have "EvidenceEnvelope a = EvidenceEnvelope b"
      using assms unfolding unique_records_def by blast
    then show "a = b" by simp
  qed
  ultimately show ?thesis by (simp add: distinct_map sort_records_def)
qed

subsection \<open>The index holds records of the current run and revision\<close>

lemma build_index_SomeD:
  "ix_evidence (build_index run rev' typed) i = Some e \<Longrightarrow>
     EvidenceEnvelope e \<in> set typed \<and> ev_evidence_id e = i \<and> ev_run_id e = run \<and> ev_run_revision e = rev'"
  "ix_fences (build_index run rev' typed) (co, n) = Some f \<Longrightarrow>
     CoordinatorFence f \<in> set typed \<and> fe_coordinator_attempt_id f = co \<and> fe_token f = n \<and>
     fe_run_id f = run \<and> fe_run_revision f = rev'"
  "ix_grants (build_index run rev' typed) i = Some g \<Longrightarrow>
     CapabilityGrant g \<in> set typed \<and> gr_grant_id g = i \<and> gr_run_id g = run \<and> gr_run_revision g = rev'"
  "ix_attempts (build_index run rev' typed) i = Some a \<Longrightarrow>
     SubjectAttempt a \<in> set typed \<and> at_attempt_id a = i \<and> at_run_id a = run \<and> at_run_revision a = rev'"
  "ix_idempotency (build_index run rev' typed) i = Some k \<Longrightarrow>
     IdempotencyKey k \<in> set typed \<and> ik_value k = i"
  by (auto simp: build_index_def dest!: by_id_SomeD)

text \<open>The evidence the view keeps.\<close>

definition view_evidence :: "string \<Rightarrow> string \<Rightarrow> contract list \<Rightarrow> evidence_envelope list" where
  "view_evidence run rev' typed = sort_records EvidenceEnvelope
     (select as_evidence (\<lambda>r. ev_run_id r = run \<and> ev_run_revision r = rev') typed)"

lemma indexed_evidence_matches:
  assumes "unique_records typed" and "ix_evidence (build_index run rev' typed) i \<noteq> None"
    and "fe_run_id f = run" and "fe_run_revision f = rev'"
  shows "i \<in> set (map ev_evidence_id (view_evidence run rev' typed)) \<and>
    evidence_matches f (view_evidence run rev' typed) i = Inr ()"
proof -
  obtain e where "ix_evidence (build_index run rev' typed) i = Some e"
    using assms(2) by blast
  note e = build_index_SomeD(1) [OF this]
  then have mem: "e \<in> set (view_evidence run rev' typed)"
    by (simp add: view_evidence_def)
  then have "i \<in> set (map ev_evidence_id (view_evidence run rev' typed))"
    using e by force
  moreover have "distinct (map ev_evidence_id (view_evidence run rev' typed))"
    unfolding view_evidence_def by (rule distinct_evidence_ids [OF assms(1)])
  ultimately show ?thesis
    using evidence_matches_iff [of "view_evidence run rev' typed" f i] mem e assms(3,4) by auto
qed

subsection \<open>Accepted claims and decisions are completely linked\<close>

lemma list_ex_False: "\<not> list_ex P xs \<longleftrightarrow> list_all (\<lambda>x. \<not> P x) xs"
  by (induction xs) auto

lemma claim_reason_None:
  assumes "claim_reason run rev' ix c = None"
  obtains a g f where "ix_attempts ix (cl_attempt_id c) = Some a"
    and "ix_grants ix (cl_grant_id c) = Some g"
    and "ix_fences ix (cl_coordinator_attempt_id c, cl_fence_token c) = Some f"
    and "cl_run_id c = run" and "cl_run_revision c = rev'"
    and "idempotent_in (ix_idempotency ix) (cl_idempotency_key c) (cl_payload_hash c)"
    and "list_all (\<lambda>i. ix_evidence ix i \<noteq> None) (gr_evidence_ids g @ cl_evidence_ids c)"
    and "at_subject_id a = cl_subject_id c" and "at_grant_id a = gr_grant_id g"
    and "cl_subject_id c \<in> set (gr_subject_ids g)"
    and "at_coordinator_attempt_id a = cl_coordinator_attempt_id c"
    and "gr_coordinator_attempt_id g = cl_coordinator_attempt_id c"
    and "at_fence_token a = cl_fence_token c" and "gr_fence_token g = cl_fence_token c"
  using assms unfolding claim_reason_def
  by (auto simp: list_ex_False split: if_splits option.splits)

lemma decision_reason_None:
  assumes "decision_reason run rev' claims ix d = None"
  obtains c where "claims (de_claim_id d) = Some c"
    and "de_run_id d = run" and "de_run_revision d = rev'"
    and "idempotent_in (ix_idempotency ix) (de_idempotency_key d) (de_payload_hash d)"
    and "list_all (\<lambda>i. ix_evidence ix i \<noteq> None) (de_evidence_ids d)"
    and "de_subject_id d = cl_subject_id c" and "de_attempt_id d = cl_attempt_id c"
    and "de_grant_id d = cl_grant_id c"
    and "de_coordinator_attempt_id d = cl_coordinator_attempt_id c"
    and "de_fence_token d = cl_fence_token c"
  using assms unfolding decision_reason_def
  by (auto simp: list_ex_False split: if_splits option.splits)

text \<open>The chain of records behind an accepted claim, and behind a decision on it.\<close>

definition linked ::
    "string \<Rightarrow> string \<Rightarrow> contract list \<Rightarrow> authority_claim \<Rightarrow> authority_decision option \<Rightarrow>
     coordinator_fence \<Rightarrow> capability_grant \<Rightarrow> subject_attempt \<Rightarrow> bool" where
  "linked run rev' typed c dec f g a \<longleftrightarrow>
     CoordinatorFence f \<in> set typed \<and> CapabilityGrant g \<in> set typed \<and> SubjectAttempt a \<in> set typed \<and>
     list_all (\<lambda>x. x = run) [fe_run_id f, gr_run_id g, at_run_id a, cl_run_id c] \<and>
     list_all (\<lambda>x. x = rev') [fe_run_revision f, gr_run_revision g, at_run_revision a, cl_run_revision c] \<and>
     validate_relationships f g a c (view_evidence run rev' typed) dec = Inr ()"

lemma accepted_claim_linked:
  assumes u: "unique_records typed"
    and ok: "claim_reason run rev' (build_index run rev' typed) c = None"
  shows "\<exists>f g a. linked run rev' typed c None f g a"
proof -
  let ?ix = "build_index run rev' typed"
  from ok obtain a g f where a: "ix_attempts ?ix (cl_attempt_id c) = Some a"
    and g: "ix_grants ?ix (cl_grant_id c) = Some g"
    and f: "ix_fences ?ix (cl_coordinator_attempt_id c, cl_fence_token c) = Some f"
    and c: "cl_run_id c = run" "cl_run_revision c = rev'"
    and ev: "list_all (\<lambda>i. ix_evidence ?ix i \<noteq> None) (gr_evidence_ids g @ cl_evidence_ids c)"
    and ids: "at_subject_id a = cl_subject_id c" "at_grant_id a = gr_grant_id g"
      "cl_subject_id c \<in> set (gr_subject_ids g)"
      "at_coordinator_attempt_id a = cl_coordinator_attempt_id c"
      "gr_coordinator_attempt_id g = cl_coordinator_attempt_id c"
      "at_fence_token a = cl_fence_token c" "gr_fence_token g = cl_fence_token c"
    by (rule claim_reason_None)
  note A = build_index_SomeD(4) [OF a] and G = build_index_SomeD(3) [OF g]
    and F = build_index_SomeD(2) [OF f]
  have "list_all (\<lambda>i. i \<in> set (map ev_evidence_id (view_evidence run rev' typed)) \<and>
      evidence_matches f (view_evidence run rev' typed) i = Inr ()) (gr_evidence_ids g @ cl_evidence_ids c)"
    using ev indexed_evidence_matches [OF u, of run rev' _ f] F unfolding list_all_iff by blast
  moreover have "distinct (map ev_evidence_id (view_evidence run rev' typed))"
    unfolding view_evidence_def by (rule distinct_evidence_ids [OF u])
  ultimately have "validate_relationships f g a c (view_evidence run rev' typed) None = Inr ()"
    using A G F c ids by (simp add: validate_relationships_iff same_context_iff)
  with A G F c show ?thesis unfolding linked_def by auto
qed

lemma accepted_decision_linked:
  assumes u: "unique_records typed"
    and ok: "decision_reason run rev' (by_id cl_claim_id accepted) (build_index run rev' typed) d = None"
    and acc: "\<And>c. c \<in> set accepted \<Longrightarrow> claim_reason run rev' (build_index run rev' typed) c = None"
  shows "\<exists>c \<in> set accepted. \<exists>f g a. linked run rev' typed c (Some d) f g a"
proof -
  let ?ix = "build_index run rev' typed"
  from ok obtain c where c: "by_id cl_claim_id accepted (de_claim_id d) = Some c"
    and d: "de_run_id d = run" "de_run_revision d = rev'"
    and ev: "list_all (\<lambda>i. ix_evidence ?ix i \<noteq> None) (de_evidence_ids d)"
    and ids: "de_subject_id d = cl_subject_id c" "de_attempt_id d = cl_attempt_id c"
      "de_grant_id d = cl_grant_id c"
      "de_coordinator_attempt_id d = cl_coordinator_attempt_id c"
      "de_fence_token d = cl_fence_token c"
    by (rule decision_reason_None)
  from by_id_SomeD [OF c] have mem: "c \<in> set accepted" and id: "cl_claim_id c = de_claim_id d"
    by simp_all
  from accepted_claim_linked [OF u acc [OF mem]] obtain f g a
    where l: "linked run rev' typed c None f g a" by blast
  have "list_all (\<lambda>i. i \<in> set (map ev_evidence_id (view_evidence run rev' typed)) \<and>
      evidence_matches f (view_evidence run rev' typed) i = Inr ()) (de_evidence_ids d)"
  proof -
    have F: "fe_run_id f = run" "fe_run_revision f = rev'"
      using l by (simp_all add: linked_def)
    show ?thesis
      using ev indexed_evidence_matches [OF u _ F] unfolding list_all_iff by blast
  qed
  moreover have "validate_relationships f g a c (view_evidence run rev' typed) None = Inr ()"
    and "fe_run_id f = run" "fe_run_revision f = rev'"
    using l by (simp_all add: linked_def)
  ultimately have "validate_relationships f g a c (view_evidence run rev' typed) (Some d) = Inr ()"
    using d ids id by (simp add: validate_relationships_iff same_context_iff)
  with l have "linked run rev' typed c (Some d) f g a"
    by (simp add: linked_def)
  with mem show ?thesis by blast
qed

subsection \<open>The parts of a view\<close>

lemma split_records_Inr:
  assumes "split_records reason quarantine ty rid rs = Inr (accepted, generated, ds)"
  shows "accepted = filter (\<lambda>r. reason r = None) rs"
    and "r \<in> set rs \<Longrightarrow> reason r = Some why \<Longrightarrow>
      \<exists>q. quarantine r why = Inr q \<and> q \<in> set generated \<and>
        AuthorityDiagnostic ''quarantined_incomplete_link'' ty (rid r) why (qu_source q) \<in> set ds"
    and "d \<in> set ds \<Longrightarrow> dg_code d = ''quarantined_incomplete_link'' \<and> dg_record_type d = ty \<and>
      (\<exists>r \<in> set rs. dg_record_id d = rid r \<and> reason r = Some (dg_reason d))"
proof -
  let ?bad = "[(r, why). r \<leftarrow> rs, why \<leftarrow> (case reason r of None \<Rightarrow> [] | Some why \<Rightarrow> [why])]"
  from assms have gen: "res_map (\<lambda>(r, why). quarantine r why) ?bad = Inr generated"
    and ds: "ds = map (\<lambda>((r, why), q). AuthorityDiagnostic ''quarantined_incomplete_link'' ty
               (rid r) why (qu_source q)) (zip ?bad generated)"
    by (auto simp: split_records_def Let_def)
  show "accepted = filter (\<lambda>r. reason r = None) rs"
    using assms by (auto simp: split_records_def Let_def)
  have pairs: "(r, why) \<in> set ?bad \<longleftrightarrow> r \<in> set rs \<and> reason r = Some why" for r why
    by (induction rs) (auto split: option.splits)
  have each: "(\<lambda>(r, why). quarantine r why) p = Inr q" if "(p, q) \<in> set (zip ps qs)"
    "res_map (\<lambda>(r, why). quarantine r why) ps = Inr qs" for p q ps qs
    using that by (induction ps arbitrary: qs) auto
  have ex: "\<exists>q. (p, q) \<in> set (zip ps qs)" if "p \<in> set ps" "length qs = length ps" for p ps
    and qs :: "quarantine_record list"
    using that by (metis in_set_impl_in_set_zip1)
  {
    assume "r \<in> set rs" "reason r = Some why"
    then have "(r, why) \<in> set ?bad" using pairs by blast
    from ex [OF this res_map_length [OF gen]] obtain q where q: "((r, why), q) \<in> set (zip ?bad generated)"
      by blast
    from each [OF q gen] set_zip_rightD [OF q] q
    show "\<exists>q. quarantine r why = Inr q \<and> q \<in> set generated \<and>
        AuthorityDiagnostic ''quarantined_incomplete_link'' ty (rid r) why (qu_source q) \<in> set ds"
      unfolding ds by force
  }
  {
    assume "d \<in> set ds"
    then obtain p w q where z: "((p, w), q) \<in> set (zip ?bad generated)"
      and d: "d = AuthorityDiagnostic ''quarantined_incomplete_link'' ty (rid p) w (qu_source q)"
      unfolding ds by auto
    from set_zip_leftD [OF z] pairs have "p \<in> set rs" "reason p = Some w" by blast+
    with d show "dg_code d = ''quarantined_incomplete_link'' \<and> dg_record_type d = ty \<and>
      (\<exists>r \<in> set rs. dg_record_id d = rid r \<and> reason r = Some (dg_reason d))" by auto
  }
qed

text \<open>The accepted records and the other parts of the view a reduction returns.\<close>

definition accepted_claims :: "string \<Rightarrow> string \<Rightarrow> contract list \<Rightarrow> authority_claim list" where
  "accepted_claims run rev' typed =
     filter (\<lambda>c. claim_reason run rev' (build_index run rev' typed) c = None)
       (select as_claim (\<lambda>_. True) typed)"

definition accepted_decisions :: "string \<Rightarrow> string \<Rightarrow> contract list \<Rightarrow> authority_decision list" where
  "accepted_decisions run rev' typed =
     filter (\<lambda>d. decision_reason run rev' (by_id cl_claim_id (accepted_claims run rev' typed))
              (build_index run rev' typed) d = None)
       (select as_decision (\<lambda>_. True) typed)"

lemma reduce_unique_parts:
  assumes "reduce_unique sha typed ds run rev' cursor = Inr v"
  obtains cqs cds dqs dds qs qds where
    "split_records (claim_reason run rev' (build_index run rev' typed)) (quarantine_claim sha run rev')
       ''claim'' cl_claim_id (select as_claim (\<lambda>_. True) typed) =
       Inr (accepted_claims run rev' typed, cqs, cds)"
    "split_records (decision_reason run rev' (by_id cl_claim_id (accepted_claims run rev' typed))
         (build_index run rev' typed)) (quarantine_decision sha run rev')
       ''decision'' de_decision_id (select as_decision (\<lambda>_. True) typed) =
       Inr (accepted_decisions run rev' typed, dqs, dds)"
    "deduplicate (map QuarantineRecord
       (select as_quarantine (\<lambda>r. qu_run_id r = run) typed @ cqs @ dqs)) = Inr (qs, qds)"
    "vw_claims v = sort_records Claim (accepted_claims run rev' typed)"
    "vw_decisions v = sort_records Decision (accepted_decisions run rev' typed)"
    "vw_evidence v = view_evidence run rev' typed"
    "vw_observations v = sort_records ObservationEnvelope
       (select as_observation (\<lambda>r. ob_run_id r = run) typed)"
    "vw_coherent_observations v = sort_records ObservationEnvelope
       (filter (\<lambda>r. observation_is_current rev' cursor r \<and> is_dispatchable r)
         (select as_observation (\<lambda>r. ob_run_id r = run) typed))"
    "set (vw_fences v) = {r. CoordinatorFence r \<in> set typed \<and> fe_run_id r = run \<and> fe_run_revision r = rev'}"
    "set (vw_grants v) = {r. CapabilityGrant r \<in> set typed \<and> gr_run_id r = run \<and> gr_run_revision r = rev'}"
    "set (vw_attempts v) = {r. SubjectAttempt r \<in> set typed \<and> at_run_id r = run \<and> at_run_revision r = rev'}"
    "vw_quarantines v = sort_records QuarantineRecord (select as_quarantine (\<lambda>_. True) qs)"
    "vw_diagnostics v = sorted_set (ds @
       List.map_filter (observation_diagnostic rev' cursor)
         (select as_observation (\<lambda>r. ob_run_id r = run) typed) @ cds @ dds @ qds)"
    "vw_run_id v = run" "vw_run_revision v = rev'" "vw_journal_cursor v = cursor"
proof -
  from assms obtain acc cqs cds accd dqs dds qs qds where
    c: "split_records (claim_reason run rev' (build_index run rev' typed)) (quarantine_claim sha run rev')
       ''claim'' cl_claim_id (select as_claim (\<lambda>_. True) typed) = Inr (acc, cqs, cds)"
    and d: "split_records (decision_reason run rev' (by_id cl_claim_id acc)
         (build_index run rev' typed)) (quarantine_decision sha run rev')
       ''decision'' de_decision_id (select as_decision (\<lambda>_. True) typed) = Inr (accd, dqs, dds)"
    and q: "deduplicate (map QuarantineRecord
       (select as_quarantine (\<lambda>r. qu_run_id r = run) typed @ cqs @ dqs)) = Inr (qs, qds)"
    unfolding reduce_unique_def Let_def by (auto split: prod.splits)
  have acc: "acc = accepted_claims run rev' typed"
    using split_records_Inr(1) [OF c] by (simp add: accepted_claims_def)
  have accd: "accd = accepted_decisions run rev' typed"
    using split_records_Inr(1) [OF d] by (simp add: accepted_decisions_def acc)
  have v: "v = (let view =
        \<lparr>vw_run_id = run, vw_run_revision = rev', vw_journal_cursor = cursor,
         vw_evidence_set_digest = evidence_digest_of sha (select as_evidence
            (\<lambda>r. ev_run_id r = run \<and> ev_run_revision r = rev') typed),
         vw_evidence = view_evidence run rev' typed,
         vw_observations = sort_records ObservationEnvelope
            (select as_observation (\<lambda>r. ob_run_id r = run) typed),
         vw_coherent_observations = sort_records ObservationEnvelope
            (filter (\<lambda>r. observation_is_current rev' cursor r \<and> is_dispatchable r)
              (select as_observation (\<lambda>r. ob_run_id r = run) typed)),
         vw_fences = sort_records CoordinatorFence
            (select as_fence (\<lambda>r. fe_run_id r = run \<and> fe_run_revision r = rev') typed),
         vw_grants = sort_records CapabilityGrant
            (select as_grant (\<lambda>r. gr_run_id r = run \<and> gr_run_revision r = rev') typed),
         vw_attempts = sort_records SubjectAttempt
            (select as_attempt (\<lambda>r. at_run_id r = run \<and> at_run_revision r = rev') typed),
         vw_claims = sort_records Claim acc,
         vw_decisions = sort_records Decision accd,
         vw_quarantines = sort_records QuarantineRecord (select as_quarantine (\<lambda>_. True) qs),
         vw_diagnostics = sorted_set (ds @ List.map_filter (observation_diagnostic rev' cursor)
           (select as_observation (\<lambda>r. ob_run_id r = run) typed) @ cds @ dds @ qds),
         vw_view_hash = ''pending''\<rparr>
      in view\<lparr>vw_view_hash := sha (canonical_json (JObj (view_payload view)))\<rparr>)"
    using assms c d q unfolding reduce_unique_def Let_def view_evidence_def by simp
  show ?thesis
    by (rule that [OF c [unfolded acc] d [unfolded acc accd] q])
      (auto simp: acc accd v Let_def)
qed

subsection \<open>Well-formed inputs\<close>

text \<open>Every input came out of a constructor, with floats printed by \<^verbatim>\<open>repr\<close>.\<close>

definition wf_inputs :: "(string \<Rightarrow> string) \<Rightarrow> contract list \<Rightarrow> bool" where
  "wf_inputs sha rs = list_all (\<lambda>r. wf_contract sha r \<and> wf_json (JObj (to_dict r))) rs"

lemma wf_inputs_inj: "wf_inputs sha rs \<Longrightarrow> inj_on to_json (set rs)"
  unfolding wf_inputs_def list_all_iff by (rule inj_onI) (meson to_json_inject)

lemma reduce_run_authority_Inr:
  assumes "reduce_run_authority sha inputs run_id run_revision jc = Inr v"
  obtains run rev' cursor typed ds where "run_id = JStr run" and "run_revision = JStr rev'"
    and "text_ok run" and "text_ok rev'" and "deduplicate inputs = Inr (typed, ds)"
    and "reduce_unique sha typed ds run rev' cursor = Inr v"
    and "cursor = (case jc of JInt n \<Rightarrow> n | _ \<Rightarrow> int (length inputs))"
  using assms unfolding reduce_run_authority_def
  by (cases jc) (auto simp: field_iff split: prod.splits)

lemma reduce_typed:
  assumes wf: "wf_inputs sha inputs"
    and red: "reduce_run_authority sha inputs run_id run_revision jc = Inr v"
  obtains run rev' cursor typed ds where "run_id = JStr run" and "run_revision = JStr rev'"
    and "text_ok run" and "text_ok rev'"
    and "set typed = {r. unrivalled (set inputs) r}" and "unique_records typed"
    and "set ds = {conflict_diagnostic (group_key r) (same_key (set inputs) (group_key r)) | r.
           r \<in> set inputs \<and> \<not> unrivalled (set inputs) r}"
    and "reduce_unique sha typed ds run rev' cursor = Inr v"
    and "cursor = (case jc of JInt n \<Rightarrow> n | _ \<Rightarrow> int (length inputs))"
proof (rule reduce_run_authority_Inr [OF red])
  fix run rev' cursor typed ds
  assume d: "deduplicate inputs = Inr (typed, ds)"
    and args: "run_id = JStr run" "run_revision = JStr rev'" "text_ok run" "text_ok rev'"
    and r: "reduce_unique sha typed ds run rev' cursor = Inr v"
      "cursor = (case jc of JInt n \<Rightarrow> n | _ \<Rightarrow> int (length inputs))"
  note inj = wf_inputs_inj [OF wf]
  show thesis
    by (rule that [OF args deduplicate_Inr(1) [OF inj d] deduplicate_unique [OF inj d]
          deduplicate_Inr(4) [OF inj d] r])
qed

subsection \<open>The records of a view\<close>

definition view_records :: "run_authority_view \<Rightarrow> contract list" where
  "view_records v =
     map EvidenceEnvelope (vw_evidence v) @ map ObservationEnvelope (vw_observations v) @
     map ObservationEnvelope (vw_coherent_observations v) @
     map CoordinatorFence (vw_fences v) @ map CapabilityGrant (vw_grants v) @
     map SubjectAttempt (vw_attempts v) @ map Claim (vw_claims v) @ map Decision (vw_decisions v)"

lemma view_records_typed:
  assumes "reduce_unique sha typed ds run rev' cursor = Inr v"
  shows "set (view_records v) \<subseteq> set typed"
proof (rule reduce_unique_parts [OF assms])
  assume "vw_claims v = sort_records Claim (accepted_claims run rev' typed)"
    "vw_decisions v = sort_records Decision (accepted_decisions run rev' typed)"
    "vw_evidence v = view_evidence run rev' typed"
    "vw_observations v = sort_records ObservationEnvelope
       (select as_observation (\<lambda>r. ob_run_id r = run) typed)"
    "vw_coherent_observations v = sort_records ObservationEnvelope
       (filter (\<lambda>r. observation_is_current rev' cursor r \<and> is_dispatchable r)
         (select as_observation (\<lambda>r. ob_run_id r = run) typed))"
    "set (vw_fences v) = {r. CoordinatorFence r \<in> set typed \<and> fe_run_id r = run \<and> fe_run_revision r = rev'}"
    "set (vw_grants v) = {r. CapabilityGrant r \<in> set typed \<and> gr_run_id r = run \<and> gr_run_revision r = rev'}"
    "set (vw_attempts v) = {r. SubjectAttempt r \<in> set typed \<and> at_run_id r = run \<and> at_run_revision r = rev'}"
  then show ?thesis
    by (auto simp: view_records_def accepted_claims_def accepted_decisions_def view_evidence_def)
qed


lemma group_key_diagnostic:
  "dg_code (conflict_diagnostic k S) = ''conflicting_duplicate_key''"
  "dg_record_type (conflict_diagnostic k S) = fst k" "dg_record_id (conflict_diagnostic k S) = snd k"
  by (simp_all add: conflict_diagnostic_def)

subsection \<open>Every claim is accepted or reported\<close>

text \<open>The code of every diagnostic of a deduplication.\<close>

lemma deduplicate_codes:
  assumes "deduplicate rs = Inr (typed, ds)" and "d \<in> set ds"
  shows "dg_code d = ''conflicting_duplicate_key''"
proof -
  from assms(1) obtain grouped outs where
    outs: "res_map group_outcome (sort_key fst grouped) = Inr outs"
    and ds: "ds = sort [d. Inr d \<leftarrow> outs]"
    by (auto simp: deduplicate_def)
  from assms(2) ds have "Inr d \<in> set outs" by auto
  from res_map_Inr_set [OF outs this] obtain entry where e: "group_outcome entry = Inr (Inr d)"
    by blast
  obtain k vs where entry: "entry = (k, vs)" by (cases entry)
  show ?thesis
  proof (cases "\<exists>p. vs = [p]")
    case True
    with e entry show ?thesis by (auto simp: group_outcome_def split_beta)
  next
    case False
    from e [unfolded entry group_outcome_conflict [OF False]] show ?thesis by auto
  qed
qed

lemma observation_diagnostic_code:
  "observation_diagnostic rev' cursor o' = Some d \<Longrightarrow>
     dg_code d = ''non_coherent_observation'' \<and> dg_record_id d = ob_observation_id o' \<and>
     \<not> (observation_is_current rev' cursor o' \<and> is_dispatchable o')"
  by (auto simp: observation_diagnostic_def split: if_splits)

text \<open>The incomplete-link diagnostics of a view come from its claims and decisions.\<close>

lemma incomplete_link_diagnostics:
  assumes red: "reduce_unique sha typed ds run rev' cursor = Inr v"
    and ds: "\<And>d. d \<in> set ds \<Longrightarrow> dg_code d = ''conflicting_duplicate_key''"
  shows "(\<exists>d \<in> set (vw_diagnostics v). dg_code d = ''quarantined_incomplete_link'' \<and>
      dg_record_type d = ''claim'' \<and> dg_record_id d = i) \<longleftrightarrow>
    (\<exists>c. Claim c \<in> set typed \<and> cl_claim_id c = i \<and> c \<notin> set (vw_claims v))"
proof (rule reduce_unique_parts [OF red])
  fix cqs cds dqs dds qs qds
  assume c: "split_records (claim_reason run rev' (build_index run rev' typed)) (quarantine_claim sha run rev')
       ''claim'' cl_claim_id (select as_claim (\<lambda>_. True) typed) =
       Inr (accepted_claims run rev' typed, cqs, cds)"
    and d: "split_records (decision_reason run rev' (by_id cl_claim_id (accepted_claims run rev' typed))
         (build_index run rev' typed)) (quarantine_decision sha run rev')
       ''decision'' de_decision_id (select as_decision (\<lambda>_. True) typed) =
       Inr (accepted_decisions run rev' typed, dqs, dds)"
    and q: "deduplicate (map QuarantineRecord
       (select as_quarantine (\<lambda>r. qu_run_id r = run) typed @ cqs @ dqs)) = Inr (qs, qds)"
    and claims: "vw_claims v = sort_records Claim (accepted_claims run rev' typed)"
    and diags: "vw_diagnostics v = sorted_set (ds @
       List.map_filter (observation_diagnostic rev' cursor)
         (select as_observation (\<lambda>r. ob_run_id r = run) typed) @ cds @ dds @ qds)"
  let ?reason = "claim_reason run rev' (build_index run rev' typed)"
  have in_claims: "x \<in> set (vw_claims v) \<longleftrightarrow> Claim x \<in> set typed \<and> ?reason x = None" for x
    by (auto simp: claims accepted_claims_def)
  show ?thesis
  proof
    assume "\<exists>d \<in> set (vw_diagnostics v). dg_code d = ''quarantined_incomplete_link'' \<and>
      dg_record_type d = ''claim'' \<and> dg_record_id d = i"
    then obtain e where e: "e \<in> set (vw_diagnostics v)" "dg_code e = ''quarantined_incomplete_link''"
      "dg_record_type e = ''claim''" "dg_record_id e = i" by blast
    have "e \<notin> set ds" using ds [of e] e(2) by auto
    moreover have "e \<notin> set qds" using deduplicate_codes [OF q, of e] e(2) by auto
    moreover have "e \<notin> set (List.map_filter (observation_diagnostic rev' cursor)
         (select as_observation (\<lambda>r. ob_run_id r = run) typed))"
      using observation_diagnostic_code [of rev' cursor _ e] e(2) by (auto simp: set_map_filter)
    moreover have "e \<notin> set dds" using split_records_Inr(3) [OF d, of e] e(3) by auto
    ultimately have "e \<in> set cds" using e(1) by (simp add: diags)
    from split_records_Inr(3) [OF c this] e(4)
    show "\<exists>c. Claim c \<in> set typed \<and> cl_claim_id c = i \<and> c \<notin> set (vw_claims v)"
      by (auto simp: in_claims)
  next
    assume "\<exists>c. Claim c \<in> set typed \<and> cl_claim_id c = i \<and> c \<notin> set (vw_claims v)"
    then obtain x why where x: "Claim x \<in> set typed" "cl_claim_id x = i" "?reason x = Some why"
      by (auto simp: in_claims)
    then have "x \<in> set (select as_claim (\<lambda>_. True) typed)" by simp
    from split_records_Inr(2) [OF c this x(3)] obtain q :: quarantine_record where
      "AuthorityDiagnostic ''quarantined_incomplete_link'' ''claim'' i why (qu_source q) \<in> set cds"
      unfolding x(2) by blast
    then have "AuthorityDiagnostic ''quarantined_incomplete_link'' ''claim'' i why (qu_source q)
        \<in> set (vw_diagnostics v)"
      by (simp add: diags)
    then show "\<exists>d \<in> set (vw_diagnostics v). dg_code d = ''quarantined_incomplete_link'' \<and>
      dg_record_type d = ''claim'' \<and> dg_record_id d = i"
      by (rule bexI [rotated]) simp
  qed
qed

subsection \<open>Complete links are accepted\<close>

lemma by_id_eq: "inj_on f (set rs) \<Longrightarrow> x \<in> set rs \<Longrightarrow> by_id f rs (f x) = Some x"
  using by_id_SomeD [of f rs "f x"] by_id_None [of f rs "f x"]
  by (cases "by_id f rs (f x)") (auto dest: inj_onD)

lemma unique_recordsD:
  "unique_records typed \<Longrightarrow> r \<in> set typed \<Longrightarrow> s \<in> set typed \<Longrightarrow> group_key r = group_key s \<Longrightarrow> r = s"
  unfolding unique_records_def by blast

lemma group_key_simps:
  "group_key (EvidenceEnvelope e) = (''evidence'', ev_evidence_id e)"
  "group_key (CoordinatorFence f) = (''coordinator_fence'', fence_key_text f)"
  "group_key (CapabilityGrant g) = (''capability_grant'', gr_grant_id g)"
  "group_key (SubjectAttempt a) = (''subject_attempt'', at_attempt_id a)"
  "group_key (IdempotencyKey k) = (''idempotency_key'', ik_value k)"
  "group_key (Claim c) = (''claim'', cl_claim_id c)"
  "group_key (Decision d) = (''decision'', de_decision_id d)"
  by (simp_all add: group_key_def contract_type_def)

lemma select_by_id:
  assumes u: "unique_records typed" and proj: "\<And>r x. proj r = Some x \<longleftrightarrow> r = wrap x"
    and mem: "wrap x \<in> set typed" "keep x"
    and key: "\<And>x y. keep x \<Longrightarrow> keep y \<Longrightarrow> f x = f y \<Longrightarrow> group_key (wrap x) = group_key (wrap y)"
  shows "by_id f (select proj keep typed) (f x) = Some x"
proof (rule by_id_eq)
  show "inj_on f (set (select proj keep typed))"
  proof (rule inj_onI)
    fix a b
    assume "a \<in> set (select proj keep typed)" "b \<in> set (select proj keep typed)" "f a = f b"
    then have "wrap a \<in> set typed" "wrap b \<in> set typed" "group_key (wrap a) = group_key (wrap b)"
      using key [of a b] by (auto simp: proj)
    from unique_recordsD [OF u this] have "wrap a = wrap b" .
    then have "proj (wrap a) = proj (wrap b)" by simp
    moreover have "proj (wrap a) = Some a" "proj (wrap b) = Some b" by (simp_all add: proj)
    ultimately show "a = b" by simp
  qed
  show "x \<in> set (select proj keep typed)" using mem by (simp add: proj)
qed

lemma build_index_eq:
  assumes u: "unique_records typed"
  shows "EvidenceEnvelope e \<in> set typed \<Longrightarrow> ev_run_id e = run \<Longrightarrow> ev_run_revision e = rev' \<Longrightarrow>
      ix_evidence (build_index run rev' typed) (ev_evidence_id e) = Some e"
    and "CoordinatorFence f \<in> set typed \<Longrightarrow> fe_run_id f = run \<Longrightarrow> fe_run_revision f = rev' \<Longrightarrow>
      ix_fences (build_index run rev' typed) (fe_coordinator_attempt_id f, fe_token f) = Some f"
    and "CapabilityGrant g \<in> set typed \<Longrightarrow> gr_run_id g = run \<Longrightarrow> gr_run_revision g = rev' \<Longrightarrow>
      ix_grants (build_index run rev' typed) (gr_grant_id g) = Some g"
    and "SubjectAttempt a \<in> set typed \<Longrightarrow> at_run_id a = run \<Longrightarrow> at_run_revision a = rev' \<Longrightarrow>
      ix_attempts (build_index run rev' typed) (at_attempt_id a) = Some a"
    and "IdempotencyKey k \<in> set typed \<Longrightarrow>
      ix_idempotency (build_index run rev' typed) (ik_value k) = Some k"
proof -
  note S = select_by_id [OF u]
  note simps = build_index_def group_key_simps fence_key_text_def
  show "EvidenceEnvelope e \<in> set typed \<Longrightarrow> ev_run_id e = run \<Longrightarrow> ev_run_revision e = rev' \<Longrightarrow>
      ix_evidence (build_index run rev' typed) (ev_evidence_id e) = Some e"
    using S [of as_evidence EvidenceEnvelope e _ ev_evidence_id] by (simp add: simps)
  show "CoordinatorFence f \<in> set typed \<Longrightarrow> fe_run_id f = run \<Longrightarrow> fe_run_revision f = rev' \<Longrightarrow>
      ix_fences (build_index run rev' typed) (fe_coordinator_attempt_id f, fe_token f) = Some f"
    using S [of as_fence CoordinatorFence f "\<lambda>r. fe_run_id r = run \<and> fe_run_revision r = rev'"
        "\<lambda>r. (fe_coordinator_attempt_id r, fe_token r)"]
    by (simp add: simps)
  show "CapabilityGrant g \<in> set typed \<Longrightarrow> gr_run_id g = run \<Longrightarrow> gr_run_revision g = rev' \<Longrightarrow>
      ix_grants (build_index run rev' typed) (gr_grant_id g) = Some g"
    using S [of as_grant CapabilityGrant g _ gr_grant_id] by (simp add: simps)
  show "SubjectAttempt a \<in> set typed \<Longrightarrow> at_run_id a = run \<Longrightarrow> at_run_revision a = rev' \<Longrightarrow>
      ix_attempts (build_index run rev' typed) (at_attempt_id a) = Some a"
    using S [of as_attempt SubjectAttempt a _ at_attempt_id] by (simp add: simps)
  show "IdempotencyKey k \<in> set typed \<Longrightarrow>
      ix_idempotency (build_index run rev' typed) (ik_value k) = Some k"
    using S [of as_idempotency IdempotencyKey k "\<lambda>_. True" ik_value] by (simp add: simps)
qed

lemma view_evidence_indexed:
  assumes "unique_records typed" and "i \<in> set (map ev_evidence_id (view_evidence run rev' typed))"
  shows "evidence_current (ix_evidence (build_index run rev' typed)) run rev' i \<and>
    ix_evidence (build_index run rev' typed) i \<noteq> None"
proof -
  from assms(2) obtain e where e: "ev_evidence_id e = i" "EvidenceEnvelope e \<in> set typed"
    "ev_run_id e = run" "ev_run_revision e = rev'"
    by (auto simp: view_evidence_def)
  with build_index_eq(1) [OF assms(1) e(2-)] show ?thesis
    by (simp add: evidence_current_def)
qed

lemma idempotent_in_iff:
  assumes "unique_records typed"
  shows "idempotent_in (ix_idempotency (build_index run rev' typed)) i h \<longleftrightarrow>
    IdempotencyKey \<lparr>ik_value = i, ik_payload_hash = h\<rparr> \<in> set typed"
proof
  assume "idempotent_in (ix_idempotency (build_index run rev' typed)) i h"
  then obtain k :: idempotency_key where
    k: "ix_idempotency (build_index run rev' typed) i = Some k" "ik_payload_hash k = h"
    by (auto simp: idempotent_in_def split: option.splits)
  with build_index_SomeD(5) [OF k(1)] show "IdempotencyKey \<lparr>ik_value = i, ik_payload_hash = h\<rparr> \<in> set typed"
    by (cases k) auto
next
  assume "IdempotencyKey \<lparr>ik_value = i, ik_payload_hash = h\<rparr> \<in> set typed"
  from build_index_eq(5) [OF assms this] show "idempotent_in (ix_idempotency (build_index run rev' typed)) i h"
    by (simp add: idempotent_in_def)
qed

lemma claim_reason_iff:
  assumes u: "unique_records typed"
  shows "claim_reason run rev' (build_index run rev' typed) c = None \<longleftrightarrow>
    IdempotencyKey \<lparr>ik_value = cl_idempotency_key c, ik_payload_hash = cl_payload_hash c\<rparr> \<in> set typed \<and>
    (\<exists>f g a. linked run rev' typed c None f g a)"
    (is "?l \<longleftrightarrow> ?key \<and> ?link")
proof
  assume ?l
  then have "idempotent_in (ix_idempotency (build_index run rev' typed)) (cl_idempotency_key c)
      (cl_payload_hash c)"
    by (rule claim_reason_None)
  with accepted_claim_linked [OF u \<open>?l\<close>] idempotent_in_iff [OF u] show "?key \<and> ?link" by simp
next
  assume r: "?key \<and> ?link"
  then obtain f g a where l: "linked run rev' typed c None f g a" by blast
  let ?ix = "build_index run rev' typed"
  have v: "validate_relationships f g a c (view_evidence run rev' typed) None = Inr ()"
    and mem: "CoordinatorFence f \<in> set typed" "CapabilityGrant g \<in> set typed"
      "SubjectAttempt a \<in> set typed"
    and run: "fe_run_id f = run" "gr_run_id g = run" "at_run_id a = run" "cl_run_id c = run"
    and rev: "fe_run_revision f = rev'" "gr_run_revision g = rev'" "at_run_revision a = rev'"
      "cl_run_revision c = rev'"
    using l by (simp_all add: linked_def)
  note v' = v [unfolded validate_relationships_iff same_context_iff, simplified]
  have a: "ix_attempts ?ix (cl_attempt_id c) = Some a"
    using build_index_eq(4) [OF u mem(3) run(3) rev(3)] v' by simp
  have g: "ix_grants ?ix (cl_grant_id c) = Some g"
    using build_index_eq(3) [OF u mem(2) run(2) rev(2)] v' by simp
  have f: "ix_fences ?ix (cl_coordinator_attempt_id c, cl_fence_token c) = Some f"
    using build_index_eq(2) [OF u mem(1) run(1) rev(1)] v' by simp
  have "list_all (\<lambda>i. i \<in> set (map ev_evidence_id (view_evidence run rev' typed)))
      (cl_evidence_ids c @ gr_evidence_ids g)"
    using v [unfolded validate_relationships_iff] by (auto simp: list_all_iff)
  then have ev: "\<not> list_ex (\<lambda>i. ix_evidence ?ix i = None) (cl_evidence_ids c @ gr_evidence_ids g)"
    "\<not> list_ex (\<lambda>i. \<not> evidence_current (ix_evidence ?ix) run rev' i) (cl_evidence_ids c @ gr_evidence_ids g)"
    using view_evidence_indexed [OF u] unfolding list_all_iff list_ex_iff by blast+
  have k: "idempotent_in (ix_idempotency ?ix) (cl_idempotency_key c) (cl_payload_hash c)"
    using r idempotent_in_iff [OF u] by blast
  show ?l
    unfolding claim_reason_def a g f option.case using ev k run rev v' by simp
qed

lemma decision_reason_iff:
  assumes u: "unique_records typed"
  shows "decision_reason run rev' (by_id cl_claim_id (accepted_claims run rev' typed))
      (build_index run rev' typed) d = None \<longleftrightarrow>
    IdempotencyKey \<lparr>ik_value = de_idempotency_key d, ik_payload_hash = de_payload_hash d\<rparr> \<in> set typed \<and>
    (\<exists>c \<in> set (accepted_claims run rev' typed). \<exists>f g a. linked run rev' typed c (Some d) f g a)"
    (is "?l \<longleftrightarrow> ?key \<and> ?link")
proof
  assume ?l
  then have "idempotent_in (ix_idempotency (build_index run rev' typed)) (de_idempotency_key d)
      (de_payload_hash d)"
    by (rule decision_reason_None)
  moreover have ?link
    by (rule accepted_decision_linked [OF u \<open>?l\<close>]) (simp add: accepted_claims_def)
  ultimately show "?key \<and> ?link" using idempotent_in_iff [OF u] by simp
next
  assume r: "?key \<and> ?link"
  then obtain c f g a where acc: "c \<in> set (accepted_claims run rev' typed)"
    and l: "linked run rev' typed c (Some d) f g a" by blast
  let ?ix = "build_index run rev' typed"
  have v: "validate_relationships f g a c (view_evidence run rev' typed) (Some d) = Inr ()"
    and run: "fe_run_id f = run" "fe_run_revision f = rev'"
    using l by (simp_all add: linked_def)
  note v' = v [unfolded validate_relationships_iff same_context_iff, simplified]
  have "by_id cl_claim_id (accepted_claims run rev' typed) (cl_claim_id c) = Some c"
    unfolding accepted_claims_def select_def filter_filter
    by (rule select_by_id [OF u, where proj = as_claim and wrap = Claim, unfolded select_def])
      (use acc in \<open>auto simp: accepted_claims_def group_key_simps\<close>)
  then have c: "by_id cl_claim_id (accepted_claims run rev' typed) (de_claim_id d) = Some c"
    using v' by simp
  have "list_all (\<lambda>i. i \<in> set (map ev_evidence_id (view_evidence run rev' typed))) (de_evidence_ids d)"
    using v [unfolded validate_relationships_iff] by (auto simp: list_all_iff)
  then have ev: "\<not> list_ex (\<lambda>i. ix_evidence ?ix i = None) (de_evidence_ids d)"
    "\<not> list_ex (\<lambda>i. \<not> evidence_current (ix_evidence ?ix) run rev' i) (de_evidence_ids d)"
    using view_evidence_indexed [OF u] unfolding list_all_iff list_ex_iff by blast+
  have k: "idempotent_in (ix_idempotency ?ix) (de_idempotency_key d) (de_payload_hash d)"
    using r idempotent_in_iff [OF u] by blast
  show ?l
    unfolding decision_reason_def c option.case using ev k run v' by simp
qed

subsection \<open>The accepted records, in terms of the view\<close>

lemma view_links:
  assumes red: "reduce_unique sha typed ds run rev' cursor = Inr v"
  shows "(\<exists>f g a. linked run rev' typed c dec f g a) \<longleftrightarrow>
    (\<exists>f \<in> set (vw_fences v). \<exists>g \<in> set (vw_grants v). \<exists>a \<in> set (vw_attempts v).
       validate_relationships f g a c (vw_evidence v) dec = Inr ())"
proof (rule reduce_unique_parts [OF red])
  assume ev: "vw_evidence v = view_evidence run rev' typed"
    and sets: "set (vw_fences v) = {r. CoordinatorFence r \<in> set typed \<and> fe_run_id r = run \<and> fe_run_revision r = rev'}"
      "set (vw_grants v) = {r. CapabilityGrant r \<in> set typed \<and> gr_run_id r = run \<and> gr_run_revision r = rev'}"
      "set (vw_attempts v) = {r. SubjectAttempt r \<in> set typed \<and> at_run_id r = run \<and> at_run_revision r = rev'}"
  have "cl_run_id c = run \<and> cl_run_revision c = rev'"
    if "validate_relationships f g a c (view_evidence run rev' typed) dec = Inr ()"
      "fe_run_id f = run" "fe_run_revision f = rev'" for f g a
    using that by (simp add: validate_relationships_iff same_context_iff)
  then have "linked run rev' typed c dec f g a \<longleftrightarrow> f \<in> set (vw_fences v) \<and> g \<in> set (vw_grants v) \<and>
      a \<in> set (vw_attempts v) \<and> validate_relationships f g a c (vw_evidence v) dec = Inr ()" for f g a
    unfolding linked_def ev sets by auto
  then show ?thesis by blast
qed

lemma view_claims_iff:
  assumes u: "unique_records typed" and red: "reduce_unique sha typed ds run rev' cursor = Inr v"
  shows "c \<in> set (vw_claims v) \<longleftrightarrow> Claim c \<in> set typed \<and>
    IdempotencyKey \<lparr>ik_value = cl_idempotency_key c, ik_payload_hash = cl_payload_hash c\<rparr> \<in> set typed \<and>
    (\<exists>f \<in> set (vw_fences v). \<exists>g \<in> set (vw_grants v). \<exists>a \<in> set (vw_attempts v).
       validate_relationships f g a c (vw_evidence v) None = Inr ())"
proof (rule reduce_unique_parts [OF red])
  assume "vw_claims v = sort_records Claim (accepted_claims run rev' typed)"
  then have "c \<in> set (vw_claims v) \<longleftrightarrow> Claim c \<in> set typed \<and>
      claim_reason run rev' (build_index run rev' typed) c = None"
    by (auto simp: accepted_claims_def)
  then show ?thesis
    unfolding claim_reason_iff [OF u] view_links [OF red] by blast
qed

lemma view_decisions_iff:
  assumes u: "unique_records typed" and red: "reduce_unique sha typed ds run rev' cursor = Inr v"
  shows "d \<in> set (vw_decisions v) \<longleftrightarrow> Decision d \<in> set typed \<and>
    IdempotencyKey \<lparr>ik_value = de_idempotency_key d, ik_payload_hash = de_payload_hash d\<rparr> \<in> set typed \<and>
    (\<exists>c \<in> set (vw_claims v). \<exists>f \<in> set (vw_fences v). \<exists>g \<in> set (vw_grants v).
     \<exists>a \<in> set (vw_attempts v). validate_relationships f g a c (vw_evidence v) (Some d) = Inr ())"
proof (rule reduce_unique_parts [OF red])
  assume claims: "vw_claims v = sort_records Claim (accepted_claims run rev' typed)"
    and "vw_decisions v = sort_records Decision (accepted_decisions run rev' typed)"
  then have "d \<in> set (vw_decisions v) \<longleftrightarrow> Decision d \<in> set typed \<and>
      decision_reason run rev' (by_id cl_claim_id (accepted_claims run rev' typed))
        (build_index run rev' typed) d = None"
    by (auto simp: accepted_decisions_def)
  moreover have "set (vw_claims v) = set (accepted_claims run rev' typed)"
    by (simp add: claims)
  ultimately show ?thesis
    unfolding decision_reason_iff [OF u] view_links [OF red] by blast
qed

text \<open>The observations a view calls coherent.\<close>

lemma view_coherent_observations:
  assumes red: "reduce_unique sha typed ds run rev' cursor = Inr v"
  shows "o' \<in> set (vw_coherent_observations v) \<longleftrightarrow>
    o' \<in> set (vw_observations v) \<and> observation_is_current (vw_run_revision v) (vw_journal_cursor v) o' \<and>
    is_dispatchable o'"
proof (rule reduce_unique_parts [OF red])
  assume "vw_observations v = sort_records ObservationEnvelope
       (select as_observation (\<lambda>r. ob_run_id r = run) typed)"
    "vw_coherent_observations v = sort_records ObservationEnvelope
       (filter (\<lambda>r. observation_is_current rev' cursor r \<and> is_dispatchable r)
         (select as_observation (\<lambda>r. ob_run_id r = run) typed))"
    "vw_run_revision v = rev'" "vw_journal_cursor v = cursor"
  then show ?thesis by auto
qed

lemma view_observations_typed:
  assumes "reduce_unique sha typed ds run rev' cursor = Inr v" and "o' \<in> set (vw_observations v)"
  shows "ObservationEnvelope o' \<in> set typed"
  using view_records_typed [OF assms(1)] assms(2) by (auto simp: view_records_def)

subsection \<open>Quarantines are always well formed\<close>

lemma claim_reason_text_ok: "claim_reason run rev' ix c = Some why \<Longrightarrow> text_ok why"
  by (auto simp: claim_reason_def text_ok_Cons split: if_splits option.splits)

lemma decision_reason_text_ok: "decision_reason run rev' claims ix d = Some why \<Longrightarrow> text_ok why"
  by (auto simp: decision_reason_def text_ok_Cons split: if_splits option.splits)

lemma ids_ok_False: "ids_ok b xs \<Longrightarrow> ids_ok False xs"
  by (simp add: ids_ok_def)

lemma type_name_text_ok: "text_ok (type_name cls)"
  by (cases cls) (simp_all add: text_ok_Cons)

lemma digest_payload: "initialize_payload sha (JObj [(''record_digest'', JStr h)]) =
    Inr (JObj [(''record_digest'', JStr h)], sha (canonical_json (JObj [(''record_digest'', JStr h)])))"
  by (rule initialize_payload_accepts) (simp add: payload_ok_def)

lemma quarantine_wf_json:
  "wf_json (qu_payload q) \<Longrightarrow> wf_json (JObj (to_dict (QuarantineRecord q)))"
  using plain_wf [of "qu_payload q"] by (simp add: to_dict_def list_all_iff)

lemma generated_quarantine_total:
  assumes "text_ok run" and "text_ok rev'" and "text_ok why" and "text_ok rid"
    and "ids_ok b evs" and "record_source r = Inr src" and "text_ok src"
  shows "\<exists>q. generated_quarantine sha r rid evs run rev' why = Inr q \<and>
    wf_contract sha (QuarantineRecord q) \<and> wf_json (JObj (to_dict (QuarantineRecord q)))"
proof -
  have "\<exists>q. generated_quarantine sha r rid evs run rev' why = Inr q \<and>
      qu_payload q = JObj [(''record_digest'', JStr (contract_digest sha r))]"
    unfolding generated_quarantine_def Let_def assms(6) res_bind.simps mk_quarantine_def contract_type_def
    using assms(1-4,7) string_tuple_accepts [OF ids_ok_False [OF assms(5)]]
    by (simp add: required_accepts type_name_text_ok digest_payload text_ok_Cons del: res_bind_Inr_iff)
  then obtain q where q: "generated_quarantine sha r rid evs run rev' why = Inr q"
    "qu_payload q = JObj [(''record_digest'', JStr (contract_digest sha r))]" by blast
  have "wf_contract sha (QuarantineRecord q)"
    using q(1) unfolding generated_quarantine_def Let_def assms(6) res_bind.simps
    by (rule mk_quarantine_wf)
  with q quarantine_wf_json [of q] show ?thesis by auto
qed

lemma quarantine_claim_total:
  assumes "wf_contract sha (Claim c)" and "text_ok run" and "text_ok rev'" and "text_ok why"
  shows "\<exists>q. quarantine_claim sha run rev' c why = Inr q \<and>
    wf_contract sha (QuarantineRecord q) \<and> wf_json (JObj (to_dict (QuarantineRecord q)))"
  unfolding quarantine_claim_def
  by (rule generated_quarantine_total [where b = True
        and src = "''contract://'' @ contract_type (Claim c) @ ''/'' @ cl_claim_id c"])
    (use assms in \<open>simp_all add: identity_def text_ok_Cons\<close>)

lemma quarantine_decision_total:
  assumes "wf_contract sha (Decision d)" and "text_ok run" and "text_ok rev'" and "text_ok why"
  shows "\<exists>q. quarantine_decision sha run rev' d why = Inr q \<and>
    wf_contract sha (QuarantineRecord q) \<and> wf_json (JObj (to_dict (QuarantineRecord q)))"
  unfolding quarantine_decision_def
  by (rule generated_quarantine_total [where b = True
        and src = "''contract://'' @ contract_type (Decision d) @ ''/'' @ de_decision_id d"])
    (use assms in \<open>simp_all add: identity_def text_ok_Cons\<close>)

lemma res_map_exists:
  "(\<And>x. x \<in> set xs \<Longrightarrow> \<exists>y. f x = Inr y \<and> P y) \<Longrightarrow> \<exists>ys. res_map f xs = Inr ys \<and> list_all P ys"
  by (induction xs) fastforce+

lemma split_records_total:
  assumes "\<And>r why. r \<in> set rs \<Longrightarrow> reason r = Some why \<Longrightarrow> \<exists>q. quarantine r why = Inr q \<and> P q"
  shows "\<exists>acc qs ds. split_records reason quarantine ty rid rs = Inr (acc, qs, ds) \<and> list_all P qs"
proof -
  let ?bad = "[(r, why). r \<leftarrow> rs, why \<leftarrow> (case reason r of None \<Rightarrow> [] | Some why \<Rightarrow> [why])]"
  have "\<exists>qs. res_map (\<lambda>(r, why). quarantine r why) ?bad = Inr qs \<and> list_all P qs"
    by (rule res_map_exists) (use assms in \<open>auto split: option.splits\<close>)
  then show ?thesis by (auto simp: split_records_def Let_def)
qed

lemma deduplicate_total:
  assumes "inj_on to_json (set rs)" and "list_all identified rs"
  shows "\<exists>typed ds. deduplicate rs = Inr (typed, ds)"
  using assms(2) by (simp add: deduplicate_eq [OF assms(1)] Let_def)

lemma reduce_total:
  assumes wf: "wf_inputs sha inputs" and ids: "list_all identified inputs"
    and run: "text_ok run" and rev: "text_ok rev'" and n: "0 \<le> n"
  shows "\<exists>v. reduce_run_authority sha inputs (JStr run) (JStr rev') (JInt n) = Inr v"
proof -
  note inj = wf_inputs_inj [OF wf]
  obtain typed ds where d: "deduplicate inputs = Inr (typed, ds)"
    using ids by (simp add: deduplicate_eq [OF inj] Let_def)
  have typed: "wf_contract sha r \<and> wf_json (JObj (to_dict r))" if "r \<in> set typed" for r
    using that deduplicate_Inr(1) [OF inj d] wf unfolding wf_inputs_def list_all_iff unrivalled_def
    by blast
  let ?ok = "\<lambda>q. wf_contract sha (QuarantineRecord q) \<and> wf_json (JObj (to_dict (QuarantineRecord q)))"
  let ?ix = "build_index run rev' typed"
  have "\<exists>acc qs cs. split_records (claim_reason run rev' ?ix) (quarantine_claim sha run rev')
      ''claim'' cl_claim_id (select as_claim (\<lambda>_. True) typed) = Inr (acc, qs, cs) \<and> list_all ?ok qs"
  proof (rule split_records_total)
    fix r why
    assume r: "r \<in> set (select as_claim (\<lambda>_. True) typed)" and "claim_reason run rev' ?ix r = Some why"
    then have "wf_contract sha (Claim r)" "text_ok why"
      using typed [of "Claim r"] claim_reason_text_ok by auto
    with run rev show "\<exists>q. quarantine_claim sha run rev' r why = Inr q \<and> ?ok q"
      by (intro quarantine_claim_total)
  qed
  then obtain acc cqs cds where c: "split_records (claim_reason run rev' ?ix) (quarantine_claim sha run rev')
      ''claim'' cl_claim_id (select as_claim (\<lambda>_. True) typed) = Inr (acc, cqs, cds)"
    and cqs: "list_all ?ok cqs" by blast
  have "\<exists>accd qs cs. split_records (decision_reason run rev' (by_id cl_claim_id acc) ?ix)
      (quarantine_decision sha run rev')
      ''decision'' de_decision_id (select as_decision (\<lambda>_. True) typed) = Inr (accd, qs, cs) \<and> list_all ?ok qs"
  proof (rule split_records_total)
    fix r why
    assume r: "r \<in> set (select as_decision (\<lambda>_. True) typed)" and "decision_reason run rev' (by_id cl_claim_id acc) ?ix r = Some why"
    then have "wf_contract sha (Decision r)" "text_ok why"
      using typed [of "Decision r"] decision_reason_text_ok by auto
    with run rev show "\<exists>q. quarantine_decision sha run rev' r why = Inr q \<and> ?ok q"
      by (intro quarantine_decision_total)
  qed
  then obtain accd dqs dds where dd: "split_records (decision_reason run rev' (by_id cl_claim_id acc) ?ix)
      (quarantine_decision sha run rev')
      ''decision'' de_decision_id (select as_decision (\<lambda>_. True) typed) = Inr (accd, dqs, dds)"
    and dqs: "list_all ?ok dqs" by blast
  let ?qs = "map QuarantineRecord (select as_quarantine (\<lambda>r. qu_run_id r = run) typed @ cqs @ dqs)"
  have "wf_inputs sha ?qs"
  proof -
    have "?ok q" if "q \<in> set (select as_quarantine (\<lambda>r. qu_run_id r = run) typed)" for q
      using that typed [of "QuarantineRecord q"] by simp
    moreover have "?ok q" if "q \<in> set cqs \<union> set dqs" for q
      using that cqs dqs unfolding list_all_iff by blast
    ultimately show ?thesis
      unfolding wf_inputs_def list_all_iff set_map set_append by blast
  qed
  note qinj = wf_inputs_inj [OF this]
  have "list_all identified ?qs"
    by (simp add: list.pred_map comp_def identified_def list.pred_True)
  from deduplicate_total [OF qinj this]
  obtain qs qds where q: "deduplicate ?qs = Inr (qs, qds)" by blast
  have "\<exists>v. reduce_unique sha typed ds run rev' n = Inr v"
    unfolding reduce_unique_def Let_def c dd res_bind.simps prod.case
    using q by simp
  then show ?thesis
    using run rev n d by (simp add: reduce_run_authority_def required_accepts int_at_least_accepts)
qed

text \<open>The records of a view, by the supplied records.\<close>

lemma view_members:
  assumes wf: "wf_inputs sha inputs"
    and red: "reduce_run_authority sha inputs (JStr run) (JStr rev') jc = Inr v"
  shows "e \<in> set (vw_evidence v) \<longleftrightarrow>
      unrivalled (set inputs) (EvidenceEnvelope e) \<and> ev_run_id e = run \<and> ev_run_revision e = rev'"
    and "f \<in> set (vw_fences v) \<longleftrightarrow>
      unrivalled (set inputs) (CoordinatorFence f) \<and> fe_run_id f = run \<and> fe_run_revision f = rev'"
    and "g \<in> set (vw_grants v) \<longleftrightarrow>
      unrivalled (set inputs) (CapabilityGrant g) \<and> gr_run_id g = run \<and> gr_run_revision g = rev'"
    and "a \<in> set (vw_attempts v) \<longleftrightarrow>
      unrivalled (set inputs) (SubjectAttempt a) \<and> at_run_id a = run \<and> at_run_revision a = rev'"
    and "o' \<in> set (vw_observations v) \<longleftrightarrow>
      unrivalled (set inputs) (ObservationEnvelope o') \<and> ob_run_id o' = run"
    and "distinct (vw_evidence v)"
proof -
  obtain cursor typed ds where t: "set typed = {r. unrivalled (set inputs) r}"
    and u: "unique_records typed" and r: "reduce_unique sha typed ds run rev' cursor = Inr v"
    by (rule reduce_typed [OF wf red]) auto
  have d: "distinct (view_evidence run rev' typed)"
    using distinct_evidence_ids [OF u] unfolding view_evidence_def distinct_map by blast
  show "e \<in> set (vw_evidence v) \<longleftrightarrow>
      unrivalled (set inputs) (EvidenceEnvelope e) \<and> ev_run_id e = run \<and> ev_run_revision e = rev'"
    "f \<in> set (vw_fences v) \<longleftrightarrow>
      unrivalled (set inputs) (CoordinatorFence f) \<and> fe_run_id f = run \<and> fe_run_revision f = rev'"
    "g \<in> set (vw_grants v) \<longleftrightarrow>
      unrivalled (set inputs) (CapabilityGrant g) \<and> gr_run_id g = run \<and> gr_run_revision g = rev'"
    "a \<in> set (vw_attempts v) \<longleftrightarrow>
      unrivalled (set inputs) (SubjectAttempt a) \<and> at_run_id a = run \<and> at_run_revision a = rev'"
    "o' \<in> set (vw_observations v) \<longleftrightarrow>
      unrivalled (set inputs) (ObservationEnvelope o') \<and> ob_run_id o' = run"
    "distinct (vw_evidence v)"
    by (rule reduce_unique_parts [OF r]; use d in \<open>auto simp: t view_evidence_def\<close>)+
qed

section \<open>Sample inputs\<close>

text \<open>A complete chain: a decision on a claim with its key, evidence, attempt, grant and fence.\<close>

definition linked_key :: idempotency_key where
  "linked_key = \<lparr>ik_value = ''i'', ik_payload_hash = ''{}''\<rparr>"

definition linked_decision :: authority_decision where
  "linked_decision = \<lparr>de_decision_id = ''d1'', de_run_id = ''r'', de_run_revision = ''v'',
     de_subject_id = ''s'', de_attempt_id = ''a'', de_grant_id = ''g'',
     de_coordinator_attempt_id = ''c'', de_fence_token = 1, de_claim_id = ''c1'',
     de_outcome = Accepted, de_evidence_ids = [''e''], de_idempotency_key = ''i'',
     de_payload = JObj [], de_payload_hash = ''{}''\<rparr>"

definition linked_inputs :: "contract list" where
  "linked_inputs =
     [Decision linked_decision, Claim linked_claim, IdempotencyKey linked_key,
      EvidenceEnvelope sample_evidence, SubjectAttempt sample_attempt,
      CapabilityGrant sample_grant, CoordinatorFence sample_fence]"

definition sample_sha :: "string \<Rightarrow> string" where
  "sample_sha s = ''{}''"

definition linked_view :: run_authority_view where
  "linked_view = the_result (reduce_run_authority sample_sha linked_inputs (JStr ''r'') (JStr ''v'') (JInt 7))"

lemma linked_inputs_wf: "wf_inputs sample_sha linked_inputs"
  by code_simp

lemma linked_inputs_identified: "list_all identified linked_inputs"
  by code_simp

lemma short_text_ok [simp]: "text_ok ''r''" "text_ok ''v''"
  by code_simp+

lemma reduce_the_result:
  assumes "wf_inputs sha inputs" and "list_all identified inputs" and "text_ok run" and "text_ok rev'"
    and "0 \<le> n"
  shows "reduce_run_authority sha inputs (JStr run) (JStr rev') (JInt n) =
    Inr (the_result (reduce_run_authority sha inputs (JStr run) (JStr rev') (JInt n)))"
  using reduce_total [OF assms] by auto

lemma linked_view_reduced:
  "reduce_run_authority sample_sha linked_inputs (JStr ''r'') (JStr ''v'') (JInt 7) = Inr linked_view"
  unfolding linked_view_def
  by (rule reduce_the_result [OF linked_inputs_wf linked_inputs_identified]) simp_all

lemma linked_claim_unrivalled: "unrivalled (set linked_inputs) (Claim linked_claim)"
  by (simp add: unrivalled_def linked_inputs_def group_key_simps)





definition observed_view :: run_authority_view where
  "observed_view = the_result (reduce_run_authority sample_sha [ObservationEnvelope sample_observation]
     (JStr ''run_id'') (JStr ''run_revision'') (JInt 1))"

lemma observed_inputs_wf: "wf_inputs sample_sha [ObservationEnvelope sample_observation]"
  by code_simp

lemma observed_view_reduced:
  "reduce_run_authority sample_sha [ObservationEnvelope sample_observation]
     (JStr ''run_id'') (JStr ''run_revision'') (JInt 1) = Inr observed_view"
  unfolding observed_view_def
  by (rule reduce_the_result [OF observed_inputs_wf]) (simp_all add: identified_def text_ok_Cons)

lemma sample_observation_in_view: "sample_observation \<in> set (vw_observations observed_view)"
  unfolding view_members(5) [OF observed_inputs_wf observed_view_reduced]
  by (simp add: unrivalled_def) code_simp

lemma linked_members:
  "vw_evidence linked_view = [sample_evidence]"
  "sample_fence \<in> set (vw_fences linked_view)"
  "sample_grant \<in> set (vw_grants linked_view)"
  "sample_attempt \<in> set (vw_attempts linked_view)"
proof -
  note M = view_members [OF linked_inputs_wf linked_view_reduced]
  have "e \<in> set (vw_evidence linked_view) \<longleftrightarrow> e = sample_evidence" for e
    unfolding M by (auto simp: unrivalled_def linked_inputs_def group_key_simps sample_evidence_def)
  then have "set (vw_evidence linked_view) = {sample_evidence}" by blast
  with M(6) show "vw_evidence linked_view = [sample_evidence]"
    by (cases "vw_evidence linked_view" rule: list_shape) auto
  show "sample_fence \<in> set (vw_fences linked_view)"
    "sample_grant \<in> set (vw_grants linked_view)"
    "sample_attempt \<in> set (vw_attempts linked_view)"
    unfolding M by (simp_all add: unrivalled_def linked_inputs_def group_key_simps sample_fence_def
        sample_grant_def sample_attempt_def)
qed


section \<open>Properties of the reducer\<close>

text \<open>C19. With an explicit journal boundary the reduced view, or the error, depends only on which
  records were supplied, not on their order or repetition.\<close>

theorem reduction_ignores_order:
  assumes "wf_inputs sha xs" and "set xs = set ys" and "journal_cursor \<noteq> JNull"
  shows "reduce_run_authority sha xs run_id run_revision journal_cursor =
    reduce_run_authority sha ys run_id run_revision journal_cursor"
  unfolding reduce_run_authority_def deduplicate_cong [OF assms(2) wf_inputs_inj [OF assms(1)]]
  using assms(3) by simp

lemma reduction_ignores_order_witness:
  "reduce_run_authority sample_sha linked_inputs (JStr ''r'') (JStr ''v'') (JInt 7) =
   reduce_run_authority sample_sha (rev linked_inputs @ linked_inputs) (JStr ''r'') (JStr ''v'') (JInt 7)"
  by (rule reduction_ignores_order [OF linked_inputs_wf]) simp_all

text \<open>C25. A supplied claim is accepted into the view exactly when no rival record shares its
  identity, an idempotency key with its payload hash was supplied without rival, and a fence, a
  grant and an attempt of the view with the view's evidence pass the full relationship
  validation.\<close>

theorem claim_accepted_iff_validated:
  assumes "wf_inputs sha inputs"
    and "reduce_run_authority sha inputs run_id run_revision journal_cursor = Inr v"
  shows "c \<in> set (vw_claims v) \<longleftrightarrow> unrivalled (set inputs) (Claim c) \<and>
    unrivalled (set inputs) (IdempotencyKey
      \<lparr>ik_value = cl_idempotency_key c, ik_payload_hash = cl_payload_hash c\<rparr>) \<and>
    (\<exists>f \<in> set (vw_fences v). \<exists>g \<in> set (vw_grants v). \<exists>a \<in> set (vw_attempts v).
      validate_relationships f g a c (vw_evidence v) None = Inr ())"
proof -
  obtain run rev' cursor typed ds where t: "set typed = {r. unrivalled (set inputs) r}"
    and u: "unique_records typed" and red: "reduce_unique sha typed ds run rev' cursor = Inr v"
    by (rule reduce_typed [OF assms])
  from view_claims_iff [OF u red, of c] show ?thesis by (simp add: t)
qed

lemma claim_accepted_iff_validated_witness: "linked_claim \<in> set (vw_claims linked_view)"
proof -
  have "validate_relationships sample_fence sample_grant sample_attempt linked_claim
      (vw_evidence linked_view) None = Inr ()"
    unfolding linked_members by code_simp
  moreover have "unrivalled (set linked_inputs) (IdempotencyKey
      \<lparr>ik_value = cl_idempotency_key linked_claim, ik_payload_hash = cl_payload_hash linked_claim\<rparr>)"
    by (simp add: unrivalled_def linked_inputs_def group_key_simps linked_claim_def linked_key_def)
  ultimately show ?thesis
    using claim_accepted_iff_validated [OF linked_inputs_wf linked_view_reduced, of linked_claim]
      linked_members linked_claim_unrivalled by blast
qed

text \<open>A supplied decision is accepted into the view exactly when no rival record shares its
  identity, its idempotency key was supplied, and some accepted claim of the view and the records
  behind it pass the full relationship validation together with the decision.\<close>

theorem decision_accepted_iff_validated:
  assumes "wf_inputs sha inputs"
    and "reduce_run_authority sha inputs run_id run_revision journal_cursor = Inr v"
  shows "d \<in> set (vw_decisions v) \<longleftrightarrow> unrivalled (set inputs) (Decision d) \<and>
    unrivalled (set inputs) (IdempotencyKey
      \<lparr>ik_value = de_idempotency_key d, ik_payload_hash = de_payload_hash d\<rparr>) \<and>
    (\<exists>c \<in> set (vw_claims v). \<exists>f \<in> set (vw_fences v). \<exists>g \<in> set (vw_grants v).
      \<exists>a \<in> set (vw_attempts v). validate_relationships f g a c (vw_evidence v) (Some d) = Inr ())"
proof -
  obtain run rev' cursor typed ds where t: "set typed = {r. unrivalled (set inputs) r}"
    and u: "unique_records typed" and red: "reduce_unique sha typed ds run rev' cursor = Inr v"
    by (rule reduce_typed [OF assms])
  from view_decisions_iff [OF u red, of d] show ?thesis by (simp add: t)
qed

lemma decision_accepted_iff_validated_witness:
  "linked_decision \<in> set (vw_decisions linked_view) \<longleftrightarrow>
    unrivalled (set linked_inputs) (Decision linked_decision) \<and>
    unrivalled (set linked_inputs) (IdempotencyKey
      \<lparr>ik_value = de_idempotency_key linked_decision,
       ik_payload_hash = de_payload_hash linked_decision\<rparr>) \<and>
    (\<exists>c \<in> set (vw_claims linked_view). \<exists>f \<in> set (vw_fences linked_view).
      \<exists>g \<in> set (vw_grants linked_view). \<exists>a \<in> set (vw_attempts linked_view).
      validate_relationships f g a c (vw_evidence linked_view) (Some linked_decision) = Inr ())"
  by (rule decision_accepted_iff_validated [OF linked_inputs_wf linked_view_reduced])



text \<open>A supplied claim without rival is either accepted or named in an incomplete-link
  diagnostic, never both and never neither.\<close>

theorem claim_accepted_or_reported:
  assumes "wf_inputs sha inputs"
    and "reduce_run_authority sha inputs run_id run_revision journal_cursor = Inr v"
    and "unrivalled (set inputs) (Claim c)"
  shows "c \<in> set (vw_claims v) \<longleftrightarrow>
    \<not> list_ex (\<lambda>d. dg_code d = ''quarantined_incomplete_link'' \<and> dg_record_type d = ''claim'' \<and>
        dg_record_id d = cl_claim_id c) (vw_diagnostics v)"
proof -
  obtain run rev' cursor typed ds where t: "set typed = {r. unrivalled (set inputs) r}"
    and u: "unique_records typed" and red: "reduce_unique sha typed ds run rev' cursor = Inr v"
    and ds: "set ds = {conflict_diagnostic (group_key r) (same_key (set inputs) (group_key r)) | r.
           r \<in> set inputs \<and> \<not> unrivalled (set inputs) r}"
    by (rule reduce_typed [OF assms(1,2)])
  have "dg_code d = ''conflicting_duplicate_key''" if "d \<in> set ds" for d
  proof -
    from that obtain r where "d = conflict_diagnostic (group_key r) (same_key (set inputs) (group_key r))"
      unfolding ds by blast
    then show ?thesis by (simp only: group_key_diagnostic)
  qed
  note iff = incomplete_link_diagnostics [OF red this, of "cl_claim_id c"]
  have "c' = c" if "Claim c' \<in> set typed" "cl_claim_id c' = cl_claim_id c" for c'
  proof -
    have "Claim c \<in> set typed" using assms(3) t by simp
    from unique_recordsD [OF u that(1) this] that(2) show ?thesis by (simp add: group_key_simps)
  qed
  moreover have "Claim c \<in> set typed" using assms(3) t by simp
  ultimately have "(\<exists>c'. Claim c' \<in> set typed \<and> cl_claim_id c' = cl_claim_id c \<and>
      c' \<notin> set (vw_claims v)) \<longleftrightarrow> c \<notin> set (vw_claims v)"
    by metis
  with iff have "(\<exists>d \<in> set (vw_diagnostics v). dg_code d = ''quarantined_incomplete_link'' \<and>
      dg_record_type d = ''claim'' \<and> dg_record_id d = cl_claim_id c) \<longleftrightarrow> c \<notin> set (vw_claims v)"
    by (rule trans)
  then show ?thesis unfolding list_ex_iff by (metis (no_types, lifting))
qed

lemma claim_accepted_or_reported_witness:
  "linked_claim \<in> set (vw_claims linked_view) \<longleftrightarrow>
    \<not> list_ex (\<lambda>d. dg_code d = ''quarantined_incomplete_link'' \<and> dg_record_type d = ''claim'' \<and>
        dg_record_id d = cl_claim_id linked_claim) (vw_diagnostics linked_view)"
  by (rule claim_accepted_or_reported [OF linked_inputs_wf linked_view_reduced linked_claim_unrivalled])

text \<open>Every observation a view calls coherent belongs to the run revision reduced, was captured
  at a position within the journal boundary, and carries a complete coherent capture; every other
  observation of the view fails one of these.\<close>

theorem coherent_observations_are_current:
  assumes "wf_inputs sha inputs"
    and "reduce_run_authority sha inputs run_id run_revision journal_cursor = Inr v"
    and "o' \<in> set (vw_observations v)"
  shows "o' \<in> set (vw_coherent_observations v) \<longleftrightarrow>
    ob_run_revision o' = vw_run_revision v \<and>
    (\<exists>n. ob_source_cursor o' = Some n \<and> n \<le> vw_journal_cursor v) \<and>
    (\<exists>d. ob_runtime_observation o' = Some (JObj d) \<and> coherent_capture d) \<and>
    ob_source_identity o' \<noteq> None \<and> ob_source_version o' \<noteq> None \<and> ob_content_hash o' \<noteq> None"
proof -
  obtain run rev' cursor typed ds where t: "set typed = {r. unrivalled (set inputs) r}"
    and red: "reduce_unique sha typed ds run rev' cursor = Inr v"
    by (rule reduce_typed [OF assms(1,2)])
  from view_observations_typed [OF red assms(3)] t have "ObservationEnvelope o' \<in> set inputs"
    by (simp add: unrivalled_def)
  with assms(1) have "wf_contract sha (ObservationEnvelope o')"
    unfolding wf_inputs_def list_all_iff by blast
  then have wf: "wf_observation sha o'" by simp
  show ?thesis
    unfolding view_coherent_observations [OF red] wf_observation_dispatchable [OF wf]
      observation_is_current_def
    using assms(3) by (auto split: option.splits)
qed

lemma coherent_observations_are_current_witness:
  "sample_observation \<in> set (vw_coherent_observations observed_view) \<longleftrightarrow>
    ob_run_revision sample_observation = vw_run_revision observed_view \<and>
    (\<exists>n. ob_source_cursor sample_observation = Some n \<and> n \<le> vw_journal_cursor observed_view) \<and>
    (\<exists>d. ob_runtime_observation sample_observation = Some (JObj d) \<and> coherent_capture d) \<and>
    ob_source_identity sample_observation \<noteq> None \<and> ob_source_version sample_observation \<noteq> None \<and>
    ob_content_hash sample_observation \<noteq> None"
  by (rule coherent_observations_are_current [OF observed_inputs_wf observed_view_reduced
        sample_observation_in_view])

text \<open>On constructed records of the supported types, with non-blank identities and a
  non-negative journal boundary, the reduction always returns a view: no quarantine it generates
  and no conflict it meets makes it raise.\<close>

theorem reduction_always_returns:
  assumes "wf_inputs sha inputs" and "list_all identified inputs"
    and "text_ok run" and "text_ok rev'" and "0 \<le> n"
  shows "\<exists>v. reduce_run_authority sha inputs (JStr run) (JStr rev') (JInt n) = Inr v"
  by (rule reduce_total [OF assms])

lemma reduction_always_returns_witness:
  "\<exists>v. reduce_run_authority sample_sha linked_inputs (JStr ''r'') (JStr ''v'') (JInt 7) = Inr v"
  by (rule reduction_always_returns [OF linked_inputs_wf linked_inputs_identified]) simp_all

end
