(* ===== verification/Iso_Time.thy ===== *)
theory Iso_Time
  imports Prelude
begin

section \<open>Instants and their text\<close>

text \<open>
  \<^verbatim>\<open>datetime\<close> values as the supervisor uses them. An instant is its number of microseconds since
  the epoch, UTC, and a \<^verbatim>\<open>timedelta\<close> a number of microseconds; the range of years that \<^verbatim>\<open>datetime\<close>
  supports is not enforced. \<open>datetime_to_json\<close> writes ISO 8601 text and \<open>parse_time\<close> reads it.
\<close>

type_synonym instant = int

text \<open>\<^verbatim>\<open>_datetime_to_json\<close>: \<^verbatim>\<open>isoformat\<close> of a UTC instant with the offset written \<^verbatim>\<open>Z\<close>.\<close>

definition pad :: "nat \<Rightarrow> int \<Rightarrow> string" where
  "pad w n = (let s = int_str n in replicate (w - length s) CHR ''0'' @ s)"

definition civil_date :: "int \<Rightarrow> int \<times> int \<times> int" where
  "civil_date days =
     (let z = days + 719468;
          era = z div 146097;
          doe = z mod 146097;
          yoe = (doe - doe div 1460 + doe div 36524 - doe div 146096) div 365;
          doy = doe - (365 * yoe + yoe div 4 - yoe div 100);
          mp = (5 * doy + 2) div 153;
          d = doy - (153 * mp + 2) div 5 + 1;
          m = (if mp < 10 then mp + 3 else mp - 9)
      in (yoe + era * 400 + (if m \<le> 2 then 1 else 0), m, d))"

definition datetime_to_json :: "instant \<Rightarrow> string" where
  "datetime_to_json t =
     (let (y, m, d) = civil_date (t div 86400000000);
          us = t mod 86400000000;
          frac = us mod 1000000;
          secs = us div 1000000
      in pad 4 y @ ''-'' @ pad 2 m @ ''-'' @ pad 2 d @ ''T'' @ pad 2 (secs div 3600) @ '':'' @
         pad 2 (secs div 60 mod 60) @ '':'' @ pad 2 (secs mod 60) @
         (if frac = 0 then [] else ''.'' @ pad 6 frac) @ ''Z'')"


text \<open>\<^verbatim>\<open>_parse_timestamp\<close>: \<^verbatim>\<open>datetime.fromisoformat\<close> on calendar dates in the extended format, a
  one-character separator, a time to the second with an optional fraction, and an optional offset;
  no offset means UTC.\<close>

definition is_digit :: "char \<Rightarrow> bool" where
  "is_digit c \<longleftrightarrow> c \<in> set ''0123456789''"

fun digits_value :: "int \<Rightarrow> string \<Rightarrow> int" where
  "digits_value acc [] = acc"
| "digits_value acc (c # cs) = digits_value (10 * acc + (of_char c - 48)) cs"

definition read_digits :: "nat \<Rightarrow> string \<Rightarrow> (int \<times> string) option" where
  "read_digits n s =
     (if length (take n s) = n \<and> list_all is_digit (take n s)
      then Some (digits_value 0 (take n s), drop n s) else None)"

definition leap_year :: "int \<Rightarrow> bool" where
  "leap_year y \<longleftrightarrow> y mod 4 = 0 \<and> (y mod 100 \<noteq> 0 \<or> y mod 400 = 0)"

definition days_in_month :: "int \<Rightarrow> int \<Rightarrow> int" where
  "days_in_month y m =
     (if m = 2 then (if leap_year y then 29 else 28) else if m \<in> {4, 6, 9, 11} then 30 else 31)"

definition day_number :: "int \<Rightarrow> int \<Rightarrow> int \<Rightarrow> int" where
  "day_number y m d =
     (let y' = (if m \<le> 2 then y - 1 else y);
          mp = (if m \<le> 2 then m + 9 else m - 3)
      in 365 * y' + y' div 4 - y' div 100 + y' div 400 + (153 * mp + 2) div 5 + d - 1 - 719468)"

definition read_date :: "string \<Rightarrow> (int \<times> string) option" where
  "read_date s =
     (case read_digits 4 s of
        Some (y, CHR ''-'' # s1) \<Rightarrow>
          (case read_digits 2 s1 of
             Some (m, CHR ''-'' # s2) \<Rightarrow>
               (case read_digits 2 s2 of
                  Some (d, s3) \<Rightarrow>
                    if 1 \<le> y \<and> 1 \<le> m \<and> m \<le> 12 \<and> 1 \<le> d \<and> d \<le> days_in_month y m
                    then Some (day_number y m d, s3) else None
                | None \<Rightarrow> None)
           | _ \<Rightarrow> None)
      | _ \<Rightarrow> None)"

definition fraction :: "string \<Rightarrow> int \<times> string" where
  "fraction s =
     (let ds = takeWhile is_digit s
      in (digits_value 0 (take 6 (ds @ replicate 6 CHR ''0'')), drop (length ds) s))"

text \<open>\<^verbatim>\<open>HH[:MM[:SS[.f]]]\<close>: microseconds of the day, and the rest.\<close>

definition read_clock :: "string \<Rightarrow> (int \<times> string) option" where
  "read_clock s =
     (case read_digits 2 s of
        None \<Rightarrow> None
      | Some (h, s1) \<Rightarrow>
          (case s1 of
             CHR '':'' # s2 \<Rightarrow>
               (case read_digits 2 s2 of
                  None \<Rightarrow> None
                | Some (m, s3) \<Rightarrow>
                    (case s3 of
                       CHR '':'' # s4 \<Rightarrow>
                         (case read_digits 2 s4 of
                            None \<Rightarrow> None
                          | Some (sec, s5) \<Rightarrow>
                              (let (us, s6) =
                                 (case s5 of
                                    c # t \<Rightarrow>
                                      if c \<in> set ''.,'' \<and> t \<noteq> [] \<and> is_digit (hd t)
                                      then fraction t else (0, s5)
                                  | [] \<Rightarrow> (0, []))
                               in if h \<le> 23 \<and> m \<le> 59 \<and> sec \<le> 59
                                  then Some (((h * 60 + m) * 60 + sec) * 1000000 + us, s6) else None))
                     | _ \<Rightarrow> if h \<le> 23 \<and> m \<le> 59 then Some ((h * 60 + m) * 60000000, s3) else None))
           | _ \<Rightarrow> if h \<le> 23 then Some (h * 3600000000, s1) else None))"

definition read_offset :: "string \<Rightarrow> int option" where
  "read_offset s =
     (case s of
        [] \<Rightarrow> Some 0
      | CHR ''Z'' # [] \<Rightarrow> Some 0
      | CHR ''+'' # t \<Rightarrow> (case read_clock t of Some (us, []) \<Rightarrow> Some us | _ \<Rightarrow> None)
      | CHR ''-'' # t \<Rightarrow> (case read_clock t of Some (us, []) \<Rightarrow> Some (- us) | _ \<Rightarrow> None)
      | _ \<Rightarrow> None)"

definition fromisoformat :: "string \<Rightarrow> instant option" where
  "fromisoformat s =
     (case read_date s of
        None \<Rightarrow> None
      | Some (day, []) \<Rightarrow> Some (day * 86400000000)
      | Some (day, _ # t) \<Rightarrow>
          (case read_clock t of
             None \<Rightarrow> None
           | Some (us, rest) \<Rightarrow>
               map_option (\<lambda>off. day * 86400000000 + us - off) (read_offset rest)))"

text \<open>\<^verbatim>\<open>value.replace("Z", "+00:00")\<close> on a non-empty string; anything else is no time.\<close>

definition parse_time :: "json \<Rightarrow> instant option" where
  "parse_time v =
     (case as_str v of
        None \<Rightarrow> None
      | Some s \<Rightarrow> if s = [] then None
          else fromisoformat (concat (map (\<lambda>c. if c = CHR ''Z'' then ''+00:00'' else [c]) s)))"

end
