(* ===== verification/Project_Leases.thy ===== *)
theory Project_Leases
  imports Iso_Time
begin

section \<open>Project leases\<close>

text \<open>
  \<^verbatim>\<open>arnold/supervisor/leases.py\<close> and the file-backed store of \<^verbatim>\<open>arnold/supervisor/store.py\<close>. The store is the dictionary
  \<^verbatim>\<open>project_leases\<close> of the JSON file; every operation runs under the store's lock, reads the
  dictionary, and writes it back, so an operation is a function from the dictionary to an error or
  a lease and the new dictionary. \<open>lease_reload\<close> is what a write followed by a read changes.
\<close>

subsection \<open>States and transitions\<close>

datatype lease_error =
    LeaseValueError | LeaseAlreadyExists | LeaseNotFound | LeaseLockConflict | LeaseConflict
  | LeaseTokenMismatch | InvalidLeaseTransition

datatype lease_state =
    LeasePending | Leased | LeaseSucceeded | LeaseFailed | LeaseCancelled | LeaseQuarantined

definition TERMINAL_PROJECT_LEASE_STATES :: "lease_state list" where
  "TERMINAL_PROJECT_LEASE_STATES = [LeaseSucceeded, LeaseFailed, LeaseCancelled, LeaseQuarantined]"

fun ALLOWED_PROJECT_LEASE_TRANSITIONS :: "lease_state \<Rightarrow> lease_state list" where
  "ALLOWED_PROJECT_LEASE_TRANSITIONS LeasePending =
     [Leased, LeaseFailed, LeaseCancelled, LeaseQuarantined]"
| "ALLOWED_PROJECT_LEASE_TRANSITIONS Leased =
     [LeasePending, LeaseSucceeded, LeaseFailed, LeaseCancelled, LeaseQuarantined]"
| "ALLOWED_PROJECT_LEASE_TRANSITIONS LeaseSucceeded = []"
| "ALLOWED_PROJECT_LEASE_TRANSITIONS LeaseFailed = []"
| "ALLOWED_PROJECT_LEASE_TRANSITIONS LeaseCancelled = []"
| "ALLOWED_PROJECT_LEASE_TRANSITIONS LeaseQuarantined = []"

definition is_terminal_project_lease_state :: "lease_state \<Rightarrow> bool" where
  "is_terminal_project_lease_state s \<longleftrightarrow> s \<in> set TERMINAL_PROJECT_LEASE_STATES"

definition can_transition_project_lease :: "lease_state \<Rightarrow> lease_state \<Rightarrow> bool" where
  "can_transition_project_lease current target \<longleftrightarrow>
     target \<in> set (ALLOWED_PROJECT_LEASE_TRANSITIONS current)"

definition ensure_project_lease_transition ::
    "lease_state \<Rightarrow> lease_state \<Rightarrow> lease_error + unit" where
  "ensure_project_lease_transition current target =
     res_bind (ensure (\<not> is_terminal_project_lease_state current) InvalidLeaseTransition) (\<lambda>_.
       ensure (can_transition_project_lease current target) InvalidLeaseTransition)"

subsection \<open>Identity and record\<close>

record lease_identity =
  li_project_id :: string
  li_worktree_id :: string
  li_run_id :: string

definition mk_identity :: "string \<Rightarrow> string \<Rightarrow> string \<Rightarrow> lease_error + lease_identity" where
  "mk_identity project_id worktree_id run_id =
     res_bind (ensure (project_id \<noteq> []) LeaseValueError) (\<lambda>_.
     res_bind (ensure (worktree_id \<noteq> []) LeaseValueError) (\<lambda>_.
     res_bind (ensure (run_id \<noteq> []) LeaseValueError) (\<lambda>_.
       Inr \<lparr>li_project_id = project_id, li_worktree_id = worktree_id, li_run_id = run_id\<rparr>)))"

definition project_worktree_key :: "lease_identity \<Rightarrow> string" where
  "project_worktree_key i = li_project_id i @ '':'' @ li_worktree_id i"

record project_lease =
  pl_identity :: lease_identity
  pl_state :: lease_state
  pl_owner_id :: "string option"
  pl_lease_token :: "string option"
  pl_lease_expires_at :: "instant option"
  pl_last_heartbeat_at :: "instant option"
  pl_last_progress_at :: "instant option"
  pl_retry_count :: int
  pl_failure_count :: int
  pl_max_failures :: "int option"
  pl_last_failure_at :: "instant option"
  pl_next_retry_at :: "instant option"
  pl_last_failure_reason :: "string option"
  pl_last_result :: "(string \<times> json) list option"
  pl_quarantine_reason :: "string option"
  pl_created_at :: instant
  pl_updated_at :: instant
  pl_lock_version :: int

text \<open>\<^verbatim>\<open>not value\<close> for an optional string.\<close>

definition no_text :: "string option \<Rightarrow> bool" where
  "no_text x \<longleftrightarrow> x = None \<or> x = Some []"

text \<open>\<^verbatim>\<open>ProjectLease.__post_init__\<close>, which every \<^verbatim>\<open>replace\<close> runs again.\<close>

definition mk_lease :: "project_lease \<Rightarrow> lease_error + project_lease" where
  "mk_lease l =
     res_bind (ensure (0 \<le> pl_retry_count l) LeaseValueError) (\<lambda>_.
     res_bind (ensure (0 \<le> pl_failure_count l) LeaseValueError) (\<lambda>_.
     res_bind (ensure (case pl_max_failures l of None \<Rightarrow> True | Some m \<Rightarrow> 1 \<le> m) LeaseValueError) (\<lambda>_.
     res_bind (ensure (case pl_max_failures l of None \<Rightarrow> True | Some m \<Rightarrow> pl_failure_count l \<le> m)
                 LeaseValueError) (\<lambda>_.
     res_bind (ensure (0 \<le> pl_lock_version l) LeaseValueError) (\<lambda>_.
     res_bind (ensure (\<not> (pl_state l = Leased \<and> no_text (pl_owner_id l))) LeaseValueError) (\<lambda>_.
     res_bind (ensure (\<not> (pl_state l = Leased \<and> no_text (pl_lease_token l))) LeaseValueError) (\<lambda>_.
     res_bind (ensure (\<not> (pl_state l = Leased \<and> pl_lease_expires_at l = None)) LeaseValueError) (\<lambda>_.
     res_bind (ensure (\<not> (pl_state l = LeaseQuarantined \<and> no_text (pl_quarantine_reason l)))
                 LeaseValueError) (\<lambda>_.
     res_bind (ensure (case pl_last_result l of None \<Rightarrow> True | Some d \<Rightarrow> finite_json (JObj d))
                 LeaseValueError) (\<lambda>_.
       Inr l))))))))))"

definition has_active_lease :: "project_lease \<Rightarrow> instant \<Rightarrow> bool" where
  "has_active_lease l now \<longleftrightarrow>
     (case pl_lease_expires_at l of None \<Rightarrow> False | Some t \<Rightarrow> pl_state l = Leased \<and> now < t)"

text \<open>\<^verbatim>\<open>ProjectLease.from_json(lease.to_json())\<close>: \<^verbatim>\<open>_optional_str\<close> reads an empty string as
  \<^verbatim>\<open>None\<close>; the other fields come back as they were.\<close>

fun optional_str :: "string option \<Rightarrow> string option" where
  "optional_str (Some []) = None"
| "optional_str x = x"

definition lease_reload :: "project_lease \<Rightarrow> project_lease" where
  "lease_reload l = l\<lparr>pl_owner_id := optional_str (pl_owner_id l),
     pl_lease_token := optional_str (pl_lease_token l),
     pl_last_failure_reason := optional_str (pl_last_failure_reason l),
     pl_quarantine_reason := optional_str (pl_quarantine_reason l)\<rparr>"

subsection \<open>The store\<close>

type_synonym lease_store = "(string \<times> project_lease) list"
type_synonym lease_result = "lease_error + project_lease \<times> lease_store"

definition lease_key :: "string \<Rightarrow> string \<Rightarrow> lease_error + string" where
  "lease_key project_id worktree_id =
     res_bind (ensure (project_id \<noteq> []) LeaseValueError) (\<lambda>_.
     res_bind (ensure (worktree_id \<noteq> []) LeaseValueError) (\<lambda>_.
       Inr (project_id @ '':'' @ worktree_id)))"

text \<open>Writing a lease under its key.\<close>

definition write_lease :: "project_lease \<Rightarrow> lease_store \<Rightarrow> lease_result" where
  "write_lease l store =
     res_bind (lease_key (li_project_id (pl_identity l)) (li_worktree_id (pl_identity l))) (\<lambda>key.
       Inr (l, AList.update key (lease_reload l) store))"

definition load_project_lease ::
    "string \<Rightarrow> string \<Rightarrow> lease_store \<Rightarrow> lease_error + project_lease" where
  "load_project_lease project_id worktree_id store =
     res_bind (lease_key project_id worktree_id) (\<lambda>key.
       case map_of store key of None \<Rightarrow> Inl LeaseNotFound | Some l \<Rightarrow> Inr l)"

definition list_project_leases :: "lease_store \<Rightarrow> project_lease list" where
  "list_project_leases store = map snd (sort_key fst store)"

definition create_project_lease :: "project_lease \<Rightarrow> lease_store \<Rightarrow> lease_result" where
  "create_project_lease l store =
     res_bind (lease_key (li_project_id (pl_identity l)) (li_worktree_id (pl_identity l))) (\<lambda>key.
     res_bind (ensure (map_of store key = None) LeaseAlreadyExists) (\<lambda>_.
     res_bind (mk_lease (l\<lparr>pl_lock_version := 0\<rparr>)) (\<lambda>stored.
       write_lease stored store)))"

definition update_project_lease :: "project_lease \<Rightarrow> int \<Rightarrow> lease_store \<Rightarrow> lease_result" where
  "update_project_lease l expected_lock_version store =
     res_bind (load_project_lease (li_project_id (pl_identity l)) (li_worktree_id (pl_identity l)) store)
       (\<lambda>current.
     res_bind (ensure (pl_lock_version current = expected_lock_version) LeaseLockConflict) (\<lambda>_.
     res_bind (mk_lease (l\<lparr>pl_lock_version := pl_lock_version current + 1\<rparr>)) (\<lambda>stored.
       write_lease stored store)))"

text \<open>A pending lease with the defaults of the dataclass.\<close>

definition fresh_lease :: "lease_identity \<Rightarrow> instant \<Rightarrow> project_lease" where
  "fresh_lease i timestamp =
     \<lparr>pl_identity = i, pl_state = LeasePending, pl_owner_id = None, pl_lease_token = None,
      pl_lease_expires_at = None, pl_last_heartbeat_at = None, pl_last_progress_at = None,
      pl_retry_count = 0, pl_failure_count = 0, pl_max_failures = None, pl_last_failure_at = None,
      pl_next_retry_at = None, pl_last_failure_reason = None, pl_last_result = None,
      pl_quarantine_reason = None, pl_created_at = timestamp, pl_updated_at = timestamp,
      pl_lock_version = 0\<rparr>"

definition load_or_fresh ::
    "string \<Rightarrow> string \<Rightarrow> string \<Rightarrow> instant \<Rightarrow> lease_store \<Rightarrow> lease_error + project_lease" where
  "load_or_fresh project_id worktree_id run_id timestamp store =
     (case load_project_lease project_id worktree_id store of
        Inl LeaseNotFound \<Rightarrow>
          res_bind (mk_identity project_id worktree_id run_id) (\<lambda>i. mk_lease (fresh_lease i timestamp))
      | r \<Rightarrow> r)"

definition seconds :: "int \<Rightarrow> int" where
  "seconds n = 1000000 * n"

definition takeover_metadata :: "project_lease \<Rightarrow> string option \<Rightarrow> json" where
  "takeover_metadata current takeover_reason = JObj
     [(''previous_owner_id'', opt_json JStr (pl_owner_id current)),
      (''previous_lease_token'', opt_json JStr (pl_lease_token current)),
      (''previous_lease_expires_at'',
         opt_json (JStr \<circ> datetime_to_json) (pl_lease_expires_at current)),
      (''takeover_reason'',
         JStr (if no_text takeover_reason then ''expired_lease_takeover'' else the takeover_reason))]"

record claim_args =
  ca_run :: string
  ca_owner_id :: string
  ca_lease_token :: string
  ca_lease_seconds :: int
  ca_takeover_validated :: bool
  ca_takeover_reason :: "string option"

definition claim_last_result :: "claim_args \<Rightarrow> project_lease \<Rightarrow> (string \<times> json) list" where
  "claim_last_result a current =
     (let base = (case pl_last_result current of None \<Rightarrow> [] | Some d \<Rightarrow> d) in
      if pl_state current = Leased
      then AList.update ''expired_takeover'' (takeover_metadata current (ca_takeover_reason a)) base
      else base)"

definition claim_project_lease ::
    "string \<Rightarrow> string \<Rightarrow> claim_args \<Rightarrow> instant \<Rightarrow> lease_store \<Rightarrow> lease_result" where
  "claim_project_lease project_id worktree_id a timestamp store =
     (if ca_lease_seconds a \<le> 0 \<or> ca_owner_id a = [] \<or> ca_lease_token a = []
      then res_bind (lease_key project_id worktree_id) (\<lambda>_. Inl LeaseConflict)
      else
        res_bind (load_or_fresh project_id worktree_id (ca_run a) timestamp store) (\<lambda>current.
        res_bind (ensure (\<not> is_terminal_project_lease_state (pl_state current)) LeaseConflict) (\<lambda>_.
        res_bind (ensure (case pl_next_retry_at current of None \<Rightarrow> True | Some t \<Rightarrow> \<not> timestamp < t)
                    LeaseConflict) (\<lambda>_.
        res_bind (ensure (\<not> has_active_lease current timestamp) LeaseConflict) (\<lambda>_.
        res_bind
          (if pl_state current = Leased
           then ensure (ca_takeover_validated a) LeaseConflict
           else ensure (ensure_project_lease_transition (pl_state current) Leased = Inr ()) LeaseConflict)
          (\<lambda>_.
        let last_result = claim_last_result a current in
        res_bind (mk_identity project_id worktree_id (ca_run a)) (\<lambda>i.
        res_bind (mk_lease (current\<lparr>pl_identity := i, pl_state := Leased,
             pl_owner_id := Some (ca_owner_id a), pl_lease_token := Some (ca_lease_token a),
             pl_lease_expires_at := Some (timestamp + seconds (ca_lease_seconds a)),
             pl_last_heartbeat_at := Some timestamp, pl_next_retry_at := None,
             pl_quarantine_reason := None, pl_updated_at := timestamp,
             pl_last_result := (if last_result = [] then None else Some last_result),
             pl_lock_version := pl_lock_version current + 1\<rparr>)) (\<lambda>stored.
          write_lease stored store))))))))"

definition ensure_matching_token ::
    "project_lease \<Rightarrow> string option \<Rightarrow> lease_error + unit" where
  "ensure_matching_token l lease_token =
     res_bind (ensure (pl_state l = Leased) LeaseTokenMismatch) (\<lambda>_.
       ensure (\<not> no_text lease_token \<and> pl_lease_token l = lease_token) LeaseTokenMismatch)"

definition ensure_matching_active_token ::
    "project_lease \<Rightarrow> string option \<Rightarrow> instant \<Rightarrow> lease_error + unit" where
  "ensure_matching_active_token l lease_token timestamp =
     res_bind (ensure_matching_token l lease_token) (\<lambda>_.
       ensure (has_active_lease l timestamp) LeaseConflict)"

definition heartbeat_project_lease ::
    "string \<Rightarrow> string \<Rightarrow> string \<Rightarrow> int \<Rightarrow> bool \<Rightarrow> instant \<Rightarrow> lease_store \<Rightarrow> lease_result" where
  "heartbeat_project_lease project_id worktree_id lease_token lease_seconds progress timestamp store =
     res_bind (load_project_lease project_id worktree_id store) (\<lambda>current.
     res_bind (ensure_matching_active_token current (Some lease_token) timestamp) (\<lambda>_.
     res_bind (mk_lease (current\<lparr>pl_lease_expires_at := Some (timestamp + seconds lease_seconds),
          pl_last_heartbeat_at := Some timestamp,
          pl_last_progress_at := (if progress then Some timestamp else pl_last_progress_at current),
          pl_updated_at := timestamp, pl_lock_version := pl_lock_version current + 1\<rparr>)) (\<lambda>stored.
       write_lease stored store)))"

definition finish_project_lease ::
    "string \<Rightarrow> string \<Rightarrow> string option \<Rightarrow> lease_state \<Rightarrow> (string \<times> json) list option \<Rightarrow>
     string option \<Rightarrow> instant \<Rightarrow> lease_store \<Rightarrow> lease_result" where
  "finish_project_lease project_id worktree_id lease_token target_state result quarantine_reason
     timestamp store =
     res_bind (load_project_lease project_id worktree_id store) (\<lambda>current.
     res_bind
       (if pl_state current = Leased then ensure_matching_token current lease_token
        else ensure (lease_token = None) LeaseTokenMismatch) (\<lambda>_.
     res_bind (ensure (ensure_project_lease_transition (pl_state current) target_state = Inr ())
                 LeaseConflict) (\<lambda>_.
     res_bind (mk_lease (current\<lparr>pl_state := target_state, pl_owner_id := None,
          pl_lease_token := None, pl_lease_expires_at := None, pl_last_result := result,
          pl_quarantine_reason := quarantine_reason, pl_updated_at := timestamp,
          pl_lock_version := pl_lock_version current + 1\<rparr>)) (\<lambda>stored.
       write_lease stored store))))"

definition complete_project_lease ::
    "string \<Rightarrow> string \<Rightarrow> string \<Rightarrow> (string \<times> json) list option \<Rightarrow> instant \<Rightarrow> lease_store \<Rightarrow>
     lease_result" where
  "complete_project_lease project_id worktree_id lease_token result timestamp store =
     finish_project_lease project_id worktree_id (Some lease_token) LeaseSucceeded result None
       timestamp store"

definition cancel_project_lease ::
    "string \<Rightarrow> string \<Rightarrow> string option \<Rightarrow> (string \<times> json) list option \<Rightarrow> instant \<Rightarrow> lease_store \<Rightarrow>
     lease_result" where
  "cancel_project_lease project_id worktree_id lease_token result timestamp store =
     finish_project_lease project_id worktree_id lease_token LeaseCancelled result None
       timestamp store"

definition quarantine_project_lease ::
    "string \<Rightarrow> string \<Rightarrow> string \<Rightarrow> string option \<Rightarrow> (string \<times> json) list option \<Rightarrow> instant \<Rightarrow>
     lease_store \<Rightarrow> lease_result" where
  "quarantine_project_lease project_id worktree_id reason lease_token result timestamp store =
     (if reason = [] then res_bind (lease_key project_id worktree_id) (\<lambda>_. Inl LeaseConflict)
      else finish_project_lease project_id worktree_id lease_token LeaseQuarantined result
             (Some reason) timestamp store)"

text \<open>Retry while the failure budget allows it.\<close>

definition fail_target :: "project_lease \<Rightarrow> lease_state" where
  "fail_target current =
     (case pl_max_failures current of
        None \<Rightarrow> LeasePending
      | Some m \<Rightarrow> if pl_failure_count current + 1 < m then LeasePending else LeaseFailed)"

definition fail_project_lease ::
    "string \<Rightarrow> string \<Rightarrow> string \<Rightarrow> string \<Rightarrow> (string \<times> json) list option \<Rightarrow> instant option \<Rightarrow>
     instant \<Rightarrow> lease_store \<Rightarrow> lease_result" where
  "fail_project_lease project_id worktree_id lease_token reason result retry_at timestamp store =
     res_bind (load_project_lease project_id worktree_id store) (\<lambda>current.
     res_bind (ensure_matching_token current (Some lease_token)) (\<lambda>_.
     let failure_count = pl_failure_count current + 1;
         target_state = fail_target current in
     res_bind (ensure_project_lease_transition (pl_state current) target_state) (\<lambda>_.
     res_bind (mk_lease (current\<lparr>pl_state := target_state, pl_owner_id := None,
          pl_lease_token := None, pl_lease_expires_at := None,
          pl_retry_count := (if target_state = LeasePending then pl_retry_count current + 1
                             else pl_retry_count current),
          pl_failure_count := failure_count, pl_last_failure_at := Some timestamp,
          pl_next_retry_at := (if target_state = LeasePending then retry_at else None),
          pl_last_failure_reason := Some reason, pl_last_result := result,
          pl_updated_at := timestamp, pl_lock_version := pl_lock_version current + 1\<rparr>)) (\<lambda>stored.
       write_lease stored store))))"

text \<open>\<^verbatim>\<open>ensure_manual_quarantine_clear_allowed\<close> of \<^verbatim>\<open>kernel/suspension.py\<close>; a state without a
  suspension counterpart (leased, succeeded, failed) raises \<^verbatim>\<open>ValueError\<close>, which the store turns
  into a conflict as well.\<close>

definition manual_quarantine_clear_allowed :: "lease_state \<Rightarrow> bool" where
  "manual_quarantine_clear_allowed s \<longleftrightarrow> s = LeaseQuarantined"

definition clear_project_quarantine ::
    "string \<Rightarrow> string \<Rightarrow> (string \<times> json) list option \<Rightarrow> instant \<Rightarrow> lease_store \<Rightarrow> lease_result" where
  "clear_project_quarantine project_id worktree_id result timestamp store =
     res_bind (load_project_lease project_id worktree_id store) (\<lambda>current.
     res_bind (ensure (manual_quarantine_clear_allowed (pl_state current)) LeaseConflict) (\<lambda>_.
     res_bind (mk_lease (current\<lparr>pl_state := LeasePending, pl_owner_id := None,
          pl_lease_token := None, pl_lease_expires_at := None, pl_next_retry_at := None,
          pl_quarantine_reason := None,
          pl_last_result := (if result \<noteq> None then result else pl_last_result current),
          pl_updated_at := timestamp, pl_lock_version := pl_lock_version current + 1\<rparr>)) (\<lambda>stored.
       write_lease stored store)))"

end
