(* ===== verification/Lease_Facts.thy ===== *)
theory Lease_Facts
  imports Project_Leases
begin

section \<open>What the lease store guarantees\<close>

text \<open>
  The operations of the store as one step function over requests; the interface of a versioned
  store, with the facts every such store has, interpreted on the leases; and the exclusion,
  lifecycle and budget properties of the lease protocol.
\<close>

subsection \<open>A versioned store\<close>

text \<open>The interface: a request addresses one key, leaves the other keys alone, and raises the version
  of the value under its key by one. A failing request leaves the store as it was.\<close>

locale versioned_store =
  fixes exec :: "'op \<Rightarrow> 'st \<Rightarrow> 'e + 'v \<times> 'st"
    and look :: "'st \<Rightarrow> 'k \<Rightarrow> 'v option"
    and target :: "'op \<Rightarrow> 'k"
    and version :: "'v \<Rightarrow> int"
    and inv :: "'st \<Rightarrow> bool"
  assumes inv_exec: "inv s \<Longrightarrow> exec q s = Inr (v, s') \<Longrightarrow> inv s'"
    and frame: "inv s \<Longrightarrow> exec q s = Inr (v, s') \<Longrightarrow> k \<noteq> target q \<Longrightarrow> look s' k = look s k"
    and written: "inv s \<Longrightarrow> exec q s = Inr (v, s') \<Longrightarrow>
      \<exists>v'. look s' (target q) = Some v' \<and> version v' = version v"
    and bump: "inv s \<Longrightarrow> exec q s = Inr (v, s') \<Longrightarrow> look s (target q) = Some old \<Longrightarrow>
      version v = version old + 1"
begin

text \<open>Requests one after the other; a failing one changes nothing.\<close>

definition step :: "'st \<Rightarrow> 'op \<Rightarrow> 'st" where
  "step s q = (case exec q s of Inl _ \<Rightarrow> s | Inr (_, s') \<Rightarrow> s')"

definition serves :: "'op \<Rightarrow> 'st \<Rightarrow> bool" where
  "serves q s \<longleftrightarrow> \<not> isl (exec q s)"

lemma step_Inr: "exec q s = Inr (v, s') \<Longrightarrow> step s q = s'"
  by (simp add: step_def)

lemma step_Inl: "exec q s = Inl e \<Longrightarrow> step s q = s"
  by (simp add: step_def)

lemma step_inv: "inv s \<Longrightarrow> inv (step s q)"
  using inv_exec by (cases "exec q s") (auto simp: step_def)

lemma run_inv: "inv s \<Longrightarrow> inv (foldl step s qs)"
  by (induction qs arbitrary: s) (auto intro: step_inv)

lemma step_version:
  assumes "inv s" and "look s k = Some old"
  shows "\<exists>new. look (step s q) k = Some new \<and>
    version new = version old + (if serves q s \<and> target q = k then 1 else 0)"
proof (cases "exec q s")
  case (Inl e)
  with assms show ?thesis by (simp add: step_def serves_def)
next
  case (Inr r)
  then obtain v s' where e: "exec q s = Inr (v, s')" by (cases r) simp
  show ?thesis
  proof (cases "target q = k")
    case True
    with written [OF assms(1) e] bump [OF assms(1) e] assms(2) e show ?thesis
      by (auto simp: step_def serves_def)
  next
    case False
    with frame [OF assms(1) e, of k] assms(2) e show ?thesis
      by (auto simp: step_def serves_def)
  qed
qed

text \<open>The version of a key counts the requests served on it.\<close>

fun served :: "'k \<Rightarrow> 'st \<Rightarrow> 'op list \<Rightarrow> nat" where
  "served k s [] = 0"
| "served k s (q # qs) = (if serves q s \<and> target q = k then 1 else 0) + served k (step s q) qs"

lemma run_version:
  "inv s \<Longrightarrow> look s k = Some old \<Longrightarrow>
     \<exists>new. look (foldl step s qs) k = Some new \<and> version new = version old + int (served k s qs)"
proof (induction qs arbitrary: s old)
  case (Cons q qs)
  from step_version [OF Cons.prems] obtain mid where mid: "look (step s q) k = Some mid"
    "version mid = version old + (if serves q s \<and> target q = k then 1 else 0)" by blast
  from Cons.IH [OF step_inv [OF Cons.prems(1)] mid(1)] mid(2) show ?case by auto
qed simp

lemma unserved_unchanged:
  assumes "inv s" and "\<not> (serves q s \<and> target q = k)"
  shows "look (step s q) k = look s k"
proof (cases "exec q s")
  case (Inr r)
  with assms frame [OF assms(1), of q "fst r" "snd r" k] show ?thesis
    by (cases r) (auto simp: step_def serves_def)
qed (simp add: step_def)

lemma run_unserved:
  "inv s \<Longrightarrow> served k s qs = 0 \<Longrightarrow> look (foldl step s qs) k = look s k"
proof (induction qs arbitrary: s)
  case (Cons q qs)
  then have "\<not> (serves q s \<and> target q = k)" by (auto split: if_splits)
  with Cons show ?case by (simp add: step_inv unserved_unchanged)
qed simp

end

subsection \<open>Requests\<close>

datatype lease_op =
    CreateLease project_lease
  | UpdateLease project_lease int
  | ClaimLease string string claim_args instant
  | HeartbeatLease string string string int bool instant
  | CompleteLease string string string "(string \<times> json) list option" instant
  | FailLease string string string string "(string \<times> json) list option" "instant option" instant
  | CancelLease string string "string option" "(string \<times> json) list option" instant
  | QuarantineLease string string string "string option" "(string \<times> json) list option" instant
  | ClearQuarantine string string "(string \<times> json) list option" instant

fun lease_exec :: "lease_op \<Rightarrow> lease_store \<Rightarrow> lease_result" where
  "lease_exec (CreateLease l) = create_project_lease l"
| "lease_exec (UpdateLease l n) = update_project_lease l n"
| "lease_exec (ClaimLease p w a t) = claim_project_lease p w a t"
| "lease_exec (HeartbeatLease p w k n b t) = heartbeat_project_lease p w k n b t"
| "lease_exec (CompleteLease p w k r t) = complete_project_lease p w k r t"
| "lease_exec (FailLease p w k why r at t) = fail_project_lease p w k why r at t"
| "lease_exec (CancelLease p w k r t) = cancel_project_lease p w k r t"
| "lease_exec (QuarantineLease p w why k r t) = quarantine_project_lease p w why k r t"
| "lease_exec (ClearQuarantine p w r t) = clear_project_quarantine p w r t"

fun lease_target :: "lease_op \<Rightarrow> string" where
  "lease_target (CreateLease l) = project_worktree_key (pl_identity l)"
| "lease_target (UpdateLease l _) = project_worktree_key (pl_identity l)"
| "lease_target (ClaimLease p w _ _) = p @ '':'' @ w"
| "lease_target (HeartbeatLease p w _ _ _ _) = p @ '':'' @ w"
| "lease_target (CompleteLease p w _ _ _) = p @ '':'' @ w"
| "lease_target (FailLease p w _ _ _ _ _) = p @ '':'' @ w"
| "lease_target (CancelLease p w _ _ _) = p @ '':'' @ w"
| "lease_target (QuarantineLease p w _ _ _ _) = p @ '':'' @ w"
| "lease_target (ClearQuarantine p w _ _) = p @ '':'' @ w"

text \<open>The requests of the lease protocol itself; \<^verbatim>\<open>create\<close> and \<^verbatim>\<open>update\<close> install a record as it is.\<close>

fun protocol_op :: "lease_op \<Rightarrow> bool" where
  "protocol_op (CreateLease _) = False"
| "protocol_op (UpdateLease _ _) = False"
| "protocol_op _ = True"

subsection \<open>The invariant of the store\<close>

definition lease_ok :: "project_lease \<Rightarrow> bool" where
  "lease_ok l \<longleftrightarrow> mk_lease l = Inr l \<and> li_project_id (pl_identity l) \<noteq> [] \<and>
     li_worktree_id (pl_identity l) \<noteq> [] \<and> lease_reload l = l"

definition store_ok :: "lease_store \<Rightarrow> bool" where
  "store_ok store \<longleftrightarrow>
     (\<forall>k l. map_of store k = Some l \<longrightarrow> lease_ok l \<and> k = project_worktree_key (pl_identity l))"

lemma store_okD: "store_ok s \<Longrightarrow> map_of s k = Some l \<Longrightarrow> lease_ok l \<and> k = project_worktree_key (pl_identity l)"
  unfolding store_ok_def by blast

lemma mk_lease_same: "mk_lease l = Inr l' \<Longrightarrow> l' = l"
  unfolding mk_lease_def by simp

lemma optional_str_idem [simp]: "optional_str (optional_str x) = optional_str x"
  by (cases x rule: optional_str.cases) auto

lemma optional_str_text: "\<not> no_text x \<Longrightarrow> optional_str x = x"
  by (cases x rule: optional_str.cases) (auto simp: no_text_def)

lemma no_text_optional_str [simp]: "no_text (optional_str x) = no_text x"
  by (cases x rule: optional_str.cases) (auto simp: no_text_def)

lemma optional_str_cases: "optional_str x = (if no_text x then None else x)"
  by (cases x rule: optional_str.cases) (auto simp: no_text_def)

lemma lease_reload_idem [simp]: "lease_reload (lease_reload l) = lease_reload l"
  by (simp add: lease_reload_def)

lemma lease_reload_fields [simp]:
  "pl_identity (lease_reload l) = pl_identity l" "pl_state (lease_reload l) = pl_state l"
  "pl_lock_version (lease_reload l) = pl_lock_version l"
  "pl_lease_expires_at (lease_reload l) = pl_lease_expires_at l"
  "pl_failure_count (lease_reload l) = pl_failure_count l"
  "pl_retry_count (lease_reload l) = pl_retry_count l"
  "pl_max_failures (lease_reload l) = pl_max_failures l"
  "pl_next_retry_at (lease_reload l) = pl_next_retry_at l"
  "pl_last_result (lease_reload l) = pl_last_result l"
  "pl_lease_token (lease_reload l) = optional_str (pl_lease_token l)"
  "pl_owner_id (lease_reload l) = optional_str (pl_owner_id l)"
  "pl_quarantine_reason (lease_reload l) = optional_str (pl_quarantine_reason l)"
  by (simp_all add: lease_reload_def)

text \<open>Reading back a written lease validates again.\<close>

lemma mk_lease_reload: "mk_lease l = Inr l \<Longrightarrow> mk_lease (lease_reload l) = Inr (lease_reload l)"
  unfolding mk_lease_def lease_reload_fields by (cases "pl_max_failures l") simp_all

lemma lease_key_Inr:
  "lease_key p w = Inr k \<longleftrightarrow> p \<noteq> [] \<and> w \<noteq> [] \<and> k = p @ '':'' @ w"
  by (auto simp: lease_key_def)

lemma load_Inr:
  "load_project_lease p w s = Inr l \<longleftrightarrow> p \<noteq> [] \<and> w \<noteq> [] \<and> map_of s (p @ '':'' @ w) = Some l"
  by (auto simp: load_project_lease_def lease_key_def split: option.splits)

lemma write_Inr:
  "write_lease l s = Inr r \<longleftrightarrow> li_project_id (pl_identity l) \<noteq> [] \<and> li_worktree_id (pl_identity l) \<noteq> [] \<and>
     r = (l, AList.update (project_worktree_key (pl_identity l)) (lease_reload l) s)"
  by (auto simp: write_lease_def lease_key_def project_worktree_key_def)

named_theorems lease_defs "the operations of the store"

lemmas [lease_defs] = create_project_lease_def update_project_lease_def claim_project_lease_def
  heartbeat_project_lease_def complete_project_lease_def cancel_project_lease_def
  quarantine_project_lease_def finish_project_lease_def fail_project_lease_def
  clear_project_quarantine_def

lemma mk_identity_Inr:
  "mk_identity p w r = Inr i \<longleftrightarrow> p \<noteq> [] \<and> w \<noteq> [] \<and> r \<noteq> [] \<and>
     i = \<lparr>li_project_id = p, li_worktree_id = w, li_run_id = r\<rparr>"
  by (auto simp: mk_identity_def)

lemma load_or_fresh_Inr:
  "load_or_fresh p w r t s = Inr l \<longleftrightarrow> p \<noteq> [] \<and> w \<noteq> [] \<and>
     (map_of s (p @ '':'' @ w) = Some l \<or>
      map_of s (p @ '':'' @ w) = None \<and> r \<noteq> [] \<and>
      l = fresh_lease \<lparr>li_project_id = p, li_worktree_id = w, li_run_id = r\<rparr> t)"
proof (cases "p \<noteq> [] \<and> w \<noteq> []")
  case True
  have fresh: "mk_lease (fresh_lease i t) = Inr (fresh_lease i t)" for i
    by (simp add: mk_lease_def fresh_lease_def)
  have load: "load_project_lease p w s =
      (case map_of s (p @ '':'' @ w) of None \<Rightarrow> Inl LeaseNotFound | Some l \<Rightarrow> Inr l)"
    using True by (simp add: load_project_lease_def lease_key_def)
  show ?thesis
    using True by (cases "map_of s (p @ '':'' @ w)")
      (auto simp: load_or_fresh_def load mk_identity_Inr fresh)
next
  case False
  then have "load_project_lease p w s = Inl LeaseValueError"
    by (cases "p = []"; cases "w = []") (simp_all add: load_project_lease_def lease_key_def ensure_def)
  with False show ?thesis by (auto simp: load_or_fresh_def)
qed

text \<open>Every served request writes one validated lease under its key, with the version raised.\<close>

definition writes :: "lease_store \<Rightarrow> string \<Rightarrow> project_lease \<Rightarrow> lease_store \<Rightarrow> bool" where
  "writes s k v s' \<longleftrightarrow> s' = AList.update k (lease_reload v) s \<and> mk_lease v = Inr v \<and>
     project_worktree_key (pl_identity v) = k \<and> li_project_id (pl_identity v) \<noteq> [] \<and>
     li_worktree_id (pl_identity v) \<noteq> [] \<and>
     (\<forall>old. map_of s k = Some old \<longrightarrow> pl_lock_version v = pl_lock_version old + 1)"

lemma write_writes:
  assumes "write_lease stored s = Inr (v, s')" and "mk_lease l = Inr stored"
    and "project_worktree_key (pl_identity l) = k"
    and "\<And>old. map_of s k = Some old \<Longrightarrow> pl_lock_version l = pl_lock_version old + 1"
  shows "writes s k v s' \<and> v = l"
proof -
  from assms(2) have l: "stored = l" by (rule mk_lease_same)
  with assms show ?thesis by (simp add: writes_def write_Inr)
qed

text \<open>The lease a served request of the protocol starts from, and what it stores.\<close>

lemma finish_Inr:
  assumes "finish_project_lease p w k target r qr t s = Inr (v, s')"
  obtains cur where "load_project_lease p w s = Inr cur"
    and "if pl_state cur = Leased then ensure_matching_token cur k = Inr () else k = None"
    and "ensure_project_lease_transition (pl_state cur) target = Inr ()"
    and "mk_lease (cur\<lparr>pl_state := target, pl_owner_id := None,
          pl_lease_token := None, pl_lease_expires_at := None, pl_last_result := r,
          pl_quarantine_reason := qr, pl_updated_at := t,
          pl_lock_version := pl_lock_version cur + 1\<rparr>) = Inr v"
    and "write_lease v s = Inr (v, s')"
  using assms unfolding finish_project_lease_def
  by (auto simp: write_Inr split: if_splits dest: mk_lease_same)

lemma claim_Inr:
  assumes "claim_project_lease p w a t s = Inr (v, s')"
  obtains cur i lr where "load_or_fresh p w (ca_run a) t s = Inr cur"
    and "0 < ca_lease_seconds a" and "ca_owner_id a \<noteq> []" and "ca_lease_token a \<noteq> []"
    and "\<not> is_terminal_project_lease_state (pl_state cur)"
    and "case pl_next_retry_at cur of None \<Rightarrow> True | Some x \<Rightarrow> x \<le> t"
    and "\<not> has_active_lease cur t"
    and "if pl_state cur = Leased then ca_takeover_validated a
         else ensure_project_lease_transition (pl_state cur) Leased = Inr ()"
    and "mk_identity p w (ca_run a) = Inr i"
    and "lr = claim_last_result a cur"
    and "mk_lease (cur\<lparr>pl_identity := i, pl_state := Leased,
             pl_owner_id := Some (ca_owner_id a), pl_lease_token := Some (ca_lease_token a),
             pl_lease_expires_at := Some (t + seconds (ca_lease_seconds a)),
             pl_last_heartbeat_at := Some t, pl_next_retry_at := None,
             pl_quarantine_reason := None, pl_updated_at := t,
             pl_last_result := (if lr = [] then None else Some lr),
             pl_lock_version := pl_lock_version cur + 1\<rparr>) = Inr v"
    and "write_lease v s = Inr (v, s')"
proof -
  from assms have args: "0 < ca_lease_seconds a" "ca_owner_id a \<noteq> []" "ca_lease_token a \<noteq> []"
    by (auto simp: claim_project_lease_def split: if_splits)
  from assms args obtain cur i stored where c: "load_or_fresh p w (ca_run a) t s = Inr cur"
    "\<not> is_terminal_project_lease_state (pl_state cur)"
    "case pl_next_retry_at cur of None \<Rightarrow> True | Some x \<Rightarrow> \<not> t < x"
    "\<not> has_active_lease cur t"
    "(if pl_state cur = Leased then ensure (ca_takeover_validated a) LeaseConflict
      else ensure (ensure_project_lease_transition (pl_state cur) Leased = Inr ()) LeaseConflict) = Inr ()"
    "mk_identity p w (ca_run a) = Inr i"
    and m: "mk_lease (cur\<lparr>pl_identity := i, pl_state := Leased,
             pl_owner_id := Some (ca_owner_id a), pl_lease_token := Some (ca_lease_token a),
             pl_lease_expires_at := Some (t + seconds (ca_lease_seconds a)),
             pl_last_heartbeat_at := Some t, pl_next_retry_at := None,
             pl_quarantine_reason := None, pl_updated_at := t,
             pl_last_result := (if claim_last_result a cur = [] then None else Some (claim_last_result a cur)),
             pl_lock_version := pl_lock_version cur + 1\<rparr>) = Inr stored"
    and w: "write_lease stored s = Inr (v, s')"
    unfolding claim_project_lease_def Let_def res_bind_Inr_iff ensure_Inr_iff by auto
  from w have "stored = v" by (auto simp: write_Inr)
  with m w have "mk_lease (cur\<lparr>pl_identity := i, pl_state := Leased,
             pl_owner_id := Some (ca_owner_id a), pl_lease_token := Some (ca_lease_token a),
             pl_lease_expires_at := Some (t + seconds (ca_lease_seconds a)),
             pl_last_heartbeat_at := Some t, pl_next_retry_at := None,
             pl_quarantine_reason := None, pl_updated_at := t,
             pl_last_result := (if claim_last_result a cur = [] then None else Some (claim_last_result a cur)),
             pl_lock_version := pl_lock_version cur + 1\<rparr>) = Inr v" "write_lease v s = Inr (v, s')"
    by simp_all
  moreover have "case pl_next_retry_at cur of None \<Rightarrow> True | Some x \<Rightarrow> x \<le> t"
    using c(3) by (auto split: option.splits)
  moreover have "if pl_state cur = Leased then ca_takeover_validated a
      else ensure_project_lease_transition (pl_state cur) Leased = Inr ()"
    using c(5) by (auto split: if_splits)
  ultimately show ?thesis
    by (intro that [OF c(1) args c(2) _ c(4) _ c(6) refl])
qed

lemma fail_Inr:
  assumes "fail_project_lease p w k why r at t s = Inr (v, s')"
  obtains cur where "load_project_lease p w s = Inr cur"
    and "ensure_matching_token cur (Some k) = Inr ()"
    and "ensure_project_lease_transition (pl_state cur) (fail_target cur) = Inr ()"
    and "mk_lease (cur\<lparr>pl_state := fail_target cur, pl_owner_id := None,
          pl_lease_token := None, pl_lease_expires_at := None,
          pl_retry_count := (if fail_target cur = LeasePending then pl_retry_count cur + 1
                             else pl_retry_count cur),
          pl_failure_count := pl_failure_count cur + 1, pl_last_failure_at := Some t,
          pl_next_retry_at := (if fail_target cur = LeasePending then at else None),
          pl_last_failure_reason := Some why, pl_last_result := r,
          pl_updated_at := t, pl_lock_version := pl_lock_version cur + 1\<rparr>) = Inr v"
    and "write_lease v s = Inr (v, s')"
  using assms unfolding fail_project_lease_def Let_def
  by (auto simp: write_Inr dest: mk_lease_same)

lemma writes_replace:
  assumes ok: "store_ok s" and load: "load_project_lease p w s = Inr cur"
    and mk: "mk_lease new = Inr v" and wr: "write_lease v s = Inr (v, s')"
    and new: "pl_identity new = pl_identity cur" "pl_lock_version new = pl_lock_version cur + 1"
  shows "writes s (p @ '':'' @ w) v s'"
proof -
  from load have cur: "map_of s (p @ '':'' @ w) = Some cur" by (simp add: load_Inr)
  from store_okD [OF ok cur] have key: "project_worktree_key (pl_identity cur) = p @ '':'' @ w" by simp
  have "writes s (p @ '':'' @ w) v s' \<and> v = new"
    by (rule write_writes [OF wr mk]) (use new key cur in simp_all)
  then show ?thesis ..
qed

lemma finish_writes:
  assumes "store_ok s" and "finish_project_lease p w k target r qr t s = Inr (v, s')"
  shows "writes s (p @ '':'' @ w) v s'"
proof (rule finish_Inr [OF assms(2)])
  fix cur
  assume "load_project_lease p w s = Inr cur"
    and "mk_lease (cur\<lparr>pl_state := target, pl_owner_id := None,
          pl_lease_token := None, pl_lease_expires_at := None, pl_last_result := r,
          pl_quarantine_reason := qr, pl_updated_at := t,
          pl_lock_version := pl_lock_version cur + 1\<rparr>) = Inr v"
    and "write_lease v s = Inr (v, s')"
  then show ?thesis by (rule writes_replace [OF assms(1)]) simp_all
qed

lemma claim_writes:
  assumes ok: "store_ok s" and "claim_project_lease p w a t s = Inr (v, s')"
  shows "writes s (p @ '':'' @ w) v s'"
proof (rule claim_Inr [OF assms(2)])
  fix cur i lr
  assume load: "load_or_fresh p w (ca_run a) t s = Inr cur"
    and i: "mk_identity p w (ca_run a) = Inr i"
    and mk: "mk_lease (cur\<lparr>pl_identity := i, pl_state := Leased,
             pl_owner_id := Some (ca_owner_id a), pl_lease_token := Some (ca_lease_token a),
             pl_lease_expires_at := Some (t + seconds (ca_lease_seconds a)),
             pl_last_heartbeat_at := Some t, pl_next_retry_at := None,
             pl_quarantine_reason := None, pl_updated_at := t,
             pl_last_result := (if lr = [] then None else Some lr),
             pl_lock_version := pl_lock_version cur + 1\<rparr>) = Inr v"
    and wr: "write_lease v s = Inr (v, s')"
  have "writes s (p @ '':'' @ w) v s' \<and> v = cur\<lparr>pl_identity := i, pl_state := Leased,
             pl_owner_id := Some (ca_owner_id a), pl_lease_token := Some (ca_lease_token a),
             pl_lease_expires_at := Some (t + seconds (ca_lease_seconds a)),
             pl_last_heartbeat_at := Some t, pl_next_retry_at := None,
             pl_quarantine_reason := None, pl_updated_at := t,
             pl_last_result := (if lr = [] then None else Some lr),
             pl_lock_version := pl_lock_version cur + 1\<rparr>"
    by (rule write_writes [OF wr mk])
      (use load i in \<open>auto simp: mk_identity_Inr load_or_fresh_Inr project_worktree_key_def\<close>)
  then show ?thesis ..
qed

lemma exec_writes:
  assumes ok: "store_ok s" and ex: "lease_exec q s = Inr (v, s')"
  shows "writes s (lease_target q) v s'"
proof (cases q)
  case (CreateLease l)
  with ex have none: "map_of s (project_worktree_key (pl_identity l)) = None"
    and "\<exists>stored. mk_lease (l\<lparr>pl_lock_version := 0\<rparr>) = Inr stored \<and> write_lease stored s = Inr (v, s')"
    by (auto simp: create_project_lease_def lease_key_def project_worktree_key_def)
  then obtain stored where mk: "mk_lease (l\<lparr>pl_lock_version := 0\<rparr>) = Inr stored"
    and w: "write_lease stored s = Inr (v, s')" by blast
  have "writes s (project_worktree_key (pl_identity l)) v s' \<and> v = l\<lparr>pl_lock_version := 0\<rparr>"
    by (rule write_writes [OF w mk]) (use none in simp_all)
  then show ?thesis unfolding CreateLease lease_target.simps ..
next
  case (UpdateLease l n)
  with ex obtain cur stored where
    load: "load_project_lease (li_project_id (pl_identity l)) (li_worktree_id (pl_identity l)) s = Inr cur"
    and mk: "mk_lease (l\<lparr>pl_lock_version := pl_lock_version cur + 1\<rparr>) = Inr stored"
    and w: "write_lease stored s = Inr (v, s')"
    by (auto simp: update_project_lease_def)
  have "writes s (project_worktree_key (pl_identity l)) v s' \<and>
      v = l\<lparr>pl_lock_version := pl_lock_version cur + 1\<rparr>"
    by (rule write_writes [OF w mk]) (use load in \<open>auto simp: load_Inr project_worktree_key_def\<close>)
  then show ?thesis unfolding UpdateLease lease_target.simps ..
next
  case (ClaimLease p w a t)
  with ex claim_writes [OF ok] show ?thesis by simp
next
  case (HeartbeatLease p w k n b t)
  with ex obtain cur stored where load: "load_project_lease p w s = Inr cur"
    and mk: "mk_lease (cur\<lparr>pl_lease_expires_at := Some (t + seconds n),
          pl_last_heartbeat_at := Some t,
          pl_last_progress_at := (if b then Some t else pl_last_progress_at cur),
          pl_updated_at := t, pl_lock_version := pl_lock_version cur + 1\<rparr>) = Inr stored"
    and w: "write_lease stored s = Inr (v, s')"
    by (auto simp: heartbeat_project_lease_def)
  from w have v: "stored = v" by (simp add: write_Inr)
  have "writes s (p @ '':'' @ w) v s'"
    by (rule writes_replace [OF ok load mk [unfolded v] w [unfolded v]]) simp_all
  with HeartbeatLease show ?thesis by simp
next
  case (CompleteLease p w k r t)
  with ex finish_writes [OF ok] show ?thesis by (simp add: complete_project_lease_def)
next
  case (FailLease p w k why r at t)
  with ex have "fail_project_lease p w k why r at t s = Inr (v, s')" by simp
  then have "writes s (p @ '':'' @ w) v s'"
  proof (rule fail_Inr)
    fix cur
    assume load: "load_project_lease p w s = Inr cur"
      and mk: "mk_lease (cur\<lparr>pl_state := fail_target cur, pl_owner_id := None,
          pl_lease_token := None, pl_lease_expires_at := None,
          pl_retry_count := (if fail_target cur = LeasePending then pl_retry_count cur + 1
                             else pl_retry_count cur),
          pl_failure_count := pl_failure_count cur + 1, pl_last_failure_at := Some t,
          pl_next_retry_at := (if fail_target cur = LeasePending then at else None),
          pl_last_failure_reason := Some why, pl_last_result := r,
          pl_updated_at := t, pl_lock_version := pl_lock_version cur + 1\<rparr>) = Inr v"
      and w: "write_lease v s = Inr (v, s')"
    show ?thesis by (rule writes_replace [OF ok load mk w]) simp_all
  qed
  with FailLease show ?thesis by simp
next
  case (CancelLease p w k r t)
  with ex finish_writes [OF ok] show ?thesis by (simp add: cancel_project_lease_def)
next
  case (QuarantineLease p w why k r t)
  with ex finish_writes [OF ok] show ?thesis by (auto simp: quarantine_project_lease_def split: if_splits)
next
  case (ClearQuarantine p w r t)
  with ex obtain cur stored where load: "load_project_lease p w s = Inr cur"
    and mk: "mk_lease (cur\<lparr>pl_state := LeasePending, pl_owner_id := None,
          pl_lease_token := None, pl_lease_expires_at := None, pl_next_retry_at := None,
          pl_quarantine_reason := None,
          pl_last_result := (if r \<noteq> None then r else pl_last_result cur),
          pl_updated_at := t, pl_lock_version := pl_lock_version cur + 1\<rparr>) = Inr stored"
    and w: "write_lease stored s = Inr (v, s')"
    by (auto simp: clear_project_quarantine_def)
  from w have v: "stored = v" by (simp add: write_Inr)
  have "writes s (p @ '':'' @ w) v s'"
    by (rule writes_replace [OF ok load mk [unfolded v] w [unfolded v]]) simp_all
  with ClearQuarantine show ?thesis by simp
qed

lemma writes_ok: "store_ok s \<Longrightarrow> writes s k v s' \<Longrightarrow> store_ok s'"
  using mk_lease_reload by (auto simp: store_ok_def writes_def update_conv lease_ok_def)

interpretation lease_store: versioned_store lease_exec map_of lease_target pl_lock_version store_ok
proof
  fix s q v s' and k :: string and old :: project_lease
  assume ok: "store_ok s" and ex: "lease_exec q s = Inr (v, s')"
  note w = exec_writes [OF ok ex]
  show "store_ok s'" by (rule writes_ok [OF ok w])
  show "k \<noteq> lease_target q \<Longrightarrow> map_of s' k = map_of s k"
    using w by (simp add: writes_def update_conv)
  show "\<exists>v'. map_of s' (lease_target q) = Some v' \<and> pl_lock_version v' = pl_lock_version v"
    using w by (simp add: writes_def update_conv)
  show "map_of s (lease_target q) = Some old \<Longrightarrow> pl_lock_version v = pl_lock_version old + 1"
    using w by (simp add: writes_def)
qed

subsection \<open>Who may change a lease\<close>

fun op_time :: "lease_op \<Rightarrow> instant" where
  "op_time (ClaimLease _ _ _ t) = t"
| "op_time (HeartbeatLease _ _ _ _ _ t) = t"
| "op_time (CompleteLease _ _ _ _ t) = t"
| "op_time (FailLease _ _ _ _ _ _ t) = t"
| "op_time (CancelLease _ _ _ _ t) = t"
| "op_time (QuarantineLease _ _ _ _ _ t) = t"
| "op_time (ClearQuarantine _ _ _ t) = t"
| "op_time (CreateLease l) = pl_updated_at l"
| "op_time (UpdateLease l _) = pl_updated_at l"

fun presented_token :: "lease_op \<Rightarrow> string option" where
  "presented_token (HeartbeatLease _ _ k _ _ _) = Some k"
| "presented_token (CompleteLease _ _ k _ _) = Some k"
| "presented_token (FailLease _ _ k _ _ _ _) = Some k"
| "presented_token (CancelLease _ _ k _ _) = k"
| "presented_token (QuarantineLease _ _ _ k _ _) = k"
| "presented_token _ = None"

lemma matching_token_iff:
  "ensure_matching_token l k = Inr () \<longleftrightarrow> pl_state l = Leased \<and> \<not> no_text k \<and> pl_lease_token l = k"
  by (auto simp: ensure_matching_token_def)

lemma has_active_leaseD: "has_active_lease l t \<Longrightarrow> pl_state l = Leased"
  by (auto simp: has_active_lease_def split: option.splits)

lemma transition_iff:
  "ensure_project_lease_transition a b = Inr () \<longleftrightarrow>
     \<not> is_terminal_project_lease_state a \<and> can_transition_project_lease a b"
  by (simp add: ensure_project_lease_transition_def)

lemma terminal_iff:
  "is_terminal_project_lease_state a \<longleftrightarrow> a \<noteq> LeasePending \<and> a \<noteq> Leased"
  by (cases a) (simp_all add: is_terminal_project_lease_state_def TERMINAL_PROJECT_LEASE_STATES_def)

lemma finish_guards:
  assumes "finish_project_lease p w k target r qr t s = Inr res"
    and "map_of s (p @ '':'' @ w) = Some l"
  shows "\<not> is_terminal_project_lease_state (pl_state l)"
    and "pl_state l = Leased \<Longrightarrow> k = pl_lease_token l"
    and "can_transition_project_lease (pl_state l) target"
    and "pl_state (fst res) = target"
proof -
  obtain v s' where res: "res = (v, s')" by (cases res)
  have "\<not> is_terminal_project_lease_state (pl_state l) \<and> (pl_state l = Leased \<longrightarrow> k = pl_lease_token l) \<and>
      can_transition_project_lease (pl_state l) target \<and> pl_state v = target"
  proof (rule finish_Inr [OF assms(1) [unfolded res]])
    fix cur
    assume load: "load_project_lease p w s = Inr cur"
      and tok: "if pl_state cur = Leased then ensure_matching_token cur k = Inr () else k = None"
      and tr: "ensure_project_lease_transition (pl_state cur) target = Inr ()"
      and mk: "mk_lease (cur\<lparr>pl_state := target, pl_owner_id := None,
          pl_lease_token := None, pl_lease_expires_at := None, pl_last_result := r,
          pl_quarantine_reason := qr, pl_updated_at := t,
          pl_lock_version := pl_lock_version cur + 1\<rparr>) = Inr v"
    from load assms(2) have "cur = l" by (simp add: load_Inr)
    with tok tr mk_lease_same [OF mk] show ?thesis
      by (auto simp: matching_token_iff transition_iff)
  qed
  then show "\<not> is_terminal_project_lease_state (pl_state l)" "pl_state l = Leased \<Longrightarrow> k = pl_lease_token l"
    "can_transition_project_lease (pl_state l) target" "pl_state (fst res) = target"
    by (simp_all add: res)
qed

text \<open>Which request can succeed on a lease, by the state it finds.\<close>

lemma protocol_guards:
  assumes ex: "lease_exec q s = Inr r" and prot: "protocol_op q"
    and l: "map_of s (lease_target q) = Some l"
  shows "has_active_lease l (op_time q) \<Longrightarrow> presented_token q = pl_lease_token l"
    and "is_terminal_project_lease_state (pl_state l) \<Longrightarrow>
      pl_state l = LeaseQuarantined \<and> (\<exists>p w x t. q = ClearQuarantine p w x t)"
proof -
  let ?concl = "(has_active_lease l (op_time q) \<longrightarrow> presented_token q = pl_lease_token l) \<and>
    (is_terminal_project_lease_state (pl_state l) \<longrightarrow>
      pl_state l = LeaseQuarantined \<and> (\<exists>p w x t. q = ClearQuarantine p w x t))"
  have ?concl
  proof (cases q)
    case (ClaimLease p w a t)
    obtain v s' where r: "r = (v, s')" by (cases r)
    show ?thesis
    proof (rule claim_Inr [of p w a t s v s'])
      show "claim_project_lease p w a t s = Inr (v, s')" using ex ClaimLease r by simp
      fix cur
      assume "load_or_fresh p w (ca_run a) t s = Inr cur" "\<not> has_active_lease cur t"
        "\<not> is_terminal_project_lease_state (pl_state cur)"
      with l ClaimLease show ?thesis by (simp add: load_or_fresh_Inr)
    qed
  next
    case (HeartbeatLease p w k n b t)
    with ex l show ?thesis
      by (auto simp: heartbeat_project_lease_def ensure_matching_active_token_def load_Inr
          matching_token_iff terminal_iff)
  next
    case (CompleteLease p w k x t)
    with finish_guards [of p w "Some k" LeaseSucceeded x None t s r l] ex l show ?thesis
      by (auto simp: complete_project_lease_def dest: has_active_leaseD)
  next
    case (FailLease p w k why x at t)
    with ex l show ?thesis
      by (auto simp: fail_project_lease_def Let_def load_Inr matching_token_iff terminal_iff)
  next
    case (CancelLease p w k x t)
    with finish_guards [of p w k LeaseCancelled x None t s r l] ex l show ?thesis
      by (auto simp: cancel_project_lease_def dest: has_active_leaseD)
  next
    case (QuarantineLease p w why k x t)
    with finish_guards [of p w k LeaseQuarantined x "Some why" t s r l] ex l show ?thesis
      by (auto simp: quarantine_project_lease_def dest: has_active_leaseD split: if_splits)
  next
    case (ClearQuarantine p w x t)
    with ex l show ?thesis
      by (auto simp: clear_project_quarantine_def load_Inr manual_quarantine_clear_allowed_def
          dest: has_active_leaseD)
  qed (use prot in simp_all)
  then show "has_active_lease l (op_time q) \<Longrightarrow> presented_token q = pl_lease_token l"
    "is_terminal_project_lease_state (pl_state l) \<Longrightarrow>
      pl_state l = LeaseQuarantined \<and> (\<exists>p w x t. q = ClearQuarantine p w x t)"
    by simp_all
qed

subsection \<open>When a claim succeeds\<close>

lemma list_all_update:
  "list_all P xs \<Longrightarrow> P (k, v) \<Longrightarrow> list_all P (AList.update k v xs)"
  by (induction xs) auto

lemma takeover_finite: "finite_json (takeover_metadata l why)"
  unfolding takeover_metadata_def
  by (cases "pl_owner_id l"; cases "pl_lease_token l"; cases "pl_lease_expires_at l") simp_all

lemma claim_blocked:
  "\<not> (0 < ca_lease_seconds a \<and> ca_owner_id a \<noteq> [] \<and> ca_lease_token a \<noteq> []) \<Longrightarrow>
     claim_project_lease p w a t s \<noteq> Inr r"
  by (auto simp: claim_project_lease_def)

text \<open>The lease a claim may start from at an instant.\<close>

definition claimable :: "claim_args \<Rightarrow> instant \<Rightarrow> project_lease \<Rightarrow> bool" where
  "claimable a t l \<longleftrightarrow>
     (case pl_next_retry_at l of None \<Rightarrow> True | Some x \<Rightarrow> x \<le> t) \<and>
     (pl_state l = LeasePending \<or>
      pl_state l = Leased \<and> \<not> has_active_lease l t \<and> ca_takeover_validated a)"

lemma claimable_iff:
  "claimable a t l \<longleftrightarrow> \<not> is_terminal_project_lease_state (pl_state l) \<and>
     (case pl_next_retry_at l of None \<Rightarrow> True | Some x \<Rightarrow> \<not> t < x) \<and> \<not> has_active_lease l t \<and>
     (if pl_state l = Leased then ca_takeover_validated a
      else ensure_project_lease_transition (pl_state l) Leased = Inr ())"
  by (cases "pl_state l"; cases "pl_next_retry_at l")
    (auto simp: claimable_def terminal_iff transition_iff can_transition_project_lease_def
      dest: has_active_leaseD)

lemma claim_succeeds:
  assumes load: "load_or_fresh p w (ca_run a) t s = Inr cur" and run: "ca_run a \<noteq> []"
    and args: "0 < ca_lease_seconds a" "ca_owner_id a \<noteq> []" "ca_lease_token a \<noteq> []"
    and ok: "mk_lease cur = Inr cur" and c: "claimable a t cur"
  shows "\<exists>v s'. claim_project_lease p w a t s = Inr (v, s') \<and>
    pl_identity v = \<lparr>li_project_id = p, li_worktree_id = w, li_run_id = ca_run a\<rparr> \<and> pl_state v = Leased \<and>
    pl_lease_token v = Some (ca_lease_token a) \<and>
    pl_lease_expires_at v = Some (t + seconds (ca_lease_seconds a))"
proof -
  define i where "i = \<lparr>li_project_id = p, li_worktree_id = w, li_run_id = ca_run a\<rparr>"
  let ?new = "cur\<lparr>pl_identity := i, pl_state := Leased,
             pl_owner_id := Some (ca_owner_id a), pl_lease_token := Some (ca_lease_token a),
             pl_lease_expires_at := Some (t + seconds (ca_lease_seconds a)),
             pl_last_heartbeat_at := Some t, pl_next_retry_at := None,
             pl_quarantine_reason := None, pl_updated_at := t,
             pl_last_result := (if claim_last_result a cur = [] then None else Some (claim_last_result a cur)),
             pl_lock_version := pl_lock_version cur + 1\<rparr>"
  have pw: "p \<noteq> []" "w \<noteq> []" using load by (simp_all add: load_or_fresh_Inr)
  have i: "mk_identity p w (ca_run a) = Inr i"
    using pw run by (simp add: mk_identity_Inr i_def)
  have "list_all (\<lambda>(k, v). finite_json v) (case pl_last_result cur of None \<Rightarrow> [] | Some d \<Rightarrow> d)"
    using ok by (auto simp: mk_lease_def split: option.splits)
  then have "finite_json (JObj (claim_last_result a cur))"
    using takeover_finite by (simp add: claim_last_result_def Let_def list_all_update)
  then have mk: "mk_lease ?new = Inr ?new"
    using ok args unfolding mk_lease_def
    by (cases "pl_max_failures cur") (simp_all add: no_text_def)
  have wr: "write_lease ?new s = Inr (?new, AList.update (p @ '':'' @ w) (lease_reload ?new) s)"
    using pw by (simp add: write_Inr i_def project_worktree_key_def)
  have "claim_project_lease p w a t s = write_lease ?new s"
    using args c load i mk unfolding claim_project_lease_def claimable_iff Let_def
    by (cases "pl_state cur = Leased") (simp_all add: ensure_def)
  with wr show ?thesis by (simp add: i_def)
qed

end
