(* ===== verification/Lease_Properties.thy ===== *)
theory Lease_Properties
  imports Lease_Facts
begin

section \<open>Properties of the project leases\<close>

text \<open>
  The guarantees of the lease store over any sequence of requests that starts from the empty file:
  each property is a few steps over the facts of the versioned store and the guards of the
  protocol. \<open>lease_run\<close> serves requests one after the other, under the store's lock.
\<close>

definition lease_step :: "lease_store \<Rightarrow> lease_op \<Rightarrow> lease_store" where
  "lease_step s q = (case lease_exec q s of Inl _ \<Rightarrow> s | Inr (_, s') \<Rightarrow> s')"

definition lease_run :: "lease_op list \<Rightarrow> lease_store" where
  "lease_run qs = foldl lease_step [] qs"

definition lease_serves :: "lease_op \<Rightarrow> lease_store \<Rightarrow> bool" where
  "lease_serves q s \<longleftrightarrow> \<not> isl (lease_exec q s)"

text \<open>How many of the requests were served on a key.\<close>

fun lease_served :: "string \<Rightarrow> lease_store \<Rightarrow> lease_op list \<Rightarrow> nat" where
  "lease_served k s [] = 0"
| "lease_served k s (q # qs) =
     (if lease_serves q s \<and> lease_target q = k then 1 else 0) + lease_served k (lease_step s q) qs"

fun clears_quarantine :: "lease_op \<Rightarrow> bool" where
  "clears_quarantine (ClearQuarantine _ _ _ _) = True"
| "clears_quarantine _ = False"

lemma clears_quarantine_iff: "clears_quarantine q \<longleftrightarrow> (\<exists>p w x t. q = ClearQuarantine p w x t)"
  by (cases q) simp_all

lemma lease_step_eq: "lease_step = lease_store.step"
  by (intro ext) (simp add: lease_step_def lease_store.step_def)

lemma lease_serves_eq: "lease_serves = lease_store.serves"
  by (intro ext) (simp add: lease_serves_def lease_store.serves_def)

lemma lease_served_eq: "lease_served k s qs = lease_store.served k s qs"
  by (induction qs arbitrary: s) (simp_all add: lease_step_eq lease_serves_eq)

lemma empty_ok: "store_ok []"
  by (simp add: store_ok_def)

lemma run_ok: "store_ok (lease_run qs)"
  unfolding lease_run_def lease_step_eq by (rule lease_store.run_inv [OF empty_ok])

lemma run_append: "lease_run (xs @ ys) = foldl lease_step (lease_run xs) ys"
  by (simp add: lease_run_def)

lemma run_Cons: "foldl lease_step s (q # qs) = foldl lease_step (lease_step s q) qs"
  by simp

text \<open>A run none of whose requests can be served on a key, while the key holds the lease it held,
  leaves that lease alone.\<close>

lemma run_refused:
  assumes ok: "store_ok s" and l: "map_of s k = Some l"
    and refused: "\<And>q s'. q \<in> set qs \<Longrightarrow> store_ok s' \<Longrightarrow> map_of s' k = Some l \<Longrightarrow>
      lease_target q = k \<Longrightarrow> \<not> lease_serves q s'"
  shows "map_of (foldl lease_step s qs) k = Some l"
  using assms
proof (induction qs arbitrary: s)
  case (Cons q qs)
  have "\<not> (lease_serves q s \<and> lease_target q = k)"
    using Cons.prems(3) [of q s] Cons.prems(1,2) by auto
  then have "map_of (lease_step s q) k = Some l"
    using lease_store.unserved_unchanged [OF Cons.prems(1), of q k] Cons.prems(2)
    by (simp add: lease_step_eq lease_serves_eq)
  moreover have "store_ok (lease_step s q)"
    using lease_store.step_inv [OF Cons.prems(1)] by (simp add: lease_step_eq)
  ultimately have "map_of (foldl lease_step (lease_step s q) qs) k = Some l"
    by (intro Cons.IH) (use Cons.prems(3) in \<open>auto\<close>)
  then show ?case by simp
qed simp

lemma serves_Inr: "lease_serves q s \<Longrightarrow> \<exists>r. lease_exec q s = Inr r"
  unfolding lease_serves_def by (cases "lease_exec q s") simp_all

subsection \<open>Exclusion\<close>

definition excluded :: "string \<Rightarrow> project_lease \<Rightarrow> lease_op \<Rightarrow> bool" where
  "excluded k l q \<longleftrightarrow> protocol_op q \<and>
     (if lease_target q = k then has_active_lease l (op_time q) \<and> presented_token q \<noteq> pl_lease_token l
      else True)"

lemma excluded_run:
  assumes "map_of (lease_run pre) k = Some l" and "list_all (excluded k l) qs"
  shows "map_of (lease_run (pre @ qs)) k = Some l"
  unfolding run_append
proof (rule run_refused [OF run_ok assms(1)])
  fix q s'
  assume q: "q \<in> set qs" and l: "map_of s' k = Some l" and t: "lease_target q = k"
  from q assms(2) have "excluded k l q" by (simp add: list_all_iff)
  then have x: "protocol_op q" "has_active_lease l (op_time q)" "presented_token q \<noteq> pl_lease_token l"
    using t by (simp_all add: excluded_def)
  show "\<not> lease_serves q s'"
  proof
    assume "lease_serves q s'"
    then obtain r where "lease_exec q s' = Inr r" using serves_Inr by blast
    from protocol_guards(1) [OF this x(1), of l] l t x show False by simp
  qed
qed

definition rests :: "project_lease \<Rightarrow> lease_op \<Rightarrow> bool" where
  "rests l q \<longleftrightarrow> protocol_op q \<and> \<not> (pl_state l = LeaseQuarantined \<and> clears_quarantine q)"

lemma terminal_run:
  assumes "map_of (lease_run pre) k = Some l" and "is_terminal_project_lease_state (pl_state l)"
    and "list_all (rests l) qs"
  shows "map_of (lease_run (pre @ qs)) k = Some l"
  unfolding run_append
proof (rule run_refused [OF run_ok assms(1)])
  fix q s'
  assume q: "q \<in> set qs" and l: "map_of s' k = Some l" and t: "lease_target q = k"
  from q assms(3) have x: "protocol_op q" "\<not> (pl_state l = LeaseQuarantined \<and> clears_quarantine q)"
    by (simp_all add: list_all_iff rests_def)
  show "\<not> lease_serves q s'"
  proof
    assume "lease_serves q s'"
    then obtain r where "lease_exec q s' = Inr r" using serves_Inr by blast
    from protocol_guards(2) [OF this x(1), of l] l t x(2) assms(2) show False
      by (simp add: clears_quarantine_iff)
  qed
qed

subsection \<open>Versions\<close>

lemma run_versions:
  assumes "map_of (lease_run pre) k = Some l"
  shows "\<exists>l'. map_of (lease_run (pre @ qs)) k = Some l' \<and>
    pl_lock_version l' = pl_lock_version l + int (lease_served k (lease_run pre) qs)"
  using lease_store.run_version [OF run_ok assms, of qs]
  by (simp add: run_append lease_step_eq lease_served_eq)

lemma update_conflict_iff:
  assumes "map_of s (project_worktree_key (pl_identity new)) = Some cur"
    and "li_project_id (pl_identity new) \<noteq> []" and "li_worktree_id (pl_identity new) \<noteq> []"
  shows "update_project_lease new n s = Inl LeaseLockConflict \<longleftrightarrow> pl_lock_version cur \<noteq> n"
proof -
  have load: "load_project_lease (li_project_id (pl_identity new)) (li_worktree_id (pl_identity new)) s = Inr cur"
    using assms by (simp add: load_Inr project_worktree_key_def)
  have "mk_lease x \<noteq> Inl LeaseLockConflict" for x
    by (simp add: mk_lease_def res_bind_Inl_iff)
  moreover have "write_lease x s \<noteq> Inl LeaseLockConflict" for x
    by (simp add: write_lease_def lease_key_def res_bind_Inl_iff)
  ultimately show ?thesis
    by (simp add: update_project_lease_def load res_bind_Inl_iff)
qed

subsection \<open>Claims\<close>

lemma lease_ok_of_run:
  "map_of (lease_run qs) k = Some l \<Longrightarrow> lease_ok l"
  using store_okD [OF run_ok] by blast

lemma claim_served_iff:
  assumes ok: "store_ok s"
  shows "\<not> isl (claim_project_lease p w a t s) \<longleftrightarrow>
    p \<noteq> [] \<and> w \<noteq> [] \<and> ca_run a \<noteq> [] \<and> ca_owner_id a \<noteq> [] \<and> ca_lease_token a \<noteq> [] \<and>
    0 < ca_lease_seconds a \<and>
    (case map_of s (p @ '':'' @ w) of None \<Rightarrow> True | Some l \<Rightarrow> claimable a t l)"
    (is "?served \<longleftrightarrow> ?cond")
proof
  assume ?served
  then obtain v s' where c: "claim_project_lease p w a t s = Inr (v, s')"
    by (cases "claim_project_lease p w a t s") auto
  show ?cond
  proof (rule claim_Inr [OF c])
    fix cur i lr
    assume load: "load_or_fresh p w (ca_run a) t s = Inr cur" and i: "mk_identity p w (ca_run a) = Inr i"
      and args: "0 < ca_lease_seconds a" "ca_owner_id a \<noteq> []" "ca_lease_token a \<noteq> []"
      and st: "\<not> is_terminal_project_lease_state (pl_state cur)"
      and retry: "case pl_next_retry_at cur of None \<Rightarrow> True | Some x \<Rightarrow> x \<le> t"
      and act: "\<not> has_active_lease cur t"
      and to: "if pl_state cur = Leased then ca_takeover_validated a
         else ensure_project_lease_transition (pl_state cur) Leased = Inr ()"
    have "claimable a t cur"
      unfolding claimable_iff using st retry act to by (simp split: option.splits)
    with load args i show ?cond
      by (auto simp: load_or_fresh_Inr mk_identity_Inr split: option.splits)
  qed
next
  assume c: ?cond
  define i where "i = \<lparr>li_project_id = p, li_worktree_id = w, li_run_id = ca_run a\<rparr>"
  obtain cur where load: "load_or_fresh p w (ca_run a) t s = Inr cur"
    and cl: "claimable a t cur" and mk: "mk_lease cur = Inr cur"
  proof (cases "map_of s (p @ '':'' @ w)")
    case None
    have "load_or_fresh p w (ca_run a) t s = Inr (fresh_lease i t)"
      using c None by (simp add: load_or_fresh_Inr i_def)
    then show ?thesis by (rule that) (simp_all add: claimable_def fresh_lease_def mk_lease_def)
  next
    case (Some l)
    then have "load_or_fresh p w (ca_run a) t s = Inr l" using c by (simp add: load_or_fresh_Inr)
    moreover have "mk_lease l = Inr l" using store_okD [OF ok Some] by (simp add: lease_ok_def)
    moreover have "claimable a t l" using c Some by simp
    ultimately show ?thesis by (intro that) simp_all
  qed
  from c have run: "ca_run a \<noteq> []" "0 < ca_lease_seconds a" "ca_owner_id a \<noteq> []" "ca_lease_token a \<noteq> []"
    by simp_all
  obtain v s' where "claim_project_lease p w a t s = Inr (v, s')"
    using claim_succeeds [OF load run mk cl] by (elim exE conjE)
  then show ?served by simp
qed

subsection \<open>The failure budget\<close>

lemma fail_outcome:
  assumes load: "load_project_lease p w s = Inr l" and ok: "mk_lease l = Inr l"
    and st: "pl_state l = Leased" and tok: "pl_lease_token l = Some k" "k \<noteq> []"
    and fin: "case r of None \<Rightarrow> True | Some d \<Rightarrow> finite_json (JObj d)"
    and key: "li_project_id (pl_identity l) \<noteq> []" "li_worktree_id (pl_identity l) \<noteq> []"
  shows "case fail_project_lease p w k why r at t s of
      Inl e \<Rightarrow> e = LeaseValueError \<and> pl_max_failures l = Some (pl_failure_count l)
    | Inr (v, s') \<Rightarrow> pl_failure_count v = pl_failure_count l + 1 \<and>
        pl_state v = (if pl_max_failures l = Some (pl_failure_count l + 1) then LeaseFailed else LeasePending) \<and>
        pl_retry_count v = pl_retry_count l + (if pl_state v = LeasePending then 1 else 0) \<and>
        pl_lease_token v = None"
proof -
  define new where "new = l\<lparr>pl_state := fail_target l, pl_owner_id := None,
          pl_lease_token := None, pl_lease_expires_at := None,
          pl_retry_count := (if fail_target l = LeasePending then pl_retry_count l + 1
                             else pl_retry_count l),
          pl_failure_count := pl_failure_count l + 1, pl_last_failure_at := Some t,
          pl_next_retry_at := (if fail_target l = LeasePending then at else None),
          pl_last_failure_reason := Some why, pl_last_result := r,
          pl_updated_at := t, pl_lock_version := pl_lock_version l + 1\<rparr>"
  have tr: "ensure_project_lease_transition Leased (fail_target l) = Inr ()"
    by (auto simp: transition_iff terminal_iff can_transition_project_lease_def fail_target_def
        split: option.splits)
  have run: "fail_project_lease p w k why r at t s = res_bind (mk_lease new) (\<lambda>stored. write_lease stored s)"
    unfolding fail_project_lease_def Let_def new_def
    using load st tok tr by (simp add: ensure_matching_token_def no_text_def)
  have bound: "case pl_max_failures l of None \<Rightarrow> True | Some m \<Rightarrow> 1 \<le> m \<and> pl_failure_count l \<le> m"
    "0 \<le> pl_retry_count l" "0 \<le> pl_failure_count l" "0 \<le> pl_lock_version l"
    using ok by (auto simp: mk_lease_def split: option.splits)
  have target: "fail_target l =
      (case pl_max_failures l of None \<Rightarrow> LeasePending
       | Some m \<Rightarrow> if pl_failure_count l + 1 < m then LeasePending else LeaseFailed)"
    by (rule fail_target_def)
  have new: "pl_max_failures new = pl_max_failures l" "pl_failure_count new = pl_failure_count l + 1"
    "pl_retry_count new = (if fail_target l = LeasePending then pl_retry_count l + 1 else pl_retry_count l)"
    "pl_state new = fail_target l" "pl_last_result new = r" "pl_lock_version new = pl_lock_version l + 1"
    "pl_identity new = pl_identity l" "pl_lease_token new = None"
    by (simp_all add: new_def)
  have state: "fail_target l \<noteq> Leased" "fail_target l \<noteq> LeaseQuarantined"
    by (simp_all add: target split: option.splits)
  have mk: "mk_lease new = (if pl_max_failures l = Some (pl_failure_count l) then Inl LeaseValueError else Inr new)"
    using bound fin state unfolding mk_lease_def new
    by (cases "pl_max_failures l") (auto simp: ensure_def)
  have wr: "write_lease new s = Inr (new, AList.update (project_worktree_key (pl_identity l)) (lease_reload new) s)"
    using key by (simp add: write_Inr new)
  show ?thesis
  proof (cases "pl_max_failures l = Some (pl_failure_count l)")
    case True
    then show ?thesis by (simp add: run mk)
  next
    case False
    then have "fail_project_lease p w k why r at t s =
        Inr (new, AList.update (project_worktree_key (pl_identity l)) (lease_reload new) s)"
      by (simp add: run mk wr)
    then show ?thesis
      using False bound(1) by (auto simp: new target split: option.splits)
  qed
qed

subsection \<open>What the file holds\<close>

text \<open>\<^verbatim>\<open>__post_init__\<close> as one condition.\<close>

definition lease_valid :: "project_lease \<Rightarrow> bool" where
  "lease_valid l \<longleftrightarrow> 0 \<le> pl_retry_count l \<and> 0 \<le> pl_failure_count l \<and> 0 \<le> pl_lock_version l \<and>
     (case pl_max_failures l of None \<Rightarrow> True | Some m \<Rightarrow> 1 \<le> m \<and> pl_failure_count l \<le> m) \<and>
     (pl_state l = Leased \<longrightarrow>
        \<not> no_text (pl_owner_id l) \<and> \<not> no_text (pl_lease_token l) \<and> pl_lease_expires_at l \<noteq> None) \<and>
     (pl_state l = LeaseQuarantined \<longrightarrow> \<not> no_text (pl_quarantine_reason l)) \<and>
     (case pl_last_result l of None \<Rightarrow> True | Some d \<Rightarrow> finite_json (JObj d))"

lemma mk_lease_iff: "mk_lease l = Inr l' \<longleftrightarrow> lease_valid l \<and> l' = l"
  unfolding mk_lease_def lease_valid_def by (auto split: option.splits)

lemma step_distinct:
  assumes "store_ok s" and "distinct (map fst s)"
  shows "distinct (map fst (lease_step s q))"
proof (cases "lease_exec q s")
  case (Inr r)
  then obtain v s' where e: "lease_exec q s = Inr (v, s')" by (cases r) simp
  from exec_writes [OF assms(1) e] assms(2) e show ?thesis
    by (simp add: lease_step_def writes_def distinct_update)
qed (use assms in \<open>simp add: lease_step_def\<close>)

lemma run_distinct: "distinct (map fst (lease_run qs))"
proof (induction qs rule: rev_induct)
  case (snoc q qs)
  with step_distinct [OF run_ok] show ?case by (simp add: run_append)
qed (simp add: lease_run_def)

lemma run_entry:
  assumes "(k, l) \<in> set (lease_run qs)"
  shows "lease_ok l \<and> k = project_worktree_key (pl_identity l)"
proof -
  have "map_of (lease_run qs) k = Some l" using assms run_distinct by simp
  then show ?thesis using store_okD [OF run_ok] by blast
qed

lemma listed_valid: "list_all lease_valid (list_project_leases (lease_run qs))"
  using run_entry [of _ _ qs] by (auto simp: list_all_iff list_project_leases_def lease_ok_def mk_lease_iff)

lemma listed_keys:
  "map (project_worktree_key \<circ> pl_identity) (list_project_leases (lease_run qs)) =
     map fst (sort_key fst (lease_run qs))"
  using run_entry [of _ _ qs] by (auto simp: list_project_leases_def)

lemma listed_distinct: "distinct (map fst (sort_key fst (lease_run qs)))"
  using run_distinct by (simp add: distinct_map_sort_key)

subsection \<open>Keys\<close>

lemma split_key:
  "(p @ CHR '':'' # w = p' @ CHR '':'' # w') = (p = p' \<and> w = w')"
  if "CHR '':'' \<notin> set p" and "CHR '':'' \<notin> set p'"
proof -
  have "takeWhile (\<lambda>c. c \<noteq> CHR '':'') (x @ CHR '':'' # y) = x" if "CHR '':'' \<notin> set x" for x y
    using that by (subst takeWhile_append2) auto
  then show ?thesis using that by (metis append_same_eq same_append_eq list.inject)
qed

lemma load_identity:
  assumes "load_project_lease p w (lease_run qs) = Inr l"
  shows "p @ '':'' @ w = project_worktree_key (pl_identity l)"
  using assms store_okD [OF run_ok] by (auto simp: load_Inr)

text \<open>With a colon in the ids two projects share a record: project \<open>a:b\<close> with worktree \<open>c\<close> and
  project \<open>a\<close> with worktree \<open>b:c\<close> have one key, so the second one finds the record of the first.\<close>

lemma colliding_ids_share_a_lease:
  "load_project_lease ''a'' ''b:c'' s = load_project_lease ''a:b'' ''c'' s"
  by (simp add: load_project_lease_def lease_key_def)

subsection \<open>A concrete run\<close>

text \<open>The claim of a worker, and the lease it leaves in an empty store.\<close>

definition sample_claim :: lease_op where
  "sample_claim = ClaimLease ''app'' ''wt'' \<lparr>ca_run = ''r1'', ca_owner_id = ''w1'', ca_lease_token = ''t1'',
     ca_lease_seconds = 60, ca_takeover_validated = False, ca_takeover_reason = None\<rparr> 0"

definition sample_lease :: project_lease where
  "sample_lease = (fresh_lease \<lparr>li_project_id = ''app'', li_worktree_id = ''wt'', li_run_id = ''r1''\<rparr> 0)
     \<lparr>pl_state := Leased, pl_owner_id := Some ''w1'', pl_lease_token := Some ''t1'',
      pl_lease_expires_at := Some 60000000, pl_last_heartbeat_at := Some 0, pl_lock_version := 1\<rparr>"

lemmas lease_eval = lease_run_def lease_step_def lease_defs load_or_fresh_def load_project_lease_def
  lease_key_def mk_identity_def mk_lease_def fresh_lease_def write_lease_def lease_reload_def
  no_text_def has_active_lease_def is_terminal_project_lease_state_def
  TERMINAL_PROJECT_LEASE_STATES_def ensure_project_lease_transition_def
  can_transition_project_lease_def claim_last_result_def seconds_def ensure_matching_token_def

lemma sample_run: "lease_run [sample_claim] = [(''app:wt'', sample_lease)]"
  by (simp add: sample_claim_def sample_lease_def lease_eval)

definition sample_rest :: project_lease where
  "sample_rest = sample_lease\<lparr>pl_state := LeaseSucceeded, pl_owner_id := None, pl_lease_token := None,
     pl_lease_expires_at := None, pl_updated_at := 5, pl_lock_version := 2\<rparr>"

lemma sample_complete:
  "lease_run [sample_claim, CompleteLease ''app'' ''wt'' ''t1'' None 5] = [(''app:wt'', sample_rest)]"
  by (simp add: sample_claim_def sample_rest_def sample_lease_def lease_eval)

subsection \<open>The properties\<close>

text \<open>C28. An unexpired lease is exclusive. Whatever was served before, as long as every protocol
  request on its key comes before the lease expires and does not present the lease's token, no
  sequence of requests changes the lease.\<close>

theorem active_lease_is_exclusive:
  assumes "map_of (lease_run pre) k = Some l" and "list_all (excluded k l) qs"
  shows "map_of (lease_run (pre @ qs)) k = Some l"
  using assms by (rule excluded_run)

lemma active_lease_is_exclusive_witness:
  "map_of (lease_run ([sample_claim] @ [ClaimLease ''app'' ''wt'' \<lparr>ca_run = ''r2'', ca_owner_id = ''w2'',
     ca_lease_token = ''t2'', ca_lease_seconds = 60, ca_takeover_validated = True,
     ca_takeover_reason = None\<rparr> 59999999])) ''app:wt'' = Some sample_lease"
  by (rule active_lease_is_exclusive)
    (simp_all add: sample_run excluded_def sample_lease_def has_active_lease_def)

text \<open>C29. A succeeded, failed, cancelled or quarantined lease is never changed again by the
  protocol, except that clearing a quarantine reopens a quarantined one.\<close>

theorem terminal_leases_rest:
  assumes "map_of (lease_run pre) k = Some l" and "is_terminal_project_lease_state (pl_state l)"
    and "list_all (rests l) qs"
  shows "map_of (lease_run (pre @ qs)) k = Some l"
  using assms by (rule terminal_run)

lemma terminal_leases_rest_witness:
  "map_of (lease_run ([sample_claim, CompleteLease ''app'' ''wt'' ''t1'' None 5] @
     [CancelLease ''app'' ''wt'' None None 6, ClearQuarantine ''app'' ''wt'' None 7])) ''app:wt'' =
     Some sample_rest"
  by (rule terminal_leases_rest)
    (simp_all add: sample_complete rests_def sample_rest_def terminal_iff)

text \<open>Optimistic updates lose no write. An update that names the version it read is refused
  with a lock conflict exactly when some request was served on that lease in between.\<close>

theorem stale_update_is_refused:
  assumes "map_of (lease_run pre) (project_worktree_key (pl_identity new)) = Some l"
    and "li_project_id (pl_identity new) \<noteq> []" and "li_worktree_id (pl_identity new) \<noteq> []"
  shows "update_project_lease new (pl_lock_version l) (lease_run (pre @ qs)) = Inl LeaseLockConflict \<longleftrightarrow>
    0 < lease_served (project_worktree_key (pl_identity new)) (lease_run pre) qs"
proof -
  obtain l' where l': "map_of (lease_run (pre @ qs)) (project_worktree_key (pl_identity new)) = Some l'"
    and v: "pl_lock_version l' = pl_lock_version l +
      int (lease_served (project_worktree_key (pl_identity new)) (lease_run pre) qs)"
    using run_versions [OF assms(1)] by blast
  show ?thesis unfolding update_conflict_iff [OF l' assms(2,3)] using v by simp
qed

lemma stale_update_is_refused_witness:
  "update_project_lease sample_lease (pl_lock_version sample_lease)
     (lease_run ([sample_claim] @ [CompleteLease ''app'' ''wt'' ''t1'' None 5])) = Inl LeaseLockConflict \<longleftrightarrow>
   0 < lease_served (project_worktree_key (pl_identity sample_lease)) (lease_run [sample_claim])
         [CompleteLease ''app'' ''wt'' ''t1'' None 5]"
  by (rule stale_update_is_refused)
    (simp_all add: sample_run sample_lease_def fresh_lease_def project_worktree_key_def)

text \<open>A claim is served exactly when its arguments are non-empty and positive and the record
  under the key is absent, pending past its retry time, or leased, expired and taken over with a
  validated takeover.\<close>

theorem claim_served_exactly_when_claimable:
  "\<not> isl (claim_project_lease p w a t (lease_run qs)) \<longleftrightarrow>
    p \<noteq> [] \<and> w \<noteq> [] \<and> ca_run a \<noteq> [] \<and> ca_owner_id a \<noteq> [] \<and> ca_lease_token a \<noteq> [] \<and>
    0 < ca_lease_seconds a \<and>
    (case map_of (lease_run qs) (p @ '':'' @ w) of None \<Rightarrow> True | Some l \<Rightarrow> claimable a t l)"
  by (rule claim_served_iff [OF run_ok])

text \<open>Failing a held lease spends the failure budget: the lease returns to pending for a retry,
  becomes failed exactly when the count reaches the maximum, and with an exhausted budget the call
  raises \<^verbatim>\<open>ValueError\<close> and the lease stays leased.\<close>

theorem failing_spends_the_budget:
  assumes "load_project_lease p w (lease_run qs) = Inr l"
    and "pl_state l = Leased" and "pl_lease_token l = Some k"
    and "case r of None \<Rightarrow> True | Some d \<Rightarrow> finite_json (JObj d)"
  shows "case fail_project_lease p w k why r at t (lease_run qs) of
      Inl e \<Rightarrow> e = LeaseValueError \<and> pl_max_failures l = Some (pl_failure_count l)
    | Inr (v, s') \<Rightarrow> pl_failure_count v = pl_failure_count l + 1 \<and>
        pl_state v = (if pl_max_failures l = Some (pl_failure_count l + 1) then LeaseFailed else LeasePending) \<and>
        pl_retry_count v = pl_retry_count l + (if pl_state v = LeasePending then 1 else 0) \<and>
        pl_lease_token v = None"
proof -
  have ok: "lease_ok l" using assms(1) lease_ok_of_run by (auto simp: load_Inr)
  then have valid: "mk_lease l = Inr l" by (simp add: lease_ok_def)
  then have "k \<noteq> []" using assms(2,3) by (auto simp: mk_lease_iff lease_valid_def no_text_def)
  then show ?thesis
    using fail_outcome [OF assms(1) valid assms(2,3) _ assms(4)] ok by (simp add: lease_ok_def)
qed

lemma failing_spends_the_budget_witness:
  "case fail_project_lease ''app'' ''wt'' ''t1'' ''boom'' None None 7 (lease_run [sample_claim]) of
      Inl e \<Rightarrow> e = LeaseValueError \<and> pl_max_failures sample_lease = Some (pl_failure_count sample_lease)
    | Inr (v, s') \<Rightarrow> pl_failure_count v = pl_failure_count sample_lease + 1 \<and>
        pl_state v = (if pl_max_failures sample_lease = Some (pl_failure_count sample_lease + 1)
                      then LeaseFailed else LeasePending) \<and>
        pl_retry_count v = pl_retry_count sample_lease + (if pl_state v = LeasePending then 1 else 0) \<and>
        pl_lease_token v = None"
  by (rule failing_spends_the_budget) (simp_all add: sample_run load_Inr, simp_all add: sample_lease_def)

text \<open>After any requests, the listed leases are valid records under distinct keys in ascending
  order: counters within their bounds, a leased record with owner, token and expiry, a quarantined
  one with its reason, results that are finite JSON.\<close>

theorem listed_leases_are_valid:
  "list_all lease_valid (list_project_leases (lease_run qs)) \<and>
   sorted (map (project_worktree_key \<circ> pl_identity) (list_project_leases (lease_run qs))) \<and>
   distinct (map (project_worktree_key \<circ> pl_identity) (list_project_leases (lease_run qs)))"
  unfolding listed_keys using listed_valid listed_distinct by simp

text \<open>The record found for a project and worktree is theirs when neither project id has a
  colon; with colons two projects can share a record, as \<open>a:b\<close> with worktree \<open>c\<close> and \<open>a\<close> with
  worktree \<open>b:c\<close> do.\<close>

theorem loaded_lease_is_the_requested_one:
  assumes "load_project_lease p w (lease_run qs) = Inr l"
    and "CHR '':'' \<notin> set p" and "CHR '':'' \<notin> set (li_project_id (pl_identity l))"
  shows "li_project_id (pl_identity l) = p \<and> li_worktree_id (pl_identity l) = w \<and>
    load_project_lease ''a'' ''b:c'' s = load_project_lease ''a:b'' ''c'' s"
  using load_identity [OF assms(1)] assms(2,3) colliding_ids_share_a_lease
  by (simp add: project_worktree_key_def split_key)

lemma loaded_lease_is_the_requested_one_witness:
  "li_project_id (pl_identity sample_lease) = ''app'' \<and> li_worktree_id (pl_identity sample_lease) = ''wt'' \<and>
   load_project_lease ''a'' ''b:c'' [] = load_project_lease ''a:b'' ''c'' []"
  by (rule loaded_lease_is_the_requested_one [where qs = "[sample_claim]"])
    (simp_all add: sample_run load_Inr, simp add: sample_lease_def fresh_lease_def)

end
