(* ===== verification/Restart.thy ===== *)
theory Restart
  imports Lease_Properties
begin

section \<open>Restart delays and crash-loop quarantine\<close>

text \<open>
  \<^verbatim>\<open>arnold/supervisor/restart.py\<close> on top of the lease store. The jitter is derived from the first
  eight bytes of a SHA-256 digest, read as a big-endian number; \<open>digest8\<close> stands for that function.
\<close>

subsection \<open>Policy and decisions\<close>

record restart_policy =
  retry_delay_seconds :: int
  jitter_seconds :: int
  rapid_failure_window :: int
  quarantine_failure_count :: int

definition mk_restart_policy :: "restart_policy \<Rightarrow> py_error + restart_policy" where
  "mk_restart_policy p =
     res_bind (ensure (0 \<le> retry_delay_seconds p) ValueError) (\<lambda>_.
     res_bind (ensure (0 \<le> jitter_seconds p) ValueError) (\<lambda>_.
     res_bind (ensure (0 < rapid_failure_window p) ValueError) (\<lambda>_.
     res_bind (ensure (2 \<le> quarantine_failure_count p) ValueError) (\<lambda>_.
       Inr p))))"

record restart_delay =
  rt_retry_at :: instant
  rt_base_delay_seconds :: int
  rt_jitter_seconds :: int
  rt_effective_delay_seconds :: int

datatype suspension_state = SuspPending | SuspResumed | SuspCancelled | SuspQuarantined

fun suspension_state_value :: "suspension_state \<Rightarrow> string" where
  "suspension_state_value SuspPending = ''pending''"
| "suspension_state_value SuspResumed = ''resumed''"
| "suspension_state_value SuspCancelled = ''cancelled''"
| "suspension_state_value SuspQuarantined = ''quarantined''"

fun lease_state_value :: "lease_state \<Rightarrow> string" where
  "lease_state_value LeasePending = ''pending''"
| "lease_state_value Leased = ''leased''"
| "lease_state_value LeaseSucceeded = ''succeeded''"
| "lease_state_value LeaseFailed = ''failed''"
| "lease_state_value LeaseCancelled = ''cancelled''"
| "lease_state_value LeaseQuarantined = ''quarantined''"

record restart_decision =
  rd_allowed :: bool
  rd_reason :: string
  rd_retry_at :: "instant option"
  rd_effective_delay_seconds :: int
  rd_manual_clear_required :: bool
  rd_quarantine_reason :: "string option"
  rd_suspension_state :: "suspension_state option"

definition restart_decision_of :: "bool \<Rightarrow> string \<Rightarrow> restart_decision" where
  "restart_decision_of allowed reason = \<lparr>rd_allowed = allowed, rd_reason = reason, rd_retry_at = None,
     rd_effective_delay_seconds = 0, rd_manual_clear_required = False, rd_quarantine_reason = None,
     rd_suspension_state = None\<rparr>"

definition json_time :: "instant option \<Rightarrow> json" where
  "json_time t = opt_json (JStr \<circ> datetime_to_json) t"

definition restart_to_last_result :: "restart_decision \<Rightarrow> json" where
  "restart_to_last_result d = JObj
     [(''allowed'', JBool (rd_allowed d)), (''reason'', JStr (rd_reason d)),
      (''retry_at'', json_time (rd_retry_at d)),
      (''effective_delay_seconds'', JInt (rd_effective_delay_seconds d)),
      (''manual_clear_required'', JBool (rd_manual_clear_required d)),
      (''quarantine_reason'', opt_json JStr (rd_quarantine_reason d)),
      (''suspension_state'', opt_json (JStr \<circ> suspension_state_value) (rd_suspension_state d))]"

subsection \<open>Operations\<close>

definition compute_restart_delay ::
    "(string \<Rightarrow> nat) \<Rightarrow> project_lease \<Rightarrow> restart_policy \<Rightarrow> instant \<Rightarrow> restart_delay" where
  "compute_restart_delay digest8 l policy timestamp =
     (let failure_scale = max (pl_failure_count l) 1;
          base = retry_delay_seconds policy * failure_scale;
          budget = jitter_seconds policy * failure_scale;
          jitter =
            (if budget \<le> 0 then 0
             else int (digest8 (project_worktree_key (pl_identity l) @ '':'' @
                                int_str (pl_failure_count l) @ '':'' @ int_str (pl_retry_count l)))
                  mod (budget + 1));
          effective = base + jitter
      in \<lparr>rt_retry_at = timestamp + seconds effective, rt_base_delay_seconds = base,
          rt_jitter_seconds = jitter, rt_effective_delay_seconds = effective\<rparr>)"

definition evaluate_automatic_restart :: "project_lease \<Rightarrow> instant \<Rightarrow> restart_decision" where
  "evaluate_automatic_restart l timestamp =
     (let finished =
        (if pl_state l \<in> {LeaseSucceeded, LeaseFailed, LeaseCancelled}
         then restart_decision_of False (''lease_not_restartable:'' @ lease_state_value (pl_state l))
         else restart_decision_of True ''restart_allowed'')
      in if pl_state l = LeaseQuarantined
         then (restart_decision_of False ''manual_quarantine_clear_required'')
                \<lparr>rd_manual_clear_required := True, rd_quarantine_reason := pl_quarantine_reason l,
                 rd_suspension_state := Some SuspQuarantined\<rparr>
         else case pl_next_retry_at l of
                None \<Rightarrow> finished
              | Some t \<Rightarrow>
                  if timestamp < t
                  then (restart_decision_of False ''retry_delay_active'')
                         \<lparr>rd_retry_at := Some t,
                          rd_effective_delay_seconds := max ((t - timestamp) div 1000000) 0\<rparr>
                  else finished)"

definition is_rapid_failure :: "project_lease \<Rightarrow> restart_policy \<Rightarrow> instant \<Rightarrow> bool" where
  "is_rapid_failure l policy timestamp \<longleftrightarrow>
     (case pl_last_failure_at l of None \<Rightarrow> False | Some t \<Rightarrow> timestamp - t \<le> rapid_failure_window policy)"

definition dict_or_nil :: "(string \<times> json) list option \<Rightarrow> (string \<times> json) list" where
  "dict_or_nil r = (case r of None \<Rightarrow> [] | Some d \<Rightarrow> d)"

definition record_restart_failure ::
    "(string \<Rightarrow> nat) \<Rightarrow> project_lease \<Rightarrow> string \<Rightarrow> string \<Rightarrow> restart_policy \<Rightarrow> instant \<Rightarrow>
     (string \<times> json) list option \<Rightarrow> lease_store \<Rightarrow> lease_result" where
  "record_restart_failure digest8 l lease_token reason policy timestamp result store =
     (if is_rapid_failure l policy timestamp \<and> quarantine_failure_count policy \<le> pl_failure_count l + 1
      then
        let quarantine_reason = ''crash_loop:'' @ reason;
            decision = (restart_decision_of False ''crash_loop_quarantined'')
              \<lparr>rd_manual_clear_required := True, rd_quarantine_reason := Some quarantine_reason,
               rd_suspension_state := Some SuspQuarantined\<rparr>
        in quarantine_project_lease (li_project_id (pl_identity l)) (li_worktree_id (pl_identity l))
             quarantine_reason (Some lease_token)
             (Some (AList.update ''restart'' (restart_to_last_result decision) (dict_or_nil result)))
             timestamp store
      else
        let delay = compute_restart_delay digest8 l policy timestamp
        in fail_project_lease (li_project_id (pl_identity l)) (li_worktree_id (pl_identity l))
             lease_token reason
             (Some (AList.update ''restart''
                (JObj [(''allowed'', JBool True), (''reason'', JStr ''retry_scheduled''),
                       (''retry_at'', json_time (Some (rt_retry_at delay))),
                       (''effective_delay_seconds'', JInt (rt_effective_delay_seconds delay)),
                       (''base_delay_seconds'', JInt (rt_base_delay_seconds delay)),
                       (''jitter_seconds'', JInt (rt_jitter_seconds delay))])
                (dict_or_nil result)))
             (Some (rt_retry_at delay)) timestamp store)"

definition clear_quarantined_project_lease ::
    "string \<Rightarrow> string \<Rightarrow> instant \<Rightarrow> (string \<times> json) list option \<Rightarrow> lease_store \<Rightarrow> lease_result" where
  "clear_quarantined_project_lease project_id worktree_id timestamp result store =
     clear_project_quarantine project_id worktree_id result timestamp store"

subsection \<open>The delay\<close>

lemma delay_bounds:
  assumes "mk_restart_policy policy = Inr policy'" and "0 \<le> pl_failure_count l"
  shows "retry_delay_seconds policy * max (pl_failure_count l) 1
       \<le> rt_effective_delay_seconds (compute_restart_delay digest8 l policy t) \<and>
     rt_effective_delay_seconds (compute_restart_delay digest8 l policy t)
       \<le> (retry_delay_seconds policy + jitter_seconds policy) * max (pl_failure_count l) 1 \<and>
     rt_retry_at (compute_restart_delay digest8 l policy t) =
       t + seconds (rt_effective_delay_seconds (compute_restart_delay digest8 l policy t))"
proof -
  have pos: "0 \<le> jitter_seconds policy" using assms(1) by (auto simp: mk_restart_policy_def)
  define b where "b = jitter_seconds policy * max (pl_failure_count l) 1"
  have b: "0 \<le> b" using pos by (simp add: b_def)
  define j where "j = (if b \<le> 0 then 0
             else int (digest8 (project_worktree_key (pl_identity l) @ '':'' @
                                int_str (pl_failure_count l) @ '':'' @ int_str (pl_retry_count l)))
                  mod (b + 1))"
  have "0 \<le> x mod (b + 1) \<and> x mod (b + 1) \<le> b" for x
    using pos_mod_sign [of "b + 1" x] pos_mod_bound [of "b + 1" x] b by linarith
  then have j: "0 \<le> j" "j \<le> b"
    using b unfolding j_def by (simp_all only: split: if_split) blast+
  have "rt_effective_delay_seconds (compute_restart_delay digest8 l policy t) =
      retry_delay_seconds policy * max (pl_failure_count l) 1 + j"
    unfolding compute_restart_delay_def Let_def b_def j_def by (simp only: restart_delay.simps)
  moreover have "rt_retry_at (compute_restart_delay digest8 l policy t) =
      t + seconds (rt_effective_delay_seconds (compute_restart_delay digest8 l policy t))"
    unfolding compute_restart_delay_def Let_def by (simp only: restart_delay.simps)
  ultimately show ?thesis using j by (simp add: b_def distrib_right)
qed

text \<open>The claim gate is the restart gate with the takeover rule for a leased record.\<close>

lemma claimable_iff_restart_allowed:
  "claimable a t l \<longleftrightarrow> rd_allowed (evaluate_automatic_restart l t) \<and>
     (pl_state l = Leased \<longrightarrow> \<not> has_active_lease l t \<and> ca_takeover_validated a)"
  by (cases "pl_state l"; cases "pl_next_retry_at l")
    (auto simp: claimable_def evaluate_automatic_restart_def restart_decision_of_def Let_def)

text \<open>A lease written under its key is what a claim on that key finds.\<close>

lemma claim_refused:
  assumes "store_ok s" and "map_of s (p @ '':'' @ w) = Some l" and "\<not> claimable a t l"
  shows "isl (claim_project_lease p w a t s)"
  using claim_served_iff [OF assms(1), of p w a t] assms(2,3) by auto

lemma run_serves_ok:
  assumes "lease_exec q (lease_run qs) = Inr (v, s')"
  shows "store_ok s'" and "map_of s' (lease_target q) = Some (lease_reload v)"
proof -
  note w = exec_writes [OF run_ok assms]
  show "store_ok s'" by (rule writes_ok [OF run_ok w])
  show "map_of s' (lease_target q) = Some (lease_reload v)" using w by (simp add: writes_def update_conv)
qed

lemma failure_record_state:
  assumes r: "record_restart_failure digest8 l k why policy t res s = Inr (v, s')"
  shows "pl_state v \<in> {LeaseQuarantined, LeaseFailed} \<or>
    pl_state v = LeasePending \<and> pl_next_retry_at v = Some (rt_retry_at (compute_restart_delay digest8 l policy t))"
proof (cases "is_rapid_failure l policy t \<and> quarantine_failure_count policy \<le> pl_failure_count l + 1")
  case True
  from r True obtain x reason where
    "finish_project_lease (li_project_id (pl_identity l)) (li_worktree_id (pl_identity l)) (Some k)
       LeaseQuarantined x (Some reason) t s = Inr (v, s')"
    by (simp add: record_restart_failure_def Let_def quarantine_project_lease_def)
  then show ?thesis
    by (rule finish_Inr) (auto dest!: mk_lease_same)
next
  case False
  from r False obtain x where
    "fail_project_lease (li_project_id (pl_identity l)) (li_worktree_id (pl_identity l)) k why x
       (Some (rt_retry_at (compute_restart_delay digest8 l policy t))) t s = Inr (v, s')"
    by (auto simp: record_restart_failure_def Let_def)
  then show ?thesis
  proof (rule fail_Inr)
    fix cur
    assume "mk_lease (cur\<lparr>pl_state := fail_target cur, pl_owner_id := None,
          pl_lease_token := None, pl_lease_expires_at := None,
          pl_retry_count := (if fail_target cur = LeasePending then pl_retry_count cur + 1
                             else pl_retry_count cur),
          pl_failure_count := pl_failure_count cur + 1, pl_last_failure_at := Some t,
          pl_next_retry_at := (if fail_target cur = LeasePending
             then Some (rt_retry_at (compute_restart_delay digest8 l policy t)) else None),
          pl_last_failure_reason := Some why, pl_last_result := x,
          pl_updated_at := t, pl_lock_version := pl_lock_version cur + 1\<rparr>) = Inr v"
    moreover have "fail_target cur \<in> {LeasePending, LeaseFailed}"
      by (simp add: fail_target_def split: option.splits)
    ultimately show ?thesis by (auto dest!: mk_lease_same)
  qed
qed

text \<open>A recorded failure is one request of the store.\<close>

lemma failure_record_op:
  assumes "record_restart_failure digest8 l k why policy t res s = Inr r"
  shows "\<exists>q. lease_exec q s = Inr r \<and> lease_target q = project_worktree_key (pl_identity l)"
proof (cases "is_rapid_failure l policy t \<and> quarantine_failure_count policy \<le> pl_failure_count l + 1")
  case True
  with assms obtain reason x where "quarantine_project_lease (li_project_id (pl_identity l))
      (li_worktree_id (pl_identity l)) reason (Some k) x t s = Inr r"
    by (auto simp: record_restart_failure_def Let_def)
  then show ?thesis
    by (intro exI [of _ "QuarantineLease (li_project_id (pl_identity l)) (li_worktree_id (pl_identity l))
      reason (Some k) x t"]) (simp add: project_worktree_key_def)
next
  case False
  with assms obtain x at where "fail_project_lease (li_project_id (pl_identity l))
      (li_worktree_id (pl_identity l)) k why x at t s = Inr r"
    by (auto simp: record_restart_failure_def Let_def)
  then show ?thesis
    by (intro exI [of _ "FailLease (li_project_id (pl_identity l)) (li_worktree_id (pl_identity l))
      k why x at t"]) (simp add: project_worktree_key_def)
qed

lemma no_claim_before_delay:
  assumes pol: "mk_restart_policy policy = Inr policy'" and nonneg: "0 \<le> pl_failure_count l"
    and r: "record_restart_failure digest8 l k why policy t res (lease_run qs) = Inr (v, s')"
    and early: "t' < t + seconds (retry_delay_seconds policy * max (pl_failure_count l) 1)"
  shows "isl (claim_project_lease (li_project_id (pl_identity l)) (li_worktree_id (pl_identity l)) a t' s')"
proof -
  from failure_record_op [OF r] obtain q where q: "lease_exec q (lease_run qs) = Inr (v, s')"
    "lease_target q = project_worktree_key (pl_identity l)" by blast
  note ok = run_serves_ok [OF q(1)]
  have late: "t' < rt_retry_at (compute_restart_delay digest8 l policy t)"
    using delay_bounds [OF pol nonneg, of digest8 t] early by (simp add: seconds_def)
  have "\<not> claimable a t' (lease_reload v)"
    using failure_record_state [OF r] late by (auto simp: claimable_def)
  then show ?thesis
    by (intro claim_refused [OF ok(1)]) (use ok(2) q(2) in \<open>simp_all add: project_worktree_key_def\<close>)
qed

subsection \<open>The properties\<close>

definition sample_policy :: restart_policy where
  "sample_policy = \<lparr>retry_delay_seconds = 60, jitter_seconds = 15, rapid_failure_window = 900000000,
     quarantine_failure_count = 3\<rparr>"

text \<open>Under a valid policy the delay before a restart lies between the base delay and the base
  delay with the full jitter, both scaled by the failures of the lease.\<close>

theorem restart_delay_is_bounded:
  assumes "mk_restart_policy policy = Inr policy'" and "0 \<le> pl_failure_count l"
  shows "retry_delay_seconds policy * max (pl_failure_count l) 1
       \<le> rt_effective_delay_seconds (compute_restart_delay digest8 l policy t) \<and>
     rt_effective_delay_seconds (compute_restart_delay digest8 l policy t)
       \<le> (retry_delay_seconds policy + jitter_seconds policy) * max (pl_failure_count l) 1 \<and>
     rt_retry_at (compute_restart_delay digest8 l policy t) =
       t + seconds (rt_effective_delay_seconds (compute_restart_delay digest8 l policy t))"
  using assms by (rule delay_bounds)

lemma restart_delay_is_bounded_witness:
  "retry_delay_seconds sample_policy * max (pl_failure_count sample_lease) 1
       \<le> rt_effective_delay_seconds (compute_restart_delay length sample_lease sample_policy 0) \<and>
     rt_effective_delay_seconds (compute_restart_delay length sample_lease sample_policy 0)
       \<le> (retry_delay_seconds sample_policy + jitter_seconds sample_policy) *
         max (pl_failure_count sample_lease) 1 \<and>
     rt_retry_at (compute_restart_delay length sample_lease sample_policy 0) =
       0 + seconds (rt_effective_delay_seconds (compute_restart_delay length sample_lease sample_policy 0))"
  by (rule restart_delay_is_bounded [where policy' = sample_policy])
    (simp_all add: mk_restart_policy_def sample_policy_def sample_lease_def fresh_lease_def)

text \<open>Once a failure has been recorded, whichever way it was handled (retry, failed, or crash-loop
  quarantine), no claim of that worktree is served before the scaled base delay has passed.\<close>

theorem recorded_failure_blocks_early_claims:
  assumes "mk_restart_policy policy = Inr policy'" and "0 \<le> pl_failure_count l"
    and "record_restart_failure digest8 l k why policy t res (lease_run qs) = Inr (v, s')"
    and "t' < t + seconds (retry_delay_seconds policy * max (pl_failure_count l) 1)"
  shows "isl (claim_project_lease (li_project_id (pl_identity l)) (li_worktree_id (pl_identity l)) a t' s')"
  using assms by (rule no_claim_before_delay)

lemma recorded_failure_blocks_early_claims_witness:
  "\<exists>v s'. record_restart_failure length sample_lease ''t1'' ''boom'' sample_policy 5 None
       (lease_run [sample_claim]) = Inr (v, s') \<and>
     isl (claim_project_lease ''app'' ''wt'' \<lparr>ca_run = ''r2'', ca_owner_id = ''w2'', ca_lease_token = ''t2'',
       ca_lease_seconds = 60, ca_takeover_validated = True, ca_takeover_reason = None\<rparr> 6 s')"
proof -
  have ids: "li_project_id (pl_identity sample_lease) = ''app''" "li_worktree_id (pl_identity sample_lease) = ''wt''"
    "pl_failure_count sample_lease = 0" "pl_last_failure_at sample_lease = None"
    by (simp_all add: sample_lease_def fresh_lease_def)
  let ?x = "Some [(''restart'', JObj [(''allowed'', JBool True), (''reason'', JStr ''retry_scheduled''),
     (''retry_at'', json_time (Some (rt_retry_at (compute_restart_delay length sample_lease sample_policy 5)))),
     (''effective_delay_seconds'', JInt (rt_effective_delay_seconds (compute_restart_delay length sample_lease sample_policy 5))),
     (''base_delay_seconds'', JInt (rt_base_delay_seconds (compute_restart_delay length sample_lease sample_policy 5))),
     (''jitter_seconds'', JInt (rt_jitter_seconds (compute_restart_delay length sample_lease sample_policy 5)))])]"
  have f: "record_restart_failure length sample_lease ''t1'' ''boom'' sample_policy 5 None (lease_run [sample_claim]) =
      fail_project_lease ''app'' ''wt'' ''t1'' ''boom'' ?x
        (Some (rt_retry_at (compute_restart_delay length sample_lease sample_policy 5))) 5 (lease_run [sample_claim])"
    by (simp add: record_restart_failure_def ids is_rapid_failure_def dict_or_nil_def Let_def)
  have "\<exists>r. fail_project_lease ''app'' ''wt'' ''t1'' ''boom'' ?x
        (Some (rt_retry_at (compute_restart_delay length sample_lease sample_policy 5))) 5 (lease_run [sample_claim]) = Inr r"
  proof -
    have "case fail_project_lease ''app'' ''wt'' ''t1'' ''boom'' ?x
        (Some (rt_retry_at (compute_restart_delay length sample_lease sample_policy 5))) 5 (lease_run [sample_claim]) of
      Inl e \<Rightarrow> e = LeaseValueError \<and> pl_max_failures sample_lease = Some (pl_failure_count sample_lease)
    | Inr (v, s') \<Rightarrow> pl_failure_count v = pl_failure_count sample_lease + 1 \<and>
        pl_state v = (if pl_max_failures sample_lease = Some (pl_failure_count sample_lease + 1)
                      then LeaseFailed else LeasePending) \<and>
        pl_retry_count v = pl_retry_count sample_lease + (if pl_state v = LeasePending then 1 else 0) \<and>
        pl_lease_token v = None"
      by (rule fail_outcome)
        (simp_all add: sample_run load_Inr json_time_def,
          simp_all add: sample_lease_def fresh_lease_def mk_lease_def no_text_def)
    then show ?thesis
      by (simp add: sample_lease_def fresh_lease_def split: sum.splits)
  qed
  then obtain v s' where r: "record_restart_failure length sample_lease ''t1'' ''boom'' sample_policy 5 None
       (lease_run [sample_claim]) = Inr (v, s')" unfolding f by fastforce
  have "isl (claim_project_lease (li_project_id (pl_identity sample_lease))
      (li_worktree_id (pl_identity sample_lease)) a 6 s')" for a
    by (rule recorded_failure_blocks_early_claims [OF _ _ r])
      (simp_all add: ids mk_restart_policy_def sample_policy_def seconds_def)
  from this [unfolded ids] r show ?thesis by blast
qed

end
