(* ===== verification/Progress.thy ===== *)
theory Progress
  imports Iso_Time
begin

section \<open>Progress snapshots\<close>

text \<open>
  \<^verbatim>\<open>arnold/supervisor/progress.py\<close>: the supervisor's view of one run, computed from the persisted
  event rows, audit rows and checkpoint of its scope. The rows come from the persistence backend,
  oldest first; here they are the arguments of \<open>build_progress_snapshot\<close>.
\<close>

subsection \<open>Rows and signals\<close>

record persistence_row =
  pr_sequence :: int
  pr_payload :: "(string \<times> json) list"
  pr_kind :: "string option"

record persistence_scope =
  sc_project_id :: string
  sc_run_id :: string
  sc_artifact_id :: string

record progress_signal =
  ps_source :: string
  ps_observed_at :: "instant option"
  ps_sequence :: "int option"
  ps_kind :: "string option"
  ps_status :: "string option"
  ps_path :: "string option"
  ps_stage :: "string option"

definition signal_of :: "string \<Rightarrow> progress_signal" where
  "signal_of source = \<lparr>ps_source = source, ps_observed_at = None, ps_sequence = None, ps_kind = None,
     ps_status = None, ps_path = None, ps_stage = None\<rparr>"

definition signal_present :: "progress_signal \<Rightarrow> bool" where
  "signal_present x \<longleftrightarrow> ps_observed_at x \<noteq> None \<or> ps_sequence x \<noteq> None \<or> ps_kind x \<noteq> None \<or>
     ps_status x \<noteq> None \<or> ps_path x \<noteq> None \<or> ps_stage x \<noteq> None"

text \<open>The estimated cost is the number of the payload.\<close>

record progress_usage =
  pu_input_tokens :: int
  pu_output_tokens :: int
  pu_cache_read_tokens :: int
  pu_cache_write_tokens :: int
  pu_reasoning_tokens :: int
  pu_estimated_cost_usd :: "json option"
  pu_cost_status :: "string option"
  pu_cost_source :: "string option"
  pu_model :: "string option"

definition no_usage :: progress_usage where
  "no_usage = \<lparr>pu_input_tokens = 0, pu_output_tokens = 0, pu_cache_read_tokens = 0,
     pu_cache_write_tokens = 0, pu_reasoning_tokens = 0, pu_estimated_cost_usd = None,
     pu_cost_status = None, pu_cost_source = None, pu_model = None\<rparr>"

definition total_tokens :: "progress_usage \<Rightarrow> int" where
  "total_tokens u = pu_input_tokens u + pu_output_tokens u + pu_cache_read_tokens u +
     pu_cache_write_tokens u + pu_reasoning_tokens u"

definition usage_present :: "progress_usage \<Rightarrow> bool" where
  "usage_present u \<longleftrightarrow> 0 < total_tokens u \<or> pu_estimated_cost_usd u \<noteq> None"

subsection \<open>Reading payloads\<close>

text \<open>\<^verbatim>\<open>_mapping_str\<close>: a non-empty string under a key of a mapping.\<close>

definition mapping_str :: "json \<Rightarrow> string \<Rightarrow> string option" where
  "mapping_str payload key =
     (case as_dict payload of
        None \<Rightarrow> None
      | Some d \<Rightarrow>
          (case as_str (dget d key JNull) of
             None \<Rightarrow> None
           | Some s \<Rightarrow> if s = [] then None else Some s))"

definition event_trace :: "(string \<times> json) list \<Rightarrow> (string \<times> json) list option" where
  "event_trace payload = as_dict (dget payload ''trace'' JNull)"

text \<open>\<^verbatim>\<open>a or b\<close>.\<close>

definition json_or :: "json \<Rightarrow> json \<Rightarrow> json" where
  "json_or a b = (if truthy a then a else b)"

definition event_path :: "(string \<times> json) list \<Rightarrow> string option" where
  "event_path payload =
     (let traced =
        (case event_trace payload of
           None \<Rightarrow> None
         | Some trace \<Rightarrow>
             (case as_str (json_or (json_or (dget trace ''path'' JNull) (dget trace ''step_path'' JNull))
                             (dget trace ''run_path'' JNull)) of
                None \<Rightarrow> None
              | Some p \<Rightarrow> if p = [] then None else Some p))
      in case traced of
           Some p \<Rightarrow> Some p
         | None \<Rightarrow>
             (case List.find (\<lambda>key. mapping_str (JObj payload) key \<noteq> None)
                     [''step_path'', ''run_path'', ''path''] of
                None \<Rightarrow> None
              | Some key \<Rightarrow> mapping_str (JObj payload) key))"

definition int_delta :: "(string \<times> json) list \<Rightarrow> string \<Rightarrow> int" where
  "int_delta payload key = (case dget payload key JNull of JInt n \<Rightarrow> max n 0 | _ \<Rightarrow> 0)"

definition max_timestamp :: "instant option list \<Rightarrow> instant option" where
  "max_timestamp values =
     (let ts = [t. Some t \<leftarrow> values] in if ts = [] then None else Some (Max (set ts)))"

subsection \<open>Windows\<close>

record progress_windows =
  healthy_progress_window :: int
  slow_signal_window :: int
  stuck_progress_window :: int
  stuck_liveness_window :: int
  idle_signal_window :: int
  dead_signal_window :: int

definition minutes :: "int \<Rightarrow> int" where
  "minutes n = 60000000 * n"

definition default_windows :: progress_windows where
  "default_windows = \<lparr>healthy_progress_window = minutes 5, slow_signal_window = minutes 15,
     stuck_progress_window = minutes 30, stuck_liveness_window = minutes 15,
     idle_signal_window = minutes 60, dead_signal_window = minutes 120\<rparr>"

definition mk_windows :: "progress_windows \<Rightarrow> py_error + progress_windows" where
  "mk_windows w =
     res_bind (res_map (\<lambda>v. ensure (0 < v) ValueError)
       [healthy_progress_window w, slow_signal_window w, stuck_progress_window w,
        stuck_liveness_window w, idle_signal_window w, dead_signal_window w]) (\<lambda>_.
     res_bind (ensure (idle_signal_window w \<le> dead_signal_window w) ValueError) (\<lambda>_.
       Inr w))"

datatype progress_classification = Healthy | SlowProgressing | Idle | Dead | StuckButAlive

fun classification_value :: "progress_classification \<Rightarrow> string" where
  "classification_value Healthy = ''healthy''"
| "classification_value SlowProgressing = ''slow_progressing''"
| "classification_value Idle = ''idle''"
| "classification_value Dead = ''dead''"
| "classification_value StuckButAlive = ''stuck_but_alive''"

definition classify_progress ::
    "instant \<Rightarrow> instant option \<Rightarrow> instant option \<Rightarrow> progress_windows \<Rightarrow> progress_classification" where
  "classify_progress observed_at last_signal_at last_progress_at w =
     (case last_signal_at of
        None \<Rightarrow> Dead
      | Some signal \<Rightarrow>
          let signal_age = observed_at - signal;
              by_signal =
                (if signal_age \<le> slow_signal_window w then SlowProgressing
                 else if signal_age \<le> idle_signal_window w then Idle else Dead)
          in if dead_signal_window w < signal_age then Dead
             else case last_progress_at of
                    None \<Rightarrow> by_signal
                  | Some progress \<Rightarrow>
                      let progress_age = observed_at - progress
                      in if progress_age \<le> healthy_progress_window w then Healthy
                         else if stuck_progress_window w < progress_age \<and>
                                 signal_age \<le> stuck_liveness_window w then StuckButAlive
                         else by_signal)"

subsection \<open>The latest signals\<close>

definition latest_event_signal :: "persistence_row list \<Rightarrow> progress_signal" where
  "latest_event_signal events =
     (if events = [] then signal_of ''event''
      else
        let row = last events; inner = dget (pr_payload row) ''payload'' JNull
        in (signal_of ''event'')\<lparr>ps_observed_at := parse_time (dget (pr_payload row) ''ts_utc'' JNull),
             ps_sequence := Some (pr_sequence row), ps_kind := pr_kind row,
             ps_status := mapping_str inner ''status'',
             ps_path := (case as_dict inner of None \<Rightarrow> None | Some d \<Rightarrow> event_path d)\<rparr>)"

definition latest_stage_signal :: "persistence_row list \<Rightarrow> progress_signal" where
  "latest_stage_signal events =
     (case List.find (\<lambda>row. pr_kind row = Some ''stage.complete'') (rev events) of
        None \<Rightarrow> signal_of ''stage''
      | Some row \<Rightarrow>
          let inner = dict_or_empty (dget (pr_payload row) ''payload'' JNull)
          in (signal_of ''stage'')\<lparr>ps_observed_at := parse_time (dget (pr_payload row) ''ts_utc'' JNull),
               ps_sequence := Some (pr_sequence row), ps_kind := pr_kind row,
               ps_path := event_path inner, ps_stage := mapping_str (JObj inner) ''stage''\<rparr>)"

definition latest_audit_signal :: "persistence_row list \<Rightarrow> progress_signal" where
  "latest_audit_signal audits =
     (case List.find (\<lambda>row. map_of (pr_payload row) ''attempt_id'' \<noteq> None) (rev audits) of
        None \<Rightarrow> signal_of ''audit''
      | Some row \<Rightarrow>
          let payload = pr_payload row;
              ended = parse_time (dget payload ''ended_at'' JNull)
          in (signal_of ''audit'')\<lparr>ps_observed_at :=
                 (case ended of Some t \<Rightarrow> Some t | None \<Rightarrow> parse_time (dget payload ''started_at'' JNull)),
               ps_sequence := Some (pr_sequence row), ps_kind := pr_kind row,
               ps_status := mapping_str (JObj payload) ''status'',
               ps_path := (case mapping_str (JObj payload) ''step_path'' of
                             Some p \<Rightarrow> Some p | None \<Rightarrow> mapping_str (JObj payload) ''run_path'')\<rparr>)"

text \<open>The checkpoint artifact is \<open>JNull\<close> when there is none.\<close>

definition checkpoint_signal :: "persistence_row list \<Rightarrow> json \<Rightarrow> progress_signal" where
  "checkpoint_signal events checkpoint =
     (let row = List.find (\<lambda>row. pr_kind row = Some ''checkpoint'') (rev events)
      in (signal_of ''checkpoint'')\<lparr>ps_observed_at :=
             (case row of None \<Rightarrow> None | Some r \<Rightarrow> parse_time (dget (pr_payload r) ''ts_utc'' JNull)),
           ps_sequence := map_option pr_sequence row,
           ps_kind := (if checkpoint \<noteq> JNull then Some ''checkpoint'' else None),
           ps_status := mapping_str checkpoint ''status'',
           ps_path := (case mapping_str checkpoint ''step_path'' of
                         Some p \<Rightarrow> Some p | None \<Rightarrow> mapping_str checkpoint ''run_path''),
           ps_stage := mapping_str checkpoint ''cursor_stage''\<rparr>)"

definition usage_of :: "(string \<times> json) list \<Rightarrow> progress_usage" where
  "usage_of d = \<lparr>pu_input_tokens = int_delta d ''input_tokens'',
     pu_output_tokens = int_delta d ''output_tokens'',
     pu_cache_read_tokens = int_delta d ''cache_read_tokens'',
     pu_cache_write_tokens = int_delta d ''cache_write_tokens'',
     pu_reasoning_tokens = int_delta d ''reasoning_tokens'',
     pu_estimated_cost_usd =
       (case dget d ''estimated_cost_usd'' JNull of
          JInt n \<Rightarrow> Some (JInt n) | JFloat r \<Rightarrow> Some (JFloat r)
        | JBool b \<Rightarrow> Some (JInt (if b then 1 else 0)) | _ \<Rightarrow> None),
     pu_cost_status = mapping_str (JObj d) ''cost_status'',
     pu_cost_source = mapping_str (JObj d) ''cost_source'', pu_model = mapping_str (JObj d) ''model''\<rparr>"

definition latest_usage_signal :: "persistence_row list \<Rightarrow> progress_signal \<times> progress_usage" where
  "latest_usage_signal events =
     (case List.find (\<lambda>row. pr_kind row = Some ''token_progress'') (rev events) of
        None \<Rightarrow> (signal_of ''usage'', no_usage)
      | Some row \<Rightarrow>
          let inner = dict_or_empty (dget (pr_payload row) ''payload'' JNull)
          in ((signal_of ''usage'')\<lparr>ps_observed_at := parse_time (dget (pr_payload row) ''ts_utc'' JNull),
                ps_sequence := Some (pr_sequence row), ps_kind := pr_kind row,
                ps_path := event_path inner\<rparr>,
              usage_of inner))"

text \<open>The order of the candidates: undated signals first, then by time and by sequence, where
  sequence 0 counts as -1. The instant of \<^verbatim>\<open>datetime.min\<close> stands for a missing time.\<close>

definition signal_order :: "progress_signal \<Rightarrow> bool \<times> instant \<times> int" where
  "signal_order x =
     (ps_observed_at x \<noteq> None,
      (case ps_observed_at x of None \<Rightarrow> - 62135596800000000 | Some t \<Rightarrow> t),
      (case ps_sequence x of None \<Rightarrow> - 1 | Some n \<Rightarrow> if n = 0 then - 1 else n))"

definition has_text :: "string option \<Rightarrow> bool" where
  "has_text x \<longleftrightarrow> x \<noteq> None \<and> x \<noteq> Some []"

definition current_path ::
    "progress_signal \<Rightarrow> progress_signal \<Rightarrow> progress_signal \<Rightarrow> progress_signal \<Rightarrow> string option" where
  "current_path checkpoint event audit usage_signal =
     (let candidates = filter (has_text \<circ> ps_path) [checkpoint, event, audit, usage_signal]
      in if candidates = [] then None else ps_path (last (sort_key signal_order candidates)))"

definition current_stage :: "progress_signal \<Rightarrow> progress_signal \<Rightarrow> string option" where
  "current_stage checkpoint stage =
     (let candidates = filter (has_text \<circ> ps_stage) [checkpoint, stage]
      in if candidates = [] then None else ps_stage (last (sort_key signal_order candidates)))"

subsection \<open>The snapshot\<close>

record progress_snapshot =
  sn_scope :: persistence_scope
  sn_observed_at :: instant
  sn_classification :: progress_classification
  sn_current_path :: "string option"
  sn_current_stage :: "string option"
  sn_checkpoint_status :: "string option"
  sn_terminal_status :: "string option"
  sn_latest_event :: progress_signal
  sn_latest_stage :: progress_signal
  sn_latest_audit :: progress_signal
  sn_latest_checkpoint :: progress_signal
  sn_latest_usage :: progress_signal
  sn_usage_delta :: progress_usage
  sn_last_signal_at :: "instant option"
  sn_last_progress_at :: "instant option"
  sn_windows :: progress_windows

definition signal_age :: "progress_snapshot \<Rightarrow> int option" where
  "signal_age s = map_option (\<lambda>t. sn_observed_at s - t) (sn_last_signal_at s)"

definition progress_age :: "progress_snapshot \<Rightarrow> int option" where
  "progress_age s = map_option (\<lambda>t. sn_observed_at s - t) (sn_last_progress_at s)"

definition build_progress_snapshot ::
    "persistence_row list \<Rightarrow> persistence_row list \<Rightarrow> json \<Rightarrow> persistence_scope \<Rightarrow> instant \<Rightarrow>
     progress_windows \<Rightarrow> progress_snapshot" where
  "build_progress_snapshot events audits checkpoint scope observed_at w =
     (let event = latest_event_signal events;
          stage = latest_stage_signal events;
          audit = latest_audit_signal audits;
          check = checkpoint_signal events checkpoint;
          (usage_signal, delta) = latest_usage_signal events;
          checkpoint_status = mapping_str checkpoint ''status'';
          last_signal = max_timestamp [ps_observed_at event, ps_observed_at audit, ps_observed_at check];
          last_progress = max_timestamp [ps_observed_at stage, ps_observed_at audit, ps_observed_at check,
            (if usage_present delta then ps_observed_at usage_signal else None)]
      in \<lparr>sn_scope = scope, sn_observed_at = observed_at,
          sn_classification = classify_progress observed_at last_signal last_progress w,
          sn_current_path = current_path check event audit usage_signal,
          sn_current_stage = current_stage check stage,
          sn_checkpoint_status = checkpoint_status,
          sn_terminal_status = (case checkpoint_status of Some s \<Rightarrow> Some s | None \<Rightarrow> ps_status audit),
          sn_latest_event = event, sn_latest_stage = stage, sn_latest_audit = audit,
          sn_latest_checkpoint = check, sn_latest_usage = usage_signal, sn_usage_delta = delta,
          sn_last_signal_at = last_signal, sn_last_progress_at = last_progress, sn_windows = w\<rparr>)"

subsection \<open>How a classification ages\<close>

lemma classify_dead_stays:
  assumes "now \<le> later" and "stuck_liveness_window w \<le> idle_signal_window w"
    and "classify_progress now sig prog w = Dead"
  shows "classify_progress later sig prog w = Dead"
  using assms by (auto simp: classify_progress_def Let_def split: option.splits if_splits)

lemma classify_healthy_earlier:
  assumes "now \<le> later" and "classify_progress later sig prog w = Healthy"
  shows "classify_progress now sig prog w = Healthy"
  using assms by (auto simp: classify_progress_def Let_def split: option.splits if_splits)

lemma classify_not_dead:
  assumes "now - t \<le> idle_signal_window w" and "idle_signal_window w \<le> dead_signal_window w"
  shows "classify_progress now (Some t) prog w \<noteq> Dead"
  using assms by (auto simp: classify_progress_def Let_def split: option.splits)

lemma max_timestamp_ge:
  assumes "Some t \<in> set values"
  shows "\<exists>u. max_timestamp values = Some u \<and> t \<le> u"
proof -
  let ?ts = "[t. Some t \<leftarrow> values]"
  have "t \<in> set ?ts" using assms by force
  moreover from this have "?ts \<noteq> []" by force
  ultimately show ?thesis unfolding max_timestamp_def Let_def
    using Max_ge [of "set ?ts" t] by (metis List.finite_set)
qed

lemma mk_windows_order: "mk_windows w = Inr w' \<Longrightarrow> idle_signal_window w \<le> dead_signal_window w"
  by (auto simp: mk_windows_def)

text \<open>Any event row is a sign of life, whoever wrote it: the supervisor's own decision events, which
  every scan appends to the run's journal, count as well.\<close>

lemma any_recent_event_hides_a_dead_run:
  assumes w: "mk_windows w = Inr w" and t: "parse_time (dget (pr_payload row) ''ts_utc'' JNull) = Some t"
    and recent: "now - t \<le> idle_signal_window w"
  shows "sn_classification (build_progress_snapshot (events @ [row]) audits checkpoint scope now w) \<noteq> Dead"
proof -
  let ?vs = "[ps_observed_at (latest_event_signal (events @ [row])), ps_observed_at (latest_audit_signal audits),
    ps_observed_at (checkpoint_signal (events @ [row]) checkpoint)]"
  have "Some t \<in> set ?vs" using t by (simp add: latest_event_signal_def Let_def)
  from max_timestamp_ge [OF this] obtain u where u: "max_timestamp ?vs = Some u" "t \<le> u" by blast
  have "now - u \<le> idle_signal_window w" using recent u(2) by simp
  from classify_not_dead [OF this mk_windows_order [OF w]] show ?thesis
    using u(1) by (simp add: build_progress_snapshot_def Let_def split_def)
qed

text \<open>Without new signals a classification only gets worse. A run that is not healthy does not
  become healthy again as time passes, and, when the liveness window of a stuck run is within the idle
  window, a dead run stays dead.\<close>

theorem classification_only_ages:
  assumes "now \<le> later"
  shows "(classify_progress later sig prog w = Healthy \<longrightarrow> classify_progress now sig prog w = Healthy) \<and>
    (stuck_liveness_window w \<le> idle_signal_window w \<longrightarrow> classify_progress now sig prog w = Dead \<longrightarrow>
      classify_progress later sig prog w = Dead)"
  using classify_healthy_earlier [OF assms] classify_dead_stays [OF assms] by blast

lemma classification_only_ages_witness:
  "classify_progress 0 (Some (- minutes 61)) (Some (- minutes 61)) default_windows = Dead \<and>
   classify_progress (minutes 600) (Some (- minutes 61)) (Some (- minutes 61)) default_windows = Dead"
proof -
  have "classify_progress 0 (Some (- minutes 61)) (Some (- minutes 61)) default_windows = Dead"
    by (simp add: classify_progress_def default_windows_def minutes_def)
  then show ?thesis
    using classification_only_ages [of 0 "minutes 600" "Some (- minutes 61)" "Some (- minutes 61)" default_windows]
    by (simp add: default_windows_def minutes_def)
qed

end
