(* ===== verification/Supervision.thy ===== *)
theory Supervision
  imports Restart Progress
begin

section \<open>The supervision loop\<close>

text \<open>
  \<^verbatim>\<open>arnold/supervisor/loop.py\<close> with the takeover gate of \<^verbatim>\<open>reconcile.py\<close>: one scan over the leased
  records of the store, which heartbeats owned leases, recovers expired ones and escalates stuck
  ones. The loop changes the lease store, appends decision events to the journal of the run, and
  calls the restart callback; the three are the world a scan runs on. The callables injected into
  the loop are arguments: the scope and snapshot builders, the reconcile decision, and whether a
  restart callback is configured (its calls are recorded). A snapshot may depend on the events
  emitted so far, since both live in the same journal.
\<close>

subsection \<open>The takeover gate\<close>

record takeover_decision =
  td_allowed :: bool
  td_reason :: string
  td_previous_owner_id :: "string option"
  td_reconcile_state :: "string option"
  td_resume_trust_state :: "string option"
  td_detail :: "string option"

definition takeover_to_last_result :: "takeover_decision \<Rightarrow> json" where
  "takeover_to_last_result d = JObj
     [(''takeover_reason'', JStr (td_reason d)),
      (''previous_owner_id'', opt_json JStr (td_previous_owner_id d)),
      (''reconcile_state'', opt_json JStr (td_reconcile_state d)),
      (''resume_trust_state'', opt_json JStr (td_resume_trust_state d)),
      (''detail'', opt_json JStr (td_detail d))]"

text \<open>The result of the native worktree reconcile, and a transition of the resume trust label.\<close>

record reconcile_decision =
  rc_state :: string
  rc_action :: string
  rc_continue_execution :: bool
  rc_skip_execution :: bool
  rc_detail :: "string option"

definition reconcile_blocked :: "reconcile_decision \<Rightarrow> bool" where
  "reconcile_blocked d \<longleftrightarrow> rc_action d = ''block''"

record trust_transition =
  tt_before :: string
  tt_after :: string

definition resume_trust_allows_takeover ::
    "trust_transition option \<Rightarrow> string option \<Rightarrow> bool \<times> string" where
  "resume_trust_allows_takeover transition current_trust_state =
     (let after = (case transition of Some t \<Rightarrow> Some (tt_after t) | None \<Rightarrow> current_trust_state)
      in if after = Some ''trusted'' then (True, ''resume_trust:trusted'')
         else if after = Some ''quarantined-manifest-mismatch''
         then (False, ''resume_trust:quarantined-manifest-mismatch'')
         else case after of
                None \<Rightarrow> (False, ''resume_trust:missing'')
              | Some a \<Rightarrow> if a = [] then (False, ''resume_trust:missing'')
                          else (False, ''resume_trust:'' @ a))"

definition evaluate_expired_takeover ::
    "project_lease \<Rightarrow> reconcile_decision \<Rightarrow> trust_transition option \<Rightarrow> string option \<Rightarrow> instant \<Rightarrow>
     takeover_decision" where
  "evaluate_expired_takeover l d transition current_trust_state now =
     (if has_active_lease l now
      then \<lparr>td_allowed = False, td_reason = ''lease_active'', td_previous_owner_id = pl_owner_id l,
            td_reconcile_state = Some (rc_state d), td_resume_trust_state = current_trust_state,
            td_detail = None\<rparr>
      else
        let (trust_ok, trust_reason) = resume_trust_allows_takeover transition current_trust_state;
            trust_state =
              (case transition of Some t \<Rightarrow> Some (tt_after t) | None \<Rightarrow> current_trust_state);
            decide = (\<lambda>allowed reason.
              \<lparr>td_allowed = allowed, td_reason = reason, td_previous_owner_id = pl_owner_id l,
               td_reconcile_state = Some (rc_state d), td_resume_trust_state = trust_state,
               td_detail = rc_detail d\<rparr>)
        in if \<not> trust_ok then decide False trust_reason
           else if reconcile_blocked d \<or> \<not> (rc_continue_execution d \<or> rc_skip_execution d)
           then decide False (''reconcile:'' @ rc_state d)
           else decide True (''expired_lease_takeover:'' @ rc_state d))"

definition claim_reconciled_project_lease ::
    "string \<Rightarrow> string \<Rightarrow> string \<Rightarrow> string \<Rightarrow> string \<Rightarrow> int \<Rightarrow> takeover_decision \<Rightarrow> instant \<Rightarrow>
     lease_store \<Rightarrow> lease_result" where
  "claim_reconciled_project_lease project_id worktree_id run_id owner_id lease_token lease_seconds
     decision now =
     claim_project_lease project_id worktree_id
       \<lparr>ca_run = run_id, ca_owner_id = owner_id, ca_lease_token = lease_token,
        ca_lease_seconds = lease_seconds, ca_takeover_validated = td_allowed decision,
        ca_takeover_reason = Some (td_reason decision)\<rparr> now"

subsection \<open>Configuration and world\<close>

record loop_config =
  lc_owner_id :: string
  lc_lease_seconds :: int
  lc_progress_windows :: progress_windows
  lc_default_artifact_id :: string
  lc_notify_after :: int

definition mk_loop_config :: "loop_config \<Rightarrow> py_error + loop_config" where
  "mk_loop_config c =
     res_bind (ensure (lc_owner_id c \<noteq> []) ValueError) (\<lambda>_.
     res_bind (ensure (0 < lc_lease_seconds c) ValueError) (\<lambda>_.
     res_bind (ensure (0 < lc_notify_after c) ValueError) (\<lambda>_.
       Inr c)))"

record supervisor_event =
  se_scope :: persistence_scope
  se_kind :: string
  se_payload :: "(string \<times> json) list"

record supervisor_world =
  sw_leases :: lease_store
  sw_events :: "supervisor_event list"
  sw_restarts :: "(project_lease \<times> progress_snapshot \<times> takeover_decision) list"

record supervision_loop =
  sl_config :: loop_config
  sl_scope_builder :: "(project_lease \<Rightarrow> persistence_scope) option"
  sl_snapshot_builder ::
    "supervisor_event list \<Rightarrow> persistence_scope \<Rightarrow> instant \<Rightarrow> progress_windows \<Rightarrow> progress_snapshot"
  sl_reconcile_decider :: "(project_lease \<Rightarrow> progress_snapshot \<Rightarrow> takeover_decision) option"
  sl_restart_callback :: bool

text \<open>\<^verbatim>\<open>_default_snapshot_builder\<close>: the snapshot of the rows that the persistence backend holds for a
  scope, which include the events emitted so far.\<close>

record native_backend =
  nb_read_events :: "supervisor_event list \<Rightarrow> persistence_scope \<Rightarrow> persistence_row list"
  nb_read_audit_records :: "persistence_scope \<Rightarrow> persistence_row list"
  nb_checkpoint :: "persistence_scope \<Rightarrow> json"

definition default_snapshot_builder ::
    "native_backend \<Rightarrow> supervisor_event list \<Rightarrow> persistence_scope \<Rightarrow> instant \<Rightarrow> progress_windows \<Rightarrow>
     progress_snapshot" where
  "default_snapshot_builder b emitted scope now w =
     build_progress_snapshot (nb_read_events b emitted scope) (nb_read_audit_records b scope)
       (nb_checkpoint b scope) scope now w"

record lease_decision =
  ld_lease :: project_lease
  ld_snapshot :: progress_snapshot
  ld_action :: string
  ld_event_kind :: string
  ld_reason :: string
  ld_human_review_required :: bool

text \<open>A method of the loop: a lease error or a value, and the world it leaves. Changes made before an
  error stay.\<close>

type_synonym 'a supervised = "supervisor_world \<Rightarrow> (lease_error + 'a) \<times> supervisor_world"

fun sup_bind :: "(lease_error + 'a) \<times> supervisor_world \<Rightarrow> ('a \<Rightarrow> 'b supervised) \<Rightarrow>
    (lease_error + 'b) \<times> supervisor_world" where
  "sup_bind (Inl e, w) f = (Inl e, w)"
| "sup_bind (Inr x, w) f = f x w"

text \<open>An operation of the lease store.\<close>

definition on_store :: "(lease_store \<Rightarrow> lease_result) \<Rightarrow> project_lease supervised" where
  "on_store operation w =
     (case operation (sw_leases w) of
        Inl e \<Rightarrow> (Inl e, w)
      | Inr (l, store) \<Rightarrow> (Inr l, w\<lparr>sw_leases := store\<rparr>))"

subsection \<open>What is recorded\<close>

definition supervision_result_base ::
    "string \<Rightarrow> string \<Rightarrow> progress_snapshot \<Rightarrow> (string \<times> json) list" where
  "supervision_result_base action reason s =
     [(''action'', JStr action), (''reason'', JStr reason),
      (''classification'', JStr (classification_value (sn_classification s))),
      (''current_path'', opt_json JStr (sn_current_path s)),
      (''current_stage'', opt_json JStr (sn_current_stage s)),
      (''checkpoint_status'', opt_json JStr (sn_checkpoint_status s)),
      (''terminal_status'', opt_json JStr (sn_terminal_status s)),
      (''last_signal_at'', json_time (sn_last_signal_at s)),
      (''last_progress_at'', json_time (sn_last_progress_at s)),
      (''usage_total_tokens'', JInt (total_tokens (sn_usage_delta s))),
      (''usage_estimated_cost_usd'', opt_json id (pu_estimated_cost_usd (sn_usage_delta s)))]"

definition supervision_result ::
    "string \<Rightarrow> string \<Rightarrow> progress_snapshot \<Rightarrow> takeover_decision \<Rightarrow> (string \<times> json) list" where
  "supervision_result action reason s d =
     AList.update ''reconcile'' (takeover_to_last_result d) (supervision_result_base action reason s)"

definition supervision_value :: "project_lease \<Rightarrow> string \<Rightarrow> json" where
  "supervision_value l key =
     (case pl_last_result l of
        None \<Rightarrow> JNull
      | Some result \<Rightarrow>
          (case as_dict (dget result ''supervision'' JNull) of
             None \<Rightarrow> JNull
           | Some supervision \<Rightarrow> dget supervision key JNull))"

definition scope_of :: "supervision_loop \<Rightarrow> project_lease \<Rightarrow> persistence_scope" where
  "scope_of L l =
     (case sl_scope_builder L of
        Some f \<Rightarrow> f l
      | None \<Rightarrow> \<lparr>sc_project_id = li_project_id (pl_identity l), sc_run_id = li_run_id (pl_identity l),
                 sc_artifact_id = lc_default_artifact_id (sl_config L)\<rparr>)"

definition decision_payload :: "lease_decision \<Rightarrow> instant \<Rightarrow> (string \<times> json) list" where
  "decision_payload d observed_at =
     (let l = ld_lease d; s = ld_snapshot d in
      [(''action'', JStr (ld_action d)), (''reason'', JStr (ld_reason d)),
       (''project_id'', JStr (li_project_id (pl_identity l))),
       (''worktree_id'', JStr (li_worktree_id (pl_identity l))),
       (''run_id'', JStr (li_run_id (pl_identity l))),
       (''owner_id'', opt_json JStr (pl_owner_id l)),
       (''lease_state'', JStr (lease_state_value (pl_state l))),
       (''human_review_required'', JBool (ld_human_review_required d)),
       (''observed_at'', json_time (Some observed_at)),
       (''classification'', JStr (classification_value (sn_classification s))),
       (''current_path'', opt_json JStr (sn_current_path s)),
       (''current_stage'', opt_json JStr (sn_current_stage s)),
       (''checkpoint_status'', opt_json JStr (sn_checkpoint_status s)),
       (''terminal_status'', opt_json JStr (sn_terminal_status s)),
       (''last_signal_at'', json_time (sn_last_signal_at s)),
       (''last_progress_at'', json_time (sn_last_progress_at s)),
       (''usage_total_tokens'', JInt (total_tokens (sn_usage_delta s))),
       (''usage_estimated_cost_usd'', opt_json id (pu_estimated_cost_usd (sn_usage_delta s)))])"

definition emit_decision ::
    "supervision_loop \<Rightarrow> instant \<Rightarrow> lease_decision \<Rightarrow> lease_decision supervised" where
  "emit_decision L observed_at d w =
     (Inr d, w\<lparr>sw_events := sw_events w @
        [\<lparr>se_scope = scope_of L (ld_lease d), se_kind = ld_event_kind d,
          se_payload = decision_payload d observed_at\<rparr>]\<rparr>)"

subsection \<open>The handlers\<close>

definition decision_of ::
    "project_lease \<Rightarrow> progress_snapshot \<Rightarrow> string \<Rightarrow> string \<Rightarrow> string \<Rightarrow> lease_decision" where
  "decision_of l s action event_kind reason = \<lparr>ld_lease = l, ld_snapshot = s, ld_action = action,
     ld_event_kind = event_kind, ld_reason = reason, ld_human_review_required = False\<rparr>"

definition reconcile_for :: "supervision_loop \<Rightarrow> project_lease \<Rightarrow> progress_snapshot \<Rightarrow> takeover_decision" where
  "reconcile_for L l s =
     (case sl_reconcile_decider L of
        Some f \<Rightarrow> f l s
      | None \<Rightarrow> \<lparr>td_allowed = False, td_reason = ''reconcile_unavailable'',
                 td_previous_owner_id = pl_owner_id l, td_reconcile_state = None,
                 td_resume_trust_state = None, td_detail = None\<rparr>)"

definition restart_run ::
    "supervision_loop \<Rightarrow> project_lease \<Rightarrow> progress_snapshot \<Rightarrow> takeover_decision \<Rightarrow>
     supervisor_world \<Rightarrow> supervisor_world" where
  "restart_run L l s d w =
     (if sl_restart_callback L then w\<lparr>sw_restarts := sw_restarts w @ [(l, s, d)]\<rparr> else w)"

definition made_progress :: "project_lease \<Rightarrow> progress_snapshot \<Rightarrow> bool" where
  "made_progress l s =
     (case sn_last_progress_at s of
        None \<Rightarrow> False
      | Some t \<Rightarrow> (case pl_last_progress_at l of None \<Rightarrow> True | Some u \<Rightarrow> u < t))"

definition heartbeat_owned_lease ::
    "supervision_loop \<Rightarrow> instant \<Rightarrow> project_lease \<Rightarrow> progress_snapshot \<Rightarrow> lease_decision supervised" where
  "heartbeat_owned_lease L observed_at l s w =
     sup_bind
       (on_store (heartbeat_project_lease (li_project_id (pl_identity l)) (li_worktree_id (pl_identity l))
          (case pl_lease_token l of None \<Rightarrow> [] | Some k \<Rightarrow> k)
          (lc_lease_seconds (sl_config L)) (made_progress l s) observed_at) w)
       (\<lambda>stored. emit_decision L observed_at
          (decision_of stored s (if made_progress l s then ''heartbeat_progress'' else ''heartbeat'')
             ''supervisor.heartbeat'' (classification_value (sn_classification s))))"

definition human_review_result :: "progress_snapshot \<Rightarrow> takeover_decision \<Rightarrow> (string \<times> json) list" where
  "human_review_result s d =
     [(''supervision'', JObj (AList.update ''human_review_required'' (JBool True)
                                (supervision_result ''cancel'' (td_reason d) s d)))]"

definition cancel_for_human_review ::
    "instant \<Rightarrow> project_lease \<Rightarrow> progress_snapshot \<Rightarrow> takeover_decision \<Rightarrow> lease_decision supervised" where
  "cancel_for_human_review observed_at l s d w =
     (let p = li_project_id (pl_identity l); wt = li_worktree_id (pl_identity l); reason = td_reason d;
          result = human_review_result s d;
          decided = (\<lambda>stored. (decision_of stored s ''cancel'' ''supervisor.cancel'' reason)
                       \<lparr>ld_human_review_required := True\<rparr>);
          (cancelled, w1) = on_store (cancel_project_lease p wt (pl_lease_token l) (Some result) observed_at) w
      in sup_bind
           (case cancelled of
              Inl e \<Rightarrow>
                if e = LeaseConflict \<or> e = LeaseTokenMismatch
                then on_store (quarantine_project_lease p wt reason (pl_lease_token l) None observed_at) w1
                else (cancelled, w1)
            | Inr _ \<Rightarrow> (cancelled, w1))
           (\<lambda>stored w2. (Inr (decided stored), w2)))"

text \<open>The two places that recover a lease (expired, or stuck beyond notification) do the same.\<close>

definition recover_lease ::
    "supervision_loop \<Rightarrow> instant \<Rightarrow> project_lease \<Rightarrow> progress_snapshot \<Rightarrow> lease_decision supervised" where
  "recover_lease L observed_at l s w =
     (let d = reconcile_for L l s
      in sup_bind
           (if td_allowed d
            then
              sup_bind
                (on_store (cancel_project_lease (li_project_id (pl_identity l))
                   (li_worktree_id (pl_identity l)) (pl_lease_token l)
                   (Some [(''supervision'', JObj (supervision_result ''restart'' (td_reason d) s d))])
                   observed_at) (restart_run L l s d w))
                (\<lambda>stored w'. (Inr (decision_of stored s ''restart'' ''supervisor.restart'' (td_reason d)), w'))
            else cancel_for_human_review observed_at l s d w)
           (emit_decision L observed_at))"

definition record_escalation ::
    "instant \<Rightarrow> project_lease \<Rightarrow> string \<Rightarrow> progress_snapshot \<Rightarrow> string \<times> json \<Rightarrow> lease_store \<Rightarrow> lease_result"
    where
  "record_escalation observed_at l level s extra store =
     (let supervision = AList.update (fst extra) (snd extra)
            (AList.update ''stuck_escalation'' (JStr level)
               (supervision_result_base level ''stuck_but_alive'' s));
          result = AList.update ''supervision'' (JObj supervision) (dict_or_nil (pl_last_result l))
      in res_bind (mk_lease (l\<lparr>pl_last_result := Some result, pl_updated_at := observed_at\<rparr>)) (\<lambda>updated.
           update_project_lease updated (pl_lock_version l) store))"

definition escalate_stuck_lease ::
    "supervision_loop \<Rightarrow> instant \<Rightarrow> project_lease \<Rightarrow> progress_snapshot \<Rightarrow> lease_decision supervised" where
  "escalate_stuck_lease L observed_at l s w =
     (let current_level = supervision_value l ''stuck_escalation'';
          warned_at = parse_time (supervision_value l ''warned_at'')
      in if current_level = JNull
         then
           sup_bind
             (on_store (record_escalation observed_at l ''warned'' s
                (''warned_at'', json_time (Some observed_at))) w)
             (\<lambda>stored. emit_decision L observed_at
                (decision_of stored s ''warn'' ''supervisor.warn'' ''stuck_but_alive''))
         else if current_level = JStr ''warned'' \<and>
            (case warned_at of None \<Rightarrow> True | Some t \<Rightarrow> lc_notify_after (sl_config L) \<le> observed_at - t)
         then
           sup_bind
             (on_store (record_escalation observed_at l ''notified'' s
                (''notified_at'', json_time (Some observed_at))) w)
             (\<lambda>stored. emit_decision L observed_at
                (decision_of stored s ''notify'' ''supervisor.notify'' ''stuck_but_alive''))
         else if current_level = JStr ''notified'' then recover_lease L observed_at l s w
         else emit_decision L observed_at
                (decision_of l s ''observe'' ''supervisor.observe'' ''stuck_but_alive'') w)"

definition scan_lease :: "supervision_loop \<Rightarrow> instant \<Rightarrow> project_lease \<Rightarrow> lease_decision supervised" where
  "scan_lease L observed_at l w =
     (let s = sl_snapshot_builder L (sw_events w) (scope_of L l) observed_at
                (lc_progress_windows (sl_config L))
      in if pl_owner_id l = Some (lc_owner_id (sl_config L)) \<and> has_active_lease l observed_at
         then heartbeat_owned_lease L observed_at l s w
         else if \<not> has_active_lease l observed_at then recover_lease L observed_at l s w
         else if sn_classification s = StuckButAlive then escalate_stuck_lease L observed_at l s w
         else emit_decision L observed_at
                (decision_of l s ''observe'' ''supervisor.observe''
                   (classification_value (sn_classification s))) w)"

text \<open>The listing is taken once, before the first lease is handled.\<close>

fun scan_leases :: "supervision_loop \<Rightarrow> instant \<Rightarrow> project_lease list \<Rightarrow> lease_decision list supervised" where
  "scan_leases L observed_at [] w = (Inr [], w)"
| "scan_leases L observed_at (l # ls) w =
     sup_bind (scan_lease L observed_at l w) (\<lambda>d w1.
     sup_bind (scan_leases L observed_at ls w1) (\<lambda>ds w2. (Inr (d # ds), w2)))"

definition scan_once :: "supervision_loop \<Rightarrow> instant \<Rightarrow> lease_decision list supervised" where
  "scan_once L observed_at w =
     scan_leases L observed_at
       (filter (\<lambda>l. pl_state l = Leased) (list_project_leases (sw_leases w))) w"

end
