(* ===== verification/Capacity.thy ===== *)
theory Capacity
  imports Prelude
begin

section \<open>Capacity gates\<close>

text \<open>
  \<^verbatim>\<open>arnold/supervisor/capacity.py\<close> and \<^verbatim>\<open>capacity_context.py\<close>: pools with a limit on the units
  granted at one time, keyed by lease id and fencing token, and the context manager that holds a
  grant around an operation. The gate is the dictionary of its pools; its lock makes every call
  atomic. An instant of \<^verbatim>\<open>retry_after_seconds\<close> is carried by its \<^verbatim>\<open>repr\<close>.
\<close>

subsection \<open>Pools and decisions\<close>

datatype capacity_status = CapGranted | CapDuplicate | CapReleased | CapWait | CapReject

fun capacity_status_value :: "capacity_status \<Rightarrow> string" where
  "capacity_status_value CapGranted = ''granted''"
| "capacity_status_value CapDuplicate = ''duplicate''"
| "capacity_status_value CapReleased = ''released''"
| "capacity_status_value CapWait = ''wait''"
| "capacity_status_value CapReject = ''reject''"

record capacity_pool_config =
  pc_name :: string
  pc_limit :: int
  pc_wait :: bool
  pc_retry_after_seconds :: "string option"

text \<open>\<^verbatim>\<open>x < 0\<close> on the \<^verbatim>\<open>repr\<close> of a number.\<close>

definition negative_repr :: "string \<Rightarrow> bool" where
  "negative_repr r \<longleftrightarrow> take 1 r = ''-'' \<and> r \<noteq> ''-0.0''"

definition mk_pool_config :: "capacity_pool_config \<Rightarrow> py_error + capacity_pool_config" where
  "mk_pool_config c =
     res_bind (ensure (pc_name c \<noteq> []) ValueError) (\<lambda>_.
     res_bind (ensure (1 \<le> pc_limit c) ValueError) (\<lambda>_.
     res_bind (ensure (case pc_retry_after_seconds c of None \<Rightarrow> True | Some r \<Rightarrow> \<not> negative_repr r)
                 ValueError) (\<lambda>_.
       Inr c)))"

record capacity_grant =
  cg_pool :: string
  cg_lease_id :: string
  cg_fencing_token :: int
  cg_units :: int

definition grant_identity :: "capacity_grant \<Rightarrow> string \<times> int" where
  "grant_identity g = (cg_lease_id g, cg_fencing_token g)"

record capacity_decision =
  cd_status :: capacity_status
  cd_pool :: string
  cd_lease_id :: "string option"
  cd_fencing_token :: "int option"
  cd_granted_units :: int
  cd_used_units :: int
  cd_limit :: int
  cd_retry_after_seconds :: "string option"
  cd_reason :: "string option"

definition granted :: "capacity_decision \<Rightarrow> bool" where
  "granted d \<longleftrightarrow> cd_status d \<in> {CapGranted, CapDuplicate}"

definition should_wait :: "capacity_decision \<Rightarrow> bool" where
  "should_wait d \<longleftrightarrow> cd_status d = CapWait"

definition rejected :: "capacity_decision \<Rightarrow> bool" where
  "rejected d \<longleftrightarrow> cd_status d = CapReject"

record capacity_pool =
  cp_config :: capacity_pool_config
  cp_grants :: "((string \<times> int) \<times> capacity_grant) list"

definition used_units :: "capacity_pool \<Rightarrow> int" where
  "used_units p = sum_list (map (cg_units \<circ> snd) (cp_grants p))"

subsection \<open>The gate\<close>

type_synonym capacity_gate = "(string \<times> capacity_pool) list"

text \<open>An empty mapping is false, so it is replaced by the default pool as well.\<close>

definition new_gate :: "(string \<times> capacity_pool_config) list option \<Rightarrow> capacity_gate" where
  "new_gate pools =
     (let default_pool = [(''default'', \<lparr>pc_name = ''default'', pc_limit = 1, pc_wait = True,
                            pc_retry_after_seconds = None\<rparr>)];
          configs = (case pools of None \<Rightarrow> default_pool | Some c \<Rightarrow> if c = [] then default_pool else c)
      in map (\<lambda>(name, config). (name, \<lparr>cp_config = config, cp_grants = []\<rparr>)) configs)"

definition gate_pool :: "string \<Rightarrow> capacity_gate \<Rightarrow> py_error + capacity_pool" where
  "gate_pool pool g = (case map_of g pool of None \<Rightarrow> Inl ValueError | Some p \<Rightarrow> Inr p)"

definition pool_decision ::
    "capacity_status \<Rightarrow> capacity_pool \<Rightarrow> capacity_grant \<Rightarrow> string option \<Rightarrow> capacity_decision" where
  "pool_decision status p grant reason =
     \<lparr>cd_status = status, cd_pool = cg_pool grant, cd_lease_id = Some (cg_lease_id grant),
      cd_fencing_token = Some (cg_fencing_token grant), cd_granted_units = cg_units grant,
      cd_used_units = used_units p, cd_limit = pc_limit (cp_config p),
      cd_retry_after_seconds = pc_retry_after_seconds (cp_config p), cd_reason = reason\<rparr>"

definition acquire ::
    "string \<Rightarrow> string \<Rightarrow> int \<Rightarrow> int \<Rightarrow> capacity_gate \<Rightarrow> py_error + capacity_decision \<times> capacity_gate" where
  "acquire pool lease_id fencing_token units g =
     res_bind (ensure (lease_id \<noteq> []) ValueError) (\<lambda>_.
     res_bind (ensure (0 \<le> fencing_token) ValueError) (\<lambda>_.
     res_bind (ensure (1 \<le> units) ValueError) (\<lambda>_.
     res_bind (gate_pool pool g) (\<lambda>p.
       case map_of (cp_grants p) (lease_id, fencing_token) of
         Some existing \<Rightarrow>
           Inr (pool_decision CapDuplicate p existing (Some ''duplicate_grant_suppressed''), g)
       | None \<Rightarrow>
           if used_units p + units \<le> pc_limit (cp_config p)
           then
             let grant = \<lparr>cg_pool = pool, cg_lease_id = lease_id, cg_fencing_token = fencing_token,
                          cg_units = units\<rparr>;
                 p' = p\<lparr>cp_grants := AList.update (lease_id, fencing_token) grant (cp_grants p)\<rparr>
             in Inr (pool_decision CapGranted p' grant None, AList.update pool p' g)
           else
             Inr (\<lparr>cd_status = (if pc_wait (cp_config p) then CapWait else CapReject), cd_pool = pool,
                   cd_lease_id = Some lease_id, cd_fencing_token = Some fencing_token,
                   cd_granted_units = 0, cd_used_units = used_units p,
                   cd_limit = pc_limit (cp_config p),
                   cd_retry_after_seconds = pc_retry_after_seconds (cp_config p),
                   cd_reason = Some ''capacity_exhausted''\<rparr>, g)))))"

definition release ::
    "string \<Rightarrow> string \<Rightarrow> int \<Rightarrow> capacity_gate \<Rightarrow> py_error + capacity_decision \<times> capacity_gate" where
  "release pool lease_id fencing_token g =
     res_bind (gate_pool pool g) (\<lambda>p.
       case map_of (cp_grants p) (lease_id, fencing_token) of
         None \<Rightarrow>
           Inr (\<lparr>cd_status = CapReleased, cd_pool = pool, cd_lease_id = Some lease_id,
                 cd_fencing_token = Some fencing_token, cd_granted_units = 0,
                 cd_used_units = used_units p, cd_limit = pc_limit (cp_config p),
                 cd_retry_after_seconds = None, cd_reason = Some ''grant_absent''\<rparr>, g)
       | Some grant \<Rightarrow>
           let p' = p\<lparr>cp_grants := AList.delete (lease_id, fencing_token) (cp_grants p)\<rparr>
           in Inr (pool_decision CapReleased p' grant None, AList.update pool p' g))"

definition usage :: "string \<Rightarrow> capacity_gate \<Rightarrow> py_error + capacity_decision" where
  "usage pool g =
     res_bind (gate_pool pool g) (\<lambda>p.
       Inr \<lparr>cd_status = CapGranted, cd_pool = pool, cd_lease_id = None, cd_fencing_token = None,
            cd_granted_units = 0, cd_used_units = used_units p, cd_limit = pc_limit (cp_config p),
            cd_retry_after_seconds = None, cd_reason = None\<rparr>)"

subsection \<open>Holding a grant around an operation\<close>

record capacity_context =
  cc_lease_id :: string
  cc_fencing_token :: int
  cc_pool :: string
  cc_units :: int
  cc_operation :: "string option"
  cc_release_on_exit :: bool

text \<open>The waited time is the difference of two clock readings, as a \<^verbatim>\<open>repr\<close>.\<close>

definition capacity_delay_metadata ::
    "capacity_decision \<Rightarrow> string \<Rightarrow> string \<Rightarrow> (string \<times> json) list" where
  "capacity_delay_metadata d operation waited =
     [(''operation'', JStr operation), (''status'', JStr (capacity_status_value (cd_status d))),
      (''reason'', JStr (case cd_reason d of None \<Rightarrow> ''capacity_exhausted''
                         | Some r \<Rightarrow> if r = [] then ''capacity_exhausted'' else r)),
      (''waited_seconds'', JFloat waited),
      (''grant_required'', JInt (if cd_granted_units d = 0 then 1 else cd_granted_units d)),
      (''grant_available'', JInt (max (cd_limit d - cd_used_units d) 0)),
      (''used_units'', JInt (cd_used_units d)), (''limit'', JInt (cd_limit d)),
      (''retry_after_seconds'', opt_json JFloat (cd_retry_after_seconds d)),
      (''lease_id'', opt_json JStr (cd_lease_id d)),
      (''fencing_token'', opt_json JInt (cd_fencing_token d))]"

text \<open>How the guarded block ends: an error of the gate, the rejection with its metadata, or the
  block's own result. The body runs on the gate and may use it.\<close>

datatype ('x, 'a) gated =
    GateError py_error
  | CapacityGateRejected capacity_decision "(string \<times> json) list"
  | BodyResult "'x + 'a"

definition gate_capacity ::
    "string \<Rightarrow> string \<Rightarrow> capacity_context option \<Rightarrow>
     (capacity_decision option \<Rightarrow> capacity_gate \<Rightarrow> ('x + 'a) \<times> capacity_gate) \<Rightarrow>
     capacity_gate \<Rightarrow> ('x, 'a) gated \<times> capacity_gate" where
  "gate_capacity operation waited context_opt body g =
     (case context_opt of
        None \<Rightarrow> (let (r, g') = body None g in (BodyResult r, g'))
      | Some c \<Rightarrow>
          (case acquire (cc_pool c) (cc_lease_id c) (cc_fencing_token c) (cc_units c) g of
             Inl e \<Rightarrow> (GateError e, g)
           | Inr (d, g1) \<Rightarrow>
               if \<not> granted d
               then (CapacityGateRejected d (capacity_delay_metadata d
                       (case cc_operation c of None \<Rightarrow> operation
                        | Some x \<Rightarrow> if x = [] then operation else x) waited), g1)
               else
                 let (r, g2) = body (Some d) g1 in
                 if cc_release_on_exit c
                 then (case release (cc_pool c) (cc_lease_id c) (cc_fencing_token c) g2 of
                         Inl e \<Rightarrow> (GateError e, g2)
                       | Inr (_, g3) \<Rightarrow> (BodyResult r, g3))
                 else (BodyResult r, g2)))"

subsection \<open>The limit is kept\<close>

definition pool_ok :: "capacity_pool \<Rightarrow> bool" where
  "pool_ok p \<longleftrightarrow> distinct (map fst (cp_grants p)) \<and>
     list_all (\<lambda>(k, gr). k = grant_identity gr \<and> 1 \<le> cg_units gr) (cp_grants p) \<and>
     used_units p \<le> pc_limit (cp_config p)"

definition gate_ok :: "capacity_gate \<Rightarrow> bool" where
  "gate_ok g \<longleftrightarrow> distinct (map fst g) \<and> list_all (\<lambda>(name, p). pool_ok p) g"

lemma gate_pool_Inr: "gate_pool pool g = Inr p \<longleftrightarrow> map_of g pool = Some p"
  by (simp add: gate_pool_def split: option.splits)

lemma update_fresh: "map_of xs k = None \<Longrightarrow> AList.update k v xs = xs @ [(k, v)]"
  by (induction xs) (auto split: if_splits)

lemma delete_last: "map_of xs k = None \<Longrightarrow> AList.delete k (xs @ [(k, v)]) = xs"
  by (induction xs) (auto split: if_splits simp: AList.delete_eq)

lemma update_same: "map_of xs k = Some v \<Longrightarrow> AList.update k v xs = xs"
  by (induction xs) (auto split: if_splits)

lemma update_twice: "AList.update k v (AList.update k w xs) = AList.update k v xs"
  by (induction xs) auto

lemma sum_delete_le:
  fixes f :: "'b \<Rightarrow> int"
  assumes "list_all (\<lambda>(k, v). 0 \<le> f v) xs"
  shows "sum_list (map (f \<circ> snd) (AList.delete k xs)) \<le> sum_list (map (f \<circ> snd) xs)"
  using assms by (induction xs) (auto simp: AList.delete_eq)

lemma gate_okD: "gate_ok g \<Longrightarrow> map_of g pool = Some p \<Longrightarrow> pool_ok p"
  unfolding gate_ok_def list_all_iff using map_of_SomeD by fastforce

lemma gate_ok_update:
  assumes "gate_ok g" and "pool_ok p"
  shows "gate_ok (AList.update pool p g)"
proof -
  have "list_all (\<lambda>(name, p). pool_ok p) (AList.update pool p xs)"
    if "list_all (\<lambda>(name, p). pool_ok p) xs" for xs
    using that assms(2) by (induction xs) auto
  with assms show ?thesis by (simp add: gate_ok_def distinct_update)
qed

text \<open>The branches of the two operations on a known pool.\<close>

definition add_grant :: "capacity_grant \<Rightarrow> capacity_pool \<Rightarrow> capacity_pool" where
  "add_grant gr p = p\<lparr>cp_grants := AList.update (grant_identity gr) gr (cp_grants p)\<rparr>"

definition drop_grant :: "string \<times> int \<Rightarrow> capacity_pool \<Rightarrow> capacity_pool" where
  "drop_grant k p = p\<lparr>cp_grants := AList.delete k (cp_grants p)\<rparr>"

abbreviation new_grant :: "string \<Rightarrow> string \<Rightarrow> int \<Rightarrow> int \<Rightarrow> capacity_grant" where
  "new_grant pool l f u \<equiv> \<lparr>cg_pool = pool, cg_lease_id = l, cg_fencing_token = f, cg_units = u\<rparr>"

lemma acquire_duplicate:
  assumes "l \<noteq> []" "0 \<le> f" "1 \<le> u" "map_of g pool = Some p" "map_of (cp_grants p) (l, f) = Some gr"
  shows "acquire pool l f u g =
    Inr (pool_decision CapDuplicate p gr (Some ''duplicate_grant_suppressed''), g)"
  using assms by (simp add: acquire_def gate_pool_def)

lemma acquire_new:
  assumes "l \<noteq> []" "0 \<le> f" "1 \<le> u" "map_of g pool = Some p" "map_of (cp_grants p) (l, f) = None"
    and "used_units p + u \<le> pc_limit (cp_config p)"
  shows "acquire pool l f u g = Inr (pool_decision CapGranted (add_grant (new_grant pool l f u) p)
    (new_grant pool l f u) None, AList.update pool (add_grant (new_grant pool l f u) p) g)"
  using assms by (simp add: acquire_def gate_pool_def add_grant_def grant_identity_def Let_def)

lemma acquire_Inr:
  assumes "acquire pool l f u g = Inr (d, g')"
  obtains (duplicate) p gr where "l \<noteq> []" "0 \<le> f" "1 \<le> u" "map_of g pool = Some p"
      "map_of (cp_grants p) (l, f) = Some gr" "g' = g" "cd_status d = CapDuplicate"
    | (new) p where "l \<noteq> []" "0 \<le> f" "1 \<le> u" "map_of g pool = Some p" "map_of (cp_grants p) (l, f) = None"
      "used_units p + u \<le> pc_limit (cp_config p)" "cd_status d = CapGranted"
      "g' = AList.update pool (add_grant (new_grant pool l f u) p) g"
    | (full) p where "map_of g pool = Some p" "pc_limit (cp_config p) < used_units p + u" "g' = g"
      "cd_status d = (if pc_wait (cp_config p) then CapWait else CapReject)"
proof -
  from assms obtain p where p: "map_of g pool = Some p" "l \<noteq> []" "0 \<le> f" "1 \<le> u"
    by (auto simp: acquire_def gate_pool_Inr)
  show thesis
  proof (cases "map_of (cp_grants p) (l, f)")
    case (Some gr)
    from acquire_duplicate [OF p(2-4,1) Some] assms p Some show thesis
      by (intro duplicate [of p gr]) (auto simp: pool_decision_def)
  next
    case None
    show thesis
    proof (cases "used_units p + u \<le> pc_limit (cp_config p)")
      case True
      from acquire_new [OF p(2-4,1) None True] assms p None True show thesis
        by (intro new [of p]) (auto simp: pool_decision_def)
    next
      case False
      with assms p None show thesis
        by (intro full [of p]) (auto simp: acquire_def gate_pool_def)
    qed
  qed
qed

lemma release_held:
  assumes "map_of g pool = Some p" "map_of (cp_grants p) (l, f) = Some gr"
  shows "release pool l f g = Inr (pool_decision CapReleased (drop_grant (l, f) p) gr None,
    AList.update pool (drop_grant (l, f) p) g)"
  using assms by (simp add: release_def gate_pool_def drop_grant_def Let_def)

lemma release_Inr:
  assumes "release pool l f g = Inr (d, g')"
  obtains p where "map_of g pool = Some p"
    "g' = g \<or> g' = AList.update pool (drop_grant (l, f) p) g"
proof -
  from assms obtain p where p: "map_of g pool = Some p" by (auto simp: release_def gate_pool_Inr)
  show thesis
  proof (cases "map_of (cp_grants p) (l, f)")
    case None
    with assms p show thesis by (intro that [of p]) (auto simp: release_def gate_pool_def)
  next
    case (Some gr)
    from release_held [OF p Some] assms p show thesis by (intro that [of p]) auto
  qed
qed

lemma add_grant_ok:
  assumes "pool_ok p" "map_of (cp_grants p) (grant_identity gr) = None" "1 \<le> cg_units gr"
    and "used_units p + cg_units gr \<le> pc_limit (cp_config p)"
  shows "pool_ok (add_grant gr p)"
  using assms by (simp add: pool_ok_def add_grant_def update_fresh used_units_def map_of_eq_None_iff)

lemma drop_grant_ok:
  assumes "pool_ok p"
  shows "pool_ok (drop_grant k p)"
proof -
  have "list_all (\<lambda>(k, gr). 0 \<le> cg_units gr) (cp_grants p)"
    using assms by (auto simp: pool_ok_def list_all_iff)
  from sum_delete_le [OF this, of k] assms show ?thesis
    by (auto simp: pool_ok_def drop_grant_def used_units_def list_all_iff AList.delete_eq
        distinct_map_filter)
qed

lemma acquire_ok: "gate_ok g \<Longrightarrow> acquire pool l f u g = Inr (d, g') \<Longrightarrow> gate_ok g'"
  by (erule acquire_Inr)
    (auto intro!: gate_ok_update add_grant_ok dest: gate_okD simp: grant_identity_def)

lemma release_ok: "gate_ok g \<Longrightarrow> release pool l f g = Inr (d, g') \<Longrightarrow> gate_ok g'"
  by (erule release_Inr) (auto intro!: gate_ok_update drop_grant_ok dest: gate_okD)

text \<open>Requests one after the other.\<close>

datatype capacity_op = AcquireUnits string string int int | ReleaseUnits string string int

fun gate_step :: "capacity_gate \<Rightarrow> capacity_op \<Rightarrow> capacity_gate" where
  "gate_step g (AcquireUnits pool l f u) = (case acquire pool l f u g of Inl _ \<Rightarrow> g | Inr (_, g') \<Rightarrow> g')"
| "gate_step g (ReleaseUnits pool l f) = (case release pool l f g of Inl _ \<Rightarrow> g | Inr (_, g') \<Rightarrow> g')"

lemma gate_step_ok: "gate_ok g \<Longrightarrow> gate_ok (gate_step g x)"
  by (cases x) (auto split: sum.splits intro: acquire_ok release_ok)

lemma gate_run_ok: "gate_ok g \<Longrightarrow> gate_ok (foldl gate_step g xs)"
  by (induction xs arbitrary: g) (auto intro: gate_step_ok)

lemma new_gate_ok:
  assumes "list_all (\<lambda>(name, c). \<not> isl (mk_pool_config c)) pools" and "distinct (map fst pools)"
  shows "gate_ok (new_gate (Some pools))"
proof -
  have "1 \<le> pc_limit c" if "\<not> isl (mk_pool_config c)" for c
    using that by (cases "mk_pool_config c") (auto simp: mk_pool_config_def ensure_def split: if_splits)
  then have "0 \<le> pc_limit c" if "\<not> isl (mk_pool_config c)" for c using that by force
  with assms show ?thesis
    by (auto simp: new_gate_def gate_ok_def pool_ok_def used_units_def list_all_iff comp_def split_def)
qed

lemma pool_ok_used: "pool_ok p \<Longrightarrow> 0 \<le> used_units p \<and> used_units p \<le> pc_limit (cp_config p)"
  unfolding pool_ok_def used_units_def by (fastforce simp: list_all_iff intro!: sum_list_nonneg)

subsection \<open>A grant is given back\<close>

lemma release_new:
  assumes "map_of g pool = Some p" and "map_of (cp_grants p) (l, f) = None"
  shows "\<exists>d. release pool l f (AList.update pool (add_grant (new_grant pool l f u) p) g) = Inr (d, g)"
proof -
  let ?p = "add_grant (new_grant pool l f u) p"
  have grants: "cp_grants ?p = cp_grants p @ [((l, f), new_grant pool l f u)]"
    using assms(2) by (simp add: add_grant_def grant_identity_def update_fresh)
  have "map_of (AList.update pool ?p g) pool = Some ?p"
    by (simp add: update_conv)
  moreover have "map_of (cp_grants ?p) (l, f) = Some (new_grant pool l f u)"
    using assms(2) by (simp add: grants map_add_def)
  ultimately have "release pool l f (AList.update pool ?p g) =
      Inr (pool_decision CapReleased (drop_grant (l, f) ?p) (new_grant pool l f u) None,
        AList.update pool (drop_grant (l, f) ?p) (AList.update pool ?p g))"
    by (rule release_held)
  moreover have "drop_grant (l, f) ?p = p"
    using delete_last [OF assms(2)] by (simp add: drop_grant_def grants) (simp add: add_grant_def)
  ultimately show ?thesis by (simp add: update_twice update_same [OF assms(1)])
qed

lemma granted_then_released:
  assumes "acquire pool l f u g = Inr (d, g')" and "cd_status d = CapGranted"
  shows "\<exists>d'. release pool l f g' = Inr (d', g)"
  using assms by (cases rule: acquire_Inr) (auto simp: release_new split: if_splits)

lemma granted_then_duplicate:
  assumes "acquire pool l f u g = Inr (d, g')" and "granted d" and "1 \<le> u'"
  shows "\<exists>d'. acquire pool l f u' g' = Inr (d', g') \<and> cd_status d' = CapDuplicate"
  using assms(1)
proof (cases rule: acquire_Inr)
  case (duplicate p gr)
  with assms(3) acquire_duplicate [of l f u' g pool p gr] show ?thesis
    by (simp add: pool_decision_def)
next
  case (new p)
  let ?p = "add_grant (new_grant pool l f u) p"
  have "map_of (cp_grants ?p) (l, f) = Some (new_grant pool l f u)"
    by (simp add: add_grant_def grant_identity_def update_conv)
  with new assms(3) acquire_duplicate [of l f u' "AList.update pool ?p g" pool ?p "new_grant pool l f u"]
  show ?thesis by (simp add: update_conv pool_decision_def)
next
  case (full p)
  with assms(2) show ?thesis by (simp add: granted_def split: if_splits)
qed

subsection \<open>Holding a grant\<close>

definition context_acquire ::
    "capacity_context \<Rightarrow> capacity_gate \<Rightarrow> py_error + capacity_decision \<times> capacity_gate" where
  "context_acquire c g = acquire (cc_pool c) (cc_lease_id c) (cc_fencing_token c) (cc_units c) g"

lemma gate_capacity_holds:
  assumes a: "context_acquire c g = Inr (d, g1)" "cd_status d = CapGranted"
    and b: "body (Some d) g1 = (r, g1)" and rel: "cc_release_on_exit c"
  shows "gate_capacity operation w (Some c) body g = (BodyResult r, g)"
proof -
  from granted_then_released [OF a [unfolded context_acquire_def]] obtain d' where
    "release (cc_pool c) (cc_lease_id c) (cc_fencing_token c) g1 = Inr (d', g)" by blast
  with a b rel show ?thesis
    by (simp add: gate_capacity_def context_acquire_def granted_def)
qed

text \<open>A block nested in another one with the same context is a duplicate; its exit gives back the
  grant of the outer block, whose rest then runs without one.\<close>

lemma nested_block_releases_the_outer_grant:
  assumes a: "context_acquire c g = Inr (d, g1)" "cd_status d = CapGranted"
    and b: "\<And>d'. body d' g1 = (r, g1)" and rel: "cc_release_on_exit c"
  shows "gate_capacity operation w (Some c) body g1 = (BodyResult r, g)"
proof -
  have u: "1 \<le> cc_units c" using a(1) by (auto simp: context_acquire_def acquire_def)
  from a(2) have g: "granted d" by (simp add: granted_def)
  from granted_then_duplicate [OF a(1) [unfolded context_acquire_def] g u] obtain d2 where
    d2: "acquire (cc_pool c) (cc_lease_id c) (cc_fencing_token c) (cc_units c) g1 = Inr (d2, g1)"
      "cd_status d2 = CapDuplicate" by blast
  from granted_then_released [OF a [unfolded context_acquire_def]] obtain d' where
    "release (cc_pool c) (cc_lease_id c) (cc_fencing_token c) g1 = Inr (d', g)" by blast
  with d2 b [of "Some d2"] rel show ?thesis
    by (simp add: gate_capacity_def granted_def)
qed

subsection \<open>The properties\<close>

definition sample_pools :: "(string \<times> capacity_pool_config) list" where
  "sample_pools = [(''gpu'', \<lparr>pc_name = ''gpu'', pc_limit = 2, pc_wait = True, pc_retry_after_seconds = None\<rparr>)]"

definition sample_context :: capacity_context where
  "sample_context = \<lparr>cc_lease_id = ''l1'', cc_fencing_token = 1, cc_pool = ''gpu'', cc_units = 2,
     cc_operation = None, cc_release_on_exit = True\<rparr>"

definition sample_grant :: capacity_grant where
  "sample_grant = new_grant ''gpu'' ''l1'' 1 2"

definition sample_held :: capacity_pool where
  "sample_held = \<lparr>cp_config = \<lparr>pc_name = ''gpu'', pc_limit = 2, pc_wait = True, pc_retry_after_seconds = None\<rparr>,
     cp_grants = [((''l1'', 1), sample_grant)]\<rparr>"

lemma sample_acquire:
  "acquire ''gpu'' ''l1'' 1 2 (new_gate (Some sample_pools)) =
     Inr (pool_decision CapGranted sample_held sample_grant None, [(''gpu'', sample_held)])"
  by (simp add: acquire_def sample_pools_def new_gate_def gate_pool_def used_units_def sample_held_def
      sample_grant_def Let_def)

text \<open>C30. A gate built from valid pool configurations never grants more units than a pool's limit,
  whatever sequence of acquire and release requests it serves.\<close>

theorem usage_stays_within_limit:
  assumes "list_all (\<lambda>(name, c). \<not> isl (mk_pool_config c)) pools" and "distinct (map fst pools)"
  shows "list_all (\<lambda>(name, p). 0 \<le> used_units p \<and> used_units p \<le> pc_limit (cp_config p))
    (foldl gate_step (new_gate (Some pools)) requests)"
proof -
  have "gate_ok (foldl gate_step (new_gate (Some pools)) requests)"
    by (rule gate_run_ok [OF new_gate_ok [OF assms]])
  then show ?thesis
    unfolding gate_ok_def list_all_iff using pool_ok_used by fastforce
qed

lemma usage_stays_within_limit_witness:
  "list_all (\<lambda>(name, p). 0 \<le> used_units p \<and> used_units p \<le> pc_limit (cp_config p))
    (foldl gate_step (new_gate (Some sample_pools))
      [AcquireUnits ''gpu'' ''l1'' 1 2, AcquireUnits ''gpu'' ''l2'' 1 1])"
  by (rule usage_stays_within_limit) (simp_all add: sample_pools_def mk_pool_config_def)

text \<open>A granted request is idempotent and undone by its release. Asking again with the same
  lease and fencing token, for any number of units, is a suppressed duplicate that leaves the gate
  alone, and releasing it gives back exactly the gate before the grant.\<close>

theorem grant_is_idempotent_and_undone_by_release:
  assumes "acquire pool l f u g = Inr (d, g')" and "cd_status d = CapGranted" and "1 \<le> u'"
  shows "(\<exists>d'. acquire pool l f u' g' = Inr (d', g') \<and> cd_status d' = CapDuplicate) \<and>
    (\<exists>d'. release pool l f g' = Inr (d', g))"
  using granted_then_duplicate [OF assms(1) _ assms(3)] granted_then_released [OF assms(1,2)] assms(2)
  by (simp add: granted_def)

lemma grant_is_idempotent_and_undone_by_release_witness:
  "(\<exists>d'. acquire ''gpu'' ''l1'' 1 1 [(''gpu'', sample_held)] = Inr (d', [(''gpu'', sample_held)]) \<and>
      cd_status d' = CapDuplicate) \<and>
   (\<exists>d'. release ''gpu'' ''l1'' 1 [(''gpu'', sample_held)] = Inr (d', new_gate (Some sample_pools)))"
  by (rule grant_is_idempotent_and_undone_by_release [OF sample_acquire]) (simp_all add: pool_decision_def)

text \<open>A guarded operation that obtains a fresh grant and leaves the gate as it found it returns
  its own result, raised errors included, with the grant given back. An operation nested in it with
  the same context gives that grant back already: it ends on the gate before the outer grant.\<close>

theorem guarded_operation_gives_its_grant_back:
  assumes "context_acquire c g = Inr (d, g1)" and "cd_status d = CapGranted"
    and "\<And>d'. body d' g1 = (r, g1)" and "cc_release_on_exit c"
  shows "gate_capacity operation waited (Some c) body g = (BodyResult r, g) \<and>
    gate_capacity operation waited (Some c) body g1 = (BodyResult r, g)"
  by (intro conjI gate_capacity_holds [where body = body, OF assms(1,2) assms(3,4)]
      nested_block_releases_the_outer_grant [where body = body, OF assms])

lemma guarded_operation_gives_its_grant_back_witness:
  "gate_capacity ''build'' ''0.0'' (Some sample_context) (\<lambda>_ g. (Inl ''boom'' :: string + unit, g))
     (new_gate (Some sample_pools)) = (BodyResult (Inl ''boom''), new_gate (Some sample_pools)) \<and>
   gate_capacity ''build'' ''0.0'' (Some sample_context) (\<lambda>_ g. (Inl ''boom'' :: string + unit, g))
     [(''gpu'', sample_held)] = (BodyResult (Inl ''boom''), new_gate (Some sample_pools))"
  by (rule guarded_operation_gives_its_grant_back)
    (use sample_acquire in \<open>simp add: context_acquire_def sample_context_def\<close>,
      simp_all add: pool_decision_def sample_context_def)

end
