(* ===== verification/Effect_Ledger.thy ===== *)
theory Effect_Ledger
  imports Prelude
begin

section \<open>The effect ledger\<close>

text \<open>
  \<^verbatim>\<open>arnold/kernel/effect_ledger.py\<close> with the contracts of \<^verbatim>\<open>effect.py\<close> and the key derivation of
  \<^verbatim>\<open>ids.py\<close>: external effects are recorded under their idempotency key before they run and reach one
  terminal state. The recorder of evidence is a callback; the ledger carries the calls made to it,
  oldest first, or nothing when no recorder is configured.
\<close>

subsection \<open>Descriptors and states\<close>

datatype effect_kind = EffIntent | EffFulfillment | EffReceipt | EffCompensation

fun effect_kind_value :: "effect_kind \<Rightarrow> string" where
  "effect_kind_value EffIntent = ''intent''"
| "effect_kind_value EffFulfillment = ''fulfillment''"
| "effect_kind_value EffReceipt = ''receipt''"
| "effect_kind_value EffCompensation = ''compensation''"

record effect_descriptor =
  ed_effect_id :: string
  ed_kind :: effect_kind
  ed_target :: string
  ed_idempotency_key :: string
  ed_payload_schema_hash :: string

datatype effect_state =
  Intended | Fulfilled | Received | Compensated | EffectFailed | Indeterminate

fun effect_state_value :: "effect_state \<Rightarrow> string" where
  "effect_state_value Intended = ''intended''"
| "effect_state_value Fulfilled = ''fulfilled''"
| "effect_state_value Received = ''received''"
| "effect_state_value Compensated = ''compensated''"
| "effect_state_value EffectFailed = ''failed''"
| "effect_state_value Indeterminate = ''indeterminate''"

definition EFFECT_TERMINAL_STATES :: "string list" where
  "EFFECT_TERMINAL_STATES = [''fulfilled'', ''received'', ''compensated'', ''failed'', ''indeterminate'']"

definition is_terminal_effect :: "effect_state \<Rightarrow> bool" where
  "is_terminal_effect s \<longleftrightarrow> effect_state_value s \<in> set EFFECT_TERMINAL_STATES"

record effect_record =
  er_descriptor :: effect_descriptor
  er_state :: effect_state

text \<open>An ill-typed field of a journalled payload, which the descriptor's annotations exclude, is
  reported as \<open>EffectTypeError\<close>.\<close>

datatype effect_error =
  TerminalStateError | EffectKindError | EffectTypeError | MissingIdempotencyPolicyError | EmptyKeyPart

subsection \<open>Payloads\<close>

definition intent_payload :: "effect_descriptor \<Rightarrow> (string \<times> json) list" where
  "intent_payload d =
     [(''effect_id'', JStr (ed_effect_id d)), (''kind'', JStr (effect_kind_value (ed_kind d))),
      (''target'', JStr (ed_target d)), (''idempotency_key'', JStr (ed_idempotency_key d)),
      (''payload_schema_hash'', JStr (ed_payload_schema_hash d))]"

definition fulfillment_payload ::
    "effect_descriptor \<Rightarrow> (string \<times> json) list option \<Rightarrow> (string \<times> json) list" where
  "fulfillment_payload d result =
     AList.update ''result'' (JObj (case result of None \<Rightarrow> [] | Some r \<Rightarrow> r)) (intent_payload d)"

definition receipt_payload ::
    "effect_descriptor \<Rightarrow> (string \<times> json) list option \<Rightarrow> (string \<times> json) list" where
  "receipt_payload d receipt =
     AList.update ''receipt'' (JObj (case receipt of None \<Rightarrow> [] | Some r \<Rightarrow> r)) (intent_payload d)"

definition indeterminate_payload :: "effect_descriptor \<Rightarrow> string \<Rightarrow> (string \<times> json) list" where
  "indeterminate_payload d reason = AList.update ''reason'' (JStr reason) (intent_payload d)"

subsection \<open>The ledger\<close>

datatype effect_evidence =
    EffectIntentCall string "(string \<times> json) list"
  | EffectOutcomeCall string string "(string \<times> json) list"
  | ReconciliationCall string string "(string \<times> json) list"

record effect_ledger =
  el_records :: "(string \<times> effect_record) list"
  el_evidence :: "effect_evidence list option"
  el_boundary_name :: string

definition empty_ledger :: effect_ledger where
  "empty_ledger = \<lparr>el_records = [], el_evidence = None, el_boundary_name = ''kernel.effect_ledger''\<rparr>"

definition record_evidence :: "effect_evidence \<Rightarrow> effect_ledger \<Rightarrow> effect_ledger" where
  "record_evidence e l = l\<lparr>el_evidence := map_option (\<lambda>calls. calls @ [e]) (el_evidence l)\<rparr>"

definition prerecord :: "effect_descriptor \<Rightarrow> effect_ledger \<Rightarrow> bool \<times> effect_ledger" where
  "prerecord effect l =
     (if map_of (el_records l) (ed_idempotency_key effect) \<noteq> None
      then (False, record_evidence (ReconciliationCall (el_boundary_name l @ ''.duplicate'')
                     ''already_intended'' (intent_payload effect)) l)
      else
        let l1 = record_evidence (EffectIntentCall (el_boundary_name l @ ''.'' @ ed_effect_id effect)
                   (intent_payload effect)) l
        in (True, l1\<lparr>el_records := AList.update (ed_idempotency_key effect)
                       \<lparr>er_descriptor = effect, er_state = Intended\<rparr> (el_records l1)\<rparr>))"

definition guard_terminal :: "effect_record option \<Rightarrow> effect_error + unit" where
  "guard_terminal r =
     (case r of None \<Rightarrow> Inr () | Some x \<Rightarrow> ensure (\<not> is_terminal_effect (er_state x)) TerminalStateError)"

definition record_outcome :: "effect_descriptor \<Rightarrow> effect_state \<Rightarrow> effect_ledger \<Rightarrow> effect_ledger" where
  "record_outcome d s l =
     record_evidence (EffectOutcomeCall (el_boundary_name l @ ''.'' @ ed_effect_id d) (effect_state_value s)
       (AList.update ''lifecycle_state'' (JStr (effect_state_value s)) (intent_payload d))) l"

definition set_state :: "string \<Rightarrow> effect_record \<Rightarrow> effect_state \<Rightarrow> effect_ledger \<Rightarrow> effect_ledger" where
  "set_state key r s l =
     l\<lparr>el_records := AList.update key \<lparr>er_descriptor = er_descriptor r, er_state = s\<rparr> (el_records l)\<rparr>"

definition mark_fulfilled :: "string \<Rightarrow> effect_ledger \<Rightarrow> effect_error + effect_ledger" where
  "mark_fulfilled key l =
     (let r = map_of (el_records l) key in
      res_bind (guard_terminal r) (\<lambda>_.
        case r of
          None \<Rightarrow> Inr l
        | Some x \<Rightarrow> Inr (record_outcome (er_descriptor x) Fulfilled (set_state key x Fulfilled l))))"

definition mark_received :: "string \<Rightarrow> effect_ledger \<Rightarrow> effect_error + effect_ledger" where
  "mark_received key l =
     (let r = map_of (el_records l) key in
      res_bind (guard_terminal r) (\<lambda>_.
        case r of
          None \<Rightarrow> Inr l
        | Some x \<Rightarrow> Inr (record_outcome (er_descriptor x) Received (set_state key x Received l))))"

definition mark_compensated :: "string \<Rightarrow> effect_ledger \<Rightarrow> effect_error + effect_ledger" where
  "mark_compensated key l =
     (let r = map_of (el_records l) key in
      res_bind (guard_terminal r) (\<lambda>_.
        case r of
          None \<Rightarrow> Inr l
        | Some x \<Rightarrow> Inr (record_outcome (er_descriptor x) Compensated (set_state key x Compensated l))))"

definition mark_failed :: "string \<Rightarrow> effect_ledger \<Rightarrow> effect_error + effect_ledger" where
  "mark_failed key l =
     (let r = map_of (el_records l) key in
      res_bind (guard_terminal r) (\<lambda>_.
        case r of
          None \<Rightarrow> Inr l
        | Some x \<Rightarrow> Inr (record_outcome (er_descriptor x) EffectFailed (set_state key x EffectFailed l))))"

text \<open>An indeterminate effect records no outcome.\<close>

definition mark_indeterminate :: "string \<Rightarrow> effect_ledger \<Rightarrow> effect_error + effect_ledger" where
  "mark_indeterminate key l =
     (let r = map_of (el_records l) key in
      res_bind (guard_terminal r) (\<lambda>_.
        case r of
          None \<Rightarrow> Inr l
        | Some x \<Rightarrow> Inr (set_state key x Indeterminate l)))"

definition get_effect :: "string \<Rightarrow> effect_ledger \<Rightarrow> effect_descriptor option" where
  "get_effect key l = map_option er_descriptor (map_of (el_records l) key)"

definition get_effect_record :: "string \<Rightarrow> effect_ledger \<Rightarrow> effect_record option" where
  "get_effect_record key l = map_of (el_records l) key"

definition is_duplicate :: "string \<Rightarrow> effect_ledger \<Rightarrow> bool" where
  "is_duplicate key l \<longleftrightarrow> map_of (el_records l) key \<noteq> None"

definition ledger_length :: "effect_ledger \<Rightarrow> nat" where
  "ledger_length l = length (el_records l)"

subsection \<open>Idempotency policy and keys\<close>

definition policy_text :: "string option \<Rightarrow> bool" where
  "policy_text x \<longleftrightarrow> x \<noteq> None \<and> x \<noteq> Some []"

definition require_idempotency_policy ::
    "string option \<Rightarrow> string option \<Rightarrow> bool \<Rightarrow> effect_error + unit" where
  "require_idempotency_policy key_ref key_template required =
     (if \<not> required then Inr ()
      else ensure (policy_text key_ref \<or> policy_text key_template) MissingIdempotencyPolicyError)"

text \<open>\<^verbatim>\<open>derive_idempotency_key\<close>: the parts joined by the unit separator, hashed; \<open>sha\<close> stands for the
  prefixed SHA-256 digest of the text.\<close>

fun join_parts :: "string list \<Rightarrow> string" where
  "join_parts [] = []"
| "join_parts [p] = p"
| "join_parts (p # ps) = p @ char_of (31 :: nat) # join_parts ps"

definition derive_idempotency_key :: "(string \<Rightarrow> string) \<Rightarrow> string list \<Rightarrow> effect_error + string" where
  "derive_idempotency_key sha parts =
     res_bind (ensure (parts \<noteq> [] \<and> list_all (\<lambda>p. p \<noteq> []) parts) EmptyKeyPart) (\<lambda>_.
       Inr (sha (join_parts parts)))"

definition derive_effect_idempotency_key ::
    "(string \<Rightarrow> string) \<Rightarrow> string \<Rightarrow> string \<Rightarrow> string \<Rightarrow> string option \<Rightarrow> string option \<Rightarrow>
     effect_error + string" where
  "derive_effect_idempotency_key sha run_id node_ref effect_id key_template key_ref =
     (if policy_text key_template
      then derive_idempotency_key sha [run_id, node_ref, effect_id, the key_template]
      else if policy_text key_ref
      then derive_idempotency_key sha [run_id, node_ref, effect_id, the key_ref]
      else derive_idempotency_key sha [run_id, node_ref, effect_id])"

subsection \<open>Folding a journal\<close>

record effect_event =
  ee_kind :: string
  ee_payload :: "(string \<times> json) list"

definition EFFECT_EVENT_KINDS :: "string list" where
  "EFFECT_EVENT_KINDS = [''effect_intent'', ''effect_fulfillment'', ''effect_receipt'',
     ''effect_compensation'', ''effect_failure'', ''effect_indeterminate'']"

definition payload_text :: "(string \<times> json) list \<Rightarrow> string \<Rightarrow> string \<Rightarrow> effect_error + string" where
  "payload_text d k dflt =
     (case map_of d k of
        None \<Rightarrow> Inr dflt
      | Some v \<Rightarrow> (case as_str v of Some s \<Rightarrow> Inr s | None \<Rightarrow> Inl EffectTypeError))"

text \<open>\<^verbatim>\<open>EffectKind(value)\<close>.\<close>

definition effect_kind_of :: "json \<Rightarrow> effect_error + effect_kind" where
  "effect_kind_of v =
     (case List.find (\<lambda>k. v = JStr (effect_kind_value k))
             [EffIntent, EffFulfillment, EffReceipt, EffCompensation] of
        None \<Rightarrow> Inl EffectKindError
      | Some k \<Rightarrow> Inr k)"

definition event_descriptor :: "(string \<times> json) list \<Rightarrow> effect_error + effect_descriptor" where
  "event_descriptor payload =
     res_bind (payload_text payload ''idempotency_key'' []) (\<lambda>key.
     res_bind (payload_text payload ''effect_id'' []) (\<lambda>effect_id.
     res_bind (effect_kind_of (dget payload ''kind'' (JStr ''intent''))) (\<lambda>kind.
     res_bind (payload_text payload ''target'' []) (\<lambda>target.
     res_bind (payload_text payload ''payload_schema_hash'' []) (\<lambda>schema.
       Inr \<lparr>ed_effect_id = effect_id, ed_kind = kind, ed_target = target,
            ed_idempotency_key = key, ed_payload_schema_hash = schema\<rparr>)))))"

definition fold_event :: "effect_event \<Rightarrow> effect_ledger \<Rightarrow> effect_error + effect_ledger" where
  "fold_event e l =
     (if ee_kind e \<notin> set EFFECT_EVENT_KINDS then Inr l
      else if \<not> truthy (dget (ee_payload e) ''idempotency_key'' JNull) then Inr l
      else
        res_bind (event_descriptor (ee_payload e)) (\<lambda>d.
          let key = ed_idempotency_key d; l1 = snd (prerecord d l)
          in if ee_kind e = ''effect_intent'' then Inr l1
             else if ee_kind e = ''effect_fulfillment'' then mark_fulfilled key l1
             else if ee_kind e = ''effect_receipt'' then mark_received key l1
             else if ee_kind e = ''effect_compensation'' then mark_compensated key l1
             else if ee_kind e = ''effect_failure'' then mark_failed key l1
             else if ee_kind e = ''effect_indeterminate'' then mark_indeterminate key l1
             else Inr l1))"

fun fold_events :: "effect_event list \<Rightarrow> effect_ledger \<Rightarrow> effect_error + effect_ledger" where
  "fold_events [] l = Inr l"
| "fold_events (e # es) l = res_bind (fold_event e l) (fold_events es)"

definition fold_effect_ledger :: "effect_event list \<Rightarrow> effect_error + effect_ledger" where
  "fold_effect_ledger events = fold_events events empty_ledger"

end
