(* ===== verification/Effect_Facts.thy ===== *)
theory Effect_Facts
  imports Effect_Ledger
begin

section \<open>What the effect ledger guarantees\<close>

text \<open>
  The lifecycle of one effect as a step relation, which every ledger operation implements; the
  at-most-once contract of a recording store as a locale, interpreted on the ledger; and when the
  fold of a journal succeeds.
\<close>

subsection \<open>The lifecycle\<close>

inductive effect_step :: "effect_state option \<Rightarrow> effect_state option \<Rightarrow> bool" where
  intend: "effect_step None (Some Intended)"
| settle: "s \<noteq> Intended \<Longrightarrow> effect_step (Some Intended) (Some s)"

inductive_cases stepE [elim!]: "effect_step (Some s) x"
inductive_simps step_None [simp]: "effect_step None x"
inductive_simps step_Some [simp]: "effect_step (Some s) x"

declare effect_step.intros [intro]

lemma terminal_effect_iff: "is_terminal_effect s \<longleftrightarrow> s \<noteq> Intended"
  by (cases s) (simp_all add: is_terminal_effect_def EFFECT_TERMINAL_STATES_def)

text \<open>A settled effect takes no further step.\<close>

lemma settled_final:
  assumes "effect_step\<^sup>*\<^sup>* (Some s) x" and "s \<noteq> Intended"
  shows "x = Some s"
  using assms by (induction rule: rtranclp_induct) auto

subsection \<open>Operations on one key\<close>

definition state_of :: "effect_ledger \<Rightarrow> string \<Rightarrow> effect_state option" where
  "state_of l k = map_option er_state (map_of (el_records l) k)"

lemma record_evidence_records [simp]: "el_records (record_evidence e l) = el_records l"
  by (simp add: record_evidence_def)

lemma record_outcome_records [simp]: "el_records (record_outcome d s l) = el_records l"
  by (simp add: record_outcome_def)

lemma prerecord_known:
  assumes "map_of (el_records l) (ed_idempotency_key d) = Some r"
  shows "fst (prerecord d l) = False" and "el_records (snd (prerecord d l)) = el_records l"
  using assms by (simp_all add: prerecord_def)

lemma prerecord_new:
  assumes "map_of (el_records l) (ed_idempotency_key d) = None"
  shows "fst (prerecord d l) = True" and "el_records (snd (prerecord d l)) =
    AList.update (ed_idempotency_key d) \<lparr>er_descriptor = d, er_state = Intended\<rparr> (el_records l)"
  using assms by (simp_all add: prerecord_def Let_def)

lemma prerecord_state:
  "state_of (snd (prerecord d l)) k =
     (if k = ed_idempotency_key d \<and> state_of l k = None then Some Intended else state_of l k)"
  by (cases "map_of (el_records l) (ed_idempotency_key d)")
    (auto simp: prerecord_known prerecord_new state_of_def update_conv)

lemma prerecord_effect:
  "get_effect k l = Some e \<Longrightarrow> get_effect k (snd (prerecord d l)) = Some e"
  by (cases "map_of (el_records l) (ed_idempotency_key d)")
    (auto simp: prerecord_known prerecord_new get_effect_def update_conv)

text \<open>What the five marks have in common.\<close>

definition marks :: "effect_state \<Rightarrow> (string \<Rightarrow> effect_ledger \<Rightarrow> effect_error + effect_ledger) \<Rightarrow> bool" where
  "marks s m \<longleftrightarrow> s \<noteq> Intended \<and> (\<forall>key l.
     (case map_of (el_records l) key of
        None \<Rightarrow> m key l = Inr l
      | Some r \<Rightarrow>
          if er_state r = Intended
          then \<exists>l'. m key l = Inr l' \<and>
            el_records l' = AList.update key \<lparr>er_descriptor = er_descriptor r, er_state = s\<rparr> (el_records l)
          else m key l = Inl TerminalStateError))"

lemma guard_terminal_Some:
  "guard_terminal (Some r) = (if er_state r = Intended then Inr () else Inl TerminalStateError)"
  by (simp add: guard_terminal_def terminal_effect_iff ensure_def)

lemma guard_terminal_None: "guard_terminal None = Inr ()"
  by (simp add: guard_terminal_def)

lemma all_marks:
  "marks Fulfilled mark_fulfilled" "marks Received mark_received" "marks Compensated mark_compensated"
  "marks EffectFailed mark_failed" "marks Indeterminate mark_indeterminate"
  by (auto simp: marks_def mark_fulfilled_def mark_received_def mark_compensated_def mark_failed_def
      mark_indeterminate_def guard_terminal_Some guard_terminal_None set_state_def Let_def
      split: option.splits)

lemma marksD:
  assumes "marks s m"
  shows "state_of l key = None \<Longrightarrow> m key l = Inr l"
    and "state_of l key = Some Intended \<Longrightarrow> \<exists>l'. m key l = Inr l' \<and>
      state_of l' = (state_of l)(key \<mapsto> s) \<and> (\<forall>k. get_effect k l' = get_effect k l)"
    and "state_of l key = Some x \<Longrightarrow> x \<noteq> Intended \<Longrightarrow> m key l = Inl TerminalStateError"
proof -
  have m: "case map_of (el_records l) key of
        None \<Rightarrow> m key l = Inr l
      | Some r \<Rightarrow>
          if er_state r = Intended
          then \<exists>l'. m key l = Inr l' \<and>
            el_records l' = AList.update key \<lparr>er_descriptor = er_descriptor r, er_state = s\<rparr> (el_records l)
          else m key l = Inl TerminalStateError"
    using assms unfolding marks_def by blast
  show "state_of l key = None \<Longrightarrow> m key l = Inr l"
    using m by (simp add: state_of_def split: option.splits)
  show "state_of l key = Some x \<Longrightarrow> x \<noteq> Intended \<Longrightarrow> m key l = Inl TerminalStateError"
    using m by (auto simp: state_of_def)
  assume "state_of l key = Some Intended"
  then obtain r where r: "map_of (el_records l) key = Some r" "er_state r = Intended"
    by (auto simp: state_of_def)
  with m obtain l' where l': "m key l = Inr l'"
    "el_records l' = AList.update key \<lparr>er_descriptor = er_descriptor r, er_state = s\<rparr> (el_records l)"
    by auto
  have "state_of l' = (state_of l)(key \<mapsto> s)" by (rule ext) (simp add: state_of_def l'(2) update_conv)
  moreover have "\<forall>k. get_effect k l' = get_effect k l"
    using r by (simp add: get_effect_def l'(2) update_conv)
  ultimately show "\<exists>l'. m key l = Inr l' \<and>
      state_of l' = (state_of l)(key \<mapsto> s) \<and> (\<forall>k. get_effect k l' = get_effect k l)"
    using l'(1) by blast
qed

subsection \<open>Requests\<close>

datatype ledger_op =
    PrerecordEffect effect_descriptor
  | MarkFulfilled string | MarkReceived string | MarkCompensated string | MarkFailed string
  | MarkIndeterminate string

fun ledger_exec :: "ledger_op \<Rightarrow> effect_ledger \<Rightarrow> effect_error + bool \<times> effect_ledger" where
  "ledger_exec (PrerecordEffect d) l = Inr (prerecord d l)"
| "ledger_exec (MarkFulfilled k) l = res_bind (mark_fulfilled k l) (\<lambda>l'. Inr (False, l'))"
| "ledger_exec (MarkReceived k) l = res_bind (mark_received k l) (\<lambda>l'. Inr (False, l'))"
| "ledger_exec (MarkCompensated k) l = res_bind (mark_compensated k l) (\<lambda>l'. Inr (False, l'))"
| "ledger_exec (MarkFailed k) l = res_bind (mark_failed k l) (\<lambda>l'. Inr (False, l'))"
| "ledger_exec (MarkIndeterminate k) l = res_bind (mark_indeterminate k l) (\<lambda>l'. Inr (False, l'))"

text \<open>A raising request leaves the ledger as it was.\<close>

definition ledger_step :: "effect_ledger \<Rightarrow> ledger_op \<Rightarrow> effect_ledger" where
  "ledger_step l q = (case ledger_exec q l of Inl _ \<Rightarrow> l | Inr (_, l') \<Rightarrow> l')"

text \<open>The key a request reports as newly recorded.\<close>

definition newly_recorded :: "ledger_op \<Rightarrow> effect_ledger \<Rightarrow> string option" where
  "newly_recorded q l =
     (case q of PrerecordEffect d \<Rightarrow> if fst (prerecord d l) then Some (ed_idempotency_key d) else None
      | _ \<Rightarrow> None)"

lemma mark_refines:
  fixes key :: string and l :: effect_ledger
  assumes "marks s m"
  defines "l' \<equiv> (case res_bind (m key l) (\<lambda>l'. Inr (False, l')) of Inl _ \<Rightarrow> l | Inr (_, l') \<Rightarrow> l')"
  shows "(effect_step (state_of l k) (state_of l' k) \<or> state_of l k = state_of l' k)" and "get_effect k l' = get_effect k l"
    and "state_of l' k = None \<longleftrightarrow> state_of l k = None"
proof -
  note m = marksD [OF assms(1), where key = key and l = l]
  have "(effect_step (state_of l k) (state_of l' k) \<or> state_of l k = state_of l' k) \<and> get_effect k l' = get_effect k l \<and>
      (state_of l' k = None \<longleftrightarrow> state_of l k = None)"
  proof (cases "state_of l key")
    case None
    then show ?thesis using m(1) by (simp add: l'_def)
  next
    case (Some x)
    show ?thesis
    proof (cases "x = Intended")
      case True
      with m(2) Some obtain l2 where "m key l = Inr l2" "state_of l2 = (state_of l)(key \<mapsto> s)"
        "\<And>k. get_effect k l2 = get_effect k l" by blast
      with Some True assms(1) show ?thesis by (auto simp: l'_def marks_def)
    next
      case False
      with m(3) Some show ?thesis by (simp add: l'_def)
    qed
  qed
  then show "(effect_step (state_of l k) (state_of l' k) \<or> state_of l k = state_of l' k)" "get_effect k l' = get_effect k l"
    "state_of l' k = None \<longleftrightarrow> state_of l k = None" by blast+
qed

lemma step_refines:
  "(effect_step (state_of l k) (state_of (ledger_step l q) k) \<or> state_of l k = state_of (ledger_step l q) k)"
  "get_effect k l = Some e \<Longrightarrow> get_effect k (ledger_step l q) = Some e"
proof -
  note marks = all_marks [THEN mark_refines(1)] all_marks [THEN mark_refines(2)]
  show "(effect_step (state_of l k) (state_of (ledger_step l q) k) \<or> state_of l k = state_of (ledger_step l q) k)"
    by (cases q) (auto simp: ledger_step_def prerecord_state marks case_prod_unfold)
  show "get_effect k l = Some e \<Longrightarrow> get_effect k (ledger_step l q) = Some e"
    by (cases q) (simp_all add: ledger_step_def prerecord_effect marks case_prod_unfold)
qed

lemma run_refines:
  "effect_step\<^sup>*\<^sup>* (state_of l k) (state_of (foldl ledger_step l qs) k)"
proof (induction qs arbitrary: l)
  case (Cons q qs)
  have "effect_step\<^sup>*\<^sup>* (state_of l k) (state_of (ledger_step l q) k)"
    using step_refines(1) [of l k q] by auto
  with Cons [of "ledger_step l q"] show ?case by simp
qed simp

lemma run_keeps_effect:
  "get_effect k l = Some e \<Longrightarrow> get_effect k (foldl ledger_step l qs) = Some e"
  by (induction qs arbitrary: l) (simp_all add: step_refines(2))

subsection \<open>At most once\<close>

text \<open>A store that knows keys and reports which one a request added. It answers "new" for a key at
  most once, and exactly once when some request asks for it.\<close>

locale at_most_once =
  fixes exec :: "'st \<Rightarrow> 'op \<Rightarrow> 'st"
    and fresh :: "'op \<Rightarrow> 'st \<Rightarrow> 'k option"
    and asks :: "'op \<Rightarrow> 'k \<Rightarrow> bool"
    and known :: "'k \<Rightarrow> 'st \<Rightarrow> bool"
  assumes fresh_iff: "fresh q s = Some k \<longleftrightarrow> asks q k \<and> \<not> known k s"
    and known_exec: "known k (exec s q) \<longleftrightarrow> known k s \<or> asks q k"
begin

fun times_fresh :: "'k \<Rightarrow> 'st \<Rightarrow> 'op list \<Rightarrow> nat" where
  "times_fresh k s [] = 0"
| "times_fresh k s (q # qs) = (if fresh q s = Some k then 1 else 0) + times_fresh k (exec s q) qs"

lemma times_fresh_eq:
  "times_fresh k s qs = (if known k s then 0 else if list_ex (\<lambda>q. asks q k) qs then 1 else 0)"
  by (induction qs arbitrary: s) (auto simp: fresh_iff known_exec)

end

definition asks_for :: "ledger_op \<Rightarrow> string \<Rightarrow> bool" where
  "asks_for q k = (case q of PrerecordEffect d \<Rightarrow> ed_idempotency_key d = k | _ \<Rightarrow> False)"

lemma duplicate_state: "is_duplicate k l \<longleftrightarrow> state_of l k \<noteq> None"
  by (simp add: is_duplicate_def state_of_def)

lemma step_known: "is_duplicate k (ledger_step l q) \<longleftrightarrow> is_duplicate k l \<or> asks_for q k"
proof (cases q)
  case (PrerecordEffect d)
  then show ?thesis
    by (auto simp: duplicate_state asks_for_def ledger_step_def prerecord_state case_prod_unfold)
qed (simp_all add: duplicate_state asks_for_def ledger_step_def all_marks [THEN mark_refines(3)])

interpretation effects: at_most_once ledger_step newly_recorded asks_for is_duplicate
proof
  fix q l and k :: string
  show "newly_recorded q l = Some k \<longleftrightarrow> asks_for q k \<and> \<not> is_duplicate k l"
    by (cases q) (auto simp: newly_recorded_def asks_for_def is_duplicate_def prerecord_def Let_def)
  show "is_duplicate k (ledger_step l q) \<longleftrightarrow> is_duplicate k l \<or> asks_for q k"
    by (rule step_known)
qed

subsection \<open>The fold of a journal\<close>












lemma state_of_empty [simp]: "state_of empty_ledger k = None"
  by (simp add: state_of_def empty_ledger_def)


subsection \<open>The properties\<close>

text \<open>C33. Every sequence of requests moves an effect along its lifecycle, from nothing to intended
  to one terminal state, one step per request at most; a recorded descriptor never changes.\<close>

theorem ledger_implements_lifecycle:
  "effect_step\<^sup>*\<^sup>* (state_of l k) (state_of (foldl ledger_step l requests) k) \<and>
   (case get_effect k l of None \<Rightarrow> True | Some e \<Rightarrow> get_effect k (foldl ledger_step l requests) = Some e)"
  using run_refines run_keeps_effect by (simp split: option.split)

text \<open>An effect is intended at most once. Over any requests a key is reported as new once if
  the ledger did not know it and some request records it, and never otherwise.\<close>

theorem effect_recorded_once:
  "effects.times_fresh k l requests =
     (if is_duplicate k l then 0 else if list_ex (\<lambda>q. asks_for q k) requests then 1 else 0)"
  by (rule effects.times_fresh_eq)


end
