(* ===== verification/Scheduler.thy ===== *)
theory Scheduler
  imports Prelude
begin

section \<open>The task scheduler\<close>

text \<open>
  Topological batching of plan tasks: \<^verbatim>\<open>compute_task_batches\<close> and its companions in
  \<^verbatim>\<open>megaplan/_core/io.py\<close>, \<^verbatim>\<open>schedule_batches\<close> of \<^verbatim>\<open>scheduler/topo.py\<close> and the loop of
  \<^verbatim>\<open>scheduler/run.py\<close>. A Python set of task ids is a list without order: only membership is used.
\<close>

subsection \<open>Tasks\<close>

text \<open>A task record as the scheduler reads it; \<open>None\<close> is a \<^verbatim>\<open>depends_on\<close> that is missing or no list.\<close>

record sched_task =
  tk_id :: string
  tk_depends_on :: "string list option"

datatype sched_error = UnknownDependency string string | CyclicDependencies "string list" | RangeError

definition task_deps :: "sched_task \<Rightarrow> string list" where
  "task_deps t = (case tk_depends_on t of None \<Rightarrow> [] | Some ds \<Rightarrow> ds)"

text \<open>The dependencies of one task that are tasks themselves; a dependency that is neither a task nor
  completed raises.\<close>

definition normalize_deps ::
    "string list \<Rightarrow> string list \<Rightarrow> sched_task \<Rightarrow> sched_error + string list" where
  "normalize_deps task_ids completed t =
     (case List.find (\<lambda>d. d \<notin> set task_ids \<and> d \<notin> set completed) (task_deps t) of
        Some d \<Rightarrow> Inl (UnknownDependency d (tk_id t))
      | None \<Rightarrow> Inr (filter (\<lambda>d. d \<in> set task_ids) (task_deps t)))"

text \<open>The dictionary \<^verbatim>\<open>remaining\<close>: a later task with the same id replaces an earlier one.\<close>

fun remaining_deps ::
    "string list \<Rightarrow> string list \<Rightarrow> sched_task list \<Rightarrow> (string \<times> string list) list \<Rightarrow>
     sched_error + (string \<times> string list) list" where
  "remaining_deps task_ids completed [] r = Inr r"
| "remaining_deps task_ids completed (t # ts) r =
     res_bind (normalize_deps task_ids completed t) (\<lambda>ds.
       remaining_deps task_ids completed ts (AList.update (tk_id t) ds r))"

definition ready_tasks ::
    "(string \<times> string list) list \<Rightarrow> string list \<Rightarrow> string list \<Rightarrow> string list" where
  "ready_tasks remaining satisfied unscheduled =
     filter (\<lambda>t. case map_of remaining t of None \<Rightarrow> True | Some ds \<Rightarrow> set ds \<subseteq> set satisfied) unscheduled"

text \<open>The loop. \<open>unscheduled\<close> is kept in the order of \<^verbatim>\<open>order_index\<close>, so \<open>ready\<close> comes out sorted.\<close>

function batch_loop ::
    "(string \<times> string list) list \<Rightarrow> string list \<Rightarrow> string list \<Rightarrow> sched_error + string list list" where
  "batch_loop remaining satisfied unscheduled =
     (if unscheduled = [] then Inr []
      else
        let ready = ready_tasks remaining satisfied unscheduled
        in if ready = [] then Inl (CyclicDependencies unscheduled)
           else
             res_bind (batch_loop remaining (satisfied @ ready)
                         (filter (\<lambda>t. t \<notin> set ready) unscheduled))
               (\<lambda>batches. Inr (ready # batches)))"
  by pat_completeness auto
termination
proof (relation "measure (\<lambda>(remaining, satisfied, unscheduled). length unscheduled)")
  fix remaining satisfied unscheduled and ready :: "string list"
  assume "unscheduled \<noteq> []" and r: "ready = ready_tasks remaining satisfied unscheduled" and "ready \<noteq> []"
  then obtain t where "t \<in> set ready" using hd_in_set by blast
  then have "t \<in> set unscheduled" "\<not> t \<notin> set ready" by (auto simp: r ready_tasks_def)
  then have "length (filter (\<lambda>t. t \<notin> set ready) unscheduled) < length unscheduled"
    by (rule length_filter_less)
  then show "((remaining, satisfied @ ready, filter (\<lambda>t. t \<notin> set ready) unscheduled),
      remaining, satisfied, unscheduled)
    \<in> measure (\<lambda>(remaining, satisfied, unscheduled). length unscheduled)" by simp
qed simp

declare batch_loop.simps [simp del]

text \<open>\<^verbatim>\<open>order_index\<close> holds the last position of an id, and \<open>remdups\<close> keeps last occurrences.\<close>

definition compute_task_batches ::
    "sched_task list \<Rightarrow> string list \<Rightarrow> sched_error + string list list" where
  "compute_task_batches tasks completed =
     (let task_ids = map tk_id tasks
      in res_bind (remaining_deps task_ids completed tasks []) (\<lambda>remaining.
           batch_loop remaining completed (remdups task_ids)))"

subsection \<open>Sizes\<close>

definition effective_max_size :: "int \<Rightarrow> int \<Rightarrow> nat" where
  "effective_max_size max_size default_max_size =
     (let m = (if max_size \<le> 0 then default_max_size else max_size)
      in nat (if m \<le> 0 then 5 else m))"

definition split_oversized_batches :: "string list list \<Rightarrow> int \<Rightarrow> int \<Rightarrow> string list list" where
  "split_oversized_batches batches max_size default_max_size =
     (let m = effective_max_size max_size default_max_size
      in concat (map (\<lambda>batch. if length batch \<le> m then [batch] else chunks m batch) batches))"

definition schedule_batches ::
    "sched_task list \<Rightarrow> int \<Rightarrow> string list \<Rightarrow> int \<Rightarrow> sched_error + string list list" where
  "schedule_batches work_list max_batch_size completed default_max_size =
     res_bind (compute_task_batches work_list completed) (\<lambda>raw.
       let kept = (if completed = [] then raw
                   else filter (\<lambda>b. b \<noteq> []) (map (filter (\<lambda>t. t \<notin> set completed)) raw))
       in Inr (split_oversized_batches kept max_batch_size default_max_size))"

text \<open>The driver and the reducer are arguments; the driver works on a state of its own.\<close>

fun run_batches ::
    "(string list \<Rightarrow> 's \<Rightarrow> 'r \<times> 's) \<Rightarrow> ('r \<Rightarrow> string list \<Rightarrow> nat \<Rightarrow> 'a) \<Rightarrow> nat \<Rightarrow> string list list \<Rightarrow>
     's \<Rightarrow> 'a list \<times> 's" where
  "run_batches process reduce i [] s = ([], s)"
| "run_batches process reduce i (b # bs) s =
     (let (r, s1) = process b s; (rs, s2) = run_batches process reduce (Suc i) bs s1
      in (reduce r b i # rs, s2))"

definition run_scheduler ::
    "sched_task list \<Rightarrow> (string list \<Rightarrow> 's \<Rightarrow> 'r \<times> 's) \<Rightarrow> ('r \<Rightarrow> string list \<Rightarrow> nat \<Rightarrow> 'a) \<Rightarrow> int \<Rightarrow>
     string list \<Rightarrow> 's \<Rightarrow> sched_error + 'a list \<times> 's" where
  "run_scheduler work_list process reduce max_batch_size completed s =
     res_bind (schedule_batches work_list max_batch_size completed 5) (\<lambda>batches.
       Inr (run_batches process reduce 0 batches s))"

subsection \<open>Complexity\<close>

text \<open>The tasks of the finalize data by id: only dictionaries with a string id count, the last one
  wins.\<close>

definition finalize_tasks :: "(string \<times> json) list \<Rightarrow> json list option" where
  "finalize_tasks data = as_list (dget data ''tasks'' (JArr []))"

definition task_map :: "json list \<Rightarrow> (string \<times> (string \<times> json) list) list" where
  "task_map tasks =
     fold (\<lambda>task m. case as_dict task of
             None \<Rightarrow> m
           | Some d \<Rightarrow> (case as_str (dget d ''id'' JNull) of None \<Rightarrow> m | Some i \<Rightarrow> AList.update i d m))
       tasks []"

definition effective_complexity :: "(string \<times> json) list \<Rightarrow> int option" where
  "effective_complexity task =
     (case as_int (dget task ''complexity'' JNull) of
        None \<Rightarrow> None
      | Some c \<Rightarrow>
          if c < 1 \<or> 10 < c then None
          else case as_int (dget task ''tier_override'' JNull) of
                 None \<Rightarrow> Some c
               | Some o' \<Rightarrow> if 1 \<le> o' \<and> o' \<le> 10 then Some (max c o') else Some c)"

fun max_complexity ::
    "(string \<times> (string \<times> json) list) list \<Rightarrow> int \<Rightarrow> string list \<Rightarrow> int" where
  "max_complexity m acc [] = (if 0 < acc then acc else 10)"
| "max_complexity m acc (t # ts) =
     (case map_of m t of
        None \<Rightarrow> 10
      | Some task \<Rightarrow>
          (case effective_complexity task of
             None \<Rightarrow> 10
           | Some c \<Rightarrow> max_complexity m (if acc < c then c else acc) ts))"

definition compute_batch_complexity :: "(string \<times> json) list \<Rightarrow> string list \<Rightarrow> int" where
  "compute_batch_complexity data batch =
     (if batch = [] then 10
      else case finalize_tasks data of
             None \<Rightarrow> 10
           | Some tasks \<Rightarrow> max_complexity (task_map tasks) 0 batch)"

definition high_complexity :: "(string \<times> (string \<times> json) list) list \<Rightarrow> string \<Rightarrow> bool" where
  "high_complexity m t =
     (case map_of m t of
        None \<Rightarrow> False
      | Some task \<Rightarrow> (case as_int (dget task ''complexity'' JNull) of None \<Rightarrow> False | Some c \<Rightarrow> 7 \<le> c))"

text \<open>\<^verbatim>\<open>range(0, n, step)\<close> raises for a zero step and is empty for a negative one.\<close>

definition split_high_complexity_batch ::
    "(string \<times> (string \<times> json) list) list \<Rightarrow> int \<Rightarrow> string list \<Rightarrow> sched_error + string list list" where
  "split_high_complexity_batch m max_tasks batch =
     (let high = filter (high_complexity m) batch; other = filter (\<lambda>t. \<not> high_complexity m t) batch
      in if high = [] then Inr [batch]
         else if other = [] then Inr (map (\<lambda>t. [t]) high)
         else if max_tasks = 0 then Inl RangeError
         else Inr (map (\<lambda>t. [t]) high @ (if max_tasks < 0 then [] else chunks (nat max_tasks) other)))"

definition split_high_complexity_batches ::
    "string list list \<Rightarrow> (string \<times> json) list \<Rightarrow> int \<Rightarrow> sched_error + string list list" where
  "split_high_complexity_batches batches data max_tasks =
     (if batches = [] \<or> data = [] then Inr batches
      else case finalize_tasks data of
             None \<Rightarrow> Inr batches
           | Some tasks \<Rightarrow>
               res_bind (res_map (split_high_complexity_batch (task_map tasks) max_tasks) batches)
                 (\<lambda>bs. Inr (concat bs)))"

end
