(* ===== verification/Scheduler_Facts.thy ===== *)
theory Scheduler_Facts
  imports Scheduler
begin

section \<open>What the scheduler guarantees\<close>

text \<open>
  A schedule is respected when every batch depends only on what is completed or scheduled in earlier
  batches. The batch loop produces such schedules, the later filtering and splitting keep them, and
  the loop succeeds exactly on acyclic graphs.
\<close>

subsection \<open>Respecting dependencies\<close>

fun in_order :: "(string \<Rightarrow> string list) \<Rightarrow> string list \<Rightarrow> string list list \<Rightarrow> bool" where
  "in_order deps satisfied [] \<longleftrightarrow> True"
| "in_order deps satisfied (b # bs) \<longleftrightarrow>
     list_all (\<lambda>t. set (deps t) \<subseteq> set satisfied) b \<and> in_order deps (satisfied @ b) bs"

lemma in_order_mono:
  "in_order deps sat bs \<Longrightarrow> set sat \<subseteq> set sat' \<Longrightarrow> in_order deps sat' bs"
proof (induction bs arbitrary: sat sat')
  case (Cons b bs)
  have "in_order deps (sat' @ b) bs"
    by (rule Cons.IH [of "sat @ b"]) (use Cons.prems in auto)
  with Cons.prems show ?case by (auto simp: list_all_iff)
qed simp

lemma in_order_append:
  "in_order deps sat (xs @ ys) \<longleftrightarrow> in_order deps sat xs \<and> in_order deps (sat @ concat xs) ys"
  by (induction xs arbitrary: sat) auto

lemma in_order_weaken:
  "in_order deps sat bs \<Longrightarrow> set c \<subseteq> set sat \<Longrightarrow>
     (\<And>t. t \<in> set (concat bs) \<Longrightarrow> set (deps' t) \<subseteq> set (deps t) \<union> set c) \<Longrightarrow> in_order deps' sat bs"
proof (induction bs arbitrary: sat)
  case (Cons b bs)
  have "set (deps' t) \<subseteq> set sat" if "t \<in> set b" for t
    using Cons.prems(1,2) Cons.prems(3) [of t] that by (auto simp: list_all_iff)
  moreover have "in_order deps' (sat @ b) bs"
    by (rule Cons.IH) (use Cons.prems in auto)
  ultimately show ?case by (simp add: list_all_iff)
qed simp

lemma in_order_filter:
  "in_order deps sat bs \<Longrightarrow> set c \<subseteq> set sat \<Longrightarrow>
     in_order deps sat (filter (\<lambda>b. b \<noteq> []) (map (filter (\<lambda>t. t \<notin> set c)) bs))"
proof (induction bs arbitrary: sat)
  case (Cons b bs)
  let ?f = "filter (\<lambda>t. t \<notin> set c)"
  have "in_order deps (sat @ b) (filter (\<lambda>b. b \<noteq> []) (map ?f bs))"
    by (rule Cons.IH) (use Cons.prems in auto)
  moreover have "set (sat @ b) \<subseteq> set (sat @ ?f b)" using Cons.prems(2) by auto
  ultimately have "in_order deps (sat @ ?f b) (filter (\<lambda>b. b \<noteq> []) (map ?f bs))"
    by (rule in_order_mono)
  moreover have "list_all (\<lambda>t. set (deps t) \<subseteq> set sat) (?f b)"
    using Cons.prems(1) by (simp add: list_all_iff)
  ultimately show ?case
    by (cases "?f b = []") (simp_all add: in_order_mono)
qed simp

lemma in_order_same_level:
  "(\<And>b t. b \<in> set bs \<Longrightarrow> t \<in> set b \<Longrightarrow> set (deps t) \<subseteq> set sat) \<Longrightarrow> in_order deps sat bs"
proof (induction bs arbitrary: sat)
  case (Cons b bs)
  then show ?case by (fastforce simp: list_all_iff intro!: Cons.IH)
qed simp

lemma in_order_split:
  assumes "\<And>b. concat (f b) = b"
  shows "in_order deps sat bs \<Longrightarrow> in_order deps sat (concat (map f bs))"
proof (induction bs arbitrary: sat)
  case (Cons b bs)
  have "set x \<subseteq> set b" if "x \<in> set (f b)" for x
    using that arg_cong [OF assms [of b], of set] by auto
  then have "in_order deps sat (f b)"
    using Cons.prems by (intro in_order_same_level) (auto simp: list_all_iff)
  moreover have "in_order deps (sat @ b) (concat (map f bs))" using Cons by simp
  ultimately show ?case by (simp add: in_order_append assms)
qed simp

subsection \<open>The batch loop\<close>

definition deps_in :: "(string \<times> string list) list \<Rightarrow> string \<Rightarrow> string list" where
  "deps_in remaining t = (case map_of remaining t of None \<Rightarrow> [] | Some ds \<Rightarrow> ds)"

lemma ready_iff: "t \<in> set (ready_tasks r sat uns) \<longleftrightarrow> t \<in> set uns \<and> set (deps_in r t) \<subseteq> set sat"
  by (auto simp: ready_tasks_def deps_in_def split: option.splits)

lemma ready_distinct: "distinct uns \<Longrightarrow> distinct (ready_tasks r sat uns)"
  by (simp add: ready_tasks_def)

lemma batch_loop_Inr:
  "batch_loop r sat uns = Inr bs \<Longrightarrow> distinct uns \<Longrightarrow>
     in_order (deps_in r) sat bs \<and> distinct (concat bs) \<and> set (concat bs) = set uns \<and> [] \<notin> set bs"
proof (induction r sat uns arbitrary: bs rule: batch_loop.induct)
  case (1 r sat uns)
  show ?case
  proof (cases "uns = []")
    case True
    with 1(2) show ?thesis by (simp add: batch_loop.simps)
  next
    case False
    let ?ready = "ready_tasks r sat uns"
    let ?rest = "filter (\<lambda>t. t \<notin> set ?ready) uns"
    from False 1(2) have ne: "?ready \<noteq> []"
      by (subst (asm) batch_loop.simps) (auto simp: Let_def split: if_splits)
    with False 1(2) obtain bs' where bs': "batch_loop r (sat @ ?ready) ?rest = Inr bs'" "bs = ?ready # bs'"
      by (subst (asm) batch_loop.simps) (auto simp: Let_def)
    from 1(1) [OF False refl ne bs'(1)] 1(3)
    have IH: "in_order (deps_in r) (sat @ ?ready) bs'" "distinct (concat bs')"
      "set (concat bs') = set ?rest" "[] \<notin> set bs'" by auto
    have sub: "set ?ready \<subseteq> set uns" by (auto simp: ready_iff)
    show ?thesis
    proof (intro conjI)
      show "in_order (deps_in r) sat bs" using IH(1) by (simp add: bs'(2) list_all_iff ready_iff)
      show "distinct (concat bs)" using IH(2,3) ready_distinct [OF 1(3)] by (auto simp: bs'(2))
      show "set (concat bs) = set uns" using IH(3) sub by (auto simp: bs'(2))
      show "[] \<notin> set bs" using IH(4) ne by (simp add: bs'(2))
    qed
  qed
qed

text \<open>A raising loop stopped at tasks each of which waits for another one of them.\<close>

lemma batch_loop_Inl:
  "batch_loop r sat uns = Inl e \<Longrightarrow>
     \<exists>U. e = CyclicDependencies U \<and> U \<noteq> [] \<and> set U \<subseteq> set uns \<and>
       (\<forall>t \<in> set U. \<exists>d \<in> set (deps_in r t). d \<notin> set sat \<and> d \<notin> set uns - set U)"
proof (induction r sat uns rule: batch_loop.induct)
  case (1 r sat uns)
  have ne: "uns \<noteq> []" using 1(2) by (auto simp: batch_loop.simps)
  let ?ready = "ready_tasks r sat uns"
  let ?rest = "filter (\<lambda>t. t \<notin> set ?ready) uns"
  show ?case
  proof (cases "?ready = []")
    case True
    with ne 1(2) have "e = CyclicDependencies uns"
      by (subst (asm) batch_loop.simps) (simp add: Let_def)
    moreover have "\<exists>d \<in> set (deps_in r t). d \<notin> set sat" if "t \<in> set uns" for t
      using True that ready_iff [of t r sat uns] by auto
    ultimately show ?thesis using ne by auto
  next
    case False
    with ne 1(2) have "batch_loop r (sat @ ?ready) ?rest = Inl e"
      by (subst (asm) batch_loop.simps) (auto simp: Let_def res_bind_Inl_iff)
    from 1(1) [OF ne refl False this] obtain U where
      U: "e = CyclicDependencies U" "U \<noteq> []" "set U \<subseteq> set ?rest"
        "\<And>t. t \<in> set U \<Longrightarrow> \<exists>d \<in> set (deps_in r t). d \<notin> set (sat @ ?ready) \<and> d \<notin> set ?rest - set U"
      by blast
    have "\<exists>d \<in> set (deps_in r t). d \<notin> set sat \<and> d \<notin> set uns - set U" if "t \<in> set U" for t
      using U(4) [OF that] by auto
    with U show ?thesis by auto
  qed
qed

subsection \<open>The dependencies of a work list\<close>

definition deps_of :: "sched_task list \<Rightarrow> string \<Rightarrow> string list" where
  "deps_of tasks t =
     (case map_of (rev (map (\<lambda>x. (tk_id x, task_deps x)) tasks)) t of None \<Rightarrow> [] | Some ds \<Rightarrow> ds)"

definition deps_known :: "sched_task list \<Rightarrow> string list \<Rightarrow> bool" where
  "deps_known tasks completed \<longleftrightarrow>
     list_all (\<lambda>t. set (task_deps t) \<subseteq> set (map tk_id tasks) \<union> set completed) tasks"

lemma normalize_Inr:
  "normalize_deps ids c t = Inr ds \<longleftrightarrow>
     set (task_deps t) \<subseteq> set ids \<union> set c \<and> ds = filter (\<lambda>d. d \<in> set ids) (task_deps t)"
proof (cases "List.find (\<lambda>d. d \<notin> set ids \<and> d \<notin> set c) (task_deps t)")
  case None
  then have "set (task_deps t) \<subseteq> set ids \<union> set c" by (auto simp: find_None_iff)
  with None show ?thesis by (auto simp: normalize_deps_def)
next
  case (Some d)
  then have "d \<in> set (task_deps t)" "d \<notin> set ids" "d \<notin> set c" by (auto simp: find_Some_iff)
  with Some show ?thesis by (auto simp: normalize_deps_def)
qed

lemma remaining_Inr:
  "remaining_deps ids c ts r = Inr r' \<longleftrightarrow>
     list_all (\<lambda>t. set (task_deps t) \<subseteq> set ids \<union> set c) ts \<and>
     r' = dict_update r (map (\<lambda>t. (tk_id t, filter (\<lambda>d. d \<in> set ids) (task_deps t))) ts)"
  by (induction ts arbitrary: r) (auto simp: normalize_Inr)

lemma remaining_Inl:
  "remaining_deps ids c ts r = Inl e \<Longrightarrow> \<not> list_all (\<lambda>t. set (task_deps t) \<subseteq> set ids \<union> set c) ts"
  using remaining_Inr [of ids c ts r] by auto

lemma deps_in_remaining:
  "deps_in (dict_update [] (map (\<lambda>t. (tk_id t, filter P (task_deps t))) tasks)) x =
     filter P (deps_of tasks x)"
proof -
  have "map_of (rev (map (\<lambda>t. (tk_id t, filter P (task_deps t))) tasks)) x =
      map_option (filter P) (map_of (rev (map (\<lambda>t. (tk_id t, task_deps t)) tasks)) x)"
    by (induction tasks) (auto simp: map_add_def split: option.splits)
  then show ?thesis
    unfolding deps_in_def deps_of_def map_of_dict_update
    by (cases "map_of (rev (map (\<lambda>t. (tk_id t, task_deps t)) tasks)) x") simp_all
qed

lemma deps_of_known:
  assumes "deps_known tasks c"
  shows "set (deps_of tasks x) \<subseteq> set (map tk_id tasks) \<union> set c"
proof (cases "map_of (rev (map (\<lambda>x. (tk_id x, task_deps x)) tasks)) x")
  case (Some ds)
  then have "(x, ds) \<in> set (rev (map (\<lambda>x. (tk_id x, task_deps x)) tasks))" by (rule map_of_SomeD)
  with assms Some show ?thesis by (auto simp: deps_of_def deps_known_def list_all_iff)
qed (simp add: deps_of_def)

text \<open>The loop starts from the tasks in the order of their last occurrence.\<close>

lemma compute_runs_loop:
  assumes "deps_known tasks c"
  shows "compute_task_batches tasks c =
    batch_loop (dict_update [] (map (\<lambda>t. (tk_id t, filter (\<lambda>d. d \<in> set (map tk_id tasks)) (task_deps t))) tasks))
      c (remdups (map tk_id tasks))"
proof -
  have "remaining_deps (map tk_id tasks) c tasks [] = Inr
      (dict_update [] (map (\<lambda>t. (tk_id t, filter (\<lambda>d. d \<in> set (map tk_id tasks)) (task_deps t))) tasks))"
    unfolding remaining_Inr using assms by (simp only: deps_known_def simp_thms)
  then show ?thesis by (simp add: compute_task_batches_def Let_def)
qed

lemma compute_Inr_known: "compute_task_batches tasks c = Inr bs \<Longrightarrow> deps_known tasks c"
  by (auto simp: compute_task_batches_def Let_def remaining_Inr deps_known_def)

lemma compute_Inr:
  assumes "compute_task_batches tasks c = Inr bs"
  shows "in_order (deps_of tasks) c bs" and "distinct (concat bs)"
    and "set (concat bs) = set (map tk_id tasks)" and "[] \<notin> set bs"
proof -
  note known = compute_Inr_known [OF assms]
  from batch_loop_Inr [OF assms [unfolded compute_runs_loop [OF known]]]
  have l: "in_order (\<lambda>x. filter (\<lambda>d. d \<in> set (map tk_id tasks)) (deps_of tasks x)) c bs"
    "distinct (concat bs)" "set (concat bs) = set (map tk_id tasks)" "[] \<notin> set bs"
    by (simp_all add: deps_in_remaining [abs_def])
  show "in_order (deps_of tasks) c bs"
    by (rule in_order_weaken [OF l(1), of c]) (use deps_of_known [OF known] in auto)
  show "distinct (concat bs)" "set (concat bs) = set (map tk_id tasks)" "[] \<notin> set bs" by (fact l(2-4))+
qed

subsection \<open>Success is acyclicity\<close>

text \<open>The dependencies that are to be scheduled.\<close>

definition pending_edges :: "sched_task list \<Rightarrow> string list \<Rightarrow> (string \<times> string) set" where
  "pending_edges tasks c = {(d, t). t \<in> set (map tk_id tasks) \<and> d \<in> set (deps_of tasks t) \<and> d \<notin> set c}"

fun batch_index :: "string list list \<Rightarrow> string \<Rightarrow> nat" where
  "batch_index [] t = 0"
| "batch_index (b # bs) t = (if t \<in> set b then 0 else Suc (batch_index bs t))"

lemma in_order_index:
  "in_order deps sat bs \<Longrightarrow> t \<in> set (concat bs) \<Longrightarrow> d \<in> set (deps t) \<Longrightarrow> d \<notin> set sat \<Longrightarrow>
     batch_index bs d < batch_index bs t"
proof (induction bs arbitrary: sat)
  case (Cons b bs)
  have nb: "t \<notin> set b" using Cons.prems(1,3,4) by (auto simp: list_all_iff)
  show ?case
  proof (cases "d \<in> set b")
    case True
    with nb show ?thesis by simp
  next
    case False
    have "batch_index bs d < batch_index bs t"
      by (rule Cons.IH [of "sat @ b"]) (use Cons.prems nb False in auto)
    with nb False show ?thesis by simp
  qed
qed simp

lemma compute_acyclic:
  assumes "compute_task_batches tasks c = Inr bs"
  shows "acyclic (pending_edges tasks c)"
proof -
  have "pending_edges tasks c \<subseteq> measure (batch_index bs)"
    unfolding pending_edges_def compute_Inr(3) [OF assms, symmetric]
    using in_order_index [OF compute_Inr(1) [OF assms]] by (auto simp del: set_concat)
  then show ?thesis using acyclic_subset wf_acyclic wf_measure by blast
qed

lemma acyclic_compute:
  assumes known: "deps_known tasks c" and acyc: "acyclic (pending_edges tasks c)"
  shows "\<not> isl (compute_task_batches tasks c)"
proof
  let ?ids = "map tk_id tasks"
  assume "isl (compute_task_batches tasks c)"
  then obtain e where "compute_task_batches tasks c = Inl e" unfolding isl_def by blast
  from batch_loop_Inl [OF this [unfolded compute_runs_loop [OF known]]] obtain U where
    U: "U \<noteq> []" "set U \<subseteq> set ?ids" "\<And>t. t \<in> set U \<Longrightarrow>
      \<exists>d \<in> set (deps_of tasks t). d \<in> set ?ids \<and> d \<notin> set c \<and> d \<in> set U"
    unfolding deps_in_remaining by fastforce
  have "pending_edges tasks c \<subseteq> (set ?ids \<union> set c) \<times> set ?ids"
    using deps_of_known [OF known] by (auto simp: pending_edges_def)
  then have "finite (pending_edges tasks c)" by (rule finite_subset) simp
  then have "wf (pending_edges tasks c)" using acyc by (rule finite_acyclic_wf)
  then obtain t where t: "t \<in> set U" "\<And>d. (d, t) \<in> pending_edges tasks c \<Longrightarrow> d \<notin> set U"
    using U(1) wfE_min [of "pending_edges tasks c" "hd U" "set U"] hd_in_set by blast
  from U(3) [OF t(1)] obtain d where d: "d \<in> set (deps_of tasks t)" "d \<in> set ?ids" "d \<notin> set c" "d \<in> set U"
    by blast
  then have "(d, t) \<in> pending_edges tasks c" using U(2) t(1) by (auto simp: pending_edges_def)
  with t(2) d(4) show False by blast
qed

lemma compute_iff:
  "\<not> isl (compute_task_batches tasks c) \<longleftrightarrow> deps_known tasks c \<and> acyclic (pending_edges tasks c)"
proof
  assume "\<not> isl (compute_task_batches tasks c)"
  then obtain bs where "compute_task_batches tasks c = Inr bs"
    by (cases "compute_task_batches tasks c") auto
  then show "deps_known tasks c \<and> acyclic (pending_edges tasks c)"
    using compute_Inr_known compute_acyclic by blast
qed (use acyclic_compute in blast)

subsection \<open>Filtering and splitting\<close>

lemma effective_max_pos: "0 < effective_max_size m d"
  by (simp add: effective_max_size_def Let_def)

lemma split_pieces:
  "concat (if length b \<le> m then [b] else chunks m b) = b" if "0 < m"
  using concat_chunks [OF that, of b] by simp

lemma split_concat: "concat (split_oversized_batches bs m d) = concat bs"
proof -
  let ?m = "effective_max_size m d"
  have "concat (concat (map (\<lambda>b. if length b \<le> ?m then [b] else chunks ?m b) bs)) = concat bs" for bs
    by (induction bs) (simp_all add: split_pieces [OF effective_max_pos])
  then show ?thesis by (simp add: split_oversized_batches_def Let_def)
qed

lemma split_sizes:
  "[] \<notin> set bs \<Longrightarrow>
     list_all (\<lambda>b. b \<noteq> [] \<and> length b \<le> effective_max_size m d) (split_oversized_batches bs m d)"
  using chunks_sizes by (fastforce simp: split_oversized_batches_def Let_def list_all_iff split: if_splits)

lemma concat_kept: "concat (filter (\<lambda>b. b \<noteq> []) (map (filter P) bs)) = filter P (concat bs)"
  by (induction bs) auto

lemma schedule_Inr:
  assumes "schedule_batches tasks m c d = Inr bs"
  shows "in_order (deps_of tasks) c bs \<and> distinct (concat bs) \<and>
    set (concat bs) = set (map tk_id tasks) - set c \<and>
    list_all (\<lambda>b. b \<noteq> [] \<and> length b \<le> effective_max_size m d) bs"
proof -
  from assms obtain raw where raw: "compute_task_batches tasks c = Inr raw"
    by (auto simp: schedule_batches_def)
  note facts = compute_Inr [OF raw]
  let ?kept = "filter (\<lambda>b. b \<noteq> []) (map (filter (\<lambda>t. t \<notin> set c)) raw)"
  have kept: "(if c = [] then raw else ?kept) = ?kept"
  proof (cases "c = []")
    case True
    have "map (filter (\<lambda>t. t \<notin> set c)) raw = raw" unfolding True by (rule map_idI) simp
    moreover have "filter (\<lambda>b. b \<noteq> []) raw = raw" by (rule filter_True) (use facts(4) in auto)
    ultimately show ?thesis using True by simp
  qed simp
  have bs: "bs = split_oversized_batches ?kept m d"
    using assms raw kept by (simp add: schedule_batches_def Let_def)
  have "in_order (deps_of tasks) c ?kept" by (rule in_order_filter [OF facts(1)]) simp
  then have "in_order (deps_of tasks) c bs"
    unfolding bs split_oversized_batches_def Let_def
    by (intro in_order_split) (simp add: split_pieces [OF effective_max_pos])
  moreover have "concat bs = filter (\<lambda>t. t \<notin> set c) (concat raw)"
    unfolding bs split_concat by (rule concat_kept)
  ultimately show ?thesis
    using facts(2,3) split_sizes [of ?kept m d] by (auto simp: bs)
qed

text \<open>The complexity of a batch, which chooses the model that runs it, is always a tier from 1 to 10.\<close>

lemma effective_complexity_range: "effective_complexity task = Some c \<Longrightarrow> 1 \<le> c \<and> c \<le> 10"
  by (auto simp: effective_complexity_def split: option.splits if_splits)

lemma max_complexity_range: "0 \<le> acc \<Longrightarrow> acc \<le> 10 \<Longrightarrow> 1 \<le> max_complexity m acc ts \<and> max_complexity m acc ts \<le> 10"
proof (induction ts arbitrary: acc)
  case (Cons t ts)
  have "1 \<le> max_complexity m (if acc < c then c else acc) ts \<and>
      max_complexity m (if acc < c then c else acc) ts \<le> 10"
    if "effective_complexity task = Some c" for task c
    by (rule Cons.IH) (use effective_complexity_range [OF that] Cons.prems in auto)
  then show ?case by (simp split: option.split)
qed simp

lemma batch_complexity_range: "1 \<le> compute_batch_complexity data batch \<and> compute_batch_complexity data batch \<le> 10"
  by (simp add: compute_batch_complexity_def max_complexity_range split: option.splits)

subsection \<open>The properties\<close>

definition sample_tasks :: "sched_task list" where
  "sample_tasks = [\<lparr>tk_id = ''a'', tk_depends_on = None\<rparr>, \<lparr>tk_id = ''b'', tk_depends_on = Some [''a'']\<rparr>]"

text \<open>C35. A schedule contains every task that is not completed exactly once, in non-empty batches
  within the size limit, and every batch depends only on completed tasks and on tasks of earlier
  batches.\<close>

theorem schedule_is_complete_and_ordered:
  assumes "schedule_batches tasks max_size completed default_max = Inr batches"
  shows "in_order (deps_of tasks) completed batches \<and> distinct (concat batches) \<and>
    set (concat batches) = set (map tk_id tasks) - set completed \<and>
    list_all (\<lambda>b. b \<noteq> [] \<and> length b \<le> effective_max_size max_size default_max) batches"
  by (rule schedule_Inr [OF assms])

lemma schedule_is_complete_and_ordered_witness:
  "in_order (deps_of sample_tasks) [''x''] [[''a''], [''b'']] \<and> distinct (concat [[''a''], [''b'']]) \<and>
    set (concat [[''a''], [''b'']]) = set (map tk_id sample_tasks) - set [''x''] \<and>
    list_all (\<lambda>b. b \<noteq> [] \<and> length b \<le> effective_max_size 3 5) [[''a''], [''b'']]"
  by (rule schedule_is_complete_and_ordered)
    (simp add: schedule_batches_def compute_task_batches_def sample_tasks_def normalize_deps_def
      task_deps_def batch_loop.simps ready_tasks_def split_oversized_batches_def effective_max_size_def)

text \<open>Batching succeeds exactly when every dependency is a task or completed and the pending
  dependencies have no cycle; a completed task never blocks, even inside a cycle.\<close>

theorem batching_succeeds_iff_acyclic:
  "\<not> isl (compute_task_batches tasks completed) \<longleftrightarrow>
     deps_known tasks completed \<and> acyclic (pending_edges tasks completed)"
  by (rule compute_iff)

end
