(* ===== verification/Py_Object.thy ===== *)
theory Py_Object
  imports Py_Text
begin

section \<open>Objects with attributes\<close>

text \<open>
  The values of code that reads an object by \<^verbatim>\<open>getattr\<close> and never asks for its class: a decoded JSON
  value, an enumeration member that mixes in \<^verbatim>\<open>str\<close>, or an object with its class name, its \<^verbatim>\<open>str()\<close>
  text and its attributes. \<^verbatim>\<open>str\<close> and \<^verbatim>\<open>repr\<close> of JSON values are those of Python on ASCII text.
\<close>

subsection \<open>Text of a value\<close>

text \<open>\<^verbatim>\<open>repr(s)\<close> of an ASCII string: single quotes unless only single quotes occur in it.\<close>

definition byte_hex :: "nat \<Rightarrow> string" where
  "byte_hex n = drop 2 (hex4 n)"

definition repr_char :: "char \<Rightarrow> char \<Rightarrow> string" where
  "repr_char q c =
     (if c = q \<or> c = CHR 0x5C then [CHR 0x5C, c]
      else if c = CHR 0x0A then [CHR 0x5C, CHR ''n'']
      else if c = CHR 0x0D then [CHR 0x5C, CHR ''r'']
      else if c = CHR 0x09 then [CHR 0x5C, CHR ''t'']
      else if of_char c < (32 :: nat) \<or> c = CHR 0x7F then [CHR 0x5C, CHR ''x''] @ byte_hex (of_char c)
      else [c])"

definition str_repr :: "string \<Rightarrow> string" where
  "str_repr s =
     (let q = (if CHR 0x27 \<in> set s \<and> CHR 0x22 \<notin> set s then CHR 0x22 else CHR 0x27)
      in q # concat (map (repr_char q) s) @ [q])"

fun py_repr :: "json \<Rightarrow> string" where
  "py_repr JNull = ''None''"
| "py_repr (JBool b) = (if b then ''True'' else ''False'')"
| "py_repr (JInt i) = int_str i"
| "py_repr (JFloat r) = r"
| "py_repr (JStr s) = str_repr s"
| "py_repr (JArr xs) = ''['' @ join '', '' (map py_repr xs) @ '']''"
| "py_repr (JObj kvs) =
     ''{'' @ join '', '' (map (\<lambda>(k, v). str_repr k @ '': '' @ py_repr v) kvs) @ ''}''"

text \<open>\<^verbatim>\<open>json.dumps(value, sort_keys=True, separators=(",", ":"))\<close>.\<close>

fun compact_json :: "json \<Rightarrow> string" and compact_items :: "(string \<times> json) list \<Rightarrow> (string \<times> string) list" where
  "compact_json (JArr xs) = ''['' @ join '','' (map compact_json xs) @ '']''"
| "compact_json (JObj kvs) = ''{'' @ join '',''
     (map (\<lambda>(k, t). ascii_quote k @ '':'' @ t) (sort_key fst (compact_items kvs))) @ ''}''"
| "compact_json v = dumps v"
| "compact_items [] = []"
| "compact_items ((k, v) # kvs) = (k, compact_json v) # compact_items kvs"

text \<open>\<^verbatim>\<open>s.replace(old, new)\<close> for a non-empty \<open>old\<close>, and \<^verbatim>\<open>shlex.quote(s)\<close>.\<close>

function replace_all :: "string \<Rightarrow> string \<Rightarrow> string \<Rightarrow> string" where
  "replace_all old new s =
     (case s of
        [] \<Rightarrow> []
      | c # t \<Rightarrow>
          if old \<noteq> [] \<and> take (length old) s = old then new @ replace_all old new (drop (length old) s)
          else c # replace_all old new t)"
  by pat_completeness auto
termination
  by (relation "measure (\<lambda>(old, new, s). length s)")
    (auto simp: diff_le_self Suc_diff_le neq_Nil_conv)

declare replace_all.simps [simp del]

definition shell_safe :: "char \<Rightarrow> bool" where
  "shell_safe c \<longleftrightarrow>
     c \<in> set ''abcdefghijklmnopqrstuvwxyzABCDEFGHIJKLMNOPQRSTUVWXYZ0123456789_@%+=:,./-''"

definition shell_quote :: "string \<Rightarrow> string" where
  "shell_quote s =
     (if s = [] then [CHR 0x27, CHR 0x27]
      else if list_all shell_safe s then s
      else [CHR 0x27] @ replace_all [CHR 0x27] [CHR 0x27, CHR 0x22, CHR 0x27, CHR 0x22, CHR 0x27] s @ [CHR 0x27])"

text \<open>\<^verbatim>\<open>str(v)\<close>.\<close>

fun py_str :: "json \<Rightarrow> string" where
  "py_str (JStr s) = s"
| "py_str v = py_repr v"

subsection \<open>Attributes\<close>

datatype py_value =
    Plain json
  | Enum_Member string string
  | Object string string "(string \<times> py_value) list"

text \<open>\<^verbatim>\<open>getattr(x, name, None)\<close>: \<open>None\<close> is also what a missing attribute reads as. Of the attribute names
  the modelled code asks for, a JSON value has none and an enumeration member has \<^verbatim>\<open>value\<close>.\<close>

fun attribute :: "py_value \<Rightarrow> string \<Rightarrow> py_value option" where
  "attribute (Object c t attrs) name = map_of attrs name"
| "attribute _ name = None"

definition getattr :: "py_value \<Rightarrow> string \<Rightarrow> py_value" where
  "getattr x name = (case attribute x name of Some v \<Rightarrow> v | None \<Rightarrow> Plain JNull)"

fun true_value :: "py_value \<Rightarrow> bool" where
  "true_value (Plain v) = truthy v"
| "true_value (Enum_Member c v) = (v \<noteq> [])"
| "true_value (Object c t attrs) = True"

definition is_none :: "py_value \<Rightarrow> bool" where
  "is_none v \<longleftrightarrow> v = Plain JNull"

text \<open>\<^verbatim>\<open>str(x)\<close>: an enumeration member prints with its class name.\<close>

fun value_text :: "py_value \<Rightarrow> string" where
  "value_text (Plain v) = py_str v"
| "value_text (Enum_Member c v) = c @ ''.'' @ v"
| "value_text (Object c t attrs) = t"

text \<open>The \<^verbatim>\<open>str\<close> a value is, when \<^verbatim>\<open>isinstance(x, str)\<close>; a member of a \<^verbatim>\<open>(str, Enum)\<close> class is one.\<close>

fun str_value :: "py_value \<Rightarrow> string option" where
  "str_value (Plain (JStr s)) = Some s"
| "str_value (Enum_Member c v) = Some v"
| "str_value _ = None"

text \<open>\<^verbatim>\<open>str(getattr(x, name, "") or "")\<close>.\<close>

definition text_attr :: "py_value \<Rightarrow> string \<Rightarrow> string" where
  "text_attr x name =
     (let v = getattr x name in if true_value v then value_text v else [])"

text \<open>\<^verbatim>\<open>type(x).__name__\<close>.\<close>

fun type_name :: "py_value \<Rightarrow> string" where
  "type_name (Plain JNull) = ''NoneType''"
| "type_name (Plain (JBool b)) = ''bool''"
| "type_name (Plain (JInt i)) = ''int''"
| "type_name (Plain (JFloat r)) = ''float''"
| "type_name (Plain (JStr s)) = ''str''"
| "type_name (Plain (JArr xs)) = ''list''"
| "type_name (Plain (JObj kvs)) = ''dict''"
| "type_name (Enum_Member c v) = c"
| "type_name (Object c t attrs) = c"

lemma getattr_Object [simp]:
  "getattr (Object c t attrs) name =
     (case map_of attrs name of Some v \<Rightarrow> v | None \<Rightarrow> Plain JNull)"
  by (simp add: getattr_def)

lemma getattr_Plain [simp]: "getattr (Plain v) name = Plain JNull"
  and getattr_Enum_Member [simp]: "getattr (Enum_Member c w) name = Plain JNull"
  by (simp_all add: getattr_def)

lemma is_none_simps [simp]:
  "is_none (Plain v) \<longleftrightarrow> v = JNull"
  "\<not> is_none (Enum_Member c w)"
  "\<not> is_none (Object c t attrs)"
  by (simp_all add: is_none_def)

end
