(* ===== verification/Phase_Result.thy ===== *)
theory Phase_Result
  imports Py_Object
begin

section \<open>Phase results\<close>

text \<open>
  The record every phase leaves for the driver, \<^verbatim>\<open>orchestration/phase_result.py\<close>: its parts, their
  dictionary forms, the structural validation of the read and write sides, the emission by a handler
  and by the guard, and the test for a result that a recovery superseded. A field the source reads
  from a dictionary without converting it is a \<open>json\<close>.
\<close>

subsection \<open>Errors and conversions\<close>

datatype phase_error =
    Py py_error
  | Attribute_Error
  | Overflow_Error
  | Cli_Error string string

text \<open>\<^verbatim>\<open>int(x)\<close> and \<^verbatim>\<open>float(x)\<close>. A float is truncated by its \<^verbatim>\<open>repr\<close>, which has no positive exponent below
  \<open>10 ^ 16\<close>; a string is read when it is a sign and ASCII digits, or for \<^verbatim>\<open>float\<close> the \<^verbatim>\<open>repr\<close> of a float.\<close>

definition signed_digits :: "string \<Rightarrow> int option" where
  "signed_digits s =
     (case s of
        c # ds \<Rightarrow>
          if c = CHR ''-'' then if ds \<noteq> [] \<and> list_all digit_char ds then Some (- int (digits_value ds)) else None
          else if c = CHR ''+'' then if ds \<noteq> [] \<and> list_all digit_char ds then Some (int (digits_value ds)) else None
          else if list_all digit_char s then Some (int (digits_value s)) else None
      | [] \<Rightarrow> None)"

definition trunc_repr :: "string \<Rightarrow> int option" where
  "trunc_repr r =
     (if contains ''e-'' r then Some 0
      else signed_digits (takeWhile (\<lambda>c. c \<noteq> CHR ''.'') r))"

fun py_int :: "json \<Rightarrow> phase_error + int" where
  "py_int (JInt i) = Inr i"
| "py_int (JBool b) = Inr (if b then 1 else 0)"
| "py_int (JFloat r) =
     (if r \<in> {''inf'', ''-inf''} then Inl Overflow_Error
      else case trunc_repr r of Some i \<Rightarrow> Inr i | None \<Rightarrow> Inl (Py ValueError))"
| "py_int (JStr s) = (case signed_digits (strip s) of Some i \<Rightarrow> Inr i | None \<Rightarrow> Inl (Py ValueError))"
| "py_int _ = Inl (Py TypeError)"

definition float_repr :: "string \<Rightarrow> bool" where
  "float_repr r \<longleftrightarrow>
     r \<in> {''nan'', ''inf'', ''-inf''} \<or> contains ''.'' r \<and> list_all (\<lambda>c. digit_char c \<or> c \<in> set ''.-e'') r"

fun py_float :: "json \<Rightarrow> phase_error + string" where
  "py_float (JFloat r) = Inr r"
| "py_float (JInt i) = Inr (int_str i @ ''.0'')"
| "py_float (JBool b) = Inr (if b then ''1.0'' else ''0.0'')"
| "py_float (JStr s) =
     (case signed_digits (strip s) of
        Some i \<Rightarrow> Inr (int_str i @ ''.0'')
      | None \<Rightarrow> if float_repr (strip s) then Inr (strip s) else Inl (Py ValueError))"
| "py_float _ = Inl (Py TypeError)"

text \<open>\<^verbatim>\<open>convert(d[k]) if d.get(k) is not None else None\<close>.\<close>

definition read_opt :: "(json \<Rightarrow> 'e + 'a) \<Rightarrow> (string \<times> json) list \<Rightarrow> string \<Rightarrow> 'e + 'a option" where
  "read_opt f d k =
     (let v = dget d k JNull in if v = JNull then Inr None else res_bind (f v) (\<lambda>x. Inr (Some x)))"

definition read_str :: "(string \<times> json) list \<Rightarrow> string \<Rightarrow> string option" where
  "read_str d k = (let v = dget d k JNull in if v = JNull then None else Some (py_str v))"

text \<open>\<^verbatim>\<open>str(d[k])\<close>.\<close>

definition required_str :: "(string \<times> json) list \<Rightarrow> string \<Rightarrow> phase_error + string" where
  "required_str d k =
     (case map_of d k of Some v \<Rightarrow> Inr (py_str v) | None \<Rightarrow> Inl (Py KeyError))"

text \<open>\<^verbatim>\<open>payload[k] = f(v)\<close> only when the field is set.\<close>

definition opt_field :: "string \<Rightarrow> ('a \<Rightarrow> json) \<Rightarrow> 'a option \<Rightarrow> (string \<times> json) list" where
  "opt_field k f v = (case v of None \<Rightarrow> [] | Some x \<Rightarrow> [(k, f x)])"

definition raw_field :: "string \<Rightarrow> json \<Rightarrow> (string \<times> json) list" where
  "raw_field k v = (if v = JNull then [] else [(k, v)])"

text \<open>The elements an iteration visits.\<close>

fun py_iter :: "json \<Rightarrow> phase_error + json list" where
  "py_iter (JArr xs) = Inr xs"
| "py_iter (JObj kvs) = Inr (map (JStr \<circ> fst) kvs)"
| "py_iter (JStr s) = Inr (map JStr (utf8_chars s))"
| "py_iter _ = Inl (Py TypeError)"

subsection \<open>The parts of a result\<close>

definition EXIT_KINDS :: "string list" where
  "EXIT_KINDS =
     [''success'', ''blocked_by_quality'', ''blocked_by_prereq'', ''timeout'', ''context_exhausted'',
      ''malformed_model_output'', ''internal_error'', ''external_error'']"

record blocked_task =
  bt_task_id :: string
  bt_reason :: string
  bt_notes :: string
  bt_blocking_action_ids :: "string list"
  bt_blocker_kind :: "string option"

definition blocked_task_to_dict :: "blocked_task \<Rightarrow> json" where
  "blocked_task_to_dict b =
     JObj ([(''task_id'', JStr (bt_task_id b)), (''reason'', JStr (bt_reason b)), (''notes'', JStr (bt_notes b))]
       @ (if bt_blocking_action_ids b \<noteq> []
          then [(''blocking_action_ids'', JArr (map JStr (bt_blocking_action_ids b)))] else [])
       @ opt_field ''blocker_kind'' JStr (bt_blocker_kind b))"

text \<open>\<^verbatim>\<open>d[k]\<close> on a value that is not a dictionary raises a \<^verbatim>\<open>TypeError\<close>.\<close>

definition blocked_task_from_dict :: "json \<Rightarrow> phase_error + blocked_task" where
  "blocked_task_from_dict v =
     (case v of
        JObj d \<Rightarrow>
          let ids = (case dget d ''blocking_action_ids'' (JArr []) of JArr xs \<Rightarrow> xs | _ \<Rightarrow> [])
          in res_bind (required_str d ''task_id'') (\<lambda>task.
               Inr \<lparr>bt_task_id = task,
                    bt_reason = py_str (dget d ''reason'' (JStr [])),
                    bt_notes = py_str (dget d ''notes'' (JStr [])),
                    bt_blocking_action_ids = List.map_filter as_str ids,
                    bt_blocker_kind = read_str d ''blocker_kind''\<rparr>)
      | _ \<Rightarrow> Inl Attribute_Error)"

record deviation =
  dv_kind :: string
  dv_message :: string
  dv_task_id :: json
  dv_blocker_id :: json
  dv_phase :: json

definition deviation_to_dict :: "deviation \<Rightarrow> json" where
  "deviation_to_dict x =
     JObj ([(''kind'', JStr (dv_kind x)), (''message'', JStr (dv_message x))]
       @ raw_field ''task_id'' (dv_task_id x)
       @ raw_field ''blocker_id'' (dv_blocker_id x)
       @ raw_field ''phase'' (dv_phase x))"

definition deviation_from_dict :: "json \<Rightarrow> phase_error + deviation" where
  "deviation_from_dict v =
     (case v of
        JObj d \<Rightarrow>
          res_bind (required_str d ''kind'') (\<lambda>kind.
          res_bind (required_str d ''message'') (\<lambda>message.
            Inr \<lparr>dv_kind = kind, dv_message = message,
                 dv_task_id = dget d ''task_id'' JNull,
                 dv_blocker_id = dget d ''blocker_id'' JNull,
                 dv_phase = dget d ''phase'' JNull\<rparr>))
      | _ \<Rightarrow> Inl (Py TypeError))"

definition deviation_from_string :: "string \<Rightarrow> deviation" where
  "deviation_from_string raw =
     \<lparr>dv_kind = ''quality_gate'', dv_message = raw, dv_task_id = JNull, dv_blocker_id = JNull,
      dv_phase = JNull\<rparr>"

record external_error =
  ee_provider :: string
  ee_error_kind :: string
  ee_message :: string
  ee_status_code :: "int option"
  ee_retry_after_s :: "string option"
  ee_request_id :: "string option"
  ee_provider_error_code :: "string option"
  ee_error_layer :: "string option"
  ee_source :: "string option"
  ee_stall_timeout_s :: "string option"
  ee_elapsed_s :: "string option"
  ee_content_chunk_count :: "int option"
  ee_reasoning_chunk_count :: "int option"
  ee_deterministic :: "bool option"
  ee_nonretryable :: "bool option"
  ee_failure_fingerprint :: "string option"

definition external_error_fields :: "external_error \<Rightarrow> (string \<times> json) list" where
  "external_error_fields e =
     [(''provider'', JStr (ee_provider e)), (''error_kind'', JStr (ee_error_kind e)),
      (''message'', JStr (ee_message e))]
     @ opt_field ''status_code'' JInt (ee_status_code e)
     @ opt_field ''retry_after_s'' JFloat (ee_retry_after_s e)
     @ opt_field ''request_id'' JStr (ee_request_id e)
     @ opt_field ''provider_error_code'' JStr (ee_provider_error_code e)
     @ opt_field ''error_layer'' JStr (ee_error_layer e)
     @ opt_field ''source'' JStr (ee_source e)
     @ opt_field ''stall_timeout_s'' JFloat (ee_stall_timeout_s e)
     @ opt_field ''elapsed_s'' JFloat (ee_elapsed_s e)
     @ opt_field ''content_chunk_count'' JInt (ee_content_chunk_count e)
     @ opt_field ''reasoning_chunk_count'' JInt (ee_reasoning_chunk_count e)
     @ opt_field ''deterministic'' JBool (ee_deterministic e)
     @ opt_field ''nonretryable'' JBool (ee_nonretryable e)
     @ opt_field ''failure_fingerprint'' JStr (ee_failure_fingerprint e)"

definition external_error_to_dict :: "external_error \<Rightarrow> json" where
  "external_error_to_dict e = JObj (external_error_fields e)"

text \<open>\<^verbatim>\<open>str(payload.get("provider") or "unknown")\<close>, replaced by the provider of the caller when unknown.\<close>

definition read_provider :: "(string \<times> json) list \<Rightarrow> string option \<Rightarrow> string" where
  "read_provider d given =
     (let v = dget d ''provider'' JNull;
          raw = (if truthy v then py_str v else ''unknown'')
      in case given of
           Some p \<Rightarrow> if raw = ''unknown'' \<and> p \<noteq> [] then p else raw
         | None \<Rightarrow> raw)"

definition read_bool :: "(string \<times> json) list \<Rightarrow> string \<Rightarrow> bool option" where
  "read_bool d k = (case dget d k JNull of JBool b \<Rightarrow> Some b | _ \<Rightarrow> None)"

definition external_error_from_dict ::
  "string option \<Rightarrow> (string \<times> json) list \<Rightarrow> phase_error + external_error" where
  "external_error_from_dict given d =
     res_bind (required_str d ''error_kind'') (\<lambda>kind.
     res_bind (read_opt py_int d ''status_code'') (\<lambda>status.
     res_bind (read_opt py_float d ''retry_after_s'') (\<lambda>retry.
     res_bind (read_opt py_float d ''stall_timeout_s'') (\<lambda>stall.
     res_bind (read_opt py_float d ''elapsed_s'') (\<lambda>elapsed.
     res_bind (read_opt py_int d ''content_chunk_count'') (\<lambda>content.
     res_bind (read_opt py_int d ''reasoning_chunk_count'') (\<lambda>reasoning.
       Inr \<lparr>ee_provider = read_provider d given,
            ee_error_kind = kind,
            ee_message = py_str (dget d ''message'' (JStr [])),
            ee_status_code = status,
            ee_retry_after_s = retry,
            ee_request_id = read_str d ''request_id'',
            ee_provider_error_code = read_str d ''provider_error_code'',
            ee_error_layer = read_str d ''error_layer'',
            ee_source = read_str d ''source'',
            ee_stall_timeout_s = stall,
            ee_elapsed_s = elapsed,
            ee_content_chunk_count = content,
            ee_reasoning_chunk_count = reasoning,
            ee_deterministic = read_bool d ''deterministic'',
            ee_nonretryable = read_bool d ''nonretryable'',
            ee_failure_fingerprint = read_str d ''failure_fingerprint''\<rparr>)))))))"

subsection \<open>The result\<close>

record phase_result =
  pr_phase :: string
  pr_invocation_id :: string
  pr_exit_kind :: string
  pr_blocked_tasks :: "blocked_task list"
  pr_deviations :: "deviation list"
  pr_artifacts_written :: "json list"
  pr_cli_provenance :: "(string \<times> json) list"
  pr_external_error :: "external_error option"
  pr_schema :: string
  pr_schema_version :: int
  pr_contract_version :: int

definition PHASE_RESULT_SCHEMA :: string where
  "PHASE_RESULT_SCHEMA = ''megaplan.phase_result''"

definition PHASE_RESULT_SCHEMA_VERSION :: int where
  "PHASE_RESULT_SCHEMA_VERSION = 1"

definition PHASE_RESULT_CONTRACT_VERSION :: int where
  "PHASE_RESULT_CONTRACT_VERSION = 1"

text \<open>\<^verbatim>\<open>__post_init__\<close>.\<close>

definition mk_phase_result :: "phase_result \<Rightarrow> phase_error + phase_result" where
  "mk_phase_result r =
     (if pr_exit_kind r = ''blocked_by_prereq'' \<and> pr_blocked_tasks r = []
      then Inl (Py ValueError) else Inr r)"

definition phase_result_fields :: "phase_result \<Rightarrow> (string \<times> json) list" where
  "phase_result_fields r =
     [(''schema'', JStr PHASE_RESULT_SCHEMA),
      (''schema_version'', JInt PHASE_RESULT_SCHEMA_VERSION),
      (''phase_result_contract_version'', JInt PHASE_RESULT_CONTRACT_VERSION),
      (''phase'', JStr (pr_phase r)),
      (''invocation_id'', JStr (pr_invocation_id r)),
      (''exit_kind'', JStr (pr_exit_kind r)),
      (''blocked_tasks'', JArr (map blocked_task_to_dict (pr_blocked_tasks r))),
      (''deviations'', JArr (map deviation_to_dict (pr_deviations r))),
      (''artifacts_written'', JArr (pr_artifacts_written r)),
      (''cli_provenance'', JObj (pr_cli_provenance r)),
      (''external_error'', opt_json external_error_to_dict (pr_external_error r))]"

definition phase_result_to_dict :: "phase_result \<Rightarrow> json" where
  "phase_result_to_dict r = JObj (phase_result_fields r)"

text \<open>\<^verbatim>\<open>dict(x)\<close> of a dictionary, of an empty sequence, or of something that has no pairs; a list of
  pairs, which the validation of the read side excludes, is outside the model.\<close>

fun py_dict :: "json \<Rightarrow> phase_error + (string \<times> json) list" where
  "py_dict (JObj kvs) = Inr kvs"
| "py_dict (JArr []) = Inr []"
| "py_dict (JStr []) = Inr []"
| "py_dict (JArr (x # xs)) = Inl (Py TypeError)"
| "py_dict (JStr (c # cs)) = Inl (Py ValueError)"
| "py_dict _ = Inl (Py TypeError)"

text \<open>\<^verbatim>\<open>_optional_int\<close> catches \<^verbatim>\<open>TypeError\<close> and \<^verbatim>\<open>ValueError\<close>.\<close>

definition optional_int :: "json \<Rightarrow> phase_error + int" where
  "optional_int v =
     (if v = JNull then Inr 0
      else case py_int v of Inl (Py _) \<Rightarrow> Inr 0 | r \<Rightarrow> r)"

definition read_external_error :: "json \<Rightarrow> phase_error + external_error option" where
  "read_external_error v =
     (case v of JObj d \<Rightarrow> res_bind (external_error_from_dict None d) (\<lambda>e. Inr (Some e)) | _ \<Rightarrow> Inr None)"

definition phase_result_from_dict :: "(string \<times> json) list \<Rightarrow> phase_error + phase_result" where
  "phase_result_from_dict d =
     res_bind (required_str d ''phase'') (\<lambda>phase.
     res_bind (required_str d ''invocation_id'') (\<lambda>invocation.
     res_bind (required_str d ''exit_kind'') (\<lambda>exit_kind.
     res_bind (py_iter (dget d ''blocked_tasks'' (JArr []))) (\<lambda>bts.
     res_bind (res_map blocked_task_from_dict bts) (\<lambda>blocked.
     res_bind (py_iter (dget d ''deviations'' (JArr []))) (\<lambda>dvs.
     res_bind (res_map deviation_from_dict dvs) (\<lambda>deviations.
     res_bind (py_iter (dget d ''artifacts_written'' (JArr []))) (\<lambda>artifacts.
     res_bind (py_dict (dget d ''cli_provenance'' (JObj []))) (\<lambda>provenance.
     res_bind (read_external_error (dget d ''external_error'' JNull)) (\<lambda>ext.
     res_bind (optional_int (dget d ''schema_version'' JNull)) (\<lambda>version.
     res_bind (optional_int (dget d ''phase_result_contract_version'' JNull)) (\<lambda>contract.
       mk_phase_result
         \<lparr>pr_phase = phase, pr_invocation_id = invocation, pr_exit_kind = exit_kind,
          pr_blocked_tasks = blocked, pr_deviations = deviations,
          pr_artifacts_written = artifacts, pr_cli_provenance = provenance,
          pr_external_error = ext,
          pr_schema = py_str (dget d ''schema'' (JStr PHASE_RESULT_SCHEMA)),
          pr_schema_version = version, pr_contract_version = contract\<rparr>))))))))))))"

subsection \<open>Structural validation\<close>

definition REQUIRED_FIELDS :: "string list" where
  "REQUIRED_FIELDS =
     [''schema'', ''schema_version'', ''phase_result_contract_version'', ''phase'', ''invocation_id'',
      ''exit_kind'', ''blocked_tasks'', ''deviations'', ''artifacts_written'', ''cli_provenance'']"

definition VERSION_FIELDS :: "string list" where
  "VERSION_FIELDS = [''schema'', ''schema_version'', ''phase_result_contract_version'']"

abbreviation parse_error :: "string \<Rightarrow> phase_error" where
  "parse_error message \<equiv> Cli_Error ''parse_error'' message"

text \<open>\<^verbatim>\<open>x == n\<close> for an \<^verbatim>\<open>int\<close>: \<^verbatim>\<open>True\<close> equals 1 and a float of the same value is equal.\<close>

fun equals_int :: "int \<Rightarrow> json \<Rightarrow> bool" where
  "equals_int n (JInt i) = (i = n)"
| "equals_int n (JBool b) = ((if b then 1 else 0) = n)"
| "equals_int n (JFloat r) = (r = int_str n @ ''.0'')"
| "equals_int n _ = False"

definition is_str :: "json \<Rightarrow> bool" where
  "is_str v \<longleftrightarrow> (case v of JStr s \<Rightarrow> True | _ \<Rightarrow> False)"

definition is_bool :: "json \<Rightarrow> bool" where
  "is_bool v \<longleftrightarrow> (case v of JBool b \<Rightarrow> True | _ \<Rightarrow> False)"

definition check_versions :: "(string \<times> json) list \<Rightarrow> phase_error + unit" where
  "check_versions d =
     res_bind (ensure (dget d ''schema'' JNull = JStr PHASE_RESULT_SCHEMA)
        (parse_error (''phase_result.schema must be '' @ str_repr PHASE_RESULT_SCHEMA))) (\<lambda>_.
     res_bind (ensure (equals_int PHASE_RESULT_SCHEMA_VERSION (dget d ''schema_version'' JNull))
        (parse_error (''phase_result.schema_version must be '' @ int_str PHASE_RESULT_SCHEMA_VERSION))) (\<lambda>_.
     ensure (equals_int PHASE_RESULT_CONTRACT_VERSION (dget d ''phase_result_contract_version'' JNull))
        (parse_error (''phase_result.phase_result_contract_version must be '' @ int_str PHASE_RESULT_CONTRACT_VERSION))))"

definition check_required :: "bool \<Rightarrow> (string \<times> json) list \<Rightarrow> phase_error + unit" where
  "check_required current d =
     (let required = (if current then REQUIRED_FIELDS
                      else filter (\<lambda>k. k \<notin> set VERSION_FIELDS) REQUIRED_FIELDS);
          missing = sorted_set (filter (\<lambda>k. k \<notin> set (map fst d)) required)
      in ensure (missing = [])
           (parse_error (''phase_result missing required fields: '' @ join '', '' missing)))"

definition check_exit_kind :: "(string \<times> json) list \<Rightarrow> phase_error + unit" where
  "check_exit_kind d =
     (let ek = dget d ''exit_kind'' JNull
      in ensure (case ek of JStr s \<Rightarrow> s \<in> set EXIT_KINDS | _ \<Rightarrow> False)
           (parse_error (''phase_result.exit_kind must be one of '' @
              py_repr (JArr (map JStr (sorted_set EXIT_KINDS))) @ '', got '' @ py_repr ek)))"

definition check_text :: "(string \<times> json) list \<Rightarrow> string \<Rightarrow> phase_error + unit" where
  "check_text d k =
     (let v = dget d k JNull
      in ensure (is_str v \<and> truthy v)
           (parse_error (''phase_result.'' @ k @ '' must be a non-empty string, got '' @ py_repr v)))"

definition check_containers :: "(string \<times> json) list \<Rightarrow> phase_error + unit" where
  "check_containers d =
     res_bind (ensure (case dget d ''artifacts_written'' JNull of JArr xs \<Rightarrow> list_all is_str xs | _ \<Rightarrow> False)
        (parse_error ''phase_result.artifacts_written must be a list of strings'')) (\<lambda>_.
     ensure (case dget d ''cli_provenance'' JNull of JObj kvs \<Rightarrow> True | _ \<Rightarrow> False)
        (parse_error ''phase_result.cli_provenance must be a dict''))"

text \<open>A loop over field names that raises at the first bad one.\<close>

definition check_each :: "('a \<Rightarrow> phase_error + unit) \<Rightarrow> 'a list \<Rightarrow> phase_error + unit" where
  "check_each f xs = res_bind (res_map f xs) (\<lambda>_. Inr ())"

definition check_external_error :: "(string \<times> json) list \<Rightarrow> phase_error + unit" where
  "check_external_error d =
     (case dget d ''external_error'' JNull of
        JNull \<Rightarrow> Inr ()
      | JObj e \<Rightarrow>
          res_bind (check_each (\<lambda>k. ensure (is_str (dget e k JNull))
              (parse_error (''phase_result.external_error.'' @ k @ '' must be a string'')))
            [''provider'', ''error_kind'', ''message'']) (\<lambda>_.
          res_bind (check_each (\<lambda>k. ensure (k \<in> set (map fst e) \<longrightarrow> is_bool (dget e k JNull))
              (parse_error (''phase_result.external_error.'' @ k @ '' must be a boolean'')))
            [''deterministic'', ''nonretryable'']) (\<lambda>_.
          ensure (''failure_fingerprint'' \<in> set (map fst e) \<longrightarrow> is_str (dget e ''failure_fingerprint'' JNull))
            (parse_error ''phase_result.external_error.failure_fingerprint must be a string'')))
      | _ \<Rightarrow> Inl (parse_error ''phase_result.external_error must be an object or null''))"

definition check_blocked_task :: "nat \<times> json \<Rightarrow> phase_error + unit" where
  "check_blocked_task = (\<lambda>(i, v).
     case v of
       JObj b \<Rightarrow> ensure (''task_id'' \<in> set (map fst b))
         (parse_error (''phase_result.blocked_tasks['' @ nat_str i @ ''] missing task_id''))
     | _ \<Rightarrow> Inl (parse_error (''phase_result.blocked_tasks['' @ nat_str i @ ''] must be an object'')))"

definition check_deviation :: "nat \<times> json \<Rightarrow> phase_error + unit" where
  "check_deviation = (\<lambda>(i, v).
     case v of
       JObj x \<Rightarrow> ensure (''kind'' \<in> set (map fst x) \<and> ''message'' \<in> set (map fst x))
         (parse_error (''phase_result.deviations['' @ nat_str i @ ''] missing kind or message''))
     | _ \<Rightarrow> Inl (parse_error (''phase_result.deviations['' @ nat_str i @ ''] must be an object'')))"

definition PREREQ_MESSAGE :: string where
  "PREREQ_MESSAGE =
     ''phase_result: blocked_by_prereq requires at least one blocked_task; '' @
     ''empty blocked_tasks with blocked_by_prereq is classification_incompatible''"

definition check_blocked_tasks :: "(string \<times> json) list \<Rightarrow> phase_error + unit" where
  "check_blocked_tasks d =
     (case dget d ''blocked_tasks'' JNull of
        JArr bts \<Rightarrow>
          res_bind (ensure (\<not> (dget d ''exit_kind'' (JStr []) = JStr ''blocked_by_prereq'' \<and> bts = []))
            (Cli_Error ''invalid_phase_result'' PREREQ_MESSAGE)) (\<lambda>_.
          check_each check_blocked_task (enumerate 0 bts))
      | _ \<Rightarrow> Inl (parse_error ''phase_result.blocked_tasks must be a list''))"

definition check_deviations :: "(string \<times> json) list \<Rightarrow> phase_error + unit" where
  "check_deviations d =
     (case dget d ''deviations'' JNull of
        JArr dvs \<Rightarrow> check_each check_deviation (enumerate 0 dvs)
      | _ \<Rightarrow> Inl (parse_error ''phase_result.deviations must be a list''))"

definition validate_structure :: "bool \<Rightarrow> json \<Rightarrow> phase_error + unit" where
  "validate_structure current v =
     (case v of
        JObj d \<Rightarrow>
          res_bind (check_required current d) (\<lambda>_.
          res_bind (if current then check_versions d else Inr ()) (\<lambda>_.
          res_bind (check_exit_kind d) (\<lambda>_.
          res_bind (check_each (check_text d) [''phase'', ''invocation_id'']) (\<lambda>_.
          res_bind (check_containers d) (\<lambda>_.
          res_bind (check_external_error d) (\<lambda>_.
          res_bind (check_blocked_tasks d) (\<lambda>_.
            check_deviations d)))))))
      | _ \<Rightarrow> Inl (parse_error ''phase_result payload must be a dict''))"

definition validate_phase_result :: "json \<Rightarrow> phase_error + unit" where
  "validate_phase_result = validate_structure False"

definition validate_phase_result_current :: "json \<Rightarrow> phase_error + unit" where
  "validate_phase_result_current = validate_structure True"

subsection \<open>Reading, writing and emitting\<close>

text \<open>The file \<^verbatim>\<open>phase_result.json\<close> is the payload it holds, if it exists.\<close>

definition write_phase_result :: "phase_result \<Rightarrow> json option \<Rightarrow> phase_error + json option" where
  "write_phase_result r file =
     (let payload = phase_result_to_dict r
      in res_bind (validate_phase_result_current payload) (\<lambda>_. Inr (Some payload)))"

definition read_phase_result :: "json option \<Rightarrow> phase_error + phase_result option" where
  "read_phase_result file =
     (case file of
        None \<Rightarrow> Inr None
      | Some raw \<Rightarrow>
          res_bind (validate_phase_result raw) (\<lambda>_.
          case raw of
            JObj d \<Rightarrow> res_bind (phase_result_from_dict d) (\<lambda>r. Inr (Some r))
          | _ \<Rightarrow> Inl (Py TypeError)))"

text \<open>\<^verbatim>\<open>(state.get("meta") or {}).get("current_invocation_id")\<close>.\<close>

definition current_invocation :: "(string \<times> json) list \<Rightarrow> phase_error + json" where
  "current_invocation state =
     (let meta = dget state ''meta'' JNull
      in if \<not> truthy meta then Inr JNull
         else case meta of JObj m \<Rightarrow> Inr (dget m ''current_invocation_id'' JNull)
              | _ \<Rightarrow> Inl Attribute_Error)"

definition emit_phase_result ::
  "string \<Rightarrow> (string \<times> json) list \<Rightarrow> string \<Rightarrow> blocked_task list \<Rightarrow> deviation list \<Rightarrow> string list \<Rightarrow>
   (string \<times> json) list \<Rightarrow> external_error option \<Rightarrow> json option \<Rightarrow> phase_error + json option" where
  "emit_phase_result phase state exit_kind blocked deviations artifacts provenance ext file =
     res_bind (current_invocation state) (\<lambda>inv.
       case inv of
         JStr i \<Rightarrow>
           if i = [] then Inr file
           else
             res_bind (mk_phase_result
               \<lparr>pr_phase = phase, pr_invocation_id = i, pr_exit_kind = exit_kind,
                pr_blocked_tasks = blocked, pr_deviations = deviations,
                pr_artifacts_written = map JStr artifacts, pr_cli_provenance = provenance,
                pr_external_error = ext, pr_schema = PHASE_RESULT_SCHEMA,
                pr_schema_version = PHASE_RESULT_SCHEMA_VERSION,
                pr_contract_version = PHASE_RESULT_CONTRACT_VERSION\<rparr>) (\<lambda>r.
             write_phase_result r file)
       | _ \<Rightarrow> Inr file)"

text \<open>\<^verbatim>\<open>_active_phase_name\<close>.\<close>

definition active_phase_name :: "json \<Rightarrow> string" where
  "active_phase_name active =
     (case active of
        JObj a \<Rightarrow>
          let p = dget a ''phase'' JNull;
              v = (if truthy p then p else dget a ''step'' JNull)
          in (case v of JStr s \<Rightarrow> if s \<noteq> [] then s else ''unknown'' | _ \<Rightarrow> ''unknown'')
      | _ \<Rightarrow> ''unknown'')"

text \<open>What the body of a guarded handler does: it returns, or an exception leaves it. The guard
  intercepts only subclasses of \<^verbatim>\<open>Exception\<close>; of those it looks at the class, the \<^verbatim>\<open>extra\<close> of a
  \<^verbatim>\<open>CliError\<close> and the external error the chain of causes carries.\<close>

datatype raised =
    Interrupt
  | Base_Exception
  | Timeout_Expired
  | Cli_Exception "(string \<times> json) list" "external_error option"
  | Other_Exception "external_error option"

definition guard_outcome :: "raised \<Rightarrow> (string \<times> external_error option) option" where
  "guard_outcome x =
     (case x of
        Interrupt \<Rightarrow> None
      | Base_Exception \<Rightarrow> None
      | Timeout_Expired \<Rightarrow> Some (''timeout'', None)
      | Cli_Exception extra ext \<Rightarrow>
          if dget extra ''model_output_parse_error'' JNull = JBool True
          then Some (''malformed_model_output'', None)
          else (case ext of Some e \<Rightarrow> Some (''external_error'', Some e) | None \<Rightarrow> Some (''internal_error'', None))
      | Other_Exception ext \<Rightarrow>
          (case ext of Some e \<Rightarrow> Some (''external_error'', Some e) | None \<Rightarrow> Some (''internal_error'', None)))"

text \<open>What the guard leaves in the file before it re-raises: every failure on the way is swallowed. The
  state is the decoded \<^verbatim>\<open>state.json\<close>, if the file is there and decodes.\<close>

definition guard_write :: "raised \<Rightarrow> json option \<Rightarrow> json option \<Rightarrow> json option" where
  "guard_write x state file =
     (case (guard_outcome x, state) of
        (Some (ek, ext), Some (JObj raw)) \<Rightarrow>
          (let inv = (case dget raw ''meta'' JNull of
                        JObj m \<Rightarrow> dget m ''current_invocation_id'' JNull | _ \<Rightarrow> JNull);
               phase = active_phase_name (dget raw ''active_step'' JNull)
           in case inv of
                JStr i \<Rightarrow>
                  if i \<noteq> [] \<and> phase \<noteq> ''unknown''
                  then (case res_bind (mk_phase_result
                          \<lparr>pr_phase = phase, pr_invocation_id = i, pr_exit_kind = ek,
                           pr_blocked_tasks = [], pr_deviations = [], pr_artifacts_written = [],
                           pr_cli_provenance = [], pr_external_error = ext,
                           pr_schema = PHASE_RESULT_SCHEMA,
                           pr_schema_version = PHASE_RESULT_SCHEMA_VERSION,
                           pr_contract_version = PHASE_RESULT_CONTRACT_VERSION\<rparr>)
                          (\<lambda>r. write_phase_result r file)
                        of Inr f \<Rightarrow> f | Inl e \<Rightarrow> file)
                  else file
              | _ \<Rightarrow> file)
      | _ \<Rightarrow> file)"

subsection \<open>Results a recovery superseded\<close>

definition nonempty_text :: "json \<Rightarrow> string option" where
  "nonempty_text v = (case v of JStr s \<Rightarrow> if s \<noteq> [] then Some s else None | _ \<Rightarrow> None)"

definition supersedes :: "string \<Rightarrow> string \<Rightarrow> json \<Rightarrow> bool" where
  "supersedes phase current v \<longleftrightarrow>
     (case v of
        JObj entry \<Rightarrow>
          dget entry ''action'' JNull = JStr ''recover-blocked'' \<and>
          (case dget entry ''resume_cursor'' JNull of
             JObj c \<Rightarrow> dget c ''phase'' JNull = JStr phase
           | _ \<Rightarrow> False) \<and>
          (case nonempty_text (dget entry ''to_state'' JNull) of
             Some t \<Rightarrow> t = current
           | None \<Rightarrow> True)
      | _ \<Rightarrow> False)"

definition is_superseded_recovered_phase_result :: "string \<Rightarrow> string \<Rightarrow> json \<Rightarrow> bool" where
  "is_superseded_recovered_phase_result phase exit_kind state \<longleftrightarrow>
     exit_kind \<noteq> ''success'' \<and>
     (case state of
        JObj st \<Rightarrow>
          (case (nonempty_text (dget st ''current_state'' JNull), dget st ''resume_cursor'' JNull) of
             (Some current, JObj cursor) \<Rightarrow>
               dget cursor ''phase'' JNull = JStr phase \<and>
               (case dget st ''meta'' JNull of
                  JObj meta \<Rightarrow>
                    (case dget meta ''overrides'' JNull of
                       JArr overrides \<Rightarrow> list_ex (supersedes phase current) (List.rev overrides)
                     | _ \<Rightarrow> False)
                | _ \<Rightarrow> False)
           | _ \<Rightarrow> False)
      | _ \<Rightarrow> False)"

end
