(* ===== verification/Py_Regex.thy ===== *)
theory Py_Regex
  imports Py_Text
begin

section \<open>Regular expressions\<close>

text \<open>
  The part of \<^verbatim>\<open>re\<close> the modelled code uses: character classes, word boundaries, alternatives tried in
  order and greedy repetition. A matcher returns every place where a match can end, the preferred one
  first, as the backtracking engine finds them; a place is the character before it and the text after
  it. The patterns are applied to ASCII text.
\<close>

type_synonym place = "char option \<times> string"

datatype regex =
    Nothing
  | Class "char \<Rightarrow> bool"
  | Boundary
  | At_Start
  | At_End
  | Then regex regex
  | Either regex regex
  | Repeat nat "nat option" regex

definition word_char :: "char \<Rightarrow> bool" where
  "word_char c \<longleftrightarrow>
     c \<in> set ''abcdefghijklmnopqrstuvwxyzABCDEFGHIJKLMNOPQRSTUVWXYZ0123456789_''"

definition hex_char :: "char \<Rightarrow> bool" where
  "hex_char c \<longleftrightarrow> c \<in> set ''0123456789abcdefABCDEF''"

definition space_char :: "char \<Rightarrow> bool" where
  "space_char c \<longleftrightarrow> ascii_space (of_char c)"

text \<open>\<^verbatim>\<open>\b\<close>.\<close>

fun at_boundary :: "place \<Rightarrow> bool" where
  "at_boundary (p, s) \<longleftrightarrow>
     ((case p of Some c \<Rightarrow> word_char c | None \<Rightarrow> False) \<noteq>
      (case s of c # _ \<Rightarrow> word_char c | [] \<Rightarrow> False))"

fun one_char :: "(char \<Rightarrow> bool) \<Rightarrow> place \<Rightarrow> place list" where
  "one_char f (p, []) = []"
| "one_char f (p, c # s) = (if f c then [(Some c, s)] else [])"

text \<open>At least \<open>m\<close> and at most \<open>n\<close> further copies, as many as possible first. Every copy of a repeated
  pattern consumes a character, so the length of the text bounds their number.\<close>

fun repeated :: "(place \<Rightarrow> place list) \<Rightarrow> nat \<Rightarrow> nat \<Rightarrow> nat option \<Rightarrow> place \<Rightarrow> place list" where
  "repeated f 0 m n p = (if m = 0 then [p] else [])"
| "repeated f (Suc fuel) m n p =
     (if n = Some 0 then []
      else concat (map (repeated f fuel (m - 1) (map_option (\<lambda>k. k - 1) n))
                    (filter (\<lambda>q. length (snd q) < length (snd p)) (f p)))) @
     (if m = 0 then [p] else [])"

primrec ends :: "regex \<Rightarrow> place \<Rightarrow> place list" where
  "ends Nothing = (\<lambda>p. [p])"
| "ends (Class f) = one_char f"
| "ends Boundary = (\<lambda>p. if at_boundary p then [p] else [])"
| "ends At_Start = (\<lambda>p. if fst p = None then [p] else [])"
| "ends At_End = (\<lambda>p. if snd p \<in> {[], [CHR 0x0A]} then [p] else [])"
| "ends (Then r t) = (\<lambda>p. concat (map (ends t) (ends r p)))"
| "ends (Either r t) = (\<lambda>p. ends r p @ ends t p)"
| "ends (Repeat m n r) = (\<lambda>p. repeated (ends r) (Suc (length (snd p))) m n p)"

subsection \<open>Building patterns\<close>

definition chr :: "char \<Rightarrow> regex" where
  "chr c = Class (\<lambda>d. d = c)"

text \<open>A character under \<^verbatim>\<open>re.IGNORECASE\<close>.\<close>

definition chr_i :: "char \<Rightarrow> regex" where
  "chr_i c = Class (\<lambda>d. lower_char d = lower_char c)"

fun sequence :: "regex list \<Rightarrow> regex" where
  "sequence [] = Nothing"
| "sequence [r] = r"
| "sequence (r # rs) = Then r (sequence rs)"

fun choice :: "regex list \<Rightarrow> regex" where
  "choice [] = Class (\<lambda>c. False)"
| "choice [r] = r"
| "choice (r # rs) = Either r (choice rs)"

definition literal :: "string \<Rightarrow> regex" where
  "literal s = sequence (map chr s)"

definition literal_i :: "string \<Rightarrow> regex" where
  "literal_i s = sequence (map chr_i s)"

definition optional :: "regex \<Rightarrow> regex" where
  "optional r = Repeat 0 (Some 1) r"

definition some_of :: "regex \<Rightarrow> regex" where
  "some_of r = Repeat 1 None r"

definition exactly :: "nat \<Rightarrow> regex \<Rightarrow> regex" where
  "exactly n r = Repeat n (Some n) r"

subsection \<open>Searching and replacing\<close>

text \<open>\<^verbatim>\<open>pattern.sub(repl, s)\<close> and \<^verbatim>\<open>pattern.findall(s)\<close>, for a pattern without groups that matches no
  empty text.\<close>

function substitute :: "regex \<Rightarrow> string \<Rightarrow> place \<Rightarrow> string" where
  "substitute r t (p, []) = []"
| "substitute r t (p, c # s) =
     (case ends r (p, c # s) of
        q # _ \<Rightarrow> if length (snd q) < length (c # s) then t @ substitute r t q
                 else c # substitute r t (Some c, s)
      | [] \<Rightarrow> c # substitute r t (Some c, s))"
  by pat_completeness auto
termination
  by (relation "measure (\<lambda>(r, t, p). length (snd p))") auto

definition re_sub :: "regex \<Rightarrow> string \<Rightarrow> string \<Rightarrow> string" where
  "re_sub r t s = substitute r t (None, s)"

function find_from :: "regex \<Rightarrow> place \<Rightarrow> string list" where
  "find_from r (p, []) = []"
| "find_from r (p, c # s) =
     (case ends r (p, c # s) of
        q # _ \<Rightarrow> if length (snd q) < length (c # s)
                 then take (length (c # s) - length (snd q)) (c # s) # find_from r q
                 else find_from r (Some c, s)
      | [] \<Rightarrow> find_from r (Some c, s))"
  by pat_completeness auto
termination
  by (relation "measure (\<lambda>(r, p). length (snd p))") auto

definition findall :: "regex \<Rightarrow> string \<Rightarrow> string list" where
  "findall r s = find_from r (None, s)"

subsection \<open>What a match consumes\<close>

text \<open>A match ends in a suffix of the text it started on.\<close>

definition suffix_place :: "place \<Rightarrow> place \<Rightarrow> bool" where
  "suffix_place q p \<longleftrightarrow> (\<exists>m. snd p = m @ snd q)"

lemma suffix_place_refl: "suffix_place p p"
  by (simp add: suffix_place_def)

lemma suffix_place_trans: "suffix_place r q \<Longrightarrow> suffix_place q p \<Longrightarrow> suffix_place r p"
  by (auto simp: suffix_place_def)

lemma repeated_suffix:
  assumes "\<And>p q. q \<in> set (f p) \<Longrightarrow> suffix_place q p" and "q \<in> set (repeated f fuel m n p)"
  shows "suffix_place q p"
  using assms(2)
proof (induction fuel arbitrary: m n p)
  case 0
  then show ?case by (auto simp: suffix_place_refl split: if_splits)
next
  case (Suc fuel)
  from Suc.prems consider "q = p"
    | x k where "x \<in> set (f p)" "q \<in> set (repeated f fuel (m - 1) k x)"
    by (auto split: if_splits)
  then show ?case
  proof cases
    case 1
    then show ?thesis by (simp add: suffix_place_refl)
  next
    case (2 x k)
    then show ?thesis using assms(1) Suc.IH suffix_place_trans by blast
  qed
qed

lemma one_char_suffix: "q \<in> set (one_char f p) \<Longrightarrow> suffix_place q p"
  by (cases "(f, p)" rule: one_char.cases) (auto simp: suffix_place_def split: if_splits)

lemma ends_suffix: "q \<in> set (ends r p) \<Longrightarrow> suffix_place q p"
proof (induction r arbitrary: p q)
  case (Class f)
  then show ?case by (simp add: one_char_suffix)
next
  case (Then r t)
  then obtain x where "x \<in> set (ends r p)" "q \<in> set (ends t x)" by auto
  then show ?case using Then.IH suffix_place_trans by blast
next
  case (Repeat m n r)
  then show ?case using repeated_suffix [of "ends r" q] by (simp only: ends.simps)
qed (auto simp: suffix_place_refl split: if_splits)

text \<open>Text in which the pattern matches nowhere is left as it is.\<close>

lemma substitute_unmatched:
  "(\<And>q. suffix_place q p \<Longrightarrow> ends r q = []) \<Longrightarrow> substitute r t p = snd p"
proof (induction r t p rule: substitute.induct)
  case (1 r t p)
  then show ?case by simp
next
  case (2 r t p c s)
  have no: "ends r (p, c # s) = []" using "2.prems" by (simp add: suffix_place_refl)
  have "suffix_place q (p, c # s)" if "suffix_place q (Some c, s)" for q
    using that by (auto simp: suffix_place_def)
  then have "substitute r t (Some c, s) = s" using "2.IH"(1) [OF no] "2.prems" by simp
  then show ?case using no by simp
qed

end
