(* ===== verification/Recovery_Policy.thy ===== *)
theory Recovery_Policy
  imports Phase_Result Py_Regex
begin

section \<open>The recovery policy\<close>

text \<open>
  \<^verbatim>\<open>orchestration/recovery_policy.py\<close>: what to do with an error a phase reports. The error is read by
  attributes, so it is a \<open>py_value\<close>; the record a phase leaves and its external error become such values
  here. The digest of a failure signature is a parameter, the SHA-256 of the standard library.
\<close>

subsection \<open>Constants\<close>

definition DEFAULT_MAX_CONTEXT_RETRIES :: int where "DEFAULT_MAX_CONTEXT_RETRIES = 2"
definition DEFAULT_MAX_EXTERNAL_RETRIES :: int where "DEFAULT_MAX_EXTERNAL_RETRIES = 1"
definition DEFAULT_MAX_BLOCKED_RETRIES :: int where "DEFAULT_MAX_BLOCKED_RETRIES = 1"

definition EXTERNAL_RETRYABLE_PHASES :: "string list" where
  "EXTERNAL_RETRYABLE_PHASES =
     [''plan'', ''prep'', ''critique'', ''revise'', ''gate'', ''finalize'', ''review'']"

definition EXTERNAL_RETRYABLE_LAYERS :: "string list" where
  "EXTERNAL_RETRYABLE_LAYERS =
     [''stream_content_stall'', ''stream_first_content_timeout'', ''stream_read_timeout'',
      ''transport_timeout'', ''worker_stream_stall'']"

definition EXTERNAL_PERMANENT_ERROR_KINDS :: "string list" where
  "EXTERNAL_PERMANENT_ERROR_KINDS =
     [''auth'', ''balance'', ''quota'', ''billing'', ''config'', ''bad_request'', ''invalid_request'',
      ''unsupported_model'', ''context_exhausted'', ''context_length'', ''rate_limit'',
      ''provider_contract'']"

definition CIRCUIT_OPEN_THRESHOLD :: int where "CIRCUIT_OPEN_THRESHOLD = 2"

datatype failure_class =
    Worker_Budget_Exhausted
  | Timeout_300s
  | Provider_Failover_Exhaustion
  | Compaction_Failure
  | Invalid_Ref
  | Invalid_Model
  | Invalid_Import
  | Invalid_Provenance
  | Review_Quality_Block
  | Unknown_Failure

fun failure_class_value :: "failure_class \<Rightarrow> string" where
  "failure_class_value Worker_Budget_Exhausted = ''worker_budget_exhausted''"
| "failure_class_value Timeout_300s = ''timeout_300s''"
| "failure_class_value Provider_Failover_Exhaustion = ''provider_failover_exhaustion''"
| "failure_class_value Compaction_Failure = ''compaction_failure''"
| "failure_class_value Invalid_Ref = ''invalid_ref''"
| "failure_class_value Invalid_Model = ''invalid_model''"
| "failure_class_value Invalid_Import = ''invalid_import''"
| "failure_class_value Invalid_Provenance = ''invalid_provenance''"
| "failure_class_value Review_Quality_Block = ''review_quality_block''"
| "failure_class_value Unknown_Failure = ''unknown''"

fun failure_class_halt :: "failure_class \<Rightarrow> string" where
  "failure_class_halt Worker_Budget_Exhausted = ''worker_budget_circuit_open''"
| "failure_class_halt Timeout_300s = ''timeout_circuit_open''"
| "failure_class_halt Provider_Failover_Exhaustion = ''provider_failover_circuit_open''"
| "failure_class_halt Compaction_Failure = ''compaction_circuit_open''"
| "failure_class_halt Invalid_Ref = ''invalid_ref_circuit_open''"
| "failure_class_halt Invalid_Model = ''invalid_model_circuit_open''"
| "failure_class_halt Invalid_Import = ''invalid_import_circuit_open''"
| "failure_class_halt Invalid_Provenance = ''invalid_provenance_circuit_open''"
| "failure_class_halt Review_Quality_Block = ''review_quality_circuit_open''"
| "failure_class_halt Unknown_Failure = ''unclassified''"

text \<open>The annotation \<^verbatim>\<open>HaltKind\<close>.\<close>

definition HALT_KINDS :: "string list" where
  "HALT_KINDS =
     [''context_retry_exhausted'', ''external_retry_exhausted'', ''blocked_retry_exhausted'',
      ''permanent_external'', ''unclassified'', ''worker_budget_circuit_open'', ''timeout_circuit_open'',
      ''provider_failover_circuit_open'', ''compaction_circuit_open'', ''invalid_ref_circuit_open'',
      ''invalid_model_circuit_open'', ''invalid_import_circuit_open'', ''invalid_provenance_circuit_open'',
      ''review_quality_circuit_open'']"

subsection \<open>Phase results as errors\<close>

text \<open>The attributes the policy reads. The \<^verbatim>\<open>str()\<close> text of an object is its class and fields in the form of
  a dataclass; which text that is does not matter here, so it is an argument.\<close>

record renderer =
  shows_result :: "phase_result \<Rightarrow> string"
  shows_error :: "external_error \<Rightarrow> string"

definition opt_value :: "('a \<Rightarrow> json) \<Rightarrow> 'a option \<Rightarrow> py_value" where
  "opt_value f v = Plain (opt_json f v)"

definition external_error_value :: "renderer \<Rightarrow> external_error \<Rightarrow> py_value" where
  "external_error_value R e = Object ''ExternalError'' (shows_error R e)
     [(''provider'', Plain (JStr (ee_provider e))),
      (''error_kind'', Plain (JStr (ee_error_kind e))),
      (''message'', Plain (JStr (ee_message e))),
      (''status_code'', opt_value JInt (ee_status_code e)),
      (''retry_after_s'', opt_value JFloat (ee_retry_after_s e)),
      (''request_id'', opt_value JStr (ee_request_id e)),
      (''provider_error_code'', opt_value JStr (ee_provider_error_code e)),
      (''error_layer'', opt_value JStr (ee_error_layer e)),
      (''source'', opt_value JStr (ee_source e)),
      (''deterministic'', opt_value JBool (ee_deterministic e)),
      (''nonretryable'', opt_value JBool (ee_nonretryable e)),
      (''failure_fingerprint'', opt_value JStr (ee_failure_fingerprint e))]"

definition phase_result_value :: "renderer \<Rightarrow> phase_result \<Rightarrow> py_value" where
  "phase_result_value R r = Object ''PhaseResult'' (shows_result R r)
     [(''phase'', Plain (JStr (pr_phase r))),
      (''invocation_id'', Plain (JStr (pr_invocation_id r))),
      (''exit_kind'', Plain (JStr (pr_exit_kind r))),
      (''cli_provenance'', Plain (JObj (pr_cli_provenance r))),
      (''external_error'',
         case pr_external_error r of Some e \<Rightarrow> external_error_value R e | None \<Rightarrow> Plain JNull),
      (''schema'', Plain (JStr (pr_schema r)))]"

subsection \<open>Failure signatures\<close>

definition digits :: "nat \<Rightarrow> regex" where
  "digits n = exactly n (Class digit_char)"

definition one_of :: "string \<Rightarrow> regex" where
  "one_of cs = Class (\<lambda>c. c \<in> set cs)"

definition path_char :: "char \<Rightarrow> bool" where
  "path_char c \<longleftrightarrow> word_char c \<or> c \<in> set ''.-''"

definition ISO_TIMESTAMP_RE :: regex where
  "ISO_TIMESTAMP_RE = sequence
     [digits 4, chr CHR ''-'', digits 2, chr CHR ''-'', digits 2, one_of ''Tt '',
      digits 2, chr CHR '':'', digits 2, chr CHR '':'', digits 2,
      optional (sequence [chr CHR ''.'', some_of (Class digit_char)]),
      optional (choice [one_of ''Zz'',
        sequence [one_of ''+-'', digits 2, optional (chr CHR '':''), digits 2]])]"

definition DATE_ONLY_RE :: regex where
  "DATE_ONLY_RE = sequence [digits 4, chr CHR ''-'', digits 2, chr CHR ''-'', digits 2]"

definition hex_run :: "nat \<Rightarrow> nat \<Rightarrow> regex" where
  "hex_run m n = Repeat m (Some n) (Class hex_char)"

definition HEXISH_TOKEN_RE :: regex where
  "HEXISH_TOKEN_RE = sequence [Boundary, hex_run 8 64, Boundary]"

definition UUID_RE :: regex where
  "UUID_RE = sequence
     [Boundary, hex_run 8 8, chr CHR ''-'', hex_run 4 4, chr CHR ''-'', hex_run 4 4, chr CHR ''-'',
      hex_run 4 4, chr CHR ''-'', hex_run 12 12, Boundary]"

definition counter_token :: "string \<Rightarrow> regex" where
  "counter_token w = sequence
     [Boundary, literal w, optional (one_of ''=: ''), some_of (Class digit_char), Boundary]"

definition PID_TOKEN_RE :: regex where "PID_TOKEN_RE = counter_token ''pid''"
definition ATTEMPT_TOKEN_RE :: regex where "ATTEMPT_TOKEN_RE = counter_token ''attempt''"

definition ABSOLUTE_PATH_RE :: regex where
  "ABSOLUTE_PATH_RE = sequence
     [some_of (sequence [chr CHR ''/'', some_of (Class path_char)]), chr CHR ''/'', some_of (Class path_char)]"

definition DURATION_RE :: regex where
  "DURATION_RE = sequence
     [Boundary, some_of (Class digit_char), chr CHR ''.'', Repeat 2 None (Class digit_char), chr CHR ''s'',
      Boundary]"

definition BARE_NUMBER_RE :: regex where
  "BARE_NUMBER_RE = sequence [Boundary, some_of (Class digit_char), Boundary]"

definition CONTENT_HASH_RE :: regex where
  "CONTENT_HASH_RE = sequence
     [Boundary,
      choice [sequence [literal_i ''sha'', optional (choice [literal_i ''256'', literal_i ''1''])],
              literal_i ''gitsha'', literal_i ''blob'', literal_i ''tree'', literal_i ''commit'',
              literal_i ''artifact'', literal_i ''evidence''],
      optional (Class (\<lambda>c. c = CHR '':'' \<or> space_char c)), hex_run 7 64, Boundary]"

text \<open>\<^verbatim>\<open>_normalize_message\<close>.\<close>

definition normalize_message :: "string \<Rightarrow> string" where
  "normalize_message text =
     (let t = lower (strip text);
          t = re_sub ISO_TIMESTAMP_RE '' <ts> '' t;
          t = re_sub UUID_RE '' <uuid> '' t;
          t = re_sub HEXISH_TOKEN_RE '' <hex> '' t;
          t = re_sub PID_TOKEN_RE '' <pid> '' t;
          t = re_sub ATTEMPT_TOKEN_RE '' <attempt> '' t;
          t = re_sub ABSOLUTE_PATH_RE '' <path> '' t;
          t = re_sub DURATION_RE '' <duration> '' t;
          t = re_sub DATE_ONLY_RE '' <date> '' t;
          t = re_sub BARE_NUMBER_RE '' <n> '' t;
          t = strip (re_sub (some_of (Class space_char)) '' '' t)
      in concat (take 1000 (utf8_chars t)))"

text \<open>\<^verbatim>\<open>json.dumps(payload, sort_keys=True, separators=(",", ":"))\<close> of a dictionary of texts and lists of
  texts.\<close>

fun compact_value :: "string + string list \<Rightarrow> string" where
  "compact_value (Inl s) = ascii_quote s"
| "compact_value (Inr xs) = ''['' @ join '','' (map ascii_quote xs) @ '']''"

definition compact_dumps :: "(string \<times> (string + string list)) list \<Rightarrow> string" where
  "compact_dumps kvs =
     ''{'' @ join '','' (map (\<lambda>(k, v). ascii_quote k @ '':'' @ compact_value v) (sort_key fst kvs)) @ ''}''"

definition folded_attr :: "py_value \<Rightarrow> string \<Rightarrow> string" where
  "folded_attr error name = lower (strip (text_attr error name))"

definition signature_exit_kind :: "py_value \<Rightarrow> string" where
  "signature_exit_kind error =
     (case getattr error ''exit_kind'' of
        Enum_Member c v \<Rightarrow> if c = ''ExitKind'' then v else lower (strip v)
      | Plain (JStr s) \<Rightarrow> lower (strip s)
      | _ \<Rightarrow> [])"

definition text_entry :: "string \<Rightarrow> string \<Rightarrow> (string \<times> (string + string list)) list" where
  "text_entry k s = (if s = [] then [] else [(k, Inl s)])"

definition signature_payload ::
  "failure_class \<Rightarrow> py_value \<Rightarrow> string \<Rightarrow> string \<Rightarrow> (string \<times> (string + string list)) list" where
  "signature_payload fc error task_id attempt_id =
     (let status = getattr error ''status_code'';
          hashes = sorted_set (findall CONTENT_HASH_RE (text_attr error ''message''))
      in [(''failure_class'', Inl (failure_class_value fc)), (''task_id'', Inl task_id),
          (''attempt_id'', Inl attempt_id)]
         @ text_entry ''message'' (normalize_message (text_attr error ''message''))
         @ text_entry ''command'' (normalize_message (text_attr error ''command''))
         @ text_entry ''error_kind'' (folded_attr error ''error_kind'')
         @ text_entry ''error_layer'' (folded_attr error ''error_layer'')
         @ text_entry ''exit_kind'' (signature_exit_kind error)
         @ text_entry ''provider'' (folded_attr error ''provider'')
         @ text_entry ''status_code'' (if is_none status then [] else value_text status)
         @ (if hashes = [] then [] else [(''content_hashes'', Inr hashes)]))"

definition normalize_failure_signature ::
  "(string \<Rightarrow> string) \<Rightarrow> failure_class \<Rightarrow> py_value \<Rightarrow> string \<Rightarrow> string \<Rightarrow> string" where
  "normalize_failure_signature sha fc error task_id attempt_id =
     sha (compact_dumps (signature_payload fc error task_id attempt_id))"

subsection \<open>Failure classes\<close>

definition matches_any :: "string \<Rightarrow> string list \<Rightarrow> bool" where
  "matches_any text needles \<longleftrightarrow> list_ex (\<lambda>needle. contains (lower needle) (lower text)) needles"

text \<open>The four texts a class is read from.\<close>

definition error_message :: "py_value \<Rightarrow> string" where
  "error_message error = lower (text_attr error ''message'')"

definition error_kind :: "py_value \<Rightarrow> string" where
  "error_kind error = lower (text_attr error ''error_kind'')"

definition error_code :: "py_value \<Rightarrow> string" where
  "error_code error = lower (text_attr error ''code'')"

definition failure_kind :: "py_value \<Rightarrow> string" where
  "failure_kind error = lower (text_attr error ''kind'')"

definition review_quality_shape :: "py_value \<Rightarrow> bool" where
  "review_quality_shape error \<longleftrightarrow>
     failure_kind error \<in> {''quality_gate_blocked'', ''quality_gate_circuit_open'', ''review_quality_blocked_unknown''} \<or>
     error_kind error \<in> {''review_quality_block'', ''quality_gate_blocked'', ''quality_gate_circuit_open''} \<or>
     error_code error \<in> {''review_quality_block'', ''quality_gate_blocked'', ''quality_gate_circuit_open''} \<or>
     matches_any (error_message error)
       [''review quality'', ''quality gate blocked'', ''quality-gate circuit open'', ''quality gate circuit open'',
        ''review rework budget exhausted'', ''unresolved quality blockers'', ''review quality block'',
        ''quality_gate_blocked'', ''quality_gate_circuit_open'', ''review_quality_blocked'']"

definition worker_budget_shape :: "py_value \<Rightarrow> bool" where
  "worker_budget_shape error \<longleftrightarrow>
     error_kind error \<in> {''worker_budget_exhausted'', ''run_budget_exhausted''} \<or>
     error_code error \<in> {''worker_budget_exhausted'', ''budget_exhausted''} \<or>
     matches_any (error_message error)
       [''worker budget exhausted'', ''worker run budget'', ''run budget exhausted''] \<or>
     contains ''budget exhausted'' (error_message error) \<and> \<not> contains ''review'' (error_message error) \<and>
       \<not> contains ''rework'' (error_message error)"

definition timeout_shape :: "py_value \<Rightarrow> bool" where
  "timeout_shape error \<longleftrightarrow>
     error_kind error = ''timeout_300s'' \<or> error_code error = ''timeout_300s'' \<or>
     matches_any (error_message error)
       [''300s timeout'', ''300 second timeout'', ''timed out after 300'', ''phase timeout 300''] \<or>
     contains ''timeout'' (error_message error) \<and> contains ''300'' (error_message error)"

definition failover_shape :: "py_value \<Rightarrow> bool" where
  "failover_shape error \<longleftrightarrow>
     error_kind error \<in> {''provider_failover_exhaustion'', ''failover_exhausted''} \<or>
     error_code error = ''provider_failover_exhaustion'' \<or>
     matches_any (error_message error)
       [''provider failover exhausted'', ''failover chain exhausted'', ''all providers exhausted'',
        ''no more providers'', ''provider failover'']"

definition compaction_shape :: "py_value \<Rightarrow> bool" where
  "compaction_shape error \<longleftrightarrow>
     error_kind error \<in> {''compaction_failure'', ''compaction_failed''} \<or>
     error_code error \<in> {''compaction_failure'', ''compaction_failed''} \<or>
     matches_any (error_message error)
       [''compaction failed'', ''evidence compaction'', ''compaction error'', ''cannot compact'']"

definition ref_shape :: "py_value \<Rightarrow> bool" where
  "ref_shape error \<longleftrightarrow>
     error_kind error \<in> {''invalid_ref'', ''invalid_source_ref'', ''source_ref_mismatch''} \<or>
     error_code error \<in> {''invalid_ref'', ''invalid_source_ref'', ''source_ref_mismatch'',
       ''canonical_source_unavailable'', ''invalid_worktree_ref''} \<or>
     matches_any (error_message error)
       [''invalid ref'', ''invalid source ref'', ''source ref mismatch'', ''invalid git ref'',
        ''invalid worktree ref'', ''canonical_source_unavailable'']"

text \<open>The mismatches a launch preflight recorded: nested in its report, or at the top of \<^verbatim>\<open>extra\<close>.\<close>

definition preflight_mismatches :: "py_value \<Rightarrow> json list" where
  "preflight_mismatches error =
     (case getattr error ''extra'' of
        Plain (JObj extra) \<Rightarrow>
          (case dget extra ''worker_launch_preflight'' JNull of
             JObj wlp \<Rightarrow>
               (case dget wlp ''mismatches'' (JArr []) of
                  JArr ms \<Rightarrow> ms
                | _ \<Rightarrow> (case dget extra ''mismatches'' (JArr []) of JArr ms \<Rightarrow> ms | _ \<Rightarrow> []))
           | _ \<Rightarrow> (case dget extra ''mismatches'' (JArr []) of JArr ms \<Rightarrow> ms | _ \<Rightarrow> []))
      | _ \<Rightarrow> [])"

fun mismatch_class :: "json list \<Rightarrow> failure_class option" where
  "mismatch_class [] = None"
| "mismatch_class (JObj m # ms) =
     (let f = dget m ''field'' JNull in
      if f \<in> {JStr ''source_ref'', JStr ''ref''} then Some Invalid_Ref
      else if f \<in> {JStr ''installed_package_path'', JStr ''import_path''} then Some Invalid_Import
      else if f \<in> {JStr ''runtime_revision'', JStr ''provenance''} then Some Invalid_Provenance
      else if f \<in> {JStr ''selected_model'', JStr ''model''} then Some Invalid_Model
      else mismatch_class ms)"
| "mismatch_class (_ # ms) = mismatch_class ms"

definition model_shape :: "py_value \<Rightarrow> bool" where
  "model_shape error \<longleftrightarrow>
     error_kind error \<in> {''invalid_model'', ''model_mismatch'', ''unsupported_model''} \<or>
     error_code error \<in> {''invalid_model'', ''model_mismatch'', ''invalid_codex_model''} \<or>
     matches_any (error_message error)
       [''invalid model'', ''model mismatch'', ''unknown model'', ''unsupported model'', ''invalid_codex_model'']"

definition import_shape :: "py_value \<Rightarrow> bool" where
  "import_shape error \<longleftrightarrow>
     error_kind error \<in> {''invalid_import'', ''import_mismatch'', ''import_path_mismatch''} \<or>
     error_code error \<in> {''invalid_import'', ''import_mismatch''} \<or>
     matches_any (error_message error)
       [''invalid import'', ''import path mismatch'', ''installed package path mismatch'', ''cannot import'',
        ''module not found'']"

definition provenance_shape :: "py_value \<Rightarrow> bool" where
  "provenance_shape error \<longleftrightarrow>
     error_kind error \<in> {''invalid_provenance'', ''provenance_mismatch''} \<or>
     error_code error \<in> {''invalid_provenance'', ''provenance_mismatch''} \<or>
     matches_any (error_message error)
       [''invalid provenance'', ''provenance mismatch'', ''invalid parent provenance'',
        ''invalid self-parent provenance'', ''managed-agent provenance'']"

definition preflight_class :: "py_value \<Rightarrow> failure_class option" where
  "preflight_class error =
     (if error_code error = ''worker_launch_preflight_mismatch''
      then mismatch_class (preflight_mismatches error) else None)"

definition classify_failure_class :: "py_value \<Rightarrow> failure_class" where
  "classify_failure_class error =
     (if review_quality_shape error then Review_Quality_Block
      else if worker_budget_shape error then Worker_Budget_Exhausted
      else if timeout_shape error then Timeout_300s
      else if failover_shape error then Provider_Failover_Exhaustion
      else if compaction_shape error then Compaction_Failure
      else if ref_shape error then Invalid_Ref
      else case preflight_class error of
        Some c \<Rightarrow> c
      | None \<Rightarrow>
          if model_shape error then Invalid_Model
          else if import_shape error then Invalid_Import
          else if provenance_shape error then Invalid_Provenance
          else Unknown_Failure)"

subsection \<open>Decisions\<close>

datatype action = Retry_Fresh | Retry_Transient | Escalate | Halt

datatype budget = Context_Budget | External_Budget | Blocked_Budget

record recovery_decision =
  rd_action :: action
  rd_budget_delta :: int
  rd_budget_kind :: "budget option"
  rd_halt_kind :: "string option"
  rd_reason :: string

definition retry :: "action \<Rightarrow> budget \<Rightarrow> string \<Rightarrow> recovery_decision" where
  "retry a b reason =
     \<lparr>rd_action = a, rd_budget_delta = 1, rd_budget_kind = Some b, rd_halt_kind = None, rd_reason = reason\<rparr>"

definition halt :: "string \<Rightarrow> budget option \<Rightarrow> string \<Rightarrow> recovery_decision" where
  "halt kind b reason =
     \<lparr>rd_action = Halt, rd_budget_delta = 0, rd_budget_kind = b, rd_halt_kind = Some kind,
      rd_reason = reason\<rparr>"

subsection \<open>The per-class circuit\<close>

record circuit_state =
  cs_failure_class :: failure_class
  cs_last_signature :: string
  cs_count :: int
  cs_open :: bool

definition new_circuit :: "failure_class \<Rightarrow> circuit_state" where
  "new_circuit fc = \<lparr>cs_failure_class = fc, cs_last_signature = [], cs_count = 0, cs_open = False\<rparr>"

definition circuit_transition ::
  "int \<Rightarrow> circuit_state \<Rightarrow> string \<Rightarrow> circuit_state \<times> recovery_decision option" where
  "circuit_transition threshold st sig =
     (if cs_open st then (st, None)
      else
        let count = (if sig = cs_last_signature st \<and> cs_last_signature st \<noteq> [] then cs_count st + 1 else 1);
            next = \<lparr>cs_failure_class = cs_failure_class st, cs_last_signature = sig, cs_count = count,
                    cs_open = False\<rparr>
        in if count \<ge> threshold \<and> threshold > 0
           then (next\<lparr>cs_open := True\<rparr>,
                 Some (halt (failure_class_halt (cs_failure_class st)) None
                   (failure_class_value (cs_failure_class st) @ '' circuit open after '' @ int_str count @
                    '' equivalent failures'')))
           else (next, None))"

subsection \<open>Retryable external errors\<close>

text \<open>\<^verbatim>\<open>isinstance(status_code, int) and 400 <= status_code < 500 and status_code != 408\<close>.\<close>

definition client_error_status :: "py_value \<Rightarrow> bool" where
  "client_error_status status \<longleftrightarrow>
     (case status of
        Plain v \<Rightarrow> (case as_int v of Some n \<Rightarrow> 400 \<le> n \<and> n < 500 \<and> n \<noteq> 408 | None \<Rightarrow> False)
      | _ \<Rightarrow> False)"

definition retryable_status :: "py_value \<Rightarrow> bool" where
  "retryable_status status \<longleftrightarrow>
     is_none status \<or>
     (case status of Plain v \<Rightarrow> list_ex (\<lambda>n. equals_int n v) [408, 500, 502, 503, 504] | _ \<Rightarrow> False)"

definition is_retryable_external_error :: "string \<Rightarrow> py_value \<Rightarrow> bool" where
  "is_retryable_external_error phase e \<longleftrightarrow>
     phase \<in> set EXTERNAL_RETRYABLE_PHASES \<and> \<not> is_none e \<and>
     (let kind = lower (text_attr e ''error_kind'');
          status = getattr e ''status_code'';
          code = lower (text_attr e ''provider_error_code'');
          layer = lower (text_attr e ''error_layer'');
          message = lower (text_attr e ''message'')
      in getattr e ''nonretryable'' \<noteq> Plain (JBool True) \<and>
         kind \<notin> set EXTERNAL_PERMANENT_ERROR_KINDS \<and>
         is_none (getattr e ''retry_after_s'') \<and>
         \<not> client_error_status status \<and>
         (layer \<in> set EXTERNAL_RETRYABLE_LAYERS \<or>
          kind \<in> {''stream_content_stall'', ''stalled_stream''} \<or>
          kind = ''network'' \<and>
            (code = ''timeout'' \<or> contains ''timeout'' message \<or> contains ''timed out'' message) \<and>
            retryable_status status))"

subsection \<open>Classification\<close>

record recovery_policy =
  max_context_retries :: int
  max_external_retries :: int
  max_blocked_retries :: int

definition default_policy :: recovery_policy where
  "default_policy =
     \<lparr>max_context_retries = DEFAULT_MAX_CONTEXT_RETRIES,
      max_external_retries = DEFAULT_MAX_EXTERNAL_RETRIES,
      max_blocked_retries = DEFAULT_MAX_BLOCKED_RETRIES\<rparr>"

text \<open>\<^verbatim>\<open>_read_exit_kind\<close>: the value of a known exit kind, whether the attribute is the member or its text.\<close>

definition read_exit_kind :: "py_value \<Rightarrow> string option" where
  "read_exit_kind error =
     (case str_value (getattr error ''exit_kind'') of
        Some v \<Rightarrow> if v \<in> set EXIT_KINDS then Some v else None
      | None \<Rightarrow> None)"

definition mentions_context_exhaustion :: "py_value \<Rightarrow> bool" where
  "mentions_context_exhaustion error \<longleftrightarrow>
     contains ''ran out of room in the model'' (lower (text_attr error ''message''))"

definition looks_external :: "py_value \<Rightarrow> bool" where
  "looks_external error \<longleftrightarrow>
     list_ex (\<lambda>attr. \<not> is_none (getattr error attr))
       [''error_kind'', ''error_layer'', ''provider_error_code'', ''status_code'', ''retry_after_s'']"

text \<open>\<^verbatim>\<open>getattr(error, "external_error", None) or error\<close>.\<close>

definition external_part :: "py_value \<Rightarrow> py_value" where
  "external_part error =
     (let e = getattr error ''external_error'' in if true_value e then e else error)"

record retry_usage =
  context_retries_used :: int
  external_retries_used :: int
  blocked_retries_used :: int

definition no_retries :: retry_usage where
  "no_retries = \<lparr>context_retries_used = 0, external_retries_used = 0, blocked_retries_used = 0\<rparr>"

text \<open>One budget: a retry while it lasts, a halt after.\<close>

definition within_budget :: "int \<Rightarrow> int \<Rightarrow> recovery_decision \<Rightarrow> recovery_decision \<Rightarrow> recovery_decision" where
  "within_budget used cap again stop = (if used < cap then again else stop)"

definition classify :: "recovery_policy \<Rightarrow> py_value \<Rightarrow> retry_usage \<Rightarrow> string \<Rightarrow> recovery_decision" where
  "classify pol error used phase =
     (let ek = read_exit_kind error; ext = external_part error in
      if ek = Some ''context_exhausted'' \<or> mentions_context_exhaustion error
      then within_budget (context_retries_used used) (max_context_retries pol)
             (retry Retry_Fresh Context_Budget ''context_exhausted'')
             (halt ''context_retry_exhausted'' (Some Context_Budget) ''context budget exhausted'')
      else if ek = Some ''external_error'' \<or> looks_external ext
      then (if is_retryable_external_error phase ext
            then within_budget (external_retries_used used) (max_external_retries pol)
                   (retry Retry_Transient External_Budget ''transient external'')
                   (halt ''external_retry_exhausted'' (Some External_Budget) ''external budget exhausted'')
            else halt ''permanent_external'' None ''permanent external error'')
      else if ek \<in> {Some ''blocked_by_quality'', Some ''blocked_by_prereq''}
      then within_budget (blocked_retries_used used) (max_blocked_retries pol)
             (retry Retry_Fresh Blocked_Budget ''blocked retry'')
             (halt ''blocked_retry_exhausted'' (Some Blocked_Budget) ''blocked budget exhausted'')
      else if ek \<in> {Some ''timeout'', Some ''internal_error''}
      then \<lparr>rd_action = Escalate, rd_budget_delta = 0, rd_budget_kind = None, rd_halt_kind = None,
            rd_reason = ''escalate '' @ (case ek of Some v \<Rightarrow> v | None \<Rightarrow> ''unknown'')\<rparr>
      else halt ''unclassified'' None ''unclassified error'')"

text \<open>The adapter: the keyword arguments of \<^verbatim>\<open>classify\<close> come from the metadata of a context, each with its
  default, and the decision is translated field by field.\<close>

record recovery_metadata =
  md_context_retries_used :: "int option"
  md_external_retries_used :: "int option"
  md_blocked_retries_used :: "int option"
  md_phase :: "string option"

record arnold_decision =
  ad_status :: string
  ad_action :: string
  ad_reason :: string
  ad_budget_consumed :: "(string \<times> json) list"

fun action_value :: "action \<Rightarrow> string" where
  "action_value Retry_Fresh = ''retry_fresh''"
| "action_value Retry_Transient = ''retry_transient''"
| "action_value Escalate = ''escalate''"
| "action_value Halt = ''halt''"

fun budget_value :: "budget \<Rightarrow> string" where
  "budget_value Context_Budget = ''context''"
| "budget_value External_Budget = ''external''"
| "budget_value Blocked_Budget = ''blocked''"

definition or_default :: "'a \<Rightarrow> 'a option \<Rightarrow> 'a" where
  "or_default d v = (case v of Some x \<Rightarrow> x | None \<Rightarrow> d)"

definition classify_arnold :: "recovery_policy \<Rightarrow> py_value \<Rightarrow> recovery_metadata \<Rightarrow> arnold_decision" where
  "classify_arnold pol error meta =
     (let d = classify pol error
            \<lparr>context_retries_used = or_default 0 (md_context_retries_used meta),
             external_retries_used = or_default 0 (md_external_retries_used meta),
             blocked_retries_used = or_default 0 (md_blocked_retries_used meta)\<rparr>
            (or_default [] (md_phase meta))
      in \<lparr>ad_status = ''decided'', ad_action = action_value (rd_action d), ad_reason = rd_reason d,
          ad_budget_consumed =
            opt_field ''budget_kind'' (JStr \<circ> budget_value) (rd_budget_kind d)
            @ (if rd_budget_delta d \<noteq> 0 then [(''budget_delta'', JInt (rd_budget_delta d))] else [])
            @ (case rd_halt_kind d of Some k \<Rightarrow> if k \<noteq> [] then [(''halt_kind'', JStr k)] else [] | None \<Rightarrow> [])\<rparr>)"

end
