(* ===== verification/Plan_Circuit.thy ===== *)
theory Plan_Circuit
  imports Recovery_Policy
begin

section \<open>The plan circuit\<close>

text \<open>
  \<^verbatim>\<open>orchestration/plan_circuit.py\<close> and the circuit helpers of \<^verbatim>\<open>execute/policy.py\<close>: a failure becomes a
  normalized signature, the circuit counts equal signatures and opens at a threshold, and the execute
  handler asks it before it dispatches. The occurrences are a dictionary, the open signatures a set
  whose iteration order is that of the list.
\<close>

subsection \<open>Signatures\<close>

record failure_signature =
  fs_failure_class :: string
  fs_task_id :: "string option"
  fs_batch_id :: "string option"
  fs_attempt_id :: "string option"
  fs_blocker_digest :: "string option"
  fs_provider :: "string option"
  fs_ref_metadata :: "string option"
  fs_fence :: "string option"

definition to_key :: "failure_signature \<Rightarrow> string list" where
  "to_key s = fs_failure_class s #
     map (or_default []) [fs_task_id s, fs_batch_id s, fs_attempt_id s, fs_blocker_digest s,
       fs_provider s, fs_ref_metadata s, fs_fence s]"

definition serialize_failure_signature :: "failure_signature \<Rightarrow> (string \<times> json) list" where
  "serialize_failure_signature s =
     [(''failure_class'', JStr (fs_failure_class s)),
      (''task_id'', opt_json JStr (fs_task_id s)),
      (''batch_id'', opt_json JStr (fs_batch_id s)),
      (''attempt_id'', opt_json JStr (fs_attempt_id s)),
      (''blocker_digest'', opt_json JStr (fs_blocker_digest s)),
      (''provider'', opt_json JStr (fs_provider s)),
      (''ref_metadata'', opt_json JStr (fs_ref_metadata s)),
      (''fence'', opt_json JStr (fs_fence s))]"

text \<open>\<^verbatim>\<open>_compute_blocker_digest\<close>. An object with a \<^verbatim>\<open>to_dict\<close> method carries its result as an attribute of
  that name.\<close>

definition blocker_digest :: "(string \<Rightarrow> string) \<Rightarrow> py_value \<Rightarrow> string option" where
  "blocker_digest sha blocker =
     (case blocker of
        Plain JNull \<Rightarrow> None
      | Plain (JObj kvs) \<Rightarrow> Some (sha (dumps (JObj kvs)))
      | _ \<Rightarrow>
          (case attribute blocker ''to_dict'' of
             Some (Plain v) \<Rightarrow> Some (sha (dumps v))
           | _ \<Rightarrow> Some (sha (value_text blocker))))"

text \<open>\<^verbatim>\<open>x and isinstance(x, str) and x not in ("", "unclassified")\<close>.\<close>

definition meaningful :: "py_value \<Rightarrow> string option" where
  "meaningful v =
     (case str_value v of
        Some s \<Rightarrow> if s \<noteq> [] \<and> s \<noteq> ''unclassified'' then Some s else None
      | None \<Rightarrow> None)"

text \<open>\<^verbatim>\<open>exit_kind.value if hasattr(exit_kind, "value") else str(exit_kind)\<close>.\<close>

definition exit_kind_text :: "py_value \<Rightarrow> string" where
  "exit_kind_text v =
     (case v of
        Enum_Member c w \<Rightarrow> w
      | Object c t attrs \<Rightarrow> (case map_of attrs ''value'' of Some w \<Rightarrow> value_text w | None \<Rightarrow> t)
      | Plain j \<Rightarrow> py_str j)"

definition class_of_exit_kind :: "py_value \<Rightarrow> string option" where
  "class_of_exit_kind error =
     (let ek = getattr error ''exit_kind''; text = exit_kind_text ek; ext = getattr error ''external_error''
      in if is_none ek \<or> text = [] \<or> text = ''unclassified'' then None
         else if text = ''external_error''
         then (if is_none ext then Some ''external_error''
               else case meaningful (getattr ext ''error_kind'') of
                 Some k \<Rightarrow> Some k | None \<Rightarrow> Some ''external_error'')
         else Some text)"

definition class_of_type :: "py_value \<Rightarrow> string" where
  "class_of_type error =
     (if type_name error \<in> {[], ''object'', ''SimpleNamespace'', ''dict'', ''list'', ''tuple''}
      then ''unclassified'' else type_name error)"

definition derive_failure_class :: "py_value \<Rightarrow> string" where
  "derive_failure_class error =
     (case meaningful (getattr error ''halt_kind'') of
        Some k \<Rightarrow> k
      | None \<Rightarrow>
         (case meaningful (getattr error ''error_kind'') of
            Some k \<Rightarrow> k
          | None \<Rightarrow>
             (case class_of_exit_kind error of
                Some k \<Rightarrow> k
              | None \<Rightarrow>
                 (case meaningful (getattr error ''code'') of
                    Some k \<Rightarrow> k
                  | None \<Rightarrow> class_of_type error))))"

text \<open>The scope a caller passes: the identity of the failure and an override of its class.\<close>

record failure_scope =
  sc_task_id :: "string option"
  sc_batch_id :: "string option"
  sc_attempt_id :: "string option"
  sc_blocker :: py_value
  sc_provider :: "string option"
  sc_ref_metadata :: "string option"
  sc_fence :: "string option"
  sc_failure_class :: "string option"

text \<open>The provider of an external error, when the caller names none.\<close>

definition external_provider :: "py_value \<Rightarrow> string option" where
  "external_provider error =
     (case str_value (getattr (getattr error ''external_error'') ''provider'') of
        Some p \<Rightarrow> if p \<noteq> [] then Some p else None
      | None \<Rightarrow> None)"

definition normalize_signature :: "(string \<Rightarrow> string) \<Rightarrow> py_value \<Rightarrow> failure_scope \<Rightarrow> failure_signature" where
  "normalize_signature sha error scope =
     \<lparr>fs_failure_class = (case sc_failure_class scope of Some c \<Rightarrow> c | None \<Rightarrow> derive_failure_class error),
      fs_task_id = sc_task_id scope,
      fs_batch_id = sc_batch_id scope,
      fs_attempt_id = sc_attempt_id scope,
      fs_blocker_digest = blocker_digest sha (sc_blocker scope),
      fs_provider = (case sc_provider scope of Some p \<Rightarrow> Some p | None \<Rightarrow> external_provider error),
      fs_ref_metadata = sc_ref_metadata scope,
      fs_fence = sc_fence scope\<rparr>"

subsection \<open>The circuit\<close>

datatype circuit_action = Allow_Retry | Open_Circuit | Circuit_Open

record circuit_decision =
  cd_action :: circuit_action
  cd_signature :: failure_signature
  cd_occurrence_count :: int
  cd_threshold :: int

definition decision_is_open :: "circuit_decision \<Rightarrow> bool" where
  "decision_is_open d \<longleftrightarrow> cd_action d \<in> {Open_Circuit, Circuit_Open}"

definition may_retry :: "circuit_decision \<Rightarrow> bool" where
  "may_retry d \<longleftrightarrow> cd_action d = Allow_Retry"

definition DEFAULT_CIRCUIT_THRESHOLD :: int where "DEFAULT_CIRCUIT_THRESHOLD = 2"

record plan_circuit =
  pc_threshold :: int
  pc_occurrences :: "(failure_signature \<times> int) list"
  pc_open :: "failure_signature list"

definition new_plan_circuit :: "int \<Rightarrow> plan_circuit" where
  "new_plan_circuit t = \<lparr>pc_threshold = t, pc_occurrences = [], pc_open = []\<rparr>"

definition occurrence_count :: "plan_circuit \<Rightarrow> failure_signature \<Rightarrow> int" where
  "occurrence_count c s = or_default 0 (map_of (pc_occurrences c) s)"

definition is_circuit_open :: "plan_circuit \<Rightarrow> failure_signature \<Rightarrow> bool" where
  "is_circuit_open c s \<longleftrightarrow> s \<in> set (pc_open c)"

definition decision_of :: "plan_circuit \<Rightarrow> failure_signature \<Rightarrow> circuit_action \<Rightarrow> int \<Rightarrow> circuit_decision" where
  "decision_of c s a n =
     \<lparr>cd_action = a, cd_signature = s, cd_occurrence_count = n, cd_threshold = pc_threshold c\<rparr>"

definition record_failure :: "plan_circuit \<Rightarrow> failure_signature \<Rightarrow> plan_circuit \<times> circuit_decision" where
  "record_failure c s =
     (if s \<in> set (pc_open c)
      then (c, decision_of c s Circuit_Open (or_default (pc_threshold c) (map_of (pc_occurrences c) s)))
      else
        let current = or_default 0 (map_of (pc_occurrences c) s) + 1;
            counted = c\<lparr>pc_occurrences := AList.update s current (pc_occurrences c)\<rparr>
        in if current \<ge> pc_threshold c
           then (counted\<lparr>pc_open := pc_open c @ [s]\<rparr>, decision_of c s Open_Circuit current)
           else (counted, decision_of c s Allow_Retry current))"

subsection \<open>The policy behind the circuit\<close>

definition circuit_open_reason :: "failure_signature \<Rightarrow> circuit_decision \<Rightarrow> string" where
  "circuit_open_reason s d =
     ''Circuit open for failure class '' @ [CHR 0x27] @ fs_failure_class s @ [CHR 0x27] @ '' (occurrence '' @
     int_str (cd_occurrence_count d) @ ''/'' @ int_str (cd_threshold d) @ '')''"

definition classify_with_circuit ::
  "(string \<Rightarrow> string) \<Rightarrow> recovery_policy \<Rightarrow> py_value \<Rightarrow> retry_usage \<Rightarrow> string \<Rightarrow> failure_scope \<Rightarrow>
   plan_circuit \<Rightarrow> plan_circuit \<times> recovery_decision" where
  "classify_with_circuit sha pol error used phase scope circuit =
     (let s = normalize_signature sha error (scope\<lparr>sc_failure_class := None\<rparr>);
          (circuit', d) = record_failure circuit s
      in (circuit',
          if decision_is_open d then halt ''circuit_open'' None (circuit_open_reason s d)
          else classify pol error used phase))"

subsection \<open>The circuit at dispatch\<close>

datatype dispatch_outcome = Dispatch_Proceed | Dispatch_Circuit_Open

record dispatch_decision =
  dd_outcome :: dispatch_outcome
  dd_open_signatures :: "(string \<times> json) list list"
  dd_reason :: string

text \<open>An open signature counts unless tasks are given and it names another task.\<close>

definition blocks_dispatch :: "string list \<Rightarrow> failure_signature \<Rightarrow> bool" where
  "blocks_dispatch tasks s \<longleftrightarrow>
     \<not> (tasks \<noteq> [] \<and> (case fs_task_id s of Some t \<Rightarrow> t \<notin> set tasks | None \<Rightarrow> False))"

definition task_of :: "(string \<times> json) list \<Rightarrow> string option" where
  "task_of s = nonempty_text (dget s ''task_id'' JNull)"

definition EM_DASH :: string where
  "EM_DASH = [CHR 0xE2, CHR 0x80, CHR 0x94]"

text \<open>No circuit at all is \<open>None\<close>.\<close>

definition evaluate_circuit_before_dispatch ::
  "plan_circuit option \<Rightarrow> string list \<Rightarrow> string option \<Rightarrow> dispatch_decision" where
  "evaluate_circuit_before_dispatch circuit tasks batch =
     (case circuit of
        None \<Rightarrow> \<lparr>dd_outcome = Dispatch_Proceed, dd_open_signatures = [],
                 dd_reason = ''No circuit instance provided '' @ EM_DASH @ '' dispatch allowed''\<rparr>
      | Some c \<Rightarrow>
          let sigs = map serialize_failure_signature (filter (blocks_dispatch tasks) (pc_open c))
          in if sigs = []
             then \<lparr>dd_outcome = Dispatch_Proceed, dd_open_signatures = [],
                   dd_reason = ''No open circuits for the pending task set''\<rparr>
             else
               let blocked = sorted_set (List.map_filter task_of sigs);
                   head = ''Circuit open for task(s) '' @ join '', '' blocked
               in \<lparr>dd_outcome = Dispatch_Circuit_Open, dd_open_signatures = sigs,
                   dd_reason = (case batch of
                       Some b \<Rightarrow> if b \<noteq> [] then ''Batch '' @ b @ '': '' @ head else head
                     | None \<Rightarrow> head)\<rparr>)"

datatype circuit_failure_outcome = Failure_Allow_Retry | Failure_Circuit_Open | Failure_Already_Open

record circuit_failure_decision =
  cf_outcome :: circuit_failure_outcome
  cf_signature :: "(string \<times> json) list"
  cf_occurrence_count :: int
  cf_threshold :: int
  cf_reason :: string

fun failure_outcome_of :: "circuit_action \<Rightarrow> circuit_failure_outcome" where
  "failure_outcome_of Allow_Retry = Failure_Allow_Retry"
| "failure_outcome_of Open_Circuit = Failure_Circuit_Open"
| "failure_outcome_of Circuit_Open = Failure_Already_Open"

definition evaluate_circuit_after_failure ::
  "(string \<Rightarrow> string) \<Rightarrow> plan_circuit option \<Rightarrow> py_value \<Rightarrow> failure_scope \<Rightarrow>
   plan_circuit option \<times> circuit_failure_decision" where
  "evaluate_circuit_after_failure sha circuit error scope =
     (case circuit of
        None \<Rightarrow> (None, \<lparr>cf_outcome = Failure_Allow_Retry, cf_signature = [], cf_occurrence_count = 0,
                        cf_threshold = 2,
                        cf_reason = ''No circuit instance provided '' @ EM_DASH @ '' retry allowed''\<rparr>)
      | Some c \<Rightarrow>
     let s = normalize_signature sha error scope;
          (c', d) = record_failure c s
      in (Some c',
          \<lparr>cf_outcome = failure_outcome_of (cd_action d),
           cf_signature = serialize_failure_signature s,
           cf_occurrence_count = cd_occurrence_count d,
           cf_threshold = cd_threshold d,
           cf_reason = ''Failure class '' @ [CHR 0x27] @ fs_failure_class s @ [CHR 0x27] @ '' (occurrence '' @
             int_str (cd_occurrence_count d) @ ''/'' @ int_str (cd_threshold d) @ '')''\<rparr>))"

text \<open>The projection: a later count for the same class and task overwrites an earlier one.\<close>

definition count_row :: "(string \<times> (string \<times> int) list) list \<Rightarrow> failure_signature \<times> int \<Rightarrow> (string \<times> (string \<times> int) list) list" where
  "count_row rows = (\<lambda>(s, n).
     let row = or_default [] (map_of rows (fs_failure_class s));
         task = (case fs_task_id s of Some t \<Rightarrow> if t \<noteq> [] then t else ''__plan__'' | None \<Rightarrow> ''__plan__'')
     in AList.update (fs_failure_class s) (AList.update task n row) rows)"

record circuit_projection =
  cp_threshold :: int
  cp_open_signatures :: "(string \<times> json) list list"
  cp_occurrence_counts :: "(string \<times> (string \<times> int) list) list"
  cp_total_open :: int

definition build_circuit_evidence_projection :: "plan_circuit option \<Rightarrow> circuit_projection" where
  "build_circuit_evidence_projection circuit =
     (case circuit of
        None \<Rightarrow> \<lparr>cp_threshold = 2, cp_open_signatures = [], cp_occurrence_counts = [], cp_total_open = 0\<rparr>
      | Some c \<Rightarrow>
          \<lparr>cp_threshold = pc_threshold c,
           cp_open_signatures = map serialize_failure_signature (pc_open c),
           cp_occurrence_counts = foldl count_row [] (pc_occurrences c),
           cp_total_open = int (length (pc_open c))\<rparr>)"

subsection \<open>The execute handler's use\<close>

text \<open>The handler makes a circuit for the call, asks it about the pending tasks, and after a blocked
  response records every blocked task in it; the circuit ends with the call.\<close>

record execute_call =
  xc_pending :: "string list"
  xc_batch :: "string option"
  xc_attempt :: "string option"
  xc_provider :: "string option"
  xc_ref :: "string option"
  xc_blocked :: "string list"

definition handler_dispatch :: "execute_call \<Rightarrow> dispatch_decision" where
  "handler_dispatch x =
     evaluate_circuit_before_dispatch (Some (new_plan_circuit DEFAULT_CIRCUIT_THRESHOLD)) (xc_pending x) (xc_batch x)"

definition blocked_scope :: "execute_call \<Rightarrow> string \<Rightarrow> failure_scope" where
  "blocked_scope x task =
     \<lparr>sc_task_id = Some task,
      sc_batch_id = Some (or_default ''None'' (xc_batch x)),
      sc_attempt_id = xc_attempt x,
      sc_blocker = Plain (JObj [(''kind'', JStr ''blocked_by_prereq''), (''task_id'', JStr task)]),
      sc_provider = xc_provider x,
      sc_ref_metadata = xc_ref x,
      sc_fence = None,
      sc_failure_class = Some ''blocked_by_prereq''\<rparr>"

definition handler_record :: "(string \<Rightarrow> string) \<Rightarrow> execute_call \<Rightarrow> plan_circuit option" where
  "handler_record sha x =
     foldl (\<lambda>c task. fst (evaluate_circuit_after_failure sha c (Plain JNull) (blocked_scope x task)))
       (Some (new_plan_circuit DEFAULT_CIRCUIT_THRESHOLD)) (xc_blocked x)"

end
