(* ===== verification/Auto_Retry.thy ===== *)
theory Auto_Retry
  imports Plan_Circuit
begin

section \<open>The driver's retry loops\<close>

text \<open>
  The part of \<^verbatim>\<open>auto.py\<close> that runs a phase again: after the worker ran out of context, and after a
  transient external failure. Both ask the recovery policy and advance the circuit of the failure's
  class. The worker is a parameter, the result its \<open>k\<close>-th run leaves; so are the digest of a signature
  and the text of objects. Logging, event emission and the recorded failure are left out.
\<close>

record retry_state =
  rt_result :: "phase_result option"
  rt_context_retries :: int
  rt_external_by_phase :: "(string \<times> int) list"
  rt_external_retries :: int
  rt_circuits :: "(string \<times> circuit_state) list"
  rt_runs :: nat

subsection \<open>Advancing a circuit\<close>

definition circuit_key :: "failure_class \<Rightarrow> string \<Rightarrow> string" where
  "circuit_key fc task_id =
     (if task_id \<noteq> [] then failure_class_value fc @ '':'' @ task_id else failure_class_value fc)"

definition advance_circuit ::
  "(string \<Rightarrow> string) \<Rightarrow> (string \<times> circuit_state) list \<Rightarrow> py_value \<Rightarrow> string \<Rightarrow> string \<Rightarrow>
   (string \<times> circuit_state) list \<times> circuit_state \<times> recovery_decision option" where
  "advance_circuit sha circuits error task_id attempt_id =
     (let fc = classify_failure_class error;
          sig = normalize_failure_signature sha fc error task_id attempt_id;
          key = circuit_key fc task_id;
          current = or_default (new_circuit fc) (map_of circuits key);
          (next, decision) = circuit_transition CIRCUIT_OPEN_THRESHOLD current sig
      in (AList.update key next circuits, next, decision))"

definition halts :: "recovery_decision option \<Rightarrow> bool" where
  "halts d \<longleftrightarrow> (case d of Some x \<Rightarrow> rd_action x = Halt | None \<Rightarrow> False)"

subsection \<open>Running out of context\<close>

datatype retry_exit = Loop_Done | Retry_Cap_Reached | Retry_Circuit_Open

definition context_policy :: "int \<Rightarrow> recovery_policy" where
  "context_policy cap = default_policy\<lparr>max_context_retries := cap\<rparr>"

definition external_policy :: "int \<Rightarrow> recovery_policy" where
  "external_policy cap = default_policy\<lparr>max_external_retries := cap\<rparr>"

definition context_decision :: "renderer \<Rightarrow> int \<Rightarrow> int \<Rightarrow> phase_result \<Rightarrow> recovery_decision" where
  "context_decision R cap used r =
     classify (context_policy cap) (phase_result_value R r) (no_retries\<lparr>context_retries_used := used\<rparr>) ''execute''"

lemma context_decision_exhausted:
  assumes "pr_exit_kind r = ''context_exhausted''"
  shows "context_decision R cap used r =
    (if used < cap then retry Retry_Fresh Context_Budget ''context_exhausted''
     else halt ''context_retry_exhausted'' (Some Context_Budget) ''context budget exhausted'')"
  using assms
  by (simp add: context_decision_def classify_def read_exit_kind_def phase_result_value_def
      EXIT_KINDS_def within_budget_def context_policy_def no_retries_def)

function context_loop ::
  "(string \<Rightarrow> string) \<Rightarrow> renderer \<Rightarrow> int \<Rightarrow> (nat \<Rightarrow> phase_result option) \<Rightarrow> retry_state \<Rightarrow>
   retry_exit \<times> retry_state" where
  "context_loop sha R cap run st =
     (case rt_result st of
        None \<Rightarrow> (Loop_Done, st)
      | Some r \<Rightarrow>
          if pr_exit_kind r \<noteq> ''context_exhausted'' then (Loop_Done, st)
          else
            let d = context_decision R cap (rt_context_retries st) r;
                (circuits, cs, cd) = advance_circuit sha (rt_circuits st) (phase_result_value R r) [] [];
                st' = st\<lparr>rt_circuits := circuits\<rparr>
            in if halts cd then (Retry_Circuit_Open, st')
               else if rd_action d = Halt then (Retry_Cap_Reached, st')
               else context_loop sha R cap run
                      (st'\<lparr>rt_context_retries := rt_context_retries st + rd_budget_delta d,
                           rt_result := run (rt_runs st), rt_runs := Suc (rt_runs st)\<rparr>))"
  by pat_completeness auto
termination
proof (relation "measure (\<lambda>(sha, R, cap, run, st). nat (cap - rt_context_retries st))", simp)
  fix sha R cap run and st :: retry_state and r d pair circuits pair' cs cd st'
  assume *: "\<not> pr_exit_kind r \<noteq> ''context_exhausted''"
    "d = context_decision R cap (rt_context_retries st) r" "rd_action d \<noteq> Halt"
    "st' = st\<lparr>rt_circuits := circuits\<rparr>"
  then have "rt_context_retries st < cap \<and> rd_budget_delta d = 1"
    by (auto simp: context_decision_exhausted halt_def retry_def split: if_splits)
  with * show "((sha, R, cap, run,
      st'\<lparr>rt_context_retries := rt_context_retries st + rd_budget_delta d,
          rt_result := run (rt_runs st), rt_runs := Suc (rt_runs st)\<rparr>), (sha, R, cap, run, st))
      \<in> measure (\<lambda>(sha, R, cap, run, st). nat (cap - rt_context_retries st))"
    by simp
qed

declare context_loop.simps [simp del]

definition context_retries ::
  "(string \<Rightarrow> string) \<Rightarrow> renderer \<Rightarrow> int \<Rightarrow> string \<Rightarrow> (nat \<Rightarrow> phase_result option) \<Rightarrow> retry_state \<Rightarrow>
   retry_exit \<times> retry_state" where
  "context_retries sha R cap next_step run st =
     (if cap > 0 \<and> next_step = ''execute'' then context_loop sha R cap run st else (Loop_Done, st))"

subsection \<open>Transient external failures\<close>

definition external_decision ::
  "renderer \<Rightarrow> int \<Rightarrow> int \<Rightarrow> string \<Rightarrow> phase_result \<Rightarrow> recovery_decision" where
  "external_decision R cap used next_step r =
     classify (external_policy cap) (phase_result_value R r) (no_retries\<lparr>external_retries_used := used\<rparr>) next_step"

text \<open>The external error of a result, \<^verbatim>\<open>None\<close> when it carries none.\<close>

definition carried_error :: "renderer \<Rightarrow> phase_result \<Rightarrow> py_value" where
  "carried_error R r =
     (case pr_external_error r of Some e \<Rightarrow> external_error_value R e | None \<Rightarrow> Plain JNull)"

lemma external_part_result [simp]:
  "external_part (phase_result_value R r) =
     (case pr_external_error r of Some e \<Rightarrow> external_error_value R e | None \<Rightarrow> phase_result_value R r)"
  by (simp add: external_part_def phase_result_value_def external_error_value_def split: option.split)

lemma not_context_result:
  assumes "pr_exit_kind r = ''external_error''"
  shows "\<not> (read_exit_kind (phase_result_value R r) = Some ''context_exhausted'' \<or>
            mentions_context_exhaustion (phase_result_value R r))"
  using assms
  by (simp add: read_exit_kind_def phase_result_value_def EXIT_KINDS_def mentions_context_exhaustion_def
      text_attr_def Let_def lower_def)

lemma external_decision_cases:
  assumes "pr_exit_kind r = ''external_error''"
  shows "external_decision R cap used next_step r =
    (if is_retryable_external_error next_step (external_part (phase_result_value R r))
     then if used < cap then retry Retry_Transient External_Budget ''transient external''
          else halt ''external_retry_exhausted'' (Some External_Budget) ''external budget exhausted''
     else halt ''permanent_external'' None ''permanent external error'')"
proof -
  have "read_exit_kind (phase_result_value R r) = Some ''external_error''"
    using assms by (simp add: read_exit_kind_def phase_result_value_def EXIT_KINDS_def)
  moreover note not_context_result [OF assms, of R]
  ultimately show ?thesis
    by (simp add: external_decision_def classify_def within_budget_def external_policy_def no_retries_def
        del: external_part_result)
qed

function external_loop ::
  "(string \<Rightarrow> string) \<Rightarrow> renderer \<Rightarrow> int \<Rightarrow> string \<Rightarrow> (nat \<Rightarrow> phase_result option) \<Rightarrow> retry_state \<Rightarrow>
   retry_state" where
  "external_loop sha R cap next_step run st =
     (case rt_result st of
        None \<Rightarrow> st
      | Some r \<Rightarrow>
          let used = or_default 0 (map_of (rt_external_by_phase st) next_step);
              d = external_decision R cap used next_step r;
              ext = carried_error R r
          in if \<not> (cap > 0 \<and> pr_exit_kind r = ''external_error'') then st
             else if rd_action d \<noteq> Retry_Transient then st
             else if \<not> is_retryable_external_error next_step ext then st
             else
               let (circuits, cs, cd) =
                     advance_circuit sha (rt_circuits st) (if true_value ext then ext else phase_result_value R r) [] [];
                   st' = st\<lparr>rt_circuits := circuits\<rparr>
               in if halts cd then st'
                  else external_loop sha R cap next_step run
                         (st'\<lparr>rt_external_by_phase := AList.update next_step (used + 1) (rt_external_by_phase st),
                              rt_external_retries := rt_external_retries st + 1,
                              rt_result := run (rt_runs st), rt_runs := Suc (rt_runs st)\<rparr>))"
  by pat_completeness auto
termination
proof (relation "measure (\<lambda>(sha, R, cap, next_step, run, st).
    nat (cap - or_default 0 (map_of (rt_external_by_phase st) next_step)))", simp)
  fix sha :: "string \<Rightarrow> string" and R cap and next_step :: string and run and st :: retry_state
    and r used d ext pair circuits pair' and cs :: circuit_state and cd st'
  assume *: "\<not> \<not> (cap > 0 \<and> pr_exit_kind r = ''external_error'')"
    "d = external_decision R cap used next_step r" "\<not> rd_action d \<noteq> Retry_Transient"
    "used = or_default 0 (map_of (rt_external_by_phase st) next_step)"
  then have "used < cap"
    by (auto simp: external_decision_cases halt_def simp del: external_part_result split: if_splits)
  with * show "((sha, R, cap, next_step, run,
      st'\<lparr>rt_external_by_phase := AList.update next_step (used + 1) (rt_external_by_phase st),
          rt_external_retries := rt_external_retries st + 1,
          rt_result := run (rt_runs st), rt_runs := Suc (rt_runs st)\<rparr>), (sha, R, cap, next_step, run, st))
      \<in> measure (\<lambda>(sha, R, cap, next_step, run, st).
          nat (cap - or_default 0 (map_of (rt_external_by_phase st) next_step)))"
    by (simp add: update_conv or_default_def)
qed

declare external_loop.simps [simp del]

text \<open>One pass of the driver over a phase it just ran: the first loop may end the drive.\<close>

definition retry_pass ::
  "(string \<Rightarrow> string) \<Rightarrow> renderer \<Rightarrow> int \<Rightarrow> int \<Rightarrow> string \<Rightarrow> (nat \<Rightarrow> phase_result option) \<Rightarrow> retry_state \<Rightarrow>
   retry_exit \<times> retry_state" where
  "retry_pass sha R context_cap external_cap next_step run st =
     (case context_retries sha R context_cap next_step run st of
        (Loop_Done, st') \<Rightarrow> (Loop_Done, external_loop sha R external_cap next_step run st')
      | other \<Rightarrow> other)"

end
