(* ===== verification/Phase_Facts.thy ===== *)
theory Phase_Facts
  imports Phase_Result
begin

section \<open>Facts about phase results\<close>

text \<open>
  Round trips of the parts and of the record, what the validation accepts, and what the emission, the
  guard and the reader do with the file.
\<close>

subsection \<open>Dictionary forms\<close>

lemma dget_append: "dget (a @ b) k w = (case map_of a k of Some v \<Rightarrow> v | None \<Rightarrow> dget b k w)"
  by (simp add: dget_def map_add_def split: option.split)

lemma dget_opt_field [simp]:
  "dget (opt_field k f v @ d) k' w =
     (if k' = k then (case v of Some x \<Rightarrow> f x | None \<Rightarrow> dget d k' w) else dget d k' w)"
  "dget (opt_field k f v) k' w =
     (if k' = k then (case v of Some x \<Rightarrow> f x | None \<Rightarrow> w) else w)"
  by (auto simp: opt_field_def dget_append dget_Cons split: option.splits)

lemma dget_raw_field [simp]:
  "dget (raw_field k v @ d) k' w =
     (if k' = k \<and> v \<noteq> JNull then v else dget d k' w)"
  "dget (raw_field k v) k' w = (if k' = k \<and> v \<noteq> JNull then v else w)"
  by (auto simp: raw_field_def dget_append dget_Cons split: option.splits)

lemma read_opt_case:
  "read_opt f d k = (case dget d k JNull of JNull \<Rightarrow> Inr None | v \<Rightarrow> res_bind (f v) (\<lambda>x. Inr (Some x)))"
  by (simp add: read_opt_def Let_def split: json.split)

lemma read_str_case:
  "read_str d k = (case dget d k JNull of JNull \<Rightarrow> None | v \<Rightarrow> Some (py_str v))"
  by (simp add: read_str_def Let_def split: json.split)

lemma map_filter_as_str [simp]: "List.map_filter as_str (map JStr xs) = xs"
  by (induction xs) (simp_all add: List.map_filter_simps)

lemma blocked_task_roundtrip [simp]: "blocked_task_from_dict (blocked_task_to_dict b) = Inr b"
  by (cases b)
    (auto simp: blocked_task_from_dict_def blocked_task_to_dict_def required_str_def dget_Cons
      read_str_case Let_def split: option.split)

lemma deviation_roundtrip [simp]: "deviation_from_dict (deviation_to_dict x) = Inr x"
  by (cases x)
    (auto simp: deviation_from_dict_def deviation_to_dict_def required_str_def dget_Cons Let_def)

text \<open>Reading back a field that \<open>opt_field\<close> wrote.\<close>

lemma read_opt_roundtrip:
  "dget d k JNull = opt_json g v \<Longrightarrow> (\<And>x. f (g x) = Inr x) \<Longrightarrow> (\<And>x. g x \<noteq> JNull) \<Longrightarrow> read_opt f d k = Inr v"
  by (cases v) (simp_all add: read_opt_def)

lemma read_str_roundtrip: "dget d k JNull = opt_json JStr v \<Longrightarrow> read_str d k = v"
  by (cases v) (simp_all add: read_str_def)

lemma read_bool_roundtrip: "dget d k JNull = opt_json JBool v \<Longrightarrow> read_bool d k = v"
  by (cases v) (simp_all add: read_bool_def)

lemma opt_json_case: "(case v of Some x \<Rightarrow> f x | None \<Rightarrow> JNull) = opt_json f v"
  by (cases v) simp_all

lemma external_error_get:
  "dget (external_error_fields e) ''provider'' w = JStr (ee_provider e)"
  "map_of (external_error_fields e) ''error_kind'' = Some (JStr (ee_error_kind e))"
  "dget (external_error_fields e) ''error_kind'' w = JStr (ee_error_kind e)"
  "dget (external_error_fields e) ''message'' w = JStr (ee_message e)"
  by (simp_all add: external_error_fields_def dget_Cons)

lemma external_error_get_opt:
  "dget (external_error_fields e) ''status_code'' JNull = opt_json JInt (ee_status_code e)"
  "dget (external_error_fields e) ''retry_after_s'' JNull = opt_json JFloat (ee_retry_after_s e)"
  "dget (external_error_fields e) ''request_id'' JNull = opt_json JStr (ee_request_id e)"
  "dget (external_error_fields e) ''provider_error_code'' JNull = opt_json JStr (ee_provider_error_code e)"
  "dget (external_error_fields e) ''error_layer'' JNull = opt_json JStr (ee_error_layer e)"
  "dget (external_error_fields e) ''source'' JNull = opt_json JStr (ee_source e)"
  "dget (external_error_fields e) ''stall_timeout_s'' JNull = opt_json JFloat (ee_stall_timeout_s e)"
  "dget (external_error_fields e) ''elapsed_s'' JNull = opt_json JFloat (ee_elapsed_s e)"
  "dget (external_error_fields e) ''content_chunk_count'' JNull = opt_json JInt (ee_content_chunk_count e)"
  "dget (external_error_fields e) ''reasoning_chunk_count'' JNull = opt_json JInt (ee_reasoning_chunk_count e)"
  "dget (external_error_fields e) ''deterministic'' JNull = opt_json JBool (ee_deterministic e)"
  "dget (external_error_fields e) ''nonretryable'' JNull = opt_json JBool (ee_nonretryable e)"
  "dget (external_error_fields e) ''failure_fingerprint'' JNull = opt_json JStr (ee_failure_fingerprint e)"
  by (simp_all add: external_error_fields_def dget_Cons split: option.split)

lemma external_error_roundtrip:
  assumes "ee_provider e \<noteq> []"
  shows "external_error_from_dict None (external_error_fields e) = Inr e"
proof -
  note ints = external_error_get_opt(1,9,10) [THEN read_opt_roundtrip [where f = py_int]]
  note floats = external_error_get_opt(2,7,8) [THEN read_opt_roundtrip [where f = py_float]]
  note strings = external_error_get_opt(3-6,13) [THEN read_str_roundtrip]
  note bools = external_error_get_opt(11,12) [THEN read_bool_roundtrip]
  show ?thesis
    using assms
    by (simp add: external_error_from_dict_def required_str_def external_error_get ints floats strings
        bools read_provider_def Let_def)
qed

lemma res_map_roundtrip: "(\<And>x. f (g x) = Inr x) \<Longrightarrow> res_map f (map g xs) = Inr xs"
  by (induction xs) simp_all

text \<open>A record whose dictionary form keeps all it holds: an external error names its provider, and the
  record is of the current schema.\<close>

definition current_record :: "phase_result \<Rightarrow> bool" where
  "current_record r \<longleftrightarrow>
     (case pr_external_error r of Some e \<Rightarrow> ee_provider e \<noteq> [] | None \<Rightarrow> True) \<and>
     pr_schema r = PHASE_RESULT_SCHEMA \<and> pr_schema_version r = PHASE_RESULT_SCHEMA_VERSION \<and>
     pr_contract_version r = PHASE_RESULT_CONTRACT_VERSION"

lemma read_external_error_opt:
  "(case e of Some x \<Rightarrow> ee_provider x \<noteq> [] | None \<Rightarrow> True) \<Longrightarrow>
   read_external_error (opt_json external_error_to_dict e) = Inr e"
  by (cases e) (simp_all add: read_external_error_def external_error_to_dict_def external_error_roundtrip)

lemma phase_result_roundtrip:
  assumes "current_record r"
  shows "phase_result_from_dict (phase_result_fields r) = mk_phase_result r"
  using assms
  by (cases r)
    (simp add: phase_result_from_dict_def phase_result_fields_def required_str_def dget_Cons
      res_map_roundtrip current_record_def read_external_error_opt optional_int_def
      PHASE_RESULT_SCHEMA_VERSION_def PHASE_RESULT_CONTRACT_VERSION_def)

subsection \<open>What validation accepts\<close>

lemma ensure_False_bind [simp]: "res_bind (ensure c e) (\<lambda>_. f) = (if c then f else Inl e)"
  by (simp add: ensure_def)

lemma check_each_Inr [simp]: "check_each f xs = Inr u \<longleftrightarrow> (\<forall>x\<in>set xs. f x = Inr ())"
  by (induction xs) (auto simp: check_each_def)

lemma dget_fields [simp]:
  "dget (phase_result_fields r) ''schema'' w = JStr PHASE_RESULT_SCHEMA"
  "dget (phase_result_fields r) ''schema_version'' w = JInt PHASE_RESULT_SCHEMA_VERSION"
  "dget (phase_result_fields r) ''phase_result_contract_version'' w = JInt PHASE_RESULT_CONTRACT_VERSION"
  "dget (phase_result_fields r) ''phase'' w = JStr (pr_phase r)"
  "dget (phase_result_fields r) ''invocation_id'' w = JStr (pr_invocation_id r)"
  "dget (phase_result_fields r) ''exit_kind'' w = JStr (pr_exit_kind r)"
  "dget (phase_result_fields r) ''blocked_tasks'' w = JArr (map blocked_task_to_dict (pr_blocked_tasks r))"
  "dget (phase_result_fields r) ''deviations'' w = JArr (map deviation_to_dict (pr_deviations r))"
  "dget (phase_result_fields r) ''artifacts_written'' w = JArr (pr_artifacts_written r)"
  "dget (phase_result_fields r) ''cli_provenance'' w = JObj (pr_cli_provenance r)"
  "dget (phase_result_fields r) ''external_error'' w = opt_json external_error_to_dict (pr_external_error r)"
  by (simp_all add: phase_result_fields_def dget_Cons)

lemma fst_opt_field [simp]: "k' \<in> set (map fst (opt_field k f v)) \<longleftrightarrow> k' = k \<and> v \<noteq> None"
  by (cases v) (auto simp: opt_field_def)

definition external_error_ok :: "(string \<times> json) list \<Rightarrow> bool" where
  "external_error_ok e \<longleftrightarrow>
     (\<forall>k\<in>set [''provider'', ''error_kind'', ''message'']. is_str (dget e k JNull)) \<and>
     (\<forall>k\<in>set [''deterministic'', ''nonretryable'']. k \<in> set (map fst e) \<longrightarrow> is_bool (dget e k JNull)) \<and>
     (''failure_fingerprint'' \<in> set (map fst e) \<longrightarrow> is_str (dget e ''failure_fingerprint'' JNull))"

lemma check_external_error_Inr:
  "check_external_error d = Inr u \<longleftrightarrow>
     (case dget d ''external_error'' JNull of JNull \<Rightarrow> True | JObj e \<Rightarrow> external_error_ok e | _ \<Rightarrow> False)"
  by (cases "dget d ''external_error'' JNull")
    (simp_all add: check_external_error_def external_error_ok_def)

lemma field_keys:
  "''deterministic'' \<in> set (map fst (external_error_fields e)) \<longleftrightarrow> ee_deterministic e \<noteq> None"
  "''nonretryable'' \<in> set (map fst (external_error_fields e)) \<longleftrightarrow> ee_nonretryable e \<noteq> None"
  "''failure_fingerprint'' \<in> set (map fst (external_error_fields e)) \<longleftrightarrow> ee_failure_fingerprint e \<noteq> None"
  by (simp_all only: external_error_fields_def map_append set_append Un_iff fst_opt_field) simp_all

lemma external_error_fields_ok: "external_error_ok (external_error_fields e)"
proof -
  let ?d = "external_error_fields e"
  have "is_bool (dget ?d ''deterministic'' JNull)" if "ee_deterministic e \<noteq> None"
    using that by (auto simp: external_error_get_opt is_bool_def)
  moreover have "is_bool (dget ?d ''nonretryable'' JNull)" if "ee_nonretryable e \<noteq> None"
    using that by (auto simp: external_error_get_opt is_bool_def)
  moreover have "is_str (dget ?d ''failure_fingerprint'' JNull)" if "ee_failure_fingerprint e \<noteq> None"
    using that by (auto simp: external_error_get_opt is_str_def)
  moreover have "is_str (dget ?d ''provider'' JNull)" "is_str (dget ?d ''error_kind'' JNull)"
    "is_str (dget ?d ''message'' JNull)"
    by (simp_all add: external_error_get is_str_def)
  ultimately show ?thesis
    unfolding external_error_ok_def field_keys by (simp only: set_simps ball_simps field_keys) blast
qed

lemma external_error_checked: "check_external_error (phase_result_fields r) = Inr ()"
  by (cases "pr_external_error r")
    (simp_all add: check_external_error_Inr external_error_to_dict_def external_error_fields_ok)

text \<open>The current payload of a record passes the write-side validation exactly for a named phase and
  invocation, an exit kind of the enumeration, string artifacts and a task for a missing prerequisite.\<close>

definition writable :: "phase_result \<Rightarrow> bool" where
  "writable r \<longleftrightarrow> pr_exit_kind r \<in> set EXIT_KINDS \<and> pr_phase r \<noteq> [] \<and> pr_invocation_id r \<noteq> [] \<and>
     list_all is_str (pr_artifacts_written r) \<and>
     (pr_exit_kind r = ''blocked_by_prereq'' \<longrightarrow> pr_blocked_tasks r \<noteq> [])"

lemma field_names: "map fst (phase_result_fields r) = REQUIRED_FIELDS @ [''external_error'']"
  by (simp add: phase_result_fields_def REQUIRED_FIELDS_def)

lemma required_present: "check_required current (phase_result_fields r) = Inr ()"
proof -
  have "filter (\<lambda>k. k \<notin> set (map fst (phase_result_fields r))) ks = []" if "set ks \<subseteq> set REQUIRED_FIELDS" for ks
    using that unfolding field_names by (auto simp: filter_empty_conv)
  then show ?thesis by (simp add: check_required_def Let_def sorted_set_def)
qed

lemma versions_current: "check_versions (phase_result_fields r) = Inr ()"
  by (simp add: check_versions_def)

lemma blocked_tasks_checked:
  "check_blocked_tasks (phase_result_fields r) = Inr u \<longleftrightarrow>
     (pr_exit_kind r = ''blocked_by_prereq'' \<longrightarrow> pr_blocked_tasks r \<noteq> [])"
  by (auto simp: check_blocked_tasks_def in_set_enumerate_eq check_blocked_task_def
      blocked_task_to_dict_def)

lemma deviations_checked: "check_deviations (phase_result_fields r) = Inr ()"
  by (auto simp: check_deviations_def in_set_enumerate_eq check_deviation_def deviation_to_dict_def)

lemma validate_current_iff:
  "validate_structure current (phase_result_to_dict r) = Inr u \<longleftrightarrow> writable r"
proof -
  have "check_exit_kind (phase_result_fields r) = Inr v \<longleftrightarrow> pr_exit_kind r \<in> set EXIT_KINDS" for v
    by (simp add: check_exit_kind_def)
  moreover have "check_text (phase_result_fields r) ''phase'' = Inr v \<longleftrightarrow> pr_phase r \<noteq> []" for v
    by (simp add: check_text_def is_str_def)
  moreover have "check_text (phase_result_fields r) ''invocation_id'' = Inr v \<longleftrightarrow> pr_invocation_id r \<noteq> []" for v
    by (simp add: check_text_def is_str_def)
  moreover have "check_containers (phase_result_fields r) = Inr v \<longleftrightarrow> list_all is_str (pr_artifacts_written r)" for v
    by (simp add: check_containers_def)
  ultimately show ?thesis
    by (auto simp: validate_structure_def phase_result_to_dict_def required_present versions_current
        external_error_checked blocked_tasks_checked deviations_checked writable_def)
qed

lemma write_phase_result_Inr:
  "write_phase_result r file = Inr f \<longleftrightarrow> writable r \<and> f = Some (phase_result_to_dict r)"
  by (auto simp: write_phase_result_def Let_def validate_phase_result_current_def validate_current_iff)

lemma read_written:
  assumes "writable r" "current_record r"
  shows "read_phase_result (Some (phase_result_to_dict r)) = Inr (Some r)"
proof -
  have "validate_phase_result (phase_result_to_dict r) = Inr ()"
    using assms(1) by (simp add: validate_phase_result_def validate_current_iff)
  moreover have "mk_phase_result r = Inr r"
    using assms(1) by (auto simp: mk_phase_result_def writable_def)
  ultimately show ?thesis
    using phase_result_roundtrip [OF assms(2)]
    by (simp add: read_phase_result_def phase_result_to_dict_def)
qed

subsection \<open>Emission, reading and the guard\<close>

definition emitted ::
  "string \<Rightarrow> string \<Rightarrow> string \<Rightarrow> blocked_task list \<Rightarrow> deviation list \<Rightarrow> string list \<Rightarrow>
   (string \<times> json) list \<Rightarrow> external_error option \<Rightarrow> phase_result" where
  "emitted phase invocation exit_kind blocked deviations artifacts provenance ext =
     \<lparr>pr_phase = phase, pr_invocation_id = invocation, pr_exit_kind = exit_kind,
      pr_blocked_tasks = blocked, pr_deviations = deviations,
      pr_artifacts_written = map JStr artifacts, pr_cli_provenance = provenance,
      pr_external_error = ext, pr_schema = PHASE_RESULT_SCHEMA,
      pr_schema_version = PHASE_RESULT_SCHEMA_VERSION,
      pr_contract_version = PHASE_RESULT_CONTRACT_VERSION\<rparr>"

lemma writable_emitted:
  "writable (emitted phase i ek bts dvs arts prov ext) \<longleftrightarrow>
     ek \<in> set EXIT_KINDS \<and> phase \<noteq> [] \<and> i \<noteq> [] \<and> (ek = ''blocked_by_prereq'' \<longrightarrow> bts \<noteq> [])"
  by (auto simp: writable_def emitted_def list_all_iff is_str_def)

lemma current_emitted:
  "(\<And>e. ext = Some e \<Longrightarrow> ee_provider e \<noteq> []) \<Longrightarrow>
   current_record (emitted phase i ek bts dvs arts prov ext)"
  by (simp add: current_record_def emitted_def split: option.split)

lemma mk_emitted:
  "mk_phase_result (emitted phase i ek bts dvs arts prov ext) =
     (if ek = ''blocked_by_prereq'' \<and> bts = [] then Inl (Py ValueError)
      else Inr (emitted phase i ek bts dvs arts prov ext))"
  by (simp add: mk_phase_result_def emitted_def)

lemma emit_Inr:
  assumes "current_invocation state = Inr (JStr i)" "i \<noteq> []"
  shows "emit_phase_result phase state ek bts dvs arts prov ext file = Inr f \<longleftrightarrow>
    (let r = emitted phase i ek bts dvs arts prov ext in writable r \<and> f = Some (phase_result_to_dict r))"
  using assms
  by (auto simp: emit_phase_result_def emitted_def [symmetric] mk_emitted write_phase_result_Inr
      writable_emitted Let_def)

text \<open>C16. What a handler emits for a started phase is written, is accepted by the reader and decodes to the
  record that was emitted; the write never fails for a known exit kind and a named phase.
\<close>

theorem emission_reads_back:
  assumes "current_invocation state = Inr (JStr i)" "i \<noteq> []"
    and "\<And>e. ext = Some e \<Longrightarrow> ee_provider e \<noteq> []"
    and "ek \<in> set EXIT_KINDS" "phase \<noteq> []" "ek = ''blocked_by_prereq'' \<Longrightarrow> bts \<noteq> []"
  shows "res_bind (emit_phase_result phase state ek bts dvs arts prov ext file) read_phase_result =
     Inr (Some (emitted phase i ek bts dvs arts prov ext))"
proof -
  let ?r = "emitted phase i ek bts dvs arts prov ext"
  have w: "writable ?r" using assms(2,4-6) by (simp add: writable_emitted)
  then have "emit_phase_result phase state ek bts dvs arts prov ext file = Inr (Some (phase_result_to_dict ?r))"
    by (simp add: emit_Inr [OF assms(1,2)])
  then show ?thesis using read_written [OF w current_emitted] assms(3) by simp
qed



lemma dget_map_of: "map_of d k = Some v \<Longrightarrow> dget d k w = v"
  by (simp add: dget_def)










text \<open>The guard records a failure, never a success, and leaves the file alone otherwise.\<close>

lemma guard_outcome_kind:
  "guard_outcome x = Some (ek, ext) \<Longrightarrow>
     ek \<in> {''timeout'', ''malformed_model_output'', ''internal_error'', ''external_error''} \<and>
     (ek = ''external_error'' \<longleftrightarrow> ext \<noteq> None)"
  by (auto simp: guard_outcome_def split: raised.splits option.splits if_splits)

lemma guard_write_cases:
  obtains "guard_write x state file = file"
  | ek ext phase i where "guard_outcome x = Some (ek, ext)" "phase \<noteq> ''unknown''"
      "writable (emitted phase i ek [] [] [] [] ext)"
      "guard_write x state file = Some (phase_result_to_dict (emitted phase i ek [] [] [] [] ext))"
proof (cases "guard_write x state file = file")
  case False
  obtain ek ext raw where 1: "guard_outcome x = Some (ek, ext)" "state = Some (JObj raw)"
    using False by (auto simp: guard_write_def split: option.splits json.splits)
  define phase where "phase = active_phase_name (dget raw ''active_step'' JNull)"
  obtain i where i: "guard_write x state file =
      (case write_phase_result (emitted phase i ek [] [] [] [] ext) file of Inr f \<Rightarrow> f | Inl e \<Rightarrow> file)"
    "phase \<noteq> ''unknown''"
    using False 1 guard_outcome_kind [OF 1(1)]
    by (auto simp: guard_write_def Let_def phase_def [symmetric] emitted_def mk_phase_result_def
        split: json.splits if_splits)
  show thesis
  proof (cases "write_phase_result (emitted phase i ek [] [] [] [] ext) file")
    case (Inl e)
    then show thesis using i False by simp
  next
    case (Inr f)
    then have f: "writable (emitted phase i ek [] [] [] [] ext)"
      "f = Some (phase_result_to_dict (emitted phase i ek [] [] [] [] ext))"
      by (simp_all add: write_phase_result_Inr)
    moreover have "guard_write x state file = f" using i(1) Inr by simp
    ultimately have "writable (emitted phase i ek [] [] [] [] ext)"
      "guard_write x state file = Some (phase_result_to_dict (emitted phase i ek [] [] [] [] ext))"
      by simp_all
    with 1(1) i(2) show thesis by (rule that(2))
  qed
qed (use that in blast)

theorem guard_records_failures:
  assumes "\<And>ek e. guard_outcome x = Some (ek, Some e) \<Longrightarrow> ee_provider e \<noteq> []"
  shows "guard_write x state file = file \<or>
    (\<exists>r. read_phase_result (guard_write x state file) = Inr (Some r) \<and>
       pr_exit_kind r \<in> {''timeout'', ''malformed_model_output'', ''internal_error'', ''external_error''} \<and>
       (pr_exit_kind r = ''external_error'' \<longleftrightarrow> pr_external_error r \<noteq> None) \<and>
       pr_phase r \<notin> {[], ''unknown''})"
proof (rule guard_write_cases [of x state "file"])
  fix ek ext phase i
  let ?r = "emitted phase i ek [] [] [] [] ext"
  assume 2: "guard_outcome x = Some (ek, ext)" "phase \<noteq> ''unknown''" "writable ?r"
    "guard_write x state file = Some (phase_result_to_dict ?r)"
  have "current_record ?r" using assms 2(1) by (intro current_emitted) auto
  then have "read_phase_result (guard_write x state file) = Inr (Some ?r)"
    using read_written [OF 2(3)] 2(4) by simp
  then show ?thesis
    using guard_outcome_kind [OF 2(1)] 2(2,3) by (auto simp: emitted_def writable_def)
qed simp

subsection \<open>The properties at concrete inputs\<close>

theorem emission_reads_back_witness:
  "res_bind (emit_phase_result ''execute'' [(''meta'', JObj [(''current_invocation_id'', JStr ''i1'')])]
      ''blocked_by_prereq'' [\<lparr>bt_task_id = ''T1'', bt_reason = ''r'', bt_notes = [], bt_blocking_action_ids = [''U1''], bt_blocker_kind = None\<rparr>]
      [] [''plan.md''] [] None None) read_phase_result =
   Inr (Some (emitted ''execute'' ''i1'' ''blocked_by_prereq''
     [\<lparr>bt_task_id = ''T1'', bt_reason = ''r'', bt_notes = [], bt_blocking_action_ids = [''U1''], bt_blocker_kind = None\<rparr>]
     [] [''plan.md''] [] None))"
  by (rule emission_reads_back) (simp_all add: current_invocation_def dget_def EXIT_KINDS_def)


end
