(* ===== verification/Recovery_Facts.thy ===== *)
theory Recovery_Facts
  imports Auto_Retry Phase_Facts
begin

section \<open>Facts about recovery\<close>

text \<open>
  What the plan circuit answers after any sequence of failures, when the per-class circuit opens, when
  the policy retries, and how often the driver's loops run a phase again.
\<close>

subsection \<open>The plan circuit counts equal failures\<close>

definition circuit_after :: "int \<Rightarrow> failure_signature list \<Rightarrow> plan_circuit" where
  "circuit_after t sigs = foldl (\<lambda>c s. fst (record_failure c s)) (new_plan_circuit t) sigs"

lemma circuit_after_snoc: "circuit_after t (sigs @ [s]) = fst (record_failure (circuit_after t sigs) s)"
  by (simp add: circuit_after_def)

lemma circuit_after_Nil: "circuit_after t [] = new_plan_circuit t"
  by (simp add: circuit_after_def)

text \<open>A threshold below one opens at the first failure, as one does.\<close>

definition opens_at :: "int \<Rightarrow> nat" where
  "opens_at t = max 1 (nat t)"

lemma circuit_after_inv:
  "pc_threshold (circuit_after t sigs) = t \<and>
   (\<forall>s. map_of (pc_occurrences (circuit_after t sigs)) s =
      (if count_list sigs s = 0 then None else Some (int (min (count_list sigs s) (opens_at t))))) \<and>
   (\<forall>s. s \<in> set (pc_open (circuit_after t sigs)) \<longleftrightarrow> opens_at t \<le> count_list sigs s)"
proof (induction sigs rule: rev_induct)
  case Nil
  then show ?case by (simp add: circuit_after_Nil new_plan_circuit_def opens_at_def)
next
  case (snoc x sigs)
  let ?c = "circuit_after t sigs"
  show ?case
  proof (cases "x \<in> set (pc_open ?c)")
    case True
    then have "opens_at t \<le> count_list sigs x" "circuit_after t (sigs @ [x]) = ?c"
      using snoc by (simp_all add: circuit_after_snoc record_failure_def)
    then show ?thesis using snoc by (auto simp: opens_at_def)
  next
    case False
    then have less: "count_list sigs x < opens_at t" using snoc by auto
    define n where "n = or_default 0 (map_of (pc_occurrences ?c) x) + 1"
    have n: "n = int (count_list sigs x) + 1"
      using snoc less by (simp add: n_def or_default_def min_def)
    have open_iff: "n \<ge> t \<longleftrightarrow> opens_at t = Suc (count_list sigs x)"
      using less n by (auto simp: opens_at_def)
    have c: "circuit_after t (sigs @ [x]) =
      (let c = ?c\<lparr>pc_occurrences := AList.update x n (pc_occurrences ?c)\<rparr>
       in if n \<ge> t then c\<lparr>pc_open := pc_open ?c @ [x]\<rparr> else c)"
      using False snoc by (simp add: circuit_after_snoc record_failure_def n_def Let_def)
    have "pc_threshold (circuit_after t (sigs @ [x])) = t" using snoc by (simp add: c Let_def)
    moreover have "map_of (pc_occurrences (circuit_after t (sigs @ [x]))) s =
      (if count_list (sigs @ [x]) s = 0 then None else Some (int (min (count_list (sigs @ [x]) s) (opens_at t))))" for s
      using snoc n less by (auto simp: c Let_def update_conv)
    moreover have "s \<in> set (pc_open (circuit_after t (sigs @ [x]))) \<longleftrightarrow> opens_at t \<le> count_list (sigs @ [x]) s" for s
      using snoc less open_iff by (auto simp: c Let_def)
    ultimately show ?thesis by blast
  qed
qed

lemmas circuit_after_threshold = circuit_after_inv [THEN conjunct1]
lemmas circuit_after_occurrences = circuit_after_inv [THEN conjunct2, THEN conjunct1, rule_format]
lemmas circuit_after_open = circuit_after_inv [THEN conjunct2, THEN conjunct2, rule_format]

theorem circuit_answers_by_count:
  "record_failure (circuit_after t sigs) s =
     (circuit_after t (sigs @ [s]),
      let n = Suc (count_list sigs s) in
      decision_of (circuit_after t sigs) s
        (if n < opens_at t then Allow_Retry else if n = opens_at t then Open_Circuit else Circuit_Open)
        (int (min n (opens_at t))))"
proof -
  let ?c = "circuit_after t sigs"
  have 1: "opens_at t \<ge> 1" by (simp add: opens_at_def)
  have "snd (record_failure ?c s) = decision_of ?c s
        (if Suc (count_list sigs s) < opens_at t then Allow_Retry
         else if Suc (count_list sigs s) = opens_at t then Open_Circuit else Circuit_Open)
        (int (min (Suc (count_list sigs s)) (opens_at t)))"
  proof (cases "opens_at t \<le> count_list sigs s")
    case True
    then show ?thesis
      using 1 by (simp add: record_failure_def circuit_after_open circuit_after_occurrences or_default_def min_def)
  next
    case False
    then have n: "or_default 0 (map_of (pc_occurrences ?c) s) + 1 = int (Suc (count_list sigs s))"
      by (simp add: circuit_after_occurrences or_default_def min_def)
    have "t \<le> int (count_list sigs s) + 1 \<longleftrightarrow> Suc (count_list sigs s) = opens_at t"
      "Suc (count_list sigs s) \<noteq> opens_at t \<Longrightarrow> Suc (count_list sigs s) < opens_at t"
      using False by (auto simp: opens_at_def)
    then show ?thesis
      using n circuit_after_open [of s t sigs] False
      by (simp add: record_failure_def circuit_after_open circuit_after_threshold Let_def decision_of_def)
  qed
  then show ?thesis
    by (cases "record_failure ?c s") (simp add: circuit_after_snoc Let_def)
qed

theorem dispatch_blocked_iff:
  "dd_outcome (evaluate_circuit_before_dispatch (Some (circuit_after t sigs)) tasks batch) = Dispatch_Circuit_Open \<longleftrightarrow>
     (\<exists>s. opens_at t \<le> count_list sigs s \<and>
        (tasks = [] \<or> fs_task_id s = None \<or> (\<exists>task\<in>set tasks. fs_task_id s = Some task)))"
proof -
  have "blocks_dispatch tasks s \<longleftrightarrow>
      tasks = [] \<or> fs_task_id s = None \<or> (\<exists>task\<in>set tasks. fs_task_id s = Some task)" for s
    by (auto simp: blocks_dispatch_def split: option.splits)
  moreover have "(\<exists>s\<in>set (pc_open (circuit_after t sigs)). P s) \<longleftrightarrow> (\<exists>s. opens_at t \<le> count_list sigs s \<and> P s)" for P
    by (auto simp: circuit_after_open)
  moreover have "dd_outcome (evaluate_circuit_before_dispatch (Some (circuit_after t sigs)) tasks batch) = Dispatch_Circuit_Open \<longleftrightarrow>
      (\<exists>s\<in>set (pc_open (circuit_after t sigs)). blocks_dispatch tasks s)"
    by (simp add: evaluate_circuit_before_dispatch_def Let_def filter_empty_conv)
  ultimately show ?thesis by simp
qed

text \<open>A circuit made for the call has nothing open, and one recording of each task opens nothing.\<close>

lemma handler_record_after:
  "foldl (\<lambda>c task. fst (evaluate_circuit_after_failure sha c (Plain JNull) (blocked_scope x task)))
     (Some c0) tasks =
   Some (foldl (\<lambda>c s. fst (record_failure c s)) c0
     (map (\<lambda>task. normalize_signature sha (Plain JNull) (blocked_scope x task)) tasks))"
  by (induction tasks arbitrary: c0)
    (simp_all add: evaluate_circuit_after_failure_def Let_def case_prod_unfold)

definition blocked_signature :: "(string \<Rightarrow> string) \<Rightarrow> execute_call \<Rightarrow> string \<Rightarrow> failure_signature" where
  "blocked_signature sha x task = normalize_signature sha (Plain JNull) (blocked_scope x task)"

lemma handler_record_eq:
  "handler_record sha x =
     Some (circuit_after DEFAULT_CIRCUIT_THRESHOLD (map (blocked_signature sha x) (xc_blocked x)))"
  by (simp add: handler_record_def handler_record_after circuit_after_def blocked_signature_def [abs_def])

lemma blocked_signature_inj: "blocked_signature sha x a = blocked_signature sha x b \<longleftrightarrow> a = b"
  by (auto simp: blocked_signature_def normalize_signature_def blocked_scope_def)

lemma count_list_distinct: "distinct xs \<Longrightarrow> count_list xs x \<le> 1"
  by (induction xs) (auto simp: count_list_0_iff)

text \<open>The execute handler makes its circuit anew for every call, so the check before dispatch always
  lets the batch proceed, and recording each blocked task once opens nothing.
\<close>

theorem handler_never_blocks_dispatch:
  "dd_outcome (handler_dispatch x) = Dispatch_Proceed \<and>
    (distinct (xc_blocked x) \<and> handler_record sha x = Some c \<longrightarrow> pc_open c = [])"
proof (intro conjI)
  show "dd_outcome (handler_dispatch x) = Dispatch_Proceed"
    by (simp add: handler_dispatch_def evaluate_circuit_before_dispatch_def new_plan_circuit_def)
  show "distinct (xc_blocked x) \<and> handler_record sha x = Some c \<longrightarrow> pc_open c = []"
  proof (intro impI)
    assume "distinct (xc_blocked x) \<and> handler_record sha x = Some c"
    then have c: "c = circuit_after 2 (map (blocked_signature sha x) (xc_blocked x))"
      and d: "distinct (map (blocked_signature sha x) (xc_blocked x))"
      by (auto simp: handler_record_eq DEFAULT_CIRCUIT_THRESHOLD_def distinct_map inj_on_def blocked_signature_inj)
    have "s \<notin> set (pc_open c)" for s
      using count_list_distinct [OF d, of s] by (auto simp: c circuit_after_open opens_at_def)
    then show "pc_open c = []" by (cases "pc_open c") auto
  qed
qed

subsection \<open>The per-class circuit opens on a run of equal failures\<close>

definition transitions :: "int \<Rightarrow> circuit_state \<Rightarrow> string list \<Rightarrow> circuit_state" where
  "transitions t st sigs = foldl (\<lambda>st s. fst (circuit_transition t st s)) st sigs"

definition next_count :: "circuit_state \<Rightarrow> string \<Rightarrow> int" where
  "next_count st sig =
     (if sig = cs_last_signature st \<and> cs_last_signature st \<noteq> [] then cs_count st + 1 else 1)"

lemma circuit_transition_closed:
  assumes "\<not> cs_open st" "0 < t"
  shows "fst (circuit_transition t st sig) =
      \<lparr>cs_failure_class = cs_failure_class st, cs_last_signature = sig, cs_count = next_count st sig,
       cs_open = (t \<le> next_count st sig)\<rparr>"
    and "halts (snd (circuit_transition t st sig)) \<longleftrightarrow> t \<le> next_count st sig"
  using assms by (simp_all add: circuit_transition_def next_count_def Let_def halts_def halt_def)

lemma circuit_transition_open:
  "cs_open st \<Longrightarrow> circuit_transition t st sig = (st, None)"
  by (simp add: circuit_transition_def)

lemma transitions_snoc: "transitions t st (sigs @ [s]) = fst (circuit_transition t (transitions t st sigs) s)"
  by (simp add: transitions_def)

text \<open>The length of the run of equal elements at the end.\<close>

fun end_run :: "'a list \<Rightarrow> nat" where
  "end_run xs = (case List.rev xs of [] \<Rightarrow> 0 | x # ys \<Rightarrow> Suc (length (takeWhile (\<lambda>y. y = x) ys)))"

declare end_run.simps [simp del]

lemma end_run_snoc: "end_run (xs @ [x]) = (if xs \<noteq> [] \<and> last xs = x then Suc (end_run xs) else 1)"
  by (cases xs rule: rev_cases) (simp_all add: end_run.simps)

lemma end_run_replicate: "end_run (us @ replicate (Suc n) s) = Suc n + (if us \<noteq> [] \<and> last us = s then end_run us else 0)"
proof (induction n)
  case 0
  then show ?case by (simp add: end_run_snoc)
next
  case (Suc n)
  have e: "us @ replicate (Suc (Suc n)) s = (us @ replicate (Suc n) s) @ [s]"
    by (metis append_assoc replicate_append_same replicate_Suc)
  have "end_run (us @ replicate (Suc (Suc n)) s) = Suc (end_run (us @ replicate (Suc n) s))"
    unfolding e end_run_snoc by simp
  then show ?case using Suc by (metis add_Suc)
qed

lemma end_run_decompose: "xs \<noteq> [] \<Longrightarrow> \<exists>us. xs = us @ replicate (end_run xs) (last xs)"
proof (induction xs rule: rev_induct)
  case (snoc x xs)
  show ?case
  proof (cases "xs \<noteq> [] \<and> last xs = x")
    case True
    with snoc obtain us where "xs = us @ replicate (end_run xs) x" by auto
    then have "xs @ [x] = us @ replicate (Suc (end_run xs)) x"
      by (metis append_assoc replicate_append_same replicate_Suc)
    with True show ?thesis by (metis end_run_snoc last_snoc)
  next
    case False
    then have "end_run (xs @ [x]) = 1" by (auto simp: end_run_snoc)
    then show ?thesis by simp
  qed
qed simp

definition has_run :: "nat \<Rightarrow> string list \<Rightarrow> bool" where
  "has_run n sigs \<longleftrightarrow> (\<exists>us s vs. sigs = us @ replicate n s @ vs \<and> s \<noteq> [])"

lemma has_run_snoc:
  assumes "0 < n"
  shows "has_run n (sigs @ [x]) \<longleftrightarrow> has_run n sigs \<or> x \<noteq> [] \<and> n \<le> end_run (sigs @ [x])"
proof
  assume "has_run n (sigs @ [x])"
  then obtain us s vs where r: "sigs @ [x] = us @ replicate n s @ vs" "s \<noteq> []"
    by (auto simp: has_run_def)
  show "has_run n sigs \<or> x \<noteq> [] \<and> n \<le> end_run (sigs @ [x])"
  proof (cases vs rule: rev_cases)
    case Nil
    obtain m where m: "n = Suc m" using assms by (cases n) auto
    have "x = s" using r(1) Nil m by (metis append_Nil2 last_appendR last_replicate last_snoc nat.simps(3) replicate_empty)
    moreover have "n \<le> end_run (sigs @ [x])"
      using r(1) Nil m end_run_replicate [of us m s] by simp
    ultimately show ?thesis using r(2) by simp
  next
    case (snoc ws w)
    then have "sigs = us @ replicate n s @ ws" using r(1) by simp
    then show ?thesis using r(2) by (auto simp: has_run_def)
  qed
next
  assume *: "has_run n sigs \<or> x \<noteq> [] \<and> n \<le> end_run (sigs @ [x])"
  show "has_run n (sigs @ [x])"
  proof (cases "has_run n sigs")
    case True
    then obtain us s vs where "sigs = us @ replicate n s @ vs" "s \<noteq> []" by (auto simp: has_run_def)
    then have "sigs @ [x] = us @ replicate n s @ (vs @ [x])" by simp
    with \<open>s \<noteq> []\<close> show ?thesis unfolding has_run_def by blast
  next
    case False
    with * have x: "x \<noteq> []" "n \<le> end_run (sigs @ [x])" by auto
    obtain us where us: "sigs @ [x] = us @ replicate (end_run (sigs @ [x])) x"
      using end_run_decompose [of "sigs @ [x]"] by auto
    have "replicate (end_run (sigs @ [x])) x = replicate (end_run (sigs @ [x]) - n) x @ replicate n x"
      using x(2) by (metis le_add_diff_inverse2 replicate_add)
    with us have "sigs @ [x] = (us @ replicate (end_run (sigs @ [x]) - n) x) @ replicate n x @ []" by simp
    with x(1) show ?thesis unfolding has_run_def by blast
  qed
qed

lemma transitions_inv:
  assumes "1 < t"
  shows "cs_failure_class (transitions t (new_circuit fc) sigs) = fc \<and>
    (cs_open (transitions t (new_circuit fc) sigs) \<longleftrightarrow> has_run (nat t) sigs) \<and>
    (\<not> cs_open (transitions t (new_circuit fc) sigs) \<longrightarrow>
       cs_last_signature (transitions t (new_circuit fc) sigs) = (if sigs = [] then [] else last sigs) \<and>
       (sigs \<noteq> [] \<and> last sigs \<noteq> [] \<longrightarrow> cs_count (transitions t (new_circuit fc) sigs) = int (end_run sigs)))"
proof (induction sigs rule: rev_induct)
  case Nil
  have "\<not> has_run (nat t) []" using assms(1) by (auto simp: has_run_def)
  then show ?case by (simp add: transitions_def new_circuit_def)
next
  case (snoc x sigs)
  let ?st = "transitions t (new_circuit fc) sigs"
  show ?case
  proof (cases "cs_open ?st")
    case True
    then have "has_run (nat t) (sigs @ [x])" using snoc assms(1) by (simp add: has_run_snoc)
    with True snoc show ?thesis by (simp add: transitions_snoc circuit_transition_def)
  next
    case False
    define count where "count = next_count ?st x"
    have last: "cs_last_signature ?st = (if sigs = [] then [] else last sigs)"
      and cnt: "sigs \<noteq> [] \<and> last sigs \<noteq> [] \<longrightarrow> cs_count ?st = int (end_run sigs)"
      and no: "\<not> has_run (nat t) sigs"
      using snoc False by auto
    have count: "count = (if x \<noteq> [] then int (end_run (sigs @ [x])) else 1)"
      using last cnt by (auto simp: count_def next_count_def end_run_snoc)
    have "count \<ge> t \<longleftrightarrow> has_run (nat t) (sigs @ [x])"
      using no assms(1) count by (auto simp: has_run_snoc)
    moreover have "transitions t (new_circuit fc) (sigs @ [x]) =
        \<lparr>cs_failure_class = fc, cs_last_signature = x, cs_count = count, cs_open = (t \<le> count)\<rparr>"
      using False snoc assms(1)
      by (simp add: transitions_snoc circuit_transition_closed count_def [symmetric])
    ultimately show ?thesis using count by simp
  qed
qed

text \<open>C36. The per-class circuit is open after a sequence of signatures exactly when some non-empty
  signature occurred as many times in a row as the threshold; a transition halts exactly when it opens
  the circuit.
\<close>

theorem circuit_opens_on_a_run:
  assumes "1 < t"
  shows "(cs_open (transitions t (new_circuit fc) sigs) \<longleftrightarrow>
      (\<exists>us s vs. sigs = us @ replicate (nat t) s @ vs \<and> s \<noteq> [])) \<and>
    (snd (circuit_transition t st sig) \<noteq> None \<longleftrightarrow>
      \<not> cs_open st \<and> cs_open (fst (circuit_transition t st sig)))"
proof (intro conjI)
  show "cs_open (transitions t (new_circuit fc) sigs) \<longleftrightarrow>
      (\<exists>us s vs. sigs = us @ replicate (nat t) s @ vs \<and> s \<noteq> [])"
    using transitions_inv [OF assms, of fc sigs] by (simp add: has_run_def)
  show "snd (circuit_transition t st sig) \<noteq> None \<longleftrightarrow>
      \<not> cs_open st \<and> cs_open (fst (circuit_transition t st sig))"
    by (simp add: circuit_transition_def Let_def)
qed

subsection \<open>What the policy retries\<close>

definition is_retry :: "recovery_decision \<Rightarrow> bool" where
  "is_retry d \<longleftrightarrow> rd_action d \<in> {Retry_Fresh, Retry_Transient}"

text \<open>What the caller does with a decision: it adds the delta to the counter the decision names.\<close>

definition apply_decision :: "recovery_decision \<Rightarrow> retry_usage \<Rightarrow> retry_usage" where
  "apply_decision d used =
     (case rd_budget_kind d of
        Some Context_Budget \<Rightarrow> used\<lparr>context_retries_used := context_retries_used used + rd_budget_delta d\<rparr>
      | Some External_Budget \<Rightarrow> used\<lparr>external_retries_used := external_retries_used used + rd_budget_delta d\<rparr>
      | Some Blocked_Budget \<Rightarrow> used\<lparr>blocked_retries_used := blocked_retries_used used + rd_budget_delta d\<rparr>
      | None \<Rightarrow> used)"

text \<open>The decisions on the errors of successive attempts, up to the first that is not a retry.\<close>

fun recovery_run :: "recovery_policy \<Rightarrow> retry_usage \<Rightarrow> (py_value \<times> string) list \<Rightarrow> recovery_decision list" where
  "recovery_run pol used [] = []"
| "recovery_run pol used ((error, phase) # rest) =
     (let d = classify pol error used phase
      in d # (if is_retry d then recovery_run pol (apply_decision d used) rest else []))"

definition budget_left :: "recovery_policy \<Rightarrow> retry_usage \<Rightarrow> nat" where
  "budget_left pol used =
     nat (max_context_retries pol - context_retries_used used) +
     nat (max_external_retries pol - external_retries_used used) +
     nat (max_blocked_retries pol - blocked_retries_used used)"

lemma is_retry_simps [simp]:
  "\<not> is_retry (halt k b reason)"
  "is_retry (retry Retry_Fresh c reason)" "is_retry (retry Retry_Transient c reason)"
  by (simp_all add: is_retry_def halt_def retry_def)

lemma retry_chain:
  assumes "d = (if c1 then within_budget u1 m1 (retry Retry_Fresh b1 r1) (halt k1 o1 s1)
      else if c2 then (if c3 then within_budget u2 m2 (retry Retry_Transient b2 r2) (halt k2 o2 s2) else halt k3 o3 s3)
      else if c4 then within_budget u4 m4 (retry Retry_Fresh b4 r4) (halt k4 o4 s4)
      else if c5 then \<lparr>rd_action = Escalate, rd_budget_delta = 0, rd_budget_kind = None, rd_halt_kind = None,
        rd_reason = s5\<rparr>
      else halt k6 o6 s6)" "is_retry d"
  shows "u1 < m1 \<and> d = retry Retry_Fresh b1 r1 \<or> u2 < m2 \<and> c3 \<and> d = retry Retry_Transient b2 r2 \<or>
    u4 < m4 \<and> d = retry Retry_Fresh b4 r4"
  using assms by (auto simp: within_budget_def is_retry_def halt_def split: if_splits)

lemmas classify_retry_cases = retry_chain [OF classify_def [unfolded Let_def]]

lemma retry_shrinks_budget:
  assumes "is_retry (classify pol error used phase)"
  shows "budget_left pol (apply_decision (classify pol error used phase) used) < budget_left pol used"
  using classify_retry_cases [OF assms]
  by (elim disjE conjE) (simp_all add: budget_left_def apply_decision_def retry_def)

lemma length_recovery_run:
  "length (recovery_run pol used errs) \<le> Suc (budget_left pol used)"
  "recovery_run pol used errs \<noteq> [] \<Longrightarrow> is_retry (last (recovery_run pol used errs)) \<Longrightarrow>
     length (recovery_run pol used errs) \<le> budget_left pol used"
proof (induction pol used errs rule: recovery_run.induct)
  case (2 pol used error phase rest)
  let ?d = "classify pol error used phase" and ?ds = "recovery_run pol used ((error, phase) # rest)"
  {
    case 1
    show ?case
      using "2.IH"(1) [OF refl] retry_shrinks_budget [of pol error used phase] by (fastforce simp: Let_def)
  next
    case 2
    then have retry: "is_retry ?d" by (auto simp: Let_def split: if_splits)
    show ?case
    proof (cases "recovery_run pol (apply_decision ?d used) rest = []")
      case True
      then show ?thesis using retry retry_shrinks_budget [OF retry] by (simp add: Let_def)
    next
      case False
      then have "length (recovery_run pol (apply_decision ?d used) rest) \<le> budget_left pol (apply_decision ?d used)"
        using "2.IH"(2) [OF refl retry] 2 retry by (simp add: Let_def)
      then show ?thesis using retry retry_shrinks_budget [OF retry] by (simp add: Let_def)
    qed
  }
qed simp_all

lemma recovery_run_stops:
  "errs \<noteq> [] \<Longrightarrow> is_retry (last (recovery_run pol used errs)) \<Longrightarrow>
   length (recovery_run pol used errs) = length errs"
proof (induction pol used errs rule: recovery_run.induct)
  case (2 pol used error phase rest)
  then show ?case by (cases rest) (auto simp: Let_def split: if_splits)
qed simp

text \<open>C37. However the errors of successive attempts are classified, the recovery policy grants at most as
  many retries as its three budgets have left, and then answers with a decision that is no retry.
\<close>

theorem recovery_is_bounded:
  assumes "budget_left pol used < length errs"
  shows "length (filter is_retry (recovery_run pol used errs)) \<le> budget_left pol used \<and>
    \<not> is_retry (last (recovery_run pol used errs))"
proof (intro conjI)
  let ?ds = "recovery_run pol used errs"
  have ne: "?ds \<noteq> []" using assms by (cases errs) (auto simp: Let_def)
  show stop: "\<not> is_retry (last ?ds)"
  proof
    assume "is_retry (last ?ds)"
    then have "length ?ds = length errs" using recovery_run_stops [of errs pol used] assms by fastforce
    moreover have "length ?ds \<le> budget_left pol used"
      using length_recovery_run(2) [OF ne \<open>is_retry (last ?ds)\<close>] .
    ultimately show False using assms by simp
  qed
  have "filter is_retry ?ds = filter is_retry (butlast ?ds)"
    using stop ne by (metis append_butlast_last_id append_Nil2 filter.simps filter_append)
  then have "length (filter is_retry ?ds) \<le> length (butlast ?ds)" by (metis length_filter_le)
  then show "length (filter is_retry ?ds) \<le> budget_left pol used"
    using length_recovery_run(1) [of pol used errs] by simp
qed

subsection \<open>The driver's loops\<close>

lemma normalize_message_Nil [simp]: "normalize_message [] = []"
  by (simp add: normalize_message_def lower_def re_sub_def)

lemma text_attr_result [simp]:
  "text_attr (phase_result_value R r) ''message'' = []"
  "text_attr (phase_result_value R r) ''command'' = []"
  "text_attr (phase_result_value R r) ''error_kind'' = []"
  "text_attr (phase_result_value R r) ''error_layer'' = []"
  "text_attr (phase_result_value R r) ''code'' = []"
  "text_attr (phase_result_value R r) ''kind'' = []"
  "text_attr (phase_result_value R r) ''provider'' = []"
  by (simp_all add: text_attr_def phase_result_value_def)

lemma matches_any_Nil: "list_all (\<lambda>s. s \<noteq> []) needles \<Longrightarrow> \<not> matches_any [] needles"
  by (auto simp: matches_any_def lower_def list_ex_iff list_all_iff)

text \<open>A phase result has none of the texts a failure class is read from.\<close>

lemma classify_failure_class_result [simp]:
  "classify_failure_class (phase_result_value R r) = Unknown_Failure"
proof -
  let ?e = "phase_result_value R r"
  have texts: "error_message ?e = []" "error_kind ?e = []" "error_code ?e = []" "failure_kind ?e = []"
    by (simp_all add: error_message_def error_kind_def error_code_def failure_kind_def lower_def)
  have no: "\<not> matches_any [] needles" if "[] \<notin> set needles" for needles
    using that by (induction needles) (auto simp: matches_any_def lower_def)
  have "\<not> review_quality_shape ?e" "\<not> worker_budget_shape ?e" "\<not> timeout_shape ?e" "\<not> failover_shape ?e"
    "\<not> compaction_shape ?e" "\<not> ref_shape ?e" "\<not> model_shape ?e" "\<not> import_shape ?e" "\<not> provenance_shape ?e"
    by (simp_all add: review_quality_shape_def worker_budget_shape_def timeout_shape_def failover_shape_def
        compaction_shape_def ref_shape_def model_shape_def import_shape_def provenance_shape_def texts no)
  moreover have "preflight_class ?e = None" by (simp add: preflight_class_def texts)
  ultimately show ?thesis by (simp add: classify_failure_class_def)
qed

definition context_signature :: "(string \<Rightarrow> string) \<Rightarrow> string" where
  "context_signature sha =
     sha (compact_dumps [(''failure_class'', Inl ''unknown''), (''task_id'', Inl []), (''attempt_id'', Inl []),
       (''exit_kind'', Inl ''context_exhausted'')])"

lemma signature_of_exhausted:
  assumes "pr_exit_kind r = ''context_exhausted''"
  shows "normalize_failure_signature sha Unknown_Failure (phase_result_value R r) [] [] = context_signature sha"
proof -
  have "findall CONTENT_HASH_RE [] = []" by (simp add: findall_def)
  moreover have "folded_attr (phase_result_value R r) ''error_kind'' = []"
    "folded_attr (phase_result_value R r) ''error_layer'' = []"
    "folded_attr (phase_result_value R r) ''provider'' = []"
    by (simp_all add: folded_attr_def lower_def)
  moreover have "signature_exit_kind (phase_result_value R r) = ''context_exhausted''"
  proof -
    have "lower (strip ''context_exhausted'') = ''context_exhausted''" by code_simp
    then show ?thesis using assms by (simp add: signature_exit_kind_def phase_result_value_def)
  qed
  moreover have "getattr (phase_result_value R r) ''status_code'' = Plain JNull"
    by (simp add: phase_result_value_def)
  ultimately show ?thesis
    by (simp add: normalize_failure_signature_def signature_payload_def context_signature_def text_entry_def
        sorted_set_def Let_def)
qed

text \<open>The circuit all exhausted results share.\<close>

definition shared_circuit :: "retry_state \<Rightarrow> circuit_state" where
  "shared_circuit st = or_default (new_circuit Unknown_Failure) (map_of (rt_circuits st) ''unknown'')"

lemma advance_circuit_exhausted:
  assumes "pr_exit_kind r = ''context_exhausted''"
  shows "advance_circuit sha circuits (phase_result_value R r) [] [] =
     (let (next, d) = circuit_transition 2
            (or_default (new_circuit Unknown_Failure) (map_of circuits ''unknown'')) (context_signature sha)
      in (AList.update ''unknown'' next circuits, next, d))"
  using assms
  by (simp add: advance_circuit_def Let_def circuit_key_def CIRCUIT_OPEN_THRESHOLD_def signature_of_exhausted)

text \<open>One turn of the loop on an exhausted result.\<close>

definition advanced :: "(string \<Rightarrow> string) \<Rightarrow> retry_state \<Rightarrow> retry_state" where
  "advanced sha st = st\<lparr>rt_circuits :=
     AList.update ''unknown'' (fst (circuit_transition 2 (shared_circuit st) (context_signature sha))) (rt_circuits st)\<rparr>"

definition rerun :: "(nat \<Rightarrow> phase_result option) \<Rightarrow> retry_state \<Rightarrow> retry_state" where
  "rerun run st = st\<lparr>rt_context_retries := rt_context_retries st + 1, rt_result := run (rt_runs st),
     rt_runs := Suc (rt_runs st)\<rparr>"

lemma context_loop_turn:
  assumes "rt_result st = Some r" "pr_exit_kind r = ''context_exhausted''"
  shows "context_loop sha R cap run st =
    (if halts (snd (circuit_transition 2 (shared_circuit st) (context_signature sha)))
     then (Retry_Circuit_Open, advanced sha st)
     else if cap \<le> rt_context_retries st then (Retry_Cap_Reached, advanced sha st)
     else context_loop sha R cap run (rerun run (advanced sha st)))"
  using assms
  by (subst context_loop.simps)
    (simp add: context_decision_exhausted advance_circuit_exhausted Let_def case_prod_unfold
      shared_circuit_def [symmetric] advanced_def [symmetric] rerun_def retry_def halt_def, simp add: advanced_def)

lemma context_loop_done:
  assumes "\<And>r. rt_result st = Some r \<Longrightarrow> pr_exit_kind r \<noteq> ''context_exhausted''"
  shows "context_loop sha R cap run st = (Loop_Done, st)"
  using assms by (subst context_loop.simps) (auto split: option.split)

lemma shared_circuit_advanced [simp]:
  "shared_circuit (advanced sha st) = fst (circuit_transition 2 (shared_circuit st) (context_signature sha))"
  unfolding shared_circuit_def [of "advanced sha st"]
  by (simp add: advanced_def or_default_def update_conv)

lemma shared_circuit_rerun [simp]: "shared_circuit (rerun run st) = shared_circuit st"
  by (simp add: shared_circuit_def rerun_def)

lemma advanced_sel [simp]:
  "rt_result (advanced sha st) = rt_result st" "rt_runs (advanced sha st) = rt_runs st"
  "rt_context_retries (advanced sha st) = rt_context_retries st"
  by (simp_all add: advanced_def)

lemma rerun_sel [simp]:
  "rt_result (rerun run st) = run (rt_runs st)" "rt_runs (rerun run st) = Suc (rt_runs st)"
  "rt_context_retries (rerun run st) = rt_context_retries st + 1"
  by (simp_all add: rerun_def)

text \<open>With the circuit closed the second exhausted result in a row ends the loop, whatever the cap.\<close>

lemma context_loop_closed:
  assumes "\<not> cs_open (shared_circuit st)" "\<And>t. sha t \<noteq> []" "0 \<le> cs_count (shared_circuit st)"
  shows "rt_runs (snd (context_loop sha R cap run st)) \<le> Suc (rt_runs st)"
proof (cases "\<exists>r. rt_result st = Some r \<and> pr_exit_kind r = ''context_exhausted''")
  case False
  then show ?thesis by (subst context_loop_done) auto
next
  case True
  then obtain r where r: "rt_result st = Some r" "pr_exit_kind r = ''context_exhausted''" by blast
  let ?sig = "context_signature sha" and ?n = "next_count (shared_circuit st) (context_signature sha)"
  have sig: "?sig \<noteq> []" using assms(2) by (simp add: context_signature_def)
  show ?thesis
  proof (cases "2 \<le> ?n \<or> cap \<le> rt_context_retries st")
    case True
    then show ?thesis
      using assms(1) by (auto simp: context_loop_turn [OF r] circuit_transition_closed)
  next
    case False
    let ?st = "rerun run (advanced sha st)"
    have loop: "context_loop sha R cap run st = context_loop sha R cap run ?st"
      using False assms(1) by (simp add: context_loop_turn [OF r] circuit_transition_closed)
    have closed: "\<not> cs_open (shared_circuit ?st)" "cs_last_signature (shared_circuit ?st) = ?sig"
      "cs_count (shared_circuit ?st) = ?n"
      using False assms(1) by (simp_all add: circuit_transition_closed)
    show ?thesis
    proof (cases "\<exists>r. rt_result ?st = Some r \<and> pr_exit_kind r = ''context_exhausted''")
      case False
      then have "context_loop sha R cap run ?st = (Loop_Done, ?st)" by (intro context_loop_done) auto
      then show ?thesis using loop by simp
    next
      case True
      then obtain r' where r': "rt_result ?st = Some r'" "pr_exit_kind r' = ''context_exhausted''" by blast
      have "halts (snd (circuit_transition 2 (shared_circuit ?st) ?sig)) \<longleftrightarrow>
          2 \<le> next_count (shared_circuit ?st) ?sig"
        by (rule circuit_transition_closed(2) [OF closed(1)]) simp
      moreover have "next_count (shared_circuit ?st) ?sig = ?n + 1"
        using closed(2,3) sig unfolding next_count_def [of "shared_circuit ?st"] by simp
      moreover have "1 \<le> ?n" using assms(3) by (simp add: next_count_def)
      ultimately have "halts (snd (circuit_transition 2 (shared_circuit ?st) ?sig))" by simp
      then show ?thesis
        by (simp add: loop context_loop_turn [OF r'])
    qed
  qed
qed

text \<open>A worker that runs out of context every time.\<close>

definition always_exhausted :: "(nat \<Rightarrow> phase_result option) \<Rightarrow> retry_state \<Rightarrow> bool" where
  "always_exhausted run st \<longleftrightarrow>
     (\<exists>r. rt_result st = Some r \<and> pr_exit_kind r = ''context_exhausted'') \<and>
     (\<forall>k\<ge>rt_runs st. \<exists>r. run k = Some r \<and> pr_exit_kind r = ''context_exhausted'')"

lemma always_exhausted_rerun:
  "always_exhausted run st \<Longrightarrow> always_exhausted run (rerun run (advanced sha st))"
  by (auto simp: always_exhausted_def)

lemma exhausted_bails:
  "always_exhausted run st \<Longrightarrow> fst (context_loop sha R cap run st) \<noteq> Loop_Done"
proof (induction "nat (cap - rt_context_retries st)" arbitrary: st rule: less_induct)
  case less
  then obtain r where r: "rt_result st = Some r" "pr_exit_kind r = ''context_exhausted''"
    by (auto simp: always_exhausted_def)
  show ?case
  proof (cases "cap \<le> rt_context_retries st")
    case True
    then show ?thesis by (simp add: context_loop_turn [OF r])
  next
    case False
    then have "nat (cap - rt_context_retries (rerun run (advanced sha st))) < nat (cap - rt_context_retries st)"
      by simp
    from less.hyps [OF this always_exhausted_rerun [OF less.prems]] show ?thesis
      by (simp add: context_loop_turn [OF r])
  qed
qed

lemma open_circuit_runs_to_cap:
  assumes "cs_open (shared_circuit st)" "always_exhausted run st"
  shows "fst (context_loop sha R cap run st) = Retry_Cap_Reached"
    and "rt_runs (snd (context_loop sha R cap run st)) = rt_runs st + nat (cap - rt_context_retries st)"
proof -
  have "fst (context_loop sha R cap run st) = Retry_Cap_Reached \<and>
    rt_runs (snd (context_loop sha R cap run st)) = rt_runs st + nat (cap - rt_context_retries st)"
    using assms
  proof (induction "nat (cap - rt_context_retries st)" arbitrary: st rule: less_induct)
    case less
    then obtain r where r: "rt_result st = Some r" "pr_exit_kind r = ''context_exhausted''"
      by (auto simp: always_exhausted_def)
    have quiet: "\<not> halts (snd (circuit_transition 2 (shared_circuit st) (context_signature sha)))"
      using less.prems(1) by (simp add: circuit_transition_open halts_def)
    show ?case
    proof (cases "cap \<le> rt_context_retries st")
      case True
      then show ?thesis using quiet by (simp add: context_loop_turn [OF r])
    next
      case False
      let ?st = "rerun run (advanced sha st)"
      have "nat (cap - rt_context_retries ?st) < nat (cap - rt_context_retries st)" using False by simp
      moreover have "cs_open (shared_circuit ?st)" using less.prems(1) by (simp add: circuit_transition_open)
      ultimately have "fst (context_loop sha R cap run ?st) = Retry_Cap_Reached \<and>
          rt_runs (snd (context_loop sha R cap run ?st)) = rt_runs ?st + nat (cap - rt_context_retries ?st)"
        using less.hyps always_exhausted_rerun [OF less.prems(2)] by blast
      then show ?thesis using False quiet by (simp add: context_loop_turn [OF r])
    qed
  qed
  then show "fst (context_loop sha R cap run st) = Retry_Cap_Reached"
    "rt_runs (snd (context_loop sha R cap run st)) = rt_runs st + nat (cap - rt_context_retries st)"
    by simp_all
qed

text \<open>A worker that runs out of context every time is run again once, not as often as the cap allows,
  because the second equal failure opens the circuit of the class; only when that circuit is already
  open does the cap count. The driver always gives up.
\<close>

theorem context_retries_by_circuit:
  assumes "0 < cap" "\<And>t. sha t \<noteq> []" "0 \<le> cs_count (shared_circuit st)" "rt_context_retries st = 0"
    and "always_exhausted run st"
  shows "rt_runs (snd (context_retries sha R cap ''execute'' run st)) \<le>
      rt_runs st + (if cs_open (shared_circuit st) then nat cap else 1) \<and>
    (cs_open (shared_circuit st) \<longrightarrow>
      rt_runs (snd (context_retries sha R cap ''execute'' run st)) = rt_runs st + nat cap) \<and>
    fst (context_retries sha R cap ''execute'' run st) \<noteq> Loop_Done"
proof (intro conjI)
  have loop: "context_retries sha R cap ''execute'' run st = context_loop sha R cap run st"
    using assms(1) by (simp add: context_retries_def)
  show "fst (context_retries sha R cap ''execute'' run st) \<noteq> Loop_Done"
    using exhausted_bails [OF assms(5)] loop by simp
  show o: "cs_open (shared_circuit st) \<longrightarrow>
      rt_runs (snd (context_retries sha R cap ''execute'' run st)) = rt_runs st + nat cap"
    using open_circuit_runs_to_cap(2) [OF _ assms(5)] assms(4) loop by auto
  show "rt_runs (snd (context_retries sha R cap ''execute'' run st)) \<le>
      rt_runs st + (if cs_open (shared_circuit st) then nat cap else 1)"
    using o context_loop_closed [OF _ assms(2,3)] loop by auto
qed

subsection \<open>External reruns\<close>

lemma not_retryable_without_error: "\<not> is_retryable_external_error phase (phase_result_value R r)"
proof -
  have "lower [] = []" by (simp add: lower_def)
  moreover have "text_attr (phase_result_value R r) ''provider_error_code'' = []"
    by (simp add: text_attr_def phase_result_value_def)
  ultimately show ?thesis
    by (simp add: is_retryable_external_error_def Let_def EXTERNAL_RETRYABLE_LAYERS_def)
qed

text \<open>The second gate of the loop is passed by every result the policy retries.\<close>

lemma retryable_carried:
  "is_retryable_external_error phase (external_part (phase_result_value R r)) \<longleftrightarrow>
   pr_external_error r \<noteq> None \<and> is_retryable_external_error phase (carried_error R r)"
  using not_retryable_without_error by (auto simp: carried_error_def split: option.split)

definition external_used :: "retry_state \<Rightarrow> string \<Rightarrow> int" where
  "external_used st phase = or_default 0 (map_of (rt_external_by_phase st) phase)"

text \<open>Whether the loop runs the phase again: the result carries a retryable error, the budget of the phase
  is not spent, and the circuit of the error's class does not open on it.\<close>

definition reruns :: "(string \<Rightarrow> string) \<Rightarrow> renderer \<Rightarrow> int \<Rightarrow> string \<Rightarrow> retry_state \<Rightarrow> bool" where
  "reruns sha R cap phase st \<longleftrightarrow>
     (\<exists>r e. rt_result st = Some r \<and> pr_exit_kind r = ''external_error'' \<and> pr_external_error r = Some e \<and>
        is_retryable_external_error phase (external_error_value R e) \<and> 0 < cap \<and> external_used st phase < cap \<and>
        \<not> halts (snd (snd (advance_circuit sha (rt_circuits st) (external_error_value R e) [] []))))"

definition external_turn :: "(string \<Rightarrow> string) \<Rightarrow> renderer \<Rightarrow> string \<Rightarrow> (nat \<Rightarrow> phase_result option) \<Rightarrow> retry_state \<Rightarrow> retry_state" where
  "external_turn sha R phase run st =
     st\<lparr>rt_circuits := fst (advance_circuit sha (rt_circuits st) (carried_error R (the (rt_result st))) [] []),
        rt_external_by_phase := AList.update phase (external_used st phase + 1) (rt_external_by_phase st),
        rt_external_retries := rt_external_retries st + 1,
        rt_result := run (rt_runs st), rt_runs := Suc (rt_runs st)\<rparr>"

lemma external_error_is_object [simp]: "true_value (external_error_value R e)"
  by (simp add: external_error_value_def)

lemma carried_true: "pr_external_error r = Some e \<Longrightarrow> true_value (carried_error R r) \<and> carried_error R r = external_error_value R e"
  by (simp add: carried_error_def external_error_value_def)

lemma external_loop_turn:
  "reruns sha R cap phase st \<Longrightarrow>
     external_loop sha R cap phase run st = external_loop sha R cap phase run (external_turn sha R phase run st)"
  "\<not> reruns sha R cap phase st \<Longrightarrow>
     rt_runs (external_loop sha R cap phase run st) = rt_runs st"
proof -
  assume "reruns sha R cap phase st"
  then obtain r e where r: "rt_result st = Some r" "pr_exit_kind r = ''external_error''" "pr_external_error r = Some e"
    "is_retryable_external_error phase (external_error_value R e)" "0 < cap" "external_used st phase < cap"
    "\<not> halts (snd (snd (advance_circuit sha (rt_circuits st) (external_error_value R e) [] [])))"
    by (auto simp: reruns_def)
  have "is_retryable_external_error phase (external_part (phase_result_value R r))"
    using r(3,4) by simp
  then show "external_loop sha R cap phase run st = external_loop sha R cap phase run (external_turn sha R phase run st)"
    using r
    by (subst external_loop.simps)
      (simp add: external_decision_cases external_used_def [symmetric] carried_true Let_def case_prod_unfold
        retry_def external_turn_def)
next
  assume no: "\<not> reruns sha R cap phase st"
  show "rt_runs (external_loop sha R cap phase run st) = rt_runs st"
  proof (cases "rt_result st")
    case None
    then show ?thesis by (subst external_loop.simps) simp
  next
    case (Some r)
    show ?thesis
    proof (cases "0 < cap \<and> pr_exit_kind r = ''external_error'' \<and>
        is_retryable_external_error phase (external_part (phase_result_value R r)) \<and> external_used st phase < cap")
      case True
      then obtain e where e: "pr_external_error r = Some e" "is_retryable_external_error phase (external_error_value R e)"
        unfolding retryable_carried by (auto simp: carried_true)
      with no True Some have "halts (snd (snd (advance_circuit sha (rt_circuits st) (external_error_value R e) [] [])))"
        by (auto simp: reruns_def)
      then show ?thesis
        using Some True e
        by (subst external_loop.simps)
          (simp add: external_decision_cases external_used_def [symmetric] carried_true Let_def case_prod_unfold retry_def)
    next
      case False
      then show ?thesis
        using Some
        by (subst external_loop.simps)
          (auto simp: external_decision_cases external_used_def [symmetric] Let_def halt_def
            simp del: external_part_result)
    qed
  qed
qed

lemma external_loop_runs:
  "rt_runs (external_loop sha R cap phase run st) \<le> rt_runs st + nat (cap - external_used st phase)"
proof (induction "nat (cap - external_used st phase)" arbitrary: st rule: less_induct)
  case less
  show ?case
  proof (cases "reruns sha R cap phase st")
    case True
    let ?st = "external_turn sha R phase run st"
    have used: "external_used ?st phase = external_used st phase + 1"
      unfolding external_used_def [of ?st] by (simp add: external_turn_def or_default_def update_conv)
    moreover have "external_used st phase < cap" using True by (auto simp: reruns_def)
    ultimately have "nat (cap - external_used ?st phase) < nat (cap - external_used st phase)" by simp
    from less [OF this] show ?thesis
      using \<open>external_used st phase < cap\<close> used
      by (simp add: external_loop_turn(1) [OF True] external_turn_def)
  next
    case False
    then show ?thesis by (simp add: external_loop_turn(2))
  qed
qed

text \<open>The loop over transient external failures runs a phase again at most as often as the cap has left
  for it, and never runs a phase again that is not in the retryable list.
\<close>

theorem external_reruns_are_bounded:
  "rt_runs (external_loop sha R cap phase run st) \<le>
     rt_runs st + (if phase \<in> set EXTERNAL_RETRYABLE_PHASES then nat (cap - external_used st phase) else 0)"
proof (cases "phase \<in> set EXTERNAL_RETRYABLE_PHASES")
  case False
  then have "\<not> reruns sha R cap phase st" by (auto simp: reruns_def is_retryable_external_error_def)
  then show ?thesis by (simp add: external_loop_turn(2))
qed (simp add: external_loop_runs)

subsection \<open>The properties at concrete inputs\<close>

theorem circuit_opens_on_a_run_witness:
  "cs_open (transitions 2 (new_circuit Timeout_300s) [''a'', ''b'', ''b'', ''c''])"
proof -
  have "[''a'', ''b'', ''b'', ''c''] = [''a''] @ replicate (nat 2) ''b'' @ [''c'']"
    by (simp add: numeral_2_eq_2)
  then show ?thesis
    using circuit_opens_on_a_run [of 2 Timeout_300s "[''a'', ''b'', ''b'', ''c'']", THEN conjunct1] by fastforce
qed

theorem recovery_is_bounded_witness:
  "length (filter is_retry (recovery_run default_policy no_retries
      (replicate 5 (Plain (JObj []), ''plan'')))) \<le> 4"
proof -
  have "budget_left default_policy no_retries = 4"
    by (simp add: budget_left_def default_policy_def no_retries_def DEFAULT_MAX_CONTEXT_RETRIES_def
        DEFAULT_MAX_EXTERNAL_RETRIES_def DEFAULT_MAX_BLOCKED_RETRIES_def)
  then show ?thesis
    using recovery_is_bounded [of default_policy no_retries "replicate 5 (Plain (JObj []), ''plan'')"] by simp
qed

theorem handler_never_blocks_dispatch_witness:
  "\<exists>c. handler_record (\<lambda>s. s) \<lparr>xc_pending = [''T1''], xc_batch = None, xc_attempt = None, xc_provider = None,
      xc_ref = None, xc_blocked = [''T1'']\<rparr> = Some c \<and> pc_open c = []"
  using handler_never_blocks_dispatch [of "\<lparr>xc_pending = [''T1''], xc_batch = None, xc_attempt = None,
      xc_provider = None, xc_ref = None, xc_blocked = [''T1'']\<rparr>" "\<lambda>s. s", THEN conjunct2]
  by (auto simp: handler_record_eq)

definition sample_renderer :: renderer where
  "sample_renderer = \<lparr>shows_result = \<lambda>_. ''result'', shows_error = \<lambda>_. ''error''\<rparr>"

definition sample_exhausted :: retry_state where
  "sample_exhausted =
     \<lparr>rt_result = Some (emitted ''execute'' ''i1'' ''context_exhausted'' [] [] [] [] None), rt_context_retries = 0,
      rt_external_by_phase = [], rt_external_retries = 0, rt_circuits = [], rt_runs = 0\<rparr>"

theorem context_retries_by_circuit_witness:
  "rt_runs (snd (context_retries (\<lambda>_. ''x'') sample_renderer 2 ''execute''
     (\<lambda>_. Some (emitted ''execute'' ''i1'' ''context_exhausted'' [] [] [] [] None)) sample_exhausted)) \<le> 1"
proof -
  have "shared_circuit sample_exhausted = new_circuit Unknown_Failure"
    by (simp add: shared_circuit_def sample_exhausted_def or_default_def)
  then have "\<not> cs_open (shared_circuit sample_exhausted)" "0 \<le> cs_count (shared_circuit sample_exhausted)"
    by (simp_all add: new_circuit_def)
  moreover have "always_exhausted (\<lambda>_. Some (emitted ''execute'' ''i1'' ''context_exhausted'' [] [] [] [] None)) sample_exhausted"
    by (simp add: always_exhausted_def sample_exhausted_def emitted_def)
  ultimately show ?thesis
    using context_retries_by_circuit [of 2 "\<lambda>_. ''x''" sample_exhausted _ sample_renderer, THEN conjunct1]
    by (auto simp: sample_exhausted_def)
qed

end
