(* ===== verification/Resolution_Contract.thy ===== *)
theory Resolution_Contract
  imports Phase_Result
begin

section \<open>Resolutions\<close>

text \<open>
  The records by which an operator settles what blocks an execution: user actions, kept in a file of the
  plan and in its state, and quality findings. \<^verbatim>\<open>resolution_contract.py\<close>, \<^verbatim>\<open>resolutions.py\<close> and
  \<^verbatim>\<open>quality_resolutions.py\<close>.
\<close>

subsection \<open>The shared contract\<close>

datatype resolution_source = Disk | Memory

definition SUPPORTED_USER_ACTION_RESOLUTION_STATES :: "string list" where
  "SUPPORTED_USER_ACTION_RESOLUTION_STATES =
     [''satisfied'', ''accepted_blocked'', ''waived'', ''manual_required'', ''rejected'']"

definition SUPPORTED_QUALITY_RESOLUTION_STATES :: "string list" where
  "SUPPORTED_QUALITY_RESOLUTION_STATES =
     [''accepted_with_debt'', ''fixed'', ''manual_required'', ''rejected'']"

definition FALLBACK_STATES :: "string list" where
  "FALLBACK_STATES = [''accepted_blocked'', ''waived'']"

definition HARD_BLOCK_STATES :: "string list" where
  "HARD_BLOCK_STATES = [''manual_required'', ''rejected'']"

datatype behavior = Omit | Fallback | Hard_Block | Advance_With_Debt | Rerun_Required | Resolved

fun behavior_value :: "behavior \<Rightarrow> string" where
  "behavior_value Omit = ''omit''"
| "behavior_value Fallback = ''fallback''"
| "behavior_value Hard_Block = ''hard_block''"
| "behavior_value Advance_With_Debt = ''advance_with_debt''"
| "behavior_value Rerun_Required = ''rerun_required''"
| "behavior_value Resolved = ''resolved''"

text \<open>The field of the source, or the alias the other source uses.\<close>

definition aliased_record_value ::
  "resolution_source \<Rightarrow> string \<Rightarrow> string \<Rightarrow> (string \<times> json) list \<Rightarrow> json option" where
  "aliased_record_value source disk_field memory_field record =
     (let (primary, alias) = (case source of Disk \<Rightarrow> (disk_field, memory_field)
                                           | Memory \<Rightarrow> (memory_field, disk_field))
      in case map_of record primary of Some v \<Rightarrow> Some v | None \<Rightarrow> map_of record alias)"

definition resolution_state :: "resolution_source \<Rightarrow> json \<Rightarrow> string option" where
  "resolution_state source record =
     (case record of
        JObj r \<Rightarrow> (case aliased_record_value source ''state'' ''resolution'' r of
                     Some (JStr s) \<Rightarrow> Some s | _ \<Rightarrow> None)
      | _ \<Rightarrow> None)"

definition named_tasks :: "json list \<Rightarrow> string list" where
  "named_tasks xs = filter (\<lambda>s. s \<noteq> []) (List.map_filter as_str xs)"

definition resolution_applies_to_task :: "resolution_source \<Rightarrow> json \<Rightarrow> string option \<Rightarrow> bool" where
  "resolution_applies_to_task source record task_id \<longleftrightarrow>
     (case record of
        JObj r \<Rightarrow>
          let scope = aliased_record_value source ''applies_to_task_ids'' ''applies_to_tasks'' r
          in if source = Disk \<and> task_id = None then False
             else (case scope of
                 None \<Rightarrow> True
               | Some v \<Rightarrow>
                   if source = Memory \<and> v = JNull then True
                   else (case v of
                       JArr xs \<Rightarrow>
                         if source = Memory \<and> task_id = None then True
                         else if named_tasks xs = [] then source = Disk
                         else (case task_id of Some t \<Rightarrow> t \<in> set (named_tasks xs) | None \<Rightarrow> False)
                     | _ \<Rightarrow> False))
      | _ \<Rightarrow> False)"

definition event_sort_key :: "(string \<times> json) list \<Rightarrow> string" where
  "event_sort_key e =
     (let t = dget e ''timestamp'' JNull; c = dget e ''created_at'' JNull
      in if truthy t then py_str t else if truthy c then py_str c else [])"

definition has_key :: "string \<Rightarrow> (string \<times> json) list \<Rightarrow> string option" where
  "has_key field e =
     (case dget e field JNull of JStr k \<Rightarrow> if blank k then None else Some k | _ \<Rightarrow> None)"

text \<open>The key of an event the aggregation accepts.\<close>

definition event_key :: "string \<Rightarrow> string \<Rightarrow> string list option \<Rightarrow> (string \<times> json) list \<Rightarrow> string option" where
  "event_key key_field state_field valid e =
     (case has_key key_field e of
        None \<Rightarrow> None
      | Some k \<Rightarrow>
          (case valid of
             None \<Rightarrow> Some k
           | Some states \<Rightarrow>
               (case dget e state_field JNull of JStr s \<Rightarrow> if s \<in> set states then Some k else None | _ \<Rightarrow> None)))"

definition keep_latest ::
  "((string \<times> json) list \<Rightarrow> string option) \<Rightarrow> (string \<times> json) list \<Rightarrow>
   (string \<times> (string \<times> json) list) list \<Rightarrow> (string \<times> (string \<times> json) list) list" where
  "keep_latest key e latest = (case key e of Some k \<Rightarrow> AList.update k e latest | None \<Rightarrow> latest)"

definition latest_events_by_key ::
  "string \<Rightarrow> string \<Rightarrow> string list option \<Rightarrow> json list \<Rightarrow> (string \<times> (string \<times> json) list) list" where
  "latest_events_by_key key_field state_field valid events =
     fold (keep_latest (event_key key_field state_field valid))
       (sort_key event_sort_key (List.map_filter as_dict events)) []"

record event_details =
  ev_fallback_mode :: "string option"
  ev_tasks :: "(string \<times> string list) option"
  ev_instructions :: "string option"
  ev_reason :: "string option"
  ev_phase :: "string option"
  ev_evidence :: "string list option"
  ev_debt_note :: "string option"

text \<open>An empty timestamp is replaced by the clock.\<close>

definition build_base_resolution_event ::
  "string \<Rightarrow> string \<Rightarrow> string \<Rightarrow> string \<Rightarrow> string option \<Rightarrow> string \<Rightarrow> event_details \<Rightarrow> (string \<times> json) list" where
  "build_base_resolution_event id_field id_value resolution created_by timestamp now d =
     (let ts = (case timestamp of Some t \<Rightarrow> if t \<noteq> [] then t else now | None \<Rightarrow> now);
          base = dict_update [] [(id_field, JStr id_value), (''resolution'', JStr resolution),
            (''timestamp'', JStr ts), (''created_at'', JStr ts), (''created_by'', JStr created_by)]
      in dict_update base
          (opt_field ''fallback_mode'' JStr (ev_fallback_mode d)
           @ (case ev_tasks d of Some (f, ts) \<Rightarrow> [(f, JArr (map JStr ts))] | None \<Rightarrow> [])
           @ opt_field ''instructions'' JStr (ev_instructions d)
           @ opt_field ''reason'' JStr (ev_reason d)
           @ opt_field ''phase'' JStr (ev_phase d)
           @ opt_field ''evidence'' (\<lambda>xs. JArr (map JStr xs)) (ev_evidence d)
           @ opt_field ''debt_note'' JStr (ev_debt_note d)))"

definition nonblank_str :: "json \<Rightarrow> bool" where
  "nonblank_str v \<longleftrightarrow> (case v of JStr s \<Rightarrow> \<not> blank s | _ \<Rightarrow> False)"

abbreviation invalid_args :: "string \<Rightarrow> phase_error" where
  "invalid_args message \<equiv> Cli_Error ''invalid_args'' message"

definition validate_optional_string_list ::
  "(string \<times> json) list \<Rightarrow> string \<Rightarrow> string \<Rightarrow> phase_error + unit" where
  "validate_optional_string_list e field message =
     ensure (case dget e field JNull of JNull \<Rightarrow> True | JArr xs \<Rightarrow> list_all nonblank_str xs | _ \<Rightarrow> False)
       (invalid_args message)"

definition validate_optional_string_field ::
  "(string \<times> json) list \<Rightarrow> string \<Rightarrow> string \<Rightarrow> phase_error + unit" where
  "validate_optional_string_field e field message =
     ensure (dget e field JNull = JNull \<or> nonblank_str (dget e field JNull)) (invalid_args message)"

definition classify_resolution_behavior :: "string \<Rightarrow> behavior" where
  "classify_resolution_behavior resolution =
     (if resolution = ''satisfied'' then Omit
      else if resolution \<in> set FALLBACK_STATES then Fallback
      else Hard_Block)"

definition resolution_recommended_action :: "resolution_source \<Rightarrow> json \<Rightarrow> string" where
  "resolution_recommended_action source record =
     (case resolution_state source record of
        Some s \<Rightarrow>
          if s \<in> set FALLBACK_STATES then ''continue_with_fallback''
          else if s = ''satisfied'' then ''retry_execute''
          else if s = ''rejected'' then ''cannot_continue''
          else ''awaiting_human''
      | None \<Rightarrow> ''awaiting_human'')"

definition classify_quality_resolution_behavior :: "bool \<Rightarrow> string \<Rightarrow> behavior" where
  "classify_quality_resolution_behavior deviation_active resolution =
     (if resolution = ''accepted_with_debt'' then Advance_With_Debt
      else if resolution = ''fixed'' then (if deviation_active then Rerun_Required else Resolved)
      else Hard_Block)"

subsection \<open>User actions on disk\<close>

text \<open>A file of the plan: absent, unreadable with the text of the exception, or the value it decodes to.\<close>

datatype json_file = No_File | Bad_File string | Json_File json

abbreviation invalid_resolutions :: "string \<Rightarrow> phase_error" where
  "invalid_resolutions message \<equiv> Cli_Error ''invalid_user_action_resolutions'' message"

definition RESOLUTIONS_FILE :: string where
  "RESOLUTIONS_FILE = ''user_action_resolutions.json''"

definition quoted :: "string \<Rightarrow> string" where
  "quoted s = [CHR 0x27] @ s @ [CHR 0x27]"

definition sorted_states :: string where
  "sorted_states = join '', '' (sorted_set SUPPORTED_USER_ACTION_RESOLUTION_STATES)"

definition check_disk_entry :: "string \<times> json \<Rightarrow> phase_error + unit" where
  "check_disk_entry = (\<lambda>(key, value).
     res_bind (ensure (\<not> blank key)
       (invalid_resolutions (RESOLUTIONS_FILE @ '' keys must be non-empty strings (action IDs).''))) (\<lambda>_.
     case value of
       JObj v \<Rightarrow>
         let state = dget v ''state'' JNull
         in ensure (case state of JStr s \<Rightarrow> s \<in> set SUPPORTED_USER_ACTION_RESOLUTION_STATES | _ \<Rightarrow> False)
              (invalid_resolutions (''Resolution for action '' @ quoted key @ '' has invalid or missing state '' @
                 quoted (py_repr state) @ ''. Must be one of: '' @ sorted_states @ ''.''))
     | _ \<Rightarrow> Inl (invalid_resolutions (''Resolution for action '' @ quoted key @ '' must be a JSON object.''))))"

definition load_user_action_resolutions :: "json_file \<Rightarrow> phase_error + (string \<times> json) list" where
  "load_user_action_resolutions f =
     (case f of
        No_File \<Rightarrow> Inr []
      | Bad_File exc \<Rightarrow> Inl (invalid_resolutions (''Failed to parse '' @ RESOLUTIONS_FILE @ '': '' @ exc))
      | Json_File (JObj d) \<Rightarrow> res_bind (check_each check_disk_entry d) (\<lambda>_. Inr d)
      | Json_File v \<Rightarrow>
          Inl (invalid_resolutions (RESOLUTIONS_FILE @ '' must be a JSON object keyed by action_id, got '' @
            type_name (Plain v) @ ''.'')))"

definition copied_fields :: "(string \<times> string) list" where
  "copied_fields =
     [(''created_at'', ''created_at''), (''created_at'', ''timestamp''), (''created_by'', ''created_by''),
      (''fallback_mode'', ''fallback_mode''), (''instructions'', ''instructions''), (''reason'', ''reason''),
      (''phase'', ''phase''), (''debt_note'', ''debt_note'')]"

definition disk_resolution_to_memory_event :: "string \<Rightarrow> (string \<times> json) list \<Rightarrow> (string \<times> json) list" where
  "disk_resolution_to_memory_event action_id r =
     [(''action_id'', JStr action_id), (''resolution'', dget r ''state'' JNull)]
     @ concat (map (\<lambda>(source, target). raw_field target (dget r source JNull)) copied_fields)
     @ (case dget r ''evidence'' JNull of
          JArr xs \<Rightarrow> [(''evidence'', JArr (filter is_str xs))] | _ \<Rightarrow> [])
     @ (case dget r ''applies_to_task_ids'' JNull of
          JArr xs \<Rightarrow> if named_tasks xs = [] then [] else [(''applies_to_tasks'', JArr (map JStr (named_tasks xs)))]
        | _ \<Rightarrow> [])"

definition disk_events :: "(string \<times> json) list \<Rightarrow> json list" where
  "disk_events d = map (\<lambda>(action_id, v). JObj (disk_resolution_to_memory_event action_id (dict_or_empty v))) d"

text \<open>The events of the state, then those of the file; no plan directory is \<open>None\<close>.\<close>

definition effective_user_action_resolutions ::
  "json_file option \<Rightarrow> json \<Rightarrow> phase_error + (string \<times> (string \<times> json) list) list" where
  "effective_user_action_resolutions f state =
     (let meta = (case state of JObj st \<Rightarrow> dget st ''meta'' JNull | _ \<Rightarrow> JNull);
          raw = (case meta of JObj m \<Rightarrow> dget m ''user_action_resolutions'' JNull | _ \<Rightarrow> JNull);
          in_state = (case raw of JArr xs \<Rightarrow> xs | _ \<Rightarrow> [])
      in res_bind (case f of None \<Rightarrow> Inr [] | Some g \<Rightarrow> res_bind (load_user_action_resolutions g) (\<lambda>d. Inr (disk_events d)))
           (\<lambda>on_disk. Inr (latest_events_by_key ''action_id'' ''resolution''
              (Some SUPPORTED_USER_ACTION_RESOLUTION_STATES) (in_state @ on_disk))))"

record upsert_args =
  up_reason :: string
  up_fallback_mode :: string
  up_applies_to_task_ids :: "string list option"
  up_instructions :: string
  up_created_by :: string

definition text_or :: "string \<Rightarrow> json \<Rightarrow> json" where
  "text_or s prior = (if s \<noteq> [] then JStr s else prior)"

definition upserted_entry ::
  "string \<Rightarrow> string \<Rightarrow> string \<Rightarrow> upsert_args \<Rightarrow> (string \<times> json) list \<Rightarrow> (string \<times> json) list" where
  "upserted_entry now action_id state u prior =
     [(''action_id'', JStr action_id),
      (''state'', JStr state),
      (''reason'', text_or (up_reason u) (dget prior ''reason'' (JStr []))),
      (''fallback_mode'', text_or (up_fallback_mode u) (dget prior ''fallback_mode'' (JStr []))),
      (''applies_to_task_ids'',
         case up_applies_to_task_ids u of
           Some ts \<Rightarrow> JArr (map JStr ts) | None \<Rightarrow> dget prior ''applies_to_task_ids'' (JArr [])),
      (''instructions'', text_or (up_instructions u) (dget prior ''instructions'' (JStr []))),
      (''created_at'', case dget prior ''created_at'' JNull of JStr c \<Rightarrow> JStr c | _ \<Rightarrow> JStr now),
      (''created_by'',
         let v = text_or (up_created_by u) (dget prior ''created_by'' (JStr []))
         in if truthy v then v else JStr ''cli'')]"

definition upsert_user_action_resolution ::
  "string \<Rightarrow> json_file \<Rightarrow> string \<Rightarrow> string \<Rightarrow> upsert_args \<Rightarrow> phase_error + (string \<times> json) list" where
  "upsert_user_action_resolution now f action_id state u =
     (if state \<notin> set SUPPORTED_USER_ACTION_RESOLUTION_STATES
      then Inl (invalid_resolutions (''Unsupported resolution state '' @ str_repr state @
             ''. Must be one of: '' @ sorted_states @ ''.''))
      else res_bind (load_user_action_resolutions f) (\<lambda>existing.
             Inr (AList.update action_id
               (JObj (upserted_entry now action_id state u (dict_or_empty (dget existing action_id JNull)))) existing)))"

subsection \<open>Quality findings\<close>

definition VALID_RESOLUTIONS :: "string list" where
  "VALID_RESOLUTIONS = [''accepted_with_debt'', ''fixed'', ''manual_required'', ''rejected'']"

definition validate_debt :: "(string \<times> json) list \<Rightarrow> phase_error + unit" where
  "validate_debt e =
     res_bind (ensure (nonblank_str (dget e ''phase'' JNull))
       (invalid_args ''accepted_with_debt quality resolution requires phase'')) (\<lambda>_.
     res_bind (ensure (case dget e ''evidence'' JNull of JArr xs \<Rightarrow> xs \<noteq> [] | _ \<Rightarrow> False)
       (invalid_args ''accepted_with_debt quality resolution requires evidence'')) (\<lambda>_.
     ensure (nonblank_str (dget e ''debt_note'' JNull))
       (invalid_args ''accepted_with_debt quality resolution requires debt_note'')))"

definition validate_quality_resolution_event :: "json \<Rightarrow> phase_error + unit" where
  "validate_quality_resolution_event event =
     (case event of
        JObj e \<Rightarrow>
          res_bind (ensure (nonblank_str (dget e ''blocker_id'' JNull))
            (invalid_args ''quality resolution requires blocker_id'')) (\<lambda>_.
          res_bind (ensure (case dget e ''resolution'' JNull of JStr s \<Rightarrow> s \<in> set VALID_RESOLUTIONS | _ \<Rightarrow> False)
            (invalid_args (''quality resolution must be one of: '' @ join '', '' VALID_RESOLUTIONS))) (\<lambda>_.
          res_bind (validate_optional_string_field e ''phase'' ''quality resolution phase must be non-empty'') (\<lambda>_.
          res_bind (validate_optional_string_list e ''evidence''
            ''quality resolution evidence must be a list of non-empty strings'') (\<lambda>_.
          res_bind (validate_optional_string_field e ''debt_note'' ''quality resolution debt_note must be non-empty'') (\<lambda>_.
          res_bind (validate_optional_string_field e ''fallback_mode'' ''quality resolution fallback_mode must be non-empty'') (\<lambda>_.
          if dget e ''resolution'' JNull = JStr ''accepted_with_debt'' then validate_debt e else Inr ()))))))
      | _ \<Rightarrow> Inl (invalid_args ''quality resolution event must be an object''))"

definition build_quality_resolution_event ::
  "string \<Rightarrow> string \<Rightarrow> string \<Rightarrow> string option \<Rightarrow> string \<Rightarrow> event_details \<Rightarrow> phase_error + (string \<times> json) list" where
  "build_quality_resolution_event blocker_id resolution created_by timestamp now d =
     (let e = build_base_resolution_event ''blocker_id'' blocker_id resolution created_by timestamp now
                (d\<lparr>ev_tasks := None, ev_instructions := None, ev_reason := None\<rparr>)
      in res_bind (validate_quality_resolution_event (JObj e)) (\<lambda>_. Inr e))"

definition latest_quality_resolutions :: "json list \<Rightarrow> (string \<times> (string \<times> json) list) list" where
  "latest_quality_resolutions events = latest_events_by_key ''blocker_id'' ''resolution'' None events"

definition is_non_terminal_quality_resolution :: "bool \<Rightarrow> string \<Rightarrow> bool" where
  "is_non_terminal_quality_resolution deviation_active resolution \<longleftrightarrow>
     classify_quality_resolution_behavior deviation_active resolution \<in> {Advance_With_Debt, Resolved}"

end
