(* ===== verification/Blocker_Recovery.thy ===== *)
theory Blocker_Recovery
  imports Resolution_Contract Py_Regex Plan_Workflow
begin

section \<open>Recovery from blockers\<close>

text \<open>
  \<^verbatim>\<open>blocker_recovery.py\<close>: what still blocks an execution, given the blocked tasks and deviations of its
  phase result and the resolutions an operator recorded; the repair receipt of a deterministic failure;
  and the transition \<^verbatim>\<open>recover-blocked\<close> of \<^verbatim>\<open>planning/control_binding.py\<close> that rests on them. Running a
  test and reading a Git head are parameters.
\<close>

subsection \<open>Failure identity and phase repair\<close>

definition IDENTITY_FIELDS :: "string list" where
  "IDENTITY_FIELDS =
     [''failure_kind'', ''kind'', ''phase'', ''step'', ''task_id'', ''blocked_task_id'', ''message'', ''error'',
      ''timestamp'']"

definition compact_failure_identity :: "(string \<Rightarrow> string) \<Rightarrow> json \<Rightarrow> (string \<times> json) list" where
  "compact_failure_identity sha value =
     (case value of
        JObj d \<Rightarrow>
          let kept = filter (\<lambda>(k, v). v \<notin> {JNull, JStr [], JArr [], JObj []})
                       (map (\<lambda>k. (k, dget d k JNull)) IDENTITY_FIELDS)
          in if kept = [] then []
             else kept @ [(''fingerprint'', JStr (sha (compact_json (JObj kept))))]
      | _ \<Rightarrow> [])"

definition SUPPORTED_REPAIRS :: "(string \<times> json) list" where
  "SUPPORTED_REPAIRS =
     [(''deterministic_phase_failure'', JStr ''repair_phase_contract''),
      (''provider_contract_failure'', JStr ''repair_provider_contract'')]"

text \<open>\<^verbatim>\<open>str(x or "")\<close>.\<close>

definition str_or_empty :: "json \<Rightarrow> string" where
  "str_or_empty v = (if truthy v then py_str v else [])"

text \<open>What \<^verbatim>\<open>git rev-parse HEAD\<close> gives in a directory: it cannot be run, or its return code and output.\<close>

datatype git_result = Git_Unavailable | Git_Result int string

record phase_repair =
  rp_failure_kind :: string
  rp_phase :: string
  rp_repair_commit :: string
  rp_failure_fingerprint :: string
  rp_repair_scope :: string
  rp_repair_root :: string

definition lower_hex :: "string \<Rightarrow> bool" where
  "lower_hex s \<longleftrightarrow> list_all (\<lambda>c. c \<in> set ''0123456789abcdef'') s"

definition repair_scope_of :: "string \<Rightarrow> json \<Rightarrow> string" where
  "repair_scope_of kind scope =
     (let s = lower (strip (str_or_empty scope))
      in if s \<noteq> [] then s
         else if kind = ''provider_contract_failure'' then ''engine_runtime'' else ''target_workspace'')"

definition current_head :: "git_result \<Rightarrow> phase_error + string" where
  "current_head g =
     (case g of
        Git_Unavailable \<Rightarrow> Inl (Cli_Error ''phase_repair_head_unavailable''
          ''deterministic phase recovery could not verify the HEAD'')
      | Git_Result code out \<Rightarrow> Inr (if code = 0 then lower (strip out) else []))"

text \<open>The error messages are abridged; the codes are those of the source.\<close>

definition validated_deterministic_phase_repair ::
  "(string \<Rightarrow> string) \<Rightarrow> (string \<Rightarrow> git_result) \<Rightarrow> string \<Rightarrow> string \<Rightarrow> (string \<times> json) list \<Rightarrow>
   (string \<times> json) list \<Rightarrow> json \<Rightarrow> json \<Rightarrow> json \<Rightarrow> phase_error + phase_repair option" where
  "validated_deterministic_phase_repair sha git engine_root project_dir state cursor commit fingerprint scope =
     (case dget state ''latest_failure'' JNull of
        JObj failure \<Rightarrow>
          (let kind = str_or_empty (dget failure ''kind'' JNull);
               phase = strip (str_or_empty (dget failure ''phase'' JNull));
               cursor_phase = strip (str_or_empty (dget cursor ''phase'' JNull));
               current = strip (str_or_empty (dget (compact_failure_identity sha (JObj failure)) ''fingerprint'' JNull));
               wanted = strip (str_or_empty fingerprint);
               com = lower (strip (str_or_empty commit));
               sc = repair_scope_of kind scope;
               root = (if sc = ''engine_runtime'' then engine_root else project_dir)
           in if dget SUPPORTED_REPAIRS kind JNull \<noteq> dget cursor ''retry_strategy'' JNull then Inr None
              else
                res_bind (ensure (phase \<noteq> [] \<and> phase = cursor_phase)
                  (Cli_Error ''phase_repair_cursor_mismatch'' ''failure and resume phase differ'')) (\<lambda>_.
                res_bind (ensure (current \<noteq> [] \<and> wanted = current)
                  (Cli_Error ''phase_repair_fingerprint_mismatch'' ''not the current failure fingerprint'')) (\<lambda>_.
                res_bind (ensure (length com = 40 \<and> lower_hex com)
                  (Cli_Error ''missing_phase_repair_commit'' ''requires --repair-commit'')) (\<lambda>_.
                res_bind (ensure (sc \<in> {''target_workspace'', ''engine_runtime''})
                  (Cli_Error ''invalid_phase_repair_scope'' ''target_workspace or engine_runtime'')) (\<lambda>_.
                res_bind (ensure (\<not> (kind = ''provider_contract_failure'' \<and> sc \<noteq> ''engine_runtime''))
                  (Cli_Error ''phase_repair_scope_mismatch'' ''must bind to engine_runtime'')) (\<lambda>_.
                res_bind (current_head (git root)) (\<lambda>head.
                res_bind (ensure (head = com)
                  (Cli_Error ''phase_repair_commit_mismatch'' ''repair commit does not match HEAD'')) (\<lambda>_.
                Inr (Some \<lparr>rp_failure_kind = kind, rp_phase = cursor_phase, rp_repair_commit = com,
                     rp_failure_fingerprint = current, rp_repair_scope = sc, rp_repair_root = root\<rparr>)))))))))
      | _ \<Rightarrow> Inr None)"

subsection \<open>Tasks and their gate\<close>

definition tasks_by_id :: "(string \<times> json) list \<Rightarrow> (string \<times> (string \<times> json) list) list" where
  "tasks_by_id finalize =
     (case dget finalize ''tasks'' (JArr []) of
        JArr ts \<Rightarrow> fold (\<lambda>t m. case t of
            JObj d \<Rightarrow> (case dget d ''id'' JNull of JStr i \<Rightarrow> AList.update i d m | _ \<Rightarrow> m) | _ \<Rightarrow> m) ts []
      | _ \<Rightarrow> [])"

definition depends_on :: "(string \<times> json) list \<Rightarrow> string list" where
  "depends_on task = (case dget task ''depends_on'' (JArr []) of JArr xs \<Rightarrow> List.map_filter as_str xs | _ \<Rightarrow> [])"

definition starts_with :: "string \<Rightarrow> string \<Rightarrow> bool" where
  "starts_with pre s \<longleftrightarrow> take (length pre) s = pre"

definition is_synthetic_before_execute_gate_task :: "(string \<times> json) list \<Rightarrow> bool" where
  "is_synthetic_before_execute_gate_task task \<longleftrightarrow>
     (case dget task ''description'' JNull of JStr d \<Rightarrow> starts_with ''Read user_actions.md.'' d | _ \<Rightarrow> False)"

text \<open>The tasks that depend directly on one.\<close>

definition protected_by :: "(string \<times> (string \<times> json) list) list \<Rightarrow> string \<Rightarrow> string list" where
  "protected_by tasks i =
     sorted_set (map fst (filter (\<lambda>(j, t). j \<noteq> i \<and> i \<in> set (depends_on t)) tasks))"

definition gate_candidates :: "(string \<times> (string \<times> json) list) list \<Rightarrow> (string \<times> string list) list" where
  "gate_candidates tasks =
     List.map_filter (\<lambda>(i, t).
       if depends_on t = [] \<and> is_synthetic_before_execute_gate_task t \<and>
          set (protected_by tasks i) = set (map fst tasks) - {i}
       then Some (i, protected_by tasks i) else None) tasks"

definition find_synthetic_before_execute_gate :: "(string \<times> json) list \<Rightarrow> (string \<times> string list) option" where
  "find_synthetic_before_execute_gate finalize =
     (let tasks = tasks_by_id finalize
      in if length tasks < 2 then None
         else (case gate_candidates tasks of [c] \<Rightarrow> Some c | _ \<Rightarrow> None))"

record prerequisite_scope =
  ps_action_id :: string
  ps_action :: "(string \<times> json) list"
  ps_effective_task_ids :: "string list"
  ps_explicit_task_ids :: "string list"
  ps_gate_task_id :: "string option"
  ps_protected_task_ids :: "string list"
  ps_malformed_reason :: "string option"

definition plain_scope :: "string \<Rightarrow> (string \<times> json) list \<Rightarrow> prerequisite_scope" where
  "plain_scope action_id action =
     \<lparr>ps_action_id = action_id, ps_action = action, ps_effective_task_ids = [], ps_explicit_task_ids = [],
      ps_gate_task_id = None, ps_protected_task_ids = [], ps_malformed_reason = None\<rparr>"

text \<open>The list of texts a value is.\<close>

definition str_list :: "json \<Rightarrow> string list option" where
  "str_list v = (case v of JArr xs \<Rightarrow> if list_all is_str xs then Some (List.map_filter as_str xs) else None | _ \<Rightarrow> None)"

definition metadata_synthetic_gate_scope :: "string set \<Rightarrow> (string \<times> json) list \<Rightarrow> (string \<times> string list) option" where
  "metadata_synthetic_gate_scope known action =
     (case (dget action ''synthetic_gate_task_id'' JNull,
            str_list (dget action ''synthetic_gate_protected_task_ids'' JNull)) of
        (JStr g, Some ids) \<Rightarrow> if g \<in> known \<and> set ids \<subseteq> known then Some (g, ids) else None
      | _ \<Rightarrow> None)"

definition gate_scope :: "prerequisite_scope \<Rightarrow> string \<times> string list \<Rightarrow> prerequisite_scope" where
  "gate_scope s = (\<lambda>(g, ids).
     s\<lparr>ps_effective_task_ids := sorted_set (g # ids), ps_gate_task_id := Some g, ps_protected_task_ids := ids\<rparr>)"

definition prerequisite_scope_of ::
  "string set \<Rightarrow> (string \<times> string list) option \<Rightarrow> string \<Rightarrow> (string \<times> json) list \<Rightarrow> prerequisite_scope" where
  "prerequisite_scope_of known gate action_id action =
     (let base = plain_scope action_id action;
          blocks = dget action ''blocks_task_ids'' JNull
      in if blocks \<in> {JNull, JArr []}
         then (case metadata_synthetic_gate_scope known action of
                 Some g \<Rightarrow> gate_scope base g
               | None \<Rightarrow>
                   (case gate of
                      Some g \<Rightarrow>
                        if dget action ''phase'' JNull = JStr ''before_execute'' then gate_scope base g
                        else base\<lparr>ps_malformed_reason := Some ''missing task scope and no derivable synthetic gate''\<rparr>
                    | None \<Rightarrow> base\<lparr>ps_malformed_reason := Some ''missing task scope and no derivable synthetic gate''\<rparr>))
         else
           (case str_list blocks of
              Some ids \<Rightarrow>
                if [] \<in> set ids
                then base\<lparr>ps_malformed_reason := Some ''blocks_task_ids must be a list of task IDs''\<rparr>
                else
                  let unknown = sorted_set (filter (\<lambda>i. i \<notin> known) ids)
                  in if unknown \<noteq> []
                     then base\<lparr>ps_explicit_task_ids := ids,
                               ps_malformed_reason := Some (''blocks_task_ids references unknown tasks: '' @ join '', '' unknown)\<rparr>
                     else base\<lparr>ps_effective_task_ids := ids, ps_explicit_task_ids := ids\<rparr>
            | None \<Rightarrow> base\<lparr>ps_malformed_reason := Some ''blocks_task_ids must be a list of task IDs''\<rparr>))"

definition add_scope ::
  "string set \<Rightarrow> (string \<times> string list) option \<Rightarrow> json \<Rightarrow> (string \<times> prerequisite_scope) list \<Rightarrow>
   (string \<times> prerequisite_scope) list" where
  "add_scope known gate action scopes =
     (case action of
        JObj a \<Rightarrow>
          (case dget a ''id'' JNull of
             JStr i \<Rightarrow> if blank i then scopes else AList.update i (prerequisite_scope_of known gate i a) scopes
           | _ \<Rightarrow> scopes)
      | _ \<Rightarrow> scopes)"

definition build_prerequisite_scopes :: "(string \<times> json) list \<Rightarrow> (string \<times> prerequisite_scope) list" where
  "build_prerequisite_scopes finalize =
     (case dget finalize ''user_actions'' (JArr []) of
        JArr actions \<Rightarrow>
          fold (add_scope (set (map fst (tasks_by_id finalize))) (find_synthetic_before_execute_gate finalize)) actions []
      | _ \<Rightarrow> [])"

subsection \<open>Blockers\<close>

record blocker_detail =
  bd_blocker_id :: string
  bd_blocker_kind :: string
  bd_task_id :: json
  bd_message :: string
  bd_blocking_action_ids :: "string list"
  bd_resolution_state :: string
  bd_resolution_behavior :: behavior
  bd_phase :: "string option"
  bd_evidence :: "string list"
  bd_debt_note :: "string option"
  bd_fallback_mode :: "string option"
  bd_instructions :: "string option"
  bd_reason :: "string option"
  bd_effective_task_ids :: "string list"
  bd_gate_task_id :: "string option"
  bd_protected_task_ids :: "string list"
  bd_is_non_terminal :: bool
  bd_is_terminal :: bool
  bd_requires_rerun :: bool
  bd_malformed_reason :: "string option"
  bd_suggested_commands :: "string list"

definition optional_str :: "json \<Rightarrow> string option" where
  "optional_str v = (if v = JNull then None else Some (py_str v))"

definition string_tuple :: "json \<Rightarrow> string list" where
  "string_tuple v = (case v of JStr s \<Rightarrow> [s] | JArr xs \<Rightarrow> List.map_filter as_str xs | _ \<Rightarrow> [])"

text \<open>\<^verbatim>\<open>resolution_state(event, source="memory") or UNRESOLVED\<close>, and the fields of an event or of none.\<close>

definition state_of_event :: "(string \<times> json) list option \<Rightarrow> string" where
  "state_of_event event =
     (case event of
        Some e \<Rightarrow> (case resolution_state Memory (JObj e) of Some s \<Rightarrow> if s \<noteq> [] then s else ''unresolved'' | None \<Rightarrow> ''unresolved'')
      | None \<Rightarrow> ''unresolved'')"

definition event_field :: "(string \<times> json) list option \<Rightarrow> string \<Rightarrow> json" where
  "event_field event k = (case event of Some e \<Rightarrow> dget e k JNull | None \<Rightarrow> JNull)"

definition prerequisite_blocker_id :: "string \<Rightarrow> string \<Rightarrow> string" where
  "prerequisite_blocker_id action_id task_id = ''prereq:'' @ action_id @ '':'' @ task_id"

definition prerequisite_detail ::
  "string \<Rightarrow> prerequisite_scope option \<Rightarrow> (string \<times> json) list option \<Rightarrow> blocker_detail" where
  "prerequisite_detail task_id scope event =
     (let action_id = (case scope of Some s \<Rightarrow> ps_action_id s | None \<Rightarrow> ''unknown'');
          state = state_of_event event;
          behavior = (if scope = None then Rerun_Required else classify_resolution_behavior state);
          non_terminal = (behavior \<in> {Omit, Fallback});
          rerun = (behavior = Rerun_Required);
          terminal = (\<not> non_terminal \<and> \<not> rerun)
      in \<lparr>bd_blocker_id = prerequisite_blocker_id action_id task_id,
          bd_blocker_kind = ''prerequisite'',
          bd_task_id = JStr task_id,
          bd_message = ''task '' @ task_id @ '' is blocked by user action '' @ action_id,
          bd_blocking_action_ids = (if action_id \<noteq> ''unknown'' then [action_id] else []),
          bd_resolution_state = state,
          bd_resolution_behavior = behavior,
          bd_phase = Some ''execute'',
          bd_evidence = string_tuple (event_field event ''evidence''),
          bd_debt_note = optional_str (event_field event ''debt_note''),
          bd_fallback_mode = optional_str (event_field event ''fallback_mode''),
          bd_instructions = optional_str (event_field event ''instructions''),
          bd_reason = optional_str (event_field event ''reason''),
          bd_effective_task_ids = (case scope of Some s \<Rightarrow> ps_effective_task_ids s | None \<Rightarrow> []),
          bd_gate_task_id = (case scope of Some s \<Rightarrow> ps_gate_task_id s | None \<Rightarrow> None),
          bd_protected_task_ids = (case scope of Some s \<Rightarrow> ps_protected_task_ids s | None \<Rightarrow> []),
          bd_is_non_terminal = non_terminal,
          bd_is_terminal = terminal,
          bd_requires_rerun = rerun,
          bd_malformed_reason = (case scope of Some s \<Rightarrow> ps_malformed_reason s | None \<Rightarrow> Some ''no blocking action scope''),
          bd_suggested_commands =
            (if rerun then [''execute --retry-blocked-tasks'']
             else if terminal then [''user-action resolve --action-id '' @ action_id @ '' --tasks '' @ task_id]
             else [])\<rparr>)"

definition can_continue :: "blocker_detail list \<Rightarrow> bool" where
  "can_continue bs \<longleftrightarrow> list_all (\<lambda>b. \<not> bd_is_terminal b) bs"

definition has_terminal_blockers :: "blocker_detail list \<Rightarrow> bool" where
  "has_terminal_blockers bs \<longleftrightarrow> list_ex bd_is_terminal bs"

definition requires_rerun :: "blocker_detail list \<Rightarrow> bool" where
  "requires_rerun bs \<longleftrightarrow> list_ex bd_requires_rerun bs"

definition is_harness_generated_blocked_task :: "blocked_task \<Rightarrow> bool" where
  "is_harness_generated_blocked_task b \<longleftrightarrow>
     bt_reason b = ''blocked_by_prereq'' \<and> contains ''[harness]'' (bt_notes b)"

text \<open>A blocked task or deviation is the typed record, or a decoded value that may not be one.\<close>

datatype 'a given = Typed 'a | Raw json

definition coerce_blocked_task :: "blocked_task given \<Rightarrow> blocked_task option" where
  "coerce_blocked_task v =
     (case v of
        Typed b \<Rightarrow> Some b
      | Raw (JObj d) \<Rightarrow> (case blocked_task_from_dict (JObj d) of Inr b \<Rightarrow> Some b | Inl e \<Rightarrow> None)
      | Raw _ \<Rightarrow> None)"

definition coerce_deviation :: "deviation given \<Rightarrow> deviation option" where
  "coerce_deviation v =
     (case v of
        Typed x \<Rightarrow> Some x
      | Raw (JStr s) \<Rightarrow> Some (deviation_from_string s)
      | Raw (JObj d) \<Rightarrow> (case deviation_from_dict (JObj d) of Inr x \<Rightarrow> Some x | Inl e \<Rightarrow> None)
      | Raw _ \<Rightarrow> None)"

definition matching_scopes :: "(string \<times> prerequisite_scope) list \<Rightarrow> blocked_task \<Rightarrow> prerequisite_scope list" where
  "matching_scopes scopes b =
     (if bt_blocking_action_ids b \<noteq> []
      then List.map_filter (map_of scopes) (bt_blocking_action_ids b)
      else filter (\<lambda>s. bt_task_id b \<in> set (ps_effective_task_ids s)) (map snd scopes))"

definition applicable_event ::
  "(string \<times> (string \<times> json) list) list \<Rightarrow> string \<Rightarrow> prerequisite_scope \<Rightarrow> (string \<times> json) list option" where
  "applicable_event effective task_id scope =
     (case map_of effective (ps_action_id scope) of
        Some e \<Rightarrow> if resolution_applies_to_task Memory (JObj e) (Some task_id) then Some e else None
      | None \<Rightarrow> None)"

definition task_blockers ::
  "(string \<times> prerequisite_scope) list \<Rightarrow> (string \<times> (string \<times> json) list) list \<Rightarrow> blocked_task given \<Rightarrow>
   blocker_detail list" where
  "task_blockers scopes effective raw =
     (case coerce_blocked_task raw of
        None \<Rightarrow> []
      | Some b \<Rightarrow>
          if is_harness_generated_blocked_task b then []
          else if matching_scopes scopes b = [] then [prerequisite_detail (bt_task_id b) None None]
          else map (\<lambda>s. prerequisite_detail (bt_task_id b) (Some s) (applicable_event effective (bt_task_id b) s))
                 (matching_scopes scopes b))"

definition evaluate_prerequisite_blockers ::
  "(string \<times> json) list \<Rightarrow> json \<Rightarrow> blocked_task given list \<Rightarrow> json_file option \<Rightarrow>
   phase_error + blocker_detail list" where
  "evaluate_prerequisite_blockers finalize state blocked f =
     res_bind (effective_user_action_resolutions f state) (\<lambda>effective.
       Inr (concat (map (task_blockers (build_prerequisite_scopes finalize) effective) blocked)))"

subsection \<open>Quality blockers\<close>

definition strip_or_unknown :: "string \<Rightarrow> string" where
  "strip_or_unknown s = (let t = strip s in if t = [] then ''unknown'' else t)"

definition after_first :: "char \<Rightarrow> string \<Rightarrow> string" where
  "after_first c s = (case dropWhile (\<lambda>d. d \<noteq> c) s of [] \<Rightarrow> s | _ # t \<Rightarrow> t)"

definition stable_quality_blocker_kind :: "string \<Rightarrow> string option" where
  "stable_quality_blocker_kind message =
     (if starts_with ''scope_drift_severity='' message
      then Some (''scope-drift-'' @ strip_or_unknown (after_first CHR ''='' (takeWhile (\<lambda>c. c \<noteq> CHR '':'') message)))
      else if starts_with ''Advisory audit finding: Git status shows changed files not claimed by any task:'' message
      then Some ''unclaimed-files''
      else if starts_with ''Advisory audit finding: Executor claimed changed files not present in git status:'' message
      then Some ''claimed-files-missing-from-status''
      else None)"

text \<open>\<^verbatim>\<open>deviation.task_id or alternative\<close>, formatted.\<close>

definition task_or :: "string \<Rightarrow> deviation \<Rightarrow> string" where
  "task_or other x = (if truthy (dv_task_id x) then py_str (dv_task_id x) else other)"

definition quality_blocker_id :: "(string \<Rightarrow> string) \<Rightarrow> deviation \<Rightarrow> string" where
  "quality_blocker_id sha x =
     (case nonempty_text (dv_blocker_id x) of
        Some i \<Rightarrow> i
      | None \<Rightarrow>
          ''quality:'' @ task_or ''global'' x @ '':'' @
          (case stable_quality_blocker_kind (dv_message x) of
             Some k \<Rightarrow> k
           | None \<Rightarrow> take 12 (sha (dv_kind x @ [CHR 0x0A] @ task_or [] x @ [CHR 0x0A] @ dv_message x))))"

definition INFORMATIONAL_PREFIXES :: "string list" where
  "INFORMATIONAL_PREFIXES =
     [''Advisory '', ''Note:'', ''Backfilled batch-level metadata'',
      ''Execute response reconstructed from tool calls'',
      ''1/1 batch sense checks have no executor acknowledgment'',
      [CHR 0x60] @ ''file'' @ [CHR 0x60] @ '' utility was unavailable in the shell'',
      ''Scoped pytest currently fails in the cumulative workspace state'',
      ''Scoped pytest shows '', ''Scoped pytest:'',
      ''agent_edit is now transitively imported by edit.py'', ''Leaf modules ('',
      ''Additional modules present in agent_edit/'', ''edit.py reduced from '']"

definition is_informational_quality_deviation :: "string \<Rightarrow> bool" where
  "is_informational_quality_deviation message \<longleftrightarrow>
     list_ex (\<lambda>p. starts_with p message) INFORMATIONAL_PREFIXES \<or>
     list_ex (\<lambda>f. contains f (lower message)) [''does not block'', ''noted but deferred'']"

definition node_char :: "char \<Rightarrow> bool" where
  "node_char c \<longleftrightarrow> word_char c \<or> c \<in> set ''[]<>-''"

definition file_char :: "char \<Rightarrow> bool" where
  "file_char c \<longleftrightarrow> word_char c \<or> c \<in> set ''/.-''"

definition TEST_NODEID_RE :: regex where
  "TEST_NODEID_RE = sequence
     [Either Boundary At_Start,
      some_of (Class file_char), literal ''.py'',
      some_of (sequence [literal ''::'', optional (chr CHR ''/''), some_of (Class node_char)]),
      Either Boundary At_End]"

definition extract_nodeids :: "string \<Rightarrow> string list" where
  "extract_nodeids message = findall TEST_NODEID_RE message"

definition state_config :: "(string \<times> json) list \<Rightarrow> (string \<times> json) list" where
  "state_config state = dict_or_empty (dget state ''config'' JNull)"

definition test_command_from_state :: "(string \<times> json) list \<Rightarrow> string option" where
  "test_command_from_state state =
     (case dget (state_config state) ''test_command'' JNull of
        JStr c \<Rightarrow> if blank c then None else Some (strip c)
      | _ \<Rightarrow> None)"

definition test_run_command :: "string \<Rightarrow> string option \<Rightarrow> string" where
  "test_run_command nodeid command =
     (let base = strip (case command of Some c \<Rightarrow> if c = [] then ''pytest'' else c | None \<Rightarrow> ''pytest'');
          bare = foldl (\<lambda>b flag. replace_all flag [] b) base [''-q'', ''--no-header'', ''-rA'', ''-rN'', ''--tb=no'']
      in strip bare @ '' '' @ shell_quote nodeid)"

text \<open>\<open>passes dir command\<close> tells whether the command, run in the directory, exits with code 0 in time. A
  test that passes now is not a blocker.\<close>

definition project_dir_of :: "(string \<times> json) list \<Rightarrow> string option" where
  "project_dir_of state = as_str (dget (state_config state) ''project_dir'' JNull)"

definition tests_pass_now ::
  "(string \<Rightarrow> string \<Rightarrow> bool) \<Rightarrow> (string \<times> json) list \<Rightarrow> string \<Rightarrow> bool" where
  "tests_pass_now passes state message \<longleftrightarrow>
     (case project_dir_of state of
        Some dir \<Rightarrow> extract_nodeids message \<noteq> [] \<and>
          list_all (\<lambda>n. passes dir (test_run_command n (test_command_from_state state))) (extract_nodeids message)
      | None \<Rightarrow> False)"

definition state_meta_list :: "(string \<times> json) list \<Rightarrow> string \<Rightarrow> json list" where
  "state_meta_list state field =
     (case dget state ''meta'' (JObj []) of
        JObj m \<Rightarrow> (case dget m field (JArr []) of JArr xs \<Rightarrow> filter (\<lambda>v. as_dict v \<noteq> None) xs | _ \<Rightarrow> [])
      | _ \<Rightarrow> [])"

definition or_else :: "'a option \<Rightarrow> 'a option \<Rightarrow> 'a option" where
  "or_else x y = (case x of Some v \<Rightarrow> Some v | None \<Rightarrow> y)"

definition nonempty_option :: "string option \<Rightarrow> string option" where
  "nonempty_option x = (case x of Some s \<Rightarrow> if s \<noteq> [] then Some s else None | None \<Rightarrow> None)"

definition quality_detail ::
  "(string \<Rightarrow> string) \<Rightarrow> deviation \<Rightarrow> (string \<times> json) list option \<Rightarrow> string option \<Rightarrow> blocker_detail" where
  "quality_detail sha x event malformed =
     (let state = state_of_event event;
          behavior = classify_quality_resolution_behavior True state;
          i = quality_blocker_id sha x
      in \<lparr>bd_blocker_id = i,
          bd_blocker_kind = ''quality'',
          bd_task_id = dv_task_id x,
          bd_message = dv_message x,
          bd_blocking_action_ids = [],
          bd_resolution_state = state,
          bd_resolution_behavior = behavior,
          bd_phase = or_else (nonempty_option (optional_str (event_field event ''phase''))) (optional_str (dv_phase x)),
          bd_evidence = string_tuple (event_field event ''evidence''),
          bd_debt_note = optional_str (event_field event ''debt_note''),
          bd_fallback_mode = optional_str (event_field event ''fallback_mode''),
          bd_instructions = None,
          bd_reason = None,
          bd_effective_task_ids = [],
          bd_gate_task_id = None,
          bd_protected_task_ids = [],
          bd_is_non_terminal = (behavior = Advance_With_Debt),
          bd_is_terminal = (behavior = Hard_Block),
          bd_requires_rerun = (behavior = Rerun_Required),
          bd_malformed_reason = malformed,
          bd_suggested_commands =
            (if behavior = Hard_Block then [''quality-gate resolve --blocker-id '' @ i]
             else if behavior = Rerun_Required then [''execute --retry-blocked-tasks'']
             else [])\<rparr>)"

text \<open>The text of an exception of the validation.\<close>

fun error_text :: "phase_error \<Rightarrow> string" where
  "error_text (Cli_Error code message) = message"
| "error_text _ = []"

definition checked_event :: "(string \<times> json) list option \<Rightarrow> (string \<times> json) list option \<times> string option" where
  "checked_event event =
     (case event of
        None \<Rightarrow> (None, None)
      | Some e \<Rightarrow>
          (case validate_quality_resolution_event (JObj e) of
             Inr _ \<Rightarrow> (Some e, None)
           | Inl err \<Rightarrow> (None, Some (error_text err))))"

definition deviation_blockers ::
  "(string \<Rightarrow> string) \<Rightarrow> (string \<Rightarrow> string \<Rightarrow> bool) \<Rightarrow> (string \<times> json) list \<Rightarrow>
   (string \<times> (string \<times> json) list) list \<Rightarrow> deviation given \<Rightarrow> blocker_detail list" where
  "deviation_blockers sha passes state latest raw =
     (case coerce_deviation raw of
        None \<Rightarrow> []
      | Some x \<Rightarrow>
          if is_informational_quality_deviation (dv_message x) \<or> tests_pass_now passes state (dv_message x) then []
          else (case checked_event (map_of latest (quality_blocker_id sha x)) of
                  (event, malformed) \<Rightarrow> [quality_detail sha x event malformed]))"

definition evaluate_quality_blockers ::
  "(string \<Rightarrow> string) \<Rightarrow> (string \<Rightarrow> string \<Rightarrow> bool) \<Rightarrow> (string \<times> json) list \<Rightarrow> deviation given list \<Rightarrow>
   blocker_detail list" where
  "evaluate_quality_blockers sha passes state deviations =
     concat (map (deviation_blockers sha passes state
       (latest_quality_resolutions (state_meta_list state ''quality_gate_resolutions''))) deviations)"

subsection \<open>The evaluation\<close>

text \<open>
  \<open>coverage\<close> is what the chain's batch check \<^verbatim>\<open>_latest_execution_batch_all_tasks_done\<close> returns: nothing
  without a plan directory or when it raises.
\<close>

definition phase_coverage_deviations :: "(bool \<times> json) option \<Rightarrow> deviation list" where
  "phase_coverage_deviations coverage =
     (case coverage of
        Some (all_done, JStr reason) \<Rightarrow>
          if all_done \<or> reason = [] \<or> contains ''no execution_batch'' reason then []
          else [\<lparr>dv_kind = ''phase_coverage'', dv_message = reason, dv_task_id = JNull, dv_blocker_id = JNull,
                 dv_phase = JNull\<rparr>]
      | _ \<Rightarrow> [])"

definition is_pending_authority_coverage_deviation :: "deviation given \<Rightarrow> bool" where
  "is_pending_authority_coverage_deviation raw \<longleftrightarrow>
     (case coerce_deviation raw of
        Some x \<Rightarrow> starts_with ''finalize.json has pending tasks without authoritative execution updates:'' (dv_message x)
      | None \<Rightarrow> False)"

definition evaluate_blocker_recovery ::
  "(string \<Rightarrow> string) \<Rightarrow> (string \<Rightarrow> string \<Rightarrow> bool) \<Rightarrow> (bool \<times> json) option \<Rightarrow> json_file option \<Rightarrow>
   (string \<times> json) list \<Rightarrow> json \<Rightarrow> blocked_task given list \<Rightarrow> deviation given list \<Rightarrow>
   phase_error + blocker_detail list" where
  "evaluate_blocker_recovery sha passes coverage f finalize state blocked deviations =
     res_bind (evaluate_prerequisite_blockers finalize state blocked f) (\<lambda>prereq.
       let found = deviations @ map Typed (phase_coverage_deviations coverage);
           kept = (if requires_rerun prereq
                   then filter (\<lambda>x. \<not> is_pending_authority_coverage_deviation x) found else found)
       in Inr (prereq @ evaluate_quality_blockers sha passes (dict_or_empty state) kept))"

definition nonempty_field :: "string \<Rightarrow> string list \<Rightarrow> (string \<times> json) list" where
  "nonempty_field k xs = (if xs = [] then [] else [(k, JArr (map JStr xs))])"

definition blocker_detail_to_dict :: "blocker_detail \<Rightarrow> json" where
  "blocker_detail_to_dict b = JObj (
     [(''blocker_id'', JStr (bd_blocker_id b)), (''blocker_kind'', JStr (bd_blocker_kind b)),
      (''task_id'', bd_task_id b), (''message'', JStr (bd_message b)),
      (''blocking_action_ids'', JArr (map JStr (bd_blocking_action_ids b))),
      (''resolution_state'', JStr (bd_resolution_state b)),
      (''resolution_behavior'', JStr (behavior_value (bd_resolution_behavior b))),
      (''is_non_terminal'', JBool (bd_is_non_terminal b)), (''is_terminal'', JBool (bd_is_terminal b)),
      (''requires_rerun'', JBool (bd_requires_rerun b)),
      (''suggested_commands'', JArr (map JStr (bd_suggested_commands b)))]
     @ opt_field ''phase'' JStr (bd_phase b)
     @ nonempty_field ''evidence'' (bd_evidence b)
     @ opt_field ''debt_note'' JStr (bd_debt_note b)
     @ opt_field ''fallback_mode'' JStr (bd_fallback_mode b)
     @ opt_field ''instructions'' JStr (bd_instructions b)
     @ opt_field ''reason'' JStr (bd_reason b)
     @ nonempty_field ''effective_task_ids'' (bd_effective_task_ids b)
     @ opt_field ''synthetic_gate_task_id'' JStr (bd_gate_task_id b)
     @ nonempty_field ''protected_task_ids'' (bd_protected_task_ids b)
     @ opt_field ''malformed_reason'' JStr (bd_malformed_reason b))"

definition command_blocker_details :: "blocker_detail list \<Rightarrow> json list" where
  "command_blocker_details bs = map blocker_detail_to_dict bs"

subsection \<open>The retry decision of the execute policy\<close>

text \<open>\<^verbatim>\<open>evaluate_blocker_recovery_policy\<close> of \<^verbatim>\<open>execute/policy.py\<close>.\<close>

datatype blocked_retry = Retry | Retry_Fresh | No_Retry

definition evaluate_blocker_recovery_policy :: "bool \<Rightarrow> phase_error + blocker_detail list \<Rightarrow> phase_error + blocked_retry" where
  "evaluate_blocker_recovery_policy cross_session evaluation =
     (if cross_session then Inr Retry_Fresh
      else res_bind evaluation (\<lambda>blockers.
        Inr (if blockers = [] then Retry
             else if has_terminal_blockers blockers then No_Retry
             else if requires_rerun blockers then Retry_Fresh
             else if can_continue blockers then Retry
             else No_Retry)))"

subsection \<open>The recover-blocked transition\<close>

definition EXTERNAL_ERROR_RETRY_STRATEGIES :: "string list" where
  "EXTERNAL_ERROR_RETRY_STRATEGIES = [''external_error'', ''provider_error'', ''wait_and_retry'']"

definition failure_is :: "string \<Rightarrow> string \<Rightarrow> (string \<times> json) list \<Rightarrow> bool" where
  "failure_is field value state \<longleftrightarrow>
     (case dget state ''latest_failure'' JNull of JObj f \<Rightarrow> dget f field JNull = JStr value | _ \<Rightarrow> False)"

definition external_error_requires_resume ::
  "(string \<times> json) list \<Rightarrow> (string \<times> json) list \<Rightarrow> phase_result option \<Rightarrow> bool" where
  "external_error_requires_resume state cursor result \<longleftrightarrow>
     failure_is ''kind'' ''external_error'' state \<or>
     (case result of Some r \<Rightarrow> pr_exit_kind r = ''external_error'' | None \<Rightarrow> False) \<or>
     dget cursor ''retry_strategy'' JNull \<in> JStr ` set EXTERNAL_ERROR_RETRY_STRATEGIES"

text \<open>\<^verbatim>\<open>_next_meta\<close> with an override entry.\<close>

definition next_meta :: "(string \<times> json) list \<Rightarrow> json \<Rightarrow> phase_error + (string \<times> json) list" where
  "next_meta state entry =
     (let meta = dict_or_empty (dget state ''meta'' JNull)
      in res_bind (py_iter (dget meta ''overrides'' (JArr []))) (\<lambda>os.
           Inr (AList.update ''overrides'' (JArr (os @ [entry])) meta)))"

record recovery_transition =
  rt_blockers :: "json list"
  rt_repair :: "phase_repair option"
  rt_deltas :: "(string \<times> json) list"
  rt_remove :: "string list"

definition phase_repair_to_dict :: "phase_repair \<Rightarrow> json" where
  "phase_repair_to_dict r = JObj (
     [(''failure_kind'', JStr (rp_failure_kind r)), (''phase'', JStr (rp_phase r)),
      (''repair_commit'', JStr (rp_repair_commit r)), (''failure_fingerprint'', JStr (rp_failure_fingerprint r)),
      (''repair_scope'', JStr (rp_repair_scope r)), (''repair_root'', JStr (rp_repair_root r)),
      (''authority'', JStr (''explicit_repair_commit_bound_to_'' @ rp_repair_scope r))]
     @ (if rp_repair_scope r = ''engine_runtime'' then [(''engine_head'', JStr (rp_repair_commit r))]
        else [(''workspace_head'', JStr (rp_repair_commit r))]))"

text \<open>
  What the transition reads besides the state: the hash, the test runner, the Git heads, the engine's
  root, the plan directory, the batch coverage, the finalize artifact, the stored phase result, the
  stored resolutions and the time.
\<close>

record recovery_inputs =
  ri_sha :: "string \<Rightarrow> string"
  ri_passes :: "string \<Rightarrow> string \<Rightarrow> bool"
  ri_git :: "string \<Rightarrow> git_result"
  ri_engine_root :: string
  ri_plan_dir :: string
  ri_coverage :: "(bool \<times> json) option"
  ri_finalize :: "(string \<times> json) list"
  ri_phase_file :: "json option"
  ri_resolutions :: "json_file option"
  ri_now :: string

definition may_recover :: "(string \<times> json) list \<Rightarrow> phase_error + unit" where
  "may_recover state =
     (case map_of state ''current_state'' of
        None \<Rightarrow> Inl (Py KeyError)
      | Some c \<Rightarrow>
          ensure (c = JStr (state_value STATE_BLOCKED) \<or>
                  c = JStr (state_value STATE_ABORTED) \<and> failure_is ''state'' (state_value STATE_BLOCKED) state)
            (Cli_Error ''invalid_transition'' ''recover-blocked requires state blocked''))"

text \<open>The phase to resume and the state it starts from.\<close>

definition recovery_target :: "(string \<times> json) list \<Rightarrow> phase_error + (string \<times> plan_state)" where
  "recovery_target cursor =
     (case dget cursor ''phase'' JNull of
        JStr phase \<Rightarrow>
          if phase = [] then Inl (Cli_Error ''invalid_resume_cursor'' ''requires resume_cursor.phase'')
          else (case stage_predecessor phase ''recovery'' of
                  Inr (Some t) \<Rightarrow> Inr (phase, t)
                | Inr None \<Rightarrow> Inl (Cli_Error ''invalid_resume_cursor'' ''does not know how to resume phase'')
                | Inl e \<Rightarrow> Inl (Py e))
      | _ \<Rightarrow> Inl (Cli_Error ''invalid_resume_cursor'' ''requires resume_cursor.phase''))"

definition needs_phase_repair :: "(string \<times> json) list \<Rightarrow> (string \<times> json) list \<Rightarrow> bool" where
  "needs_phase_repair state cursor \<longleftrightarrow>
     failure_is ''kind'' ''deterministic_phase_failure'' state \<and>
     dget cursor ''retry_strategy'' JNull = JStr ''repair_phase_contract''"

text \<open>The evidence of a recovery: the details of its blockers and their ids, or the repair receipt.\<close>

definition repair_evidence ::
  "recovery_inputs \<Rightarrow> (string \<times> json) list \<Rightarrow> (string \<times> json) list \<Rightarrow> (string \<times> json) list \<Rightarrow>
   phase_error + (json list \<times> string list \<times> phase_repair option)" where
  "repair_evidence ri state cursor payload =
     res_bind (validated_deterministic_phase_repair (ri_sha ri) (ri_git ri) (ri_engine_root ri)
         (let r = dget payload ''root'' JNull in if truthy r then py_str r else ri_plan_dir ri)
         state cursor (dget payload ''repair_commit'' JNull) (dget payload ''failure_fingerprint'' JNull)
         (dget payload ''repair_scope'' JNull)) (\<lambda>r.
       case r of
         None \<Rightarrow> Inl (Cli_Error ''missing_phase_result'' ''deterministic repair evidence is missing'')
       | Some x \<Rightarrow> Inr ([], [], Some x))"

definition blocker_evidence ::
  "recovery_inputs \<Rightarrow> (string \<times> json) list \<Rightarrow> phase_result \<Rightarrow>
   phase_error + (json list \<times> string list \<times> phase_repair option)" where
  "blocker_evidence ri state r =
     res_bind (evaluate_blocker_recovery (ri_sha ri) (ri_passes ri) (ri_coverage ri) (ri_resolutions ri)
         (ri_finalize ri) (JObj state) (map Typed (pr_blocked_tasks r)) (map Typed (pr_deviations r))) (\<lambda>bs.
     res_bind (ensure (can_continue bs)
       (Cli_Error ''blocked_recovery_not_resolved''
         ''recover-blocked requires every current blocker to be explicitly resolved as non-terminal'')) (\<lambda>_.
     Inr (command_blocker_details bs, map bd_blocker_id bs, None)))"

definition override_entry ::
  "string \<Rightarrow> string \<Rightarrow> json \<Rightarrow> plan_state \<Rightarrow> (string \<times> json) list \<Rightarrow> string list \<Rightarrow> phase_repair option \<Rightarrow> json" where
  "override_entry now reason before target cursor ids repair = JObj (
     [(''action'', JStr ''recover-blocked''), (''timestamp'', JStr now), (''reason'', JStr reason),
      (''from_state'', before), (''to_state'', JStr (state_value target)),
      (''resume_cursor'', JObj cursor), (''blocker_ids'', JArr (map JStr ids))]
     @ opt_field ''phase_contract_repair'' phase_repair_to_dict repair)"

definition recover_blocked ::
  "recovery_inputs \<Rightarrow> (string \<times> json) list \<Rightarrow> (string \<times> json) list \<Rightarrow> phase_error + recovery_transition" where
  "recover_blocked ri state payload =
     res_bind (may_recover state) (\<lambda>_.
     res_bind (case dget payload ''reason'' JNull of
         JStr reason \<Rightarrow> res_bind (ensure (\<not> blank reason)
           (Cli_Error ''invalid_args'' ''override recover-blocked requires --reason'')) (\<lambda>_. Inr reason)
       | _ \<Rightarrow> Inl (Cli_Error ''invalid_args'' ''override recover-blocked requires --reason'')) (\<lambda>reason.
     res_bind (case dget state ''resume_cursor'' JNull of
         JObj c \<Rightarrow> Inr c
       | _ \<Rightarrow> Inl (Cli_Error ''missing_resume_cursor'' ''recover-blocked requires a stored resume_cursor'')) (\<lambda>cursor.
     res_bind (recovery_target cursor) (\<lambda>(phase, target).
     res_bind (ensure (\<not> failure_is ''kind'' ''authority_divergence'' state)
       (Cli_Error ''rerun_phase_required'' ''needs a fresh phase rerun'')) (\<lambda>_.
     res_bind (read_phase_result (ri_phase_file ri)) (\<lambda>result.
     res_bind (ensure (\<not> external_error_requires_resume state cursor result)
       (Cli_Error ''external_error_resume_required'' ''stopped on an external provider error'')) (\<lambda>_.
     res_bind (if needs_phase_repair state cursor then repair_evidence ri state cursor payload
               else case result of
                 None \<Rightarrow> Inl (Cli_Error ''missing_phase_result'' ''requires phase_result.json'')
               | Some r \<Rightarrow> blocker_evidence ri state r) (\<lambda>(details, ids, repair).
     res_bind (next_meta state (override_entry (ri_now ri) reason (dget state ''current_state'' JNull) target
                 cursor ids repair)) (\<lambda>meta.
     Inr \<lparr>rt_blockers = details, rt_repair = repair,
          rt_deltas = [(''current_state'', JStr (state_value target)), (''meta'', JObj meta)],
          rt_remove = [''latest_failure'', ''active_step'']\<rparr>)))))))))"

text \<open>
  The mutation \<^verbatim>\<open>_apply_control_deltas\<close> of \<^verbatim>\<open>control_interface.py\<close>, on a state whose versions are those the
  transition was planned on: replacements, then the removed keys.
\<close>

definition apply_control_deltas :: "recovery_transition \<Rightarrow> (string \<times> json) list \<Rightarrow> (string \<times> json) list" where
  "apply_control_deltas t state =
     foldl (\<lambda>s k. AList.delete k s) (foldl (\<lambda>s (k, v). AList.update k v s) state (rt_deltas t)) (rt_remove t)"

end
