(* ===== verification/State_Merge.thy ===== *)
theory State_Merge
  imports Resolution_Contract
begin

section \<open>Merge on save\<close>

text \<open>
  Override commands append notes, overrides and resolutions to the state file while a phase that loaded
  an older state is running. Every save with \<^verbatim>\<open>mode="merge-meta-list"\<close> (\<^verbatim>\<open>_core/state.py\<close>) therefore unites
  the append-only lists of the file with those in memory, by a content key, in the order of their
  timestamps. \<open>sha\<close> is the hexadecimal SHA-256 of a text.
\<close>

subsection \<open>Content keys\<close>

text \<open>\<^verbatim>\<open>x if isinstance(x, str) else json.dumps(x, sort_keys=True)\<close>, and with \<^verbatim>\<open>str(x)\<close>.\<close>

definition text_or_dumps :: "json \<Rightarrow> string" where
  "text_or_dumps v = (case v of JStr s \<Rightarrow> s | _ \<Rightarrow> dumps v)"

definition digest16 :: "(string \<Rightarrow> string) \<Rightarrow> string \<Rightarrow> string" where
  "digest16 sha s = take 16 (sha s)"

definition note_merge_key :: "(string \<Rightarrow> string) \<Rightarrow> json \<Rightarrow> string list" where
  "note_merge_key sha entry =
     (case entry of
        JObj e \<Rightarrow> [event_sort_key e, digest16 sha (text_or_dumps (dget e ''note'' (JStr [])))]
      | _ \<Rightarrow> [[], digest16 sha (dumps entry)])"

definition override_merge_key :: "(string \<Rightarrow> string) \<Rightarrow> json \<Rightarrow> string list" where
  "override_merge_key sha entry =
     (case entry of
        JObj e \<Rightarrow>
          [event_sort_key e, py_str (dget e ''action'' (JStr [])),
           digest16 sha (text_or_dumps (dget e ''note'' (JStr [])) @ ''|'' @
             text_or_dumps (dget e ''reason'' (JStr [])) @ ''|'' @ py_str (dget e ''waiver_id'' (JStr [])))]
      | _ \<Rightarrow> [[], [], digest16 sha (dumps entry)])"

definition resolution_merge_key :: "(string \<Rightarrow> string) \<Rightarrow> json \<Rightarrow> string list" where
  "resolution_merge_key sha entry =
     (case entry of
        JObj e \<Rightarrow>
          [py_str (dget e ''action_id'' (JStr [])), event_sort_key e, py_str (dget e ''resolution'' (JStr [])),
           digest16 sha (dumps (JObj
             [(''debt_note'', dget e ''debt_note'' (JStr [])), (''evidence'', dget e ''evidence'' (JArr [])),
              (''fallback_mode'', dget e ''fallback_mode'' (JStr [])),
              (''instructions'', dget e ''instructions'' (JStr [])), (''phase'', dget e ''phase'' (JStr [])),
              (''reason'', dget e ''reason'' (JStr []))]))]
      | _ \<Rightarrow> [[], [], [], digest16 sha (dumps entry)])"

definition quality_resolution_merge_key :: "(string \<Rightarrow> string) \<Rightarrow> json \<Rightarrow> string list" where
  "quality_resolution_merge_key sha entry =
     (case entry of
        JObj e \<Rightarrow>
          [py_str (dget e ''blocker_id'' (JStr [])), event_sort_key e, py_str (dget e ''resolution'' (JStr [])),
           digest16 sha (dumps (JObj
             [(''debt_note'', dget e ''debt_note'' (JStr [])), (''evidence'', dget e ''evidence'' (JArr [])),
              (''fallback_mode'', dget e ''fallback_mode'' (JStr [])), (''phase'', dget e ''phase'' (JStr []))]))]
      | _ \<Rightarrow> [[], [], [], digest16 sha (dumps entry)])"

definition FIELD_KEY_FUNCS :: "(string \<times> ((string \<Rightarrow> string) \<Rightarrow> json \<Rightarrow> string list)) list" where
  "FIELD_KEY_FUNCS =
     [(''notes'', note_merge_key), (''overrides'', override_merge_key),
      (''user_action_resolutions'', resolution_merge_key),
      (''quality_gate_resolutions'', quality_resolution_merge_key)]"

definition DEFAULT_MERGE_FIELDS :: "string list" where
  "DEFAULT_MERGE_FIELDS = [''notes'', ''overrides'', ''user_action_resolutions'', ''quality_gate_resolutions'']"

definition timestamp_sort_key :: "json \<Rightarrow> string" where
  "timestamp_sort_key entry = (case entry of JObj e \<Rightarrow> event_sort_key e | _ \<Rightarrow> [])"

subsection \<open>The union\<close>

definition coerce_list :: "json \<Rightarrow> json list" where
  "coerce_list v = (case v of JArr xs \<Rightarrow> xs | _ \<Rightarrow> [])"

text \<open>The loop over the entries, with the keys it has seen.\<close>

primrec unseen :: "('a \<Rightarrow> 'k) \<Rightarrow> 'k set \<Rightarrow> 'a list \<Rightarrow> 'a list" where
  "unseen key seen [] = []"
| "unseen key seen (x # xs) =
     (if key x \<in> seen then unseen key seen xs else x # unseen key (insert (key x) seen) xs)"

definition merge_meta_lists :: "(json \<Rightarrow> string list) \<Rightarrow> json \<Rightarrow> json \<Rightarrow> json list" where
  "merge_meta_lists key on_disk in_memory =
     sort_key timestamp_sort_key (unseen key {} (coerce_list on_disk @ coerce_list in_memory))"

definition merge_field ::
  "(string \<Rightarrow> string) \<Rightarrow> (string \<times> json) list \<Rightarrow> (string \<times> json) list \<Rightarrow> string \<Rightarrow>
   (string \<times> json) list \<Rightarrow> (string \<times> json) list" where
  "merge_field sha disk_meta memory_meta field meta =
     (case map_of FIELD_KEY_FUNCS field of
        None \<Rightarrow> meta
      | Some key \<Rightarrow>
          AList.update field
            (JArr (merge_meta_lists (key sha) (dget disk_meta field (JArr [])) (dget memory_meta field (JArr []))))
            meta)"

definition meta_of :: "(string \<times> json) list \<Rightarrow> (string \<times> json) list" where
  "meta_of state = dict_or_empty (dget state ''meta'' JNull)"

text \<open>
  \<^verbatim>\<open>write_plan_state(mode="merge-meta-list")\<close> on what the file holds, or nothing; no merge fields stands for
  the default.
\<close>

definition merge_meta_state ::
  "(string \<Rightarrow> string) \<Rightarrow> bool \<Rightarrow> (string \<times> json) list option \<Rightarrow> (string \<times> json) list \<Rightarrow> string list \<Rightarrow>
   (string \<times> json) list" where
  "merge_meta_state sha preserve file state merge_fields =
     (let existing = (case file of Some d \<Rightarrow> d | None \<Rightarrow> []);
          next_state = (if preserve \<and> file \<noteq> None then existing else state);
          fs = (if merge_fields = [] then DEFAULT_MERGE_FIELDS else merge_fields)
      in AList.update ''meta''
           (JObj (fold (merge_field sha (meta_of existing) (meta_of state)) fs (meta_of next_state))) next_state)"

definition save_state_merge_meta ::
  "(string \<Rightarrow> string) \<Rightarrow> (string \<times> json) list option \<Rightarrow> (string \<times> json) list \<Rightarrow> (string \<times> json) list" where
  "save_state_merge_meta sha file state = merge_meta_state sha False file state DEFAULT_MERGE_FIELDS"

text \<open>\<^verbatim>\<open>_append_to_meta\<close> of \<^verbatim>\<open>handlers/shared.py\<close>: the state has a dictionary \<^verbatim>\<open>meta\<close>, or the lookup raises.\<close>

definition append_to_meta :: "string \<Rightarrow> json \<Rightarrow> (string \<times> json) list \<Rightarrow> phase_error + (string \<times> json) list" where
  "append_to_meta field v state =
     (case map_of state ''meta'' of
        None \<Rightarrow> Inl (Py KeyError)
      | Some (JObj meta) \<Rightarrow>
          (case dget meta field (JArr []) of
             JArr xs \<Rightarrow> Inr (AList.update ''meta'' (JObj (AList.update field (JArr (xs @ [v])) meta)) state)
           | _ \<Rightarrow> Inl Attribute_Error)
      | Some _ \<Rightarrow> Inl Attribute_Error)"

subsection \<open>The union loses nothing\<close>

lemma set_unseen: "set (unseen key seen xs) \<subseteq> set xs"
  by (induction xs arbitrary: seen) auto

lemma keys_unseen: "key ` set (unseen key seen xs) = key ` set xs - seen"
  by (induction xs arbitrary: seen) auto

lemma distinct_unseen: "distinct (map key (unseen key seen xs))"
  by (induction xs arbitrary: seen) (auto simp: keys_unseen)

lemma unseen_append: "unseen key seen (xs @ ys) = unseen key seen xs @ unseen key (seen \<union> key ` set xs) ys"
  by (induction xs arbitrary: seen) (auto simp: insert_absorb)

lemma unseen_seen: "key ` set xs \<subseteq> seen \<Longrightarrow> unseen key seen xs = []"
  by (induction xs) auto

lemma unseen_distinct: "distinct (map key xs) \<Longrightarrow> key ` set xs \<inter> seen = {} \<Longrightarrow> unseen key seen xs = xs"
  by (induction xs arbitrary: seen) auto

lemma set_merge: "set (merge_meta_lists key d m) = set (unseen key {} (coerce_list d @ coerce_list m))"
  by (simp add: merge_meta_lists_def)

lemma keys_merge: "key ` set (merge_meta_lists key d m) = key ` set (coerce_list d) \<union> key ` set (coerce_list m)"
  by (simp add: set_merge keys_unseen image_Un)

lemma distinct_merge: "distinct (map key (merge_meta_lists key d m))"
  using distinct_unseen [of key "{}" "coerce_list d @ coerce_list m"]
  by (simp add: merge_meta_lists_def distinct_map)

lemma sorted_merge: "sorted (map timestamp_sort_key (merge_meta_lists key d m))"
  by (simp add: merge_meta_lists_def)

lemma coerce_list_JArr [simp]: "coerce_list (JArr xs) = xs"
  by (simp add: coerce_list_def)

lemma sort_key_sorted: "sorted (map f xs) \<Longrightarrow> sort_key f xs = xs"
  by (induction xs) (auto simp: insort_is_Cons)

lemma merge_absorb:
  assumes "key ` set (coerce_list m') \<subseteq> key ` set (coerce_list d) \<union> key ` set (coerce_list m)"
  shows "merge_meta_lists key (JArr (merge_meta_lists key d m)) m' = merge_meta_lists key d m"
proof -
  let ?M = "merge_meta_lists key d m"
  have "unseen key {} (?M @ coerce_list m') = unseen key {} ?M"
    using assms by (simp add: unseen_append keys_merge unseen_seen)
  also have "\<dots> = ?M"
    by (simp add: unseen_distinct distinct_merge)
  finally show ?thesis
    by (simp add: merge_meta_lists_def [of key "JArr ?M"] sort_key_sorted sorted_merge)
qed

lemma merge_keeps_new: "e \<in> set (coerce_list m) \<Longrightarrow> key e \<notin> key ` set (coerce_list d) \<Longrightarrow>
   (\<And>x. x \<in> set (coerce_list m) \<Longrightarrow> key x = key e \<Longrightarrow> x = e) \<Longrightarrow> e \<in> set (merge_meta_lists key d m)"
proof -
  assume e: "e \<in> set (coerce_list m)" "key e \<notin> key ` set (coerce_list d)"
    and u: "\<And>x. x \<in> set (coerce_list m) \<Longrightarrow> key x = key e \<Longrightarrow> x = e"
  have "key e \<in> key ` set (merge_meta_lists key d m)"
    using e by (auto simp: keys_merge)
  then obtain x where x: "x \<in> set (merge_meta_lists key d m)" "key x = key e"
    by auto
  then have "x \<in> set (coerce_list d) \<union> set (coerce_list m)"
    using set_unseen [of key "{}" "coerce_list d @ coerce_list m"] by (auto simp: set_merge)
  with e(2) x(2) u [of x] have "x = e"
    by (metis UnE imageI)
  with x show ?thesis
    by simp
qed

end
