(* ===== verification/Resolution_Commands.thy ===== *)
theory Resolution_Commands
  imports Blocker_Recovery State_Merge
begin

section \<open>The commands that settle blockers\<close>

text \<open>
  The in-memory side of user-action resolutions (\<^verbatim>\<open>user_actions.py\<close>) and the two commands of
  \<^verbatim>\<open>cli/resolutions.py\<close>, \<^verbatim>\<open>user-action resolve\<close> and \<^verbatim>\<open>quality-gate resolve\<close>: their checks, the event they
  append to the state, the entry they write to the plan's file, and the save. The response they print
  is not modelled.
\<close>

subsection \<open>User actions in memory\<close>

definition validate_resolution_event :: "json \<Rightarrow> phase_error + unit" where
  "validate_resolution_event event =
     (case event of
        JObj e \<Rightarrow>
          res_bind (ensure (nonblank_str (dget e ''action_id'' JNull))
            (invalid_args ''user action resolution requires action_id'')) (\<lambda>_.
          res_bind (ensure (case dget e ''resolution'' JNull of
                JStr s \<Rightarrow> s \<in> set SUPPORTED_USER_ACTION_RESOLUTION_STATES | _ \<Rightarrow> False)
            (invalid_args (''user action resolution must be one of: '' @ sorted_states))) (\<lambda>_.
          res_bind (validate_optional_string_list e ''applies_to_tasks''
            ''user action applies_to_tasks must be a list of non-empty strings'') (\<lambda>_.
          validate_optional_string_list e ''evidence''
            ''user action evidence must be a list of non-empty strings'')))
      | _ \<Rightarrow> Inl (invalid_args ''user action resolution event must be an object''))"

definition build_resolution_event ::
  "string \<Rightarrow> string \<Rightarrow> string \<Rightarrow> string option \<Rightarrow> string \<Rightarrow> event_details \<Rightarrow> phase_error + (string \<times> json) list" where
  "build_resolution_event action_id resolution created_by timestamp now d =
     (let e = build_base_resolution_event ''action_id'' action_id resolution created_by timestamp now d
      in res_bind (validate_resolution_event (JObj e)) (\<lambda>_. Inr e))"

definition effective_resolutions :: "json list \<Rightarrow> (string \<times> (string \<times> json) list) list" where
  "effective_resolutions events =
     latest_events_by_key ''action_id'' ''resolution'' (Some SUPPORTED_USER_ACTION_RESOLUTION_STATES) events"

record resolution_status =
  rs_resolution :: string
  rs_behavior :: behavior
  rs_event :: "(string \<times> json) list option"
  rs_is_resolved :: bool

definition unresolved_status :: resolution_status where
  "unresolved_status = \<lparr>rs_resolution = ''unresolved'', rs_behavior = Hard_Block, rs_event = None, rs_is_resolved = False\<rparr>"

definition applying_event :: "(string \<times> json) list option \<Rightarrow> string option \<Rightarrow> (string \<times> json) list option" where
  "applying_event event task_id =
     (case event of
        Some e \<Rightarrow> if resolution_applies_to_task Memory (JObj e) task_id then Some e else None
      | None \<Rightarrow> None)"

definition valid_state_of :: "(string \<times> json) list option \<Rightarrow> string" where
  "valid_state_of event =
     (case event of
        Some e \<Rightarrow> (case resolution_state Memory (JObj e) of
            Some s \<Rightarrow> if s \<in> set SUPPORTED_USER_ACTION_RESOLUTION_STATES then s else ''unresolved''
          | None \<Rightarrow> ''unresolved'')
      | None \<Rightarrow> ''unresolved'')"

definition action_resolution_status ::
  "json \<Rightarrow> (string \<times> (string \<times> json) list) list \<Rightarrow> string option \<Rightarrow> resolution_status" where
  "action_resolution_status action effective task_id =
     (case action of
        JObj a \<Rightarrow>
          (case has_key ''id'' a of
             None \<Rightarrow> unresolved_status
           | Some i \<Rightarrow>
               let event = applying_event (map_of effective i) task_id;
                   resolution = valid_state_of event
               in \<lparr>rs_resolution = resolution, rs_behavior = classify_resolution_behavior resolution,
                   rs_event = event, rs_is_resolved = (resolution \<noteq> ''unresolved'')\<rparr>)
      | _ \<Rightarrow> unresolved_status)"

subsection \<open>Arguments\<close>

text \<open>
  The arguments are a namespace of texts and \<^verbatim>\<open>None\<close>; \<open>arg args k\<close> is \<^verbatim>\<open>getattr(args, k, None) or None\<close>.
\<close>

definition arg :: "(string \<times> json) list \<Rightarrow> string \<Rightarrow> string option" where
  "arg args k = nonempty_text (dget args k JNull)"

definition split_on :: "char \<Rightarrow> string \<Rightarrow> string list" where
  "split_on c s =
     foldr (\<lambda>d parts. if d = c then [] # parts else (d # hd parts) # tl parts) s [[]]"

definition parse_user_action_evidence :: "json \<Rightarrow> string list option" where
  "parse_user_action_evidence raw =
     (let items = (case raw of JStr s \<Rightarrow> [s] | JArr xs \<Rightarrow> List.map_filter as_str xs | _ \<Rightarrow> []);
          values = filter (\<lambda>p. p \<noteq> []) (map strip (concat (map (split_on CHR '','') items)))
      in if values = [] then None else Some values)"

text \<open>\<^verbatim>\<open>getattr(args, "tasks", None) or getattr(args, "applies_to_task_ids", None)\<close>: the second may be empty.\<close>

definition tasks_arg :: "(string \<times> json) list \<Rightarrow> string option" where
  "tasks_arg args =
     (case arg args ''tasks'' of Some t \<Rightarrow> Some t | None \<Rightarrow> as_str (dget args ''applies_to_task_ids'' JNull))"

definition task_list_of :: "string option \<Rightarrow> phase_error + string list option" where
  "task_list_of tasks =
     (case tasks of
        None \<Rightarrow> Inr None
      | Some t \<Rightarrow>
          let parts = (if t = [] then [] else split_on CHR '','' t)
          in res_bind (ensure (list_all (\<lambda>p. strip p \<noteq> []) parts)
               (invalid_args ''--tasks / --applies-to-task-ids contains empty or malformed task IDs'')) (\<lambda>_.
             Inr (Some (map strip parts))))"

definition ids_of :: "(string \<times> json) list \<Rightarrow> string \<Rightarrow> string list" where
  "ids_of finalize field =
     (case dget finalize field (JArr []) of
        JArr xs \<Rightarrow> List.map_filter (\<lambda>v. case v of JObj d \<Rightarrow> as_str (dget d ''id'' JNull) | _ \<Rightarrow> None) xs
      | _ \<Rightarrow> [])"

definition allowed_tasks :: "(string \<times> json) list \<Rightarrow> string \<Rightarrow> string list" where
  "allowed_tasks finalize action_id =
     (case map_of (build_prerequisite_scopes finalize) action_id of
        Some s \<Rightarrow> ps_effective_task_ids s | None \<Rightarrow> [])"

subsection \<open>user-action resolve\<close>

text \<open>
  What the command finds: the state it loaded, what the state file holds when it saves, the finalize
  artifact, the stored resolutions, the actor, and the clock when it builds the event and when it
  writes the entry.
\<close>

record command_inputs =
  ci_sha :: "string \<Rightarrow> string"
  ci_state :: "(string \<times> json) list"
  ci_state_file :: "(string \<times> json) list option"
  ci_finalize :: "(string \<times> json) list option"
  ci_resolutions :: json_file
  ci_actor :: string
  ci_now :: string
  ci_entry_now :: string

definition selected_resolution :: "(string \<times> json) list \<Rightarrow> string list \<Rightarrow> string \<Rightarrow> phase_error + string" where
  "selected_resolution args keys message =
     (case List.map_filter (arg args) keys of
        r # _ \<Rightarrow> if r \<in> set SUPPORTED_USER_ACTION_RESOLUTION_STATES then Inr r else Inl (invalid_args message)
      | [] \<Rightarrow> Inl (invalid_args message))"

definition selected_action :: "(string \<times> json) list \<Rightarrow> (string \<times> json) list \<Rightarrow> phase_error + string" where
  "selected_action finalize args =
     (case List.map_filter (arg args) [''action_id'', ''action''] of
        i # _ \<Rightarrow> if i \<in> set (ids_of finalize ''user_actions'') then Inr i else Inl (invalid_args ''Unknown user action'')
      | [] \<Rightarrow> Inl (invalid_args ''Unknown user action''))"

definition check_tasks :: "(string \<times> json) list \<Rightarrow> string \<Rightarrow> string list option \<Rightarrow> phase_error + unit" where
  "check_tasks finalize action_id tasks =
     (case tasks of
        Some (t # ts) \<Rightarrow>
          res_bind (ensure (set (t # ts) \<subseteq> set (ids_of finalize ''tasks''))
            (invalid_args ''Unknown task ID(s) in --tasks'')) (\<lambda>_.
          ensure (set (t # ts) \<subseteq> set (allowed_tasks finalize action_id))
            (invalid_args ''not in the action's effective task scope''))
      | _ \<Rightarrow> Inr ())"

definition user_action_details :: "(string \<times> json) list \<Rightarrow> string list option \<Rightarrow> event_details" where
  "user_action_details args tasks =
     \<lparr>ev_fallback_mode = arg args ''fallback_mode'',
      ev_tasks = map_option (Pair ''applies_to_tasks'') tasks,
      ev_instructions = arg args ''instructions'', ev_reason = arg args ''reason'', ev_phase = arg args ''phase'',
      ev_evidence = parse_user_action_evidence (dget args ''evidence'' JNull), ev_debt_note = arg args ''debt_note''\<rparr>"

definition text_of :: "string option \<Rightarrow> string" where
  "text_of v = (case v of Some s \<Rightarrow> s | None \<Rightarrow> [])"

text \<open>The state saved and the resolutions written.\<close>

definition handle_user_action ::
  "command_inputs \<Rightarrow> (string \<times> json) list \<Rightarrow> phase_error + ((string \<times> json) list \<times> (string \<times> json) list)" where
  "handle_user_action ci args =
     res_bind (ensure (dget args ''user_action_action'' JNull = JStr ''resolve'')
       (invalid_args ''Unknown user-action sub-command'')) (\<lambda>_.
     res_bind (selected_resolution args [''resolution'', ''state''] ''Unsupported resolution state'') (\<lambda>resolution.
     res_bind (case ci_finalize ci of
         None \<Rightarrow> Inl (Cli_Error ''invalid_state'' ''No finalize.json'') | Some d \<Rightarrow> Inr d) (\<lambda>finalize.
     res_bind (selected_action finalize args) (\<lambda>action_id.
     res_bind (task_list_of (tasks_arg args)) (\<lambda>tasks.
     res_bind (check_tasks finalize action_id tasks) (\<lambda>_.
     res_bind (build_resolution_event action_id resolution (ci_actor ci) None (ci_now ci)
         (user_action_details args tasks)) (\<lambda>event.
     res_bind (append_to_meta ''user_action_resolutions'' (JObj event) (ci_state ci)) (\<lambda>state.
     res_bind (upsert_user_action_resolution (ci_entry_now ci) (ci_resolutions ci) action_id resolution
         \<lparr>up_reason = text_of (arg args ''reason''), up_fallback_mode = text_of (arg args ''fallback_mode''),
          up_applies_to_task_ids = Some (case tasks of Some ts \<Rightarrow> ts | None \<Rightarrow> []),
          up_instructions = text_of (arg args ''instructions''),
          up_created_by = (case arg args ''created_by'' of Some s \<Rightarrow> s | None \<Rightarrow> ci_actor ci)\<rparr>) (\<lambda>entries.
     Inr (save_state_merge_meta (ci_sha ci) (ci_state_file ci) state, entries))))))))))"

subsection \<open>quality-gate resolve\<close>

text \<open>
  \<open>known\<close> is the evaluation the command makes of the deviations of the stored phase result; no phase
  result has none.
\<close>

definition quality_evaluation ::
  "recovery_inputs \<Rightarrow> (string \<times> json) list \<Rightarrow> phase_error + blocker_detail list" where
  "quality_evaluation ri state =
     res_bind (read_phase_result (ri_phase_file ri)) (\<lambda>result.
       evaluate_blocker_recovery (ri_sha ri) (ri_passes ri) (ri_coverage ri) (ri_resolutions ri)
         (ri_finalize ri) (JObj state) []
         (case result of Some r \<Rightarrow> map Typed (pr_deviations r) | None \<Rightarrow> []))"

definition check_known_blocker :: "string \<Rightarrow> blocker_detail list \<Rightarrow> phase_error + unit" where
  "check_known_blocker blocker_id known =
     (if known \<noteq> [] then ensure (blocker_id \<in> bd_blocker_id ` set known) (invalid_args ''Unknown quality blocker_id'')
      else ensure (starts_with ''quality:'' blocker_id)
        (invalid_args ''quality-gate resolve requires a quality blocker ID''))"

definition quality_details :: "(string \<times> json) list \<Rightarrow> event_details" where
  "quality_details args =
     \<lparr>ev_fallback_mode = arg args ''fallback_mode'', ev_tasks = None, ev_instructions = None, ev_reason = None,
      ev_phase = arg args ''phase'', ev_evidence = parse_user_action_evidence (dget args ''evidence'' JNull),
      ev_debt_note = arg args ''debt_note''\<rparr>"

definition handle_quality_gate ::
  "command_inputs \<Rightarrow> recovery_inputs \<Rightarrow> string \<Rightarrow> string \<Rightarrow> (string \<times> json) list \<Rightarrow> phase_error + (string \<times> json) list" where
  "handle_quality_gate ci ri blocker_id resolution args =
     res_bind (ensure (dget args ''quality_gate_action'' JNull = JStr ''resolve'')
       (invalid_args ''Unknown quality-gate sub-command'')) (\<lambda>_.
     res_bind (ensure (resolution \<in> set VALID_RESOLUTIONS) (invalid_args ''Invalid resolution'')) (\<lambda>_.
     res_bind (quality_evaluation ri (ci_state ci)) (\<lambda>known.
     res_bind (check_known_blocker blocker_id known) (\<lambda>_.
     res_bind (build_quality_resolution_event blocker_id resolution (ci_actor ci) None (ci_now ci)
         (quality_details args)) (\<lambda>event.
     res_bind (append_to_meta ''quality_gate_resolutions'' (JObj event) (ci_state ci)) (\<lambda>state.
     Inr (save_state_merge_meta (ci_sha ci) (ci_state_file ci) state)))))))"

end
