(* ===== verification/Blocker_Facts.thy ===== *)
theory Blocker_Facts
  imports Resolution_Commands Phase_Facts
begin

section \<open>Facts about blockers and their resolution\<close>

text \<open>
  The latest event of a key, the classification of blockers, the agreement of the retry policy with
  recover-blocked, what a recovery does to the state, and what the two resolve commands achieve.
\<close>

subsection \<open>The latest event\<close>

text \<open>The last of the elements whose key is greatest.\<close>

definition last_max :: "('a \<Rightarrow> 'k::linorder) \<Rightarrow> 'a list \<Rightarrow> 'a" where
  "last_max f xs = last (filter (\<lambda>x. \<forall>y \<in> set xs. f y \<le> f x) xs)"

lemma last_filter_same: "xs \<noteq> [] \<Longrightarrow> P (last xs) \<Longrightarrow> last (filter P xs) = last xs"
  by (induction xs rule: rev_induct) auto

lemma last_of_sorted: "sorted (map f ys) \<Longrightarrow> y \<in> set ys \<Longrightarrow> f y \<le> f (last ys)"
  by (induction ys rule: rev_induct) (auto simp: sorted_append)

lemma last_sort_key:
  assumes "xs \<noteq> []"
  shows "last (sort_key f xs) = last_max f xs"
proof -
  let ?ys = "sort_key f xs"
  let ?k = "f (last ?ys)"
  have ne: "?ys \<noteq> []"
    using assms by (metis set_empty set_sort)
  have top: "f y \<le> ?k" if "y \<in> set xs" for y
    by (rule last_of_sorted) (simp_all add: that)
  have "?k \<in> f ` set xs"
    using ne by (metis image_eqI last_in_set set_sort)
  then have eq: "(\<forall>y \<in> set xs. f y \<le> f x) \<longleftrightarrow> f x = ?k" if "x \<in> set xs" for x
    using top that by (auto intro: antisym)
  have "last ?ys = last (filter (\<lambda>y. f y = ?k) ?ys)"
    using ne by (simp add: last_filter_same)
  also have "\<dots> = last (filter (\<lambda>y. f y = ?k) xs)"
    by (simp add: sort_key_stable)
  also have "filter (\<lambda>y. f y = ?k) xs = filter (\<lambda>x. \<forall>y \<in> set xs. f y \<le> f x) xs"
    by (rule filter_cong [OF refl]) (simp add: eq)
  finally show ?thesis
    by (simp add: last_max_def)
qed

lemma map_of_keep_latest:
  "map_of (fold (keep_latest key) es latest) k =
     (case filter (\<lambda>e. key e = Some k) es of [] \<Rightarrow> map_of latest k | ys \<Rightarrow> Some (last ys))"
proof (induction es arbitrary: latest)
  case (Cons e es)
  then show ?case
    by (auto simp: keep_latest_def update_conv split: option.split list.split)
qed simp

text \<open>The events of a key that the aggregation accepts, in their order.\<close>

definition events_for :: "string \<Rightarrow> string \<Rightarrow> string list option \<Rightarrow> string \<Rightarrow> json list \<Rightarrow> (string \<times> json) list list" where
  "events_for key_field state_field valid k events =
     filter (\<lambda>e. event_key key_field state_field valid e = Some k) (List.map_filter as_dict events)"

lemma latest_event:
  "map_of (latest_events_by_key key_field state_field valid events) k =
     (let es = events_for key_field state_field valid k events
      in if es = [] then None else Some (last_max event_sort_key es))"
proof -
  let ?P = "\<lambda>e. event_key key_field state_field valid e = Some k"
  let ?es = "events_for key_field state_field valid k events"
  have "map_of (latest_events_by_key key_field state_field valid events) k =
      (case sort_key event_sort_key ?es of [] \<Rightarrow> None | ys \<Rightarrow> Some (last ys))"
    by (simp add: latest_events_by_key_def map_of_keep_latest filter_sort events_for_def cong: list.case_cong)
  also have "\<dots> = (if ?es = [] then None else Some (last (sort_key event_sort_key ?es)))"
    by (cases "sort_key event_sort_key ?es") (auto dest: arg_cong [where f = set])
  finally show ?thesis
    by (simp add: Let_def last_sort_key)
qed

lemma events_for_append [simp]:
  "events_for f s v k (xs @ ys) = events_for f s v k xs @ events_for f s v k ys"
  by (simp add: events_for_def List.map_filter_def)

lemma last_max_in: "xs \<noteq> [] \<Longrightarrow> last_max f xs \<in> set xs"
  by (metis last_in_set last_sort_key set_empty set_sort)

lemma last_max_ge: "xs \<noteq> [] \<Longrightarrow> y \<in> set xs \<Longrightarrow> f y \<le> f (last_max f xs)"
  by (simp add: last_sort_key [symmetric] last_of_sorted)

lemma last_max_strict:
  "x \<in> set xs \<Longrightarrow> (\<And>y. y \<in> set xs \<Longrightarrow> y \<noteq> x \<Longrightarrow> f y < f x) \<Longrightarrow> last_max f xs = x"
  using last_max_in [of xs f] last_max_ge [of xs x f] by (cases "xs = []") (force, force)

subsection \<open>Classification\<close>

definition one_outcome :: "blocker_detail \<Rightarrow> bool" where
  "one_outcome b \<longleftrightarrow>
     (bd_is_terminal b \<and> \<not> bd_requires_rerun b \<and> \<not> bd_is_non_terminal b \<or>
      \<not> bd_is_terminal b \<and> bd_requires_rerun b \<and> \<not> bd_is_non_terminal b \<or>
      \<not> bd_is_terminal b \<and> \<not> bd_requires_rerun b \<and> bd_is_non_terminal b) \<and>
     (bd_suggested_commands b = [] \<longleftrightarrow> bd_is_non_terminal b)"

lemma prerequisite_detail_outcome: "one_outcome (prerequisite_detail task scope event)"
  by (auto simp: one_outcome_def prerequisite_detail_def Let_def)

lemma quality_behavior_cases:
  "classify_quality_resolution_behavior True s \<in> {Advance_With_Debt, Rerun_Required, Hard_Block}"
  by (simp add: classify_quality_resolution_behavior_def)

lemma quality_detail_outcome: "one_outcome (quality_detail sha x event malformed)"
proof -
  obtain b where b: "classify_quality_resolution_behavior True (state_of_event event) = b"
      "b = Advance_With_Debt \<or> b = Rerun_Required \<or> b = Hard_Block"
    using quality_behavior_cases by blast
  then show ?thesis
    by (auto simp: one_outcome_def quality_detail_def Let_def)
qed

lemma task_blockers_outcome: "b \<in> set (task_blockers scopes effective raw) \<Longrightarrow> one_outcome b"
  by (auto simp: task_blockers_def prerequisite_detail_outcome split: option.splits if_splits)

lemma deviation_blockers_outcome: "b \<in> set (deviation_blockers sha passes state latest raw) \<Longrightarrow> one_outcome b"
  by (auto simp: deviation_blockers_def quality_detail_outcome split: option.splits if_splits prod.splits)

lemma prerequisite_blockers_outcome:
  "evaluate_prerequisite_blockers finalize state blocked f = Inr bs \<Longrightarrow> b \<in> set bs \<Longrightarrow> one_outcome b"
  by (auto simp: evaluate_prerequisite_blockers_def dest: task_blockers_outcome)

lemma quality_blockers_outcome:
  "b \<in> set (evaluate_quality_blockers sha passes state deviations) \<Longrightarrow> one_outcome b"
  by (auto simp: evaluate_quality_blockers_def dest: deviation_blockers_outcome)

lemma evaluation_outcome:
  "evaluate_blocker_recovery sha passes coverage f finalize state blocked deviations = Inr bs \<Longrightarrow>
   b \<in> set bs \<Longrightarrow> one_outcome b"
  by (auto simp: evaluate_blocker_recovery_def Let_def
      dest: prerequisite_blockers_outcome quality_blockers_outcome)

lemma can_continue_iff: "can_continue bs \<longleftrightarrow> \<not> has_terminal_blockers bs"
  by (auto simp: can_continue_def has_terminal_blockers_def list_all_iff list_ex_iff)

lemma no_terminal_Nil [simp]: "\<not> has_terminal_blockers []" "\<not> requires_rerun []"
  by (simp_all add: has_terminal_blockers_def requires_rerun_def)

theorem blockers_have_one_outcome:
  assumes "evaluate_blocker_recovery sha passes coverage f finalize state blocked deviations = Inr bs"
    and "b \<in> set bs"
  shows "one_outcome b"
    and "evaluate_blocker_recovery_policy False (Inr bs) = Inr No_Retry \<longleftrightarrow> (\<exists>b \<in> set bs. bd_is_terminal b)"
    and "evaluate_blocker_recovery_policy False (Inr bs) = Inr Retry \<longleftrightarrow> (\<forall>b \<in> set bs. bd_is_non_terminal b)"
proof -
  have one: "one_outcome b" if "b \<in> set bs" for b
    using assms(1) that by (rule evaluation_outcome)
  then show "one_outcome b"
    using assms(2) by blast
  show "evaluate_blocker_recovery_policy False (Inr bs) = Inr No_Retry \<longleftrightarrow> (\<exists>b \<in> set bs. bd_is_terminal b)"
    by (auto simp: evaluate_blocker_recovery_policy_def can_continue_iff has_terminal_blockers_def list_ex_iff)
  have "\<not> has_terminal_blockers bs \<and> \<not> requires_rerun bs \<longleftrightarrow> (\<forall>b \<in> set bs. bd_is_non_terminal b)"
    using one by (fastforce simp: has_terminal_blockers_def requires_rerun_def list_ex_iff one_outcome_def)
  then show "evaluate_blocker_recovery_policy False (Inr bs) = Inr Retry \<longleftrightarrow> (\<forall>b \<in> set bs. bd_is_non_terminal b)"
    by (auto simp: evaluate_blocker_recovery_policy_def can_continue_iff)
qed

text \<open>The transition recover-blocked finds the current blockers passable exactly when the retry policy
  of execute answers with a retry, in the session or fresh.
\<close>

theorem retry_policy_agrees_with_recovery:
  "(\<exists>evidence. blocker_evidence ri state r = Inr evidence) \<longleftrightarrow>
   evaluate_blocker_recovery_policy False
     (evaluate_blocker_recovery (ri_sha ri) (ri_passes ri) (ri_coverage ri) (ri_resolutions ri) (ri_finalize ri)
        (JObj state) (map Typed (pr_blocked_tasks r)) (map Typed (pr_deviations r))) \<in> {Inr Retry, Inr Retry_Fresh}"
  by (cases "evaluate_blocker_recovery (ri_sha ri) (ri_passes ri) (ri_coverage ri) (ri_resolutions ri)
        (ri_finalize ri) (JObj state) (map Typed (pr_blocked_tasks r)) (map Typed (pr_deviations r))")
    (auto simp: blocker_evidence_def evaluate_blocker_recovery_policy_def can_continue_iff)

subsection \<open>The recover-blocked transition\<close>

lemma map_of_delete: "map_of (AList.delete k d) k' = (if k = k' then None else map_of d k')"
  by (simp add: delete_conv)

lemma recover_blocked_elim:
  assumes "recover_blocked ri state payload = Inr t"
  obtains cursor phase target reason details ids repair os where
    "may_recover state = Inr ()"
    "dget state ''resume_cursor'' JNull = JObj cursor"
    "recovery_target cursor = Inr (phase, target)"
    "\<not> failure_is ''kind'' ''authority_divergence'' state"
    "rt_deltas t = [(''current_state'', JStr (state_value target)),
       (''meta'', JObj (AList.update ''overrides'' (JArr (os @ [override_entry (ri_now ri) reason
          (dget state ''current_state'' JNull) target cursor ids repair])) (meta_of state)))]"
    "rt_remove t = [''latest_failure'', ''active_step'']"
    "rt_blockers t = details"
    "needs_phase_repair state cursor \<or>
     (\<exists>r. read_phase_result (ri_phase_file ri) = Inr (Some r) \<and> \<not> external_error_requires_resume state cursor (Some r) \<and>
        blocker_evidence ri state r = Inr (details, ids, repair))"
proof -
  show ?thesis
    using assms
    unfolding recover_blocked_def next_meta_def Let_def
    by (auto simp: meta_of_def intro!: that split: json.splits if_splits option.splits prod.splits)
qed

lemma recovery_target_iff:
  "recovery_target cursor = Inr (phase, target) \<longleftrightarrow>
   dget cursor ''phase'' JNull = JStr phase \<and> phase \<noteq> [] \<and> map_of STAGE_TO_STATE phase = Some target"
  by (auto simp: recovery_target_def stage_predecessor_def RECOVERY_POLICIES_def split: json.splits option.splits)

lemma stage_state_not_stopped: "map_of STAGE_TO_STATE phase = Some target \<Longrightarrow>
   state_value target \<notin> {[], state_value STATE_BLOCKED, state_value STATE_ABORTED}"
  by (drule map_of_SomeD) (auto simp: STAGE_TO_STATE_def)

lemma overrides_of_update: "dget (AList.update ''overrides'' v meta) ''overrides'' w = v"
  by simp

lemma override_entry_supersedes:
  "dget cursor ''phase'' JNull = JStr phase \<Longrightarrow>
   supersedes phase (state_value target) (override_entry now reason before target cursor ids repair)"
  by (simp add: supersedes_def override_entry_def dget_def nonempty_text_def)

text \<open>C4. After recover-blocked was applied the plan is in the predecessor state of the phase to resume, its
  failure is gone, the stored phase result counts as superseded, and the transition cannot be applied
  again.
\<close>

theorem recovery_supersedes_and_applies_once:
  assumes "recover_blocked ri state payload = Inr t"
    and "dget state ''resume_cursor'' JNull = JObj cursor"
    and "dget cursor ''phase'' JNull = JStr phase"
    and "kind \<noteq> ''success''"
  shows "(\<exists>target. map_of STAGE_TO_STATE phase = Some target \<and>
           dget (apply_control_deltas t state) ''current_state'' JNull = JStr (state_value target)) \<and>
    dget (apply_control_deltas t state) ''latest_failure'' JNull = JNull \<and>
    is_superseded_recovered_phase_result phase kind (JObj (apply_control_deltas t state)) \<and>
    (\<exists>message. recover_blocked ri' (apply_control_deltas t state) payload' =
           Inl (Cli_Error ''invalid_transition'' message))"
proof (intro conjI)
  obtain target reason details ids repair os where t:
    "map_of STAGE_TO_STATE phase = Some target"
    "rt_deltas t = [(''current_state'', JStr (state_value target)),
       (''meta'', JObj (AList.update ''overrides'' (JArr (os @ [override_entry (ri_now ri) reason
          (dget state ''current_state'' JNull) target cursor ids repair])) (meta_of state)))]"
    "rt_remove t = [''latest_failure'', ''active_step'']"
    by (rule recover_blocked_elim [OF assms(1)]) (use assms(2,3) in \<open>simp add: recovery_target_iff\<close>)
  let ?s = "apply_control_deltas t state"
  have current: "dget ?s ''current_state'' JNull = JStr (state_value target)"
    and cursor: "dget ?s ''resume_cursor'' JNull = JObj cursor"
    and meta: "dget ?s ''meta'' JNull = JObj (AList.update ''overrides'' (JArr (os @ [override_entry (ri_now ri) reason
          (dget state ''current_state'' JNull) target cursor ids repair])) (meta_of state))"
    using t assms(2) by (simp_all add: apply_control_deltas_def)
  show "\<exists>target. map_of STAGE_TO_STATE phase = Some target \<and>
           dget ?s ''current_state'' JNull = JStr (state_value target)"
    using t(1) current by blast
  show "dget ?s ''latest_failure'' JNull = JNull"
    using t by (simp add: apply_control_deltas_def)
  show "is_superseded_recovered_phase_result phase kind (JObj ?s)"
    using stage_state_not_stopped [OF t(1)] override_entry_supersedes [OF assms(3)] assms(3,4)
    by (simp add: is_superseded_recovered_phase_result_def current cursor meta nonempty_text_def)
  have "map_of ?s ''current_state'' = Some (JStr (state_value target))"
    using t by (simp add: apply_control_deltas_def map_of_delete update_conv)
  then have "may_recover ?s = Inl (Cli_Error ''invalid_transition'' ''recover-blocked requires state blocked'')"
    using stage_state_not_stopped [OF t(1)] by (simp add: may_recover_def)
  then show "\<exists>message. recover_blocked ri' ?s payload' = Inl (Cli_Error ''invalid_transition'' message)"
    by (simp add: recover_blocked_def)
qed

subsection \<open>What a resolution command achieves\<close>

lemma dict_update_other: "k \<notin> set (map fst kvs) \<Longrightarrow> map_of (dict_update d kvs) k = map_of d k"
  by (simp add: map_of_dict_update split: option.split) (metis fst_conv image_eqI map_of_SomeD set_rev)

lemma map_of_updates: "map_of (dict_update [] kvs) k = map_of (List.rev kvs) k"
  by (simp add: map_of_dict_update split: option.split)

lemma base_event_get:
  assumes "id_field \<in> {''blocker_id'', ''action_id''}"
    and "ev_tasks d = None \<or> (\<exists>ts. ev_tasks d = Some (''applies_to_tasks'', ts))"
    and "e = build_base_resolution_event id_field i resolution by None now d"
  shows "dget e id_field w = JStr i" "dget e ''resolution'' w = JStr resolution"
    "dget e ''timestamp'' w = JStr now"
    "map_of e ''applies_to_tasks'' = map_option (\<lambda>(f, ts). JArr (map JStr ts)) (ev_tasks d)"
    "map_of e ''applies_to_task_ids'' = None" "map_of e ''state'' = None"
proof -
  let ?base = "dict_update [] [(id_field, JStr i), (''resolution'', JStr resolution),
      (''timestamp'', JStr now), (''created_at'', JStr now), (''created_by'', JStr by)]"
  obtain kvs where e: "e = dict_update ?base kvs"
    and kvs: "set (map fst kvs) \<subseteq> {''fallback_mode'', ''applies_to_tasks'', ''instructions'', ''reason'', ''phase'',
         ''evidence'', ''debt_note''}"
    and tasks: "map_of (List.rev kvs) ''applies_to_tasks'' = map_option (\<lambda>(f, ts). JArr (map JStr ts)) (ev_tasks d)"
  proof -
    let ?kvs = "opt_field ''fallback_mode'' JStr (ev_fallback_mode d)
           @ (case ev_tasks d of Some (f, ts) \<Rightarrow> [(f, JArr (map JStr ts))] | None \<Rightarrow> [])
           @ opt_field ''instructions'' JStr (ev_instructions d) @ opt_field ''reason'' JStr (ev_reason d)
           @ opt_field ''phase'' JStr (ev_phase d)
           @ opt_field ''evidence'' (\<lambda>xs. JArr (map JStr xs)) (ev_evidence d)
           @ opt_field ''debt_note'' JStr (ev_debt_note d)"
    show thesis
    proof (rule that)
      show "e = dict_update ?base ?kvs"
        using assms(3) by (simp add: build_base_resolution_event_def)
      show "set (map fst ?kvs) \<subseteq> {''fallback_mode'', ''applies_to_tasks'', ''instructions'', ''reason'', ''phase'',
         ''evidence'', ''debt_note''}"
        using assms(2) by (auto simp: opt_field_def split: option.splits)
      have none: "map_of (List.rev (opt_field k f v)) ''applies_to_tasks'' = None" if "k \<noteq> ''applies_to_tasks''"
        for k and f :: "'b \<Rightarrow> json" and v
        using that by (simp add: opt_field_def split: option.split)
      show "map_of (List.rev ?kvs) ''applies_to_tasks'' = map_option (\<lambda>(f, ts). JArr (map JStr ts)) (ev_tasks d)"
        using assms(2) by (auto simp: map_add_def opt_field_def split: option.splits)
    qed
  qed
  have base: "map_of e k = map_of ?base k" if "k \<notin> {''fallback_mode'', ''applies_to_tasks'', ''instructions'',
       ''reason'', ''phase'', ''evidence'', ''debt_note''}" for k
    unfolding e by (rule dict_update_other [OF contra_subsetD [OF kvs that]])
  have lookup: "map_of ?base k =
      (if k = ''created_by'' then Some (JStr by) else if k = ''created_at'' then Some (JStr now)
       else if k = ''timestamp'' then Some (JStr now) else if k = ''resolution'' then Some (JStr resolution)
       else if k = id_field then Some (JStr i) else None)" for k
    by (simp only: map_of_updates rev.simps append.simps map_of.simps fst_conv snd_conv fun_upd_apply)
  have id: "id_field \<notin> {''fallback_mode'', ''applies_to_tasks'', ''instructions'', ''reason'', ''phase'',
       ''evidence'', ''debt_note'', ''created_at'', ''created_by'', ''resolution'', ''timestamp'', ''applies_to_task_ids'', ''state''}"
    using assms(1) by auto
  show "dget e id_field w = JStr i"
    using id by (simp add: dget_def base lookup)
  show "dget e ''resolution'' w = JStr resolution"
    using id by (auto simp: dget_def base lookup)
  show "dget e ''timestamp'' w = JStr now"
    using id by (auto simp: dget_def base lookup)
  show "map_of e ''applies_to_task_ids'' = None" "map_of e ''state'' = None"
    using id by (auto simp: base lookup)
  show "map_of e ''applies_to_tasks'' = map_option (\<lambda>(f, ts). JArr (map JStr ts)) (ev_tasks d)"
    using id tasks unfolding e map_of_dict_update lookup by (auto split: option.split)
qed

lemma base_event_time:
  assumes "id_field \<in> {''blocker_id'', ''action_id''}"
    and "ev_tasks d = None \<or> (\<exists>ts. ev_tasks d = Some (''applies_to_tasks'', ts))" and "now \<noteq> []"
  shows "event_sort_key (build_base_resolution_event id_field i resolution by None now d) = now"
  using base_event_get(3) [OF assms(1,2) refl] assms(3) by (simp add: event_sort_key_def)

lemma append_to_meta_Inr:
  "append_to_meta field v state = Inr state' \<longleftrightarrow>
   (\<exists>meta xs. map_of state ''meta'' = Some (JObj meta) \<and> dget meta field (JArr []) = JArr xs \<and>
      state' = AList.update ''meta'' (JObj (AList.update field (JArr (xs @ [v])) meta)) state)"
  by (auto simp: append_to_meta_def split: option.splits json.splits)

lemma append_to_meta_list:
  assumes "append_to_meta field v state = Inr state'"
  shows "dget (meta_of state') field w =
     JArr (coerce_list (dget (meta_of state) field (JArr [])) @ [v])"
  using assms by (auto simp: append_to_meta_Inr meta_of_def dget_map_of)

lemma merge_fields_get:
  assumes "map_of FIELD_KEY_FUNCS field = Some key"
  shows "dget (fold (merge_field sha disk memory) fs meta) field w =
     (if field \<in> set fs
      then JArr (merge_meta_lists (key sha) (dget disk field (JArr [])) (dget memory field (JArr [])))
      else dget meta field w)"
proof (induction fs arbitrary: meta)
  case (Cons f fs)
  then show ?case
    using assms by (cases "map_of FIELD_KEY_FUNCS f") (auto simp: merge_field_def)
qed simp

text \<open>What the state file holds in a field.\<close>

definition stored_list :: "(string \<times> json) list \<Rightarrow> string \<Rightarrow> json list" where
  "stored_list state field = coerce_list (dget (meta_of state) field (JArr []))"

definition file_state :: "(string \<times> json) list option \<Rightarrow> (string \<times> json) list" where
  "file_state file = (case file of Some d \<Rightarrow> d | None \<Rightarrow> [])"

lemma merged_field:
  assumes "field \<in> set DEFAULT_MERGE_FIELDS" and "map_of FIELD_KEY_FUNCS field = Some key"
  shows "stored_list (save_state_merge_meta sha file state) field =
     merge_meta_lists (key sha) (dget (meta_of (file_state file)) field (JArr [])) (dget (meta_of state) field (JArr []))"
proof -
  have meta: "meta_of (AList.update ''meta'' (JObj m) s) = m" for m s
    by (simp add: meta_of_def)
  show ?thesis
    unfolding save_state_merge_meta_def merge_meta_state_def Let_def stored_list_def meta file_state_def
    using assms by (cases "DEFAULT_MERGE_FIELDS = []") (simp_all add: merge_fields_get)
qed

lemma stored_after_append:
  assumes "append_to_meta field v state = Inr state'"
  shows "dget (meta_of state') field (JArr []) = JArr (stored_list state field @ [v])"
  using append_to_meta_list [OF assms] by (simp add: stored_list_def)

lemma sort_key_in_keys:
  "quality_resolution_merge_key sha x = quality_resolution_merge_key sha (JObj e) \<Longrightarrow> dget e ''blocker_id'' (JStr []) = JStr i \<Longrightarrow>
   i \<noteq> [] \<Longrightarrow> \<exists>d. x = JObj d \<and> event_sort_key d = event_sort_key e"
  "resolution_merge_key sha x = resolution_merge_key sha (JObj e) \<Longrightarrow> dget e ''action_id'' (JStr []) = JStr i \<Longrightarrow>
   i \<noteq> [] \<Longrightarrow> \<exists>d. x = JObj d \<and> event_sort_key d = event_sort_key e"
  by (auto simp: quality_resolution_merge_key_def resolution_merge_key_def split: json.splits)

text \<open>An event later than all that is stored survives the save, and is later than all that is saved.\<close>

lemma saved_event:
  assumes field: "field \<in> set DEFAULT_MERGE_FIELDS" "map_of FIELD_KEY_FUNCS field = Some key"
    and append: "append_to_meta field (JObj e) state = Inr state'"
    and older: "\<And>d. JObj d \<in> set (stored_list state field) \<union> set (stored_list (file_state disk) field) \<Longrightarrow>
         event_sort_key d < event_sort_key e"
    and key: "\<And>x. key sha x = key sha (JObj e) \<Longrightarrow> \<exists>d. x = JObj d \<and> event_sort_key d = event_sort_key e"
  shows "JObj e \<in> set (stored_list (save_state_merge_meta sha disk state') field)"
    and "\<And>d. JObj d \<in> set (stored_list (save_state_merge_meta sha disk state') field) \<Longrightarrow> d \<noteq> e \<Longrightarrow>
         event_sort_key d < event_sort_key e"
proof -
  let ?on_disk = "dget (meta_of (file_state disk)) field (JArr [])"
  let ?memory = "JArr (stored_list state field @ [JObj e])"
  have saved: "stored_list (save_state_merge_meta sha disk state') field = merge_meta_lists (key sha) ?on_disk ?memory"
    by (simp add: merged_field [where key = key, OF field] stored_after_append [OF append])
  have new: "x \<notin> set (stored_list state field) \<union> set (coerce_list ?on_disk)" if "key sha x = key sha (JObj e)" for x
    using key [OF that] older unfolding stored_list_def [of "file_state disk"] by (metis less_irrefl)
  show "JObj e \<in> set (stored_list (save_state_merge_meta sha disk state') field)"
    unfolding saved using new by (intro merge_keeps_new) fastforce+
  show "event_sort_key d < event_sort_key e"
    if "JObj d \<in> set (stored_list (save_state_merge_meta sha disk state') field)" "d \<noteq> e" for d
    using that older set_unseen [of "key sha" "{}" "coerce_list ?on_disk @ coerce_list ?memory"]
    unfolding saved set_merge by (auto simp: stored_list_def)
qed

lemma state_meta_list_stored: "List.map_filter as_dict (state_meta_list state field) = List.map_filter as_dict (stored_list state field)"
proof -
  have "List.map_filter as_dict (filter (\<lambda>v. as_dict v \<noteq> None) xs) = List.map_filter as_dict xs" for xs
    by (induction xs) (auto simp: List.map_filter_simps split: option.split)
  then show ?thesis
    by (auto simp: state_meta_list_def stored_list_def meta_of_def dget_def coerce_list_def dict_or_empty_def
        List.map_filter_simps split: option.splits json.splits)
qed

lemma stored_latest:
  assumes "JObj e \<in> set events" "event_key key_field state_field valid e = Some k"
    and "\<And>d. JObj d \<in> set events \<Longrightarrow> d \<noteq> e \<Longrightarrow> event_sort_key d < event_sort_key e"
  shows "map_of (latest_events_by_key key_field state_field valid events) k = Some e"
proof -
  have in_dicts: "x \<in> set (List.map_filter as_dict events) \<longleftrightarrow> JObj x \<in> set events" for x
    by (auto simp: List.map_filter_def image_iff intro!: bexI)
  let ?es = "events_for key_field state_field valid k events"
  have "e \<in> set ?es"
    using assms by (simp add: events_for_def in_dicts)
  moreover have "event_sort_key y < event_sort_key e" if "y \<in> set ?es" "y \<noteq> e" for y
    using that assms(3) by (auto simp: events_for_def in_dicts)
  ultimately show ?thesis
    by (auto simp: latest_event Let_def intro: last_max_strict)
qed

lemma latest_quality_stored:
  "latest_quality_resolutions (state_meta_list state field) = latest_quality_resolutions (stored_list state field)"
  by (simp add: latest_quality_resolutions_def latest_events_by_key_def state_meta_list_stored)

text \<open>C5. After quality-gate resolve was served with a resolution that lets the phase go on, newer than
  every stored event, the blocker it names is no longer terminal, and it is passable without a rerun
  exactly when it was accepted as debt.
\<close>

theorem quality_command_clears_blocker:
  assumes "handle_quality_gate ci ri i resolution args = Inr saved"
    and "resolution \<in> {''accepted_with_debt'', ''fixed''}"
    and "\<And>d. JObj d \<in> set (stored_list (ci_state ci) ''quality_gate_resolutions'') \<union>
                     set (stored_list (file_state (ci_state_file ci)) ''quality_gate_resolutions'') \<Longrightarrow>
           event_sort_key d < ci_now ci"
    and "ci_now ci \<noteq> []"
    and "b \<in> set (evaluate_quality_blockers sha passes saved deviations)" and "bd_blocker_id b = i"
  shows "\<not> bd_is_terminal b \<and>
    (bd_is_non_terminal b \<longleftrightarrow> resolution = ''accepted_with_debt'')"
proof (intro conjI)
  let ?F = "''quality_gate_resolutions''"
  let ?e = "build_base_resolution_event ''blocker_id'' i resolution (ci_actor ci) None (ci_now ci) (quality_details args)"
  have none: "ev_tasks (quality_details args) = None"
    "(quality_details args)\<lparr>ev_tasks := None, ev_instructions := None, ev_reason := None\<rparr> = quality_details args"
    by (simp_all add: quality_details_def)
  obtain state where valid: "validate_quality_resolution_event (JObj ?e) = Inr ()"
    and state: "append_to_meta ?F (JObj ?e) (ci_state ci) = Inr state"
    and saved: "saved = save_state_merge_meta (ci_sha ci) (ci_state_file ci) state"
    using assms(1) by (auto simp: handle_quality_gate_def build_quality_resolution_event_def none Let_def
        split: if_splits)
  note get = base_event_get [where id_field = "''blocker_id''" and d = "quality_details args", OF _ _ refl]
  have id: "dget ?e ''blocker_id'' w = JStr i" and res: "dget ?e ''resolution'' w = JStr resolution" for w
    using get none(1) by simp_all
  have time: "event_sort_key ?e = ci_now ci"
    using assms(4) none(1) by (intro base_event_time) simp_all
  have nonblank: "\<not> blank i"
    using valid id by (auto simp: validate_quality_resolution_event_def nonblank_str_def)
  then have "i \<noteq> []"
    by (auto simp: blank_def)
  have field: "?F \<in> set DEFAULT_MERGE_FIELDS" "map_of FIELD_KEY_FUNCS ?F = Some quality_resolution_merge_key"
    by (simp_all add: DEFAULT_MERGE_FIELDS_def FIELD_KEY_FUNCS_def)
  note kept = saved_event [OF field state, where sha = "ci_sha ci" and disk = "ci_state_file ci", unfolded time,
      OF assms(3) sort_key_in_keys(1) [OF _ id \<open>i \<noteq> []\<close>, unfolded time], folded saved]
  have latest: "map_of (latest_quality_resolutions (stored_list saved ?F)) i = Some ?e"
    unfolding latest_quality_resolutions_def
    by (rule stored_latest [OF kept(1)]) (use nonblank id kept(2) time in \<open>auto simp: event_key_def has_key_def\<close>)
  obtain x where x: "quality_blocker_id sha x = i \<and> b = quality_detail sha x (Some ?e) None"
    using assms(5,6) latest valid
    by (auto simp: evaluate_quality_blockers_def deviation_blockers_def latest_quality_stored quality_detail_def
        checked_event_def Let_def split: option.splits if_splits prod.splits)
  have "map_of ?e ''resolution'' = Some (JStr resolution)"
    using res [of JNull] by (auto simp: dget_def split: option.splits)
  then have "state_of_event (Some ?e) = resolution"
    using assms(2) by (auto simp: state_of_event_def resolution_state_def aliased_record_value_def)
  then show "\<not> bd_is_terminal b" "bd_is_non_terminal b \<longleftrightarrow> resolution = ''accepted_with_debt''"
    using x assms(2) by (auto simp: quality_detail_def Let_def classify_quality_resolution_behavior_def)
qed

lemma last_max_among:
  "x \<in> set xs \<Longrightarrow> (\<And>y. y \<in> set xs \<Longrightarrow> y \<noteq> x \<Longrightarrow> y \<noteq> z \<Longrightarrow> f y < f x) \<Longrightarrow> last_max f xs = x \<or> last_max f xs = z"
  using last_max_in [of xs f] last_max_ge [of xs x f] by (cases "xs = []") (simp, metis leD)

text \<open>An event that settles an action for a task.\<close>

definition settles :: "string \<Rightarrow> string \<Rightarrow> (string \<times> json) list \<Rightarrow> bool" where
  "settles r task e \<longleftrightarrow> state_of_event (Some e) = r \<and> resolution_applies_to_task Memory (JObj e) (Some task)"

lemma settles_by_fields:
  assumes "map_of e ''resolution'' = Some (JStr r)" "r \<noteq> []" "map_of e ''applies_to_task_ids'' = None"
    and "map_of e ''applies_to_tasks'' = None \<or>
         (\<exists>ts. map_of e ''applies_to_tasks'' = Some (JArr (map JStr ts)) \<and> task \<in> set ts \<and> [] \<notin> set ts)"
  shows "settles r task e"
proof -
  have "named_tasks (map JStr ts) = ts" if "[] \<notin> set ts" for ts
    using that by (auto simp: named_tasks_def intro: filter_True)
  then show ?thesis
    using assms
    by (auto simp: settles_def state_of_event_def resolution_state_def resolution_applies_to_task_def
        aliased_record_value_def)
qed

lemma disk_event_get:
  assumes "dget entry ''state'' JNull = JStr r"
    and "dget entry ''applies_to_task_ids'' JNull = JArr (map JStr ts)" "[] \<notin> set ts"
  shows "map_of (disk_resolution_to_memory_event i entry) ''resolution'' = Some (JStr r)"
    "map_of (disk_resolution_to_memory_event i entry) ''action_id'' = Some (JStr i)"
    "map_of (disk_resolution_to_memory_event i entry) ''applies_to_task_ids'' = None"
    "map_of (disk_resolution_to_memory_event i entry) ''applies_to_tasks'' =
       (if ts = [] then None else Some (JArr (map JStr ts)))"
proof -
  have named: "named_tasks (map JStr ts) = ts"
    using assms(3) by (auto simp: named_tasks_def intro: filter_True)
  have copied: "map_of (concat (map (\<lambda>(source, target). raw_field target (dget entry source JNull)) copied_fields)) k = None"
    if "k \<in> {''applies_to_tasks'', ''applies_to_task_ids''}" for k
    using that by (auto simp: copied_fields_def raw_field_def map_add_def split: option.split)
  show "map_of (disk_resolution_to_memory_event i entry) ''resolution'' = Some (JStr r)"
    "map_of (disk_resolution_to_memory_event i entry) ''action_id'' = Some (JStr i)"
    by (simp_all add: disk_resolution_to_memory_event_def assms(1))
  show "map_of (disk_resolution_to_memory_event i entry) ''applies_to_task_ids'' = None"
    "map_of (disk_resolution_to_memory_event i entry) ''applies_to_tasks'' =
       (if ts = [] then None else Some (JArr (map JStr ts)))"
    by (auto simp: disk_resolution_to_memory_event_def copied assms(2) named map_add_def
        split: json.split option.split)
qed

lemma upserted_get:
  "dget (upserted_entry now i r u prior) ''state'' JNull = JStr r"
  "up_applies_to_task_ids u = Some ts \<Longrightarrow>
   dget (upserted_entry now i r u prior) ''applies_to_task_ids'' JNull = JArr (map JStr ts)"
  by (simp_all add: upserted_entry_def dget_def)

lemma task_list_of_nonempty: "task_list_of tasks = Inr (Some ts) \<Longrightarrow> [] \<notin> set ts"
  by (auto simp: task_list_of_def Let_def list_all_iff split: option.splits if_splits) (metis)

lemma split_on_nonempty: "split_on c s \<noteq> []"
  by (induction s) (auto simp: split_on_def)

lemma task_list_of_empty: "task_list_of tasks = Inr (Some []) \<Longrightarrow> tasks = Some []"
  using split_on_nonempty by (auto simp: task_list_of_def Let_def split: option.splits if_splits)

lemma upsert_Inr:
  "upsert_user_action_resolution now f i r u = Inr entries \<Longrightarrow>
   \<exists>existing. load_user_action_resolutions f = Inr existing \<and> entries =
     AList.update i (JObj (upserted_entry now i r u (dict_or_empty (dget existing i JNull)))) existing"
  by (auto simp: upsert_user_action_resolution_def split: if_splits)

lemma load_distinct:
  assumes "load_user_action_resolutions f = Inr existing" "\<And>d. f = Json_File (JObj d) \<Longrightarrow> distinct (map fst d)"
  shows "distinct (map fst existing)"
  using assms by (auto simp: load_user_action_resolutions_def split: json_file.splits json.splits)

text \<open>The disk events of one action.\<close>

lemma disk_events_key:
  "events_for ''action_id'' ''resolution'' valid i (disk_events d) =
   filter (\<lambda>e. event_key ''action_id'' ''resolution'' valid e = Some i)
     (map (\<lambda>(a, v). disk_resolution_to_memory_event a (dict_or_empty v)) d)"
proof -
  have "List.map_filter as_dict (disk_events d) = map (\<lambda>(a, v). disk_resolution_to_memory_event a (dict_or_empty v)) d"
    by (induction d) (auto simp: disk_events_def List.map_filter_simps)
  then show ?thesis
    by (simp add: events_for_def)
qed

lemma disk_event_action: "dget (disk_resolution_to_memory_event a entry) ''action_id'' JNull = JStr a"
  by (simp add: disk_resolution_to_memory_event_def dget_def)

lemma disk_event_unique:
  assumes "distinct (map fst d)" "map_of d i = Some v"
    and "e \<in> set (events_for ''action_id'' ''resolution'' valid i (disk_events d))"
  shows "e = disk_resolution_to_memory_event i (dict_or_empty v)"
proof -
  obtain a w where aw: "(a, w) \<in> set d" "e = disk_resolution_to_memory_event a (dict_or_empty w)"
    "event_key ''action_id'' ''resolution'' valid e = Some i"
    using assms(3) by (auto simp: disk_events_key)
  then have "a = i"
    by (auto simp: event_key_def has_key_def disk_event_action split: option.splits if_splits json.splits)
  then show ?thesis
    using aw assms(1,2) by (metis map_of_eq_Some_iff option.inject)
qed

lemma effective_events:
  assumes "effective_user_action_resolutions (Some (Json_File (JObj entries))) (JObj saved) = Inr effective"
  shows "effective = latest_events_by_key ''action_id'' ''resolution'' (Some SUPPORTED_USER_ACTION_RESOLUTION_STATES)
     (stored_list saved ''user_action_resolutions'' @ disk_events entries)"
proof -
  have "(case (case dget saved ''meta'' JNull of JObj m \<Rightarrow> dget m ''user_action_resolutions'' JNull | _ \<Rightarrow> JNull) of
      JArr xs \<Rightarrow> xs | _ \<Rightarrow> []) = stored_list saved ''user_action_resolutions''"
    by (auto simp: stored_list_def meta_of_def coerce_list_def dict_or_empty_def dget_def
        split: json.splits option.splits)
  moreover have "entries' = entries" if "load_user_action_resolutions (Json_File (JObj entries)) = Inr entries'" for entries'
    using that by (auto simp: load_user_action_resolutions_def)
  ultimately show ?thesis
    using assms by (auto simp: effective_user_action_resolutions_def Let_def)
qed

lemma effective_settled:
  assumes effective: "effective_user_action_resolutions (Some (Json_File (JObj entries))) (JObj saved) = Inr effective"
    and e: "JObj e \<in> set (stored_list saved ''user_action_resolutions'')"
      "event_key ''action_id'' ''resolution'' (Some SUPPORTED_USER_ACTION_RESOLUTION_STATES) e = Some i"
      "\<And>d. JObj d \<in> set (stored_list saved ''user_action_resolutions'') \<Longrightarrow> d \<noteq> e \<Longrightarrow> event_sort_key d < event_sort_key e"
    and entries: "distinct (map fst entries)" "map_of entries i = Some v"
    and settled: "settles r task e" "settles r task (disk_resolution_to_memory_event i (dict_or_empty v))"
  shows "\<exists>w. map_of effective i = Some w \<and> settles r task w"
proof -
  let ?events = "events_for ''action_id'' ''resolution'' (Some SUPPORTED_USER_ACTION_RESOLUTION_STATES) i
     (stored_list saved ''user_action_resolutions'' @ disk_events entries)"
  let ?x = "disk_resolution_to_memory_event i (dict_or_empty v)"
  have stored: "y \<in> set (events_for f s w k events) \<Longrightarrow> JObj y \<in> set events" for y f s w k events
    by (auto simp: events_for_def List.map_filter_def)
  have in_e: "e \<in> set ?events"
    using e(1,2) by (force simp: events_for_def List.map_filter_def)
  have "last_max event_sort_key ?events = e \<or> last_max event_sort_key ?events = ?x"
  proof (rule last_max_among [OF in_e])
    fix y
    assume "y \<in> set ?events" "y \<noteq> e" "y \<noteq> ?x"
    then show "event_sort_key y < event_sort_key e"
      using e(3) stored disk_event_unique [OF entries] by auto
  qed
  then have "settles r task (last_max event_sort_key ?events)"
    using settled by auto
  moreover have "?events \<noteq> []"
    using in_e by (metis empty_iff set_empty)
  ultimately show ?thesis
    unfolding effective_events [OF effective] latest_event by (simp add: Let_def)
qed

lemma prerequisite_detail_ids:
  "bd_blocking_action_ids (prerequisite_detail t None ev) = []"
  "bd_blocking_action_ids (prerequisite_detail t (Some s) ev) = (if ps_action_id s \<noteq> ''unknown'' then [ps_action_id s] else [])"
  "bd_task_id (prerequisite_detail t sc ev) = JStr t"
  by (simp_all add: prerequisite_detail_def Let_def)

lemma task_blockers_cases:
  assumes "b \<in> set (task_blockers scopes effective raw)"
  obtains t where "b = prerequisite_detail t None None"
  | t s where "b = prerequisite_detail t (Some s) (applicable_event effective t s)"
  using assms by (fastforce simp: task_blockers_def split: option.splits if_splits)

lemma settled_blocker:
  assumes "b \<in> set (task_blockers scopes effective raw)" "bd_blocking_action_ids b = [i]" "bd_task_id b = JStr task"
    and "map_of effective i = Some w" "settles r task w" "r \<in> {''satisfied'', ''accepted_blocked'', ''waived''}"
  shows "bd_is_non_terminal b" "bd_resolution_state b = r"
proof -
  obtain t scope where b: "b = prerequisite_detail t (Some scope) (applicable_event effective t scope)"
    using assms(1,2) by (cases rule: task_blockers_cases) (auto simp: prerequisite_detail_ids)
  have "ps_action_id scope = i" "t = task"
    using assms(2,3) by (auto simp: b prerequisite_detail_ids split: if_splits)
  then have "applicable_event effective t scope = Some w" "state_of_event (Some w) = r"
    using assms(4,5) by (simp_all add: applicable_event_def settles_def)
  moreover have "classify_resolution_behavior r = Omit \<or> classify_resolution_behavior r = Fallback"
    using assms(6) by (auto simp: classify_resolution_behavior_def FALLBACK_STATES_def)
  ultimately show "bd_is_non_terminal b" "bd_resolution_state b = r"
    by (auto simp: b prerequisite_detail_def Let_def)
qed

text \<open>C6. After user-action resolve was served with a resolution that lets the task go on, newer than every
  stored event, the blocker of that action and task is no longer terminal, reading the saved state and
  the written file.
\<close>

theorem user_action_command_clears_blocker:
  assumes handled: "handle_user_action ci args = Inr (saved, entries)"
    and choice: "selected_resolution args [''resolution'', ''state''] ''Unsupported resolution state'' = Inr r"
      "r \<in> {''satisfied'', ''accepted_blocked'', ''waived''}"
    and action: "ci_finalize ci = Some finalize" "selected_action finalize args = Inr i"
    and tasks: "task_list_of (tasks_arg args) = Inr ts" "ts = None \<or> (\<exists>l. ts = Some l \<and> task \<in> set l)"
    and older: "\<And>d. JObj d \<in> set (stored_list (ci_state ci) ''user_action_resolutions'') \<union>
                     set (stored_list (file_state (ci_state_file ci)) ''user_action_resolutions'') \<Longrightarrow>
           event_sort_key d < ci_now ci"
    and clock: "ci_now ci \<noteq> []"
    and wf: "\<And>d. ci_resolutions ci = Json_File (JObj d) \<Longrightarrow> distinct (map fst d)"
    and blocker: "evaluate_prerequisite_blockers finalize (JObj saved) blocked (Some (Json_File (JObj entries))) = Inr bs"
      "b \<in> set bs" "bd_blocking_action_ids b = [i]" "bd_task_id b = JStr task"
  shows "bd_is_non_terminal b \<and>
    bd_resolution_state b = r"
proof (intro conjI)
  let ?F = "''user_action_resolutions''"
  let ?d = "user_action_details args ts"
  let ?e = "build_base_resolution_event ''action_id'' i r (ci_actor ci) None (ci_now ci) ?d"
  have tasks_field: "ev_tasks ?d = None \<or> (\<exists>ts. ev_tasks ?d = Some (''applies_to_tasks'', ts))"
    by (cases ts) (simp_all add: user_action_details_def)
  obtain state u where valid: "validate_resolution_event (JObj ?e) = Inr ()"
    and state: "append_to_meta ?F (JObj ?e) (ci_state ci) = Inr state"
    and upsert: "upsert_user_action_resolution (ci_entry_now ci) (ci_resolutions ci) i r u = Inr entries"
      "up_applies_to_task_ids u = Some (case ts of Some l \<Rightarrow> l | None \<Rightarrow> [])"
    and saved: "saved = save_state_merge_meta (ci_sha ci) (ci_state_file ci) state"
    using handled
    by (auto simp: handle_user_action_def choice action tasks build_resolution_event_def Let_def split: if_splits)
  note get = base_event_get [where id_field = "''action_id''" and d = ?d, OF _ tasks_field refl]
  have id: "dget ?e ''action_id'' w = JStr i" and res: "dget ?e ''resolution'' w = JStr r" for w
    using get by simp_all
  have time: "event_sort_key ?e = ci_now ci"
    using clock tasks_field by (intro base_event_time) simp_all
  have nonblank: "\<not> blank i"
    using valid id by (auto simp: validate_resolution_event_def nonblank_str_def)
  then have "i \<noteq> []"
    by (auto simp: blank_def)
  have r: "r \<in> set SUPPORTED_USER_ACTION_RESOLUTION_STATES" "r \<noteq> []"
    using choice(2) by (auto simp: SUPPORTED_USER_ACTION_RESOLUTION_STATES_def)
  have field: "?F \<in> set DEFAULT_MERGE_FIELDS" "map_of FIELD_KEY_FUNCS ?F = Some resolution_merge_key"
    by (simp_all add: DEFAULT_MERGE_FIELDS_def FIELD_KEY_FUNCS_def)
  note kept = saved_event [OF field state, where sha = "ci_sha ci" and disk = "ci_state_file ci", unfolded time,
      OF older sort_key_in_keys(2) [OF _ id \<open>i \<noteq> []\<close>, unfolded time], folded saved]
  have ts: "[] \<notin> set (case ts of Some l \<Rightarrow> l | None \<Rightarrow> [])"
    using tasks(1) task_list_of_nonempty by (cases ts) auto
  have settled: "settles r task ?e"
  proof (rule settles_by_fields)
    show "map_of ?e ''resolution'' = Some (JStr r)"
      using res [of JNull] by (auto simp: dget_def split: option.splits)
    show "map_of ?e ''applies_to_task_ids'' = None"
      using get(5) by simp
    show "map_of ?e ''applies_to_tasks'' = None \<or>
         (\<exists>ts. map_of ?e ''applies_to_tasks'' = Some (JArr (map JStr ts)) \<and> task \<in> set ts \<and> [] \<notin> set ts)"
      using get(4) tasks(2) ts by (cases ts) (auto simp: user_action_details_def)
  qed (rule r(2))
  obtain existing where existing: "load_user_action_resolutions (ci_resolutions ci) = Inr existing"
    "entries = AList.update i (JObj (upserted_entry (ci_entry_now ci) i r u (dict_or_empty (dget existing i JNull)))) existing"
    using upsert_Inr [OF upsert(1)] by blast
  let ?v = "upserted_entry (ci_entry_now ci) i r u (dict_or_empty (dget existing i JNull))"
  have "settles r task (disk_resolution_to_memory_event i ?v)"
    by (rule settles_by_fields)
      (use disk_event_get [OF upserted_get(1) upserted_get(2) [OF upsert(2)] ts] r(2) ts tasks(2) in \<open>auto\<close>)
  moreover obtain effective where effective:
    "effective_user_action_resolutions (Some (Json_File (JObj entries))) (JObj saved) = Inr effective"
    "b \<in> set (concat (map (task_blockers (build_prerequisite_scopes finalize) effective) blocked))"
    using blocker(1,2) by (auto simp: evaluate_prerequisite_blockers_def)
  moreover have "event_key ''action_id'' ''resolution'' (Some SUPPORTED_USER_ACTION_RESOLUTION_STATES) ?e = Some i"
    using nonblank id res r(1) by (simp add: event_key_def has_key_def)
  moreover have "distinct (map fst entries)" "map_of entries i = Some (JObj ?v)"
    using load_distinct [OF existing(1) wf] by (simp_all add: existing(2) distinct_update update_conv)
  ultimately obtain w where "map_of effective i = Some w" "settles r task w"
    using effective_settled [of entries saved effective ?e i "JObj ?v" r task] kept settled time by auto
  then show "bd_is_non_terminal b" "bd_resolution_state b = r"
    using settled_blocker [OF _ blocker(3,4) _ _ choice(2)] effective(2) by auto
qed

subsection \<open>The aggregation and the union\<close>

text \<open>The aggregation agrees with its specification: the last of the accepted events of greatest time.\<close>

lemma last_kept:
  "filter P xs = us @ [e] \<Longrightarrow> \<exists>before after. xs = before @ e # after \<and> (\<forall>x \<in> set after. \<not> P x)"
proof (induction xs rule: rev_induct)
  case (snoc x xs)
  show ?case
  proof (cases "P x")
    case True
    then show ?thesis
      using snoc.prems by (intro exI [of _ xs] exI [of _ "[]"]) simp
  next
    case False
    then obtain before after where "xs = before @ e # after" "\<forall>x \<in> set after. \<not> P x"
      using snoc by auto
    then show ?thesis
      using False by (intro exI [of _ before] exI [of _ "after @ [x]"]) simp
  qed
qed simp

text \<open>The event that counts for a key is the last of those with the greatest timestamp among the well-
  formed events of that key.
\<close>

theorem latest_event_is_last_greatest:
  "map_of (latest_events_by_key key_field state_field valid events) k = Some e \<longleftrightarrow>
   (\<exists>before after.
      filter (\<lambda>d. event_key key_field state_field valid d = Some k) (List.map_filter as_dict events) = before @ e # after \<and>
      (\<forall>d \<in> set before. event_sort_key d \<le> event_sort_key e) \<and>
      (\<forall>d \<in> set after. event_sort_key d < event_sort_key e))"
proof -
  have spec: "last_max f xs = e \<longleftrightarrow> (\<exists>before after. xs = before @ e # after \<and>
      (\<forall>d \<in> set before. f d \<le> f e) \<and> (\<forall>d \<in> set after. f d < f e))" if "xs \<noteq> []"
    for f :: "(string \<times> json) list \<Rightarrow> string" and xs e
  proof
    assume e: "last_max f xs = e"
    have "filter (\<lambda>x. \<forall>y \<in> set xs. f y \<le> f x) xs \<noteq> []"
      unfolding filter_empty_conv using last_max_in [OF that, of f] last_max_ge [OF that, of _ f] by blast
    from append_butlast_last_id [OF this]
    have us: "filter (\<lambda>x. \<forall>y \<in> set xs. f y \<le> f x) xs = butlast (filter (\<lambda>x. \<forall>y \<in> set xs. f y \<le> f x) xs) @ [e]"
      unfolding e [unfolded last_max_def] by (rule sym)
    have top: "\<forall>y \<in> set xs. f y \<le> f e"
      using last_max_ge [OF that, of _ f] e by simp
    obtain before after where split: "xs = before @ e # after" "\<forall>x \<in> set after. \<not> (\<forall>y \<in> set xs. f y \<le> f x)"
      using last_kept [OF us] by blast
    have "\<forall>d \<in> set after. f d < f e"
      using split(2) top by (metis not_le order_trans)
    then show "\<exists>before after. xs = before @ e # after \<and>
      (\<forall>d \<in> set before. f d \<le> f e) \<and> (\<forall>d \<in> set after. f d < f e)"
      using split(1) top by auto
  next
    assume "\<exists>before after. xs = before @ e # after \<and> (\<forall>d \<in> set before. f d \<le> f e) \<and> (\<forall>d \<in> set after. f d < f e)"
    then obtain before after where xs: "xs = before @ e # after" "\<forall>d \<in> set before. f d \<le> f e" "\<forall>d \<in> set after. f d < f e"
      by blast
    then have "filter (\<lambda>x. \<forall>y \<in> set xs. f y \<le> f x) after = []" "\<forall>y \<in> set xs. f y \<le> f e"
      by (auto simp: filter_empty_conv not_le)
    then show "last_max f xs = e"
      unfolding last_max_def by (subst xs(1)) simp
  qed
  show ?thesis
    unfolding latest_event Let_def events_for_def
    by (cases "filter (\<lambda>d. event_key key_field state_field valid d = Some k) (List.map_filter as_dict events) = []")
      (simp_all add: spec)
qed

text \<open>C38. Merging the list of the file with the one in memory keeps every key of both and invents nothing,
  has no key twice, is in the order of the timestamps, and merging either list in again changes nothing.
\<close>

theorem merge_on_save_loses_nothing:
  shows "key ` set (merge_meta_lists key d m) = key ` set (coerce_list d) \<union> key ` set (coerce_list m) \<and>
    set (merge_meta_lists key d m) \<subseteq> set (coerce_list d) \<union> set (coerce_list m) \<and>
    distinct (map key (merge_meta_lists key d m)) \<and>
    sorted (map timestamp_sort_key (merge_meta_lists key d m)) \<and>
    merge_meta_lists key (JArr (merge_meta_lists key d m)) m = merge_meta_lists key d m \<and>
    merge_meta_lists key (JArr (merge_meta_lists key d m)) d = merge_meta_lists key d m"
proof (intro conjI)
  show "set (merge_meta_lists key d m) \<subseteq> set (coerce_list d) \<union> set (coerce_list m)"
    using set_unseen [of key "{}" "coerce_list d @ coerce_list m"] by (simp add: set_merge)
  show "merge_meta_lists key (JArr (merge_meta_lists key d m)) m = merge_meta_lists key d m"
    "merge_meta_lists key (JArr (merge_meta_lists key d m)) d = merge_meta_lists key d m"
    by (rule merge_absorb; simp)+
qed (rule keys_merge distinct_merge sorted_merge)+

subsection \<open>Divergences\<close>

text \<open>
  An empty \<^verbatim>\<open>--applies-to-task-ids\<close> makes an event that applies to no task and an entry that applies to
  every task.
\<close>

lemma empty_task_list_diverges:
  assumes "tasks_arg args = Some []"
  shows "task_list_of (tasks_arg args) = Inr (Some [])"
    and "\<not> resolution_applies_to_task Memory
           (JObj (build_base_resolution_event ''action_id'' i r by None now (user_action_details args (Some [])))) (Some t)"
    and "up_applies_to_task_ids u = Some [] \<Longrightarrow>
         resolution_applies_to_task Disk (JObj (upserted_entry now i r u prior)) (Some t)"
proof -
  show "task_list_of (tasks_arg args) = Inr (Some [])"
    using assms by (simp add: task_list_of_def)
  have "map_of (build_base_resolution_event ''action_id'' i r by None now (user_action_details args (Some [])))
      ''applies_to_tasks'' = Some (JArr [])"
    using base_event_get(4) [of "''action_id''" "user_action_details args (Some [])", OF _ _ refl]
    by (simp add: user_action_details_def)
  then show "\<not> resolution_applies_to_task Memory
           (JObj (build_base_resolution_event ''action_id'' i r by None now (user_action_details args (Some [])))) (Some t)"
    by (simp add: resolution_applies_to_task_def aliased_record_value_def named_tasks_def List.map_filter_def)
  show "resolution_applies_to_task Disk (JObj (upserted_entry now i r u prior)) (Some t)"
    if "up_applies_to_task_ids u = Some []"
    using that by (simp add: resolution_applies_to_task_def aliased_record_value_def upserted_entry_def named_tasks_def
        List.map_filter_def)
qed

text \<open>Two overrides that differ can have one merge key: \<^verbatim>\<open>note\<close> and \<^verbatim>\<open>reason\<close> are joined by a bar that is not escaped.\<close>

lemma override_key_is_ambiguous:
  "override_merge_key sha (JObj [(''timestamp'', JStr t), (''action'', JStr a), (''note'', JStr ''x|y''), (''reason'', JStr ''z'')]) =
   override_merge_key sha (JObj [(''timestamp'', JStr t), (''action'', JStr a), (''note'', JStr ''x''), (''reason'', JStr ''y|z'')])"
  by (simp add: override_merge_key_def event_sort_key_def dget_def text_or_dumps_def)

text \<open>Without a retry strategy in the cursor every other kind of failure passes the test for a supported repair.\<close>

lemma unsupported_kind_passes:
  assumes "kind \<notin> {''deterministic_phase_failure'', ''provider_contract_failure''}" "dget cursor ''retry_strategy'' JNull = JNull"
  shows "dget SUPPORTED_REPAIRS kind JNull = dget cursor ''retry_strategy'' JNull"
  using assms by (simp add: SUPPORTED_REPAIRS_def dget_def)

subsection \<open>The properties at concrete inputs\<close>

theorem latest_event_is_last_greatest_witness:
  "map_of (latest_events_by_key ''action_id'' ''resolution'' None
     [JObj [(''action_id'', JStr ''a''), (''timestamp'', JStr ''2'')],
      JObj [(''action_id'', JStr ''a''), (''timestamp'', JStr ''1'')]]) ''a'' =
   Some [(''action_id'', JStr ''a''), (''timestamp'', JStr ''2'')]"
proof -
  let ?e = "[(''action_id'', JStr ''a''), (''timestamp'', JStr ''2'')]" and ?d = "[(''action_id'', JStr ''a''), (''timestamp'', JStr ''1'')]"
  have "filter (\<lambda>d. event_key ''action_id'' ''resolution'' None d = Some ''a'') (List.map_filter as_dict [JObj ?e, JObj ?d])
      = [] @ ?e # [?d]" "event_sort_key ?d < event_sort_key ?e"
    by (simp_all add: map_filter_def event_key_def has_key_def dget_def event_sort_key_def blank_def strip_def space_char_def ascii_space_def)
  then show ?thesis by (subst latest_event_is_last_greatest) fastforce
qed

definition sample_result :: phase_result where
  "sample_result = emitted ''execute'' ''i1'' ''blocked_by_quality'' []
     [deviation_from_string ''Note: nothing blocks''] [] [] None"

definition sample_recovery :: recovery_inputs where
  "sample_recovery =
     \<lparr>ri_sha = \<lambda>s. s, ri_passes = \<lambda>_ _. False, ri_git = \<lambda>_. Git_Unavailable, ri_engine_root = ''/e'', ri_plan_dir = ''/p'',
      ri_coverage = None, ri_finalize = [], ri_phase_file = Some (phase_result_to_dict sample_result),
      ri_resolutions = Some No_File, ri_now = ''2026''\<rparr>"

definition sample_blocked :: "(string \<times> json) list" where
  "sample_blocked = [(''current_state'', JStr ''blocked''), (''resume_cursor'', JObj [(''phase'', JStr ''execute'')])]"

lemma sample_result_reads: "read_phase_result (ri_phase_file sample_recovery) = Inr (Some sample_result)"
proof -
  have "writable sample_result" by (simp add: sample_result_def writable_emitted EXIT_KINDS_def)
  moreover have "current_record sample_result" unfolding sample_result_def by (rule current_emitted) simp
  ultimately show ?thesis by (simp add: sample_recovery_def read_written)
qed

lemma sample_recovers: "\<exists>t. recover_blocked sample_recovery sample_blocked [(''reason'', JStr ''done by hand'')] = Inr t"
proof -
  have "evaluate_prerequisite_blockers [] (JObj sample_blocked) [] (Some No_File) = Inr []"
    by (simp add: evaluate_prerequisite_blockers_def effective_user_action_resolutions_def load_user_action_resolutions_def)
  moreover have "evaluate_quality_blockers (\<lambda>s. s) (\<lambda>_ _. False) sample_blocked
      [Typed (deviation_from_string ''Note: nothing blocks'')] = []"
    by (simp add: evaluate_quality_blockers_def deviation_blockers_def coerce_deviation_def
        is_informational_quality_deviation_def INFORMATIONAL_PREFIXES_def starts_with_def deviation_from_string_def)
  ultimately have "\<exists>e. blocker_evidence sample_recovery sample_blocked sample_result = Inr e"
    by (simp add: blocker_evidence_def evaluate_blocker_recovery_def sample_recovery_def sample_result_def emitted_def
        requires_rerun_def phase_coverage_deviations_def can_continue_def ensure_def)
  then obtain details ids repair where "blocker_evidence sample_recovery sample_blocked sample_result = Inr (details, ids, repair)"
    by (metis prod_cases3)
  then show ?thesis
    unfolding recover_blocked_def sample_result_reads
    by (simp add: may_recover_def sample_blocked_def dget_def ensure_def blank_def strip_def space_char_def ascii_space_def
        recovery_target_def stage_predecessor_def RECOVERY_POLICIES_def STAGE_TO_STATE_def failure_is_def
        external_error_requires_resume_def sample_result_def emitted_def EXTERNAL_ERROR_RETRY_STRATEGIES_def
        needs_phase_repair_def next_meta_def)
qed

theorem recovery_supersedes_and_applies_once_witness:
  "\<exists>t. recover_blocked sample_recovery sample_blocked [(''reason'', JStr ''done by hand'')] = Inr t \<and>
     is_superseded_recovered_phase_result ''execute'' ''blocked_by_quality'' (JObj (apply_control_deltas t sample_blocked))"
proof -
  obtain t where t: "recover_blocked sample_recovery sample_blocked [(''reason'', JStr ''done by hand'')] = Inr t"
    using sample_recovers by blast
  then show ?thesis
    using recovery_supersedes_and_applies_once [OF t, of "[(''phase'', JStr ''execute'')]" "''execute''" "''blocked_by_quality''"]
    by (simp add: sample_blocked_def dget_def)
qed

definition sample_command :: command_inputs where
  "sample_command =
     \<lparr>ci_sha = \<lambda>s. s, ci_state = [(''meta'', JObj [])], ci_state_file = None,
      ci_finalize = Some [(''tasks'', JArr [JObj [(''id'', JStr ''T1'')]]),
        (''user_actions'', JArr [JObj [(''id'', JStr ''U1''), (''blocks_task_ids'', JArr [JStr ''T1''])]])],
      ci_resolutions = No_File, ci_actor = ''op'', ci_now = ''2026'', ci_entry_now = ''2026''\<rparr>"

definition sample_finding :: deviation where
  "sample_finding = \<lparr>dv_kind = ''gate'', dv_message = ''no tests'', dv_task_id = JNull, dv_blocker_id = JStr ''quality:q'', dv_phase = JNull\<rparr>"

definition sample_resolve :: "(string \<times> json) list" where
  "sample_resolve =
     [(''user_action_action'', JStr ''resolve''), (''action_id'', JStr ''U1''), (''resolution'', JStr ''satisfied'')]"

definition sample_task :: blocked_task where
  "sample_task = \<lparr>bt_task_id = ''T1'', bt_reason = ''r'', bt_notes = [], bt_blocking_action_ids = [''U1''], bt_blocker_kind = None\<rparr>"

lemma no_test_passes: "\<not> tests_pass_now (\<lambda>_ _. False) state message"
  by (cases "extract_nodeids message") (auto simp: tests_pass_now_def split: option.split)

theorem quality_command_clears_blocker_witness:
  "\<exists>saved b. handle_quality_gate sample_command (sample_recovery\<lparr>ri_phase_file := None\<rparr>) ''quality:q'' ''fixed''
       [(''quality_gate_action'', JStr ''resolve'')] = Inr saved \<and>
     b \<in> set (evaluate_quality_blockers (\<lambda>s. s) (\<lambda>_ _. False) saved [Typed sample_finding]) \<and>
     bd_blocker_id b = ''quality:q'' \<and> \<not> bd_is_terminal b"
proof -
  have "\<not> isl (handle_quality_gate sample_command (sample_recovery\<lparr>ri_phase_file := None\<rparr>) ''quality:q'' ''fixed''
     [(''quality_gate_action'', JStr ''resolve'')])"
    by code_simp
  then obtain saved where saved: "handle_quality_gate sample_command (sample_recovery\<lparr>ri_phase_file := None\<rparr>)
      ''quality:q'' ''fixed'' [(''quality_gate_action'', JStr ''resolve'')] = Inr saved"
    by (metis isl_def sum.exhaust)
  have "\<not> is_informational_quality_deviation (dv_message sample_finding)"
    by (simp add: is_informational_quality_deviation_def INFORMATIONAL_PREFIXES_def starts_with_def sample_finding_def
        lower_def contains_def)
  moreover obtain event malformed where "checked_event (map_of (latest_quality_resolutions
      (state_meta_list saved ''quality_gate_resolutions'')) (quality_blocker_id (\<lambda>s. s) sample_finding)) = (event, malformed)"
    by fastforce
  ultimately have b: "evaluate_quality_blockers (\<lambda>s. s) (\<lambda>_ _. False) saved [Typed sample_finding] =
      [quality_detail (\<lambda>s. s) sample_finding event malformed]"
    by (simp add: evaluate_quality_blockers_def deviation_blockers_def coerce_deviation_def no_test_passes)
  let ?b = "quality_detail (\<lambda>s. s) sample_finding event malformed"
  have i: "bd_blocker_id ?b = ''quality:q''"
    by (simp add: quality_detail_def Let_def quality_blocker_id_def sample_finding_def nonempty_text_def)
  have "\<not> bd_is_terminal ?b"
    by (rule quality_command_clears_blocker [where sha = "\<lambda>s. s" and passes = "\<lambda>_ _. False"
          and deviations = "[Typed sample_finding]", OF saved, THEN conjunct1])
      (simp_all add: b i sample_command_def stored_list_def file_state_def meta_of_def dget_def)
  with saved b i show ?thesis by auto
qed

theorem user_action_command_clears_blocker_witness:
  "\<exists>saved entries bs b. handle_user_action sample_command sample_resolve = Inr (saved, entries) \<and>
     evaluate_prerequisite_blockers (the (ci_finalize sample_command)) (JObj saved) [Typed sample_task]
       (Some (Json_File (JObj entries))) = Inr bs \<and> b \<in> set bs \<and> bd_is_non_terminal b"
proof -
  have "case handle_user_action sample_command sample_resolve of
      Inr (saved, entries) \<Rightarrow>
        (case evaluate_prerequisite_blockers (the (ci_finalize sample_command)) (JObj saved) [Typed sample_task]
            (Some (Json_File (JObj entries))) of
           Inr bs \<Rightarrow> list_ex (\<lambda>b. bd_blocking_action_ids b = [''U1''] \<and> bd_task_id b = JStr ''T1'') bs
         | Inl _ \<Rightarrow> False)
    | Inl _ \<Rightarrow> False"
    by code_simp
  then obtain saved entries bs b where *: "handle_user_action sample_command sample_resolve = Inr (saved, entries)"
      "evaluate_prerequisite_blockers (the (ci_finalize sample_command)) (JObj saved) [Typed sample_task]
         (Some (Json_File (JObj entries))) = Inr bs"
      "b \<in> set bs" "bd_blocking_action_ids b = [''U1'']" "bd_task_id b = JStr ''T1''"
    by (cases "handle_user_action sample_command sample_resolve")
      (fastforce simp: list_ex_iff split: sum.splits prod.splits)+
  have "selected_resolution sample_resolve [''resolution'', ''state''] ''Unsupported resolution state'' = Inr ''satisfied''"
      "selected_action (the (ci_finalize sample_command)) sample_resolve = Inr ''U1''"
      "task_list_of (tasks_arg sample_resolve) = Inr None"
    by code_simp+
  then have "bd_is_non_terminal b"
    by (intro user_action_command_clears_blocker [where r = "''satisfied''" and ts = None, OF *(1) _ _ _ _ _ _ _ _ _ *(2-5), THEN conjunct1])
      (simp_all add: sample_command_def stored_list_def file_state_def meta_of_def dget_def)
  with * show ?thesis by blast
qed

end
