(* ===== verification/Execute_Policy.thy ===== *)
theory Execute_Policy
  imports Plan_Workflow Resolution_Contract
begin

section \<open>The execute policy\<close>

text \<open>
  The typed route decisions of \<^verbatim>\<open>execute/policy.py\<close> (entry, approval, the terminal without review, the next
  step, the model tier, the resume partition and the declared branch surface) and the two gates of
  \<^verbatim>\<open>handlers/execute.py\<close> that turn them into errors. The reasons the decisions carry for the operator
  are not modelled.
\<close>

subsection \<open>Entry\<close>

datatype entry_route = Entry_Proceed | Entry_Blocked | Entry_Failed | Entry_Invalid

definition DEFAULT_ENTRY_STATES :: "string list" where
  "DEFAULT_ENTRY_STATES = [''finalized'', ''blocked'', ''failed'']"

definition resolve_execute_entry_route :: "string \<Rightarrow> string list option \<Rightarrow> bool \<Rightarrow> entry_route" where
  "resolve_execute_entry_route current allowed rerun_cursor =
     (let states = (case allowed of Some a \<Rightarrow> a | None \<Rightarrow> DEFAULT_ENTRY_STATES)
      in if current \<notin> set states
         then (if rerun_cursor \<and> current = ''done'' then Entry_Blocked else Entry_Invalid)
         else if current = ''blocked'' then Entry_Blocked
         else if current = ''failed'' then Entry_Failed
         else Entry_Proceed)"

definition may_proceed :: "entry_route \<Rightarrow> bool" where
  "may_proceed r \<longleftrightarrow> r = Entry_Proceed"

definition rerun_execute_cursor :: "(string \<times> json) list \<Rightarrow> bool" where
  "rerun_execute_cursor state \<longleftrightarrow>
     (case dget state ''resume_cursor'' JNull of
        JObj c \<Rightarrow> dget c ''phase'' JNull = JStr ''execute'' \<and> dget c ''retry_strategy'' JNull = JStr ''rerun_phase''
      | _ \<Rightarrow> False)"

text \<open>A state that is no string is not hashable, or in none of the allowed states.\<close>

definition enforce_entry_route :: "(string \<times> json) list \<Rightarrow> phase_error + unit" where
  "enforce_entry_route state =
     (case map_of state ''current_state'' of
        None \<Rightarrow> Inl (Py KeyError)
      | Some (JArr xs) \<Rightarrow> Inl (Py TypeError)
      | Some (JObj d) \<Rightarrow> Inl (Py TypeError)
      | Some (JStr s) \<Rightarrow>
          ensure (resolve_execute_entry_route s None (rerun_execute_cursor state) \<noteq> Entry_Invalid)
            (Cli_Error ''invalid_transition'' (''Cannot run 'execute' while current state is '' @ s))
      | Some v \<Rightarrow> Inl (Cli_Error ''invalid_transition'' ''Cannot run 'execute' ''))"

subsection \<open>Approval\<close>

datatype approval = Approved | Missing_Confirm | Missing_Approval

definition evaluate_destructive_approval :: "bool \<Rightarrow> bool \<Rightarrow> bool \<Rightarrow> bool \<Rightarrow> approval" where
  "evaluate_destructive_approval confirm_destructive auto_approve user_approved_gate prose =
     (if \<not> prose \<and> \<not> confirm_destructive then Missing_Confirm
      else if \<not> auto_approve \<and> \<not> user_approved_gate then Missing_Approval
      else Approved)"

definition enforce_approval_gate :: "bool \<Rightarrow> bool \<Rightarrow> bool \<Rightarrow> bool \<Rightarrow> phase_error + approval" where
  "enforce_approval_gate confirm_destructive auto_approve user_approved_gate prose =
     (case evaluate_destructive_approval confirm_destructive auto_approve user_approved_gate prose of
        Missing_Confirm \<Rightarrow> Inl (Cli_Error ''missing_confirmation'' ''Execute requires --confirm-destructive'')
      | Missing_Approval \<Rightarrow> Inl (Cli_Error ''missing_approval'' ''Execute requires explicit user approval'')
      | Approved \<Rightarrow> Inr Approved)"

subsection \<open>The end without review\<close>

datatype no_review = Terminate_Done | Terminate_Awaiting_Human | Not_Applicable

definition evaluate_no_review_terminal :: "string \<Rightarrow> bool \<Rightarrow> no_review" where
  "evaluate_no_review_terminal robustness has_deferred_must =
     (if robustness = ''bare'' then Terminate_Done
      else if robustness \<in> {''light'', ''standard''} \<and> has_deferred_must then Terminate_Awaiting_Human
      else if robustness = ''light'' then Terminate_Done
      else Not_Applicable)"

fun no_review_target :: "no_review \<Rightarrow> plan_state option" where
  "no_review_target Terminate_Done = Some STATE_DONE"
| "no_review_target Terminate_Awaiting_Human = Some STATE_AWAITING_HUMAN_VERIFY"
| "no_review_target Not_Applicable = None"

text \<open>
  The criteria the stub review records, and whether one that must hold is deferred to a human; \<open>deferred\<close>
  is the classification of the criteria. \<open>None\<close> is a plan that goes on to its review.
\<close>

definition has_deferred_must :: "(json \<Rightarrow> bool) \<Rightarrow> (string \<times> json) list list \<Rightarrow> bool" where
  "has_deferred_must deferred criteria \<longleftrightarrow>
     list_ex (\<lambda>c. deferred (JObj c) \<and> dget c ''priority'' JNull = JStr ''must'') criteria"

definition no_review_end ::
  "(json \<Rightarrow> bool) \<Rightarrow> (string \<times> json) list list \<Rightarrow> json \<Rightarrow> bool \<Rightarrow> bool \<Rightarrow> no_review option" where
  "no_review_end deferred criteria stored_robustness with_feedback executed =
     (let robustness = normalize_robustness stored_robustness
      in if workflow_includes_step (JStr robustness) ''review'' False False
            \<or> workflow_includes_step (JStr robustness) ''feedback'' False with_feedback \<or> \<not> executed
         then None
         else if robustness = ''bare'' then Some (evaluate_no_review_terminal ''bare'' False)
         else Some (evaluate_no_review_terminal robustness (has_deferred_must deferred criteria)))"

subsection \<open>The next step\<close>

datatype next_transition = Next_Execute | Next_Review | Next_Blocked | Next_Done | Next_Awaiting_Human

definition resolve_single_batch_next_step :: "bool \<Rightarrow> bool \<Rightarrow> bool \<Rightarrow> next_transition" where
  "resolve_single_batch_next_step is_final_batch all_tracked blocked =
     (if blocked then Next_Blocked
      else if is_final_batch \<and> all_tracked then Next_Review
      else Next_Execute)"

definition legacy_next_step :: "next_transition \<Rightarrow> string option" where
  "legacy_next_step t =
     (if t \<in> {Next_Execute, Next_Blocked} then Some ''execute''
      else if t = Next_Review then Some ''review'' else None)"

subsection \<open>The model tier\<close>

datatype tier_route = Routed string int | Default_Tier | No_Tier_Map

definition tier_spec :: "(int \<times> json) list \<Rightarrow> int \<Rightarrow> string option" where
  "tier_spec tiers k = (case map_of tiers k of Some v \<Rightarrow> nonempty_text v | None \<Rightarrow> None)"

definition usable_tiers :: "(int \<times> json) list \<Rightarrow> int \<Rightarrow> int list" where
  "usable_tiers tiers complexity =
     sort (map fst (filter (\<lambda>(k, v). k \<le> complexity \<and> nonempty_text v \<noteq> None) tiers))"

definition resolve_batch_tier :: "(int \<times> json) list option \<Rightarrow> int \<Rightarrow> tier_route" where
  "resolve_batch_tier tier_map complexity =
     (case tier_map of
        None \<Rightarrow> No_Tier_Map
      | Some [] \<Rightarrow> No_Tier_Map
      | Some tiers \<Rightarrow>
          (case tier_spec tiers complexity of
             Some spec \<Rightarrow> Routed spec complexity
           | None \<Rightarrow>
               let available = usable_tiers tiers complexity
               in if available = [] then Default_Tier
                  else (case tier_spec tiers (last available) of
                          Some spec \<Rightarrow> Routed spec (last available)
                        | None \<Rightarrow> Default_Tier)))"

subsection \<open>The resume partition\<close>

definition RESUME_PRESERVED_STATUSES :: "string list" where
  "RESUME_PRESERVED_STATUSES = [''done'', ''skipped'']"

definition has_status :: "string \<Rightarrow> (string \<times> json) list \<Rightarrow> bool" where
  "has_status s task \<longleftrightarrow> dget task ''status'' JNull = JStr s"

definition has_evidence :: "(string \<times> json) list \<Rightarrow> bool" where
  "has_evidence task \<longleftrightarrow>
     truthy (dget task ''files_changed'' JNull) \<or> truthy (dget task ''commands_run'' JNull)"

definition is_contradictory_done_budget_row :: "(string \<times> json) list \<Rightarrow> bool" where
  "is_contradictory_done_budget_row task \<longleftrightarrow>
     has_status ''done'' task \<and> nonblank_str (dget task ''task_test_budget_exhausted'' JNull) \<and> \<not> has_evidence task"

text \<open>The tasks that are dictionaries with a string id, in order.\<close>

definition identified_tasks :: "json list \<Rightarrow> (string \<times> (string \<times> json) list) list" where
  "identified_tasks tasks =
     List.map_filter (\<lambda>t. case t of
         JObj d \<Rightarrow> (case dget d ''id'' JNull of JStr i \<Rightarrow> Some (i, d) | _ \<Rightarrow> None) | _ \<Rightarrow> None) tasks"

definition reruns_task :: "string set \<Rightarrow> string \<times> (string \<times> json) list \<Rightarrow> bool" where
  "reruns_task completed = (\<lambda>(i, t).
     is_contradictory_done_budget_row t \<or> i \<notin> completed \<and> has_status ''blocked'' t)"

definition preserves_task :: "string set \<Rightarrow> string \<times> (string \<times> json) list \<Rightarrow> bool" where
  "preserves_task completed = (\<lambda>(i, t).
     \<not> is_contradictory_done_budget_row t \<and>
     (i \<in> completed \<or> list_ex (\<lambda>s. has_status s t) RESUME_PRESERVED_STATUSES))"

record resume_decision =
  rd_should_resume :: bool
  rd_rerun :: "string list"
  rd_preserved :: "string list"
  rd_artifacts :: "string list"
  rd_receipts :: "string list"

definition resolve_partial_failure_resume ::
  "json list \<Rightarrow> string list \<Rightarrow> string list \<Rightarrow> string list \<Rightarrow> resume_decision" where
  "resolve_partial_failure_resume tasks completed artifacts receipts =
     (let rows = identified_tasks tasks;
          reruns = sorted_set (map fst (filter (reruns_task (set completed)) rows))
      in \<lparr>rd_should_resume = (reruns \<noteq> []),
          rd_rerun = reruns,
          rd_preserved = sorted_set (map fst (filter (preserves_task (set completed)) rows)),
          rd_artifacts = sorted_set artifacts,
          rd_receipts = sorted_set receipts\<rparr>)"

end
