(* ===== verification/Evidence_Contract.thy ===== *)
theory Evidence_Contract
  imports Phase_Facts
begin

section \<open>Evidence references\<close>

text \<open>
  The evidence vocabulary of \<^verbatim>\<open>orchestration/evidence_contract.py\<close>: statuses and their normalisation,
  artifact and evidence references, transition decisions, and their dictionary forms.
\<close>

subsection \<open>Statuses\<close>

datatype evidence_status = Ev_Satisfied | Ev_Unsatisfied | Ev_Unknown | Ev_Not_Applicable | Ev_Waived

fun status_value :: "evidence_status \<Rightarrow> string" where
  "status_value Ev_Satisfied = ''satisfied''"
| "status_value Ev_Unsatisfied = ''unsatisfied''"
| "status_value Ev_Unknown = ''unknown''"
| "status_value Ev_Not_Applicable = ''not_applicable''"
| "status_value Ev_Waived = ''waived''"

definition EVIDENCE_STATUSES :: "(string \<times> evidence_status) list" where
  "EVIDENCE_STATUSES =
     map (\<lambda>s. (status_value s, s)) [Ev_Satisfied, Ev_Unsatisfied, Ev_Unknown, Ev_Not_Applicable, Ev_Waived]"

definition LEGACY_EVIDENCE_STATUS_ALIASES :: "(string \<times> evidence_status) list" where
  "LEGACY_EVIDENCE_STATUS_ALIASES = [(''not_evaluated'', Ev_Unknown), (''fail-not-success'', Ev_Unsatisfied)]"

text \<open>The canonical status and the diagnostics of a value that is not one.\<close>

definition normalize_evidence_status :: "json \<Rightarrow> evidence_status \<times> (string \<times> json) list" where
  "normalize_evidence_status value =
     (let note = (\<lambda>how s. [(''status_normalization'', JStr how), (''legacy_status'', value),
                            (''canonical_status'', JStr (status_value s))])
      in case value of
           JNull \<Rightarrow> (Ev_Unknown, [(''status_normalization'', JStr ''missing''),
                                 (''canonical_status'', JStr (status_value Ev_Unknown))])
         | JStr v \<Rightarrow>
             (case map_of EVIDENCE_STATUSES v of
                Some s \<Rightarrow> (s, [])
              | None \<Rightarrow>
                  (case map_of LEGACY_EVIDENCE_STATUS_ALIASES v of
                     Some s \<Rightarrow> (s, note ''legacy_alias'' s)
                   | None \<Rightarrow> (Ev_Unknown, note ''unknown'' Ev_Unknown)))
         | _ \<Rightarrow> (Ev_Unknown, note ''invalid_type'' Ev_Unknown))"

datatype trust_class = Trust_Claim | Trust_Evidence | Trust_Judgment | Trust_Routing

fun trust_value :: "trust_class \<Rightarrow> string" where
  "trust_value Trust_Claim = ''claim''"
| "trust_value Trust_Evidence = ''evidence''"
| "trust_value Trust_Judgment = ''judgment''"
| "trust_value Trust_Routing = ''routing''"

definition TRUST_CLASSES :: "(string \<times> trust_class) list" where
  "TRUST_CLASSES = map (\<lambda>t. (trust_value t, t)) [Trust_Claim, Trust_Evidence, Trust_Judgment, Trust_Routing]"

definition trust_class_from_value :: "json \<Rightarrow> trust_class option" where
  "trust_class_from_value v = (case v of JStr s \<Rightarrow> map_of TRUST_CLASSES s | _ \<Rightarrow> None)"

subsection \<open>References\<close>

text \<open>An integer that is no Boolean.\<close>

definition get_int :: "(string \<times> json) list \<Rightarrow> string \<Rightarrow> int option" where
  "get_int d k = (case dget d k JNull of JInt i \<Rightarrow> Some i | _ \<Rightarrow> None)"

definition int_or_0 :: "(string \<times> json) list \<Rightarrow> string \<Rightarrow> int" where
  "int_or_0 d k = (case get_int d k of Some i \<Rightarrow> i | None \<Rightarrow> 0)"

record artifact_ref =
  ar_path :: string
  ar_sha256 :: "string option"
  ar_artifact_type :: "string option"
  ar_schema :: "string option"
  ar_schema_version :: "int option"
  ar_uri :: "string option"

definition artifact_ref_to_dict :: "artifact_ref \<Rightarrow> json" where
  "artifact_ref_to_dict a = JObj
     [(''schema'', opt_json JStr (ar_schema a)), (''schema_version'', opt_json JInt (ar_schema_version a)),
      (''path'', JStr (ar_path a)), (''sha256'', opt_json JStr (ar_sha256 a)),
      (''artifact_type'', opt_json JStr (ar_artifact_type a)), (''uri'', opt_json JStr (ar_uri a))]"

definition artifact_ref_from_dict :: "(string \<times> json) list \<Rightarrow> artifact_ref" where
  "artifact_ref_from_dict d =
     \<lparr>ar_path = py_str (dget d ''path'' (JStr [])), ar_sha256 = read_str d ''sha256'',
      ar_artifact_type = read_str d ''artifact_type'', ar_schema = read_str d ''schema'',
      ar_schema_version = get_int d ''schema_version'', ar_uri = read_str d ''uri''\<rparr>"

definition artifact_ref_from_value :: "json \<Rightarrow> artifact_ref option" where
  "artifact_ref_from_value v = (case v of JObj d \<Rightarrow> Some (artifact_ref_from_dict d) | _ \<Rightarrow> None)"

definition artifact_refs_from_value :: "json \<Rightarrow> artifact_ref list" where
  "artifact_refs_from_value v = (case v of JArr xs \<Rightarrow> List.map_filter artifact_ref_from_value xs | _ \<Rightarrow> [])"

record evidence_ref =
  er_kind :: string
  er_status :: evidence_status
  er_summary :: string
  er_details :: "(string \<times> json) list"
  er_trust_class :: "trust_class option"
  er_provider :: "string option"
  er_provider_version :: "string option"
  er_artifact :: "artifact_ref option"
  er_artifacts :: "artifact_ref list"
  er_source :: "string option"
  er_subject :: "string option"
  er_observed_at :: "string option"
  er_code_hash :: "string option"
  er_schema :: string
  er_schema_version :: int
  er_contract_version :: int

definition evidence_ref_fields :: "evidence_ref \<Rightarrow> (string \<times> json) list" where
  "evidence_ref_fields r =
     [(''schema'', JStr (er_schema r)), (''schema_version'', JInt (er_schema_version r)),
      (''evidence_contract_version'', JInt (er_contract_version r)), (''kind'', JStr (er_kind r)),
      (''status'', JStr (status_value (er_status r))), (''summary'', JStr (er_summary r)),
      (''details'', JObj (er_details r))]
     @ opt_field ''trust_class'' (JStr \<circ> trust_value) (er_trust_class r)
     @ opt_field ''provider'' JStr (er_provider r)
     @ opt_field ''provider_version'' JStr (er_provider_version r)
     @ opt_field ''source'' JStr (er_source r)
     @ opt_field ''subject'' JStr (er_subject r)
     @ opt_field ''observed_at'' JStr (er_observed_at r)
     @ opt_field ''code_hash'' JStr (er_code_hash r)
     @ opt_field ''artifact'' artifact_ref_to_dict (er_artifact r)
     @ (if er_artifacts r = [] then [] else [(''artifacts'', JArr (map artifact_ref_to_dict (er_artifacts r)))])"

definition evidence_ref_to_dict :: "evidence_ref \<Rightarrow> json" where
  "evidence_ref_to_dict r = JObj (evidence_ref_fields r)"

text \<open>
  \<^verbatim>\<open>clean_details.setdefault("diagnostics", {}).update(...)\<close>: an entry that is no dictionary has no
  \<^verbatim>\<open>update\<close>.
\<close>

definition with_diagnostics ::
  "(string \<times> json) list \<Rightarrow> (string \<times> json) list \<Rightarrow> phase_error + (string \<times> json) list" where
  "with_diagnostics diagnostics details =
     (if diagnostics = [] then Inr details
      else case dget details ''diagnostics'' (JObj []) of
          JObj old \<Rightarrow> Inr (AList.update ''diagnostics'' (JObj (dict_update old diagnostics)) details)
        | _ \<Rightarrow> Inl Attribute_Error)"

definition evidence_ref_from_dict :: "(string \<times> json) list \<Rightarrow> phase_error + evidence_ref" where
  "evidence_ref_from_dict d =
     (let (status, diagnostics) = normalize_evidence_status (dget d ''status'' JNull);
          artifacts = artifact_refs_from_value (dget d ''artifacts'' JNull);
          artifact = (case artifact_ref_from_value (dget d ''artifact'' JNull) of
                        Some a \<Rightarrow> Some a
                      | None \<Rightarrow> (case artifacts of a # _ \<Rightarrow> Some a | [] \<Rightarrow> None))
      in res_bind (with_diagnostics diagnostics (dict_or_empty (dget d ''details'' JNull))) (\<lambda>details.
         Inr \<lparr>er_kind = py_str (dget d ''kind'' (JStr ''?'')), er_status = status,
              er_summary = py_str (dget d ''summary'' (JStr [])), er_details = details,
              er_trust_class = trust_class_from_value (dget d ''trust_class'' JNull),
              er_provider = read_str d ''provider'', er_provider_version = read_str d ''provider_version'',
              er_artifact = artifact, er_artifacts = artifacts,
              er_source = read_str d ''source'', er_subject = read_str d ''subject'',
              er_observed_at = read_str d ''observed_at'', er_code_hash = read_str d ''code_hash'',
              er_schema = py_str (dget d ''schema'' (JStr ''megaplan.evidence_ref'')),
              er_schema_version = int_or_0 d ''schema_version'',
              er_contract_version = int_or_0 d ''evidence_contract_version''\<rparr>))"

subsection \<open>Transition decisions\<close>

record transition_decision =
  td_decision_id :: string
  td_subject :: string
  td_from_state :: "string option"
  td_to_state :: string
  td_action :: string
  td_status :: string
  td_evidence :: "evidence_ref list"
  td_would_block_reasons :: "string list"
  td_invocation_id :: "string option"
  td_phase :: "string option"
  td_iteration :: "int option"
  td_base_sha :: "string option"
  td_head_sha :: "string option"
  td_code_hash :: "string option"
  td_routing_provider :: "string option"
  td_routing_provenance :: "(string \<times> json) list"
  td_boundary_id :: "string option"
  td_checked_evidence_refs :: "string list"
  td_authority_record_refs :: "string list"
  td_schema :: string
  td_schema_version :: int
  td_contract_version :: int

definition str_array :: "string list \<Rightarrow> json" where
  "str_array xs = JArr (map JStr xs)"

definition nonempty_array :: "string \<Rightarrow> string list \<Rightarrow> (string \<times> json) list" where
  "nonempty_array k xs = (if xs = [] then [] else [(k, str_array xs)])"

definition transition_decision_fields :: "transition_decision \<Rightarrow> (string \<times> json) list" where
  "transition_decision_fields t =
     [(''schema'', JStr (td_schema t)), (''schema_version'', JInt (td_schema_version t)),
      (''evidence_contract_version'', JInt (td_contract_version t)), (''decision_id'', JStr (td_decision_id t)),
      (''subject'', JStr (td_subject t)), (''from_state'', opt_json JStr (td_from_state t)),
      (''to_state'', JStr (td_to_state t)), (''action'', JStr (td_action t)), (''status'', JStr (td_status t)),
      (''evidence'', JArr (map evidence_ref_to_dict (td_evidence t))),
      (''would_block_reasons'', str_array (td_would_block_reasons t)),
      (''invocation_id'', opt_json JStr (td_invocation_id t)), (''phase'', opt_json JStr (td_phase t)),
      (''iteration'', opt_json JInt (td_iteration t)), (''base_sha'', opt_json JStr (td_base_sha t)),
      (''head_sha'', opt_json JStr (td_head_sha t)), (''code_hash'', opt_json JStr (td_code_hash t)),
      (''routing_provider'', opt_json JStr (td_routing_provider t)),
      (''routing_provenance'', JObj (td_routing_provenance t))]
     @ opt_field ''boundary_id'' JStr (td_boundary_id t)
     @ nonempty_array ''checked_evidence_refs'' (td_checked_evidence_refs t)
     @ nonempty_array ''authority_record_refs'' (td_authority_record_refs t)"

definition texts_of :: "json \<Rightarrow> string list" where
  "texts_of v = (case v of JArr xs \<Rightarrow> map py_str xs | _ \<Rightarrow> [])"

definition evidence_list :: "json \<Rightarrow> phase_error + evidence_ref list" where
  "evidence_list v =
     (case v of JArr xs \<Rightarrow> res_map evidence_ref_from_dict (List.map_filter as_dict xs) | _ \<Rightarrow> Inr [])"

definition transition_decision_from_dict :: "(string \<times> json) list \<Rightarrow> phase_error + transition_decision" where
  "transition_decision_from_dict d =
     res_bind (evidence_list (dget d ''evidence'' JNull)) (\<lambda>evidence.
     Inr \<lparr>td_decision_id = py_str (dget d ''decision_id'' (JStr [])), td_subject = py_str (dget d ''subject'' (JStr [])),
          td_from_state = read_str d ''from_state'', td_to_state = py_str (dget d ''to_state'' (JStr [])),
          td_action = py_str (dget d ''action'' (JStr [])), td_status = py_str (dget d ''status'' (JStr [])),
          td_evidence = evidence, td_would_block_reasons = texts_of (dget d ''would_block_reasons'' JNull),
          td_invocation_id = read_str d ''invocation_id'', td_phase = read_str d ''phase'',
          td_iteration = get_int d ''iteration'', td_base_sha = read_str d ''base_sha'',
          td_head_sha = read_str d ''head_sha'', td_code_hash = read_str d ''code_hash'',
          td_routing_provider = read_str d ''routing_provider'',
          td_routing_provenance = dict_or_empty (dget d ''routing_provenance'' JNull),
          td_boundary_id = read_str d ''boundary_id'',
          td_checked_evidence_refs = texts_of (dget d ''checked_evidence_refs'' JNull),
          td_authority_record_refs = texts_of (dget d ''authority_record_refs'' JNull),
          td_schema = py_str (dget d ''schema'' (JStr ''megaplan.transition_decision'')),
          td_schema_version = int_or_0 d ''schema_version'',
          td_contract_version = int_or_0 d ''evidence_contract_version''\<rparr>)"

subsection \<open>Round trips\<close>

lemma map_of_inverse: "map_of (map (\<lambda>s. (f s, s)) xs) (f x) = Some x" if "inj f" "x \<in> set xs"
  using that by (induction xs) (auto simp: inj_eq)

lemma inj_status_value: "inj status_value"
proof (rule injI)
  show "status_value s = status_value t \<Longrightarrow> s = t" for s t
    by (cases s; cases t) simp_all
qed

lemma normalize_canonical [simp]: "normalize_evidence_status (JStr (status_value s)) = (s, [])"
  by (cases s) (simp_all add: normalize_evidence_status_def EVIDENCE_STATUSES_def)

lemma trust_class_roundtrip [simp]: "trust_class_from_value (JStr (trust_value t)) = Some t"
  by (cases t) (simp_all add: trust_class_from_value_def TRUST_CLASSES_def)

lemma get_int_opt: "dget d k JNull = opt_json JInt v \<Longrightarrow> get_int d k = v"
  by (cases v) (simp_all add: get_int_def)

lemma artifact_ref_roundtrip [simp]: "artifact_ref_from_value (artifact_ref_to_dict a) = Some a"
  by (auto simp: artifact_ref_from_value_def artifact_ref_to_dict_def artifact_ref_from_dict_def dget_Cons
      intro!: artifact_ref.equality read_str_roundtrip get_int_opt)

lemma artifact_refs_roundtrip [simp]: "artifact_refs_from_value (JArr (map artifact_ref_to_dict as)) = as"
  by (induction as) (simp_all add: artifact_refs_from_value_def List.map_filter_simps)

lemma evidence_ref_get:
  "dget (evidence_ref_fields r) ''kind'' w = JStr (er_kind r)"
  "dget (evidence_ref_fields r) ''status'' w = JStr (status_value (er_status r))"
  "dget (evidence_ref_fields r) ''summary'' w = JStr (er_summary r)"
  "dget (evidence_ref_fields r) ''details'' w = JObj (er_details r)"
  "dget (evidence_ref_fields r) ''schema'' w = JStr (er_schema r)"
  "dget (evidence_ref_fields r) ''schema_version'' w = JInt (er_schema_version r)"
  "dget (evidence_ref_fields r) ''evidence_contract_version'' w = JInt (er_contract_version r)"
  by (simp_all add: evidence_ref_fields_def dget_def)

lemma evidence_ref_get_opt:
  "dget (evidence_ref_fields r) ''trust_class'' JNull = opt_json (JStr \<circ> trust_value) (er_trust_class r)"
  "dget (evidence_ref_fields r) ''provider'' JNull = opt_json JStr (er_provider r)"
  "dget (evidence_ref_fields r) ''provider_version'' JNull = opt_json JStr (er_provider_version r)"
  "dget (evidence_ref_fields r) ''source'' JNull = opt_json JStr (er_source r)"
  "dget (evidence_ref_fields r) ''subject'' JNull = opt_json JStr (er_subject r)"
  "dget (evidence_ref_fields r) ''observed_at'' JNull = opt_json JStr (er_observed_at r)"
  "dget (evidence_ref_fields r) ''code_hash'' JNull = opt_json JStr (er_code_hash r)"
  "dget (evidence_ref_fields r) ''artifact'' JNull = opt_json artifact_ref_to_dict (er_artifact r)"
  "dget (evidence_ref_fields r) ''artifacts'' JNull =
     (if er_artifacts r = [] then JNull else JArr (map artifact_ref_to_dict (er_artifacts r)))"
  by (simp_all add: evidence_ref_fields_def dget_Cons opt_json_case comp_def cong: option.case_cong)

text \<open>Reading a reference back gives it with the first of its artifacts as the artifact, when it had none.\<close>

definition with_first_artifact :: "evidence_ref \<Rightarrow> evidence_ref" where
  "with_first_artifact r =
     r\<lparr>er_artifact := (case er_artifact r of Some a \<Rightarrow> Some a
                        | None \<Rightarrow> (case er_artifacts r of a # _ \<Rightarrow> Some a | [] \<Rightarrow> None))\<rparr>"

lemma trust_class_opt: "dget d k JNull = opt_json (JStr \<circ> trust_value) v \<Longrightarrow> trust_class_from_value (dget d k JNull) = v"
  by (cases v) (simp_all add: trust_class_from_value_def [of JNull])

lemma artifact_opt: "dget d k JNull = opt_json artifact_ref_to_dict v \<Longrightarrow> artifact_ref_from_value (dget d k JNull) = v"
  by (cases v) (simp_all add: artifact_ref_from_value_def [of JNull])

lemma evidence_ref_roundtrip: "evidence_ref_from_dict (evidence_ref_fields r) = Inr (with_first_artifact r)"
proof -
  note get = evidence_ref_get evidence_ref_get_opt [of r]
  have artifacts: "artifact_refs_from_value (dget (evidence_ref_fields r) ''artifacts'' JNull) = er_artifacts r"
    by (simp add: get artifact_refs_from_value_def [of JNull])
  have artifact: "artifact_ref_from_value (dget (evidence_ref_fields r) ''artifact'' JNull) = er_artifact r"
    by (rule artifact_opt) (rule get)
  have trust: "trust_class_from_value (dget (evidence_ref_fields r) ''trust_class'' JNull) = er_trust_class r"
    by (rule trust_class_opt) (rule get)
  have strs: "read_str (evidence_ref_fields r) ''provider'' = er_provider r"
    "read_str (evidence_ref_fields r) ''provider_version'' = er_provider_version r"
    "read_str (evidence_ref_fields r) ''source'' = er_source r"
    "read_str (evidence_ref_fields r) ''subject'' = er_subject r"
    "read_str (evidence_ref_fields r) ''observed_at'' = er_observed_at r"
    "read_str (evidence_ref_fields r) ''code_hash'' = er_code_hash r"
    by (rule read_str_roundtrip, rule get)+
  show ?thesis
    unfolding evidence_ref_from_dict_def artifacts artifact trust strs
    by (cases r) (simp add: evidence_ref_get with_diagnostics_def with_first_artifact_def int_or_0_def get_int_def
        cong: option.case_cong)
qed

lemma evidence_list_roundtrip:
  "evidence_list (JArr (map evidence_ref_to_dict rs)) = Inr (map with_first_artifact rs)"
proof -
  have "List.map_filter as_dict (map evidence_ref_to_dict rs) = map evidence_ref_fields rs"
    by (induction rs) (simp_all add: evidence_ref_to_dict_def List.map_filter_simps)
  moreover have "res_map evidence_ref_from_dict (map evidence_ref_fields rs) = Inr (map with_first_artifact rs)"
    by (induction rs) (simp_all add: evidence_ref_roundtrip)
  ultimately show ?thesis
    by (simp add: evidence_list_def)
qed

lemma transition_decision_get:
  "dget (transition_decision_fields t) ''schema'' w = JStr (td_schema t)"
  "dget (transition_decision_fields t) ''schema_version'' w = JInt (td_schema_version t)"
  "dget (transition_decision_fields t) ''evidence_contract_version'' w = JInt (td_contract_version t)"
  "dget (transition_decision_fields t) ''decision_id'' w = JStr (td_decision_id t)"
  "dget (transition_decision_fields t) ''subject'' w = JStr (td_subject t)"
  "dget (transition_decision_fields t) ''to_state'' w = JStr (td_to_state t)"
  "dget (transition_decision_fields t) ''action'' w = JStr (td_action t)"
  "dget (transition_decision_fields t) ''status'' w = JStr (td_status t)"
  "dget (transition_decision_fields t) ''evidence'' w = JArr (map evidence_ref_to_dict (td_evidence t))"
  "dget (transition_decision_fields t) ''would_block_reasons'' w = str_array (td_would_block_reasons t)"
  "dget (transition_decision_fields t) ''routing_provenance'' w = JObj (td_routing_provenance t)"
  by (simp_all add: transition_decision_fields_def dget_Cons)

lemma transition_decision_get_opt:
  "dget (transition_decision_fields t) ''from_state'' JNull = opt_json JStr (td_from_state t)"
  "dget (transition_decision_fields t) ''invocation_id'' JNull = opt_json JStr (td_invocation_id t)"
  "dget (transition_decision_fields t) ''phase'' JNull = opt_json JStr (td_phase t)"
  "dget (transition_decision_fields t) ''base_sha'' JNull = opt_json JStr (td_base_sha t)"
  "dget (transition_decision_fields t) ''head_sha'' JNull = opt_json JStr (td_head_sha t)"
  "dget (transition_decision_fields t) ''code_hash'' JNull = opt_json JStr (td_code_hash t)"
  "dget (transition_decision_fields t) ''routing_provider'' JNull = opt_json JStr (td_routing_provider t)"
  "dget (transition_decision_fields t) ''boundary_id'' JNull = opt_json JStr (td_boundary_id t)"
  "dget (transition_decision_fields t) ''iteration'' JNull = opt_json JInt (td_iteration t)"
  by (simp_all add: transition_decision_fields_def dget_Cons nonempty_array_def opt_json_case cong: option.case_cong)

lemma texts_of_str_array [simp]: "texts_of (str_array xs) = xs"
  by (simp add: texts_of_def str_array_def comp_def)

lemma transition_decision_get_arrays:
  "texts_of (dget (transition_decision_fields t) ''checked_evidence_refs'' JNull) = td_checked_evidence_refs t"
  "texts_of (dget (transition_decision_fields t) ''authority_record_refs'' JNull) = td_authority_record_refs t"
  by (simp_all add: transition_decision_fields_def dget_Cons nonempty_array_def texts_of_def [of JNull])

text \<open>Evidence references and transition decisions decode to themselves, except that a reference
  without a primary artifact gets the first of its artifacts; normalising twice is normalising once.
\<close>

theorem evidence_records_round_trip:
  shows "evidence_ref_from_dict (evidence_ref_fields r) = Inr (with_first_artifact r) \<and>
    transition_decision_from_dict (transition_decision_fields t) =
         Inr (t\<lparr>td_evidence := map with_first_artifact (td_evidence t)\<rparr>) \<and>
    with_first_artifact (with_first_artifact r) = with_first_artifact r \<and>
    (with_first_artifact r = r \<longleftrightarrow> \<not> (er_artifact r = None \<and> er_artifacts r \<noteq> []))"
proof (intro conjI)
  show "evidence_ref_from_dict (evidence_ref_fields r) = Inr (with_first_artifact r)"
    by (rule evidence_ref_roundtrip)
  note get = transition_decision_get_opt [of t]
  have strs: "read_str (transition_decision_fields t) ''from_state'' = td_from_state t"
    "read_str (transition_decision_fields t) ''invocation_id'' = td_invocation_id t"
    "read_str (transition_decision_fields t) ''phase'' = td_phase t"
    "read_str (transition_decision_fields t) ''base_sha'' = td_base_sha t"
    "read_str (transition_decision_fields t) ''head_sha'' = td_head_sha t"
    "read_str (transition_decision_fields t) ''code_hash'' = td_code_hash t"
    "read_str (transition_decision_fields t) ''routing_provider'' = td_routing_provider t"
    "read_str (transition_decision_fields t) ''boundary_id'' = td_boundary_id t"
    by (rule read_str_roundtrip, rule get)+
  have iteration: "get_int (transition_decision_fields t) ''iteration'' = td_iteration t"
    by (rule get_int_opt) (rule get)
  show "transition_decision_from_dict (transition_decision_fields t) =
         Inr (t\<lparr>td_evidence := map with_first_artifact (td_evidence t)\<rparr>)"
    unfolding transition_decision_from_dict_def strs iteration transition_decision_get_arrays
    by (cases t) (simp add: transition_decision_get evidence_list_roundtrip int_or_0_def get_int_def)
  show "with_first_artifact (with_first_artifact r) = with_first_artifact r"
    by (simp add: with_first_artifact_def split: option.split list.split)
  show "with_first_artifact r = r \<longleftrightarrow> \<not> (er_artifact r = None \<and> er_artifacts r \<noteq> [])"
    by (cases r) (auto simp: with_first_artifact_def split: option.split list.split)
qed

end
