(* ===== verification/Task_Satisfaction.thy ===== *)
theory Task_Satisfaction
  imports Evidence_Contract
begin

section \<open>Task satisfaction\<close>

text \<open>
  The predicate \<^verbatim>\<open>is_task_satisfied\<close> of \<^verbatim>\<open>orchestration/task_satisfaction.py\<close>: whether evidence
  corroborates what a task declares it produced, on the current revision. \<open>anc a b\<close> is whether Git finds
  \<open>a\<close> to be an ancestor of \<open>b\<close> in the project. The diagnostics of a result are not modelled.
\<close>

subsection \<open>Texts of a value\<close>

definition or3 :: "json \<Rightarrow> json \<Rightarrow> json \<Rightarrow> json" where
  "or3 a b c = (if truthy a then a else if truthy b then b else c)"

lemma size_map_of: "map_of d k = Some v \<Longrightarrow> size v < Suc (size_list (size_prod (\<lambda>_. 0) size) d)"
  by (induction d) (auto split: if_splits)

lemma size_dget: "dget d k JNull = v \<Longrightarrow> v \<noteq> JNull \<Longrightarrow> size v < Suc (size_list (size_prod (\<lambda>_. 0) size) d)"
  by (auto simp: dget_def size_map_of split: option.splits)

text \<open>\<^verbatim>\<open>_string_tuple\<close>: a dictionary stands for its id, path or name, a list for its elements.\<close>

function value_strings :: "json \<Rightarrow> string list" where
  "value_strings JNull = []"
| "value_strings (JStr s) = (if strip s = [] then [] else [strip s])"
| "value_strings (JObj d) =
     (let v = or3 (dget d ''id'' JNull) (dget d ''path'' JNull) (dget d ''name'' JNull)
      in if v = JNull then [] else value_strings v)"
| "value_strings (JArr xs) = concat (map value_strings xs)"
| "value_strings (JBool b) = [py_str (JBool b)]"
| "value_strings (JInt i) = [py_str (JInt i)]"
| "value_strings (JFloat r) = [py_str (JFloat r)]"
  by pat_completeness auto
termination
proof (relation "measure size")
  fix d v
  assume v: "v = or3 (dget d ''id'' JNull) (dget d ''path'' JNull) (dget d ''name'' JNull)" "v \<noteq> JNull"
  then have "v = dget d ''id'' JNull \<or> v = dget d ''path'' JNull \<or> v = dget d ''name'' JNull"
    by (auto simp: or3_def split: if_splits)
  then show "(v, JObj d) \<in> measure size"
    using size_dget [of d _ v] v(2) by auto
qed (auto simp: less_Suc_eq_le size_list_estimation')

definition first_string :: "(string \<times> json) list \<Rightarrow> string list \<Rightarrow> string option" where
  "first_string d keys = (case List.map_filter (\<lambda>k. nonempty_text (dget d k JNull)) keys of
     s # _ \<Rightarrow> Some s | [] \<Rightarrow> None)"

subsection \<open>What a task declares\<close>

definition DECLARED_OUTPUT_FIELDS :: "string list" where
  "DECLARED_OUTPUT_FIELDS = [''files_changed'', ''commands_run'', ''evidence_files'', ''sections_written'']"

definition LINK_DETAIL_KEYS :: "string list" where
  "LINK_DETAIL_KEYS = [''task_id'', ''task_ids'', ''tasks'', ''criterion_id'', ''criterion_ids'', ''criteria'']"

text \<open>The outputs, each with its field.\<close>

definition declared_outputs :: "(string \<times> json) list \<Rightarrow> (string \<times> string) list" where
  "declared_outputs task =
     concat (map (\<lambda>f. map (Pair f) (value_strings (dget task f JNull))) DECLARED_OUTPUT_FIELDS)"

text \<open>\<^verbatim>\<open>raw.extend(value)\<close> of an iterable, or its one value; a dictionary gives the first of three keys.\<close>

definition spread :: "string \<Rightarrow> string \<Rightarrow> string \<Rightarrow> json \<Rightarrow> json list" where
  "spread a b c v =
     (case v of JObj d \<Rightarrow> [or3 (dget d a JNull) (dget d b JNull) (dget d c JNull)] | JArr xs \<Rightarrow> xs | _ \<Rightarrow> [v])"

definition criterion_ids :: "(string \<times> json) list \<Rightarrow> string list" where
  "criterion_ids task =
     value_strings (JArr (concat (map (\<lambda>k. spread ''id'' ''criterion'' ''name'' (dget task k JNull))
       [''criterion_id'', ''criterion_ids'', ''criteria''])))"

text \<open>\<^verbatim>\<open>_task_value(task, "task_id") or _task_value(task, "id")\<close>.\<close>

definition satisfaction_task_id :: "(string \<times> json) list \<Rightarrow> json" where
  "satisfaction_task_id task =
     (if truthy (dget task ''task_id'' JNull) then dget task ''task_id'' JNull else dget task ''id'' JNull)"

subsection \<open>Links\<close>

definition evidence_link_values :: "evidence_ref \<Rightarrow> string list" where
  "evidence_link_values r =
     value_strings (JArr
       ((case er_subject r of Some s \<Rightarrow> [JStr s] | None \<Rightarrow> [])
        @ concat (map (\<lambda>k. spread ''id'' ''task_id'' ''criterion_id'' (dget (er_details r) k JNull)) LINK_DETAIL_KEYS)))"

definition artifact_paths :: "evidence_ref \<Rightarrow> string list" where
  "artifact_paths r =
     filter (\<lambda>p. p \<noteq> [])
       (map ar_path ((case er_artifact r of Some a \<Rightarrow> [a] | None \<Rightarrow> []) @ er_artifacts r))"

definition ref_matches_output :: "evidence_ref \<Rightarrow> string \<times> string \<Rightarrow> bool" where
  "ref_matches_output r = (\<lambda>(field, value).
     value \<in> set (artifact_paths r)
     \<or> value \<in> set (value_strings (dget (er_details r) field JNull))
     \<or> field = ''commands_run'' \<and> first_string (er_details r) [''command'', ''cmd''] = Some value)"

definition evidence_links_task :: "evidence_ref \<Rightarrow> json \<Rightarrow> string list \<Rightarrow> (string \<times> string) list \<Rightarrow> bool" where
  "evidence_links_task r task_id criteria outputs \<longleftrightarrow>
     (\<not> truthy task_id \<and> criteria = [] \<and> outputs = [])
     \<or> (truthy task_id \<and> task_id \<in> JStr ` set (evidence_link_values r))
     \<or> set (evidence_link_values r) \<inter> set criteria \<noteq> {}
     \<or> list_ex (ref_matches_output r) outputs
     \<or> evidence_link_values r = [] \<and> outputs = []"

subsection \<open>Staleness\<close>

record execution_window =
  ew_base_sha :: string
  ew_head_sha :: "string option"

datatype staleness = Missing_Head | Head_Mismatch | Missing_Code_Hash | Code_Hash_Mismatch

fun staleness_text :: "staleness \<Rightarrow> string" where
  "staleness_text Missing_Head = ''missing_head''"
| "staleness_text Head_Mismatch = ''head_mismatch''"
| "staleness_text Missing_Code_Hash = ''missing_code_hash''"
| "staleness_text Code_Hash_Mismatch = ''code_hash_mismatch''"

definition head_is_fresh_in_execution_window ::
  "(string \<Rightarrow> string \<Rightarrow> bool) \<Rightarrow> string \<Rightarrow> string \<Rightarrow> execution_window option \<Rightarrow> bool" where
  "head_is_fresh_in_execution_window anc observed current window \<longleftrightarrow>
     (case window of
        None \<Rightarrow> False
      | Some w \<Rightarrow> ew_base_sha w \<noteq> [] \<and> anc observed current \<and> anc (ew_base_sha w) observed)"

definition stale_evidence ::
  "(string \<Rightarrow> string \<Rightarrow> bool) \<Rightarrow> string option \<Rightarrow> string option \<Rightarrow> execution_window option \<Rightarrow> evidence_ref \<Rightarrow>
   staleness list" where
  "stale_evidence anc head code_hash window r =
     (case head of
        None \<Rightarrow> []
      | Some h \<Rightarrow>
          (case first_string (er_details r) [''head_sha'', ''current_head'', ''head''] of
             None \<Rightarrow> [Missing_Head]
           | Some o_head \<Rightarrow>
               if o_head \<noteq> h \<and> \<not> head_is_fresh_in_execution_window anc o_head h window then [Head_Mismatch] else []))
     @ (case code_hash of
          None \<Rightarrow> []
        | Some c \<Rightarrow>
            (case (case er_code_hash r of
                     Some x \<Rightarrow> if x \<noteq> [] then Some x else first_string (er_details r) [''code_hash'']
                   | None \<Rightarrow> first_string (er_details r) [''code_hash'']) of
               None \<Rightarrow> [Missing_Code_Hash]
             | Some x \<Rightarrow> if x \<noteq> c then [Code_Hash_Mismatch] else []))"

definition prefer_fresh_linked_refs :: "(evidence_ref \<Rightarrow> staleness list) \<Rightarrow> evidence_ref list \<Rightarrow> evidence_ref list" where
  "prefer_fresh_linked_refs stale refs =
     (let fresh = filter (\<lambda>r. stale r = []) refs in if fresh = [] then refs else fresh)"

definition missing_declared_outputs :: "(string \<times> string) list \<Rightarrow> evidence_ref list \<Rightarrow> (string \<times> string) list" where
  "missing_declared_outputs outputs refs = filter (\<lambda>out. \<not> list_ex (\<lambda>r. ref_matches_output r out) refs) outputs"

definition explicit_terminal_status :: "evidence_ref list \<Rightarrow> evidence_status option" where
  "explicit_terminal_status refs =
     (if list_ex (\<lambda>r. er_status r = Ev_Waived) refs then Some Ev_Waived
      else if list_ex (\<lambda>r. er_status r = Ev_Not_Applicable) refs then Some Ev_Not_Applicable
      else None)"

subsection \<open>The predicate\<close>

record satisfaction =
  sa_status :: evidence_status
  sa_evidence :: "evidence_ref list"
  sa_missing_outputs :: "string list"
  sa_stale_evidence :: "string list"
  sa_would_block :: "string list"

definition is_satisfied :: "satisfaction \<Rightarrow> bool" where
  "is_satisfied s \<longleftrightarrow> sa_status s = Ev_Satisfied"

text \<open>An empty head or hash counts as none.\<close>

definition given_text :: "string option \<Rightarrow> string option" where
  "given_text v = (case v of Some s \<Rightarrow> if s = [] then None else Some s | None \<Rightarrow> None)"

definition resolved_head :: "string option \<Rightarrow> execution_window option \<Rightarrow> string option" where
  "resolved_head head window =
     (case given_text head of
        Some h \<Rightarrow> Some h
      | None \<Rightarrow> (case window of Some w \<Rightarrow> given_text (ew_head_sha w) | None \<Rightarrow> None))"

definition linked_refs :: "(string \<times> json) list \<Rightarrow> evidence_ref list \<Rightarrow> evidence_ref list" where
  "linked_refs task refs =
     filter (\<lambda>r. evidence_links_task r (satisfaction_task_id task) (criterion_ids task) (declared_outputs task)) refs"

definition stale_text :: "evidence_ref \<Rightarrow> staleness \<Rightarrow> string" where
  "stale_text r s = staleness_text s @ '':'' @ er_kind r"

definition output_text :: "string \<times> string \<Rightarrow> string" where
  "output_text = (\<lambda>(f, v). f @ '':'' @ v)"

definition satisfaction_status ::
  "evidence_ref list \<Rightarrow> (string \<times> string) list \<Rightarrow> staleness list \<Rightarrow> evidence_status" where
  "satisfaction_status effective missing stale =
     (case explicit_terminal_status effective of
        Some s \<Rightarrow> s
      | None \<Rightarrow>
          if list_ex (\<lambda>r. er_status r = Ev_Unsatisfied) effective then Ev_Unsatisfied
          else if missing \<noteq> [] then Ev_Unsatisfied
          else if list_ex (\<lambda>s. s \<in> {Head_Mismatch, Code_Hash_Mismatch}) stale then Ev_Unsatisfied
          else if stale \<noteq> [] \<or> effective = [] then Ev_Unknown
          else if list_ex (\<lambda>r. er_status r = Ev_Unknown) effective then Ev_Unknown
          else Ev_Satisfied)"

definition is_task_satisfied ::
  "(string \<Rightarrow> string \<Rightarrow> bool) \<Rightarrow> string option \<Rightarrow> string option \<Rightarrow> execution_window option \<Rightarrow>
   (string \<times> json) list \<Rightarrow> evidence_ref list \<Rightarrow> satisfaction" where
  "is_task_satisfied anc head code_hash window task refs =
     (let linked = linked_refs task refs;
          stale_of = stale_evidence anc (resolved_head head window) (given_text code_hash) window;
          effective = prefer_fresh_linked_refs stale_of linked;
          missing = missing_declared_outputs (declared_outputs task) effective;
          stale = concat (map stale_of effective);
          stale_texts = concat (map (\<lambda>r. map (stale_text r) (stale_of r)) effective);
          blocks = (if linked = [] then [''missing_linked_evidence''] else [])
            @ map (\<lambda>m. ''missing_output:'' @ output_text m) missing
            @ map (\<lambda>s. ''stale_evidence:'' @ s) stale_texts
            @ map (\<lambda>r. ''unsatisfied_evidence:'' @ er_kind r) (filter (\<lambda>r. er_status r = Ev_Unsatisfied) effective)
      in \<lparr>sa_status = satisfaction_status effective missing stale, sa_evidence = effective,
          sa_missing_outputs = map output_text missing, sa_stale_evidence = stale_texts,
          sa_would_block = (if explicit_terminal_status effective \<noteq> None then [] else first_occurrences blocks)\<rparr>)"

subsection \<open>The nucleus\<close>

text \<open>
  What a caller may hand over as evidence: nothing, a reference, an object with an \<^verbatim>\<open>evidence\<close>
  attribute, a decoded value, or a sequence of references and decoded values.
\<close>

datatype evidence_item = Ref_Item evidence_ref | Json_Item json

datatype nucleus = No_Nucleus | One_Ref evidence_ref | Verdict "evidence_item list" | Json_Nucleus json | Item_Nucleus "evidence_item list"

definition nucleus_items :: "nucleus \<Rightarrow> evidence_item list" where
  "nucleus_items n =
     (case n of
        No_Nucleus \<Rightarrow> []
      | One_Ref r \<Rightarrow> [Ref_Item r]
      | Verdict items \<Rightarrow> items
      | Item_Nucleus items \<Rightarrow> items
      | Json_Nucleus (JObj d) \<Rightarrow>
          (case map_of d ''evidence'' of
             Some (JArr xs) \<Rightarrow> map Json_Item xs
           | Some v \<Rightarrow> []
           | None \<Rightarrow> [Json_Item (JObj d)])
      | Json_Nucleus (JArr xs) \<Rightarrow> map Json_Item xs
      | Json_Nucleus v \<Rightarrow> [])"

definition item_ref :: "evidence_item \<Rightarrow> (phase_error + evidence_ref) option" where
  "item_ref i =
     (case i of
        Ref_Item r \<Rightarrow> Some (Inr r)
      | Json_Item (JObj d) \<Rightarrow> Some (evidence_ref_from_dict d)
      | Json_Item v \<Rightarrow> None)"

definition normalize_evidence_nucleus :: "nucleus \<Rightarrow> phase_error + evidence_ref list" where
  "normalize_evidence_nucleus n = res_map id (List.map_filter item_ref (nucleus_items n))"

end
