(* ===== verification/Execution_Facts.thy ===== *)
theory Execution_Facts
  imports Plan_Lifecycle Execute_Policy Task_Satisfaction
begin

section \<open>Facts on the execute policy and on task satisfaction\<close>

subsection \<open>Entry\<close>

lemma current_state_text:
  "as_str (dget state ''current_state'' JNull) = Some s \<longleftrightarrow> map_of state ''current_state'' = Some (JStr s)"
  by (auto simp: dget_def split: option.splits json.splits)

lemma enforce_entry_route_ok: "enforce_entry_route state = Inr () \<longleftrightarrow>
   (\<exists>s. map_of state ''current_state'' = Some (JStr s) \<and>
        resolve_execute_entry_route s None (rerun_execute_cursor state) \<noteq> Entry_Invalid)"
  by (auto simp: enforce_entry_route_def ensure_def split: option.splits json.splits if_splits)

lemma entry_proceeds_iff: "may_proceed (resolve_execute_entry_route s None c) \<longleftrightarrow> s = ''finalized''"
  by (auto simp: may_proceed_def resolve_execute_entry_route_def DEFAULT_ENTRY_STATES_def)

lemma entry_valid_iff: "resolve_execute_entry_route s None c \<noteq> Entry_Invalid \<longleftrightarrow>
   s \<in> set DEFAULT_ENTRY_STATES \<or> s = ''done'' \<and> c"
  by (auto simp: resolve_execute_entry_route_def DEFAULT_ENTRY_STATES_def)

lemma execute_offered: "''execute'' \<in> set (workflow_next state) \<longleftrightarrow> plan_at state STATE_FINALIZED"
proof (cases "\<exists>s. plan_at state s")
  case True
  then obtain s where s: "plan_at state s" by blast
  have "plan_at state STATE_FINALIZED \<longleftrightarrow> s = STATE_FINALIZED"
    using s by (auto simp: plan_at_def simp del: state_value.simps)
  moreover have "''execute'' \<in> step ` set (matching_edges state s) \<longleftrightarrow> s = STATE_FINALIZED"
    using config_row_choices [of "topology_config_of state"]
    by (cases s) (auto simp: matching_edges_def config_rows split: if_splits)
  ultimately show ?thesis by (auto simp: workflow_next_at [OF s])
next
  case False
  then have "as_str (dget state ''current_state'' JNull) = Some c \<Longrightarrow> c \<notin> range state_value" for c
    by (cases "dget state ''current_state'' JNull") (auto simp: plan_at_def)
  moreover have "set (map state_value STEP_CONTEXT_STATES) \<subseteq> range state_value" by auto
  ultimately have "workflow_next state = []"
    by (auto simp: workflow_next_def successors_unknown Let_def subset_iff split: option.splits)
  with False show ?thesis by simp
qed

subsection \<open>The end without review\<close>

lemma includes_step_iff: "workflow_includes_step r st p f \<longleftrightarrow> st = ''step'' \<or>
   (\<exists>e \<in> set (edges (build_topology \<lparr>cfg_robustness = normalize_robustness r, cfg_creative = False,
      cfg_with_prep = p, cfg_with_feedback = f\<rparr>)). step e = st)"
  by (auto simp: workflow_includes_step_def list_ex_iff)

lemma includes_review: "workflow_includes_step r ''review'' p False \<longleftrightarrow>
   normalize_robustness r \<notin> {''light'', ''bare''}"
proof -
  let ?c = "\<lparr>cfg_robustness = normalize_robustness r, cfg_creative = False, cfg_with_prep = p, cfg_with_feedback = False\<rparr>"
  have "(\<exists>e \<in> set (edges (build_topology ?c)). step e = ''review'') \<longleftrightarrow> \<not> low_robustness ?c"
  proof
    assume "\<exists>e \<in> set (edges (build_topology ?c)). step e = ''review''"
    then obtain e where e: "e \<in> set (edges (build_topology ?c))" "step e = ''review''" by blast
    show "\<not> low_robustness ?c"
      using e config_row_choices [of ?c]
      by (cases "src e") (auto simp: edges_row_iff config_rows split: if_splits)
  next
    assume "\<not> low_robustness ?c"
    then have "Edge STATE_EXECUTED STATE_DONE ''review'' Always \<in> set (edges (build_topology ?c))"
      by (simp add: edges_row_iff config_rows)
    then show "\<exists>e \<in> set (edges (build_topology ?c)). step e = ''review''" by force
  qed
  then show ?thesis by (simp add: includes_step_iff low_robustness_def)
qed

lemma includes_feedback: "workflow_includes_step r ''feedback'' p f \<longleftrightarrow> f"
proof -
  let ?c = "\<lparr>cfg_robustness = normalize_robustness r, cfg_creative = False, cfg_with_prep = p, cfg_with_feedback = f\<rparr>"
  have "(\<exists>e \<in> set (edges (build_topology ?c)). step e = ''feedback'') \<longleftrightarrow> f"
  proof
    assume "\<exists>e \<in> set (edges (build_topology ?c)). step e = ''feedback''"
    then obtain e where e: "e \<in> set (edges (build_topology ?c))" "step e = ''feedback''" by blast
    show f
      using e config_row_choices [of ?c]
      by (cases "src e") (auto simp: edges_row_iff config_rows split: if_splits)
  next
    assume f
    then have "Edge STATE_REVIEWED STATE_DONE ''feedback'' Always \<in> set (edges (build_topology ?c))"
      by (simp add: edges_row_iff config_rows)
    then show "\<exists>e \<in> set (edges (build_topology ?c)). step e = ''feedback''" by force
  qed
  then show ?thesis by (simp add: includes_step_iff)
qed

subsection \<open>Tiers\<close>

definition usable_tier :: "(int \<times> json) list \<Rightarrow> int \<Rightarrow> int \<Rightarrow> bool" where
  "usable_tier tiers complexity k \<longleftrightarrow> k \<le> complexity \<and> tier_spec tiers k \<noteq> None"

lemma tier_spec_mem: "distinct (map fst tiers) \<Longrightarrow>
   tier_spec tiers k = Some spec \<longleftrightarrow> (\<exists>v. (k, v) \<in> set tiers \<and> nonempty_text v = Some spec)"
  by (auto simp: tier_spec_def split: option.splits dest: map_of_SomeD eq_key_imp_eq_value)

lemma usable_tiers_iff:
  assumes "distinct (map fst tiers)"
  shows "k \<in> set (usable_tiers tiers c) \<longleftrightarrow> usable_tier tiers c k"
proof -
  have "k \<in> set (usable_tiers tiers c) \<longleftrightarrow> k \<le> c \<and> (\<exists>v. (k, v) \<in> set tiers \<and> nonempty_text v \<noteq> None)"
    by (force simp: usable_tiers_def)
  then show ?thesis
    using assms by (auto simp: usable_tier_def tier_spec_mem)
qed

lemma last_usable_greatest:
  assumes "distinct (map fst tiers)" "usable_tiers tiers c \<noteq> []"
  shows "usable_tier tiers c (last (usable_tiers tiers c))"
    and "usable_tier tiers c k \<Longrightarrow> k \<le> last (usable_tiers tiers c)"
proof -
  show "usable_tier tiers c (last (usable_tiers tiers c))"
    using assms last_in_set usable_tiers_iff by blast
  assume "usable_tier tiers c k"
  then have "k \<in> set (usable_tiers tiers c)" using assms usable_tiers_iff by blast
  moreover have "sorted (usable_tiers tiers c)" by (simp add: usable_tiers_def)
  moreover have "x \<in> set xs \<Longrightarrow> sorted xs \<Longrightarrow> x \<le> last xs" for x :: int and xs
    by (induction xs) auto
  ultimately show "k \<le> last (usable_tiers tiers c)" by blast
qed

theorem batch_runs_on_nearest_tier:
  assumes "distinct (map fst tiers)"
  shows "resolve_batch_tier (Some tiers) c = Routed spec k \<longleftrightarrow>
           tier_spec tiers k = Some spec \<and> k \<le> c \<and> (\<forall>j. usable_tier tiers c j \<longrightarrow> j \<le> k)"
    and "resolve_batch_tier (Some tiers) c = Default_Tier \<longleftrightarrow> tiers \<noteq> [] \<and> (\<nexists>j. usable_tier tiers c j)"
proof -
  let ?last = "last (usable_tiers tiers c)"
  have none: "usable_tiers tiers c = [] \<longleftrightarrow> (\<nexists>j. usable_tier tiers c j)"
    using usable_tiers_iff [OF assms, of _ c] by (metis empty_iff empty_set list.set_intros(1) neq_Nil_conv)
  have exact: "tier_spec tiers c = Some s \<Longrightarrow> usable_tier tiers c c" for s by (simp add: usable_tier_def)
  consider (no_tier) "\<nexists>j. usable_tier tiers c j"
    | (tier) m s where "tier_spec tiers m = Some s" "usable_tier tiers c m" "\<forall>j. usable_tier tiers c j \<longrightarrow> j \<le> m"
        "resolve_batch_tier (Some tiers) c = Routed s m" "tiers \<noteq> []"
  proof (cases "\<exists>j. usable_tier tiers c j")
    case True
    then have ne: "usable_tiers tiers c \<noteq> []" "tiers \<noteq> []"
      using none by (auto simp: usable_tiers_def)
    obtain s where s: "tier_spec tiers ?last = Some s"
      using last_usable_greatest(1) [OF assms ne(1)] by (auto simp: usable_tier_def)
    have last: "tier_spec tiers c = Some s' \<Longrightarrow> ?last = c" for s'
      using last_usable_greatest [OF assms ne(1)] exact
      by (metis order_antisym usable_tier_def)
    have "resolve_batch_tier (Some tiers) c = Routed s ?last"
      using ne s last by (auto simp: resolve_batch_tier_def neq_Nil_conv split: option.splits)
    then show ?thesis using tier last_usable_greatest [OF assms ne(1)] s ne(2) by blast
  qed (use no_tier in blast)
  then have "(\<forall>spec k. resolve_batch_tier (Some tiers) c = Routed spec k \<longleftrightarrow>
      tier_spec tiers k = Some spec \<and> k \<le> c \<and> (\<forall>j. usable_tier tiers c j \<longrightarrow> j \<le> k)) \<and>
     (resolve_batch_tier (Some tiers) c = Default_Tier \<longleftrightarrow> tiers \<noteq> [] \<and> (\<nexists>j. usable_tier tiers c j))"
  proof cases
    case no_tier
    then have "tier_spec tiers c = None" "usable_tiers tiers c = []"
      using none by (auto simp: usable_tier_def)
    then have "resolve_batch_tier (Some tiers) c = (if tiers = [] then No_Tier_Map else Default_Tier)"
      by (cases tiers) (auto simp: resolve_batch_tier_def)
    with no_tier show ?thesis by (auto simp: usable_tier_def)
  next
    case (tier m s)
    have "k = m" if "tier_spec tiers k = Some s'" "k \<le> c" "\<forall>j. usable_tier tiers c j \<longrightarrow> j \<le> k" for k s'
      using that tier(2,3) by (metis option.distinct(1) order_antisym usable_tier_def)
    then have "resolve_batch_tier (Some tiers) c = Routed spec k \<longleftrightarrow>
      tier_spec tiers k = Some spec \<and> k \<le> c \<and> (\<forall>j. usable_tier tiers c j \<longrightarrow> j \<le> k)" for spec k
      using tier(1-4) unfolding tier(4) by (metis option.inject tier_route.inject usable_tier_def)
    moreover have "resolve_batch_tier (Some tiers) c \<noteq> Default_Tier" by (simp add: tier(4))
    ultimately show ?thesis using tier(2) by blast
  qed
  then show "resolve_batch_tier (Some tiers) c = Routed spec k \<longleftrightarrow>
           tier_spec tiers k = Some spec \<and> k \<le> c \<and> (\<forall>j. usable_tier tiers c j \<longrightarrow> j \<le> k)"
    and "resolve_batch_tier (Some tiers) c = Default_Tier \<longleftrightarrow> tiers \<noteq> [] \<and> (\<nexists>j. usable_tier tiers c j)"
    by blast+
qed

subsection \<open>The resume partition\<close>

lemma reruns_not_preserved: "reruns_task C r \<Longrightarrow> \<not> preserves_task C r"
  by (auto simp: reruns_task_def preserves_task_def has_status_def RESUME_PRESERVED_STATUSES_def)

lemma status_settled: "r = (i, t) \<Longrightarrow> has_status s t \<Longrightarrow> s \<in> {''done'', ''skipped'', ''blocked''} \<Longrightarrow>
   reruns_task C r \<or> preserves_task C r"
  by (auto simp: reruns_task_def preserves_task_def RESUME_PRESERVED_STATUSES_def
      is_contradictory_done_budget_row_def has_status_def)

lemma rd_sets:
  "set (rd_rerun (resolve_partial_failure_resume tasks completed a b)) =
     fst ` {r \<in> set (identified_tasks tasks). reruns_task (set completed) r}"
  "set (rd_preserved (resolve_partial_failure_resume tasks completed a b)) =
     fst ` {r \<in> set (identified_tasks tasks). preserves_task (set completed) r}"
  by (auto simp: resolve_partial_failure_resume_def Let_def)

text \<open>C40. With distinct task ids no task is both rerun and preserved, every done, skipped or blocked task
  is one of the two, and a done task with evidence is always preserved.
\<close>

theorem resume_partitions_tasks:
  assumes "distinct (map fst (identified_tasks tasks))"
  shows "set (rd_rerun (resolve_partial_failure_resume tasks completed a b)) \<inter>
         set (rd_preserved (resolve_partial_failure_resume tasks completed a b)) = {} \<and>
    ((i, t) \<in> set (identified_tasks tasks) \<and> has_status s t \<and> s \<in> {''done'', ''skipped'', ''blocked''} \<longrightarrow>
         i \<in> set (rd_rerun (resolve_partial_failure_resume tasks completed a b)) \<union>
             set (rd_preserved (resolve_partial_failure_resume tasks completed a b))) \<and>
    ((i, t) \<in> set (identified_tasks tasks) \<and> has_status ''done'' t \<and> has_evidence t \<longrightarrow>
         i \<in> set (rd_preserved (resolve_partial_failure_resume tasks completed a b)))"
proof (intro conjI)
  show "set (rd_rerun (resolve_partial_failure_resume tasks completed a b)) \<inter>
         set (rd_preserved (resolve_partial_failure_resume tasks completed a b)) = {}"
    using assms reruns_not_preserved by (auto simp: rd_sets dest: eq_key_imp_eq_value)
  have "i \<in> set (rd_rerun (resolve_partial_failure_resume tasks completed a b)) \<union>
             set (rd_preserved (resolve_partial_failure_resume tasks completed a b))"
    if "(i, t) \<in> set (identified_tasks tasks)" "has_status s t" "s \<in> {''done'', ''skipped'', ''blocked''}"
    using status_settled [OF refl that(2,3)] that(1) by (force simp: rd_sets)
  then show "(i, t) \<in> set (identified_tasks tasks) \<and> has_status s t \<and> s \<in> {''done'', ''skipped'', ''blocked''} \<longrightarrow>
         i \<in> set (rd_rerun (resolve_partial_failure_resume tasks completed a b)) \<union>
             set (rd_preserved (resolve_partial_failure_resume tasks completed a b))"
    by blast
  have "i \<in> set (rd_preserved (resolve_partial_failure_resume tasks completed a b))"
    if "(i, t) \<in> set (identified_tasks tasks)" "has_status ''done'' t" "has_evidence t"
  proof -
    have "preserves_task (set completed) (i, t)"
      using that(2,3) by (simp add: preserves_task_def is_contradictory_done_budget_row_def RESUME_PRESERVED_STATUSES_def)
    with that(1) show ?thesis by (force simp: rd_sets)
  qed
  then show "(i, t) \<in> set (identified_tasks tasks) \<and> has_status ''done'' t \<and> has_evidence t \<longrightarrow>
         i \<in> set (rd_preserved (resolve_partial_failure_resume tasks completed a b))"
    by blast
qed

subsection \<open>Properties of entry and of the end\<close>

text \<open>The lifecycle offers execute exactly in the admitted entry state finalized, and the handler
  admits exactly the states finalized, blocked and failed, and done with a rerun cursor.
\<close>

theorem entry_route_agrees_with_lifecycle:
  "(''execute'' \<in> set (workflow_next state) \<longleftrightarrow>
     enforce_entry_route state = Inr () \<and> dget state ''current_state'' JNull = JStr ''finalized'') \<and>
    (enforce_entry_route state = Inr () \<longleftrightarrow>
     dget state ''current_state'' JNull \<in> {JStr ''finalized'', JStr ''blocked'', JStr ''failed''}
     \<or> dget state ''current_state'' JNull = JStr ''done'' \<and>
       (\<exists>cursor. dget state ''resume_cursor'' JNull = JObj cursor \<and> dget cursor ''phase'' JNull = JStr ''execute'' \<and>
          dget cursor ''retry_strategy'' JNull = JStr ''rerun_phase''))"
proof (intro conjI)
  have stored: "map_of state ''current_state'' = Some (JStr s) \<longleftrightarrow> dget state ''current_state'' JNull = JStr s" for s
    by (auto simp: dget_def split: option.splits)
  have cursor: "rerun_execute_cursor state \<longleftrightarrow>
      (\<exists>cursor. dget state ''resume_cursor'' JNull = JObj cursor \<and> dget cursor ''phase'' JNull = JStr ''execute'' \<and>
          dget cursor ''retry_strategy'' JNull = JStr ''rerun_phase'')"
    by (simp add: rerun_execute_cursor_def split: json.split)
  have entry: "enforce_entry_route state = Inr () \<longleftrightarrow>
      dget state ''current_state'' JNull \<in> JStr ` set DEFAULT_ENTRY_STATES
      \<or> dget state ''current_state'' JNull = JStr ''done'' \<and> rerun_execute_cursor state"
    by (auto simp: enforce_entry_route_ok stored entry_valid_iff)
  show "enforce_entry_route state = Inr () \<longleftrightarrow>
     dget state ''current_state'' JNull \<in> {JStr ''finalized'', JStr ''blocked'', JStr ''failed''}
     \<or> dget state ''current_state'' JNull = JStr ''done'' \<and>
       (\<exists>cursor. dget state ''resume_cursor'' JNull = JObj cursor \<and> dget cursor ''phase'' JNull = JStr ''execute'' \<and>
          dget cursor ''retry_strategy'' JNull = JStr ''rerun_phase'')"
    unfolding entry cursor by (simp add: DEFAULT_ENTRY_STATES_def)
  show "''execute'' \<in> set (workflow_next state) \<longleftrightarrow>
     enforce_entry_route state = Inr () \<and> dget state ''current_state'' JNull = JStr ''finalized''"
    unfolding entry execute_offered plan_at_def by (auto simp: DEFAULT_ENTRY_STATES_def)
qed

theorem no_review_end_outcome:
  "no_review_end deferred criteria stored with_feedback executed =
     (if with_feedback \<or> \<not> executed \<or> normalize_robustness stored \<notin> {''light'', ''bare''} then None
      else if normalize_robustness stored = ''light'' \<and> has_deferred_must deferred criteria
        then Some Terminate_Awaiting_Human
      else Some Terminate_Done)"
  using normalize_robustness_range [of stored]
  by (simp add: no_review_end_def Let_def includes_review includes_feedback evaluate_no_review_terminal_def)

subsection \<open>Satisfaction\<close>

lemma explicit_terminal_status_None: "explicit_terminal_status refs = None \<longleftrightarrow>
   (\<forall>r \<in> set refs. er_status r \<noteq> Ev_Waived \<and> er_status r \<noteq> Ev_Not_Applicable)"
  by (auto simp: explicit_terminal_status_def list_ex_iff)

lemma explicit_terminal_status_range: "explicit_terminal_status refs = Some s \<Longrightarrow> s \<in> {Ev_Waived, Ev_Not_Applicable}"
  by (auto simp: explicit_terminal_status_def split: if_splits)

lemma stale_cases: "x \<in> {Head_Mismatch, Code_Hash_Mismatch} \<or> x \<in> {Missing_Head, Missing_Code_Hash}"
  by (cases x) auto

lemma status_satisfied_iff: "satisfaction_status refs missing stale = Ev_Satisfied \<longleftrightarrow>
   refs \<noteq> [] \<and> missing = [] \<and> stale = [] \<and> (\<forall>r \<in> set refs. er_status r = Ev_Satisfied)"
proof (cases "explicit_terminal_status refs")
  case None
  have "(\<forall>r \<in> set refs. er_status r = Ev_Satisfied) \<longleftrightarrow>
      \<not> list_ex (\<lambda>r. er_status r = Ev_Unsatisfied) refs \<and> \<not> list_ex (\<lambda>r. er_status r = Ev_Unknown) refs"
    using None evidence_status.exhaust
    by (auto simp: explicit_terminal_status_None list_ex_iff) (metis evidence_status.exhaust)
  then show ?thesis
    by (auto simp: satisfaction_status_def None)
next
  case (Some s)
  then obtain r where "r \<in> set refs" "er_status r \<noteq> Ev_Satisfied"
    by (auto simp: explicit_terminal_status_def list_ex_iff split: if_splits)
  with Some show ?thesis
    using explicit_terminal_status_range [OF Some] by (auto simp: satisfaction_status_def)
qed

definition fresh_refs ::
  "(string \<Rightarrow> string \<Rightarrow> bool) \<Rightarrow> string option \<Rightarrow> string option \<Rightarrow> execution_window option \<Rightarrow>
   evidence_ref list \<Rightarrow> evidence_ref list" where
  "fresh_refs anc head code_hash window refs =
     filter (\<lambda>r. stale_evidence anc (resolved_head head window) (given_text code_hash) window r = []) refs"

lemma prefer_fresh: "prefer_fresh_linked_refs st refs =
   (if filter (\<lambda>r. st r = []) refs = [] then refs else filter (\<lambda>r. st r = []) refs)"
  by (simp add: prefer_fresh_linked_refs_def Let_def)

lemma missing_none_iff: "missing_declared_outputs outputs refs = [] \<longleftrightarrow>
   list_all (\<lambda>out. list_ex (\<lambda>r. ref_matches_output r out) refs) outputs"
  by (auto simp: missing_declared_outputs_def filter_empty_conv list_all_iff)

text \<open>C39. A task is satisfied exactly when it has fresh linked evidence, all of it satisfied, that matches
  every output the task declares.
\<close>

theorem task_satisfied_iff_corroborated:
  "is_satisfied (is_task_satisfied anc head code_hash window task refs) \<longleftrightarrow>
     (let fresh = fresh_refs anc head code_hash window (linked_refs task refs)
      in fresh \<noteq> [] \<and> list_all (\<lambda>r. er_status r = Ev_Satisfied) fresh
         \<and> list_all (\<lambda>out. list_ex (\<lambda>r. ref_matches_output r out) fresh) (declared_outputs task))"
proof -
  define fresh where "fresh = fresh_refs anc head code_hash window (linked_refs task refs)"
  let ?st = "stale_evidence anc (resolved_head head window) (given_text code_hash) window"
  let ?refs = "linked_refs task refs"
  have fresh: "fresh = filter (\<lambda>r. ?st r = []) ?refs" by (simp add: fresh_def fresh_refs_def)
  have sat: "is_satisfied (is_task_satisfied anc head code_hash window task refs) \<longleftrightarrow>
      (let eff = prefer_fresh_linked_refs ?st ?refs
       in eff \<noteq> [] \<and> missing_declared_outputs (declared_outputs task) eff = []
          \<and> concat (map ?st eff) = [] \<and> (\<forall>r \<in> set eff. er_status r = Ev_Satisfied))"
    by (simp add: is_satisfied_def is_task_satisfied_def Let_def status_satisfied_iff)
  show ?thesis
  proof (cases "fresh = []")
    case True
    then have "concat (map ?st ?refs) = [] \<Longrightarrow> ?refs = []"
      unfolding fresh by (auto simp: filter_empty_conv)
    then show ?thesis
      using True unfolding sat fresh_def [symmetric] by (auto simp: fresh prefer_fresh Let_def)
  next
    case False
    then have "prefer_fresh_linked_refs ?st ?refs = fresh" "concat (map ?st fresh) = []"
      by (auto simp: prefer_fresh fresh)
    with False show ?thesis
      unfolding sat fresh_def [symmetric] by (auto simp: Let_def missing_none_iff list_all_iff)
  qed
qed

text \<open>
  A fresh reference that names no task is linked to every task that declares no output, whatever the
  task's id.
\<close>

lemma unlinked_evidence_corroborates_every_task:
  assumes "evidence_link_values r = []" "er_status r = Ev_Satisfied" "declared_outputs task = []"
    "stale_evidence anc (resolved_head head window) (given_text code_hash) window r = []"
  shows "is_satisfied (is_task_satisfied anc head code_hash window task [r])"
proof -
  have "linked_refs task [r] = [r]"
    by (simp add: linked_refs_def evidence_links_task_def assms(1,3))
  then show ?thesis
    using assms by (simp add: is_satisfied_def is_task_satisfied_def status_satisfied_iff prefer_fresh
        missing_declared_outputs_def Let_def)
qed

subsection \<open>The properties at concrete inputs\<close>

theorem resume_partitions_tasks_witness:
  "''T1'' \<in> set (rd_preserved (resolve_partial_failure_resume
     [JObj [(''id'', JStr ''T1''), (''status'', JStr ''done''), (''files_changed'', JArr [JStr ''a.py''])],
      JObj [(''id'', JStr ''T2''), (''status'', JStr ''blocked'')]] [] [] []))"
  by (rule resume_partitions_tasks [where t = "[(''id'', JStr ''T1''), (''status'', JStr ''done''), (''files_changed'', JArr [JStr ''a.py''])]", THEN conjunct2, THEN conjunct2, THEN mp])
    (simp_all add: identified_tasks_def map_filter_def dget_def has_status_def has_evidence_def)

theorem batch_runs_on_nearest_tier_witness:
  "resolve_batch_tier (Some [(2, JStr ''small''), (5, JStr ''big'')]) 4 = Routed ''small'' 2"
proof -
  have "\<not> usable_tier [(2, JStr ''small''), (5, JStr ''big'')] 4 j" if "2 < j" for j
    using that by (auto simp: usable_tier_def tier_spec_def split: if_splits)
  then show ?thesis
    using batch_runs_on_nearest_tier(1) [of "[(2, JStr ''small''), (5, JStr ''big'')]" 4 "''small''" 2]
    by (force simp: tier_spec_def nonempty_text_def)
qed

end
