(* ===== verification/Plan_View.thy ===== *)
theory Plan_View
  imports Authority_View Scheduler_Facts Task_Satisfaction
begin

section \<open>The execution view of a plan\<close>

text \<open>
  \<^verbatim>\<open>derive_plan_execution_view\<close> of \<^verbatim>\<open>megaplan/authority/views.py\<close>: the reduced run authority bound to the
  tasks of a plan. A task counts as accepted when a decision of the reduced view accepts a completion
  claim on it and the evidence policy agrees; the accepted tasks whose dependencies are accepted too
  are complete, and the scheduler's first batch of the others is the next wave. \<^verbatim>\<open>AuthorityDecision\<close> is
  that of \<^verbatim>\<open>orchestration/authority_readers.py\<close>. \<open>sha\<close> is the hexadecimal SHA-256 of a text.
\<close>

subsection \<open>Verdicts of the evidence policy\<close>

record authority_verdict =
  av_task_id :: string
  av_status :: evidence_status
  av_satisfied :: bool

definition authoritative :: "authority_verdict \<Rightarrow> bool" where
  "authoritative v \<longleftrightarrow> av_status v \<in> {Ev_Satisfied, Ev_Waived, Ev_Not_Applicable}"

definition verdict_from_result :: "string \<Rightarrow> satisfaction \<Rightarrow> authority_verdict" where
  "verdict_from_result i result =
     \<lparr>av_task_id = i, av_status = sa_status result, av_satisfied = is_satisfied result\<rparr>"

definition verdict_unknown :: "string \<Rightarrow> authority_verdict" where
  "verdict_unknown i = \<lparr>av_task_id = i, av_status = Ev_Unknown, av_satisfied = False\<rparr>"

definition decision_authoritative :: "authority_verdict option \<Rightarrow> bool" where
  "decision_authoritative d = (case d of None \<Rightarrow> False | Some v \<Rightarrow> authoritative v)"

subsection \<open>Labels and diagnostics\<close>

datatype view_error = View_Type_Error | View_Value_Error | View_Key_Error

datatype legacy_label =
  LegacyTaskLabel (lb_task_id: string) (lb_label: string) (lb_source: string) (lb_role: string)

definition mk_legacy_label :: "string \<Rightarrow> string \<Rightarrow> string \<Rightarrow> string \<Rightarrow> view_error + legacy_label" where
  "mk_legacy_label task_id label source role =
     res_bind (ensure (role \<in> {''observation'', ''projection''}) View_Value_Error) (\<lambda>_.
     res_bind (ensure (task_id \<noteq> [] \<and> label \<noteq> [] \<and> source \<noteq> []) View_Value_Error) (\<lambda>_.
     Inr (LegacyTaskLabel task_id label source role)))"

definition label_key :: "legacy_label \<Rightarrow> string \<times> string \<times> string \<times> string" where
  "label_key l = (lb_task_id l, lb_label l, lb_source l, lb_role l)"

lemma label_key_inject [simp]: "label_key a = label_key b \<longleftrightarrow> a = b"
  by (cases a; cases b) (simp add: label_key_def)

instantiation legacy_label :: linorder
begin

definition less_eq_legacy_label :: "legacy_label \<Rightarrow> legacy_label \<Rightarrow> bool" where
  "less_eq_legacy_label a b \<longleftrightarrow> label_key a \<le> label_key b"

definition less_legacy_label :: "legacy_label \<Rightarrow> legacy_label \<Rightarrow> bool" where
  "less_legacy_label a b \<longleftrightarrow> label_key a < label_key b"

instance
proof
  fix a b c :: legacy_label
  note defs = less_eq_legacy_label_def less_legacy_label_def
  show "(a < b) = (a \<le> b \<and> \<not> b \<le> a)" unfolding defs by (rule less_le_not_le)
  show "a \<le> a" unfolding defs by simp
  show "a \<le> b \<Longrightarrow> b \<le> c \<Longrightarrow> a \<le> c" unfolding defs by (rule order_trans)
  show "a \<le> b \<Longrightarrow> b \<le> a \<Longrightarrow> a = b" unfolding defs using antisym label_key_inject by blast
  show "a \<le> b \<or> b \<le> a" unfolding defs by (rule linear)
qed

end

definition label_to_dict :: "legacy_label \<Rightarrow> json" where
  "label_to_dict l = JObj
     [(''task_id'', JStr (lb_task_id l)), (''label'', JStr (lb_label l)),
      (''source'', JStr (lb_source l)), (''role'', JStr (lb_role l))]"

datatype plan_diagnostic =
  PlanDiagnostic (pd_code: string) (pd_subject_id: string) (pd_reason: string) (pd_source: string)

definition plan_diagnostic_key :: "plan_diagnostic \<Rightarrow> string \<times> string \<times> string \<times> string" where
  "plan_diagnostic_key d = (pd_code d, pd_subject_id d, pd_reason d, pd_source d)"

lemma plan_diagnostic_key_inject [simp]: "plan_diagnostic_key a = plan_diagnostic_key b \<longleftrightarrow> a = b"
  by (cases a; cases b) (simp add: plan_diagnostic_key_def)

instantiation plan_diagnostic :: linorder
begin

definition less_eq_plan_diagnostic :: "plan_diagnostic \<Rightarrow> plan_diagnostic \<Rightarrow> bool" where
  "less_eq_plan_diagnostic a b \<longleftrightarrow> plan_diagnostic_key a \<le> plan_diagnostic_key b"

definition less_plan_diagnostic :: "plan_diagnostic \<Rightarrow> plan_diagnostic \<Rightarrow> bool" where
  "less_plan_diagnostic a b \<longleftrightarrow> plan_diagnostic_key a < plan_diagnostic_key b"

instance
proof
  fix a b c :: plan_diagnostic
  note defs = less_eq_plan_diagnostic_def less_plan_diagnostic_def
  show "(a < b) = (a \<le> b \<and> \<not> b \<le> a)" unfolding defs by (rule less_le_not_le)
  show "a \<le> a" unfolding defs by simp
  show "a \<le> b \<Longrightarrow> b \<le> c \<Longrightarrow> a \<le> c" unfolding defs by (rule order_trans)
  show "a \<le> b \<Longrightarrow> b \<le> a \<Longrightarrow> a = b" unfolding defs using antisym plan_diagnostic_key_inject by blast
  show "a \<le> b \<or> b \<le> a" unfolding defs by (rule linear)
qed

end

definition plan_diagnostic_to_dict :: "plan_diagnostic \<Rightarrow> json" where
  "plan_diagnostic_to_dict d = JObj
     [(''code'', JStr (pd_code d)), (''subject_id'', JStr (pd_subject_id d)),
      (''reason'', JStr (pd_reason d)), (''source'', JStr (pd_source d))]"

definition LEGACY_TERMINAL :: "string list" where
  "LEGACY_TERMINAL = [''done'', ''completed'', ''skipped'', ''waived'', ''not_applicable'']"

definition TASK_COMPLETION_CLAIM :: string where
  "TASK_COMPLETION_CLAIM = ''megaplan.task.completion''"

subsection \<open>Tasks\<close>

text \<open>A plan is a mapping with \<^verbatim>\<open>tasks\<close>, or the tasks themselves.\<close>

definition task_records :: "json \<Rightarrow> view_error + (string \<times> json) list list" where
  "task_records plan =
     (let records = (case plan of JObj d \<Rightarrow> dget d ''tasks'' (JArr []) | v \<Rightarrow> v)
      in case iter_values records of
           Inl _ \<Rightarrow> Inl View_Type_Error
         | Inr items \<Rightarrow>
             if list_all (\<lambda>v. as_dict v \<noteq> None) items then Inr (List.map_filter as_dict items)
             else Inl View_Value_Error)"

definition task_dependencies :: "(string \<times> json) list \<Rightarrow> string list" where
  "task_dependencies task =
     (case dget task ''depends_on'' (JArr []) of
        JArr ds \<Rightarrow> sorted_set (filter (\<lambda>s. s \<noteq> []) (map py_str ds))
      | _ \<Rightarrow> [])"

type_synonym task_index = "(string \<times> (string \<times> json) list) list"

abbreviation task_ids :: "task_index \<Rightarrow> string list" where
  "task_ids index \<equiv> map fst index"

definition record_id :: "(string \<times> json) list \<Rightarrow> string" where
  "record_id task = strip (py_str (dget task ''id'' (JStr [])))"

text \<open>The label of a record that has a status.\<close>

definition status_label :: "string \<Rightarrow> string \<Rightarrow> (string \<times> json) list \<Rightarrow> view_error + legacy_label list" where
  "status_label plan_source i task =
     (case dget task ''status'' JNull of
        JStr s \<Rightarrow>
          if s = [] then Inr []
          else res_bind (mk_legacy_label i s plan_source ''projection'') (\<lambda>l. Inr [l])
      | _ \<Rightarrow> Inr [])"

fun index_tasks ::
  "string \<Rightarrow> (string \<times> json) list list \<Rightarrow> task_index \<Rightarrow> legacy_label list \<Rightarrow>
   view_error + task_index \<times> legacy_label list" where
  "index_tasks plan_source [] index labels = Inr (index, labels)"
| "index_tasks plan_source (t # ts) index labels =
     res_bind (ensure (record_id t \<noteq> [] \<and> record_id t \<notin> set (task_ids index)) View_Value_Error) (\<lambda>_.
     res_bind (status_label plan_source (record_id t) t) (\<lambda>new.
     index_tasks plan_source ts (index @ [(record_id t, t)]) (labels @ new)))"

definition dependencies :: "task_index \<Rightarrow> string \<Rightarrow> string list" where
  "dependencies index i = (case map_of index i of Some t \<Rightarrow> task_dependencies t | None \<Rightarrow> [])"

definition labels_of :: "legacy_label list \<Rightarrow> string \<Rightarrow> legacy_label list" where
  "labels_of labels i = filter (\<lambda>l. lb_task_id l = i) (sorted_set labels)"

subsection \<open>Accepted tasks\<close>

definition completion_claims :: "run_authority_view \<Rightarrow> task_index \<Rightarrow> authority_claim list" where
  "completion_claims authority index =
     filter (\<lambda>c. cl_claim_type c = TASK_COMPLETION_CLAIM \<and> cl_subject_id c \<in> set (task_ids index))
       (vw_claims authority)"

text \<open>The completion claim a decision settles.\<close>

definition settled_claim ::
  "run_authority_view \<Rightarrow> task_index \<Rightarrow> authority_decision \<Rightarrow> authority_claim option" where
  "settled_claim authority index d =
     (case by_id cl_claim_id (vw_claims authority) (de_claim_id d) of
        Some c \<Rightarrow>
          if cl_claim_id c \<in> cl_claim_id ` set (completion_claims authority index) then Some c else None
      | None \<Rightarrow> None)"

definition accepts_task ::
  "run_authority_view \<Rightarrow> task_index \<Rightarrow> (string \<rightharpoonup> authority_verdict) \<Rightarrow> authority_decision \<Rightarrow> string option" where
  "accepts_task authority index policy d =
     (case settled_claim authority index d of
        None \<Rightarrow> None
      | Some c \<Rightarrow>
          if de_outcome d = Accepted \<and> decision_authoritative (policy (cl_subject_id c))
          then Some (cl_subject_id c) else None)"

definition accepting_decisions ::
  "run_authority_view \<Rightarrow> task_index \<Rightarrow> (string \<rightharpoonup> authority_verdict) \<Rightarrow> string \<Rightarrow> authority_decision list" where
  "accepting_decisions authority index policy i =
     filter (\<lambda>d. accepts_task authority index policy d = Some i) (vw_decisions authority)"

record accepted_attempt =
  aa_task_id :: string
  aa_attempt_id :: string
  aa_claim_id :: string
  aa_decision_id :: string
  aa_grant_id :: string
  aa_evidence_ids :: "string list"
  aa_source_paths :: "string list"

definition accepted_attempt_to_dict :: "accepted_attempt \<Rightarrow> json" where
  "accepted_attempt_to_dict a = JObj
     [(''task_id'', JStr (aa_task_id a)), (''attempt_id'', JStr (aa_attempt_id a)),
      (''claim_id'', JStr (aa_claim_id a)), (''decision_id'', JStr (aa_decision_id a)),
      (''grant_id'', JStr (aa_grant_id a)), (''evidence_ids'', JArr (map JStr (aa_evidence_ids a))),
      (''source_paths'', JArr (map JStr (aa_source_paths a)))]"

definition evidence_sources :: "run_authority_view \<Rightarrow> authority_decision \<Rightarrow> string list" where
  "evidence_sources authority d =
     sort (map ev_source (List.map_filter (by_id ev_evidence_id (vw_evidence authority)) (de_evidence_ids d)))"

definition attempt_of ::
  "run_authority_view \<Rightarrow> string \<Rightarrow> authority_decision \<Rightarrow> accepted_attempt option" where
  "attempt_of authority i d =
     map_option (\<lambda>a. \<lparr>aa_task_id = i, aa_attempt_id = at_attempt_id a, aa_claim_id = de_claim_id d,
         aa_decision_id = de_decision_id d, aa_grant_id = de_grant_id d,
         aa_evidence_ids = sort (de_evidence_ids d), aa_source_paths = evidence_sources authority d\<rparr>)
       (by_id at_attempt_id (vw_attempts authority) (de_attempt_id d))"

definition accepted_attempts ::
  "run_authority_view \<Rightarrow> task_index \<Rightarrow> (string \<rightharpoonup> authority_verdict) \<Rightarrow> string \<Rightarrow> accepted_attempt list" where
  "accepted_attempts authority index policy i =
     List.map_filter (attempt_of authority i) (accepting_decisions authority index policy i)"

definition unresolved_claims :: "run_authority_view \<Rightarrow> task_index \<Rightarrow> string list" where
  "unresolved_claims authority index =
     (let resolved = map cl_claim_id (List.map_filter (settled_claim authority index) (vw_decisions authority))
      in sorted_set (filter (\<lambda>i. i \<notin> set resolved) (map cl_claim_id (completion_claims authority index))))"

subsection \<open>Dependency closure and the next wave\<close>

text \<open>One pass of the loop over the accepted tasks that are not closed yet, in order; a task closed in
  the pass counts for the later ones.\<close>

definition closes :: "task_index \<Rightarrow> string list \<Rightarrow> string \<Rightarrow> bool" where
  "closes index closed i \<longleftrightarrow>
     list_all (\<lambda>d. d \<in> set closed) (filter (\<lambda>d. d \<in> set (task_ids index)) (dependencies index i)) \<and>
     list_all (\<lambda>d. d \<in> set (task_ids index)) (dependencies index i)"

definition close_pass :: "task_index \<Rightarrow> string list \<Rightarrow> string list \<Rightarrow> string list" where
  "close_pass index accepted closed =
     foldl (\<lambda>c i. if closes index c i then c @ [i] else c) closed
       (sorted_set (filter (\<lambda>i. i \<notin> set closed) accepted))"

lemma close_pass_extends:
  "\<exists>new. foldl (\<lambda>c i. if closes index c i then c @ [i] else c) closed is = closed @ new \<and> set new \<subseteq> set is"
proof (induction "is" arbitrary: closed)
  case (Cons i "is")
  let ?c = "if closes index closed i then closed @ [i] else closed"
  obtain new where "foldl (\<lambda>c i. if closes index c i then c @ [i] else c) ?c is = ?c @ new" "set new \<subseteq> set is"
    using Cons.IH [of ?c] by blast
  then show ?case by (intro exI [of _ "(if closes index closed i then [i] else []) @ new"]) auto
qed simp

function close_loop :: "task_index \<Rightarrow> string list \<Rightarrow> string list \<Rightarrow> string list" where
  "close_loop index accepted closed =
     (let closed' = close_pass index accepted closed
      in if closed' = closed then closed else close_loop index accepted closed')"
  by pat_completeness auto
termination
proof (relation "measure (\<lambda>(index, accepted, closed). card (set accepted - set closed))")
  fix index accepted closed closed'
  assume c: "closed' = close_pass index accepted closed" "closed' \<noteq> closed"
  then obtain new where new: "closed' = closed @ new" "set new \<subseteq> set accepted - set closed"
    using close_pass_extends [of index closed "sorted_set (filter (\<lambda>i. i \<notin> set closed) accepted)"]
    by (auto simp: close_pass_def)
  with c(2) have "set accepted - set closed' \<subset> set accepted - set closed" by (cases new) auto
  then show "((index, accepted, closed'), index, accepted, closed)
      \<in> measure (\<lambda>(index, accepted, closed). card (set accepted - set closed))"
    by (simp add: psubset_card_mono)
qed simp

declare close_loop.simps [simp del]

definition dependency_closed_ids :: "task_index \<Rightarrow> string list \<Rightarrow> string list" where
  "dependency_closed_ids index accepted = close_loop index accepted []"

definition dependency_unresolved_ids :: "task_index \<Rightarrow> string list \<Rightarrow> string \<Rightarrow> string list" where
  "dependency_unresolved_ids index closed i = filter (\<lambda>d. d \<notin> set closed) (dependencies index i)"

definition next_ready_wave :: "task_index \<Rightarrow> string list \<Rightarrow> int \<Rightarrow> sched_error + string list" where
  "next_ready_wave index closed max_size =
     res_bind (schedule_batches
       (map (\<lambda>i. \<lparr>tk_id = i, tk_depends_on = Some (dependencies index i)\<rparr>) (sort (task_ids index)))
       max_size closed 5) (\<lambda>batches.
     Inr (case batches of [] \<Rightarrow> [] | b # _ \<Rightarrow> b))"

text \<open>The message of the \<^verbatim>\<open>ValueError\<close> the scheduler raises.\<close>

fun sched_error_text :: "sched_error \<Rightarrow> string" where
  "sched_error_text (UnknownDependency d t) =
     ''Unknown dependency ID '' @ [CHR 0x27] @ d @ [CHR 0x27] @ '' for task '' @ [CHR 0x27] @ t @ [CHR 0x27]"
| "sched_error_text (CyclicDependencies ts) =
     ''Cyclic dependency graph detected among tasks: '' @ join '', '' ts"
| "sched_error_text RangeError = ''range() arg 3 must not be zero''"

subsection \<open>Diagnostics\<close>

text \<open>\<^verbatim>\<open>",".join(sorted({item.source for item in labels})) or plan_source\<close>, and without the fallback.\<close>

definition label_sources :: "legacy_label list \<Rightarrow> string \<Rightarrow> string" where
  "label_sources labels i = join '','' (sorted_set (map lb_source (labels_of labels i)))"

definition sources_or :: "string \<Rightarrow> legacy_label list \<Rightarrow> string \<Rightarrow> string" where
  "sources_or plan_source labels i =
     (let s = label_sources labels i in if s = [] then plan_source else s)"

definition unknown_label_diagnostics :: "task_index \<Rightarrow> legacy_label list \<Rightarrow> plan_diagnostic list" where
  "unknown_label_diagnostics index labels =
     map (\<lambda>l. PlanDiagnostic ''unknown_legacy_subject'' (lb_task_id l)
            ''legacy label references a task outside the current plan revision'' (lb_source l))
       (filter (\<lambda>l. lb_task_id l \<notin> set (task_ids index)) (sorted_set labels))"

definition decision_source :: "authority_decision \<Rightarrow> string" where
  "decision_source d = ''contract://decision/'' @ de_decision_id d"

text \<open>What is reported about one decision: an accepted one without its attempt, or one the policy does
  not share.\<close>

definition decision_diagnostics ::
  "run_authority_view \<Rightarrow> task_index \<Rightarrow> (string \<rightharpoonup> authority_verdict) \<Rightarrow> authority_decision \<Rightarrow> plan_diagnostic list" where
  "decision_diagnostics authority index policy d =
     (case settled_claim authority index d of
        None \<Rightarrow> []
      | Some c \<Rightarrow>
          if de_outcome d \<noteq> Accepted then []
          else if decision_authoritative (policy (cl_subject_id c)) then
            (if by_id at_attempt_id (vw_attempts authority) (de_attempt_id d) = None
             then [PlanDiagnostic ''accepted_decision_missing_attempt'' (cl_subject_id c)
               ''accepted task decision does not reference a retained attempt'' (decision_source d)]
             else [])
          else [PlanDiagnostic ''kernel_policy_disagreement'' (cl_subject_id c)
            ''kernel accepted the claim but Megaplan evidence policy did not'' (decision_source d)])"

definition dependency_diagnostic ::
  "string \<Rightarrow> string \<Rightarrow> string \<Rightarrow> legacy_label list \<Rightarrow> task_index \<Rightarrow> string list \<Rightarrow> string \<Rightarrow> plan_diagnostic" where
  "dependency_diagnostic code prefix plan_source labels index closed i =
     PlanDiagnostic code i (prefix @ join '', '' (dependency_unresolved_ids index closed i))
       (sources_or plan_source labels i)"

definition unknown_dependency_diagnostics :: "string \<Rightarrow> task_index \<Rightarrow> plan_diagnostic list" where
  "unknown_dependency_diagnostics plan_source index =
     concat (map (\<lambda>i. map (\<lambda>d. PlanDiagnostic ''unknown_dependency'' i
              (''task depends on unknown task '' @ str_repr d) plan_source)
            (filter (\<lambda>d. d \<notin> set (task_ids index)) (dependencies index i)))
       (sort (task_ids index)))"

definition has_terminal_label :: "legacy_label list \<Rightarrow> string \<Rightarrow> bool" where
  "has_terminal_label labels i = list_ex (\<lambda>l. lb_label l \<in> set LEGACY_TERMINAL) (labels_of labels i)"

definition label_diagnostics :: "legacy_label list \<Rightarrow> string list \<Rightarrow> string \<Rightarrow> plan_diagnostic list" where
  "label_diagnostics labels accepted i =
     (if has_terminal_label labels i \<and> i \<notin> set accepted
      then map (\<lambda>l. PlanDiagnostic ''legacy_terminal_without_authority'' i
              ''legacy terminal label has no evidence-backed accepted kernel decision'' (lb_source l))
            (filter (\<lambda>l. lb_label l \<in> set LEGACY_TERMINAL) (labels_of labels i))
      else []) @
     (if i \<in> set accepted \<and> labels_of labels i \<noteq> [] \<and> \<not> has_terminal_label labels i
      then [PlanDiagnostic ''legacy_projection_stale'' i
        ''accepted authority contradicts the non-terminal legacy projection'' (label_sources labels i)]
      else [])"

definition authority_diagnostics :: "run_authority_view \<Rightarrow> plan_diagnostic list" where
  "authority_diagnostics authority =
     map (\<lambda>d. PlanDiagnostic (dg_code d) (dg_record_id d) (dg_reason d) (dg_source d)) (vw_diagnostics authority) @
     map (\<lambda>q. PlanDiagnostic ''quarantined_authority_record'' (qu_record_id q) (qu_reason q) (qu_source q))
       (vw_quarantines authority)"

subsection \<open>The view\<close>

record task_state =
  ts_task_id :: string
  ts_depends_on :: "string list"
  ts_accepted :: bool
  ts_dependency_closed :: bool
  ts_authority_status :: string
  ts_accepted_attempt_ids :: "string list"
  ts_accepted_decision_ids :: "string list"
  ts_unresolved_claim_ids :: "string list"
  ts_unresolved_dependency_ids :: "string list"
  ts_legacy_labels :: "legacy_label list"
  ts_source_paths :: "string list"

definition task_state_to_dict :: "task_state \<Rightarrow> json" where
  "task_state_to_dict t = JObj
     [(''task_id'', JStr (ts_task_id t)), (''depends_on'', JArr (map JStr (ts_depends_on t))),
      (''accepted'', JBool (ts_accepted t)), (''dependency_closed'', JBool (ts_dependency_closed t)),
      (''authority_status'', JStr (ts_authority_status t)),
      (''accepted_attempt_ids'', JArr (map JStr (ts_accepted_attempt_ids t))),
      (''accepted_decision_ids'', JArr (map JStr (ts_accepted_decision_ids t))),
      (''unresolved_claim_ids'', JArr (map JStr (ts_unresolved_claim_ids t))),
      (''unresolved_dependency_ids'', JArr (map JStr (ts_unresolved_dependency_ids t))),
      (''legacy_labels'', JArr (map label_to_dict (ts_legacy_labels t))),
      (''source_paths'', JArr (map JStr (ts_source_paths t)))]"

record plan_execution_view =
  pv_schema_version :: int
  pv_run_id :: string
  pv_run_revision :: string
  pv_authority_view_hash :: string
  pv_tasks :: "task_state list"
  pv_accepted_task_ids :: "string list"
  pv_accepted_task_attempts :: "accepted_attempt list"
  pv_closed_task_ids :: "string list"
  pv_next_ready_wave :: "string list"
  pv_unresolved_claim_ids :: "string list"
  pv_quarantine_ids :: "string list"
  pv_diagnostics :: "plan_diagnostic list"
  pv_view_hash :: string

definition plan_view_payload :: "plan_execution_view \<Rightarrow> (string \<times> json) list" where
  "plan_view_payload v =
     [(''schema_version'', JInt (pv_schema_version v)), (''run_id'', JStr (pv_run_id v)),
      (''run_revision'', JStr (pv_run_revision v)),
      (''authority_view_hash'', JStr (pv_authority_view_hash v)),
      (''tasks'', JArr (map task_state_to_dict (pv_tasks v))),
      (''accepted_task_ids'', JArr (map JStr (pv_accepted_task_ids v))),
      (''accepted_task_attempts'', JArr (map accepted_attempt_to_dict (pv_accepted_task_attempts v))),
      (''dependency_closed_completed_task_ids'', JArr (map JStr (pv_closed_task_ids v))),
      (''next_ready_wave'', JArr (map JStr (pv_next_ready_wave v))),
      (''unresolved_claim_ids'', JArr (map JStr (pv_unresolved_claim_ids v))),
      (''quarantine_ids'', JArr (map JStr (pv_quarantine_ids v))),
      (''diagnostics'', JArr (map plan_diagnostic_to_dict (pv_diagnostics v))),
      (''shadow'', JBool True), (''read_only'', JBool True)]"

definition plan_view_to_json :: "plan_execution_view \<Rightarrow> string" where
  "plan_view_to_json v = canonical_json (JObj (plan_view_payload v @ [(''view_hash'', JStr (pv_view_hash v))]))"

definition task_source_paths ::
  "run_authority_view \<Rightarrow> task_index \<Rightarrow> (string \<rightharpoonup> authority_verdict) \<Rightarrow> legacy_label list \<Rightarrow> string \<Rightarrow> string list" where
  "task_source_paths authority index policy labels i =
     sorted_set (concat (map (\<lambda>d. map ev_source
         (filter (\<lambda>e. ev_evidence_id e \<in> set (de_evidence_ids d)) (vw_evidence authority)))
       (accepting_decisions authority index policy i)) @ map lb_source (labels_of labels i))"

definition task_state_of ::
  "run_authority_view \<Rightarrow> task_index \<Rightarrow> (string \<rightharpoonup> authority_verdict) \<Rightarrow> legacy_label list \<Rightarrow> string list \<Rightarrow>
   string \<Rightarrow> task_state" where
  "task_state_of authority index policy labels closed i =
     (let decisions = accepting_decisions authority index policy i; accepted = decisions \<noteq> []
      in \<lparr>ts_task_id = i, ts_depends_on = dependencies index i, ts_accepted = accepted,
          ts_dependency_closed = i \<in> set closed,
          ts_authority_status = (if accepted then ''accepted'' else ''unaccepted''),
          ts_accepted_attempt_ids = sort (map aa_attempt_id (accepted_attempts authority index policy i)),
          ts_accepted_decision_ids = sort (map de_decision_id decisions),
          ts_unresolved_claim_ids = filter (\<lambda>c. map_option cl_subject_id
              (by_id cl_claim_id (completion_claims authority index) c) = Some i) (unresolved_claims authority index),
          ts_unresolved_dependency_ids = dependency_unresolved_ids index closed i,
          ts_legacy_labels = labels_of labels i,
          ts_source_paths = task_source_paths authority index policy labels i\<rparr>)"

definition accepted_ids ::
  "run_authority_view \<Rightarrow> task_index \<Rightarrow> (string \<rightharpoonup> authority_verdict) \<Rightarrow> string list" where
  "accepted_ids authority index policy =
     filter (\<lambda>i. accepting_decisions authority index policy i \<noteq> []) (sort (task_ids index))"

definition view_diagnostics ::
  "string \<Rightarrow> run_authority_view \<Rightarrow> task_index \<Rightarrow> (string \<rightharpoonup> authority_verdict) \<Rightarrow> legacy_label list \<Rightarrow>
   string list \<Rightarrow> sched_error + string list \<Rightarrow> plan_diagnostic list" where
  "view_diagnostics plan_source authority index policy labels closed wave =
     (let accepted = accepted_ids authority index policy;
          ready = (case wave of Inr w \<Rightarrow> w | Inl e \<Rightarrow> [])
      in sorted_set
        (unknown_label_diagnostics index labels @
         concat (map (decision_diagnostics authority index policy) (vw_decisions authority)) @
         map (dependency_diagnostic ''accepted_task_dependency_unresolved''
             ''accepted task attempt is not dependency-closed; unresolved dependencies: ''
             plan_source labels index closed)
           (filter (\<lambda>i. i \<notin> set closed) accepted) @
         unknown_dependency_diagnostics plan_source index @
         (case wave of Inr w \<Rightarrow> []
          | Inl e \<Rightarrow> [PlanDiagnostic ''dag_policy_unresolved'' ''plan'' (sched_error_text e) plan_source]) @
         map (dependency_diagnostic ''unresolved_dependency''
             ''task dependencies are not dependency-closed: '' plan_source labels index closed)
           (filter (\<lambda>i. i \<notin> set closed \<and> i \<notin> set ready \<and> dependency_unresolved_ids index closed i \<noteq> [])
             (sort (task_ids index))) @
         concat (map (label_diagnostics labels accepted) (sort (task_ids index))) @
         authority_diagnostics authority))"

text \<open>The view of indexed tasks.\<close>

definition view_of_index ::
  "(string \<Rightarrow> string) \<Rightarrow> run_authority_view \<Rightarrow> task_index \<Rightarrow> (string \<rightharpoonup> authority_verdict) \<Rightarrow> legacy_label list \<Rightarrow>
   string \<Rightarrow> int \<Rightarrow> plan_execution_view" where
  "view_of_index sha authority index policy labels plan_source max_size =
     (let accepted = accepted_ids authority index policy;
          closed = dependency_closed_ids index accepted;
          wave = next_ready_wave index closed max_size;
          view =
            \<lparr>pv_schema_version = 1, pv_run_id = vw_run_id authority, pv_run_revision = vw_run_revision authority,
             pv_authority_view_hash = vw_view_hash authority,
             pv_tasks = map (task_state_of authority index policy labels closed) (sort (task_ids index)),
             pv_accepted_task_ids = accepted,
             pv_accepted_task_attempts = sort_key (\<lambda>a. (aa_task_id a, aa_attempt_id a, aa_decision_id a))
               (concat (map (accepted_attempts authority index policy) (task_ids index))),
             pv_closed_task_ids = sort closed,
             pv_next_ready_wave = (case wave of Inr w \<Rightarrow> w | Inl e \<Rightarrow> []),
             pv_unresolved_claim_ids = unresolved_claims authority index,
             pv_quarantine_ids = sort (map qu_quarantine_id (vw_quarantines authority)),
             pv_diagnostics = view_diagnostics plan_source authority index policy labels closed wave,
             pv_view_hash = ''pending''\<rparr>
      in view\<lparr>pv_view_hash := sha (canonical_json (JObj (plan_view_payload view)))\<rparr>)"

text \<open>A decision that accepts a claim on a subject outside the plan raises \<^verbatim>\<open>KeyError\<close>; it needs two
  claims of one id.\<close>

definition derive_plan_execution_view ::
  "(string \<Rightarrow> string) \<Rightarrow> run_authority_view \<Rightarrow> json \<Rightarrow> (string \<rightharpoonup> authority_verdict) \<Rightarrow> legacy_label list \<Rightarrow>
   string \<Rightarrow> int \<Rightarrow> view_error + plan_execution_view" where
  "derive_plan_execution_view sha authority plan policy legacy plan_source max_size =
     res_bind (task_records plan) (\<lambda>records.
     res_bind (index_tasks plan_source records [] legacy) (\<lambda>(index, labels).
     res_bind (ensure (list_all (\<lambda>d. case accepts_task authority index policy d of
           Some i \<Rightarrow> i \<in> set (task_ids index) | None \<Rightarrow> True) (vw_decisions authority)) View_Key_Error) (\<lambda>_.
     Inr (view_of_index sha authority index policy labels plan_source max_size))))"

end
