(* ===== verification/Plan_View_Facts.thy ===== *)
theory Plan_View_Facts
  imports Plan_View
begin

section \<open>What the execution view of a plan guarantees\<close>

text \<open>
  Which tasks \<^verbatim>\<open>derive_plan_execution_view\<close> calls accepted and complete, and which it offers next: the
  loop computes the least set closed under dependencies, acceptance rests on validated records of the
  reduced authority, labels decide nothing, and the next wave makes progress.
\<close>

subsection \<open>Indexed tasks\<close>

lemma index_tasks_Inr:
  "index_tasks src ts index labels = Inr (index', labels') \<Longrightarrow>
     index' = index @ map (\<lambda>t. (record_id t, t)) ts \<and>
     (distinct (task_ids index) \<longrightarrow> distinct (task_ids index')) \<and>
     list_all (\<lambda>t. record_id t \<noteq> []) ts"
proof (induction ts arbitrary: index labels)
  case (Cons t ts)
  from Cons.prems obtain new where new: "record_id t \<noteq> []" "record_id t \<notin> set (task_ids index)"
    "index_tasks src ts (index @ [(record_id t, t)]) (labels @ new) = Inr (index', labels')"
    by (auto split: if_splits)
  note ih = Cons.IH [OF new(3)]
  have "distinct (task_ids index) \<longrightarrow> distinct (task_ids (index @ [(record_id t, t)]))"
    using new(2) by simp
  then have "distinct (task_ids index) \<longrightarrow> distinct (task_ids index')"
    using ih by blast
  moreover have "index' = index @ map (\<lambda>t. (record_id t, t)) (t # ts)" using ih by simp
  moreover have "list_all (\<lambda>t. record_id t \<noteq> []) (t # ts)" using ih new(1) by simp
  ultimately show ?case by blast
qed simp

lemma derive_Inr:
  assumes "derive_plan_execution_view sha authority plan policy legacy src max_size = Inr view"
  obtains records index labels where "task_records plan = Inr records"
    and "index_tasks src records [] legacy = Inr (index, labels)"
    and "index = map (\<lambda>t. (record_id t, t)) records" and "distinct (task_ids index)"
    and "\<And>d i. d \<in> set (vw_decisions authority) \<Longrightarrow> accepts_task authority index policy d = Some i \<Longrightarrow>
           i \<in> set (task_ids index)"
    and "view = view_of_index sha authority index policy labels src max_size"
proof -
  from assms obtain records index labels where *: "task_records plan = Inr records"
    "index_tasks src records [] legacy = Inr (index, labels)"
    "list_all (\<lambda>d. case accepts_task authority index policy d of
           Some i \<Rightarrow> i \<in> set (task_ids index) | None \<Rightarrow> True) (vw_decisions authority)"
    "view = view_of_index sha authority index policy labels src max_size"
    by (auto simp: derive_plan_execution_view_def split: if_splits)
  show ?thesis
    by (rule that [OF *(1,2) _ _ _ *(4)]) (use index_tasks_Inr [OF *(2)] *(3) in \<open>force simp: list_all_iff\<close>)+
qed

lemma view_of_index_sel [simp]:
  fixes sha authority index policy labels src max_size
  defines "v \<equiv> view_of_index sha authority index policy labels src max_size"
  defines "closed \<equiv> dependency_closed_ids index (accepted_ids authority index policy)"
  shows "pv_accepted_task_ids v = accepted_ids authority index policy"
    and "pv_closed_task_ids v = sort closed"
    and "pv_next_ready_wave v = (case next_ready_wave index closed max_size of Inr w \<Rightarrow> w | Inl e \<Rightarrow> [])"
    and "pv_unresolved_claim_ids v = unresolved_claims authority index"
    and "pv_accepted_task_attempts v = sort_key (\<lambda>a. (aa_task_id a, aa_attempt_id a, aa_decision_id a))
           (concat (map (accepted_attempts authority index policy) (task_ids index)))"
    and "pv_diagnostics v = view_diagnostics src authority index policy labels closed (next_ready_wave index closed max_size)"
  by (simp_all add: v_def closed_def view_of_index_def Let_def)

subsection \<open>The dependency closure\<close>

text \<open>The specification: an accepted task is complete when all it depends on are tasks of the plan that
  are complete.\<close>

inductive completes :: "task_index \<Rightarrow> string set \<Rightarrow> string \<Rightarrow> bool" for index accepted where
  "i \<in> accepted \<Longrightarrow>
   (\<And>d. d \<in> set (dependencies index i) \<Longrightarrow> d \<in> set (task_ids index) \<and> completes index accepted d) \<Longrightarrow>
   completes index accepted i"

inductive_cases completesE: "completes index accepted i"

lemma closes_iff: "closes index closed i \<longleftrightarrow> set (dependencies index i) \<subseteq> set closed \<inter> set (task_ids index)"
  by (auto simp: closes_def list_all_iff)

lemma pass_sound:
  "set closed \<subseteq> Collect (completes index A) \<Longrightarrow> set is \<subseteq> A \<Longrightarrow>
     set (foldl (\<lambda>c i. if closes index c i then c @ [i] else c) closed is) \<subseteq> Collect (completes index A)"
proof (induction "is" arbitrary: closed)
  case (Cons i "is")
  have "completes index A i" if "closes index closed i"
    using that Cons.prems by (intro completes.intros) (auto simp: closes_iff)
  with Cons.prems show ?case
    by (simp only: foldl_Cons) (intro Cons.IH; auto)
qed simp

lemma pass_stops:
  "foldl (\<lambda>c i. if closes index c i then c @ [i] else c) closed is = closed \<Longrightarrow> i \<in> set is \<Longrightarrow>
     \<not> closes index closed i"
proof (induction "is")
  case (Cons j js)
  have "\<not> closes index closed j"
  proof
    assume "closes index closed j"
    then have "foldl (\<lambda>c i. if closes index c i then c @ [i] else c) (closed @ [j]) js = closed"
      using Cons.prems(1) by simp
    with close_pass_extends [of index "closed @ [j]" js] show False by auto
  qed
  with Cons show ?case by auto
qed simp

lemma close_loop_completes:
  "set closed \<subseteq> Collect (completes index (set accepted)) \<Longrightarrow>
     set (close_loop index accepted closed) = Collect (completes index (set accepted))"
proof (induction index accepted closed rule: close_loop.induct)
  case (1 index accepted closed)
  let ?c = "close_pass index accepted closed"
  show ?case
  proof (cases "?c = closed")
    case False
    moreover have "set ?c \<subseteq> Collect (completes index (set accepted))"
      unfolding close_pass_def by (rule pass_sound) (use "1.prems" in auto)
    ultimately show ?thesis
      using "1.IH" by (subst close_loop.simps) (simp add: Let_def)
  next
    case True
    have "completes index (set accepted) i \<Longrightarrow> i \<in> set closed" for i
    proof (induction rule: completes.induct)
      case (1 i)
      then have "closes index closed i" by (auto simp: closes_iff)
      with True 1(1) show ?case
        using pass_stops [of index closed "sorted_set (filter (\<lambda>i. i \<notin> set closed) accepted)" i]
        by (auto simp: close_pass_def)
    qed
    with True "1.prems" show ?thesis by (subst close_loop.simps) (auto simp: Let_def)
  qed
qed

lemma closed_completes: "set (dependency_closed_ids index accepted) = Collect (completes index (set accepted))"
  unfolding dependency_closed_ids_def by (rule close_loop_completes) simp

lemma close_pass_distinct: "distinct closed \<Longrightarrow> distinct (close_pass index accepted closed)"
proof -
  have "distinct (foldl (\<lambda>c i. if closes index c i then c @ [i] else c) closed is)"
    if "distinct closed" "distinct is" "set is \<inter> set closed = {}" for closed "is"
    using that
  proof (induction "is" arbitrary: closed)
    case (Cons i "is")
    then show ?case by (simp only: foldl_Cons) (intro Cons.IH; auto)
  qed simp
  note D = this
  assume "distinct closed"
  then show "distinct (close_pass index accepted closed)"
    unfolding close_pass_def by (rule D) auto
qed

lemma distinct_closed: "distinct (dependency_closed_ids index accepted)"
proof -
  have "distinct closed \<Longrightarrow> distinct (close_loop index accepted closed)" for closed
  proof (induction index accepted closed rule: close_loop.induct)
    case (1 index accepted closed)
    then show ?case
      using close_pass_distinct by (subst close_loop.simps) (auto simp: Let_def)
  qed
  then show ?thesis by (simp add: dependency_closed_ids_def)
qed

lemma completes_mono: "completes index A i \<Longrightarrow> A \<subseteq> B \<Longrightarrow> completes index B i"
  by (induction rule: completes.induct) (auto intro: completes.intros)

lemma completes_accepted: "completes index A i \<Longrightarrow> i \<in> A"
  by (erule completesE)

subsection \<open>Accepted tasks\<close>

lemma accepts_task_iff:
  "accepts_task authority index policy d = Some i \<longleftrightarrow>
     (\<exists>c v. by_id cl_claim_id (vw_claims authority) (de_claim_id d) = Some c \<and> cl_subject_id c = i \<and>
        cl_claim_id c \<in> cl_claim_id ` set (completion_claims authority index) \<and>
        de_outcome d = Accepted \<and> policy i = Some v \<and> authoritative v)"
  by (auto simp: accepts_task_def settled_claim_def decision_authoritative_def split: option.splits)

lemma accepted_ids_iff:
  "i \<in> set (accepted_ids authority index policy) \<longleftrightarrow>
     i \<in> set (task_ids index) \<and> (\<exists>d \<in> set (vw_decisions authority). accepts_task authority index policy d = Some i)"
  by (auto simp: accepted_ids_def accepting_decisions_def filter_empty_conv)

text \<open>In a reduced view a claim is determined by its id.\<close>

lemma view_claims_by_id:
  assumes u: "unique_records typed" and red: "reduce_unique sha typed ds run rev' cursor = Inr v"
    and c: "c \<in> set (vw_claims v)"
  shows "by_id cl_claim_id (vw_claims v) (cl_claim_id c) = Some c"
    and "c' \<in> set (vw_claims v) \<Longrightarrow> cl_claim_id c' = cl_claim_id c \<Longrightarrow> c' = c"
proof -
  have typed: "Claim x \<in> set typed" if "x \<in> set (vw_claims v)" for x
    using view_claims_iff [OF u red, of x] that by simp
  have same: "x = y" if "x \<in> set (vw_claims v)" "y \<in> set (vw_claims v)" "cl_claim_id x = cl_claim_id y" for x y
  proof -
    have "group_key (Claim x) = group_key (Claim y)"
      using that(3) by (simp add: group_key_def contract_type_def)
    then have "Claim x = Claim y"
      using u typed [OF that(1)] typed [OF that(2)] unfolding unique_records_def by blast
    then show ?thesis by simp
  qed
  then show "by_id cl_claim_id (vw_claims v) (cl_claim_id c) = Some c"
    by (intro by_id_eq c) (auto simp: inj_on_def)
  show "c' \<in> set (vw_claims v) \<Longrightarrow> cl_claim_id c' = cl_claim_id c \<Longrightarrow> c' = c"
    using same c by blast
qed

lemma accepts_task_reduced:
  assumes u: "unique_records typed" and red: "reduce_unique sha typed ds run rev' cursor = Inr v"
    and i: "i \<in> set (task_ids index)"
  shows "(\<exists>d \<in> set (vw_decisions v). accepts_task v index policy d = Some i) \<longleftrightarrow>
    (\<exists>verdict. policy i = Some verdict \<and> authoritative verdict) \<and>
    (\<exists>d \<in> set (vw_decisions v). \<exists>c \<in> set (vw_claims v). de_outcome d = Accepted \<and>
       cl_claim_type c = TASK_COMPLETION_CLAIM \<and> cl_subject_id c = i \<and>
       (\<exists>f \<in> set (vw_fences v). \<exists>g \<in> set (vw_grants v). \<exists>a \<in> set (vw_attempts v).
          validate_relationships f g a c (vw_evidence v) (Some d) = Inr ()))"
    (is "?l \<longleftrightarrow> ?r")
proof
  assume ?l
  then obtain d c verdict where d: "d \<in> set (vw_decisions v)" "de_outcome d = Accepted"
    and c: "by_id cl_claim_id (vw_claims v) (de_claim_id d) = Some c" "cl_subject_id c = i"
      "cl_claim_id c \<in> cl_claim_id ` set (completion_claims v index)"
    and p: "policy i = Some verdict" "authoritative verdict"
    by (auto simp: accepts_task_iff)
  have mem: "c \<in> set (vw_claims v)" "cl_claim_id c = de_claim_id d"
    using by_id_SomeD [OF c(1)] by simp_all
  obtain c0 where c0: "c0 \<in> set (completion_claims v index)" "cl_claim_id c0 = cl_claim_id c"
    using c(3) by auto
  then have "c0 = c"
    using view_claims_by_id(2) [OF u red mem(1), of c0] by (simp add: completion_claims_def)
  with c0 have "c \<in> set (completion_claims v index)" by simp
  moreover obtain c' f g a where "c' \<in> set (vw_claims v)" "f \<in> set (vw_fences v)" "g \<in> set (vw_grants v)"
    "a \<in> set (vw_attempts v)" "validate_relationships f g a c' (vw_evidence v) (Some d) = Inr ()"
    using view_decisions_iff [OF u red, of d] d(1) by blast
  moreover from this have "cl_claim_id c' = de_claim_id d"
    by (simp add: validate_relationships_iff)
  with \<open>c' \<in> set (vw_claims v)\<close> mem have "c' = c"
    using view_claims_by_id(2) [OF u red] by simp
  moreover from c0 have "cl_claim_type c = TASK_COMPLETION_CLAIM"
    using \<open>c0 = c\<close> by (simp add: completion_claims_def)
  ultimately show ?r
    using d p c(2) mem(1) by blast
next
  assume ?r
  then obtain d c f g a verdict where *: "policy i = Some verdict" "authoritative verdict"
    "d \<in> set (vw_decisions v)" "c \<in> set (vw_claims v)" "de_outcome d = Accepted"
    "cl_claim_type c = TASK_COMPLETION_CLAIM" "cl_subject_id c = i"
    "validate_relationships f g a c (vw_evidence v) (Some d) = Inr ()"
    by blast
  then have "de_claim_id d = cl_claim_id c" by (simp add: validate_relationships_iff)
  with * i have "accepts_task v index policy d = Some i"
    using view_claims_by_id(1) [OF u red *(4)] by (auto simp: accepts_task_iff completion_claims_def)
  with *(3) show ?l by blast
qed

subsection \<open>The next wave\<close>

definition wave_tasks :: "task_index \<Rightarrow> sched_task list" where
  "wave_tasks index = map (\<lambda>i. \<lparr>tk_id = i, tk_depends_on = Some (dependencies index i)\<rparr>) (sort (task_ids index))"

lemma wave_tasks_ids: "set (map tk_id (wave_tasks index)) = set (task_ids index)"
  by (simp add: wave_tasks_def comp_def)

lemma deps_of_wave: "i \<in> set (task_ids index) \<Longrightarrow> deps_of (wave_tasks index) i = dependencies index i"
proof -
  have "map_of (map (\<lambda>i. (i, dependencies index i)) xs) i = (if i \<in> set xs then Some (dependencies index i) else None)" for xs
    by (induction xs) auto
  from this [of "List.rev (sort (task_ids index))"] show "i \<in> set (task_ids index) \<Longrightarrow> ?thesis"
    by (simp add: deps_of_def wave_tasks_def comp_def task_deps_def rev_map [symmetric])
qed

lemma next_wave_Inr:
  assumes "next_ready_wave index closed m = Inr w"
  shows "distinct w \<and> length w \<le> effective_max_size m 5 \<and>
    (\<forall>i \<in> set w. i \<in> set (task_ids index) \<and> i \<notin> set closed \<and> set (dependencies index i) \<subseteq> set closed) \<and>
    (w = [] \<longrightarrow> set (task_ids index) \<subseteq> set closed)"
proof -
  obtain bs where bs: "schedule_batches (wave_tasks index) m closed 5 = Inr bs"
    "w = (case bs of [] \<Rightarrow> [] | b # _ \<Rightarrow> b)"
    using assms by (auto simp: next_ready_wave_def wave_tasks_def [symmetric])
  from schedule_Inr [OF bs(1)] have *: "in_order (deps_of (wave_tasks index)) closed bs" "distinct (concat bs)"
    "set (concat bs) = set (task_ids index) - set closed"
    "list_all (\<lambda>b. b \<noteq> [] \<and> length b \<le> effective_max_size m 5) bs"
    unfolding wave_tasks_ids by blast+
  show ?thesis
  proof (cases bs)
    case Nil
    with * bs(2) show ?thesis by auto
  next
    case (Cons b rest)
    then have "i \<in> set (task_ids index) \<and> i \<notin> set closed" if "i \<in> set b" for i
      using that *(3) by auto
    with Cons * bs(2) show ?thesis
      using deps_of_wave by (auto simp: list_all_iff)
  qed
qed

lemma next_wave_Inl:
  "isl (next_ready_wave index closed m) \<longleftrightarrow>
     \<not> (deps_known (wave_tasks index) closed \<and> acyclic (pending_edges (wave_tasks index) closed))"
  unfolding compute_iff [symmetric]
  by (cases "compute_task_batches (wave_tasks index) closed")
    (simp_all add: next_ready_wave_def wave_tasks_def [symmetric] schedule_batches_def Let_def)

lemma deps_known_wave:
  "deps_known (wave_tasks index) closed \<longleftrightarrow>
     (\<forall>i \<in> set (task_ids index). set (dependencies index i) \<subseteq> set (task_ids index) \<union> set closed)"
  unfolding deps_known_def wave_tasks_ids by (auto simp: list_all_iff wave_tasks_def task_deps_def)

lemma pending_edges_wave:
  "pending_edges (wave_tasks index) closed =
     {(d, i). i \<in> set (task_ids index) \<and> d \<in> set (dependencies index i) \<and> d \<notin> set closed}"
  unfolding pending_edges_def wave_tasks_ids using deps_of_wave [of _ index] by (intro Collect_cong) (metis (no_types, lifting) case_prod_unfold)

lemma closed_are_tasks:
  "set (dependency_closed_ids index (accepted_ids authority index policy)) \<subseteq> set (task_ids index)"
  using completes_accepted accepted_ids_iff unfolding closed_completes by blast

subsection \<open>Labels decide nothing\<close>

lemma dependencies_map:
  "dependencies (map (\<lambda>t. (record_id t, t)) ts) i =
     (case map_of (map (\<lambda>t. (record_id t, task_dependencies t)) ts) i of None \<Rightarrow> [] | Some ds \<Rightarrow> ds)"
  by (induction ts) (simp_all add: dependencies_def)

text \<open>Two indices with the same ids and dependencies.\<close>

definition same_shape :: "task_index \<Rightarrow> task_index \<Rightarrow> bool" where
  "same_shape index index' \<longleftrightarrow> task_ids index = task_ids index' \<and> dependencies index = dependencies index'"

lemma close_loop_shape:
  "same_shape index index' \<Longrightarrow> close_loop index accepted closed = close_loop index' accepted closed"
proof (induction index accepted closed rule: close_loop.induct)
  case (1 index accepted closed)
  then have "closes index = closes index'" by (auto simp: same_shape_def closes_iff fun_eq_iff)
  then have "close_pass index = close_pass index'" by (simp add: close_pass_def fun_eq_iff)
  with 1 show ?case
    by (subst (1 2) close_loop.simps) (simp add: Let_def)
qed

lemma completion_claims_shape:
  "same_shape index index' \<Longrightarrow> completion_claims authority index = completion_claims authority index'"
  unfolding same_shape_def completion_claims_def by metis

lemma settled_claim_shape:
  assumes "same_shape index index'"
  shows "settled_claim authority index = settled_claim authority index'"
    and "accepts_task authority index = accepts_task authority index'"
proof -
  show "settled_claim authority index = settled_claim authority index'"
    by (rule ext) (simp only: settled_claim_def completion_claims_shape [OF assms])
  then show "accepts_task authority index = accepts_task authority index'"
    by (intro ext) (simp only: accepts_task_def)
qed

lemma view_shape:
  assumes "same_shape index index'"
  shows "accepted_ids authority index policy = accepted_ids authority index' policy"
    and "dependency_closed_ids index = dependency_closed_ids index'"
    and "next_ready_wave index = next_ready_wave index'"
    and "accepted_attempts authority index policy = accepted_attempts authority index' policy"
    and "unresolved_claims authority index = unresolved_claims authority index'"
proof -
  note [simp] = settled_claim_shape [OF assms, of authority] completion_claims_shape [OF assms, of authority]
  have ids: "task_ids index = task_ids index'" and [simp]: "dependencies index = dependencies index'"
    using assms by (simp_all add: same_shape_def)
  show "accepted_ids authority index policy = accepted_ids authority index' policy"
    "accepted_attempts authority index policy = accepted_attempts authority index' policy"
    by (simp_all add: ids accepted_ids_def accepting_decisions_def accepted_attempts_def fun_eq_iff)
  show "dependency_closed_ids index = dependency_closed_ids index'"
    using close_loop_shape [OF assms] by (simp add: dependency_closed_ids_def fun_eq_iff)
  show "next_ready_wave index = next_ready_wave index'"
    by (simp add: ids next_ready_wave_def fun_eq_iff)
  show "unresolved_claims authority index = unresolved_claims authority index'"
    by (simp add: unresolved_claims_def)
qed

lemma wave_progress:
  assumes "set closed \<subseteq> set (task_ids index)"
    and w: "w = (case next_ready_wave index closed m of Inr w \<Rightarrow> w | Inl e \<Rightarrow> [])"
  shows "distinct w" and "length w \<le> effective_max_size m 5"
    and "\<forall>i \<in> set w. i \<in> set (task_ids index) \<and> i \<notin> set closed \<and> set (dependencies index i) \<subseteq> set closed"
    and "w = [] \<longleftrightarrow> set (task_ids index) \<subseteq> set closed \<or>
       \<not> ((\<forall>i \<in> set (task_ids index). set (dependencies index i) \<subseteq> set (task_ids index)) \<and>
          acyclic {(d, i). i \<in> set (task_ids index) \<and> d \<in> set (dependencies index i) \<and> d \<notin> set closed})"
proof -
  note graph = next_wave_Inl [of index closed m, unfolded deps_known_wave pending_edges_wave Un_absorb2 [OF assms(1)]]
  have "distinct w \<and> length w \<le> effective_max_size m 5 \<and>
    (\<forall>i \<in> set w. i \<in> set (task_ids index) \<and> i \<notin> set closed \<and> set (dependencies index i) \<subseteq> set closed) \<and>
    (w = [] \<longleftrightarrow> set (task_ids index) \<subseteq> set closed \<or> isl (next_ready_wave index closed m))"
  proof (cases "next_ready_wave index closed m")
    case (Inr w')
    then have "w' = [] \<longleftrightarrow> set (task_ids index) \<subseteq> set closed"
      using next_wave_Inr [OF Inr] by (cases w') auto
    with next_wave_Inr [OF Inr] show ?thesis by (simp add: w Inr)
  qed (simp add: w)
  with graph show "distinct w" "length w \<le> effective_max_size m 5"
    "\<forall>i \<in> set w. i \<in> set (task_ids index) \<and> i \<notin> set closed \<and> set (dependencies index i) \<subseteq> set closed"
    "w = [] \<longleftrightarrow> set (task_ids index) \<subseteq> set closed \<or>
       \<not> ((\<forall>i \<in> set (task_ids index). set (dependencies index i) \<subseteq> set (task_ids index)) \<and>
          acyclic {(d, i). i \<in> set (task_ids index) \<and> d \<in> set (dependencies index i) \<and> d \<notin> set closed})"
    by blast+
qed

subsection \<open>The properties\<close>

definition index_of :: "(string \<times> json) list list \<Rightarrow> task_index" where
  "index_of records = map (\<lambda>t. (record_id t, t)) records"

lemma derive_index:
  assumes "derive_plan_execution_view sha authority plan policy legacy src max_size = Inr view"
    and "task_records plan = Inr records"
  shows "\<exists>labels. view = view_of_index sha authority (index_of records) policy labels src max_size"
proof (rule derive_Inr [OF assms(1)])
  fix records' index labels
  assume "task_records plan = Inr records'" "index = map (\<lambda>t. (record_id t, t)) records'"
    and "view = view_of_index sha authority index policy labels src max_size"
  with assms(2) show ?thesis by (auto simp: index_of_def)
qed

text \<open>On a reduced view the derivation fails only on the plan.\<close>

lemma derive_reduced:
  assumes "wf_inputs sha inputs"
    and "reduce_run_authority sha inputs run_id run_revision cursor = Inr authority"
    and "task_records plan = Inr records" and "index_tasks src records [] legacy = Inr (index, labels)"
  shows "derive_plan_execution_view sha' authority plan policy legacy src max_size =
    Inr (view_of_index sha' authority index policy labels src max_size)"
proof -
  obtain run rev' cur typed ds where u: "unique_records typed"
    and red: "reduce_unique sha typed ds run rev' cur = Inr authority"
    by (rule reduce_typed [OF assms(1,2)])
  have "i \<in> set (task_ids index)" if acc: "accepts_task authority index policy d = Some i" for d i
  proof -
    obtain c c0 where c: "by_id cl_claim_id (vw_claims authority) (de_claim_id d) = Some c" "cl_subject_id c = i"
      "c0 \<in> set (completion_claims authority index)" "cl_claim_id c0 = cl_claim_id c"
      using acc by (auto simp: accepts_task_iff)
    have "c0 = c"
      using view_claims_by_id(2) [OF u red, of c c0] by_id_SomeD [OF c(1)] c(3,4) by (simp add: completion_claims_def)
    with c show ?thesis by (simp add: completion_claims_def)
  qed
  then show ?thesis
    using assms(3,4) by (auto simp: derive_plan_execution_view_def list_all_iff split: option.split)
qed

text \<open>C9. On a view reduced from well-formed records, a task of the plan is accepted exactly when the
  evidence policy is authoritative about it and the view has a completion claim on it and a decision
  accepting the claim that pass the relationship validation with a fence, grant and attempt of the view.
\<close>

theorem accepted_tasks_rest_on_authority:
  assumes "wf_inputs sha inputs"
    and "reduce_run_authority sha inputs run_id run_revision cursor = Inr authority"
    and "derive_plan_execution_view sha' authority plan policy legacy src max_size = Inr view"
    and "task_records plan = Inr records"
  shows "i \<in> set (pv_accepted_task_ids view) \<longleftrightarrow>
    i \<in> set (map record_id records) \<and>
    (\<exists>verdict. policy i = Some verdict \<and> authoritative verdict) \<and>
    (\<exists>d \<in> set (vw_decisions authority). \<exists>c \<in> set (vw_claims authority). de_outcome d = Accepted \<and>
       cl_claim_type c = TASK_COMPLETION_CLAIM \<and> cl_subject_id c = i \<and>
       (\<exists>f \<in> set (vw_fences authority). \<exists>g \<in> set (vw_grants authority). \<exists>a \<in> set (vw_attempts authority).
          validate_relationships f g a c (vw_evidence authority) (Some d) = Inr ()))"
proof -
  obtain labels where view: "view = view_of_index sha' authority (index_of records) policy labels src max_size"
    using derive_index [OF assms(3,4)] by blast
  obtain run rev' cur typed ds where u: "unique_records typed"
    and red: "reduce_unique sha typed ds run rev' cur = Inr authority"
    by (rule reduce_typed [OF assms(1,2)])
  have ids: "set (task_ids (index_of records)) = set (map record_id records)"
    by (simp add: index_of_def comp_def)
  show ?thesis
    unfolding view view_of_index_sel accepted_ids_iff ids
    using accepts_task_reduced [OF u red, of i "index_of records" policy] ids by blast
qed

text \<open>C20. The tasks the view calls complete are, once each and in order, the least set that contains an
  accepted task as soon as everything it depends on is a task of the plan in the set.
\<close>

theorem complete_tasks_are_the_least_closure:
  assumes "derive_plan_execution_view sha authority plan policy legacy src max_size = Inr view"
    and "task_records plan = Inr records"
  shows "set (pv_closed_task_ids view) =
      {i. completes (index_of records) (set (pv_accepted_task_ids view)) i} \<and>
    sorted (pv_closed_task_ids view) \<and> distinct (pv_closed_task_ids view)"
proof -
  obtain labels where "view = view_of_index sha authority (index_of records) policy labels src max_size"
    using derive_index [OF assms] by blast
  then show ?thesis by (simp add: closed_completes distinct_closed)
qed

text \<open>C21. Labels grant nothing: for two plans whose tasks have the same ids and dependencies, whatever else
  their records say and whatever labels come with them, the accepted and complete tasks, the accepted
  attempts, the unresolved claims and the next wave are the same.
\<close>

theorem labels_grant_nothing:
  assumes "derive_plan_execution_view sha authority plan policy legacy src m = Inr view"
    and "derive_plan_execution_view sha authority plan' policy legacy' src' m = Inr view'"
    and "task_records plan = Inr records" and "task_records plan' = Inr records'"
    and "map record_id records = map record_id records'"
    and "map task_dependencies records = map task_dependencies records'"
  shows "pv_accepted_task_ids view = pv_accepted_task_ids view' \<and>
    pv_closed_task_ids view = pv_closed_task_ids view' \<and>
    pv_accepted_task_attempts view = pv_accepted_task_attempts view' \<and>
    pv_unresolved_claim_ids view = pv_unresolved_claim_ids view' \<and>
    pv_next_ready_wave view = pv_next_ready_wave view'"
proof -
  obtain labels where view: "view = view_of_index sha authority (index_of records) policy labels src m"
    using derive_index [OF assms(1,3)] by blast
  obtain labels' where view': "view' = view_of_index sha authority (index_of records') policy labels' src' m"
    using derive_index [OF assms(2,4)] by blast
  have "map (\<lambda>t. (record_id t, task_dependencies t)) records = zip (map record_id records) (map task_dependencies records)"
    "map (\<lambda>t. (record_id t, task_dependencies t)) records' = zip (map record_id records') (map task_dependencies records')"
    by (simp_all add: zip_map_map zip_same_conv_map)
  then have "dependencies (index_of records) = dependencies (index_of records')"
    unfolding index_of_def by (intro ext) (simp only: dependencies_map assms(5,6))
  moreover have ids: "task_ids (index_of records) = task_ids (index_of records')"
    using assms(5) by (simp add: index_of_def comp_def)
  ultimately have "same_shape (index_of records) (index_of records')" by (simp add: same_shape_def)
  note same = view_shape [OF this]
  show ?thesis
    unfolding view view' view_of_index_sel same ids by simp
qed

text \<open>C10. The next wave holds distinct tasks within the size limit that are not complete and depend on
  complete tasks only. It is empty exactly when every task is complete, or a dependency is no task of
  the plan, or the dependencies that are not complete have a cycle.
\<close>

theorem next_wave_makes_progress:
  assumes "derive_plan_execution_view sha authority plan policy legacy src max_size = Inr view"
    and "task_records plan = Inr records"
  shows "distinct (pv_next_ready_wave view) \<and>
    length (pv_next_ready_wave view) \<le> effective_max_size max_size 5 \<and>
    (\<forall>i \<in> set (pv_next_ready_wave view). i \<in> set (map record_id records) \<and> i \<notin> set (pv_closed_task_ids view) \<and>
       set (dependencies (index_of records) i) \<subseteq> set (pv_closed_task_ids view)) \<and>
    (pv_next_ready_wave view = [] \<longleftrightarrow>
       set (map record_id records) \<subseteq> set (pv_closed_task_ids view) \<or>
       \<not> ((\<forall>i \<in> set (map record_id records). set (dependencies (index_of records) i) \<subseteq> set (map record_id records)) \<and>
          acyclic {(d, i). i \<in> set (map record_id records) \<and> d \<in> set (dependencies (index_of records) i) \<and>
            d \<notin> set (pv_closed_task_ids view)}))"
proof -
  let ?index = "index_of records"
  obtain labels where view: "view = view_of_index sha authority ?index policy labels src max_size"
    using derive_index [OF assms] by blast
  let ?closed = "dependency_closed_ids ?index (accepted_ids authority ?index policy)"
  have ids: "set (map record_id records) = set (task_ids ?index)"
    by (simp add: index_of_def comp_def)
  have closed: "set (pv_closed_task_ids view) = set ?closed" by (simp add: view)
  note progress = wave_progress [OF closed_are_tasks [of ?index authority policy],
      of "pv_next_ready_wave view" max_size, unfolded view, OF view_of_index_sel(3), folded view]
  show ?thesis
    unfolding ids closed using progress by blast
qed

subsection \<open>The properties at concrete inputs\<close>

definition plan_claim :: authority_claim where
  "plan_claim = linked_claim\<lparr>cl_claim_type := TASK_COMPLETION_CLAIM\<rparr>"

definition plan_inputs :: "contract list" where
  "plan_inputs =
     [Decision linked_decision, Claim plan_claim, IdempotencyKey linked_key,
      EvidenceEnvelope sample_evidence, SubjectAttempt sample_attempt,
      CapabilityGrant sample_grant, CoordinatorFence sample_fence]"

definition plan_authority :: run_authority_view where
  "plan_authority = the_result (reduce_run_authority sample_sha plan_inputs (JStr ''r'') (JStr ''v'') (JInt 7))"

definition sample_records :: "string \<Rightarrow> (string \<times> json) list list" where
  "sample_records status =
     [[(''id'', JStr ''s''), (''status'', JStr status)],
      [(''id'', JStr ''t''), (''depends_on'', JArr [JStr ''s'']), (''status'', JStr ''done'')]]"

definition sample_policy :: "string \<rightharpoonup> authority_verdict" where
  "sample_policy i = (if i = ''s'' then Some \<lparr>av_task_id = ''s'', av_status = Ev_Satisfied, av_satisfied = True\<rparr> else None)"

definition sample_plan_view :: "string \<Rightarrow> plan_execution_view" where
  "sample_plan_view status = the_result (derive_plan_execution_view sample_sha plan_authority
     (JArr (map JObj (sample_records status))) sample_policy [] ''finalize.json'' 5)"

lemma plan_inputs_wf: "wf_inputs sample_sha plan_inputs"
  by code_simp

lemma plan_inputs_identified: "list_all identified plan_inputs"
  by code_simp

lemma plan_authority_reduced:
  "reduce_run_authority sample_sha plan_inputs (JStr ''r'') (JStr ''v'') (JInt 7) = Inr plan_authority"
  unfolding plan_authority_def
  by (rule reduce_the_result [OF plan_inputs_wf plan_inputs_identified]) simp_all

lemma sample_task_records:
  "task_records (JArr (map JObj (sample_records status))) = Inr (sample_records status)"
  by (simp add: task_records_def sample_records_def)

lemma plan_typed:
  obtains typed ds cursor where "set typed = {r. unrivalled (set plan_inputs) r}" and "unique_records typed"
    and "reduce_unique sample_sha typed ds ''r'' ''v'' cursor = Inr plan_authority"
  by (rule reduce_typed [OF plan_inputs_wf plan_authority_reduced]) auto

lemma plan_members:
  "vw_evidence plan_authority = [sample_evidence]"
  "sample_fence \<in> set (vw_fences plan_authority)"
  "sample_grant \<in> set (vw_grants plan_authority)"
  "sample_attempt \<in> set (vw_attempts plan_authority)"
proof -
  note M = view_members [OF plan_inputs_wf plan_authority_reduced]
  have "e \<in> set (vw_evidence plan_authority) \<longleftrightarrow> e = sample_evidence" for e
    unfolding M by (auto simp: unrivalled_def plan_inputs_def group_key_simps sample_evidence_def)
  then have "set (vw_evidence plan_authority) = {sample_evidence}" by blast
  with M(6) show "vw_evidence plan_authority = [sample_evidence]"
    by (cases "vw_evidence plan_authority" rule: list_shape) auto
  show "sample_fence \<in> set (vw_fences plan_authority)"
    "sample_grant \<in> set (vw_grants plan_authority)"
    "sample_attempt \<in> set (vw_attempts plan_authority)"
    unfolding M by (simp_all add: unrivalled_def plan_inputs_def group_key_simps sample_fence_def
        sample_grant_def sample_attempt_def)
qed

lemma plan_accepts:
  "plan_claim \<in> set (vw_claims plan_authority)" "linked_decision \<in> set (vw_decisions plan_authority)"
  "validate_relationships sample_fence sample_grant sample_attempt plan_claim
      (vw_evidence plan_authority) (Some linked_decision) = Inr ()"
proof -
  obtain typed ds cursor where t: "set typed = {r. unrivalled (set plan_inputs) r}" and u: "unique_records typed"
    and red: "reduce_unique sample_sha typed ds ''r'' ''v'' cursor = Inr plan_authority"
    by (rule plan_typed)
  have keys: "unrivalled (set plan_inputs) (IdempotencyKey
      \<lparr>ik_value = cl_idempotency_key plan_claim, ik_payload_hash = cl_payload_hash plan_claim\<rparr>)"
    "unrivalled (set plan_inputs) (IdempotencyKey
      \<lparr>ik_value = de_idempotency_key linked_decision, ik_payload_hash = de_payload_hash linked_decision\<rparr>)"
    "unrivalled (set plan_inputs) (Claim plan_claim)" "unrivalled (set plan_inputs) (Decision linked_decision)"
    by (simp_all add: unrivalled_def plan_inputs_def group_key_simps plan_claim_def linked_claim_def linked_key_def
        linked_decision_def)
  have "validate_relationships sample_fence sample_grant sample_attempt plan_claim (vw_evidence plan_authority) None = Inr ()"
    unfolding plan_members by code_simp
  then show c: "plan_claim \<in> set (vw_claims plan_authority)"
    using view_claims_iff [OF u red, of plan_claim] keys plan_members t by blast
  show v: "validate_relationships sample_fence sample_grant sample_attempt plan_claim
      (vw_evidence plan_authority) (Some linked_decision) = Inr ()"
    unfolding plan_members by code_simp
  then show "linked_decision \<in> set (vw_decisions plan_authority)"
    using view_decisions_iff [OF u red, of linked_decision] keys plan_members t c by blast
qed

lemma sample_index:
  "status \<noteq> [] \<Longrightarrow> \<exists>labels. index_tasks ''finalize.json'' (sample_records status) [] [] =
     Inr (index_of (sample_records status), labels)"
  by (simp add: index_of_def sample_records_def record_id_def status_label_def mk_legacy_label_def dget_def) code_simp

lemma sample_view:
  assumes "status \<noteq> []"
  shows "derive_plan_execution_view sample_sha plan_authority (JArr (map JObj (sample_records status)))
    sample_policy [] ''finalize.json'' 5 = Inr (sample_plan_view status)"
  unfolding sample_plan_view_def
  using derive_reduced [OF plan_inputs_wf plan_authority_reduced sample_task_records, of "''finalize.json''" status "[]"]
    sample_index [OF assms] by fastforce

lemma sample_ids: "map record_id (sample_records status) = [''s'', ''t'']"
  by (simp add: sample_records_def record_id_def dget_def) code_simp

lemma sample_chain:
  "(\<exists>verdict. sample_policy i = Some verdict \<and> authoritative verdict) \<longleftrightarrow> i = ''s''"
  "\<exists>d \<in> set (vw_decisions plan_authority). \<exists>c \<in> set (vw_claims plan_authority). de_outcome d = Accepted \<and>
     cl_claim_type c = TASK_COMPLETION_CLAIM \<and> cl_subject_id c = ''s'' \<and>
     (\<exists>f \<in> set (vw_fences plan_authority). \<exists>g \<in> set (vw_grants plan_authority). \<exists>a \<in> set (vw_attempts plan_authority).
        validate_relationships f g a c (vw_evidence plan_authority) (Some d) = Inr ())"
proof -
  show "(\<exists>verdict. sample_policy i = Some verdict \<and> authoritative verdict) \<longleftrightarrow> i = ''s''"
    by (simp add: sample_policy_def authoritative_def)
  have "de_outcome linked_decision = Accepted" "cl_claim_type plan_claim = TASK_COMPLETION_CLAIM"
    "cl_subject_id plan_claim = ''s''"
    by (simp_all add: linked_decision_def plan_claim_def linked_claim_def)
  with plan_accepts plan_members(2-4) show
    "\<exists>d \<in> set (vw_decisions plan_authority). \<exists>c \<in> set (vw_claims plan_authority). de_outcome d = Accepted \<and>
     cl_claim_type c = TASK_COMPLETION_CLAIM \<and> cl_subject_id c = ''s'' \<and>
     (\<exists>f \<in> set (vw_fences plan_authority). \<exists>g \<in> set (vw_grants plan_authority). \<exists>a \<in> set (vw_attempts plan_authority).
        validate_relationships f g a c (vw_evidence plan_authority) (Some d) = Inr ())"
    by blast
qed

lemma sample_accepted:
  assumes "status \<noteq> []"
  shows "set (pv_accepted_task_ids (sample_plan_view status)) = {''s''}"
proof -
  obtain labels where view: "sample_plan_view status =
      view_of_index sample_sha plan_authority (index_of (sample_records status)) sample_policy labels ''finalize.json'' 5"
    using derive_index [OF sample_view [OF assms] sample_task_records] by blast
  obtain typed ds cursor where u: "unique_records typed"
    and red: "reduce_unique sample_sha typed ds ''r'' ''v'' cursor = Inr plan_authority"
    by (rule plan_typed)
  have ids: "task_ids (index_of (sample_records status)) = [''s'', ''t'']"
    using sample_ids by (simp add: index_of_def comp_def)
  have "i \<in> set (accepted_ids plan_authority (index_of (sample_records status)) sample_policy) \<longleftrightarrow> i = ''s''" for i
    unfolding accepted_ids_iff
    using accepts_task_reduced [OF u red, of i "index_of (sample_records status)" sample_policy, unfolded sample_chain(1)]
      sample_chain(2) ids by (cases "i = ''s''") simp_all
  then show ?thesis unfolding view view_of_index_sel by blast
qed

lemma sample_dependencies:
  "dependencies (index_of (sample_records status)) ''s'' = []"
  "dependencies (index_of (sample_records status)) ''t'' = [''s'']"
proof -
  have "map_of (index_of (sample_records status)) ''s'' = Some (hd (sample_records status))"
    "map_of (index_of (sample_records status)) ''t'' = Some (hd (tl (sample_records status)))"
    using sample_ids [of status] by (simp_all add: index_of_def sample_records_def)
  then show "dependencies (index_of (sample_records status)) ''s'' = []"
    "dependencies (index_of (sample_records status)) ''t'' = [''s'']"
    by (simp_all add: dependencies_def sample_records_def task_dependencies_def dget_def sorted_set_def)
qed

lemma sample_closed:
  assumes "status \<noteq> []"
  shows "set (pv_closed_task_ids (sample_plan_view status)) = {''s''}"
proof -
  obtain labels where view: "sample_plan_view status =
      view_of_index sample_sha plan_authority (index_of (sample_records status)) sample_policy labels ''finalize.json'' 5"
    using derive_index [OF sample_view [OF assms] sample_task_records] by blast
  have "completes (index_of (sample_records status)) {''s''} ''s''"
    by (rule completes.intros) (simp_all add: sample_dependencies)
  then have "Collect (completes (index_of (sample_records status)) {''s''}) = {''s''}"
    using completes_accepted by blast
  then show ?thesis
    using sample_accepted [OF assms] by (simp add: view closed_completes)
qed

theorem accepted_tasks_rest_on_authority_witness:
  "''s'' \<in> set (pv_accepted_task_ids (sample_plan_view ''pending''))"
proof -
  have "''s'' \<in> set (map record_id (sample_records ''pending''))" by (simp only: sample_ids) simp
  then show ?thesis
    using accepted_tasks_rest_on_authority [OF plan_inputs_wf plan_authority_reduced sample_view sample_task_records,
        of "''pending''" "''s''", unfolded sample_chain(1)] sample_chain(2) by blast
qed

theorem complete_tasks_are_the_least_closure_witness:
  "completes (index_of (sample_records ''pending'')) (set (pv_accepted_task_ids (sample_plan_view ''pending''))) ''s'' \<and>
   \<not> completes (index_of (sample_records ''pending'')) (set (pv_accepted_task_ids (sample_plan_view ''pending''))) ''t''"
proof -
  have "{i. completes (index_of (sample_records ''pending'')) (set (pv_accepted_task_ids (sample_plan_view ''pending''))) i} =
      {''s''}"
    using complete_tasks_are_the_least_closure [OF sample_view sample_task_records, of "''pending''"]
      sample_closed [of "''pending''"] by simp
  then have "completes (index_of (sample_records ''pending'')) (set (pv_accepted_task_ids (sample_plan_view ''pending''))) i
      \<longleftrightarrow> i = ''s''" for i by blast
  then show ?thesis by simp
qed

theorem labels_grant_nothing_witness:
  "pv_accepted_task_ids (sample_plan_view ''pending'') = pv_accepted_task_ids (sample_plan_view ''done'') \<and>
   pv_next_ready_wave (sample_plan_view ''pending'') = pv_next_ready_wave (sample_plan_view ''done'')"
proof -
  have "map task_dependencies (sample_records ''pending'') = map task_dependencies (sample_records ''done'')"
    by (simp add: sample_records_def task_dependencies_def dget_def)
  then show ?thesis
    using labels_grant_nothing [OF sample_view sample_view sample_task_records sample_task_records,
        of "''pending''" "''done''"] by (simp add: sample_ids)
qed

theorem next_wave_makes_progress_witness:
  "''t'' \<in> set (pv_next_ready_wave (sample_plan_view ''pending''))"
proof -
  let ?v = "sample_plan_view ''pending''" and ?r = "sample_records ''pending''"
  have closed: "set (pv_closed_task_ids ?v) = {''s''}" by (rule sample_closed) simp
  have edges: "{(d, i). i \<in> set [''s'', ''t''] \<and> d \<in> set (dependencies (index_of ?r) i) \<and> d \<notin> {''s''}} = {}"
    by (auto simp: sample_dependencies)
  note wave = next_wave_makes_progress [OF sample_view sample_task_records, of "''pending''", unfolded sample_ids closed edges]
  have "\<forall>i \<in> set [''s'', ''t'']. set (dependencies (index_of ?r) i) \<subseteq> set [''s'', ''t'']"
    by (simp add: sample_dependencies)
  moreover have "acyclic ({} :: (string \<times> string) set)" by (simp add: acyclic_def)
  moreover have "\<not> set [''s'', ''t''] \<subseteq> {''s''}" by simp
  ultimately have "pv_next_ready_wave ?v \<noteq> []" using wave by simp
  moreover have "set (pv_next_ready_wave ?v) \<subseteq> {''t''}" using wave by auto
  ultimately show ?thesis by (cases "pv_next_ready_wave ?v") auto
qed

end
