(* ===== verification/Completion_Reader.thy ===== *)
theory Completion_Reader
  imports Plan_View Gate_Routing Resolution_Commands
begin

section \<open>Which tasks of a plan count as complete\<close>

text \<open>
  The readers of \<^verbatim>\<open>orchestration/authority_readers.py\<close> that execution shares: the evidence nucleus loaded
  from the artifacts of a plan, the tasks it corroborates, and \<^verbatim>\<open>effective_execute_completed_task_ids\<close>,
  which prefers the view of the accepted attempts and otherwise adds explained skips, explained no-ops
  and checkpoints of commands to the corroborated tasks. What the file system and Git answer is the
  \<open>reader_env\<close>. Diagnostics and the divergence ledger are not modelled; a Python set of ids is a list of
  which only membership is used.
\<close>

subsection \<open>Texts\<close>

text \<open>\<^verbatim>\<open>_string_values\<close>: a dictionary stands for its path, name or id, a list for its elements.\<close>

function string_values :: "json \<Rightarrow> string list" where
  "string_values JNull = []"
| "string_values (JStr s) = (if s = [] then [] else [s])"
| "string_values (JObj d) =
     (let v = or3 (dget d ''path'' JNull) (dget d ''name'' JNull) (dget d ''id'' JNull)
      in if v = JNull then [] else string_values v)"
| "string_values (JArr xs) = filter (\<lambda>s. s \<noteq> []) (concat (map string_values xs))"
| "string_values (JBool b) = [py_str (JBool b)]"
| "string_values (JInt i) = [py_str (JInt i)]"
| "string_values (JFloat r) = [py_str (JFloat r)]"
  by pat_completeness auto
termination
proof (relation "measure size")
  fix d v
  assume v: "v = or3 (dget d ''path'' JNull) (dget d ''name'' JNull) (dget d ''id'' JNull)" "v \<noteq> JNull"
  then have "v = dget d ''id'' JNull \<or> v = dget d ''path'' JNull \<or> v = dget d ''name'' JNull"
    by (auto simp: or3_def split: if_splits)
  then show "(v, JObj d) \<in> measure size"
    using size_dget [of d _ v] v(2) by auto
qed (auto simp: less_Suc_eq_le size_list_estimation')

text \<open>\<^verbatim>\<open>str(task.get("task_id") or task.get("id") or "")\<close>.\<close>

definition reader_task_id :: "(string \<times> json) list \<Rightarrow> string" where
  "reader_task_id task = py_str (or3 (dget task ''task_id'' JNull) (dget task ''id'' JNull) (JStr []))"

definition status_of :: "(string \<times> json) list \<Rightarrow> string option" where
  "status_of task = nonempty_text (dget task ''status'' JNull)"

definition notes_of :: "(string \<times> json) list \<Rightarrow> string option" where
  "notes_of task = nonempty_text (dget task ''executor_notes'' JNull)"

text \<open>\<^verbatim>\<open>record.get("head_sha") or record.get("head")\<close>.\<close>

definition head_value :: "(string \<times> json) list \<Rightarrow> json" where
  "head_value record =
     (if truthy (dget record ''head_sha'' JNull) then dget record ''head_sha'' JNull else dget record ''head'' JNull)"

definition has_durable_terminal_task_evidence :: "(string \<times> json) list \<Rightarrow> bool" where
  "has_durable_terminal_task_evidence task \<longleftrightarrow>
     (if status_of task = Some ''done''
      then list_ex (\<lambda>f. string_values (dget task f JNull) \<noteq> []) DECLARED_OUTPUT_FIELDS
      else if status_of task = Some ''skipped''
      then (case notes_of task of Some n \<Rightarrow> \<not> is_rubber_stamp n True | None \<Rightarrow> False)
      else status_of task \<in> {Some ''waived'', Some ''not_applicable''})"

subsection \<open>Evidence of a task record\<close>

text \<open>An artifact of the plan: its path in the plan directory, its name, the number its stem ends with
  (-1 when it does not) and its decoded content, if any.\<close>

record artifact_file =
  af_path :: string
  af_name :: string
  af_number :: int
  af_payload :: "json option"

definition finalize_file :: "json option \<Rightarrow> artifact_file" where
  "finalize_file payload =
     \<lparr>af_path = ''finalize.json'', af_name = ''finalize.json'', af_number = -1, af_payload = payload\<rparr>"

definition TERMINAL_STATUSES :: "string list" where
  "TERMINAL_STATUSES = [''done'', ''skipped'', ''waived'', ''not_applicable'']"

definition AUDIT_RESEARCH_NOTES_MIN_LEN :: nat where
  "AUDIT_RESEARCH_NOTES_MIN_LEN = 100"

definition fallback_head :: "string option \<Rightarrow> string option \<Rightarrow> (string \<times> json) list \<Rightarrow> string option" where
  "fallback_head default_head plan_head record =
     (case nonempty_text (head_value record) of
        Some h \<Rightarrow> Some h
      | None \<Rightarrow> (case given_text default_head of Some h \<Rightarrow> Some h | None \<Rightarrow> plan_head))"

definition task_ref ::
  "artifact_file \<Rightarrow> string \<Rightarrow> string \<Rightarrow> evidence_status \<Rightarrow> string \<Rightarrow> (string \<times> json) list \<Rightarrow> trust_class \<Rightarrow>
   string option \<Rightarrow> evidence_ref" where
  "task_ref file i kind status summary details trust code_hash =
     \<lparr>er_kind = kind, er_status = status, er_summary = summary, er_details = details,
      er_trust_class = Some trust, er_provider = None, er_provider_version = None,
      er_artifact = Some \<lparr>ar_path = af_path file, ar_sha256 = None, ar_artifact_type = None, ar_schema = None,
        ar_schema_version = None, ar_uri = None\<rparr>,
      er_artifacts = [], er_source = Some (af_name file), er_subject = Some i, er_observed_at = None,
      er_code_hash = code_hash, er_schema = ''megaplan.evidence_ref'', er_schema_version = 1,
      er_contract_version = 1\<rparr>"

text \<open>What a terminal record reports about a field.\<close>

definition field_refs ::
  "artifact_file \<Rightarrow> string option \<Rightarrow> (string \<times> json) list \<Rightarrow> string \<Rightarrow> evidence_ref list" where
  "field_refs file head record field =
     (let i = reader_task_id record; code_hash = nonempty_text (dget record ''code_hash'' JNull)
      in map (\<lambda>v. task_ref file i (''task_'' @ field) Ev_Satisfied (field @ '' reported for '' @ i)
                [(''task_id'', JStr i), (field, JArr [JStr v]), (''head_sha'', opt_json JStr head),
                 (''code_hash'', opt_json JStr code_hash)] Trust_Evidence code_hash)
           (string_values (dget record field JNull)))"

definition output_refs :: "artifact_file \<Rightarrow> string option \<Rightarrow> (string \<times> json) list \<Rightarrow> evidence_ref list" where
  "output_refs file head record =
     (if list_ex (\<lambda>s. status_of record = Some s) TERMINAL_STATUSES
      then concat (map (field_refs file head record) DECLARED_OUTPUT_FIELDS) else [])"

text \<open>Substantive notes of an audit or a research task, of any status.\<close>

definition notes_refs :: "artifact_file \<Rightarrow> string option \<Rightarrow> (string \<times> json) list \<Rightarrow> evidence_ref list" where
  "notes_refs file head record =
     (case (nonempty_text (dget record ''kind'' JNull), notes_of record) of
        (Some kind, Some notes) \<Rightarrow>
          let i = reader_task_id record; code_hash = nonempty_text (dget record ''code_hash'' JNull);
              n = length (utf8_chars (strip notes))
          in if kind \<in> {''audit'', ''research''} \<and> AUDIT_RESEARCH_NOTES_MIN_LEN \<le> n \<and> \<not> is_rubber_stamp notes True
             then [task_ref file i ''task_executor_notes'' Ev_Satisfied
                     (''Substantive '' @ kind @ '' notes reported for '' @ i)
                     [(''task_id'', JStr i), (''kind'', JStr kind), (''executor_notes_length'', JInt (int n)),
                      (''head_sha'', opt_json JStr head), (''code_hash'', opt_json JStr code_hash)]
                     Trust_Evidence code_hash]
             else []
      | _ \<Rightarrow> [])"

definition exception_refs :: "artifact_file \<Rightarrow> (string \<times> json) list \<Rightarrow> evidence_ref list" where
  "exception_refs file record =
     (let i = reader_task_id record;
          exempt = (\<lambda>s. [task_ref file i ''task_terminal_exception'' s (status_value s @ '' task exception for '' @ i)
                       [(''task_id'', JStr i)] Trust_Judgment None])
      in if status_of record = Some ''waived'' then exempt Ev_Waived
         else if status_of record = Some ''not_applicable'' then exempt Ev_Not_Applicable else [])"

definition evidence_from_task_record ::
  "string option \<Rightarrow> string option \<Rightarrow> artifact_file \<Rightarrow> (string \<times> json) list \<Rightarrow> evidence_ref list" where
  "evidence_from_task_record default_head plan_head file record =
     (let head = fallback_head default_head plan_head record;
          outputs = output_refs file head record; notes = notes_refs file head record
      in if outputs \<noteq> [] then outputs else if notes \<noteq> [] then notes else exception_refs file record)"

subsection \<open>The nucleus\<close>

definition normalize_refs :: "json \<Rightarrow> phase_error + evidence_ref list" where
  "normalize_refs v =
     (case v of
        JObj d \<Rightarrow> res_map evidence_ref_from_dict [d]
      | JArr xs \<Rightarrow> res_map evidence_ref_from_dict (List.map_filter as_dict xs)
      | _ \<Rightarrow> Inr [])"

text \<open>The task records of an artifact.\<close>

definition update_records :: "(string \<times> json) list \<Rightarrow> (string \<times> json) list list" where
  "update_records payload =
     concat (map (\<lambda>k. case dget payload k JNull of JArr xs \<Rightarrow> List.map_filter as_dict xs | _ \<Rightarrow> [])
       [''task_updates'', ''tasks''])"

definition evidence_from_execution_artifact ::
  "string option \<Rightarrow> string option \<Rightarrow> artifact_file \<Rightarrow> phase_error + evidence_ref list" where
  "evidence_from_execution_artifact default_head plan_head file =
     (case af_payload file of
        Some (JObj payload) \<Rightarrow>
          res_bind (normalize_refs (dget payload ''evidence'' JNull)) (\<lambda>own.
          res_bind (res_map (\<lambda>r. res_bind (normalize_refs (dget r ''evidence'' JNull)) (\<lambda>refs.
              Inr (refs @ evidence_from_task_record default_head plan_head file r))) (update_records payload)) (\<lambda>each.
          Inr (own @ concat each)))
      | _ \<Rightarrow> Inr [])"

text \<open>
  What the readers see of the world: the evidence of the typed completion verdict (or the error of
  reading it), the artifacts \<^verbatim>\<open>list_batch_artifacts\<close> returns, the content of \<^verbatim>\<open>finalize.json\<close>, the revision
  of the plan directory, whether there is a project and its revision, what Git says about ancestry and
  about the paths committed since a revision (\<open>None\<close> when it fails), and what
  \<^verbatim>\<open>_collect_accepted_attempt_authority\<close> collects.
\<close>

record collected_authority =
  ca_records :: "contract list"
  ca_policy :: "string \<rightharpoonup> authority_verdict"
  ca_labels :: "legacy_label list"
  ca_run_id :: string
  ca_run_revision :: string

record reader_env =
  re_verdict :: "phase_error + evidence_ref list"
  re_batches :: "artifact_file list"
  re_finalize :: "json option"
  re_plan_head :: "string option"
  re_project :: bool
  re_project_head :: "string option"
  re_ancestor :: "string \<Rightarrow> string \<Rightarrow> bool"
  re_committed :: "string \<Rightarrow> string list option"
  re_collected :: "collected_authority option"

text \<open>\<^verbatim>\<open>sorted(paths)\<close> compares paths part by part.\<close>

definition existing_artifacts :: "reader_env \<Rightarrow> artifact_file list" where
  "existing_artifacts env =
     sort_key (\<lambda>f. split_on CHR ''/'' (af_path f)) (re_batches env) @ [finalize_file (re_finalize env)]"

definition load_evidence_nucleus :: "reader_env \<Rightarrow> string option \<Rightarrow> phase_error + evidence_ref list" where
  "load_evidence_nucleus env default_head =
     res_bind (re_verdict env) (\<lambda>verdict.
     res_bind (res_map (evidence_from_execution_artifact default_head (re_plan_head env)) (existing_artifacts env)) (\<lambda>each.
     Inr (verdict @ concat each)))"

text \<open>An error while loading leaves the references that were handed over.\<close>

definition resolve_evidence_nucleus :: "reader_env \<Rightarrow> evidence_ref list \<Rightarrow> string option \<Rightarrow> evidence_ref list" where
  "resolve_evidence_nucleus env given default_head =
     given @ (case load_evidence_nucleus env default_head of Inr refs \<Rightarrow> refs | Inl e \<Rightarrow> [])"

subsection \<open>The current revision\<close>

text \<open>\<^verbatim>\<open>x.strip() if isinstance(x, str) and x.strip()\<close>.\<close>

definition stripped_text :: "json \<Rightarrow> string option" where
  "stripped_text v = (case v of JStr s \<Rightarrow> if strip s = [] then None else Some (strip s) | _ \<Rightarrow> None)"

definition latest_head_in_artifact :: "json option \<Rightarrow> string option" where
  "latest_head_in_artifact payload =
     (case payload of
        Some (JObj p) \<Rightarrow>
          (case rev (List.map_filter (stripped_text \<circ> head_value) (update_records p)) of h # _ \<Rightarrow> Some h | [] \<Rightarrow> None)
      | _ \<Rightarrow> None)"

text \<open>\<^verbatim>\<open>sorted(..., reverse=True)\<close> keeps the order of equal keys.\<close>

definition latest_recorded_execution_head :: "reader_env \<Rightarrow> string option" where
  "latest_recorded_execution_head env =
     (case List.map_filter (latest_head_in_artifact \<circ> af_payload) (sort_key (\<lambda>f. - af_number f) (re_batches env)) of
        h # _ \<Rightarrow> Some h
      | [] \<Rightarrow> latest_head_in_artifact (re_finalize env))"

definition execution_baseline :: "json \<Rightarrow> (string \<times> json) list option" where
  "execution_baseline state =
     (case state of
        JObj s \<Rightarrow> (case dget s ''meta'' JNull of
            JObj m \<Rightarrow> (case dget m ''execution_baseline'' JNull of JObj b \<Rightarrow> Some b | _ \<Rightarrow> None)
          | _ \<Rightarrow> None)
      | _ \<Rightarrow> None)"

definition execution_baseline_head :: "json \<Rightarrow> string option" where
  "execution_baseline_head state =
     (case execution_baseline state of Some b \<Rightarrow> stripped_text (dget b ''head'' JNull) | None \<Rightarrow> None)"

definition resolve_execute_authority_current_head :: "reader_env \<Rightarrow> string option \<Rightarrow> string option" where
  "resolve_execute_authority_current_head env baseline =
     (let recorded = latest_recorded_execution_head env;
          actual = (if re_project env then re_project_head env else None);
          fallback = (if recorded \<noteq> None then recorded else if baseline \<noteq> None then baseline else actual)
      in case (actual, recorded) of
           (Some a, Some r) \<Rightarrow>
             if a = r \<or> re_ancestor env r a then Some a
             else if re_ancestor env a r then Some r else fallback
         | _ \<Rightarrow> fallback)"

definition execute_execution_window :: "json \<Rightarrow> string option \<Rightarrow> execution_window option" where
  "execute_execution_window state head =
     (case execution_baseline state of
        None \<Rightarrow> None
      | Some b \<Rightarrow>
          let base = nonempty_text (dget b ''base_sha'' JNull); own = nonempty_text (dget b ''head'' JNull)
          in map_option (\<lambda>sha. \<lparr>ew_base_sha = sha,
                 ew_head_sha = (if given_text head \<noteq> None then head else own)\<rparr>)
               (if base \<noteq> None then base else own))"

subsection \<open>Corroborated tasks\<close>

text \<open>A task id that is a list or a dictionary is not hashable: the check against the links of a
  reference raises, and the task is unknown.\<close>

definition unhashable_id :: "(string \<times> json) list \<Rightarrow> bool" where
  "unhashable_id task \<longleftrightarrow>
     (case satisfaction_task_id task of JArr xs \<Rightarrow> xs \<noteq> [] | JObj d \<Rightarrow> d \<noteq> [] | _ \<Rightarrow> False)"

definition authority_decision_for_task ::
  "(string \<Rightarrow> string \<Rightarrow> bool) \<Rightarrow> string option \<Rightarrow> string option \<Rightarrow> execution_window option \<Rightarrow> evidence_ref list \<Rightarrow>
   (string \<times> json) list \<Rightarrow> authority_verdict" where
  "authority_decision_for_task anc head code_hash window refs task =
     (if unhashable_id task \<and> refs \<noteq> [] then verdict_unknown (reader_task_id task)
      else verdict_from_result (reader_task_id task) (is_task_satisfied anc head code_hash window task refs))"

type_synonym completion = "string list \<times> (string \<rightharpoonup> authority_verdict)"

definition corroborated_completed_task_ids ::
  "reader_env \<Rightarrow> evidence_ref list \<Rightarrow> string option \<Rightarrow> string option \<Rightarrow> execution_window option \<Rightarrow>
   (string \<times> json) list list \<Rightarrow> completion" where
  "corroborated_completed_task_ids env given head code_hash window tasks =
     (let nucleus = resolve_evidence_nucleus env given head;
          verdicts = map (\<lambda>t. (reader_task_id t,
              authority_decision_for_task (re_ancestor env) head code_hash window nucleus t)) tasks
      in (map fst (filter (authoritative \<circ> snd) verdicts), map_of (rev verdicts)))"

subsection \<open>Explained completions\<close>

definition substantive_notes :: "(string \<times> json) list \<Rightarrow> bool" where
  "substantive_notes task \<longleftrightarrow>
     (case dget task ''executor_notes'' JNull of
        JStr n \<Rightarrow> strip n \<noteq> [] \<and> \<not> is_rubber_stamp n True | _ \<Rightarrow> False)"

definition is_explained_skip :: "(string \<times> json) list \<Rightarrow> bool" where
  "is_explained_skip task \<longleftrightarrow>
     status_of task = Some ''skipped'' \<and>
     (nonempty_text (dget task ''reviewer_verdict'' JNull) = Some ''deferred_baseline_unavailable'' \<or>
      substantive_notes task)"

definition declared_task_outputs :: "(string \<times> json) list \<Rightarrow> string list" where
  "declared_task_outputs task =
     filter (\<lambda>f. case dget task f JNull of
         JStr s \<Rightarrow> strip s \<noteq> []
       | JArr xs \<Rightarrow> list_ex (\<lambda>x. case x of JStr s \<Rightarrow> strip s \<noteq> [] | _ \<Rightarrow> False) xs
       | _ \<Rightarrow> False) DECLARED_OUTPUT_FIELDS"

definition is_explained_noop_completion :: "(string \<times> json) list \<Rightarrow> bool" where
  "is_explained_noop_completion task \<longleftrightarrow>
     status_of task \<in> {Some ''done'', Some ''completed''} \<and> declared_task_outputs task = [] \<and> substantive_notes task"

definition is_execute_command_checkpoint :: "(string \<times> json) list \<Rightarrow> bool" where
  "is_execute_command_checkpoint task \<longleftrightarrow>
     status_of task = Some ''pending'' \<and> nonempty_text (dget task ''kind'' JNull) = Some ''test'' \<and>
     string_values (dget task ''commands_run'' JNull) \<noteq> [] \<and>
     list_all (\<lambda>f. string_values (dget task f JNull) = []) [''files_changed'', ''evidence_files'', ''sections_written'']"

definition commands_of :: "(string \<times> json) list \<Rightarrow> string list" where
  "commands_of task = string_values (dget task ''commands_run'' JNull)"

subsection \<open>Evidence of a replayed milestone\<close>

definition milestone_base :: "json \<Rightarrow> string option" where
  "milestone_base state =
     (case state of
        JObj s \<Rightarrow> (case dget s ''meta'' JNull of
            JObj m \<Rightarrow> (case dget m ''chain_policy'' (JObj []) of
                JObj p \<Rightarrow> (case dget p ''milestone_base_sha'' JNull of
                    JStr b \<Rightarrow> if strip b = [] then None else Some b | _ \<Rightarrow> None)
              | _ \<Rightarrow> None)
          | _ \<Rightarrow> None)
      | _ \<Rightarrow> None)"

definition reanchored :: "string list \<Rightarrow> (string \<times> json) list \<Rightarrow> bool" where
  "reanchored committed task \<longleftrightarrow>
     (let files = string_values (dget task ''files_changed'' JNull)
      in has_durable_terminal_task_evidence task \<and> files \<noteq> [] \<and> set files \<subseteq> set committed)"

text \<open>The tasks and the references to use: those of a terminal task whose files are all in the committed
  range are dated to the current revision.\<close>

definition reanchor ::
  "reader_env \<Rightarrow> json \<Rightarrow> string option \<Rightarrow> evidence_ref list \<Rightarrow> (string \<times> json) list list \<Rightarrow>
   (string \<times> json) list list \<times> evidence_ref list" where
  "reanchor env state head given tasks =
     (case (if re_project env then milestone_base state else None, given_text head) of
        (Some base, Some h) \<Rightarrow>
          (case re_committed env base of
             None \<Rightarrow> (tasks, given)
           | Some committed \<Rightarrow>
               let copy = AList.update ''head_sha'' (JStr h)
               in (map (\<lambda>t. if reanchored committed t then copy t else t) tasks,
                   given @ concat (map (\<lambda>t. evidence_from_task_record (Some h) (re_plan_head env)
                       (finalize_file (re_finalize env)) (copy t)) (filter (reanchored committed) tasks))))
      | _ \<Rightarrow> (tasks, given))"

subsection \<open>The view of the accepted attempts\<close>

text \<open>No view when nothing was collected or the records do not reduce; other exceptions propagate.\<close>

definition accepted_attempt_execution_projection ::
  "(string \<Rightarrow> string) \<Rightarrow> reader_env \<Rightarrow> (string \<times> json) list list \<Rightarrow> view_error + plan_execution_view option" where
  "accepted_attempt_execution_projection sha env tasks =
     (case (tasks, re_collected env) of
        ([], _) \<Rightarrow> Inr None
      | (_, None) \<Rightarrow> Inr None
      | (_, Some c) \<Rightarrow>
          (case reduce_run_authority sha (ca_records c) (JStr (ca_run_id c)) (JStr (ca_run_revision c)) JNull of
             Inl ContractTypeError \<Rightarrow> Inl View_Type_Error
           | Inl e \<Rightarrow> Inr None
           | Inr authority \<Rightarrow>
               (case derive_plan_execution_view sha authority (JObj [(''tasks'', JArr (map JObj tasks))])
                       (ca_policy c) (ca_labels c) ''finalize.json'' 5 of
                  Inl View_Value_Error \<Rightarrow> Inr None
                | Inl e \<Rightarrow> Inl e
                | Inr view \<Rightarrow> Inr (Some view))))"

definition satisfied_verdict :: "string \<Rightarrow> authority_verdict" where
  "satisfied_verdict i = \<lparr>av_task_id = i, av_status = Ev_Satisfied, av_satisfied = True\<rparr>"

definition skipped_verdict :: "string \<Rightarrow> authority_verdict" where
  "skipped_verdict i = \<lparr>av_task_id = i, av_status = Ev_Not_Applicable, av_satisfied = False\<rparr>"

definition projection_decisions :: "plan_execution_view \<Rightarrow> string \<rightharpoonup> authority_verdict" where
  "projection_decisions view i =
     map_option (\<lambda>t. if ts_dependency_closed t then satisfied_verdict i else verdict_unknown i)
       (List.find (\<lambda>t. ts_task_id t = i) (pv_tasks view))"

subsection \<open>Effective completion\<close>

definition explained_completion ::
  "reader_env \<Rightarrow> json \<Rightarrow> evidence_ref list \<Rightarrow> string option \<Rightarrow> string option \<Rightarrow> (string \<times> json) list list \<Rightarrow> completion" where
  "explained_completion env state given head code_hash tasks0 =
     (let window = (if re_project env then execute_execution_window state head else None);
          (tasks, refs) = reanchor env state head given tasks0;
          (corroborated, decisions) = corroborated_completed_task_ids env refs head code_hash window tasks;
          skips = map reader_task_id (filter is_explained_skip tasks);
          noops = map reader_task_id (filter is_explained_noop_completion tasks);
          completed = corroborated @ skips @ noops;
          commands = concat (map commands_of (filter (\<lambda>t. reader_task_id t \<in> set completed) tasks));
          shared = map reader_task_id (filter (\<lambda>t. reader_task_id t \<notin> set completed \<and>
              is_execute_command_checkpoint t \<and> set (commands_of t) \<subseteq> set commands) tasks)
      in (completed @ shared,
          \<lambda>i. if i \<in> set shared then Some (satisfied_verdict i)
              else if i \<in> set skips then Some (skipped_verdict i)
              else if i \<in> set noops then Some (satisfied_verdict i)
              else decisions i))"

definition effective_execute_completed_task_ids ::
  "(string \<Rightarrow> string) \<Rightarrow> reader_env \<Rightarrow> json \<Rightarrow> evidence_ref list \<Rightarrow> string option \<Rightarrow> string option \<Rightarrow>
   (string \<times> json) list list \<Rightarrow> view_error + completion" where
  "effective_execute_completed_task_ids sha env state given current code_hash tasks =
     (let head = (if current \<noteq> None then current
                  else resolve_execute_authority_current_head env (execution_baseline_head state))
      in res_bind (accepted_attempt_execution_projection sha env tasks) (\<lambda>projection.
         Inr (case projection of
                Some view \<Rightarrow> (pv_closed_task_ids view, projection_decisions view)
              | None \<Rightarrow> explained_completion env state given head code_hash tasks)))"

end
