(* ===== verification/Execute_Frontier.thy ===== *)
theory Execute_Frontier
  imports Completion_Reader Execute_Policy
begin

section \<open>The frontier of execute batches\<close>

text \<open>
  What \<^verbatim>\<open>execute/batch.py\<close> does to the task rows of \<^verbatim>\<open>finalize.json\<close> before and between batches: the retry
  of blocked tasks, the prerequisites that were resolved, the demotion of rows without authority, the
  adoption of rows with authority, the deferral of checkpoints without a baseline, and the batches that
  can still run next to parked tasks. The rows are dictionaries: the loops pass over other entries, which
  are left out. Locks, the publication of the file, receipts and logging are not modelled.
\<close>

subsection \<open>Rows\<close>

type_synonym task_row = "(string \<times> json) list"

definition row_id :: "task_row \<Rightarrow> string option" where
  "row_id row = as_str (dget row ''id'' JNull)"

definition rows_of :: "(string \<times> json) list \<Rightarrow> task_row list" where
  "rows_of data = (case dget data ''tasks'' (JArr []) of JArr ts \<Rightarrow> List.map_filter as_dict ts | _ \<Rightarrow> [])"

definition put_rows :: "task_row list \<Rightarrow> (string \<times> json) list \<Rightarrow> (string \<times> json) list" where
  "put_rows rows = AList.update ''tasks'' (JArr (map JObj rows))"

text \<open>The loop \<^verbatim>\<open>for task in tasks\<close> that changes the rows a condition picks, of those with a text as id,
  and collects their ids.\<close>

definition picked :: "(string \<Rightarrow> task_row \<Rightarrow> bool) \<Rightarrow> task_row \<Rightarrow> bool" where
  "picked chosen row \<longleftrightarrow> (case row_id row of Some i \<Rightarrow> chosen i row | None \<Rightarrow> False)"

definition picked_ids :: "(string \<Rightarrow> task_row \<Rightarrow> bool) \<Rightarrow> task_row list \<Rightarrow> string list" where
  "picked_ids chosen rows = sort (List.map_filter row_id (filter (picked chosen) rows))"

definition change_picked ::
  "(string \<Rightarrow> task_row \<Rightarrow> bool) \<Rightarrow> (task_row \<Rightarrow> task_row) \<Rightarrow> task_row list \<Rightarrow> task_row list" where
  "change_picked chosen change rows = map (\<lambda>row. if picked chosen row then change row else row) rows"

definition clear_task_attempt_fields :: "task_row \<Rightarrow> task_row" where
  "clear_task_attempt_fields row =
     AList.delete ''recorded_invocation_id'' (dict_update row
       [(''status'', JStr ''pending''), (''executor_notes'', JStr []), (''files_changed'', JArr []),
        (''commands_run'', JArr []), (''evidence_files'', JArr []), (''reviewer_verdict'', JStr [])])"

subsection \<open>The retry of blocked tasks\<close>

definition retryable :: "string list \<Rightarrow> string \<Rightarrow> task_row \<Rightarrow> bool" where
  "retryable excluded i row \<longleftrightarrow>
     i \<notin> set (filter (\<lambda>s. s \<noteq> []) excluded) \<and> (has_status ''blocked'' row \<or> is_contradictory_done_budget_row row)"

definition reset_blocked_tasks_to_pending :: "string list \<Rightarrow> task_row list \<Rightarrow> string list \<times> task_row list" where
  "reset_blocked_tasks_to_pending excluded rows =
     (picked_ids (retryable excluded) rows, change_picked (retryable excluded) clear_task_attempt_fields rows)"

subsection \<open>The test budget gate\<close>

definition TASK_TEST_BUDGET_MARKER :: string where
  "TASK_TEST_BUDGET_MARKER = ''[harness] task_test_budget_exhausted:''"

definition is_task_test_budget_blocked :: "task_row \<Rightarrow> bool" where
  "is_task_test_budget_blocked row \<longleftrightarrow>
     (has_status ''blocked'' row \<or> has_status ''pending'' row) \<and>
     (nonempty_text (dget row ''task_test_budget_exhausted'' JNull) \<noteq> None \<or>
      (case dget row ''executor_notes'' JNull of JStr n \<Rightarrow> contains TASK_TEST_BUDGET_MARKER n | _ \<Rightarrow> False))"

definition budget_blocked_ids :: "task_row list \<Rightarrow> string list" where
  "budget_blocked_ids rows = List.map_filter row_id (filter is_task_test_budget_blocked rows)"

definition scheduler_completed_ids_for_tasks ::
  "(string \<Rightarrow> string) \<Rightarrow> reader_env \<Rightarrow> json \<Rightarrow> task_row list \<Rightarrow> view_error + completion" where
  "scheduler_completed_ids_for_tasks sha env state rows =
     res_bind (effective_execute_completed_task_ids sha env state [] (re_project_head env) None rows) (\<lambda>(ids, decisions).
     Inr (filter (\<lambda>i. i \<notin> set (budget_blocked_ids rows)) ids, decisions))"

subsection \<open>Resolved prerequisites\<close>

text \<open>The user actions that block a task: those it names, else those its notes mention, else those whose
  scope has it.\<close>

definition task_blocking_action_ids ::
  "(string \<times> prerequisite_scope) list \<Rightarrow> task_row \<Rightarrow> string list" where
  "task_blocking_action_ids scopes row =
     (let named = (case dget row ''blocked_by_user_action_ids'' JNull of
             JArr xs \<Rightarrow> filter (\<lambda>a. a \<in> set (map fst scopes)) (List.map_filter as_str xs) | _ \<Rightarrow> []);
          noted = (case dget row ''executor_notes'' JNull of
             JStr n \<Rightarrow> if strip n = [] then [] else filter (\<lambda>a. contains a n) (map fst scopes) | _ \<Rightarrow> [])
      in if named \<noteq> [] then named
         else if noted \<noteq> [] then noted
         else (case row_id row of
                 None \<Rightarrow> []
               | Some i \<Rightarrow> map (ps_action_id \<circ> snd) (filter (\<lambda>(a, s). i \<in> set (ps_effective_task_ids s)) scopes)))"

definition resolution_lets_retry :: "(string \<times> (string \<times> json) list) list \<Rightarrow> string \<Rightarrow> string \<Rightarrow> bool" where
  "resolution_lets_retry effective i action =
     (case map_of effective action of
        None \<Rightarrow> False
      | Some event \<Rightarrow>
          resolution_applies_to_task Memory (JObj event) (Some i) \<and>
          (case resolution_state Memory (JObj event) of
             Some s \<Rightarrow> classify_resolution_behavior s \<noteq> Hard_Block | None \<Rightarrow> False))"

definition prerequisite_resolved ::
  "(string \<times> prerequisite_scope) list \<Rightarrow> (string \<times> (string \<times> json) list) list \<Rightarrow> string \<Rightarrow> task_row \<Rightarrow> bool" where
  "prerequisite_resolved scopes effective i row \<longleftrightarrow>
     (let actions = filter (\<lambda>a. a \<in> set (map fst scopes)) (task_blocking_action_ids scopes row)
      in has_status ''blocked'' row \<and> actions \<noteq> [] \<and> list_all (resolution_lets_retry effective i) actions)"

definition reset_resolved_prerequisite_blocked_tasks ::
  "json_file option \<Rightarrow> json \<Rightarrow> (string \<times> json) list \<Rightarrow> task_row list \<Rightarrow> phase_error + string list \<times> task_row list" where
  "reset_resolved_prerequisite_blocked_tasks f state data rows =
     (let scopes = build_prerequisite_scopes data
      in if scopes = [] then Inr ([], rows)
         else res_bind (effective_user_action_resolutions f state) (\<lambda>effective.
           if effective = [] then Inr ([], rows)
           else Inr (picked_ids (prerequisite_resolved scopes effective) rows,
                     change_picked (prerequisite_resolved scopes effective) clear_task_attempt_fields rows)))"

subsection \<open>Demotion and adoption\<close>

definition has_genuine_task_level_blocker :: "task_row \<Rightarrow> bool" where
  "has_genuine_task_level_blocker row \<longleftrightarrow>
     list_ex (\<lambda>k. case dget row k JNull of JStr s \<Rightarrow> strip s \<noteq> [] | JArr xs \<Rightarrow> xs \<noteq> [] | _ \<Rightarrow> False)
       [''blocked_by'', ''blocked_by_user_action_ids'', ''unresolved_dependency_ids''] \<or>
     (case dget row ''blocked_reason'' JNull of
        JStr r \<Rightarrow> strip r \<noteq> [] \<and> strip r \<noteq> ''validation_blocked'' | _ \<Rightarrow> False)"

definition decided_satisfied :: "(string \<rightharpoonup> authority_verdict) \<Rightarrow> string \<Rightarrow> bool" where
  "decided_satisfied decisions i \<longleftrightarrow> (case decisions i of Some v \<Rightarrow> av_satisfied v | None \<Rightarrow> False)"

definition stale_authority :: "completion \<Rightarrow> string \<Rightarrow> task_row \<Rightarrow> bool" where
  "stale_authority completion i row \<longleftrightarrow>
     (case completion of (completed, decisions) \<Rightarrow>
        ((has_status ''done'' row \<or> has_status ''completed'' row) \<and> i \<notin> set completed \<or>
         has_status ''blocked'' row \<and> i \<notin> set completed \<and> \<not> has_genuine_task_level_blocker row) \<and>
        \<not> decided_satisfied decisions i)"

definition reset_stale_authority_done_tasks ::
  "(task_row list \<Rightarrow> view_error + completion) \<Rightarrow> task_row list \<Rightarrow> view_error + string list \<times> task_row list" where
  "reset_stale_authority_done_tasks reading rows =
     (if rows = [] then Inr ([], rows)
      else res_bind (reading rows) (\<lambda>completion.
        Inr (picked_ids (stale_authority completion) rows,
             change_picked (stale_authority completion) clear_task_attempt_fields rows)))"

text \<open>The tasks whose batch artifacts carry the budget block, less those whose debt was accepted. The
  payloads are those of all batch artifacts, the receipts those of the verification directory.\<close>

definition entry_budget_blocked :: "json \<Rightarrow> string option" where
  "entry_budget_blocked entry =
     (case entry of
        JObj e \<Rightarrow>
          let i = (if truthy (dget e ''task_id'' JNull) then dget e ''task_id'' JNull else dget e ''id'' JNull)
          in if nonblank_str (dget e ''task_test_budget_exhausted'' JNull) then as_str i else None
      | _ \<Rightarrow> None)"

definition accepted_debt :: "json \<Rightarrow> string option" where
  "accepted_debt receipt =
     (case receipt of
        JObj r \<Rightarrow> if dget r ''disposition'' JNull = JStr ''accepted_with_debt'' then as_str (dget r ''task_id'' JNull) else None
      | _ \<Rightarrow> None)"

definition envelope_budget_blocked_task_ids :: "json list \<Rightarrow> json list \<Rightarrow> string list" where
  "envelope_budget_blocked_task_ids payloads receipts =
     (let entries = concat (map (\<lambda>p. concat (map (\<lambda>k.
            case dget (dict_or_empty p) k JNull of JArr xs \<Rightarrow> xs | _ \<Rightarrow> []) [''task_updates'', ''result_envelopes''])) payloads)
      in filter (\<lambda>i. i \<notin> set (List.map_filter accepted_debt receipts)) (List.map_filter entry_budget_blocked entries))"

definition adoptable :: "completion \<Rightarrow> string list \<Rightarrow> string \<Rightarrow> task_row \<Rightarrow> bool" where
  "adoptable completion enveloped i row \<longleftrightarrow>
     (has_status ''blocked'' row \<or> has_status ''pending'' row) \<and> \<not> is_task_test_budget_blocked row \<and>
     i \<notin> set enveloped \<and> i \<in> set (fst completion) \<and> decided_satisfied (snd completion) i"

definition promote :: "task_row \<Rightarrow> task_row" where
  "promote row =
     fold AList.delete [''blocked_reason'', ''blocked_by'', ''task_test_budget_exhausted'', ''blocked_attempt_ids'',
       ''unresolved_dependency_ids''] (AList.update ''status'' (JStr ''done'') row)"

definition adopt_authority_completed_blocked_tasks ::
  "(task_row list \<Rightarrow> view_error + completion) \<Rightarrow> string list \<Rightarrow> task_row list \<Rightarrow>
   view_error + string list \<times> task_row list" where
  "adopt_authority_completed_blocked_tasks reading enveloped rows =
     (if rows = [] then Inr ([], rows)
      else res_bind (reading rows) (\<lambda>completion.
        Inr (picked_ids (adoptable completion enveloped) rows,
             change_picked (adoptable completion enveloped) promote rows)))"

subsection \<open>Checkpoints without a baseline\<close>

definition BASELINE_VERIFICATION_MARKER :: string where
  "BASELINE_VERIFICATION_MARKER = ''introduce no new failures vs the recorded baseline''"

definition is_baseline_dependent_verification_task :: "task_row \<Rightarrow> bool" where
  "is_baseline_dependent_verification_task row \<longleftrightarrow>
     dget row ''kind'' JNull \<in> {JStr ''audit'', JStr ''proof'', JStr ''verification''} \<and>
     (case dget row ''description'' JNull of JStr d \<Rightarrow> contains BASELINE_VERIFICATION_MARKER (lower d) | _ \<Rightarrow> False)"

text \<open>The second definition of that name in the file, which replaces the first.\<close>

definition baseline_unavailable_checkpoint_ids :: "(string \<times> json) list \<Rightarrow> string list \<Rightarrow> string list" where
  "baseline_unavailable_checkpoint_ids data candidates =
     (if dget data ''baseline_test_failures'' JNull \<noteq> JNull then []
      else List.map_filter row_id (filter (picked (\<lambda>i row.
        i \<noteq> [] \<and> i \<in> set candidates \<and> is_baseline_dependent_verification_task row)) (rows_of data)))"

definition DEFER_NOTE :: string where
  "DEFER_NOTE = ''Deferred by harness: baseline_test_failures is null, so this '' @
     ''no-new-failures checkpoint cannot compare against a recorded '' @
     ''baseline. The harness-owned final verification/review phase '' @ ''remains authoritative.''"

text \<open>Whether the dependencies that are texts are rows that are done or skipped; the last row of an id
  counts. A value that cannot be iterated raises.\<close>

definition settled_row :: "task_row list \<Rightarrow> string \<Rightarrow> bool" where
  "settled_row rows i =
     (case List.find (\<lambda>r. row_id r = Some i) (rev rows) of
        Some r \<Rightarrow> has_status ''done'' r \<or> has_status ''skipped'' r | None \<Rightarrow> False)"

definition task_dependencies_complete :: "task_row list \<Rightarrow> task_row \<Rightarrow> phase_error + bool" where
  "task_dependencies_complete rows row =
     (let v = dget row ''depends_on'' JNull
      in case iter_values (if truthy v then v else JArr []) of
           Inl e \<Rightarrow> Inl (Py TypeError)
         | Inr ds \<Rightarrow> Inr (list_all (settled_row rows) (List.map_filter as_str ds)))"

definition defer_row :: "task_row \<Rightarrow> task_row" where
  "defer_row row =
     (let v = dget row ''executor_notes'' JNull; prior = (if truthy v then strip (py_str v) else [])
      in AList.delete ''recorded_invocation_id'' (dict_update row
           [(''status'', JStr ''skipped''),
            (''executor_notes'', JStr (if prior = [] then DEFER_NOTE else prior @ [CHR 0x0A] @ DEFER_NOTE)),
            (''files_changed'', JArr []), (''commands_run'', JArr []), (''evidence_files'', JArr []),
            (''reviewer_verdict'', JStr ''deferred_baseline_unavailable'')]))"

definition deferrable :: "task_row list \<Rightarrow> task_row \<Rightarrow> phase_error + string option" where
  "deferrable rows row =
     (case row_id row of
        None \<Rightarrow> Inr None
      | Some i \<Rightarrow>
          if has_status ''pending'' row \<or> has_status ''blocked'' row
          then res_bind (task_dependencies_complete rows row) (\<lambda>complete.
                 Inr (if complete \<and> is_baseline_dependent_verification_task row then Some i else None))
          else Inr None)"

text \<open>A row that was deferred counts as skipped for the rows after it.\<close>

fun defer_loop :: "task_row list \<Rightarrow> task_row list \<Rightarrow> phase_error + string list \<times> task_row list" where
  "defer_loop before [] = Inr ([], before)"
| "defer_loop before (row # rest) =
     res_bind (deferrable (before @ row # rest) row) (\<lambda>chosen.
       case chosen of
         None \<Rightarrow> defer_loop (before @ [row]) rest
       | Some i \<Rightarrow> res_bind (defer_loop (before @ [defer_row row]) rest) (\<lambda>(ids, rows). Inr (i # ids, rows)))"

definition sense_checks_of :: "(string \<times> json) list \<Rightarrow> json list" where
  "sense_checks_of data = (case dget data ''sense_checks'' JNull of JArr xs \<Rightarrow> xs | _ \<Rightarrow> [])"

definition acknowledgment :: "string \<Rightarrow> json" where
  "acknowledgment i = JObj [(''sense_check_id'', JStr i), (''executor_note'', JStr DEFER_NOTE)]"

definition acknowledgments_of :: "json list \<Rightarrow> string \<Rightarrow> json list" where
  "acknowledgments_of checks i =
     (let matching = List.map_filter (\<lambda>c. case c of
            JObj d \<Rightarrow> if dget d ''task_id'' JNull = JStr i then nonempty_text (dget d ''id'' JNull) else None
          | _ \<Rightarrow> None) checks
      in if matching = [] then [acknowledgment (''baseline-unavailable-'' @ i)] else map acknowledgment matching)"

definition note_check :: "string list \<Rightarrow> json \<Rightarrow> json" where
  "note_check ids c =
     (case c of
        JObj d \<Rightarrow> if dget d ''task_id'' JNull \<in> JStr ` set ids then JObj (AList.update ''executor_note'' (JStr DEFER_NOTE) d) else c
      | _ \<Rightarrow> c)"

definition defer_baseline_unavailable_checkpoints ::
  "(string \<times> json) list \<Rightarrow> phase_error + (string list \<times> json list) \<times> (string \<times> json) list" where
  "defer_baseline_unavailable_checkpoints data =
     (if dget data ''baseline_test_failures'' JNull \<noteq> JNull \<or> as_list (dget data ''tasks'' JNull) = None
      then Inr (([], []), data)
      else res_bind (defer_loop [] (rows_of data)) (\<lambda>(ids, rows).
        let checks = sense_checks_of data;
            noted = (if checks = [] then data else AList.update ''sense_checks'' (JArr (map (note_check ids) checks)) data)
        in Inr ((ids, concat (map (acknowledgments_of checks) ids)), put_rows rows noted)))"

subsection \<open>The start of a session\<close>

datatype frontier_error = Frontier_Phase_Error phase_error | Reading_Error view_error | Assertion_Error "string list"

fun lift_error :: "('e \<Rightarrow> frontier_error) \<Rightarrow> 'e + 'a \<Rightarrow> frontier_error + 'a" where
  "lift_error f (Inl e) = Inl (f e)"
| "lift_error f (Inr x) = Inr x"

text \<open>With \<^verbatim>\<open>--retry-blocked-tasks\<close>: the ids the policy reruns, and the partition that is checked against
  it. The list of ids is what the policy expects; a different one is only logged.\<close>

definition retry_exclusions ::
  "(string \<times> json) list \<Rightarrow> string list \<Rightarrow> string list" where
  "retry_exclusions data completed =
     (let rows = rows_of data;
          blocked = List.map_filter row_id (filter (has_status ''blocked'') rows);
          gated = List.map_filter row_id
            (filter (\<lambda>r. is_task_test_budget_blocked r \<or> is_contradictory_done_budget_row r) rows)
      in baseline_unavailable_checkpoint_ids data blocked @ filter (\<lambda>i. i \<notin> set gated) completed)"

definition retry_blocked_tasks ::
  "(task_row list \<Rightarrow> view_error + completion) \<Rightarrow> (string \<times> json) list \<Rightarrow>
   frontier_error + (string list \<times> string list) \<times> (string \<times> json) list" where
  "retry_blocked_tasks reading data =
     res_bind (lift_error Reading_Error (reading (rows_of data))) (\<lambda>(completed, decisions).
       let rows = rows_of data;
           excluded = retry_exclusions data completed;
           decision = resolve_partial_failure_resume (map JObj rows) [] [] [];
           (ids, rows') = reset_blocked_tasks_to_pending excluded rows;
           expected = filter (\<lambda>i. i \<notin> set excluded) (rd_rerun decision);
           violation = filter (\<lambda>i. i \<in> set (rd_preserved decision)) (sorted_set ids)
       in res_bind (ensure (violation = []) (Assertion_Error violation)) (\<lambda>_.
          Inr ((ids, expected), put_rows rows' data)))"

text \<open>
  The finalize data and the list \<^verbatim>\<open>tasks\<close>: the rows of the data (\<open>None\<close>), or a list of its own, left from
  before the file was read again.
\<close>

record frontier =
  fr_data :: "(string \<times> json) list"
  fr_detached :: "task_row list option"

definition fr_tasks :: "frontier \<Rightarrow> task_row list" where
  "fr_tasks f = (case fr_detached f of Some rows \<Rightarrow> rows | None \<Rightarrow> rows_of (fr_data f))"

text \<open>A change of the data; \<^verbatim>\<open>tasks\<close> is bound again when rows changed.\<close>

definition rebind :: "string list \<Rightarrow> (string \<times> json) list \<Rightarrow> frontier \<Rightarrow> frontier" where
  "rebind ids data f = (if ids = [] then f\<lparr>fr_data := data\<rparr> else \<lparr>fr_data = data, fr_detached = None\<rparr>)"

text \<open>The file that is read again, if it can be.\<close>

definition sync_resolved_prerequisite_blocked_tasks ::
  "json_file option \<Rightarrow> json \<Rightarrow> (string \<times> json) list option \<Rightarrow> frontier \<Rightarrow> frontier_error + frontier" where
  "sync_resolved_prerequisite_blocked_tasks f state reread fr =
     (let fr' = (case reread of Some d \<Rightarrow> \<lparr>fr_data = d, fr_detached = Some (fr_tasks fr)\<rparr> | None \<Rightarrow> fr);
          data = fr_data fr'
      in res_bind (lift_error Frontier_Phase_Error (reset_resolved_prerequisite_blocked_tasks f state data (rows_of data)))
           (\<lambda>(ids, rows). Inr (rebind ids (if ids = [] then data else put_rows rows data) fr')))"

definition frontier_stage ::
  "(task_row list \<Rightarrow> view_error + string list \<times> task_row list) \<Rightarrow> frontier \<Rightarrow> frontier_error + frontier" where
  "frontier_stage stage fr =
     res_bind (lift_error Reading_Error (stage (rows_of (fr_data fr)))) (\<lambda>(ids, rows).
       Inr (rebind ids (if ids = [] then fr_data fr else put_rows rows (fr_data fr)) fr))"

definition clear_contradictory_rows :: "task_row list \<Rightarrow> task_row list" where
  "clear_contradictory_rows rows =
     (let ids = picked_ids (\<lambda>i row. is_contradictory_done_budget_row row) rows
      in change_picked (\<lambda>i row. i \<in> set ids) clear_task_attempt_fields rows)"

definition clear_contradictory :: "frontier \<Rightarrow> frontier" where
  "clear_contradictory fr =
     (case fr_detached fr of
        Some rows \<Rightarrow> fr\<lparr>fr_detached := Some (clear_contradictory_rows rows)\<rparr>
      | None \<Rightarrow> fr\<lparr>fr_data := put_rows (clear_contradictory_rows (rows_of (fr_data fr))) (fr_data fr)\<rparr>)"

definition defer_stage :: "frontier \<Rightarrow> frontier_error + frontier" where
  "defer_stage fr =
     res_bind (lift_error Frontier_Phase_Error (defer_baseline_unavailable_checkpoints (fr_data fr)))
       (\<lambda>((ids, acks), data). Inr (rebind ids data fr))"

record frontier_args =
  fa_retry_blocked :: bool
  fa_resolutions :: "json_file option"
  fa_reread :: "(string \<times> json) list option"
  fa_enveloped :: "string list"
  fa_review_exists :: bool

definition prepare_frontier ::
  "(task_row list \<Rightarrow> view_error + completion) \<Rightarrow> json \<Rightarrow> frontier_args \<Rightarrow> (string \<times> json) list \<Rightarrow>
   frontier_error + frontier" where
  "prepare_frontier reading state args data0 =
     res_bind (if fa_retry_blocked args
               then res_bind (retry_blocked_tasks reading data0) (\<lambda>(ids, data). Inr data)
               else Inr data0) (\<lambda>data.
     res_bind (sync_resolved_prerequisite_blocked_tasks (fa_resolutions args) state (fa_reread args)
                 \<lparr>fr_data = data, fr_detached = None\<rparr>) (\<lambda>synced.
     res_bind (frontier_stage (reset_stale_authority_done_tasks reading) synced) (\<lambda>demoted.
     res_bind (frontier_stage (adopt_authority_completed_blocked_tasks reading (fa_enveloped args)) demoted) (\<lambda>adopted.
     res_bind (defer_stage adopted) (\<lambda>deferred.
     Inr (if fa_review_exists args then deferred else clear_contradictory deferred))))))"

text \<open>What runs next: the ids that are complete, those that are blocked and the rows that are pending.\<close>

definition pending_frontier ::
  "(task_row list \<Rightarrow> view_error + completion) \<Rightarrow> task_row list \<Rightarrow>
   view_error + (string list \<times> string list) \<times> task_row list" where
  "pending_frontier reading rows =
     res_bind (reading rows) (\<lambda>(completed, decisions).
       Inr ((completed,
             List.map_filter row_id (filter (picked (\<lambda>i r. has_status ''blocked'' r \<and> i \<notin> set completed)) rows)),
            filter (picked (\<lambda>i r. \<not> has_status ''blocked'' r \<and> i \<notin> set completed)) rows))"

subsection \<open>Batches next to parked tasks\<close>

definition park_blocked_task_dispositions :: "string list \<Rightarrow> json \<Rightarrow> task_row list \<Rightarrow> task_row list" where
  "park_blocked_task_dispositions ids invocation rows =
     (let parked = (\<lambda>row. dget row ''id'' JNull \<in> JStr ` set (filter (\<lambda>s. s \<noteq> []) ids));
          stamp = (\<lambda>row. if truthy invocation then AList.update ''recorded_invocation_id'' invocation row else row)
      in map (\<lambda>row. if parked row
           then stamp (AList.update ''blocked_reason''
             (JStr (if has_genuine_task_level_blocker row then ''prerequisite_blocked'' else ''validation_blocked'')) row)
           else row) rows)"

text \<open>Blocked rows a different invocation recorded are tried again.\<close>

definition cross_session :: "json \<Rightarrow> string list \<Rightarrow> task_row list \<Rightarrow> bool" where
  "cross_session invocation blocked rows \<longleftrightarrow>
     truthy invocation \<and>
     list_ex (picked (\<lambda>i r. i \<in> set blocked \<and>
       (case nonempty_text (dget r ''recorded_invocation_id'' JNull) of
          Some recorded \<Rightarrow> JStr recorded \<noteq> invocation | None \<Rightarrow> False))) rows"

definition reset_cross_session :: "json \<Rightarrow> string list \<Rightarrow> task_row list \<Rightarrow> task_row list" where
  "reset_cross_session invocation blocked rows =
     (if cross_session invocation blocked rows
      then change_picked (\<lambda>i r. i \<in> set blocked) clear_task_attempt_fields rows else rows)"

text \<open>The dependents of each task, by its id.\<close>

definition row_deps :: "task_row \<Rightarrow> string list" where
  "row_deps row = (case dget row ''depends_on'' JNull of JArr ds \<Rightarrow> List.map_filter as_str ds | _ \<Rightarrow> [])"

definition known_ids :: "task_row list \<Rightarrow> string list" where
  "known_ids rows = filter (\<lambda>i. i \<noteq> []) (List.map_filter row_id rows)"

definition dependents :: "task_row list \<Rightarrow> string \<Rightarrow> string list" where
  "dependents rows dep =
     List.map_filter row_id (filter (picked (\<lambda>i r. i \<noteq> [] \<and> dep \<in> set (row_deps r))) rows)"

text \<open>One pass over the ids in order: the dependents of an id that is in the closure join it.\<close>

definition closure_pass :: "task_row list \<Rightarrow> string list \<Rightarrow> string list" where
  "closure_pass rows closed0 =
     foldl (\<lambda>closed dep. if dep \<in> set closed
              then closed @ filter (\<lambda>i. i \<notin> set closed) (first_occurrences (dependents rows dep)) else closed)
       closed0 (first_occurrences (known_ids rows))"

lemma closure_pass_extends:
  "\<exists>new. foldl (\<lambda>closed dep. if dep \<in> set closed
              then closed @ filter (\<lambda>i. i \<notin> set closed) (first_occurrences (dependents rows dep)) else closed)
       closed0 deps = closed0 @ new \<and> set new \<subseteq> set (known_ids rows) - set closed0"
proof (induction deps arbitrary: closed0)
  case (Cons dep deps)
  define new0 where "new0 = (if dep \<in> set closed0
    then filter (\<lambda>i. i \<notin> set closed0) (first_occurrences (dependents rows dep)) else [])"
  have 0: "set new0 \<subseteq> set (known_ids rows) - set closed0"
    by (auto simp: new0_def dependents_def known_ids_def picked_def map_filter_def split: option.splits)
  obtain new where "foldl (\<lambda>closed dep. if dep \<in> set closed
              then closed @ filter (\<lambda>i. i \<notin> set closed) (first_occurrences (dependents rows dep)) else closed)
       (closed0 @ new0) deps = (closed0 @ new0) @ new" "set new \<subseteq> set (known_ids rows) - set (closed0 @ new0)"
    using Cons.IH [of "closed0 @ new0"] by blast
  with 0 show ?case by (intro exI [of _ "new0 @ new"]) (auto simp: new0_def)
qed simp

function closure_loop :: "task_row list \<Rightarrow> string list \<Rightarrow> string list" where
  "closure_loop rows closed =
     (let closed' = closure_pass rows closed
      in if closed' = closed then closed else closure_loop rows closed')"
  by pat_completeness auto
termination
proof (relation "measure (\<lambda>(rows, closed). card (set (known_ids rows) - set closed))")
  fix rows closed closed'
  assume c: "closed' = closure_pass rows closed" "closed' \<noteq> closed"
  then obtain new where new: "closed' = closed @ new" "set new \<subseteq> set (known_ids rows) - set closed"
    using closure_pass_extends [of rows closed "first_occurrences (known_ids rows)"] by (auto simp: closure_pass_def)
  with c(2) have "set (known_ids rows) - set closed' \<subset> set (known_ids rows) - set closed" by (cases new) auto
  then show "((rows, closed'), rows, closed) \<in> measure (\<lambda>(rows, closed). card (set (known_ids rows) - set closed))"
    by (simp add: psubset_card_mono)
qed simp

declare closure_loop.simps [simp del]

definition dependency_closed_blocked_task_ids :: "task_row list \<Rightarrow> string list \<Rightarrow> string list" where
  "dependency_closed_blocked_task_ids rows blocked = closure_loop rows (first_occurrences (filter (\<lambda>i. i \<noteq> []) blocked))"

text \<open>\<^verbatim>\<open>x >= n\<close> of a number and a small positive integer: the \<^verbatim>\<open>repr\<close> of a float is a decimal, with an
  exponent outside the range of small numbers.\<close>

fun at_least :: "nat \<Rightarrow> json \<Rightarrow> bool" where
  "at_least n (JInt i) = (int n \<le> i)"
| "at_least n (JBool b) = (b \<and> n \<le> 1)"
| "at_least n (JFloat r) =
     (if r = ''inf'' then True
      else if r = ''nan'' \<or> take 1 r = ''-'' then False
      else if CHR ''e'' \<in> set r then contains ''e+'' r
      else n \<le> digits_value (takeWhile digit_char r))"
| "at_least n v = False"

definition heavy_task :: "task_row \<Rightarrow> bool" where
  "heavy_task row \<longleftrightarrow> at_least 8 (dget row ''estimated_minutes'' JNull) \<or> at_least 6 (dget row ''complexity'' JNull)"

definition weight_aware_max_tasks_per_batch :: "int \<Rightarrow> task_row list \<Rightarrow> int" where
  "weight_aware_max_tasks_per_batch base0 rows =
     (let base = max 1 base0
      in if base \<le> 1 \<or> rows = [] then base
         else if list_ex heavy_task rows \<and> 2 \<le> length rows then min base 2 else base)"

definition sched_row :: "task_row \<Rightarrow> sched_task" where
  "sched_row row =
     \<lparr>tk_id = (case row_id row of Some i \<Rightarrow> i | None \<Rightarrow> []),
      tk_depends_on = (case dget row ''depends_on'' (JArr []) of JArr ds \<Rightarrow> Some (List.map_filter as_str ds) | _ \<Rightarrow> None)\<rparr>"

definition parked_ids :: "string list \<Rightarrow> task_row list \<Rightarrow> string list" where
  "parked_ids completed rows =
     List.map_filter row_id (filter (picked (\<lambda>i r. has_status ''blocked'' r \<and> i \<notin> set completed)) rows)"

definition runnable_rows :: "string list \<Rightarrow> task_row list \<Rightarrow> task_row list" where
  "runnable_rows completed rows =
     (let excluded = dependency_closed_blocked_task_ids rows (parked_ids completed rows)
      in filter (picked (\<lambda>i r. \<not> has_status ''blocked'' r \<and> i \<notin> set completed \<and> i \<notin> set excluded)) rows)"

text \<open>The first dependency that is no text; no task has it as its id, so batching reports it as unknown
  (and raises \<^verbatim>\<open>TypeError\<close> for one that is not hashable).\<close>

definition raw_deps :: "task_row \<Rightarrow> json list" where
  "raw_deps row = (case dget row ''depends_on'' (JArr []) of JArr ds \<Rightarrow> ds | _ \<Rightarrow> [])"

definition untyped_dependency :: "task_row list \<Rightarrow> (string \<times> string) option" where
  "untyped_dependency rows =
     (case concat (map (\<lambda>r. map (\<lambda>d. (py_str d, tk_id (sched_row r))) (filter (\<lambda>d. \<not> is_str d) (raw_deps r))) rows) of
        [] \<Rightarrow> None | p # _ \<Rightarrow> Some p)"

definition batches_of_rows :: "task_row list \<Rightarrow> string list \<Rightarrow> sched_error + string list list" where
  "batches_of_rows rows completed =
     (case untyped_dependency rows of
        Some (d, i) \<Rightarrow> Inl (UnknownDependency d i)
      | None \<Rightarrow> compute_task_batches (map sched_row rows) completed)"

text \<open>An error while isolating complex tasks leaves the batches as they are.\<close>

definition recompute_runnable_batches ::
  "(string \<times> json) list \<Rightarrow> string list \<Rightarrow> int \<Rightarrow> sched_error + string list list" where
  "recompute_runnable_batches data completed max_tasks =
     (let rows = rows_of data; runnable = runnable_rows completed rows
      in if parked_ids completed rows = [] \<or> runnable = [] then Inr []
         else res_bind (batches_of_rows runnable completed) (\<lambda>batches.
           let cap = weight_aware_max_tasks_per_batch max_tasks rows;
               split = split_oversized_batches batches cap 5
           in Inr (case split_high_complexity_batches split data cap of Inr bs \<Rightarrow> bs | Inl e \<Rightarrow> split)))"

end
