(* ===== verification/Frontier_Facts.thy ===== *)
theory Frontier_Facts
  imports Execute_Frontier Plan_View_Facts Execution_Facts
begin

section \<open>What the frontier of execute batches guarantees\<close>

text \<open>
  The retry of blocked tasks agrees with the resume policy, the budget gate survives every change of the
  rows but a deferral, demotion and adoption reach a fixed point, tasks parked in a session hold back exactly
  their dependents, and completion by authority is a matter of the collected records alone.
\<close>

subsection \<open>Rows\<close>

lemma row_id_Some_iff: "row_id r = Some i \<longleftrightarrow> dget r ''id'' JNull = JStr i"
  by (simp add: row_id_def)

lemma mem_map_filter_iff: "x \<in> set (List.map_filter f xs) \<longleftrightarrow> (\<exists>y \<in> set xs. f y = Some x)"
  by (induction xs) (auto simp: map_filter_simps split: option.splits)

lemma dget_clear:
  "dget (clear_task_attempt_fields r) k v =
     (if k = ''recorded_invocation_id'' then v
      else if k = ''status'' then JStr ''pending''
      else if k \<in> {''executor_notes'', ''reviewer_verdict''} then JStr []
      else if k \<in> {''files_changed'', ''commands_run'', ''evidence_files''} then JArr []
      else dget r k v)"
  by (simp add: clear_task_attempt_fields_def)

lemma row_id_clear [simp]: "row_id (clear_task_attempt_fields r) = row_id r"
  by (simp add: row_id_def dget_clear)

lemma dget_promote:
  "dget (promote r) k v =
     (if k \<in> {''blocked_reason'', ''blocked_by'', ''task_test_budget_exhausted'', ''blocked_attempt_ids'',
              ''unresolved_dependency_ids''} then v
      else if k = ''status'' then JStr ''done'' else dget r k v)"
  by (auto simp: promote_def)

lemma row_id_promote [simp]: "row_id (promote r) = row_id r"
  by (simp add: row_id_def dget_promote)

lemma length_change_picked [simp]: "length (change_picked P f rows) = length rows"
  by (simp add: change_picked_def)

lemma nth_change_picked [simp]:
  "k < length rows \<Longrightarrow> change_picked P f rows ! k = (if picked P (rows ! k) then f (rows ! k) else rows ! k)"
  by (simp add: change_picked_def)

lemma set_picked_ids: "i \<in> set (picked_ids P rows) \<longleftrightarrow> (\<exists>r \<in> set rows. row_id r = Some i \<and> P i r)"
  by (auto simp: picked_ids_def mem_map_filter_iff picked_def split: option.splits)

lemma picked_ids_empty: "picked_ids P rows = [] \<longleftrightarrow> (\<forall>r \<in> set rows. \<not> picked P r)"
proof
  assume "picked_ids P rows = []"
  then have "i \<notin> set (picked_ids P rows)" for i by simp
  then show "\<forall>r \<in> set rows. \<not> picked P r"
    unfolding set_picked_ids picked_def by (auto split: option.splits)
qed (simp add: picked_ids_def map_filter_simps)

lemma change_picked_none: "picked_ids P rows = [] \<Longrightarrow> change_picked P f rows = rows"
  by (simp add: picked_ids_empty change_picked_def map_idI)

lemma rows_of_put [simp]: "rows_of (put_rows rows data) = rows"
  by (simp add: rows_of_def put_rows_def map_filter_def comp_def)

subsection \<open>The retry agrees with the policy\<close>

lemma identified_rows: "identified_tasks (map JObj rows) = List.map_filter (\<lambda>r. map_option (\<lambda>i. (i, r)) (row_id r)) rows"
  by (induction rows) (simp_all add: identified_tasks_def row_id_def split: json.split)

lemma identified_image:
  "i \<in> fst ` {x \<in> set (identified_tasks (map JObj rows)). Q x} \<longleftrightarrow> (\<exists>r \<in> set rows. row_id r = Some i \<and> Q (i, r))"
proof -
  have "x \<in> set (identified_tasks (map JObj rows)) \<longleftrightarrow> snd x \<in> set rows \<and> row_id (snd x) = Some (fst x)" for x
    by (cases x) (auto simp: identified_rows mem_map_filter_iff)
  then show ?thesis by force
qed

lemma rerun_rows:
  "i \<in> set (rd_rerun (resolve_partial_failure_resume (map JObj rows) [] a b)) \<longleftrightarrow>
     (\<exists>r \<in> set rows. row_id r = Some i \<and> (has_status ''blocked'' r \<or> is_contradictory_done_budget_row r))"
  unfolding rd_sets identified_image by (simp add: reruns_task_def disj_commute)

lemma preserved_rows:
  "i \<in> set (rd_preserved (resolve_partial_failure_resume (map JObj rows) [] a b)) \<longleftrightarrow>
     (\<exists>r \<in> set rows. row_id r = Some i \<and> \<not> is_contradictory_done_budget_row r \<and>
        (has_status ''done'' r \<or> has_status ''skipped'' r))"
  unfolding rd_sets identified_image by (simp add: preserves_task_def RESUME_PRESERVED_STATUSES_def)

definition distinct_ids :: "task_row list \<Rightarrow> bool" where
  "distinct_ids rows \<longleftrightarrow> distinct (List.map_filter row_id rows) \<and> [] \<notin> set (List.map_filter row_id rows)"

lemma distinct_ids_unique:
  "distinct_ids rows \<Longrightarrow> r \<in> set rows \<Longrightarrow> r' \<in> set rows \<Longrightarrow> row_id r = Some i \<Longrightarrow> row_id r' = Some i \<Longrightarrow> r = r'"
proof (induction rows)
  case (Cons x rows)
  have "distinct_ids rows" using Cons.prems(1) by (auto simp: distinct_ids_def map_filter_simps split: option.splits)
  moreover have "i \<notin> set (List.map_filter row_id rows)" if "row_id x = Some i"
    using Cons.prems(1) that by (auto simp: distinct_ids_def map_filter_simps)
  then have "row_id y \<noteq> Some i" if "row_id x = Some i" "y \<in> set rows" for y
    using that by (auto simp: mem_map_filter_iff)
  ultimately show ?case using Cons.IH Cons.prems(2-5) by auto
qed simp

lemma distinct_picked: "distinct_ids rows \<Longrightarrow> distinct (picked_ids P rows)"
proof (induction rows)
  case (Cons x rows)
  have "distinct_ids rows" using Cons.prems by (auto simp: distinct_ids_def map_filter_simps split: option.splits)
  note ih = Cons.IH [OF this]
  have "i \<notin> set (List.map_filter row_id (filter (picked P) rows))" if "row_id x = Some i" for i
    using Cons.prems that by (auto simp: distinct_ids_def map_filter_simps mem_map_filter_iff)
  then show ?case using ih by (auto simp: picked_ids_def map_filter_simps split: option.splits)
qed (simp add: picked_ids_def map_filter_simps)

lemma policy_ids:
  assumes "distinct_ids rows"
  shows "picked_ids (retryable excluded) rows =
    filter (\<lambda>i. i \<notin> set excluded) (rd_rerun (resolve_partial_failure_resume (map JObj rows) [] a b))"
proof (rule sorted_distinct_set_unique)
  have nonempty: "row_id r \<noteq> Some []" if "r \<in> set rows" for r
    using assms that by (auto simp: distinct_ids_def mem_map_filter_iff)
  show "set (picked_ids (retryable excluded) rows) =
    set (filter (\<lambda>i. i \<notin> set excluded) (rd_rerun (resolve_partial_failure_resume (map JObj rows) [] a b)))"
    using nonempty by (fastforce simp: rerun_rows set_picked_ids retryable_def)
qed (use distinct_picked [OF assms] in \<open>simp_all add: picked_ids_def resolve_partial_failure_resume_def Let_def sorted_filter [of "\<lambda>x. x", simplified]\<close>)

lemma not_both:
  "has_status ''blocked'' r \<or> is_contradictory_done_budget_row r \<Longrightarrow>
     \<not> (\<not> is_contradictory_done_budget_row r \<and> (has_status ''done'' r \<or> has_status ''skipped'' r))"
  by (auto simp: has_status_def)

lemma rerun_not_preserved:
  assumes d: "distinct_ids rows"
  shows "set (rd_rerun (resolve_partial_failure_resume (map JObj rows) [] a b)) \<inter>
    set (rd_preserved (resolve_partial_failure_resume (map JObj rows) [] a b)) = {}"
proof -
  have False if i: "i \<in> set (rd_rerun (resolve_partial_failure_resume (map JObj rows) [] a b))"
    "i \<in> set (rd_preserved (resolve_partial_failure_resume (map JObj rows) [] a b))" for i
  proof -
    obtain r where r: "r \<in> set rows" "row_id r = Some i"
      "has_status ''blocked'' r \<or> is_contradictory_done_budget_row r"
      using i(1) by (auto simp: rerun_rows)
    obtain r' where r': "r' \<in> set rows" "row_id r' = Some i" "\<not> is_contradictory_done_budget_row r'"
      "has_status ''done'' r' \<or> has_status ''skipped'' r'"
      using i(2) by (auto simp: preserved_rows)
    have "r = r'" by (rule distinct_ids_unique [OF d r(1) r'(1) r(2) r'(2)])
    with r r' show False using not_both by blast
  qed
  then show ?thesis by blast
qed

lemma set_retry_exclusions:
  "set (retry_exclusions data completed) =
     set (baseline_unavailable_checkpoint_ids data (picked_ids (\<lambda>i. has_status ''blocked'') (rows_of data))) \<union>
     (set completed - {i. \<exists>r \<in> set (rows_of data). row_id r = Some i \<and>
         (is_task_test_budget_blocked r \<or> is_contradictory_done_budget_row r)})"
proof -
  let ?gated = "List.map_filter row_id
    (filter (\<lambda>r. is_task_test_budget_blocked r \<or> is_contradictory_done_budget_row r) (rows_of data))"
  have "set (List.map_filter row_id (filter (has_status ''blocked'') (rows_of data))) =
      set (picked_ids (\<lambda>i. has_status ''blocked'') (rows_of data))"
    by (auto simp: mem_map_filter_iff set_picked_ids)
  then have b: "baseline_unavailable_checkpoint_ids data
        (List.map_filter row_id (filter (has_status ''blocked'') (rows_of data))) =
      baseline_unavailable_checkpoint_ids data (picked_ids (\<lambda>i. has_status ''blocked'') (rows_of data))"
    by (simp add: baseline_unavailable_checkpoint_ids_def)
  have g: "set ?gated = {i. \<exists>r \<in> set (rows_of data). row_id r = Some i \<and>
      (is_task_test_budget_blocked r \<or> is_contradictory_done_budget_row r)}"
    by (auto simp: mem_map_filter_iff)
  have "set (retry_exclusions data completed) =
      set (baseline_unavailable_checkpoint_ids data (picked_ids (\<lambda>i. has_status ''blocked'') (rows_of data))) \<union>
      set (filter (\<lambda>i. i \<notin> set ?gated) completed)"
    unfolding retry_exclusions_def Let_def set_append b ..
  then show ?thesis unfolding set_filter g by blast
qed

lemma change_picked_ids:
  assumes "distinct_ids rows"
  shows "change_picked P f rows = map (\<lambda>r. if row_id r \<in> Some ` set (picked_ids P rows) then f r else r) rows"
proof -
  have "picked P r \<longleftrightarrow> row_id r \<in> Some ` set (picked_ids P rows)" if r: "r \<in> set rows" for r
  proof (cases "row_id r")
    case (Some i)
    have "i \<in> set (picked_ids P rows) \<longleftrightarrow> P i r"
      unfolding set_picked_ids using r Some distinct_ids_unique [OF assms r _ Some] by metis
    then show ?thesis by (simp add: picked_def Some image_iff)
  qed (auto simp: picked_def)
  then show ?thesis unfolding change_picked_def by (intro map_cong) auto
qed

text \<open>C12. With \<^verbatim>\<open>--retry-blocked-tasks\<close>, distinct and non-empty ids: the rows that are reset are those the
  resume policy reruns, less the checkpoints without a baseline and the tasks complete by authority; the
  assertion that no preserved task is rerun never fails; the reset rows become pending, and every other row
  stays as it is. A row the test budget gated is not among the tasks complete by authority.
\<close>

theorem retry_agrees_with_policy:
  assumes "reading (rows_of data) = Inr (completed, decisions)" and "distinct_ids (rows_of data)"
  shows "\<exists>ids data'. retry_blocked_tasks reading data = Inr ((ids, ids), data') \<and>
    set ids = set (rd_rerun (resolve_partial_failure_resume (map JObj (rows_of data)) [] [] [])) -
      (set (baseline_unavailable_checkpoint_ids data (picked_ids (\<lambda>i. has_status ''blocked'') (rows_of data))) \<union>
       (set completed - {i. \<exists>r \<in> set (rows_of data). row_id r = Some i \<and>
           (is_task_test_budget_blocked r \<or> is_contradictory_done_budget_row r)})) \<and>
    set ids \<inter> set (rd_preserved (resolve_partial_failure_resume (map JObj (rows_of data)) [] [] [])) = {} \<and>
    rows_of data' = map (\<lambda>r. if row_id r \<in> Some ` set ids then clear_task_attempt_fields r else r) (rows_of data)"
proof -
  define rows where "rows = rows_of data"
  define excluded where "excluded = retry_exclusions data completed"
  define ids where "ids = picked_ids (retryable excluded) rows"
  let ?decision = "resolve_partial_failure_resume (map JObj rows) [] [] []"
  note d = assms(2) [folded rows_def]
  have ids: "ids = filter (\<lambda>i. i \<notin> set excluded) (rd_rerun ?decision)"
    unfolding ids_def by (rule policy_ids [OF d])
  then have disjoint: "set ids \<inter> set (rd_preserved ?decision) = {}"
    using rerun_not_preserved [OF d, of "[]" "[]"] by auto
  then have none: "filter (\<lambda>i. i \<in> set (rd_preserved ?decision)) (sorted_set ids) = []"
    by (auto simp: filter_empty_conv)
  have "retry_blocked_tasks reading data =
      Inr ((ids, ids), put_rows (change_picked (retryable excluded) clear_task_attempt_fields rows) data)"
    using none
    by (simp add: retry_blocked_tasks_def assms(1) [folded rows_def] rows_def [symmetric] excluded_def [symmetric]
        reset_blocked_tasks_to_pending_def ids_def [symmetric] ids [symmetric] Let_def del: res_bind_Inr_iff)
  moreover have "change_picked (retryable excluded) clear_task_attempt_fields rows =
      map (\<lambda>r. if row_id r \<in> Some ` set ids then clear_task_attempt_fields r else r) rows"
    unfolding ids_def by (rule change_picked_ids [OF d])
  ultimately show ?thesis
    using disjoint set_retry_exclusions [of data completed, folded rows_def excluded_def]
    unfolding rows_def [symmetric] by (auto simp: ids)
qed

subsection \<open>The budget gate\<close>

text \<open>A row that carries the durable field of the gate.\<close>

definition durable_gate :: "task_row \<Rightarrow> bool" where
  "durable_gate r \<longleftrightarrow>
     nonempty_text (dget r ''task_test_budget_exhausted'' JNull) \<noteq> None \<and>
     (has_status ''blocked'' r \<or> has_status ''pending'' r)"

lemma durable_gate_blocks: "durable_gate r \<Longrightarrow> is_task_test_budget_blocked r"
  by (auto simp: durable_gate_def is_task_test_budget_blocked_def)

lemma durable_gate_clear: "durable_gate r \<Longrightarrow> durable_gate (clear_task_attempt_fields r)"
  by (simp add: durable_gate_def dget_clear has_status_def)

text \<open>The changes the harness makes to the rows, in any order and number: every one but the deferral of
  checkpoints. What the readers and the files say is arbitrary.\<close>

inductive frontier_step :: "task_row list \<Rightarrow> task_row list \<Rightarrow> bool" where
  retry: "frontier_step rows (snd (reset_blocked_tasks_to_pending excluded rows))"
| resolved: "reset_resolved_prerequisite_blocked_tasks f state data rows = Inr (ids, rows') \<Longrightarrow> frontier_step rows rows'"
| demote: "reset_stale_authority_done_tasks reading rows = Inr (ids, rows') \<Longrightarrow> frontier_step rows rows'"
| adopt: "adopt_authority_completed_blocked_tasks reading enveloped rows = Inr (ids, rows') \<Longrightarrow> frontier_step rows rows'"
| contradictory: "frontier_step rows (clear_contradictory_rows rows)"
| park: "frontier_step rows (park_blocked_task_dispositions ids invocation rows)"
| cross: "frontier_step rows (reset_cross_session invocation ids rows)"

inductive_cases frontier_stepE: "frontier_step rows rows'"

definition keeps_gate :: "task_row list \<Rightarrow> task_row list \<Rightarrow> bool" where
  "keeps_gate rows rows' \<longleftrightarrow> length rows' = length rows \<and>
     (\<forall>k < length rows. row_id (rows' ! k) = row_id (rows ! k) \<and>
        (durable_gate (rows ! k) \<longrightarrow> durable_gate (rows' ! k)))"

lemma keeps_gate_refl: "keeps_gate rows rows"
  by (simp add: keeps_gate_def)

lemma keeps_gate_trans: "keeps_gate a b \<Longrightarrow> keeps_gate b c \<Longrightarrow> keeps_gate a c"
  by (simp add: keeps_gate_def)

lemma clear_keeps_gate: "keeps_gate rows (change_picked P clear_task_attempt_fields rows)"
  by (simp add: keeps_gate_def durable_gate_clear)

lemma adopt_keeps_gate: "keeps_gate rows (change_picked (adoptable completion enveloped) promote rows)"
  using durable_gate_blocks
  by (auto simp: keeps_gate_def picked_def adoptable_def split: option.splits)

lemma park_keeps_gate: "keeps_gate rows (park_blocked_task_dispositions ids invocation rows)"
  by (auto simp: keeps_gate_def park_blocked_task_dispositions_def Let_def row_id_def durable_gate_def has_status_def)

lemma frontier_step_keeps_gate: "frontier_step rows rows' \<Longrightarrow> keeps_gate rows rows'"
proof (induction rule: frontier_step.induct)
  case (resolved f state data rows ids rows')
  then show ?case
    by (auto simp: reset_resolved_prerequisite_blocked_tasks_def Let_def keeps_gate_refl clear_keeps_gate split: if_splits)
next
  case (demote reading rows ids rows')
  then show ?case
    by (auto simp: reset_stale_authority_done_tasks_def keeps_gate_refl clear_keeps_gate split: if_splits)
next
  case (adopt reading enveloped rows ids rows')
  then show ?case
    by (auto simp: adopt_authority_completed_blocked_tasks_def keeps_gate_refl adopt_keeps_gate split: if_splits)
qed (simp_all add: reset_blocked_tasks_to_pending_def clear_contradictory_rows_def reset_cross_session_def Let_def
    keeps_gate_refl clear_keeps_gate park_keeps_gate)

lemma frontier_steps_keep_gate: "frontier_step\<^sup>*\<^sup>* rows rows' \<Longrightarrow> keeps_gate rows rows'"
  by (induction rule: rtranclp_induct) (auto intro: keeps_gate_refl keeps_gate_trans frontier_step_keeps_gate)

lemma completed_not_gated:
  assumes "scheduler_completed_ids_for_tasks sha env state rows = Inr (completed, decisions)"
    and "r \<in> set rows" and "durable_gate r" and "row_id r = Some i"
  shows "i \<notin> set completed"
proof -
  have "i \<in> set (budget_blocked_ids rows)"
    using assms(2-4) durable_gate_blocks by (auto simp: budget_blocked_ids_def mem_map_filter_iff)
  then show ?thesis using assms(1) by (auto simp: scheduler_completed_ids_for_tasks_def)
qed

text \<open>C13. The durable field of the test budget gate cannot be lost: however often and in whatever order the
  harness retries, demotes, adopts, parks and clears rows, a blocked or pending row with the field stays
  blocked or pending with it, whatever the authority accepted, and the scheduler never counts its task as
  complete.
\<close>

theorem budget_gate_survives:
  assumes "frontier_step\<^sup>*\<^sup>* rows rows'" and "k < length rows" and "durable_gate (rows ! k)"
  shows "durable_gate (rows' ! k) \<and> row_id (rows' ! k) = row_id (rows ! k) \<and>
    (\<forall>sha env state completed decisions i.
       scheduler_completed_ids_for_tasks sha env state rows' = Inr (completed, decisions) \<and>
       row_id (rows ! k) = Some i \<longrightarrow> i \<notin> set completed)"
proof -
  have keep: "keeps_gate rows rows'" by (rule frontier_steps_keep_gate [OF assms(1)])
  then have "rows' ! k \<in> set rows'" "durable_gate (rows' ! k)" "row_id (rows' ! k) = row_id (rows ! k)"
    using assms(2,3) by (auto simp: keeps_gate_def)
  then show ?thesis using completed_not_gated by metis
qed

text \<open>A row gated by the marker of its notes alone is open to adoption once it was reset.\<close>

lemma marker_gate_is_lost:
  assumes "has_status ''blocked'' r" and "dget r ''task_test_budget_exhausted'' JNull = JNull"
    and "i \<notin> set enveloped" and "i \<in> set (fst completion)" and "decided_satisfied (snd completion) i"
  shows "adoptable completion enveloped i (clear_task_attempt_fields r)"
  using assms by (simp add: adoptable_def is_task_test_budget_blocked_def dget_clear has_status_def
      nonempty_text_def TASK_TEST_BUDGET_MARKER_def)

subsection \<open>The latest recorded head\<close>

lemma sort_key_equal:
  assumes "\<forall>x \<in> set xs. f x = k"
  shows "sort_key f xs = xs"
  using assms
proof (induction xs)
  case (Cons x xs)
  then have "sort_key f xs = xs" by simp
  then show ?case using Cons.prems by (cases xs) simp_all
qed simp

text \<open>Artifacts named after a digest of their tasks have no number. Among such the head that counts as the
  latest is the first one listed: no later batch moves it.\<close>

lemma later_batches_never_move_the_head:
  assumes "\<forall>g \<in> set (re_batches env). af_number g = - 1" and "af_number f = - 1"
    and "\<exists>g \<in> set (re_batches env). latest_head_in_artifact (af_payload g) \<noteq> None"
  shows "latest_recorded_execution_head (env\<lparr>re_batches := re_batches env @ [f]\<rparr>) = latest_recorded_execution_head env"
proof -
  have sorted: "sort_key (\<lambda>g. - af_number g) (re_batches env) = re_batches env"
    "sort_key (\<lambda>g. - af_number g) (re_batches env @ [f]) = re_batches env @ [f]"
    using assms(1,2) by (auto intro!: sort_key_equal [of _ _ 1])
  obtain g h where "g \<in> set (re_batches env)" "(latest_head_in_artifact \<circ> af_payload) g = Some h"
    using assms(3) by auto
  then have "h \<in> set (List.map_filter (latest_head_in_artifact \<circ> af_payload) (re_batches env))"
    unfolding mem_map_filter_iff by blast
  then obtain x xs where "List.map_filter (latest_head_in_artifact \<circ> af_payload) (re_batches env) = x # xs"
    by (cases "List.map_filter (latest_head_in_artifact \<circ> af_payload) (re_batches env)") auto
  moreover have "List.map_filter (latest_head_in_artifact \<circ> af_payload) (re_batches env @ [f]) =
      List.map_filter (latest_head_in_artifact \<circ> af_payload) (re_batches env) @
      List.map_filter (latest_head_in_artifact \<circ> af_payload) [f]"
    by (simp add: List.map_filter_def)
  ultimately show ?thesis by (simp add: latest_recorded_execution_head_def sorted)
qed

subsection \<open>Completion by authority\<close>

text \<open>Rows that agree in what the scheduler reads.\<close>

definition shape_of :: "task_row \<Rightarrow> json \<times> json" where
  "shape_of r = (dget r ''id'' (JStr []), dget r ''depends_on'' (JArr []))"

lemma shape_record: "shape_of r = shape_of r' \<Longrightarrow> record_id r = record_id r' \<and> task_dependencies r = task_dependencies r'"
  by (simp add: shape_of_def record_id_def task_dependencies_def)

lemma map_by_shape:
  "map shape_of xs = map shape_of ys \<Longrightarrow> (\<And>r r'. shape_of r = shape_of r' \<Longrightarrow> f r = f r') \<Longrightarrow> map f xs = map f ys"
proof (induction xs arbitrary: ys)
  case (Cons x xs)
  from Cons.prems(1) obtain y zs where ys: "ys = y # zs" "shape_of x = shape_of y" "map shape_of xs = map shape_of zs"
    by (cases ys) simp_all
  have "f x = f y" by (rule Cons.prems(2) [OF ys(2)])
  moreover have "map f xs = map f zs" by (rule Cons.IH [OF ys(3) Cons.prems(2)])
  ultimately show ?case by (simp only: ys(1) list.map)
qed simp

lemma shapes_records:
  assumes "map shape_of rows = map shape_of rows'"
  shows "map record_id rows = map record_id rows'" and "map task_dependencies rows = map task_dependencies rows'"
    and "same_shape (index_of rows) (index_of rows')"
proof -
  show ids: "map record_id rows = map record_id rows'" and deps: "map task_dependencies rows = map task_dependencies rows'"
    by (rule map_by_shape [OF assms], drule shape_record, simp)+
  have "map (\<lambda>t. (record_id t, task_dependencies t)) rows = map (\<lambda>t. (record_id t, task_dependencies t)) rows'"
    by (rule map_by_shape [OF assms]) (drule shape_record, simp)
  then have "dependencies (index_of rows) = dependencies (index_of rows')"
    unfolding index_of_def by (intro ext) (simp only: dependencies_map)
  then show "same_shape (index_of rows) (index_of rows')"
    using ids by (simp add: same_shape_def index_of_def comp_def)
qed

lemma task_records_rows [simp]: "task_records (JObj [(''tasks'', JArr (map JObj rows))]) = Inr rows"
  by (simp add: task_records_def dget_def map_filter_def comp_def list_all_iff)

lemma index_tasks_status:
  assumes "distinct (map record_id rows)" and "[] \<notin> set (map record_id rows)" and "plan_source \<noteq> []"
    and "set (map record_id rows) \<inter> set (task_ids index) = {}"
  shows "\<exists>labels'. index_tasks plan_source rows index labels = Inr (index @ map (\<lambda>t. (record_id t, t)) rows, labels')"
  using assms
proof (induction rows arbitrary: index labels)
  case (Cons r rows)
  have "\<exists>new. status_label plan_source (record_id r) r = Inr new"
    using Cons.prems(2,3) by (auto simp: status_label_def mk_legacy_label_def ensure_def split: json.splits)
  then obtain new where new: "status_label plan_source (record_id r) r = Inr new" by blast
  have "\<exists>labels'. index_tasks plan_source rows (index @ [(record_id r, r)]) (labels @ new) =
      Inr ((index @ [(record_id r, r)]) @ map (\<lambda>t. (record_id t, t)) rows, labels')"
    by (rule Cons.IH) (use Cons.prems in auto)
  then show ?case using Cons.prems(2,4) new by (auto simp del: res_bind_Inr_iff)
qed simp

lemma view_tasks: "pv_tasks (view_of_index sha authority index policy labels plan_source m) =
    map (task_state_of authority index policy labels
      (dependency_closed_ids index (accepted_ids authority index policy))) (sort (task_ids index))"
  by (simp add: view_of_index_def Let_def)

lemma task_state_sel:
  "ts_task_id (task_state_of authority index policy labels closed i) = i"
  "ts_dependency_closed (task_state_of authority index policy labels closed i) \<longleftrightarrow> i \<in> set closed"
  by (simp_all add: task_state_of_def Let_def)

lemma find_state:
  "List.find (\<lambda>t. ts_task_id t = i) (map (task_state_of authority index policy labels closed) ids) =
     (if i \<in> set ids then Some (task_state_of authority index policy labels closed i) else None)"
  by (induction ids) (auto simp: task_state_sel)

lemma projection_decisions_index:
  assumes "view = view_of_index sha authority index policy labels plan_source m"
  shows "projection_decisions view i =
    (if i \<in> set (task_ids index)
     then Some (if i \<in> set (pv_closed_task_ids view) then satisfied_verdict i else verdict_unknown i) else None)"
  by (simp add: assms projection_decisions_def view_tasks find_state task_state_sel)

lemma projection_cases:
  assumes "accepted_attempt_execution_projection sha env rows = Inr (Some view)"
  obtains c authority labels where "rows \<noteq> []" and "re_collected env = Some c"
    and "reduce_run_authority sha (ca_records c) (JStr (ca_run_id c)) (JStr (ca_run_revision c)) JNull = Inr authority"
    and "distinct (map record_id rows)" and "[] \<notin> set (map record_id rows)"
    and "\<And>d i. d \<in> set (vw_decisions authority) \<Longrightarrow>
           accepts_task authority (index_of rows) (ca_policy c) d = Some i \<Longrightarrow> i \<in> set (map record_id rows)"
    and "view = view_of_index sha authority (index_of rows) (ca_policy c) labels ''finalize.json'' 5"
proof -
  obtain c authority where c: "rows \<noteq> []" "re_collected env = Some c"
    "reduce_run_authority sha (ca_records c) (JStr (ca_run_id c)) (JStr (ca_run_revision c)) JNull = Inr authority"
    "derive_plan_execution_view sha authority (JObj [(''tasks'', JArr (map JObj rows))])
       (ca_policy c) (ca_labels c) ''finalize.json'' 5 = Inr view"
    using assms unfolding accepted_attempt_execution_projection_def
    by (auto split: list.splits option.splits sum.splits contract_error.splits view_error.splits)
  from c(4) show ?thesis
  proof (rule derive_Inr)
    fix records index labels
    assume d: "task_records (JObj [(''tasks'', JArr (map JObj rows))]) = Inr records"
      "index_tasks ''finalize.json'' records [] (ca_labels c) = Inr (index, labels)"
      "index = map (\<lambda>t. (record_id t, t)) records" "distinct (task_ids index)"
      "\<And>d i. d \<in> set (vw_decisions authority) \<Longrightarrow> accepts_task authority index (ca_policy c) d = Some i \<Longrightarrow>
           i \<in> set (task_ids index)"
      "view = view_of_index sha authority index (ca_policy c) labels ''finalize.json'' 5"
    have rows: "records = rows" using d(1) by simp
    have "list_all (\<lambda>t. record_id t \<noteq> []) rows" using index_tasks_Inr [OF d(2)] rows by simp
    then have "[] \<notin> set (map record_id rows)" by (auto simp: list_all_iff)
    moreover have "task_ids index = map record_id rows" by (simp add: d(3) rows comp_def)
    ultimately show ?thesis
      using that [OF c(1-3), of labels] d(3-6) by (simp add: rows index_of_def comp_def)
  qed
qed

lemma projection_shape:
  assumes "accepted_attempt_execution_projection sha env rows = Inr (Some view)"
    and "map shape_of rows = map shape_of rows'" and "re_collected env' = re_collected env"
  shows "\<exists>view'. accepted_attempt_execution_projection sha env' rows' = Inr (Some view') \<and>
    pv_closed_task_ids view' = pv_closed_task_ids view \<and> projection_decisions view' = projection_decisions view"
  using assms(1)
proof (rule projection_cases)
  fix c authority labels
  assume c: "rows \<noteq> []" "re_collected env = Some c"
    "reduce_run_authority sha (ca_records c) (JStr (ca_run_id c)) (JStr (ca_run_revision c)) JNull = Inr authority"
    "distinct (map record_id rows)" "[] \<notin> set (map record_id rows)"
    "\<And>d i. d \<in> set (vw_decisions authority) \<Longrightarrow>
       accepts_task authority (index_of rows) (ca_policy c) d = Some i \<Longrightarrow> i \<in> set (map record_id rows)"
    "view = view_of_index sha authority (index_of rows) (ca_policy c) labels ''finalize.json'' 5"
  note shape = shapes_records [OF assms(2)]
  have ids': "task_ids (index_of rows') = map record_id rows'" "task_ids (index_of rows) = map record_id rows"
    by (simp_all add: index_of_def comp_def)
  have "distinct (map record_id rows')" "[] \<notin> set (map record_id rows')" using c(4,5) shape(1) by simp_all
  then obtain labels' where ix: "index_tasks ''finalize.json'' rows' [] (ca_labels c) = Inr (index_of rows', labels')"
    using index_tasks_status [of rows' "''finalize.json''" "[]" "ca_labels c"] by (auto simp: index_of_def)
  define view' where "view' = view_of_index sha authority (index_of rows') (ca_policy c) labels' ''finalize.json'' 5"
  have "accepts_task authority (index_of rows') (ca_policy c) d = Some i \<Longrightarrow> d \<in> set (vw_decisions authority) \<Longrightarrow>
      i \<in> set (task_ids (index_of rows'))" for d i
    using c(6) by (simp only: ids' settled_claim_shape(2) [OF shape(3), symmetric] shape(1) [symmetric])
  then have "derive_plan_execution_view sha authority (JObj [(''tasks'', JArr (map JObj rows'))])
      (ca_policy c) (ca_labels c) ''finalize.json'' 5 = Inr view'"
    using ix by (auto simp: derive_plan_execution_view_def list_all_iff view'_def split: option.split)
  moreover have "rows' \<noteq> []" using c(1) assms(2) by auto
  ultimately have "accepted_attempt_execution_projection sha env' rows' = Inr (Some view')"
    using c(2,3) assms(3) by (cases rows') (simp_all add: accepted_attempt_execution_projection_def)
  moreover have closed: "pv_closed_task_ids view' = pv_closed_task_ids view"
    unfolding view'_def c(7) view_of_index_sel view_shape [OF shape(3)] ..
  moreover have "projection_decisions view' = projection_decisions view"
    unfolding projection_decisions_index [OF view'_def] projection_decisions_index [OF c(7)] fun_eq_iff
    unfolding ids' shape(1) closed by simp
  ultimately show ?thesis by blast
qed

lemma effective_projection:
  "accepted_attempt_execution_projection sha env rows = Inr (Some view) \<Longrightarrow>
     effective_execute_completed_task_ids sha env state given current code_hash rows =
       Inr (pv_closed_task_ids view, projection_decisions view)"
  by (simp add: effective_execute_completed_task_ids_def Let_def)

text \<open>C22. Once the accepted attempts give a view, completion is a matter of the collected records and of the
  ids and dependencies of the tasks: no status, note or evidence in the rows, no artifact, no revision and no
  plan state changes what is complete or what was decided.
\<close>

theorem authority_alone_completes:
  assumes "accepted_attempt_execution_projection sha env rows = Inr (Some view)"
    and "re_collected env' = re_collected env" and "map shape_of rows = map shape_of rows'"
  shows "effective_execute_completed_task_ids sha env' state given current code_hash rows' =
    Inr (pv_closed_task_ids view, projection_decisions view)"
proof -
  obtain view' where "accepted_attempt_execution_projection sha env' rows' = Inr (Some view')"
    "pv_closed_task_ids view' = pv_closed_task_ids view" "projection_decisions view' = projection_decisions view"
    using projection_shape [OF assms(1,3,2)] by blast
  then show ?thesis by (simp add: effective_projection)
qed

subsection \<open>Demotion and adoption settle\<close>

text \<open>The reading of one plan, whatever its rows say: \<open>closed\<close> less the gated rows.\<close>

definition authority_reading :: "string list \<Rightarrow> (string \<rightharpoonup> authority_verdict) \<Rightarrow> task_row list \<Rightarrow> completion" where
  "authority_reading closed decisions rows = (filter (\<lambda>i. i \<notin> set (budget_blocked_ids rows)) closed, decisions)"

lemma scheduler_projection:
  "accepted_attempt_execution_projection sha env rows = Inr (Some view) \<Longrightarrow>
     scheduler_completed_ids_for_tasks sha env state rows =
       Inr (authority_reading (pv_closed_task_ids view) (projection_decisions view) rows)"
  by (simp add: scheduler_completed_ids_for_tasks_def effective_projection authority_reading_def)

lemma decided_projection:
  assumes "accepted_attempt_execution_projection sha env rows = Inr (Some view)"
  shows "decided_satisfied (projection_decisions view) i \<longleftrightarrow> i \<in> set (pv_closed_task_ids view)"
  using assms
proof (rule projection_cases)
  fix c authority labels
  assume view: "view = view_of_index sha authority (index_of rows) (ca_policy c) labels ''finalize.json'' 5"
  have "i \<in> set (task_ids (index_of rows))" if "i \<in> set (pv_closed_task_ids view)"
    using that closed_are_tasks [of "index_of rows" authority "ca_policy c"] by (auto simp: view)
  then show ?thesis
    by (auto simp: decided_satisfied_def projection_decisions_index [OF view] satisfied_verdict_def verdict_unknown_def)
qed

lemma shape_change_picked:
  "(\<And>r. shape_of (f r) = shape_of r) \<Longrightarrow> map shape_of (change_picked P f rows) = map shape_of rows"
  by (simp add: change_picked_def)

lemma shape_clear: "shape_of (clear_task_attempt_fields r) = shape_of r"
  by (simp add: shape_of_def dget_clear)

lemma shape_promote: "shape_of (promote r) = shape_of r"
  by (simp add: shape_of_def dget_promote)

definition open_row :: "task_row \<Rightarrow> bool" where
  "open_row r \<longleftrightarrow> has_status ''blocked'' r \<or> has_status ''pending'' r"

definition unbacked :: "string list \<Rightarrow> string \<Rightarrow> task_row \<Rightarrow> bool" where
  "unbacked closed i r \<longleftrightarrow> i \<notin> set closed \<and>
     (has_status ''done'' r \<or> has_status ''completed'' r \<or>
      has_status ''blocked'' r \<and> \<not> has_genuine_task_level_blocker r)"

definition backed :: "string list \<Rightarrow> string list \<Rightarrow> string list \<Rightarrow> string \<Rightarrow> task_row \<Rightarrow> bool" where
  "backed closed enveloped gated i r \<longleftrightarrow>
     open_row r \<and> \<not> is_task_test_budget_blocked r \<and> i \<notin> set enveloped \<and> i \<in> set closed \<and> i \<notin> set gated"

lemma stale_unbacked:
  assumes "\<And>i. decided_satisfied decisions i \<longleftrightarrow> i \<in> set closed"
  shows "stale_authority (authority_reading closed decisions rows) = unbacked closed"
  by (auto simp: fun_eq_iff stale_authority_def authority_reading_def unbacked_def assms)

lemma adoptable_backed:
  assumes "\<And>i. decided_satisfied decisions i \<longleftrightarrow> i \<in> set closed"
  shows "adoptable (authority_reading closed decisions rows) enveloped = backed closed enveloped (budget_blocked_ids rows)"
  by (auto simp: fun_eq_iff adoptable_def authority_reading_def backed_def open_row_def assms)

lemma cleared_not_unbacked:
  assumes "r \<in> set (change_picked (unbacked closed) clear_task_attempt_fields rows)"
  shows "\<not> picked (unbacked closed) r"
proof -
  have "\<not> unbacked closed i (clear_task_attempt_fields q)" for i q
    by (simp add: unbacked_def has_status_def dget_clear)
  then show ?thesis using assms by (auto simp: change_picked_def picked_def split: option.splits)
qed

lemma promoted_status: "has_status s (promote r) \<longleftrightarrow> s = ''done''"
  by (auto simp: has_status_def dget_promote)

lemma promoted_not_gated: "\<not> is_task_test_budget_blocked (promote r)"
  by (simp add: is_task_test_budget_blocked_def promoted_status)

lemma set_budget_blocked: "i \<in> set (budget_blocked_ids rows) \<longleftrightarrow> (\<exists>r \<in> set rows. row_id r = Some i \<and> is_task_test_budget_blocked r)"
  by (auto simp: budget_blocked_ids_def mem_map_filter_iff)

lemma promote_keeps_budget:
  "set (budget_blocked_ids (change_picked (backed closed enveloped gated) promote rows)) = set (budget_blocked_ids rows)"
  by (auto simp: set_budget_blocked change_picked_def promoted_not_gated picked_def backed_def split: option.splits)

lemma promoted_rows:
  assumes "r \<in> set (change_picked (backed closed enveloped gated) promote rows)"
  shows "\<not> picked (backed closed enveloped gated) r"
    and "(\<And>q. q \<in> set rows \<Longrightarrow> \<not> picked (unbacked closed) q) \<Longrightarrow> \<not> picked (unbacked closed) r"
proof -
  obtain q where q: "q \<in> set rows" "r = (if picked (backed closed enveloped gated) q then promote q else q)"
    using assms by (auto simp: change_picked_def)
  have "\<not> backed closed enveloped gated i (promote q)" for i
    by (simp add: backed_def open_row_def promoted_status)
  then show "\<not> picked (backed closed enveloped gated) r"
    using q(2) by (auto simp: picked_def split: option.splits if_splits)
  show "\<not> picked (unbacked closed) r" if "\<And>q. q \<in> set rows \<Longrightarrow> \<not> picked (unbacked closed) q"
  proof (cases "picked (backed closed enveloped gated) q")
    case True
    then show ?thesis using q(2) by (auto simp: picked_def backed_def unbacked_def split: option.splits)
  qed (use that q in auto)
qed

lemma backed_cong: "set gated = set gated' \<Longrightarrow> backed closed enveloped gated = backed closed enveloped gated'"
  by (simp add: backed_def fun_eq_iff)

lemma projected_reading:
  assumes "accepted_attempt_execution_projection sha env rows = Inr (Some view)"
    and same: "map shape_of rows = map shape_of rows'"
  shows "scheduler_completed_ids_for_tasks sha env state rows' =
    Inr (authority_reading (pv_closed_task_ids view) (projection_decisions view) rows')"
proof -
  obtain view' where v': "accepted_attempt_execution_projection sha env rows' = Inr (Some view')"
    "pv_closed_task_ids view' = pv_closed_task_ids view" "projection_decisions view' = projection_decisions view"
    using projection_shape [OF assms refl] by blast
  then show ?thesis using scheduler_projection [OF v'(1)] by simp
qed

lemma projected_stages:
  assumes "accepted_attempt_execution_projection sha env rows = Inr (Some view)"
    and same: "map shape_of rows = map shape_of rows'"
  shows "reset_stale_authority_done_tasks (scheduler_completed_ids_for_tasks sha env state) rows' =
      Inr (picked_ids (unbacked (pv_closed_task_ids view)) rows',
           change_picked (unbacked (pv_closed_task_ids view)) clear_task_attempt_fields rows')"
    and "adopt_authority_completed_blocked_tasks (scheduler_completed_ids_for_tasks sha env state) enveloped rows' =
      Inr (picked_ids (backed (pv_closed_task_ids view) enveloped (budget_blocked_ids rows')) rows',
           change_picked (backed (pv_closed_task_ids view) enveloped (budget_blocked_ids rows')) promote rows')"
proof -
  have "rows \<noteq> []" using assms(1) by (auto simp: accepted_attempt_execution_projection_def)
  then have "rows' \<noteq> []" using same by auto
  then show "reset_stale_authority_done_tasks (scheduler_completed_ids_for_tasks sha env state) rows' =
      Inr (picked_ids (unbacked (pv_closed_task_ids view)) rows',
           change_picked (unbacked (pv_closed_task_ids view)) clear_task_attempt_fields rows')"
    and "adopt_authority_completed_blocked_tasks (scheduler_completed_ids_for_tasks sha env state) enveloped rows' =
      Inr (picked_ids (backed (pv_closed_task_ids view) enveloped (budget_blocked_ids rows')) rows',
           change_picked (backed (pv_closed_task_ids view) enveloped (budget_blocked_ids rows')) promote rows')"
    by (simp_all add: reset_stale_authority_done_tasks_def adopt_authority_completed_blocked_tasks_def
        projected_reading [OF assms] stale_unbacked [OF decided_projection [OF assms(1)]]
        adoptable_backed [OF decided_projection [OF assms(1)]])
qed

text \<open>C15. On a plan with a view of its accepted attempts the demotion of rows without authority and the
  adoption of rows with it settle at once: after one of each neither changes a row again, every row that is
  done is complete by authority, and a row complete by authority is blocked or pending only when the test
  budget gates it, in the rows or in a batch artifact.
\<close>

theorem demotion_and_adoption_settle:
  assumes "accepted_attempt_execution_projection sha env rows = Inr (Some view)"
    and "reset_stale_authority_done_tasks (scheduler_completed_ids_for_tasks sha env state) rows = Inr (demoted, rows1)"
    and "adopt_authority_completed_blocked_tasks (scheduler_completed_ids_for_tasks sha env state) enveloped rows1 =
      Inr (adopted, rows2)"
  shows "reset_stale_authority_done_tasks (scheduler_completed_ids_for_tasks sha env state) rows2 = Inr ([], rows2) \<and>
    adopt_authority_completed_blocked_tasks (scheduler_completed_ids_for_tasks sha env state) enveloped rows2 =
      Inr ([], rows2) \<and>
    (\<forall>r \<in> set rows2. \<forall>i. row_id r = Some i \<longrightarrow>
       ((has_status ''done'' r \<or> has_status ''completed'' r) \<longrightarrow> i \<in> set (pv_closed_task_ids view)) \<and>
       (i \<in> set (pv_closed_task_ids view) \<and> (has_status ''blocked'' r \<or> has_status ''pending'' r) \<longrightarrow>
          i \<in> set (budget_blocked_ids rows2) \<or> i \<in> set enveloped))"
proof -
  define closed where "closed = pv_closed_task_ids view"
  note stale = projected_stages(1) [OF assms(1), folded closed_def] and
    adopt = projected_stages(2) [OF assms(1), folded closed_def]
  have r1: "rows1 = change_picked (unbacked closed) clear_task_attempt_fields rows"
    using assms(2) stale [OF refl] by simp
  have s1: "map shape_of rows = map shape_of rows1" by (simp add: r1 shape_change_picked shape_clear)
  let ?B = "backed closed enveloped (budget_blocked_ids rows1)"
  have r2: "rows2 = change_picked ?B promote rows1" using assms(3) adopt [OF s1] by simp
  have s2: "map shape_of rows = map shape_of rows2" by (simp add: s1 r2 shape_change_picked shape_promote)
  have b2: "backed closed enveloped (budget_blocked_ids rows2) = ?B"
    by (rule backed_cong) (simp add: r2 promote_keeps_budget)
  have u: "\<not> picked (unbacked closed) r" "\<not> picked ?B r" if "r \<in> set rows2" for r
    using promoted_rows [of r closed enveloped "budget_blocked_ids rows1" rows1] cleared_not_unbacked [of _ closed rows] that
    by (simp_all add: r1 [symmetric] r2 [symmetric])
  have none: "picked_ids (unbacked closed) rows2 = []" "picked_ids ?B rows2 = []"
    by (simp_all add: picked_ids_empty u)
  have "(has_status ''done'' r \<or> has_status ''completed'' r \<longrightarrow> i \<in> set closed) \<and>
      (i \<in> set closed \<and> (has_status ''blocked'' r \<or> has_status ''pending'' r) \<longrightarrow>
          i \<in> set (budget_blocked_ids rows2) \<or> i \<in> set enveloped)"
    if r: "r \<in> set rows2" "row_id r = Some i" for r i
  proof -
    have "\<not> unbacked closed i r" "\<not> backed closed enveloped (budget_blocked_ids rows2) i r"
      using u [OF r(1)] r(2) by (simp_all add: b2 picked_def)
    then show ?thesis
      using r set_budget_blocked [of i rows2] by (auto simp: unbacked_def backed_def open_row_def)
  qed
  then show ?thesis
    using stale [OF s2] adopt [OF s2] none change_picked_none [OF none(1)] change_picked_none [OF none(2)]
    by (simp add: b2 closed_def [symmetric])
qed

subsection \<open>Parked tasks\<close>

text \<open>A dependency between two rows.\<close>

definition row_edges :: "task_row list \<Rightarrow> (string \<times> string) set" where
  "row_edges rows = {(d, i). d \<in> set (known_ids rows) \<and> i \<in> set (dependents rows d)}"

lemma set_dependents: "i \<in> set (dependents rows d) \<longleftrightarrow> (\<exists>r \<in> set rows. row_id r = Some i \<and> i \<noteq> [] \<and> d \<in> set (row_deps r))"
  by (auto simp: dependents_def mem_map_filter_iff picked_def split: option.splits)

lemma set_known_ids: "i \<in> set (known_ids rows) \<longleftrightarrow> i \<noteq> [] \<and> (\<exists>r \<in> set rows. row_id r = Some i)"
  by (auto simp: known_ids_def mem_map_filter_iff)

abbreviation join_dependents :: "task_row list \<Rightarrow> string list \<Rightarrow> string \<Rightarrow> string list" where
  "join_dependents rows closed dep \<equiv>
     (if dep \<in> set closed
      then closed @ filter (\<lambda>i. i \<notin> set closed) (first_occurrences (dependents rows dep)) else closed)"

lemma closure_pass_sound:
  assumes "set deps \<subseteq> set (known_ids rows)" and "set closed \<subseteq> (row_edges rows)\<^sup>* `` B"
  shows "set (foldl (join_dependents rows) closed deps) \<subseteq> (row_edges rows)\<^sup>* `` B"
  using assms
proof (induction deps arbitrary: closed)
  case (Cons d deps)
  have "i \<in> (row_edges rows)\<^sup>* `` B" if "d \<in> set closed" "i \<in> set (dependents rows d)" for i
  proof -
    have "(d, i) \<in> row_edges rows" using that Cons.prems(1) by (simp add: row_edges_def)
    then show ?thesis using that(1) Cons.prems(2) by (blast intro: rtrancl_into_rtrancl)
  qed
  then have "set (join_dependents rows closed d) \<subseteq> (row_edges rows)\<^sup>* `` B" using Cons.prems(2) by auto
  then show ?case using Cons.IH [of "join_dependents rows closed d"] Cons.prems(1) by simp
qed simp

lemma closure_pass_mono: "set closed \<subseteq> set (foldl (join_dependents rows) closed deps)"
proof (induction deps arbitrary: closed)
  case (Cons d deps)
  have "set closed \<subseteq> set (join_dependents rows closed d)" by auto
  also have "\<dots> \<subseteq> set (foldl (join_dependents rows) (join_dependents rows closed d) deps)" by (rule Cons.IH)
  finally show ?case by simp
qed simp

lemma closure_pass_stops:
  "foldl (join_dependents rows) closed deps = closed \<Longrightarrow> d \<in> set deps \<Longrightarrow> d \<in> set closed \<Longrightarrow>
     set (dependents rows d) \<subseteq> set closed"
proof (induction deps)
  case (Cons d' deps)
  have "set (join_dependents rows closed d') \<subseteq> set closed"
    using closure_pass_mono [of "join_dependents rows closed d'" rows deps] Cons.prems(1) by simp
  then have "d' \<in> set closed \<Longrightarrow> set (dependents rows d') \<subseteq> set closed" and
    same: "join_dependents rows closed d' = closed"
    by (auto simp: filter_empty_conv)
  with Cons.prems Cons.IH show ?case by auto
qed simp

lemma closure_loop_reaches:
  "set closed \<subseteq> (row_edges rows)\<^sup>* `` B \<Longrightarrow> B \<subseteq> set closed \<Longrightarrow> set (closure_loop rows closed) = (row_edges rows)\<^sup>* `` B"
proof (induction rows closed rule: closure_loop.induct)
  case (1 rows closed)
  let ?next = "closure_pass rows closed"
  show ?case
  proof (cases "?next = closed")
    case True
    have step: "i \<in> set closed" if "d \<in> set closed" "(d, i) \<in> row_edges rows" for d i
      using closure_pass_stops [of rows closed "first_occurrences (known_ids rows)" d] True that
      by (auto simp: closure_pass_def row_edges_def)
    have "i \<in> set closed" if "(b, i) \<in> (row_edges rows)\<^sup>*" "b \<in> B" for b i
      using that(1) by induction (use that(2) "1.prems"(2) step in auto)
    then show ?thesis
      using True "1.prems"(1) by (subst closure_loop.simps) (auto simp: Let_def)
  next
    case False
    have "set ?next \<subseteq> (row_edges rows)\<^sup>* `` B"
      unfolding closure_pass_def by (rule closure_pass_sound) (use "1.prems"(1) in simp_all)
    moreover have "B \<subseteq> set ?next"
      using "1.prems"(2) closure_pass_mono unfolding closure_pass_def by blast
    ultimately have "set (closure_loop rows ?next) = (row_edges rows)\<^sup>* `` B"
      by (rule "1.IH" [OF refl False])
    then show ?thesis using False by (subst closure_loop.simps) (simp add: Let_def)
  qed
qed

lemma blocked_closure:
  "set (dependency_closed_blocked_task_ids rows blocked) = (row_edges rows)\<^sup>* `` (set blocked - {[]})"
  unfolding dependency_closed_blocked_task_ids_def by (rule closure_loop_reaches) auto

text \<open>Rows whose dependencies are texts that name rows.\<close>

definition well_linked :: "task_row list \<Rightarrow> bool" where
  "well_linked rows \<longleftrightarrow> distinct_ids rows \<and>
     (\<forall>r \<in> set rows. row_id r \<noteq> None \<and> set (raw_deps r) \<subseteq> JStr ` set (known_ids rows))"

lemma linked_deps:
  assumes "well_linked rows" and "r \<in> set rows"
  shows "task_deps (sched_row r) = row_deps r" and "set (row_deps r) \<subseteq> set (known_ids rows)"
    and "filter (\<lambda>d. \<not> is_str d) (raw_deps r) = []"
proof -
  show "task_deps (sched_row r) = row_deps r"
    by (auto simp: task_deps_def sched_row_def row_deps_def dget_def map_filter_simps split: option.splits json.splits)
  have raw: "set (raw_deps r) \<subseteq> JStr ` set (known_ids rows)" using assms by (simp add: well_linked_def)
  then show "filter (\<lambda>d. \<not> is_str d) (raw_deps r) = []" by (auto simp: filter_empty_conv is_str_def)
  have "row_deps r = List.map_filter as_str (raw_deps r)"
    by (simp add: row_deps_def raw_deps_def dget_def map_filter_simps split: option.splits json.splits)
  then show "set (row_deps r) \<subseteq> set (known_ids rows)" using raw by (auto simp: mem_map_filter_iff)
qed

lemma set_parked: "i \<in> set (parked_ids completed rows) \<longleftrightarrow>
    i \<notin> set completed \<and> (\<exists>r \<in> set rows. row_id r = Some i \<and> has_status ''blocked'' r)"
  by (auto simp: parked_ids_def mem_map_filter_iff picked_def split: option.splits)

text \<open>The tasks that wait for a parked one, itself included.\<close>

definition held :: "string list \<Rightarrow> task_row list \<Rightarrow> string set" where
  "held completed rows = (row_edges rows)\<^sup>* `` set (parked_ids completed rows)"

lemma set_runnable:
  assumes "well_linked rows"
  shows "r \<in> set (runnable_rows completed rows) \<longleftrightarrow> r \<in> set rows \<and>
    (\<exists>i. row_id r = Some i \<and> i \<notin> set completed \<and> i \<notin> held completed rows)"
proof -
  have "[] \<notin> set (parked_ids completed rows)"
    using assms by (auto simp: well_linked_def distinct_ids_def set_parked mem_map_filter_iff)
  then have h: "set (dependency_closed_blocked_task_ids rows (parked_ids completed rows)) = held completed rows"
    unfolding blocked_closure held_def by simp
  have "i \<in> held completed rows" if "r \<in> set rows" "row_id r = Some i" "has_status ''blocked'' r" "i \<notin> set completed" for i
  proof -
    have "i \<in> set (parked_ids completed rows)" using that by (auto simp: set_parked)
    then show ?thesis unfolding held_def by blast
  qed
  then show ?thesis
    by (auto simp: runnable_rows_def Let_def h picked_def split: option.splits)
qed

lemma runnable_known:
  assumes linked: "well_linked rows"
  shows "deps_known (map sched_row (runnable_rows completed rows)) completed"
  unfolding deps_known_def list_all_iff set_map
proof (intro ballI subsetI, elim imageE)
  fix x r d
  assume r: "r \<in> set (runnable_rows completed rows)" and x: "x = sched_row r" "d \<in> set (task_deps x)"
  obtain i where i: "r \<in> set rows" "row_id r = Some i" "i \<notin> held completed rows"
    using r by (auto simp: set_runnable [OF linked])
  have d: "d \<in> set (row_deps r)" "d \<in> set (known_ids rows)"
    using x linked_deps [OF linked i(1)] by auto
  then obtain q where q: "q \<in> set rows" "row_id q = Some d" by (auto simp: set_known_ids)
  have "i \<noteq> []" using linked i(1,2) by (auto simp: well_linked_def distinct_ids_def mem_map_filter_iff)
  then have "(d, i) \<in> row_edges rows" using d i(1,2) by (auto simp: row_edges_def set_dependents)
  then have "d \<notin> held completed rows" using i(3) unfolding held_def by (blast intro: rtrancl_into_rtrancl)
  then have "q \<in> set (runnable_rows completed rows)" if "d \<notin> set completed"
    using q that by (auto simp: set_runnable [OF linked])
  moreover have "tk_id (sched_row q) = d" using q(2) by (simp add: sched_row_def)
  ultimately show "d \<in> tk_id ` sched_row ` set (runnable_rows completed rows) \<union> set completed" by force
qed

lemma split_high_batch:
  assumes "split_high_complexity_batch m n b = Inr bs" and "0 < n"
  shows "set (concat bs) = set b" and "length (concat bs) = length b"
proof -
  have one: "concat (map (\<lambda>t. [t]) xs) = xs" for xs :: "string list" by (induction xs) simp_all
  let ?h = "filter (high_complexity m) b" and ?o = "filter (\<lambda>t. \<not> high_complexity m t) b"
  have "concat bs = b \<or> concat bs = ?h @ ?o"
    using assms by (auto simp: split_high_complexity_batch_def Let_def one concat_chunks split: if_splits)
  moreover have "set (?h @ ?o) = set b" by auto
  moreover have "length (?h @ ?o) = length b" using sum_length_filter_compl [of "high_complexity m" b] by simp
  ultimately have "set (concat bs) = set b \<and> length (concat bs) = length b" by metis
  then show "set (concat bs) = set b" "length (concat bs) = length b" by simp_all
qed

lemma in_order_regroup:
  assumes "\<And>b bs'. b \<in> set bs \<Longrightarrow> f b = Inr bs' \<Longrightarrow> set (concat bs') = set b \<and> length (concat bs') = length b"
  shows "res_map f bs = Inr bss \<Longrightarrow> in_order deps sat bs \<Longrightarrow>
    in_order deps sat (concat bss) \<and> set (concat (concat bss)) = set (concat bs) \<and>
    length (concat (concat bss)) = length (concat bs)"
  using assms
proof (induction bs arbitrary: sat bss)
  case (Cons b bs)
  from Cons.prems(1) obtain y ys where y: "f b = Inr y" "res_map f bs = Inr ys" "bss = y # ys" by auto
  have b: "set (concat y) = set b" "length (concat y) = length b" using Cons.prems(3) [of b y] y(1) by auto
  have "in_order deps sat y"
  proof (rule in_order_same_level)
    fix x t assume "x \<in> set y" "t \<in> set x"
    then have "t \<in> set b" using b(1) by auto
    then show "set (deps t) \<subseteq> set sat" using Cons.prems(2) by (simp add: list_all_iff)
  qed
  moreover have ih: "in_order deps (sat @ b) (concat ys) \<and> set (concat (concat ys)) = set (concat bs) \<and>
      length (concat (concat ys)) = length (concat bs)"
    by (rule Cons.IH [OF y(2)]) (use Cons.prems(2,3) in auto)
  moreover have "in_order deps (sat @ concat y) (concat ys)"
    by (rule in_order_mono [of _ "sat @ b"]) (use ih b(1) in auto)
  ultimately show ?case using b by (simp add: y(3) in_order_append)
qed simp

lemma split_high_keeps:
  assumes "split_high_complexity_batches bs data n = Inr bs'" and "0 < n" and "in_order deps sat bs"
  shows "in_order deps sat bs' \<and> set (concat bs') = set (concat bs) \<and> length (concat bs') = length (concat bs)"
proof (cases "bs' = bs")
  case False
  then obtain tasks bss where "res_map (split_high_complexity_batch (task_map tasks) n) bs = Inr bss" "bs' = concat bss"
    using assms(1) by (auto simp: split_high_complexity_batches_def split: if_splits option.splits)
  then show ?thesis
    using in_order_regroup [OF _ _ assms(3)] split_high_batch [OF _ assms(2)] by blast
qed (use assms(3) in simp)

lemma distinct_ids_filter: "distinct_ids rows \<Longrightarrow> distinct_ids (filter P rows)"
  by (induction rows) (auto simp: distinct_ids_def map_filter_simps mem_map_filter_iff split: option.splits if_splits)

lemma sched_ids:
  "(\<And>r. r \<in> set rows \<Longrightarrow> row_id r \<noteq> None) \<Longrightarrow> map (tk_id \<circ> sched_row) rows = List.map_filter row_id rows"
proof (induction rows)
  case (Cons r rows)
  then obtain i where "row_id r = Some i" by fastforce
  with Cons show ?case by (simp add: map_filter_simps sched_row_def)
qed (simp add: map_filter_simps)

definition deps_of_id :: "task_row list \<Rightarrow> string \<Rightarrow> string list" where
  "deps_of_id rows i = (case List.find (\<lambda>r. row_id r = Some i) rows of Some r \<Rightarrow> row_deps r | None \<Rightarrow> [])"

lemma deps_of_id_row:
  assumes "distinct_ids rows" and "r \<in> set rows" and "row_id r = Some i"
  shows "deps_of_id rows i = row_deps r"
proof -
  obtain q where q: "List.find (\<lambda>r. row_id r = Some i) rows = Some q"
    using assms(2,3) by (cases "List.find (\<lambda>r. row_id r = Some i) rows") (auto simp: find_None_iff)
  then have "q \<in> set rows" "row_id q = Some i" by (auto simp: find_Some_iff)
  then have "q = r" using distinct_ids_unique [OF assms(1)] assms(2,3) by blast
  with q show ?thesis by (simp add: deps_of_id_def)
qed

lemma sched_deps:
  assumes linked: "well_linked rows" and r: "r \<in> set (runnable_rows completed rows)" and i: "row_id r = Some i"
  shows "deps_of (map sched_row (runnable_rows completed rows)) i = row_deps r"
proof -
  let ?run = "runnable_rows completed rows"
  have sub: "r \<in> set rows" if "r \<in> set ?run" for r using that by (simp add: set_runnable [OF linked])
  have "distinct_ids ?run"
    using linked unfolding runnable_rows_def Let_def well_linked_def by (blast intro: distinct_ids_filter)
  moreover have "map (tk_id \<circ> sched_row) ?run = List.map_filter row_id ?run"
    by (rule sched_ids) (use linked sub in \<open>auto simp: well_linked_def\<close>)
  ultimately have d: "distinct (map (tk_id \<circ> sched_row) ?run)" by (simp add: distinct_ids_def)
  let ?pairs = "rev (map (\<lambda>x. (tk_id x, task_deps x)) (map sched_row ?run))"
  have "distinct (map fst ?pairs)" using d by (simp add: rev_map [symmetric] comp_def)
  moreover have "(i, task_deps (sched_row r)) \<in> set ?pairs" using r i by (force simp: sched_row_def)
  ultimately have "map_of ?pairs i = Some (task_deps (sched_row r))" by (rule map_of_is_SomeI)
  then show ?thesis by (simp add: deps_of_def linked_deps(1) [OF linked sub [OF r]])
qed

lemma weight_positive: "0 < weight_aware_max_tasks_per_batch n rows"
  by (simp add: weight_aware_max_tasks_per_batch_def Let_def max_def)

lemma linked_id:
  assumes "well_linked rows" and "r \<in> set rows"
  shows "\<exists>i. row_id r = Some i \<and> i \<noteq> []"
proof -
  have "row_id r \<noteq> None" "row_id r \<noteq> Some []"
    using assms by (auto simp: well_linked_def distinct_ids_def mem_map_filter_iff)
  then show ?thesis by auto
qed

lemma run_row:
  assumes linked: "well_linked rows" and t: "t \<in> set (map tk_id (map sched_row (runnable_rows completed rows)))"
  shows "\<exists>r. r \<in> set (runnable_rows completed rows) \<and> row_id r = Some t \<and> r \<in> set rows"
proof -
  obtain r where r: "r \<in> set (runnable_rows completed rows)" "t = tk_id (sched_row r)" using t by auto
  moreover have "r \<in> set rows" using r(1) by (simp add: set_runnable [OF linked])
  ultimately show ?thesis using linked_id [OF linked, of r] by (auto simp: sched_row_def)
qed

lemma run_ids:
  assumes linked: "well_linked rows"
  shows "set (map tk_id (map sched_row (runnable_rows completed rows))) =
    set (known_ids rows) - set completed - held completed rows"
  using linked_id [OF linked] by (force simp: set_runnable [OF linked] set_known_ids sched_row_def image_iff)

lemma run_untyped:
  assumes linked: "well_linked rows"
  shows "untyped_dependency (runnable_rows completed rows) = None"
proof -
  have "concat (map (\<lambda>r. map (\<lambda>d. (py_str d, tk_id (sched_row r))) (filter (\<lambda>d. \<not> is_str d) (raw_deps r)))
      (runnable_rows completed rows)) = []"
    using linked_deps(3) [OF linked] by (simp add: set_runnable [OF linked])
  then show ?thesis unfolding untyped_dependency_def by (simp only: list.case)
qed

lemma run_edges:
  assumes linked: "well_linked rows"
  shows "pending_edges (map sched_row (runnable_rows completed rows)) completed =
    {(d, i). (d, i) \<in> row_edges rows \<and> d \<notin> set completed \<and> i \<notin> set completed \<and> i \<notin> held completed rows}"
    (is "pending_edges ?tasks completed = _")
proof -
  have "d \<in> set (deps_of ?tasks i) \<longleftrightarrow> (d, i) \<in> row_edges rows" if i: "i \<in> set (map tk_id ?tasks)" for d i
  proof -
    obtain r where r: "r \<in> set (runnable_rows completed rows)" "row_id r = Some i" "r \<in> set rows"
      using run_row [OF linked i] by blast
    have "i \<noteq> []" using linked_id [OF linked r(3)] r(2) by simp
    moreover have "q = r" if "q \<in> set rows" "row_id q = Some i" for q
      using distinct_ids_unique [of rows q r i] linked that r(2,3) by (simp add: well_linked_def)
    ultimately have "(d, i) \<in> row_edges rows \<longleftrightarrow> d \<in> set (known_ids rows) \<and> d \<in> set (row_deps r)"
      unfolding row_edges_def set_dependents mem_Collect_eq case_prod_conv using r(2,3) by blast
    then show ?thesis unfolding sched_deps [OF linked r(1,2)] using linked_deps(2) [OF linked r(3)] by blast
  qed
  moreover have "i \<in> set (known_ids rows)" if "(d, i) \<in> row_edges rows" for d i
    using that unfolding row_edges_def set_dependents set_known_ids by blast
  ultimately show ?thesis unfolding pending_edges_def run_ids [OF linked] by blast
qed

text \<open>The sizing of the batches keeps their tasks and the order of the dependencies.\<close>

lemma sized_batches:
  assumes "compute_task_batches tasks completed = Inr raw" and "0 < cap"
    and "batches = (case split_high_complexity_batches (split_oversized_batches raw cap n) data cap of
      Inr bs \<Rightarrow> bs | Inl e \<Rightarrow> split_oversized_batches raw cap n)"
  shows "set (concat batches) = set (map tk_id tasks) \<and> distinct (concat batches) \<and>
    in_order (deps_of tasks) completed batches"
proof -
  note facts = compute_Inr [OF assms(1)]
  let ?split = "split_oversized_batches raw cap n"
  have order: "in_order (deps_of tasks) completed ?split"
    unfolding split_oversized_batches_def Let_def
    by (intro in_order_split facts(1)) (simp add: split_pieces [OF effective_max_pos])
  have "in_order (deps_of tasks) completed batches \<and> set (concat batches) = set (concat ?split) \<and>
      length (concat batches) = length (concat ?split)"
    using split_high_keeps [OF _ assms(2) order] order by (auto simp: assms(3) split: sum.split)
  then show ?thesis
    using facts(2,3) unfolding split_concat by (metis card_distinct distinct_card)
qed

lemma recomputed:
  assumes linked: "well_linked (rows_of data)" and parked: "parked_ids completed (rows_of data) \<noteq> []"
    and Inr: "recompute_runnable_batches data completed max_tasks = Inr batches"
  defines "tasks \<equiv> map sched_row (runnable_rows completed (rows_of data))"
  shows "set (concat batches) = set (map tk_id tasks) \<and> distinct (concat batches) \<and>
    in_order (deps_of tasks) completed batches"
proof (cases "runnable_rows completed (rows_of data) = []")
  case True
  then show ?thesis using parked Inr by (simp add: recompute_runnable_batches_def Let_def tasks_def)
next
  case False
  let ?cap = "weight_aware_max_tasks_per_batch max_tasks (rows_of data)"
  obtain raw where "compute_task_batches tasks completed = Inr raw" and
    "batches = (case split_high_complexity_batches (split_oversized_batches raw ?cap 5) data ?cap of
      Inr bs \<Rightarrow> bs | Inl e \<Rightarrow> split_oversized_batches raw ?cap 5)"
    using Inr run_untyped [OF linked] parked False unfolding tasks_def
    by (auto simp: recompute_runnable_batches_def Let_def batches_of_rows_def)
  then show ?thesis by (rule sized_batches [OF _ weight_positive])
qed

text \<open>C14. Tasks that were parked as blocked hold back their dependents and nothing else: with distinct ids and
  dependencies that name rows, the batches recomputed beside them contain, once each, exactly the tasks that
  are neither complete nor reach a parked task through their dependencies, in an order that respects the
  dependencies. It fails only on a cycle among those tasks, never on a dependency that was held back.
\<close>

theorem parked_tasks_hold_only_dependents:
  assumes "well_linked (rows_of data)" and "parked_ids completed (rows_of data) \<noteq> []"
  shows "case recompute_runnable_batches data completed max_tasks of
      Inl e \<Rightarrow> \<not> acyclic {(d, i). (d, i) \<in> row_edges (rows_of data) \<and> d \<notin> set completed \<and>
        i \<notin> set completed \<and> i \<notin> held completed (rows_of data)}
    | Inr batches \<Rightarrow>
        set (concat batches) = set (known_ids (rows_of data)) - set completed - held completed (rows_of data) \<and>
        distinct (concat batches) \<and> in_order (deps_of_id (rows_of data)) completed batches"
proof -
  let ?rows = "rows_of data"
  let ?tasks = "map sched_row (runnable_rows completed ?rows)"
  note linked = assms(1)
  show ?thesis
  proof (cases "recompute_runnable_batches data completed max_tasks")
    case (Inl e)
    then have "isl (compute_task_batches ?tasks completed)"
      using run_untyped [OF linked] assms(2)
      by (auto simp: recompute_runnable_batches_def Let_def batches_of_rows_def res_bind_Inl_iff isl_def split: if_splits)
    then have "\<not> acyclic (pending_edges ?tasks completed)"
      using compute_iff [of ?tasks completed] runnable_known [OF linked] by blast
    then show ?thesis by (simp add: Inl run_edges [OF linked])
  next
    case (Inr batches)
    note b = recomputed [OF assms Inr]
    have "in_order (deps_of_id ?rows) completed batches"
    proof (rule in_order_weaken [of "deps_of ?tasks" _ _ "[]"])
      fix t assume "t \<in> set (concat batches)"
      then have "t \<in> set (map tk_id ?tasks)" using b by blast
      then obtain r where r: "r \<in> set (runnable_rows completed ?rows)" "row_id r = Some t" "r \<in> set ?rows"
        using run_row [OF linked] by blast
      then show "set (deps_of_id ?rows t) \<subseteq> set (deps_of ?tasks t) \<union> set []"
        using sched_deps [OF linked r(1,2)] deps_of_id_row [of ?rows r t] linked by (simp add: well_linked_def)
    qed (use b in simp_all)
    moreover have "set (concat batches) = set (known_ids ?rows) - set completed - held completed ?rows"
      using b unfolding run_ids [OF linked] by blast
    ultimately show ?thesis using b unfolding Inr sum.case by blast
  qed
qed

subsection \<open>The properties at concrete inputs\<close>

definition sample_plan_rows :: "(string \<times> json) list" where
  "sample_plan_rows =
     [(''tasks'', JArr [
        JObj [(''id'', JStr ''a''), (''status'', JStr ''blocked'')],
        JObj [(''id'', JStr ''b''), (''status'', JStr ''pending''), (''depends_on'', JArr [JStr ''a''])],
        JObj [(''id'', JStr ''c''), (''status'', JStr ''pending'')],
        JObj [(''id'', JStr ''d''), (''status'', JStr ''pending''), (''depends_on'', JArr [JStr ''c''])],
        JObj [(''id'', JStr ''g''), (''status'', JStr ''blocked''),
              (''task_test_budget_exhausted'', JStr ''suite'')]])]"

lemma sample_rows_linked: "well_linked (rows_of sample_plan_rows)"
  by code_simp

lemma sample_rows_distinct: "distinct_ids (rows_of sample_plan_rows)"
  by code_simp

lemma retry_agrees_with_policy_witness:
  "\<exists>ids data'. retry_blocked_tasks (\<lambda>rows. Inr ([''g''], Map.empty)) sample_plan_rows = Inr ((ids, ids), data') \<and>
     set ids = {''a'', ''g''}"
proof -
  have "rd_rerun (resolve_partial_failure_resume (map JObj (rows_of sample_plan_rows)) [] [] []) = [''a'', ''g'']"
    "baseline_unavailable_checkpoint_ids sample_plan_rows (picked_ids (\<lambda>i. has_status ''blocked'') (rows_of sample_plan_rows)) = []"
    "\<exists>r \<in> set (rows_of sample_plan_rows). row_id r = Some ''g'' \<and> is_task_test_budget_blocked r"
    by code_simp+
  then show ?thesis
    using retry_agrees_with_policy [OF _ sample_rows_distinct, of "\<lambda>rows. Inr ([''g''], Map.empty)" "[''g'']" Map.empty]
    by auto
qed

lemma budget_gate_survives_witness:
  "durable_gate (clear_contradictory_rows (snd (reset_blocked_tasks_to_pending [] (rows_of sample_plan_rows))) ! 4)"
proof -
  have "frontier_step\<^sup>*\<^sup>* (rows_of sample_plan_rows)
      (clear_contradictory_rows (snd (reset_blocked_tasks_to_pending [] (rows_of sample_plan_rows))))"
    by (rule rtranclp.rtrancl_into_rtrancl [OF r_into_rtranclp [of frontier_step, OF frontier_step.retry]
          frontier_step.contradictory])
  moreover have "4 < length (rows_of sample_plan_rows)" "durable_gate (rows_of sample_plan_rows ! 4)" by code_simp+
  ultimately show ?thesis using budget_gate_survives by blast
qed

lemma parked_tasks_hold_only_dependents_witness:
  "\<exists>batches. recompute_runnable_batches sample_plan_rows [] 3 = Inr batches \<and>
     set (concat batches) = {''c'', ''d''} \<and> distinct (concat batches)"
proof -
  have "[] \<notin> set (parked_ids [] (rows_of sample_plan_rows))" by code_simp
  then have "held [] (rows_of sample_plan_rows) =
      set (dependency_closed_blocked_task_ids (rows_of sample_plan_rows) (parked_ids [] (rows_of sample_plan_rows)))"
    unfolding held_def blocked_closure by simp
  moreover have "dependency_closed_blocked_task_ids (rows_of sample_plan_rows) (parked_ids [] (rows_of sample_plan_rows)) =
      [''a'', ''g'', ''b'']"
    by code_simp
  ultimately have "held [] (rows_of sample_plan_rows) = {''a'', ''g'', ''b''}" by simp
  moreover
  have "known_ids (rows_of sample_plan_rows) = [''a'', ''b'', ''c'', ''d'', ''g'']"
    "parked_ids [] (rows_of sample_plan_rows) \<noteq> []" "\<not> isl (recompute_runnable_batches sample_plan_rows [] 3)"
    by code_simp+
  ultimately show ?thesis
    using parked_tasks_hold_only_dependents [OF sample_rows_linked, of "[]" 3]
    by (cases "recompute_runnable_batches sample_plan_rows [] 3") auto
qed

definition sample_reader :: "bool \<Rightarrow> reader_env" where
  "sample_reader project =
     \<lparr>re_verdict = Inr [], re_batches = [], re_finalize = None, re_plan_head = None, re_project = project,
      re_project_head = None, re_ancestor = \<lambda>a b. False, re_committed = \<lambda>c. None,
      re_collected = Some \<lparr>ca_records = plan_inputs, ca_policy = sample_policy, ca_labels = [],
        ca_run_id = ''r'', ca_run_revision = ''v''\<rparr>\<rparr>"

lemma sample_projection:
  assumes "status \<noteq> []"
  shows "accepted_attempt_execution_projection sample_sha (sample_reader project) (sample_records status) =
    Inr (Some (sample_plan_view status))"
proof -
  have "reduce_run_authority sample_sha plan_inputs (JStr ''r'') (JStr ''v'') JNull =
      reduce_run_authority sample_sha plan_inputs (JStr ''r'') (JStr ''v'') (JInt 7)"
    by (simp add: reduce_run_authority_def plan_inputs_def)
  then have red: "reduce_run_authority sample_sha plan_inputs (JStr ''r'') (JStr ''v'') JNull = Inr plan_authority"
    by (simp only: plan_authority_reduced)
  have "task_records (JObj [(''tasks'', JArr (map JObj (sample_records status)))]) =
      task_records (JArr (map JObj (sample_records status)))"
    by (simp add: task_records_def dget_def)
  then have "derive_plan_execution_view sample_sha plan_authority (JObj [(''tasks'', JArr (map JObj (sample_records status)))])
      sample_policy [] ''finalize.json'' 5 = Inr (sample_plan_view status)"
    using sample_view [OF assms] by (simp only: derive_plan_execution_view_def)
  moreover obtain r rs where "sample_records status = r # rs" by (simp add: sample_records_def)
  ultimately show ?thesis
    by (simp add: accepted_attempt_execution_projection_def sample_reader_def red)
qed

lemma sample_shapes: "map shape_of (sample_records status) = map shape_of (sample_records status')"
  by (simp add: sample_records_def shape_of_def dget_def)

lemma authority_alone_completes_witness:
  "\<exists>ids decisions. effective_execute_completed_task_ids sample_sha (sample_reader True) JNull [] None None
     (sample_records ''done'') = Inr (ids, decisions) \<and> set ids = {''s''}"
proof -
  have e: "re_collected (sample_reader True) = re_collected (sample_reader False)" by (simp add: sample_reader_def)
  show ?thesis
    using authority_alone_completes [OF sample_projection e sample_shapes [of "''pending''" "''done''"], of JNull "[]" None None]
      sample_closed [of "''pending''"] by simp
qed

lemma demotion_and_adoption_settle_witness:
  "\<exists>demoted rows1 adopted rows2.
     reset_stale_authority_done_tasks (scheduler_completed_ids_for_tasks sample_sha (sample_reader True) JNull)
       (sample_records ''blocked'') = Inr (demoted, rows1) \<and>
     adopt_authority_completed_blocked_tasks (scheduler_completed_ids_for_tasks sample_sha (sample_reader True) JNull) [] rows1 =
       Inr (adopted, rows2) \<and>
     reset_stale_authority_done_tasks (scheduler_completed_ids_for_tasks sample_sha (sample_reader True) JNull) rows2 =
       Inr ([], rows2)"
proof -
  let ?reading = "scheduler_completed_ids_for_tasks sample_sha (sample_reader True) JNull"
  have view: "accepted_attempt_execution_projection sample_sha (sample_reader True) (sample_records ''blocked'') =
      Inr (Some (sample_plan_view ''blocked''))"
    by (rule sample_projection) simp
  obtain demoted rows1 where 1: "reset_stale_authority_done_tasks ?reading (sample_records ''blocked'') = Inr (demoted, rows1)"
    "map shape_of (sample_records ''blocked'') = map shape_of rows1"
    using projected_stages(1) [OF view refl, of JNull] by (simp add: shape_change_picked shape_clear)
  moreover obtain adopted rows2 where "adopt_authority_completed_blocked_tasks ?reading [] rows1 = Inr (adopted, rows2)"
    using projected_stages(2) [OF view 1(2), of JNull "[]"] by blast
  ultimately show ?thesis using demotion_and_adoption_settle [OF view 1(1)] by blast
qed

end
