(* ===== verification/Dispatch_Binding.thy ===== *)
theory Dispatch_Binding
  imports Plan_View Resolution_Commands
begin

section \<open>Dispatch identities, result envelopes and batch scopes\<close>

text \<open>
  The names and constraints Megaplan puts over the run-authority contracts (\<^verbatim>\<open>megaplan/authority/binding.py\<close>)
  and the proof of the subjects a batch was dispatched with (\<^verbatim>\<open>megaplan/authority/batch_scope.py\<close>). The
  subclasses of the contracts keep the records; a claim is a task claim exactly when its type is the
  completion claim. Messages of quarantines are left out, their reasons are kept.
\<close>

subsection \<open>Names\<close>

definition TASK_RESULT_CAPABILITY :: string where
  "TASK_RESULT_CAPABILITY = ''megaplan.task.result''"

definition SENSE_CHECK_RESULT_CAPABILITY :: string where
  "SENSE_CHECK_RESULT_CAPABILITY = ''megaplan.sense_check.result''"

definition SENSE_CHECK_ACK_CLAIM :: string where
  "SENSE_CHECK_ACK_CLAIM = ''megaplan.sense_check.acknowledgment''"

definition is_task_claim :: "authority_claim \<Rightarrow> bool" where
  "is_task_claim c \<longleftrightarrow> cl_claim_type c = TASK_COMPLETION_CLAIM"

text \<open>A record of one class: decoding gives a record of the class it was asked for.\<close>

fun as_cas :: "contract \<Rightarrow> cas_expectation option" where
  "as_cas (CASExpectation r) = Some r"
| "as_cas _ = None"

definition decoded :: "(contract \<Rightarrow> 'a option) \<Rightarrow> contract_error + contract \<Rightarrow> contract_error + 'a" where
  "decoded sel r = res_bind r (\<lambda>c. case sel c of Some x \<Rightarrow> Inr x | None \<Rightarrow> Inl ContractError)"

subsection \<open>Dispatch identities\<close>

definition mk_dispatch_grant :: "capability_grant \<Rightarrow> contract_error + capability_grant" where
  "mk_dispatch_grant g =
     res_bind (ensure (list_all (\<lambda>c. c \<in> {TASK_RESULT_CAPABILITY, SENSE_CHECK_RESULT_CAPABILITY}) (gr_capabilities g))
       ContractError) (\<lambda>_. Inr g)"

definition dispatch_grant_from_dict :: "(string \<Rightarrow> string) \<Rightarrow> json \<Rightarrow> contract_error + capability_grant" where
  "dispatch_grant_from_dict sha v = res_bind (decoded as_grant (from_dict sha GrantClass v)) mk_dispatch_grant"

definition decode_optional_cas :: "(string \<Rightarrow> string) \<Rightarrow> json \<Rightarrow> contract_error + cas_expectation option" where
  "decode_optional_cas sha v =
     (if v = JNull then Inr None else res_bind (decoded as_cas (from_dict sha CASClass v)) (Inr \<circ> Some))"

record dispatch_identity =
  di_grant :: capability_grant
  di_fence :: coordinator_fence
  di_prerequisite_digest :: string
  di_worker_id :: string
  di_cas_expectation :: "cas_expectation option"
  di_schema_version :: json

text \<open>A CAS expectation is compared with its own cursor: only run and revision matter.\<close>

definition cas_fits :: "capability_grant \<Rightarrow> cas_expectation option \<Rightarrow> contract_error + unit" where
  "cas_fits grant cas =
     (case cas of
        None \<Rightarrow> Inr ()
      | Some c \<Rightarrow> assert_matches c (gr_run_id grant) (gr_run_revision grant) (ca_expected_cursor c))"

definition mk_dispatch_identity ::
  "capability_grant \<Rightarrow> coordinator_fence \<Rightarrow> json \<Rightarrow> json \<Rightarrow> cas_expectation option \<Rightarrow> json \<Rightarrow>
   contract_error + dispatch_identity" where
  "mk_dispatch_identity grant fence prerequisite_digest worker_id cas version =
     res_bind (required prerequisite_digest) (\<lambda>p.
     res_bind (required worker_id) (\<lambda>w.
     res_bind (ensure (equals_one version) ContractError) (\<lambda>_.
     res_bind (ensure (gr_run_id grant = fe_run_id fence) IdentityConflict) (\<lambda>_.
     res_bind (ensure (gr_run_revision grant = fe_run_revision fence) RevisionConflict) (\<lambda>_.
     res_bind (ensure (gr_coordinator_attempt_id grant = fe_coordinator_attempt_id fence) IdentityConflict) (\<lambda>_.
     res_bind (ensure (gr_fence_token grant = fe_token fence) IdentityConflict) (\<lambda>_.
     res_bind (cas_fits grant cas) (\<lambda>_.
       Inr \<lparr>di_grant = grant, di_fence = fence, di_prerequisite_digest = p, di_worker_id = w,
            di_cas_expectation = cas, di_schema_version = version\<rparr>))))))))"

definition dispatch_create ::
  "string \<Rightarrow> string \<Rightarrow> string \<Rightarrow> string \<Rightarrow> int \<Rightarrow> string list \<Rightarrow> string list \<Rightarrow> string \<Rightarrow> string \<Rightarrow> string list \<Rightarrow>
   int option \<Rightarrow> contract_error + dispatch_identity" where
  "dispatch_create dispatch_id run revision co token subjects capabilities prerequisite_digest worker_id evidence_ids cursor =
     res_bind (mk_grant (JStr dispatch_id) (JStr run) (JStr revision) (JStr co) (JInt token) (strs subjects)
       (strs capabilities) (strs evidence_ids)) (\<lambda>generic.
     res_bind (mk_dispatch_grant generic) (\<lambda>grant.
     res_bind (mk_fence (JStr run) (JStr revision) (JStr co) (JInt token)) (\<lambda>fence.
     res_bind (mk_cas (JStr run) (JStr revision) (opt_json JInt cursor)) (\<lambda>cas.
       mk_dispatch_identity grant fence (JStr prerequisite_digest) (JStr worker_id) (Some cas) (JInt 1)))))"

text \<open>The keys of a dictionary: all of the required ones and no other than the allowed.\<close>

definition keys_fit :: "string list \<Rightarrow> string list \<Rightarrow> (string \<times> json) list \<Rightarrow> bool" where
  "keys_fit required_keys optional_keys d \<longleftrightarrow>
     set (map fst d) \<subseteq> set (required_keys @ optional_keys) \<and> set required_keys \<subseteq> set (map fst d)"

definition dispatch_identity_from_dict :: "(string \<Rightarrow> string) \<Rightarrow> json \<Rightarrow> contract_error + dispatch_identity" where
  "dispatch_identity_from_dict sha v =
     (case v of
        JObj d \<Rightarrow>
          res_bind (ensure (keys_fit [''schema_version'', ''grant'', ''fence'', ''prerequisite_digest'', ''worker_id'']
              [''cas_expectation''] d) ContractError) (\<lambda>_.
          res_bind (dispatch_grant_from_dict sha (dget d ''grant'' JNull)) (\<lambda>grant.
          res_bind (decoded as_fence (from_dict sha FenceClass (dget d ''fence'' JNull))) (\<lambda>fence.
          res_bind (decode_optional_cas sha (dget d ''cas_expectation'' JNull)) (\<lambda>cas.
            mk_dispatch_identity grant fence (dget d ''prerequisite_digest'' JNull) (dget d ''worker_id'' JNull) cas
              (dget d ''schema_version'' JNull)))))
      | _ \<Rightarrow> Inl ContractError)"

definition dict_of :: "contract \<Rightarrow> json" where
  "dict_of r = JObj (to_dict r)"

definition dispatch_identity_to_dict :: "dispatch_identity \<Rightarrow> json" where
  "dispatch_identity_to_dict i = JObj
     [(''schema_version'', di_schema_version i), (''grant'', dict_of (CapabilityGrant (di_grant i))),
      (''fence'', dict_of (CoordinatorFence (di_fence i))),
      (''prerequisite_digest'', JStr (di_prerequisite_digest i)), (''worker_id'', JStr (di_worker_id i)),
      (''cas_expectation'', opt_json (dict_of \<circ> CASExpectation) (di_cas_expectation i))]"

definition dispatch_identity_digest :: "(string \<Rightarrow> string) \<Rightarrow> dispatch_identity \<Rightarrow> string" where
  "dispatch_identity_digest sha i = sha (canonical_json (dispatch_identity_to_dict i))"

definition dispatch_authority_records :: "dispatch_identity \<Rightarrow> contract list" where
  "dispatch_authority_records i =
     [CoordinatorFence (di_fence i), CapabilityGrant (di_grant i)] @
     (case di_cas_expectation i of None \<Rightarrow> [] | Some c \<Rightarrow> [CASExpectation c])"

text \<open>\<^verbatim>\<open>from_records\<close> with a generic grant.\<close>

definition dispatch_identity_from_records ::
  "(string \<Rightarrow> string) \<Rightarrow> capability_grant \<Rightarrow> coordinator_fence \<Rightarrow> string \<Rightarrow> string \<Rightarrow> cas_expectation option \<Rightarrow>
   contract_error + dispatch_identity" where
  "dispatch_identity_from_records sha grant fence prerequisite_digest worker_id cas =
     res_bind (dispatch_grant_from_dict sha (dict_of (CapabilityGrant grant))) (\<lambda>g.
       mk_dispatch_identity g fence (JStr prerequisite_digest) (JStr worker_id) cas (JInt 1))"

subsection \<open>Result envelopes\<close>

record result_envelope =
  en_dispatch :: dispatch_identity
  en_attempt :: subject_attempt
  en_claim :: authority_claim
  en_evidence :: "evidence_envelope list"
  en_decision :: "authority_decision option"
  en_cas_expectation :: "cas_expectation option"
  en_schema_version :: json

definition expected_capability :: "authority_claim \<Rightarrow> string" where
  "expected_capability c = (if is_task_claim c then TASK_RESULT_CAPABILITY else SENSE_CHECK_RESULT_CAPABILITY)"

definition mk_result_envelope ::
  "dispatch_identity \<Rightarrow> subject_attempt \<Rightarrow> authority_claim \<Rightarrow> evidence_envelope list \<Rightarrow> authority_decision option \<Rightarrow>
   cas_expectation option \<Rightarrow> json \<Rightarrow> contract_error + result_envelope" where
  "mk_result_envelope dispatch attempt claim evidence0 decision cas version =
     (let evidence = sort_key ev_evidence_id evidence0; grant = di_grant dispatch in
     res_bind (ensure (equals_one version) ContractError) (\<lambda>_.
     res_bind (cas_fits grant cas) (\<lambda>_.
     res_bind (ensure (at_grant_id attempt = gr_grant_id grant) IdentityConflict) (\<lambda>_.
     res_bind (ensure (at_subject_id attempt \<in> set (gr_subject_ids grant)) IdentityConflict) (\<lambda>_.
     res_bind (ensure (cl_grant_id claim = gr_grant_id grant) IdentityConflict) (\<lambda>_.
     res_bind (ensure (expected_capability claim \<in> set (gr_capabilities grant)) IdentityConflict) (\<lambda>_.
     res_bind (validate_relationships (di_fence dispatch) grant attempt claim evidence decision) (\<lambda>_.
       Inr \<lparr>en_dispatch = dispatch, en_attempt = attempt, en_claim = claim, en_evidence = evidence,
            en_decision = decision, en_cas_expectation = cas, en_schema_version = version\<rparr>))))))))"

definition envelope_subject_id :: "result_envelope \<Rightarrow> string" where
  "envelope_subject_id e = at_subject_id (en_attempt e)"

definition envelope_evidence_ids :: "result_envelope \<Rightarrow> string list" where
  "envelope_evidence_ids e = sorted_set (gr_evidence_ids (di_grant (en_dispatch e)) @ cl_evidence_ids (en_claim e) @
     (case en_decision e of None \<Rightarrow> [] | Some d \<Rightarrow> de_evidence_ids d))"

text \<open>The type of a decoded claim decides how attempt and decision are decoded; the subclasses have the
  fields and checks of their generic class.\<close>

definition decode_claim :: "(string \<Rightarrow> string) \<Rightarrow> json \<Rightarrow> contract_error + authority_claim" where
  "decode_claim sha v =
     res_bind (decoded as_claim (from_dict sha ClaimClass v)) (\<lambda>c.
     res_bind (ensure (cl_claim_type c \<in> {TASK_COMPLETION_CLAIM, SENSE_CHECK_ACK_CLAIM}) ContractError) (\<lambda>_. Inr c))"

definition decode_attempt :: "(string \<Rightarrow> string) \<Rightarrow> json \<Rightarrow> contract_error + subject_attempt" where
  "decode_attempt sha v = decoded as_attempt (from_dict sha AttemptClass v)"

definition decode_decision :: "(string \<Rightarrow> string) \<Rightarrow> json \<Rightarrow> contract_error + authority_decision option" where
  "decode_decision sha v =
     (if v = JNull then Inr None else res_bind (decoded as_decision (from_dict sha DecisionClass v)) (Inr \<circ> Some))"

definition result_envelope_from_dict :: "(string \<Rightarrow> string) \<Rightarrow> json \<Rightarrow> contract_error + result_envelope" where
  "result_envelope_from_dict sha v =
     (case v of
        JObj d \<Rightarrow>
          res_bind (ensure (keys_fit [''schema_version'', ''dispatch'', ''attempt'', ''claim'', ''evidence'']
              [''decision'', ''cas_expectation''] d) ContractError) (\<lambda>_.
          res_bind (decode_claim sha (dget d ''claim'' JNull)) (\<lambda>claim.
          res_bind (dispatch_identity_from_dict sha (dget d ''dispatch'' JNull)) (\<lambda>dispatch.
          res_bind (decode_attempt sha (dget d ''attempt'' JNull)) (\<lambda>attempt.
          res_bind (iter_values (dget d ''evidence'' JNull)) (\<lambda>items.
          res_bind (res_map (\<lambda>item. decoded as_evidence (from_dict sha EvidenceClass item)) items) (\<lambda>evidence.
          res_bind (decode_decision sha (dget d ''decision'' JNull)) (\<lambda>decision.
          res_bind (decode_optional_cas sha (dget d ''cas_expectation'' JNull)) (\<lambda>cas.
            mk_result_envelope dispatch attempt claim evidence decision cas (dget d ''schema_version'' JNull)))))))))
      | _ \<Rightarrow> Inl ContractError)"

definition result_envelope_to_dict :: "result_envelope \<Rightarrow> json" where
  "result_envelope_to_dict e = JObj
     [(''schema_version'', en_schema_version e), (''dispatch'', dispatch_identity_to_dict (en_dispatch e)),
      (''attempt'', dict_of (SubjectAttempt (en_attempt e))), (''claim'', dict_of (Claim (en_claim e))),
      (''decision'', opt_json (dict_of \<circ> Decision) (en_decision e)),
      (''evidence'', JArr (map (dict_of \<circ> EvidenceEnvelope) (en_evidence e))),
      (''cas_expectation'', opt_json (dict_of \<circ> CASExpectation) (en_cas_expectation e))]"

definition result_envelope_digest :: "(string \<Rightarrow> string) \<Rightarrow> result_envelope \<Rightarrow> string" where
  "result_envelope_digest sha e = sha (canonical_json (result_envelope_to_dict e))"

text \<open>\<^verbatim>\<open>from_records\<close> with generic records.\<close>

definition result_envelope_from_records ::
  "(string \<Rightarrow> string) \<Rightarrow> dispatch_identity \<Rightarrow> subject_attempt \<Rightarrow> authority_claim \<Rightarrow> evidence_envelope list \<Rightarrow>
   authority_decision option \<Rightarrow> cas_expectation option \<Rightarrow> contract_error + result_envelope" where
  "result_envelope_from_records sha dispatch attempt claim evidence decision cas =
     res_bind (decode_claim sha (dict_of (Claim claim))) (\<lambda>c.
     res_bind (decode_attempt sha (dict_of (SubjectAttempt attempt))) (\<lambda>a.
     res_bind (decode_decision sha (opt_json (dict_of \<circ> Decision) decision)) (\<lambda>d.
       mk_result_envelope dispatch a c evidence d cas (JInt 1))))"

definition idempotency_keys :: "result_envelope \<Rightarrow> contract_error + idempotency_key list" where
  "idempotency_keys e =
     res_bind (claim_idempotency (en_claim e)) (\<lambda>k.
       case en_decision e of
         None \<Rightarrow> Inr [k]
       | Some d \<Rightarrow> res_bind (decision_idempotency d) (\<lambda>k'. Inr [k, k']))"

definition envelope_authority_records :: "(string \<Rightarrow> string) \<Rightarrow> result_envelope \<Rightarrow> contract_error + contract list" where
  "envelope_authority_records sha e =
     (let digest = (\<lambda>c. contract_digest sha (CASExpectation c)); own = di_cas_expectation (en_dispatch e) in
     res_bind (claim_idempotency (en_claim e)) (\<lambda>k.
     res_bind (case en_decision e of
         None \<Rightarrow> Inr []
       | Some d \<Rightarrow> res_bind (decision_idempotency d) (\<lambda>k'. Inr [IdempotencyKey k', Decision d])) (\<lambda>decided.
       Inr ([CoordinatorFence (di_fence (en_dispatch e)), CapabilityGrant (di_grant (en_dispatch e))] @
         map EvidenceEnvelope (en_evidence e) @
         [SubjectAttempt (en_attempt e), IdempotencyKey k, Claim (en_claim e)] @ decided @
         (case own of None \<Rightarrow> [] | Some c \<Rightarrow> [CASExpectation c]) @
         (case en_cas_expectation e of
            None \<Rightarrow> []
          | Some c \<Rightarrow> if own = None \<or> map_option digest own \<noteq> Some (digest c) then [CASExpectation c] else [])))))"

subsection \<open>Batch scopes\<close>

definition valid_subject_id :: "json \<Rightarrow> bool" where
  "valid_subject_id v \<longleftrightarrow> (case v of JStr s \<Rightarrow> s \<noteq> [] \<and> strip s = s | _ \<Rightarrow> False)"

definition canonical_subject_ids :: "string list \<Rightarrow> py_error + string list" where
  "canonical_subject_ids ids =
     res_bind (ensure (list_all (valid_subject_id \<circ> JStr) ids) ValueError) (\<lambda>_. Inr (sorted_set ids))"

definition stable_task_id_digest :: "(string \<Rightarrow> string) \<Rightarrow> string list \<Rightarrow> string" where
  "stable_task_id_digest sha ids = take 12 (sha (join [CHR 0x0A] (sorted_set ids)))"

record batch_scope =
  bs_schema_version :: int
  bs_batch_number :: int
  bs_task_ids :: "string list"
  bs_sense_check_ids :: "string list"
  bs_task_set_digest :: string

definition mk_batch_scope ::
  "(string \<Rightarrow> string) \<Rightarrow> int \<Rightarrow> int \<Rightarrow> string list \<Rightarrow> string list \<Rightarrow> string \<Rightarrow> py_error + batch_scope" where
  "mk_batch_scope sha version number tasks checks digest =
     res_bind (ensure (version = 1) ValueError) (\<lambda>_.
     res_bind (ensure (1 \<le> number) ValueError) (\<lambda>_.
     res_bind (ensure (tasks \<noteq> []) ValueError) (\<lambda>_.
     res_bind (canonical_subject_ids tasks) (\<lambda>canonical.
     res_bind (ensure (tasks = canonical) ValueError) (\<lambda>_.
     res_bind (canonical_subject_ids checks) (\<lambda>canonical_checks.
     res_bind (ensure (checks = canonical_checks) ValueError) (\<lambda>_.
     res_bind (ensure (digest = stable_task_id_digest sha tasks) ValueError) (\<lambda>_.
       Inr \<lparr>bs_schema_version = version, bs_batch_number = number, bs_task_ids = tasks,
            bs_sense_check_ids = checks, bs_task_set_digest = digest\<rparr>))))))))"

definition batch_scope_create ::
  "(string \<Rightarrow> string) \<Rightarrow> int \<Rightarrow> string list \<Rightarrow> string list \<Rightarrow> py_error + batch_scope" where
  "batch_scope_create sha number tasks checks =
     res_bind (canonical_subject_ids tasks) (\<lambda>t.
     res_bind (canonical_subject_ids checks) (\<lambda>c.
       mk_batch_scope sha 1 number t c (stable_task_id_digest sha t)))"

definition batch_scope_to_dict :: "batch_scope \<Rightarrow> (string \<times> json) list" where
  "batch_scope_to_dict s =
     [(''schema_version'', JInt (bs_schema_version s)), (''batch_number'', JInt (bs_batch_number s)),
      (''task_ids'', strs (bs_task_ids s)), (''sense_check_ids'', strs (bs_sense_check_ids s)),
      (''task_set_digest'', JStr (bs_task_set_digest s))]"

record batch_quarantine =
  bq_reason :: string
  bq_source_path :: string
  bq_task_ids :: "string list"
  bq_sense_check_ids :: "string list"

definition batch_quarantine_fields :: "batch_quarantine \<Rightarrow> (string \<times> json) list" where
  "batch_quarantine_fields q =
     [(''reason'', JStr (bq_reason q)), (''source_path'', JStr (bq_source_path q)),
      (''task_ids'', strs (bq_task_ids q)), (''sense_check_ids'', strs (bq_sense_check_ids q))]"

text \<open>Exactly one of a result or a quarantine.\<close>

datatype 'a resolution = Proven 'a | Refused batch_quarantine

fun is_proven :: "'a resolution \<Rightarrow> bool" where
  "is_proven (Proven _) = True"
| "is_proven (Refused _) = False"

definition readable_ids :: "json \<Rightarrow> string list" where
  "readable_ids v = (case v of JArr xs \<Rightarrow> List.map_filter as_str (filter valid_subject_id xs) | _ \<Rightarrow> [])"

definition refuse_scope :: "string \<Rightarrow> (string \<times> json) list \<Rightarrow> string \<Rightarrow> 'a resolution" where
  "refuse_scope source metadata reason =
     Refused \<lparr>bq_reason = reason, bq_source_path = source, bq_task_ids = readable_ids (dget metadata ''task_ids'' JNull),
       bq_sense_check_ids = readable_ids (dget metadata ''sense_check_ids'' JNull)\<rparr>"

definition refuse_authority :: "string \<Rightarrow> string \<Rightarrow> 'a resolution" where
  "refuse_authority source reason =
     Refused \<lparr>bq_reason = reason, bq_source_path = source, bq_task_ids = [], bq_sense_check_ids = []\<rparr>"

record batch_authority =
  ba_dispatch_identity :: dispatch_identity
  ba_result_envelopes :: "result_envelope list"

text \<open>The envelopes of an artifact, or the reason to refuse it. A \<^verbatim>\<open>TypeError\<close> is no contract error and
  leaves the function.\<close>

fun read_envelopes ::
  "(string \<Rightarrow> string) \<Rightarrow> string \<Rightarrow> json list \<Rightarrow> contract_error + string + result_envelope list" where
  "read_envelopes sha digest [] = Inr (Inr [])"
| "read_envelopes sha digest (v # vs) =
     (if as_dict v = None then Inr (Inl ''malformed_result_envelopes'')
      else (case result_envelope_from_dict sha v of
          Inl ContractTypeError \<Rightarrow> Inl ContractTypeError
        | Inl e \<Rightarrow> Inr (Inl ''malformed_result_envelopes'')
        | Inr e \<Rightarrow>
            if dispatch_identity_digest sha (en_dispatch e) \<noteq> digest then Inr (Inl ''result_envelope_dispatch_mismatch'')
            else res_bind (read_envelopes sha digest vs) (\<lambda>r.
              Inr (case r of Inl reason \<Rightarrow> Inl reason | Inr es \<Rightarrow> Inr (e # es)))))"

definition resolve_batch_authority_metadata ::
  "(string \<Rightarrow> string) \<Rightarrow> (string \<times> json) list \<Rightarrow> string \<Rightarrow> contract_error + batch_authority resolution" where
  "resolve_batch_authority_metadata sha payload source =
     (let raw = dget payload ''dispatch_identity'' JNull; refuse = refuse_authority source in
      if raw = JNull then Inr (refuse ''missing_dispatch_identity'')
      else if as_dict raw = None then Inr (refuse ''malformed_dispatch_identity'')
      else (case dispatch_identity_from_dict sha raw of
          Inl ContractTypeError \<Rightarrow> Inl ContractTypeError
        | Inl e \<Rightarrow> Inr (refuse ''malformed_dispatch_identity'')
        | Inr dispatched \<Rightarrow>
            (case dget payload ''result_envelopes'' JNull of
               JNull \<Rightarrow> Inr (Proven \<lparr>ba_dispatch_identity = dispatched, ba_result_envelopes = []\<rparr>)
             | JArr vs \<Rightarrow> res_bind (read_envelopes sha (dispatch_identity_digest sha dispatched) vs) (\<lambda>r.
                 Inr (case r of Inl reason \<Rightarrow> refuse reason
                      | Inr es \<Rightarrow> Proven \<lparr>ba_dispatch_identity = dispatched, ba_result_envelopes = es\<rparr>))
             | _ \<Rightarrow> Inr (refuse ''malformed_result_envelopes''))))"

subsection \<open>Resolution of a scope\<close>

definition SCOPE_FIELDS :: "string list" where
  "SCOPE_FIELDS = [''schema_version'', ''batch_number'', ''task_ids'', ''sense_check_ids'', ''task_set_digest'']"

text \<open>\<^verbatim>\<open>[0-9a-f]{12}\<close>, \<^verbatim>\<open>batch_([1-9][0-9]*)\<close> and \<^verbatim>\<open>tasks_([0-9a-f]{12})\.json\<close>, each on the whole text.
  The number of a directory is shorter than the limit of \<^verbatim>\<open>int\<close> on texts, as file names are.\<close>

definition hex12 :: "string \<Rightarrow> bool" where
  "hex12 s \<longleftrightarrow> length s = 12 \<and> list_all (\<lambda>c. c \<in> set ''0123456789abcdef'') s"

definition batch_dir_number :: "string \<Rightarrow> int option" where
  "batch_dir_number name =
     (let digits = drop 6 name
      in if take 6 name = ''batch_'' \<and> digits \<noteq> [] \<and> list_all digit_char digits \<and> hd digits \<noteq> CHR ''0''
         then Some (int (digits_value digits)) else None)"

definition task_file_digest :: "string \<Rightarrow> string option" where
  "task_file_digest name =
     (let digest = take 12 (drop 6 name)
      in if take 6 name = ''tasks_'' \<and> hex12 digest \<and> drop 18 name = ''.json'' then Some digest else None)"

text \<open>\<^verbatim>\<open>path.parent.name\<close> and \<^verbatim>\<open>path.name\<close>.\<close>

definition path_parts :: "string \<Rightarrow> string list" where
  "path_parts path = filter (\<lambda>p. p \<noteq> [] \<and> p \<noteq> ''.'') (split_on CHR ''/'' path)"

definition parent_and_name :: "string \<Rightarrow> string \<times> string" where
  "parent_and_name path =
     (case rev (path_parts path) of name # parent # _ \<Rightarrow> (parent, name) | [name] \<Rightarrow> ([], name) | [] \<Rightarrow> ([], []))"

text \<open>The checks in their order: \<open>Inl\<close> the reason to refuse.\<close>

definition scope_fields ::
  "(string \<times> json) list \<Rightarrow> string + (int \<times> string list \<times> string list \<times> json)" where
  "scope_fields metadata =
     res_bind (ensure (set (map fst metadata) = set SCOPE_FIELDS) ''malformed_batch_scope'') (\<lambda>_.
     (case dget metadata ''schema_version'' JNull of
        JInt version \<Rightarrow>
          res_bind (ensure (version = 1) ''unsupported_schema_version'') (\<lambda>_.
          (case dget metadata ''batch_number'' JNull of
             JInt number \<Rightarrow>
               res_bind (ensure (1 \<le> number) ''malformed_batch_scope'') (\<lambda>_.
               (case (dget metadata ''task_ids'' JNull, dget metadata ''sense_check_ids'' JNull) of
                  (JArr tasks, JArr checks) \<Rightarrow>
                    res_bind (ensure (tasks \<noteq> []) ''malformed_batch_scope'') (\<lambda>_.
                    res_bind (ensure (list_all valid_subject_id (tasks @ checks)) ''malformed_subject_id'') (\<lambda>_.
                      Inr (number, List.map_filter as_str tasks, List.map_filter as_str checks,
                        dget metadata ''task_set_digest'' JNull)))
                | _ \<Rightarrow> Inl ''malformed_batch_scope''))
           | _ \<Rightarrow> Inl ''malformed_batch_scope''))
      | _ \<Rightarrow> Inl ''malformed_batch_scope''))"

definition scope_identity ::
  "(string \<Rightarrow> string) \<Rightarrow> string \<Rightarrow> string list \<Rightarrow> string list \<Rightarrow> int option \<Rightarrow>
   int \<times> string list \<times> string list \<times> json \<Rightarrow> string + (int \<times> string list \<times> string list \<times> string)" where
  "scope_identity sha source known_tasks known_checks expected checked =
     (case checked of (number, tasks, checks, raw_digest) \<Rightarrow>
     res_bind (ensure (tasks = sorted_set tasks \<and> checks = sorted_set checks) ''noncanonical_subject_ids'') (\<lambda>_.
     res_bind (ensure (set tasks \<subseteq> set known_tasks) ''unknown_task_ids'') (\<lambda>_.
     res_bind (ensure (set checks \<subseteq> set known_checks) ''unknown_sense_check_ids'') (\<lambda>_.
     (case raw_digest of
        JStr digest \<Rightarrow>
          res_bind (ensure (hex12 digest) ''malformed_batch_scope'') (\<lambda>_.
          res_bind (ensure (digest = stable_task_id_digest sha tasks) ''scope_digest_mismatch'') (\<lambda>_.
          (case (batch_dir_number (fst (parent_and_name source)), task_file_digest (snd (parent_and_name source))) of
             (Some path_number, Some path_digest) \<Rightarrow>
               res_bind (ensure (number = path_number \<and> (expected \<noteq> None \<longrightarrow> Some number = expected))
                 ''batch_identity_mismatch'') (\<lambda>_.
               res_bind (ensure (path_digest = digest) ''artifact_digest_mismatch'') (\<lambda>_.
                 Inr (number, tasks, checks, digest)))
           | _ \<Rightarrow> Inl ''invalid_artifact_path'')))
      | _ \<Rightarrow> Inl ''malformed_batch_scope'')))))"

definition resolve_batch_scope ::
  "(string \<Rightarrow> string) \<Rightarrow> (string \<times> json) list \<Rightarrow> string \<Rightarrow> string list \<Rightarrow> string list \<Rightarrow> int option \<Rightarrow>
   py_error + batch_scope resolution" where
  "resolve_batch_scope sha payload source known_tasks known_checks expected =
     (case dget payload ''batch_scope'' JNull of
        JNull \<Rightarrow> Inr (refuse_scope source [] ''missing_batch_scope'')
      | JObj metadata \<Rightarrow>
          (case res_bind (scope_fields metadata) (scope_identity sha source known_tasks known_checks expected) of
             Inl reason \<Rightarrow> Inr (refuse_scope source metadata reason)
           | Inr (number, tasks, checks, digest) \<Rightarrow>
               res_bind (mk_batch_scope sha 1 number tasks checks digest) (\<lambda>s. Inr (Proven s)))
      | _ \<Rightarrow> Inr (refuse_scope source [] ''malformed_batch_scope''))"

text \<open>The paths the tasks of a scope declare to write. An id that cannot be hashed raises.\<close>

definition normalized_path :: "string \<Rightarrow> string" where
  "normalized_path p = dropWhile (\<lambda>c. c \<in> set ''./'') (map (\<lambda>c. if c = CHR 0x5C then CHR ''/'' else c) (strip p))"

definition task_write_paths :: "string list \<Rightarrow> json \<Rightarrow> py_error + string list" where
  "task_write_paths scope_ids task =
     (case task of
        JObj t \<Rightarrow>
          (case dget t ''id'' JNull of
             JArr _ \<Rightarrow> Inl TypeError
           | JObj _ \<Rightarrow> Inl TypeError
           | JStr i \<Rightarrow>
               Inr (if i \<notin> set scope_ids then []
                    else (case dget t ''write_set'' JNull of
                        JObj w \<Rightarrow> (case dget w ''paths'' JNull of
                            JArr ps \<Rightarrow> map normalized_path (filter (\<lambda>p. strip p \<noteq> []) (List.map_filter as_str ps))
                          | _ \<Rightarrow> [])
                      | _ \<Rightarrow> []))
           | _ \<Rightarrow> Inr [])
      | _ \<Rightarrow> Inr [])"

definition batch_owned_write_paths :: "json list \<Rightarrow> string list \<Rightarrow> py_error + string list" where
  "batch_owned_write_paths tasks scope_ids =
     res_bind (res_map (task_write_paths scope_ids) tasks) (\<lambda>each. Inr (sorted_set (concat each)))"

end
