(* ===== verification/Attempt_Collector.thy ===== *)
theory Attempt_Collector
  imports Dispatch_Binding Completion_Reader
begin

section \<open>The collection of accepted attempts\<close>

text \<open>
  \<^verbatim>\<open>_collect_accepted_attempt_authority\<close> of \<^verbatim>\<open>orchestration/authority_readers.py\<close> and what it rests on: the
  batch artifacts of a plan are read from the newest fence to the oldest, the first row of a subject in the
  scope of its artifact decides about it, and the records of an accepted row with a terminal attempt are
  what the run authority is reduced from. The artifacts are given with their decoded contents; the decoded
  receipts whose file name matches the pattern of a task are a function of the task.
\<close>

subsection \<open>Artifacts\<close>

record batch_wave =
  wv_source :: string
  wv_name :: string
  wv_mtime :: int
  wv_payload :: "json option"

text \<open>The first artifact of a list is the one with the greatest key; \<^verbatim>\<open>sort(reverse=True)\<close> keeps the order
  of equal keys.\<close>

definition wave_key :: "batch_wave \<Rightarrow> int \<times> int \<times> int \<times> string" where
  "wave_key w =
     (case wv_payload w of
        Some (JObj p) \<Rightarrow>
          (case dget p ''dispatch_identity'' JNull of
             JObj dispatched \<Rightarrow>
               (1, (case dget dispatched ''fence'' JNull of
                      JObj f \<Rightarrow> (case dget f ''token'' JNull of JInt n \<Rightarrow> n | _ \<Rightarrow> - 1) | _ \<Rightarrow> - 1), wv_mtime w, wv_name w)
           | _ \<Rightarrow> (0, - 1, wv_mtime w, wv_name w))
      | _ \<Rightarrow> (0, - 1, wv_mtime w, wv_name w))"

definition sorted_waves :: "batch_wave list \<Rightarrow> batch_wave list" where
  "sorted_waves waves = rev (sort_key wave_key (rev waves))"

definition task_entries :: "(string \<times> json) list \<Rightarrow> (string \<times> json) list list" where
  "task_entries payload = (case dget payload ''task_updates'' JNull of JArr xs \<Rightarrow> List.map_filter as_dict xs | _ \<Rightarrow> [])"

definition entry_label :: "string \<Rightarrow> (string \<times> json) list \<Rightarrow> legacy_label option" where
  "entry_label source entry =
     (case (nonempty_text (or3 (dget entry ''task_id'' JNull) (dget entry ''id'' JNull) JNull),
            nonempty_text (dget entry ''status'' JNull)) of
        (Some i, Some s) \<Rightarrow> (case mk_legacy_label i s source ''observation'' of Inr l \<Rightarrow> Some l | Inl e \<Rightarrow> None)
      | _ \<Rightarrow> None)"

definition legacy_task_labels_from_payload :: "(string \<times> json) list \<Rightarrow> string \<Rightarrow> legacy_label list" where
  "legacy_task_labels_from_payload payload source = List.map_filter (entry_label source) (task_entries payload)"

subsection \<open>The envelope of a row\<close>

definition validation_of :: "(string \<times> json) list \<Rightarrow> (string \<times> json) list option" where
  "validation_of entry = as_dict (dget entry ''authority_validation'' JNull)"

definition entry_subject :: "(string \<times> json) list \<Rightarrow> string option" where
  "entry_subject entry =
     nonempty_text (or3 (case validation_of entry of Some v \<Rightarrow> dget v ''subject_id'' JNull | None \<Rightarrow> JNull)
       (dget entry ''task_id'' JNull) (dget entry ''id'' JNull))"

definition entry_digest :: "(string \<times> json) list \<Rightarrow> (string \<times> json) list \<Rightarrow> string option" where
  "entry_digest entry validation =
     (case nonempty_text (dget validation ''envelope_digest'' JNull) of
        Some d \<Rightarrow> Some d
      | None \<Rightarrow> (case dget entry ''authority'' JNull of
            JObj a \<Rightarrow> nonempty_text (dget a ''envelope_digest'' JNull) | _ \<Rightarrow> None))"

definition entry_envelope ::
  "(string \<Rightarrow> string) \<Rightarrow> result_envelope list \<Rightarrow> (string \<times> json) list \<Rightarrow> (string \<times> json) list \<Rightarrow>
   result_envelope option" where
  "entry_envelope sha envelopes entry validation =
     (let by_digest = map_of (rev (map (\<lambda>e. (result_envelope_digest sha e, e)) envelopes));
          named = (case entry_digest entry validation of Some d \<Rightarrow> by_digest d | None \<Rightarrow> None)
      in case named of
           Some e \<Rightarrow> Some e
         | None \<Rightarrow>
             (case nonempty_text (or3 (dget validation ''subject_id'' JNull) (dget entry ''task_id'' JNull)
                     (dget entry ''id'' JNull)) of
                None \<Rightarrow> None
              | Some i \<Rightarrow> (case filter (\<lambda>e. envelope_subject_id e = i) envelopes of [e] \<Rightarrow> Some e | _ \<Rightarrow> None)))"

subsection \<open>Terminal attempts\<close>

definition ACCEPTED_RECEIPT_STATUSES :: "string list" where
  "ACCEPTED_RECEIPT_STATUSES = [''done'', ''completed'', ''skipped'']"

definition evidence_status :: "evidence_envelope \<Rightarrow> string option" where
  "evidence_status ev =
     (case dget (dict_or_empty (ev_payload ev)) ''result'' JNull of
        JObj r \<Rightarrow> nonempty_text (dget r ''status'' JNull) | _ \<Rightarrow> None)"

definition evidence_result_status :: "result_envelope \<Rightarrow> string option" where
  "evidence_result_status e =
     (case List.map_filter evidence_status (en_evidence e) of s # _ \<Rightarrow> Some s | [] \<Rightarrow> None)"

definition envelope_terminal_attempt_status :: "result_envelope \<Rightarrow> string option" where
  "envelope_terminal_attempt_status e =
     List.find (\<lambda>s. s \<in> set ACCEPTED_RECEIPT_STATUSES)
       (List.map_filter id [evidence_result_status e,
          nonempty_text (dget (dict_or_empty (cl_payload (en_claim e))) ''status'' JNull)])"

text \<open>A mapping of scalars, mappings and lists of scalars or of texts.\<close>

definition safe_element :: "json \<Rightarrow> json" where
  "safe_element v = (case v of JObj _ \<Rightarrow> JStr (py_str v) | JArr _ \<Rightarrow> JStr (py_str v) | _ \<Rightarrow> v)"

fun json_safe :: "json \<Rightarrow> json" where
  "json_safe (JObj kvs) = JObj (map (\<lambda>(k, v). (k, json_safe v)) kvs)"
| "json_safe (JArr xs) = JArr (map safe_element xs)"
| "json_safe v = v"

definition mint_accepted_projection_decision ::
  "(string \<Rightarrow> string) \<Rightarrow> result_envelope \<Rightarrow> (string \<times> json) list \<Rightarrow> string \<Rightarrow> contract_error + authority_decision" where
  "mint_accepted_projection_decision sha e validation source =
     (let grant = di_grant (en_dispatch e); claim_id = cl_claim_id (en_claim e); decision_id = claim_id @ '':accepted'';
          reason = (case nonempty_text (dget validation ''reason'' JNull) of
                      Some r \<Rightarrow> r | None \<Rightarrow> ''accepted_attempt_projection'')
      in mk_decision sha (JStr decision_id) (JStr (gr_run_id grant)) (JStr (gr_run_revision grant))
           (JStr (envelope_subject_id e)) (JStr (at_attempt_id (en_attempt e))) (JStr (gr_grant_id grant))
           (JStr (gr_coordinator_attempt_id grant)) (JInt (fe_token (di_fence (en_dispatch e)))) (JStr claim_id)
           (JStr ''accepted'') (strs (envelope_evidence_ids e)) (JStr decision_id)
           (JObj [(''reason'', JStr reason), (''source_path'', JStr source),
             (''envelope_digest'', JStr (result_envelope_digest sha e)), (''validation'', json_safe (JObj validation))]))"

definition accepted_projection_decision ::
  "(string \<Rightarrow> string) \<Rightarrow> result_envelope \<Rightarrow> (string \<times> json) list \<Rightarrow> string \<Rightarrow>
   contract_error + authority_decision option" where
  "accepted_projection_decision sha e validation source =
     (if envelope_terminal_attempt_status e = None then Inr None
      else (case en_decision e of
          Some d \<Rightarrow> Inr (if de_outcome d \<noteq> Accepted then None else Some d)
        | None \<Rightarrow> res_bind (mint_accepted_projection_decision sha e validation source) (Inr \<circ> Some)))"

definition budget_debt_acceptance_receipt_exists :: "(string \<Rightarrow> json list) \<Rightarrow> string \<Rightarrow> bool" where
  "budget_debt_acceptance_receipt_exists receipts i \<longleftrightarrow>
     list_ex (\<lambda>v. case v of
         JObj r \<Rightarrow> dget r ''task_id'' JNull = JStr i \<and> dget r ''disposition'' JNull = JStr ''accepted_with_debt''
       | _ \<Rightarrow> False) (receipts i)"

text \<open>The envelope and the decision a row grants, if any, in a run. A contract error of the explicit or the
  minted decision leaves the row out; one of the decision a receipt mints is raised.\<close>

definition row_grant ::
  "(string \<Rightarrow> string) \<Rightarrow> (string \<Rightarrow> json list) \<Rightarrow> string \<times> string \<Rightarrow> string \<Rightarrow> result_envelope list \<Rightarrow>
   (string \<times> json) list \<Rightarrow> string \<Rightarrow> contract_error + (result_envelope \<times> authority_decision) option" where
  "row_grant sha receipts run source envelopes entry i =
     (case validation_of entry of
        None \<Rightarrow> Inr None
      | Some validation \<Rightarrow>
          if dget validation ''outcome'' JNull \<noteq> JStr ''accepted'' then Inr None
          else (case entry_envelope sha envelopes entry validation of
              None \<Rightarrow> Inr None
            | Some e \<Rightarrow>
                let grant = di_grant (en_dispatch e) in
                if \<not> is_task_claim (en_claim e) \<or> (gr_run_id grant, gr_run_revision grant) \<noteq> run then Inr None
                else (case accepted_projection_decision sha e validation source of
                    Inl ContractTypeError \<Rightarrow> Inl ContractTypeError
                  | Inl err \<Rightarrow> Inr None
                  | Inr (Some d) \<Rightarrow> Inr (Some (e, d))
                  | Inr None \<Rightarrow>
                      if budget_debt_acceptance_receipt_exists receipts i
                      then res_bind (mint_accepted_projection_decision sha e validation source) (\<lambda>d. Inr (Some (e, d)))
                      else Inr None)))"

subsection \<open>The collector\<close>

record attempt_collector =
  co_records :: "contract list"
  co_policy :: "string \<rightharpoonup> authority_verdict"
  co_labels :: "legacy_label list"
  co_sources :: "string list"
  co_run :: "(string \<times> string) option"
  co_validated :: bool
  co_seen :: "string list"

definition collector_start :: attempt_collector where
  "collector_start = \<lparr>co_records = [], co_policy = Map.empty, co_labels = [], co_sources = [], co_run = None,
     co_validated = False, co_seen = []\<rparr>"

definition is_cas :: "contract \<Rightarrow> bool" where
  "is_cas r \<longleftrightarrow> as_cas r \<noteq> None"

definition grant_records ::
  "(string \<Rightarrow> string) \<Rightarrow> result_envelope \<times> authority_decision \<Rightarrow> contract_error + contract list" where
  "grant_records sha granted =
     (case granted of (e, d) \<Rightarrow>
     res_bind (envelope_authority_records sha e) (\<lambda>rs.
     res_bind (decision_idempotency d) (\<lambda>k.
       Inr (filter (\<lambda>r. \<not> is_cas r) rs @ [IdempotencyKey k, Decision d]))))"

definition accept_grant ::
  "(string \<Rightarrow> string) \<Rightarrow> attempt_collector \<Rightarrow> (result_envelope \<times> authority_decision) option \<Rightarrow>
   contract_error + attempt_collector" where
  "accept_grant sha st granted =
     (case granted of
        None \<Rightarrow> Inr st
      | Some (e, d) \<Rightarrow> res_bind (grant_records sha (e, d)) (\<lambda>rs.
          let i = envelope_subject_id e in
          Inr (st\<lparr>co_records := co_records st @ rs, co_policy := (co_policy st)(i \<mapsto> satisfied_verdict i)\<rparr>)))"

definition collect_entry ::
  "(string \<Rightarrow> string) \<Rightarrow> (string \<Rightarrow> json list) \<Rightarrow> string \<times> string \<Rightarrow> string \<Rightarrow> string list \<Rightarrow> result_envelope list \<Rightarrow>
   (string \<times> json) list \<Rightarrow> attempt_collector \<Rightarrow> contract_error + attempt_collector" where
  "collect_entry sha receipts run source scope envelopes entry st0 =
     (case entry_subject entry of
        None \<Rightarrow> Inr st0
      | Some i \<Rightarrow>
          let validated = (case validation_of entry of
                  Some v \<Rightarrow> nonempty_text (dget v ''outcome'' JNull) \<noteq> None | None \<Rightarrow> False);
              st = st0\<lparr>co_validated := co_validated st0 \<or> validated\<rparr>
          in if i \<notin> set scope \<or> i \<in> set (co_seen st) then Inr st
             else let st' = st\<lparr>co_seen := co_seen st @ [i]\<rparr>
                  in res_bind (row_grant sha receipts run source envelopes entry i) (accept_grant sha st'))"

fun res_fold :: "('a \<Rightarrow> 's \<Rightarrow> 'e + 's) \<Rightarrow> 'a list \<Rightarrow> 's \<Rightarrow> 'e + 's" where
  "res_fold f [] s = Inr s"
| "res_fold f (x # xs) s = res_bind (f x s) (res_fold f xs)"

definition wave_scope :: "(string \<times> json) list \<Rightarrow> batch_authority \<Rightarrow> string list" where
  "wave_scope payload authority =
     gr_subject_ids (di_grant (ba_dispatch_identity authority)) @
     (case dget payload ''batch_scope'' JNull of JObj b \<Rightarrow> string_values (dget b ''task_ids'' JNull) | _ \<Rightarrow> [])"

definition run_of_authority :: "batch_authority \<Rightarrow> string \<times> string" where
  "run_of_authority authority =
     (let grant = di_grant (ba_dispatch_identity authority) in (gr_run_id grant, gr_run_revision grant))"

definition collect_wave ::
  "(string \<Rightarrow> string) \<Rightarrow> (string \<Rightarrow> json list) \<Rightarrow> batch_wave \<Rightarrow> attempt_collector \<Rightarrow> contract_error + attempt_collector" where
  "collect_wave sha receipts w st0 =
     (case wv_payload w of
        Some (JObj payload) \<Rightarrow>
          let source = wv_source w;
              st1 = st0\<lparr>co_sources := co_sources st0 @ [source],
                co_labels := co_labels st0 @ legacy_task_labels_from_payload payload source\<rparr>
          in res_bind (resolve_batch_authority_metadata sha payload source) (\<lambda>resolved.
             case resolved of
               Refused q \<Rightarrow> Inr st1
             | Proven authority \<Rightarrow>
                 let run = (case co_run st1 of Some r \<Rightarrow> r | None \<Rightarrow> run_of_authority authority)
                 in res_fold (collect_entry sha receipts run source (wave_scope payload authority)
                        (ba_result_envelopes authority)) (task_entries payload) (st1\<lparr>co_run := Some run\<rparr>))
      | _ \<Rightarrow> Inr st0)"

definition collect_accepted_attempt_authority ::
  "(string \<Rightarrow> string) \<Rightarrow> (string \<Rightarrow> json list) \<Rightarrow> batch_wave list \<Rightarrow>
   contract_error + (collected_authority \<times> string list) option" where
  "collect_accepted_attempt_authority sha receipts waves =
     res_bind (res_fold (collect_wave sha receipts) (sorted_waves waves) collector_start) (\<lambda>st.
       Inr (case (co_validated st, co_run st) of
          (True, Some (run, revision)) \<Rightarrow>
            Some (\<lparr>ca_records = co_records st, ca_policy = co_policy st, ca_labels = co_labels st,
                   ca_run_id = run, ca_run_revision = revision\<rparr>, sorted_set (co_sources st))
        | _ \<Rightarrow> None))"

end
