(* ===== verification/Dispatch_Facts.thy ===== *)
theory Dispatch_Facts
  imports Dispatch_Binding
begin

section \<open>What dispatch metadata guarantees\<close>

text \<open>
  Every dispatch identity and result envelope that was constructed or decoded is well-formed, and what is
  well-formed reads back from its dictionary; the metadata persisted beside a batch therefore resolves to
  itself. A batch scope is proven exactly for the dictionary of a scope that can be created, at the path
  that names its number and digest.
\<close>

declare ensure_False_bind [simp del]

subsection \<open>Well-formed identities and envelopes\<close>

definition wf_cas :: "(string \<Rightarrow> string) \<Rightarrow> capability_grant \<Rightarrow> cas_expectation option \<Rightarrow> bool" where
  "wf_cas sha grant cas \<longleftrightarrow>
     cas_fits grant cas = Inr () \<and> (case cas of None \<Rightarrow> True | Some c \<Rightarrow> wf_contract sha (CASExpectation c))"

definition wf_dispatch :: "(string \<Rightarrow> string) \<Rightarrow> dispatch_identity \<Rightarrow> bool" where
  "wf_dispatch sha d \<longleftrightarrow>
     wf_contract sha (CapabilityGrant (di_grant d)) \<and> mk_dispatch_grant (di_grant d) = Inr (di_grant d) \<and>
     wf_contract sha (CoordinatorFence (di_fence d)) \<and> wf_cas sha (di_grant d) (di_cas_expectation d) \<and>
     mk_dispatch_identity (di_grant d) (di_fence d) (JStr (di_prerequisite_digest d)) (JStr (di_worker_id d))
       (di_cas_expectation d) (di_schema_version d) = Inr d"

definition wf_envelope :: "(string \<Rightarrow> string) \<Rightarrow> result_envelope \<Rightarrow> bool" where
  "wf_envelope sha e \<longleftrightarrow>
     wf_dispatch sha (en_dispatch e) \<and> wf_contract sha (SubjectAttempt (en_attempt e)) \<and>
     wf_contract sha (Claim (en_claim e)) \<and> cl_claim_type (en_claim e) \<in> {TASK_COMPLETION_CLAIM, SENSE_CHECK_ACK_CLAIM} \<and>
     list_all (\<lambda>r. wf_contract sha (EvidenceEnvelope r)) (en_evidence e) \<and>
     (case en_decision e of None \<Rightarrow> True | Some d \<Rightarrow> wf_contract sha (Decision d)) \<and>
     wf_cas sha (di_grant (en_dispatch e)) (en_cas_expectation e) \<and>
     mk_result_envelope (en_dispatch e) (en_attempt e) (en_claim e) (en_evidence e) (en_decision e)
       (en_cas_expectation e) (en_schema_version e) = Inr e"

lemma decoded_Inr_iff: "decoded sel r = Inr x \<longleftrightarrow> (\<exists>c. r = Inr c \<and> sel c = Some x)"
  by (auto simp: decoded_def split: option.splits)

lemma as_contract_iff':
  "as_grant c = Some g \<longleftrightarrow> c = CapabilityGrant g" "as_fence c = Some f \<longleftrightarrow> c = CoordinatorFence f"
  "as_cas c = Some k \<longleftrightarrow> c = CASExpectation k" "as_claim c = Some l \<longleftrightarrow> c = Claim l"
  "as_attempt c = Some a \<longleftrightarrow> c = SubjectAttempt a" "as_decision c = Some d \<longleftrightarrow> c = Decision d"
  "as_evidence c = Some v \<longleftrightarrow> c = EvidenceEnvelope v"
  by (cases c; auto)+

lemma base_from_dict_wf: "base_from_dict sha cls v = Inr r \<Longrightarrow> wf_contract sha r"
  by (auto simp: base_from_dict_def Let_def split: option.splits if_splits dest: construct_wf)

lemma from_dict_wf: "from_dict sha cls v = Inr r \<Longrightarrow> wf_contract sha r"
  unfolding from_dict_def by (rule base_from_dict_wf)

lemma decoded_wf:
  "decoded as_grant (from_dict sha GrantClass v) = Inr g \<Longrightarrow> wf_contract sha (CapabilityGrant g)"
  "decoded as_fence (from_dict sha FenceClass v) = Inr f \<Longrightarrow> wf_contract sha (CoordinatorFence f)"
  "decoded as_cas (from_dict sha CASClass v) = Inr k \<Longrightarrow> wf_contract sha (CASExpectation k)"
  "decoded as_claim (from_dict sha ClaimClass v) = Inr l \<Longrightarrow> wf_contract sha (Claim l)"
  "decoded as_attempt (from_dict sha AttemptClass v) = Inr a \<Longrightarrow> wf_contract sha (SubjectAttempt a)"
  "decoded as_decision (from_dict sha DecisionClass v) = Inr d \<Longrightarrow> wf_contract sha (Decision d)"
  "decoded as_evidence (from_dict sha EvidenceClass v) = Inr ev \<Longrightarrow> wf_contract sha (EvidenceEnvelope ev)"
  unfolding decoded_Inr_iff as_contract_iff' by (auto dest: from_dict_wf)

lemma decoded_back:
  "wf_contract sha (CapabilityGrant g) \<Longrightarrow> decoded as_grant (from_dict sha GrantClass (dict_of (CapabilityGrant g))) = Inr g"
  "wf_contract sha (CoordinatorFence f) \<Longrightarrow> decoded as_fence (from_dict sha FenceClass (dict_of (CoordinatorFence f))) = Inr f"
  "wf_contract sha (CASExpectation k) \<Longrightarrow> decoded as_cas (from_dict sha CASClass (dict_of (CASExpectation k))) = Inr k"
  "wf_contract sha (Claim l) \<Longrightarrow> decoded as_claim (from_dict sha ClaimClass (dict_of (Claim l))) = Inr l"
  "wf_contract sha (SubjectAttempt a) \<Longrightarrow> decoded as_attempt (from_dict sha AttemptClass (dict_of (SubjectAttempt a))) = Inr a"
  "wf_contract sha (Decision d) \<Longrightarrow> decoded as_decision (from_dict sha DecisionClass (dict_of (Decision d))) = Inr d"
  "wf_contract sha (EvidenceEnvelope ev) \<Longrightarrow>
     decoded as_evidence (from_dict sha EvidenceClass (dict_of (EvidenceEnvelope ev))) = Inr ev"
  unfolding decoded_Inr_iff as_contract_iff' dict_of_def
  using from_dict_to_dict [of sha "CapabilityGrant g"] from_dict_to_dict [of sha "CoordinatorFence f"]
    from_dict_to_dict [of sha "CASExpectation k"] from_dict_to_dict [of sha "Claim l"]
    from_dict_to_dict [of sha "SubjectAttempt a"] from_dict_to_dict [of sha "Decision d"]
    from_dict_to_dict [of sha "EvidenceEnvelope ev"]
  by simp_all

lemma mk_dispatch_grant_Inr: "mk_dispatch_grant g = Inr g' \<Longrightarrow> g' = g"
  by (simp add: mk_dispatch_grant_def split: if_splits)

lemma mk_dispatch_identity_sel:
  assumes "mk_dispatch_identity grant fence p w cas version = Inr d"
  shows "di_grant d = grant" "di_fence d = fence" "p = JStr (di_prerequisite_digest d)" "w = JStr (di_worker_id d)"
    "di_cas_expectation d = cas" "di_schema_version d = version" "cas_fits grant cas = Inr ()"
  using assms by (auto simp: mk_dispatch_identity_def required_iff)

lemma wf_dispatch_constructed:
  assumes d: "mk_dispatch_identity grant fence p w cas version = Inr d"
    and "wf_contract sha (CapabilityGrant grant)" and "mk_dispatch_grant grant = Inr grant"
    and "wf_contract sha (CoordinatorFence fence)"
    and "case cas of None \<Rightarrow> True | Some c \<Rightarrow> wf_contract sha (CASExpectation c)"
  shows "wf_dispatch sha d"
proof -
  note sel = mk_dispatch_identity_sel [OF d]
  have "mk_dispatch_identity grant fence (JStr (di_prerequisite_digest d)) (JStr (di_worker_id d)) cas version = Inr d"
    using d unfolding sel(3,4) .
  then show ?thesis
    unfolding wf_dispatch_def wf_cas_def sel(1,2,5,6) using assms(2-5) sel(7) by blast
qed

lemma decode_optional_cas_wf:
  "decode_optional_cas sha v = Inr cas \<Longrightarrow> (case cas of None \<Rightarrow> True | Some c \<Rightarrow> wf_contract sha (CASExpectation c))"
  by (auto simp: decode_optional_cas_def split: if_splits dest: decoded_wf)

lemma decode_optional_cas_back:
  "(case cas of None \<Rightarrow> True | Some c \<Rightarrow> wf_contract sha (CASExpectation c)) \<Longrightarrow>
     decode_optional_cas sha (opt_json (dict_of \<circ> CASExpectation) cas) = Inr cas"
  using decoded_back(3) [of sha "the cas"]
  by (cases cas) (simp_all add: decode_optional_cas_def dict_of_def del: res_bind_Inr_iff)

lemma dispatch_identity_decoded_wf: "dispatch_identity_from_dict sha v = Inr d \<Longrightarrow> wf_dispatch sha d"
proof (cases v)
  case (JObj kvs)
  assume "dispatch_identity_from_dict sha v = Inr d"
  then obtain generic grant fence cas where
    g: "decoded as_grant (from_dict sha GrantClass (dget kvs ''grant'' JNull)) = Inr generic"
    "mk_dispatch_grant generic = Inr grant"
    and f: "decoded as_fence (from_dict sha FenceClass (dget kvs ''fence'' JNull)) = Inr fence"
    and c: "decode_optional_cas sha (dget kvs ''cas_expectation'' JNull) = Inr cas"
    and d: "mk_dispatch_identity grant fence (dget kvs ''prerequisite_digest'' JNull)
      (dget kvs ''worker_id'' JNull) cas (dget kvs ''schema_version'' JNull) = Inr d"
    by (auto simp: JObj dispatch_identity_from_dict_def dispatch_grant_from_dict_def)
  have "grant = generic" by (rule mk_dispatch_grant_Inr [OF g(2)])
  with g have "wf_contract sha (CapabilityGrant grant)" "mk_dispatch_grant grant = Inr grant"
    using decoded_wf(1) by blast+
  then show ?thesis
    by (rule wf_dispatch_constructed [OF d _ _ decoded_wf(2) [OF f] decode_optional_cas_wf [OF c]])
qed (simp_all add: dispatch_identity_from_dict_def)

lemma dispatch_create_wf:
  assumes "dispatch_create i run revision co token subjects capabilities p w ids cursor = Inr d"
  shows "wf_dispatch sha d"
proof -
  obtain generic grant fence cas where
    g: "mk_grant (JStr i) (JStr run) (JStr revision) (JStr co) (JInt token) (strs subjects) (strs capabilities)
      (strs ids) = Inr generic" "mk_dispatch_grant generic = Inr grant"
    and f: "mk_fence (JStr run) (JStr revision) (JStr co) (JInt token) = Inr fence"
    and c: "mk_cas (JStr run) (JStr revision) (opt_json JInt cursor) = Inr cas"
    and d: "mk_dispatch_identity grant fence (JStr p) (JStr w) (Some cas) (JInt 1) = Inr d"
    using assms by (auto simp: dispatch_create_def)
  have "grant = generic" by (rule mk_dispatch_grant_Inr [OF g(2)])
  with g have "wf_contract sha (CapabilityGrant grant)" "mk_dispatch_grant grant = Inr grant"
    using mk_grant_wf by blast+
  then show ?thesis
    using wf_dispatch_constructed [OF d _ _ mk_fence_wf [OF f]] mk_cas_wf [OF c] by simp
qed

lemma dispatch_identity_from_records_wf:
  assumes "dispatch_identity_from_records sha g f p w cas = Inr d" and "wf_contract sha (CoordinatorFence f)"
    and "case cas of None \<Rightarrow> True | Some c \<Rightarrow> wf_contract sha (CASExpectation c)"
  shows "wf_dispatch sha d"
proof -
  obtain generic grant where
    g: "decoded as_grant (from_dict sha GrantClass (dict_of (CapabilityGrant g))) = Inr generic"
    "mk_dispatch_grant generic = Inr grant"
    and d: "mk_dispatch_identity grant f (JStr p) (JStr w) cas (JInt 1) = Inr d"
    using assms(1) by (auto simp: dispatch_identity_from_records_def dispatch_grant_from_dict_def)
  have "grant = generic" by (rule mk_dispatch_grant_Inr [OF g(2)])
  with g have "wf_contract sha (CapabilityGrant grant)" "mk_dispatch_grant grant = Inr grant"
    using decoded_wf(1) by blast+
  then show ?thesis by (rule wf_dispatch_constructed [OF d _ _ assms(2,3)])
qed

lemma dget_json: "dget ((k', v) # d) k w = (if k = k' then v else dget d k w)"
  by (auto simp: dget_Cons)

lemma dispatch_identity_back:
  assumes "wf_dispatch sha d"
  shows "dispatch_identity_from_dict sha (dispatch_identity_to_dict d) = Inr d"
proof -
  have "dispatch_grant_from_dict sha (dict_of (CapabilityGrant (di_grant d))) = Inr (di_grant d)"
    using assms by (simp add: dispatch_grant_from_dict_def wf_dispatch_def decoded_back)
  moreover have "decode_optional_cas sha (opt_json (dict_of \<circ> CASExpectation) (di_cas_expectation d)) =
      Inr (di_cas_expectation d)"
    by (rule decode_optional_cas_back) (use assms in \<open>simp add: wf_dispatch_def wf_cas_def\<close>)
  ultimately show ?thesis
    using assms unfolding wf_dispatch_def dispatch_identity_from_dict_def dispatch_identity_to_dict_def
    by (simp add: keys_fit_def dget_json decoded_back del: res_bind_Inr_iff)
qed

lemma cas_fits_wf:
  "(case cas of None \<Rightarrow> True | Some c \<Rightarrow> wf_contract sha (CASExpectation c)) \<Longrightarrow> cas_fits grant cas = Inr () \<Longrightarrow>
     wf_cas sha grant cas"
  by (simp add: wf_cas_def)

lemma mk_result_envelope_sel:
  assumes "mk_result_envelope d a c evs dc cas version = Inr e"
  shows "en_dispatch e = d" "en_attempt e = a" "en_claim e = c" "en_evidence e = sort_key ev_evidence_id evs"
    "en_decision e = dc" "en_cas_expectation e = cas" "en_schema_version e = version"
    "cas_fits (di_grant d) cas = Inr ()"
  using assms by (auto simp: mk_result_envelope_def Let_def)

lemma mk_result_envelope_sorted:
  assumes "mk_result_envelope d a c evs dc cas version = Inr e"
  shows "mk_result_envelope d a c (sort_key ev_evidence_id evs) dc cas version = Inr e"
proof -
  have "sort_key ev_evidence_id (sort_key ev_evidence_id evs) = sort_key ev_evidence_id evs"
    by (rule sort_key_id_if_sorted) simp
  then show ?thesis using assms unfolding mk_result_envelope_def Let_def by simp
qed

lemma wf_envelope_constructed:
  assumes e: "mk_result_envelope d a c evs dc cas version = Inr e"
    and "wf_dispatch sha d" and "wf_contract sha (SubjectAttempt a)" and "wf_contract sha (Claim c)"
    and "cl_claim_type c \<in> {TASK_COMPLETION_CLAIM, SENSE_CHECK_ACK_CLAIM}"
    and "list_all (\<lambda>r. wf_contract sha (EvidenceEnvelope r)) evs"
    and "case dc of None \<Rightarrow> True | Some d \<Rightarrow> wf_contract sha (Decision d)"
    and "case cas of None \<Rightarrow> True | Some c \<Rightarrow> wf_contract sha (CASExpectation c)"
  shows "wf_envelope sha e"
proof -
  note sel = mk_result_envelope_sel [OF e]
  have "wf_cas sha (di_grant d) cas" by (rule cas_fits_wf [OF assms(8) sel(8)])
  moreover have "list_all (\<lambda>r. wf_contract sha (EvidenceEnvelope r)) (sort_key ev_evidence_id evs)"
    using assms(6) by (simp only: list_all_iff set_sort)
  ultimately show ?thesis
    unfolding wf_envelope_def sel(1-7) using assms(2-7) mk_result_envelope_sorted [OF e] by blast
qed

lemma decode_claim_Inr:
  assumes "decode_claim sha v = Inr c"
  shows "wf_contract sha (Claim c)" and "cl_claim_type c \<in> {TASK_COMPLETION_CLAIM, SENSE_CHECK_ACK_CLAIM}"
proof -
  have "decoded as_claim (from_dict sha ClaimClass v) = Inr c"
    "cl_claim_type c \<in> {TASK_COMPLETION_CLAIM, SENSE_CHECK_ACK_CLAIM}"
    using assms unfolding decode_claim_def by auto
  then show "wf_contract sha (Claim c)" and "cl_claim_type c \<in> {TASK_COMPLETION_CLAIM, SENSE_CHECK_ACK_CLAIM}"
    using decoded_wf(4) by blast+
qed

lemma decode_decision_wf:
  "decode_decision sha v = Inr dc \<Longrightarrow> (case dc of None \<Rightarrow> True | Some d \<Rightarrow> wf_contract sha (Decision d))"
  unfolding decode_decision_def by (auto split: if_splits simp del: wf_contract.simps dest: decoded_wf)

lemma decode_decision_back:
  "(case dc of None \<Rightarrow> True | Some d \<Rightarrow> wf_contract sha (Decision d)) \<Longrightarrow>
     decode_decision sha (opt_json (dict_of \<circ> Decision) dc) = Inr dc"
  using decoded_back(6) [of sha "the dc"]
  by (cases dc) (simp_all add: decode_decision_def dict_of_def del: res_bind_Inr_iff)

lemma evidence_decoded_wf:
  "res_map (\<lambda>item. decoded as_evidence (from_dict sha EvidenceClass item)) items = Inr evs \<Longrightarrow>
     list_all (\<lambda>r. wf_contract sha (EvidenceEnvelope r)) evs"
  unfolding list_all_iff by (blast dest: res_map_Inr_set decoded_wf(7))

lemma evidence_back:
  assumes "list_all (\<lambda>r. wf_contract sha (EvidenceEnvelope r)) evs"
  shows "res_map (\<lambda>item. decoded as_evidence (from_dict sha EvidenceClass item))
    (map (dict_of \<circ> EvidenceEnvelope) evs) = Inr evs"
  using assms
proof (induction evs)
  case (Cons ev evs)
  then show ?case using decoded_back(7) [of sha ev] by (simp del: wf_contract.simps res_bind_Inr_iff)
qed simp

lemma result_envelope_decoded_wf: "result_envelope_from_dict sha v = Inr e \<Longrightarrow> wf_envelope sha e"
proof (cases v)
  case (JObj kvs)
  assume "result_envelope_from_dict sha v = Inr e"
  then obtain c d a items evs dc cas where
    c: "decode_claim sha (dget kvs ''claim'' JNull) = Inr c"
    and d: "dispatch_identity_from_dict sha (dget kvs ''dispatch'' JNull) = Inr d"
    and a: "decode_attempt sha (dget kvs ''attempt'' JNull) = Inr a"
    and evs: "res_map (\<lambda>item. decoded as_evidence (from_dict sha EvidenceClass item)) items = Inr evs"
    and dc: "decode_decision sha (dget kvs ''decision'' JNull) = Inr dc"
    and cas: "decode_optional_cas sha (dget kvs ''cas_expectation'' JNull) = Inr cas"
    and e: "mk_result_envelope d a c evs dc cas (dget kvs ''schema_version'' JNull) = Inr e"
    by (auto simp: JObj result_envelope_from_dict_def)
  show ?thesis
    by (rule wf_envelope_constructed [OF e dispatch_identity_decoded_wf [OF d]
          decoded_wf(5) [OF a [unfolded decode_attempt_def]] decode_claim_Inr [OF c] evidence_decoded_wf [OF evs]
          decode_decision_wf [OF dc] decode_optional_cas_wf [OF cas]])
qed (simp_all add: result_envelope_from_dict_def)

lemma result_envelope_back:
  assumes wf: "wf_envelope sha e"
  shows "result_envelope_from_dict sha (result_envelope_to_dict e) = Inr e"
proof -
  have "decode_claim sha (dict_of (Claim (en_claim e))) = Inr (en_claim e)"
    using wf by (auto simp: decode_claim_def wf_envelope_def decoded_back(4) simp del: wf_contract.simps)
  moreover have "decode_attempt sha (dict_of (SubjectAttempt (en_attempt e))) = Inr (en_attempt e)"
    using wf unfolding decode_attempt_def wf_envelope_def by (blast intro: decoded_back(5))
  moreover have "dispatch_identity_from_dict sha (dispatch_identity_to_dict (en_dispatch e)) = Inr (en_dispatch e)"
    using wf dispatch_identity_back unfolding wf_envelope_def by blast
  moreover have "res_map (\<lambda>item. decoded as_evidence (from_dict sha EvidenceClass item))
      (map (dict_of \<circ> EvidenceEnvelope) (en_evidence e)) = Inr (en_evidence e)"
    using wf unfolding wf_envelope_def by (blast intro: evidence_back)
  moreover have "decode_decision sha (opt_json (dict_of \<circ> Decision) (en_decision e)) = Inr (en_decision e)"
    using wf unfolding wf_envelope_def by (blast intro: decode_decision_back)
  moreover have "decode_optional_cas sha (opt_json (dict_of \<circ> CASExpectation) (en_cas_expectation e)) =
      Inr (en_cas_expectation e)"
    using wf unfolding wf_envelope_def wf_cas_def by (blast intro: decode_optional_cas_back)
  moreover have "mk_result_envelope (en_dispatch e) (en_attempt e) (en_claim e) (en_evidence e) (en_decision e)
      (en_cas_expectation e) (en_schema_version e) = Inr e"
    using wf unfolding wf_envelope_def by blast
  ultimately show ?thesis
    unfolding result_envelope_from_dict_def result_envelope_to_dict_def
    by (simp add: keys_fit_def dget_json del: res_bind_Inr_iff)
qed

lemma result_envelope_from_records_wf:
  assumes e: "result_envelope_from_records sha d a c evs dc cas = Inr e" and "wf_dispatch sha d"
    and "list_all (\<lambda>r. wf_contract sha (EvidenceEnvelope r)) evs"
    and "case cas of None \<Rightarrow> True | Some c \<Rightarrow> wf_contract sha (CASExpectation c)"
  shows "wf_envelope sha e"
proof -
  obtain c' a' dc' where c: "decode_claim sha (dict_of (Claim c)) = Inr c'"
    and a: "decode_attempt sha (dict_of (SubjectAttempt a)) = Inr a'"
    and dc: "decode_decision sha (opt_json (dict_of \<circ> Decision) dc) = Inr dc'"
    and mk: "mk_result_envelope d a' c' evs dc' cas (JInt 1) = Inr e"
    using e by (auto simp: result_envelope_from_records_def)
  show ?thesis
    by (rule wf_envelope_constructed [OF mk assms(2) decoded_wf(5) [OF a [unfolded decode_attempt_def]]
          decode_claim_Inr [OF c] assms(3) decode_decision_wf [OF dc] assms(4)])
qed

text \<open>C23. What a dispatch persists beside a batch reads back: for a well-formed dispatch identity and
  well-formed result envelopes of that dispatch, the metadata of an artifact that holds their dictionaries
  resolves to exactly them, without a quarantine and without an exception.
\<close>

theorem dispatch_metadata_reads_back:
  assumes "wf_dispatch sha d" and "list_all (\<lambda>e. wf_envelope sha e \<and> en_dispatch e = d) es"
    and "dget payload ''dispatch_identity'' JNull = dispatch_identity_to_dict d"
    and "dget payload ''result_envelopes'' JNull = JArr (map result_envelope_to_dict es)"
  shows "resolve_batch_authority_metadata sha payload source =
    Inr (Proven \<lparr>ba_dispatch_identity = d, ba_result_envelopes = es\<rparr>)"
proof -
  have "read_envelopes sha (dispatch_identity_digest sha d) (map result_envelope_to_dict es) = Inr (Inr es)"
    using assms(2)
  proof (induction es)
    case (Cons e es)
    have "as_dict (result_envelope_to_dict e) \<noteq> None" by (simp add: result_envelope_to_dict_def)
    with Cons show ?case by (simp add: result_envelope_back)
  qed simp
  moreover obtain kvs where "dispatch_identity_to_dict d = JObj kvs" by (simp add: dispatch_identity_to_dict_def)
  ultimately show ?thesis
    using dispatch_identity_back [OF assms(1)]
    by (simp add: resolve_batch_authority_metadata_def Let_def assms(3,4))
qed

subsection \<open>Batch scopes\<close>

lemma valid_texts:
  "list_all valid_subject_id vs \<longleftrightarrow>
     vs = map JStr (List.map_filter as_str vs) \<and> list_all (valid_subject_id \<circ> JStr) (List.map_filter as_str vs)"
proof (induction vs)
  case (Cons v vs)
  then show ?case by (cases v) (auto simp: valid_subject_id_def map_filter_simps)
qed (simp add: map_filter_simps)

lemma texts_of_strs: "List.map_filter as_str (map JStr ts) = ts"
  by (induction ts) (simp_all add: map_filter_simps)

definition fields_of :: "(string \<times> json) list \<Rightarrow> int \<Rightarrow> string list \<Rightarrow> string list \<Rightarrow> json \<Rightarrow> bool" where
  "fields_of metadata number tasks checks raw_digest \<longleftrightarrow>
     set (map fst metadata) = set SCOPE_FIELDS \<and> dget metadata ''schema_version'' JNull = JInt 1 \<and>
     dget metadata ''batch_number'' JNull = JInt number \<and> 1 \<le> number \<and>
     dget metadata ''task_ids'' JNull = strs tasks \<and> dget metadata ''sense_check_ids'' JNull = strs checks \<and>
     tasks \<noteq> [] \<and> list_all (valid_subject_id \<circ> JStr) (tasks @ checks) \<and>
     dget metadata ''task_set_digest'' JNull = raw_digest"

lemma scope_fields_iff:
  "scope_fields metadata = Inr (number, tasks, checks, raw_digest) \<longleftrightarrow> fields_of metadata number tasks checks raw_digest"
proof
  assume "scope_fields metadata = Inr (number, tasks, checks, raw_digest)"
  then obtain raw_tasks raw_checks where
    head: "set (map fst metadata) = set SCOPE_FIELDS" "dget metadata ''schema_version'' JNull = JInt 1"
    "dget metadata ''batch_number'' JNull = JInt number" "1 \<le> number" "raw_tasks \<noteq> []"
    and valid: "list_all valid_subject_id raw_tasks" "list_all valid_subject_id raw_checks"
    and raw: "dget metadata ''task_ids'' JNull = JArr raw_tasks" "tasks = List.map_filter as_str raw_tasks"
    "dget metadata ''sense_check_ids'' JNull = JArr raw_checks" "checks = List.map_filter as_str raw_checks"
    "dget metadata ''task_set_digest'' JNull = raw_digest"
    by (auto simp: scope_fields_def split: json.splits)
  have "raw_tasks = map JStr tasks" "raw_checks = map JStr checks"
    unfolding raw(2,4) using valid valid_texts by blast+
  moreover have "list_all (valid_subject_id \<circ> JStr) tasks" "list_all (valid_subject_id \<circ> JStr) checks"
    unfolding raw(2,4) using valid valid_texts by blast+
  moreover have "tasks \<noteq> []" using head(5) calculation(1) by blast
  ultimately show "fields_of metadata number tasks checks raw_digest"
    using head raw(1,3,5) unfolding fields_of_def list_all_append by blast
next
  assume f: "fields_of metadata number tasks checks raw_digest"
  then have "list_all valid_subject_id (map JStr tasks @ map JStr checks)"
    by (auto simp: fields_of_def list_all_iff)
  with f show "scope_fields metadata = Inr (number, tasks, checks, raw_digest)"
    by (simp add: fields_of_def scope_fields_def texts_of_strs)
qed

text \<open>The path an artifact of a batch has: the number of the batch in its directory, the digest in its name.\<close>

definition at_path :: "string \<Rightarrow> int \<Rightarrow> string \<Rightarrow> bool" where
  "at_path source number digest \<longleftrightarrow>
     batch_dir_number (fst (parent_and_name source)) = Some number \<and>
     task_file_digest (snd (parent_and_name source)) = Some digest"

lemma scope_identity_iff:
  "scope_identity sha source known_tasks known_checks expected (number, tasks, checks, raw_digest) =
       Inr (number', tasks', checks', digest) \<longleftrightarrow>
     (number' = number \<and> tasks' = tasks \<and> checks' = checks \<and> raw_digest = JStr digest \<and>
      tasks = sorted_set tasks \<and> checks = sorted_set checks \<and> set tasks \<subseteq> set known_tasks \<and>
      set checks \<subseteq> set known_checks \<and> hex12 digest \<and> digest = stable_task_id_digest sha tasks \<and>
      at_path source number digest \<and> (expected = None \<or> expected = Some number))"
proof (cases raw_digest)
  case (JStr d)
  then show ?thesis
    by (cases "batch_dir_number (fst (parent_and_name source))"; cases "task_file_digest (snd (parent_and_name source))")
      (auto simp: scope_identity_def at_path_def)
qed (auto simp: scope_identity_def)

lemma canonical_Inr_iff:
  "canonical_subject_ids ids = Inr ys \<longleftrightarrow> list_all (valid_subject_id \<circ> JStr) ids \<and> ys = sorted_set ids"
  by (auto simp: canonical_subject_ids_def)

lemma mk_batch_scope_iff:
  "mk_batch_scope sha 1 number tasks checks digest = Inr s \<longleftrightarrow>
     1 \<le> number \<and> tasks \<noteq> [] \<and> list_all (valid_subject_id \<circ> JStr) tasks \<and> tasks = sorted_set tasks \<and>
     list_all (valid_subject_id \<circ> JStr) checks \<and> checks = sorted_set checks \<and>
     digest = stable_task_id_digest sha tasks \<and>
     s = \<lparr>bs_schema_version = 1, bs_batch_number = number, bs_task_ids = tasks, bs_sense_check_ids = checks,
          bs_task_set_digest = digest\<rparr>"
  by (auto simp: mk_batch_scope_def canonical_Inr_iff)

lemma created_scope_iff:
  "(\<exists>tasks checks. batch_scope_create sha number tasks checks = Inr s) \<longleftrightarrow>
     mk_batch_scope sha 1 number (bs_task_ids s) (bs_sense_check_ids s) (bs_task_set_digest s) = Inr s"
proof
  assume "\<exists>tasks checks. batch_scope_create sha number tasks checks = Inr s"
  then obtain tasks checks where "mk_batch_scope sha 1 number (sorted_set tasks) (sorted_set checks)
      (stable_task_id_digest sha (sorted_set tasks)) = Inr s"
    by (auto simp: batch_scope_create_def canonical_Inr_iff)
  moreover from this have "bs_task_ids s = sorted_set tasks" "bs_sense_check_ids s = sorted_set checks"
    "bs_task_set_digest s = stable_task_id_digest sha (sorted_set tasks)"
    unfolding mk_batch_scope_iff by simp_all
  ultimately show "mk_batch_scope sha 1 number (bs_task_ids s) (bs_sense_check_ids s) (bs_task_set_digest s) = Inr s"
    by simp
next
  assume s: "mk_batch_scope sha 1 number (bs_task_ids s) (bs_sense_check_ids s) (bs_task_set_digest s) = Inr s"
  then have "canonical_subject_ids (bs_task_ids s) = Inr (bs_task_ids s)"
    "canonical_subject_ids (bs_sense_check_ids s) = Inr (bs_sense_check_ids s)"
    "bs_task_set_digest s = stable_task_id_digest sha (bs_task_ids s)"
    unfolding mk_batch_scope_iff canonical_Inr_iff by simp_all
  with s have "batch_scope_create sha number (bs_task_ids s) (bs_sense_check_ids s) = Inr s"
    by (simp add: batch_scope_create_def del: res_bind_Inr_iff)
  then show "\<exists>tasks checks. batch_scope_create sha number tasks checks = Inr s" by blast
qed

text \<open>What an artifact proves, as a relation.\<close>

definition proves_scope ::
  "(string \<Rightarrow> string) \<Rightarrow> (string \<times> json) list \<Rightarrow> string \<Rightarrow> string list \<Rightarrow> string list \<Rightarrow> int option \<Rightarrow> batch_scope \<Rightarrow> bool" where
  "proves_scope sha payload source known_tasks known_checks expected s \<longleftrightarrow>
     (\<exists>m. dget payload ''batch_scope'' JNull = JObj m \<and> set (map fst m) = set SCOPE_FIELDS \<and>
        map (\<lambda>k. dget m k JNull) SCOPE_FIELDS = map snd (batch_scope_to_dict s)) \<and>
     (\<exists>tasks checks. batch_scope_create sha (bs_batch_number s) tasks checks = Inr s) \<and>
     hex12 (bs_task_set_digest s) \<and> at_path source (bs_batch_number s) (bs_task_set_digest s) \<and>
     (expected = None \<or> expected = Some (bs_batch_number s)) \<and>
     set (bs_task_ids s) \<subseteq> set known_tasks \<and> set (bs_sense_check_ids s) \<subseteq> set known_checks"

lemma proven_fields:
  "proves_scope sha payload source known_tasks known_checks expected s \<longleftrightarrow>
     (\<exists>m. dget payload ''batch_scope'' JNull = JObj m \<and>
        fields_of m (bs_batch_number s) (bs_task_ids s) (bs_sense_check_ids s) (JStr (bs_task_set_digest s)) \<and>
        scope_identity sha source known_tasks known_checks expected
          (bs_batch_number s, bs_task_ids s, bs_sense_check_ids s, JStr (bs_task_set_digest s)) =
          Inr (bs_batch_number s, bs_task_ids s, bs_sense_check_ids s, bs_task_set_digest s)) \<and> bs_schema_version s = 1"
  (is "_ \<longleftrightarrow> ?R")
proof
  assume p: "proves_scope sha payload source known_tasks known_checks expected s"
  then have mk: "mk_batch_scope sha 1 (bs_batch_number s) (bs_task_ids s) (bs_sense_check_ids s)
      (bs_task_set_digest s) = Inr s"
    unfolding proves_scope_def created_scope_iff by blast
  then have v: "bs_schema_version s = 1" unfolding mk_batch_scope_iff by (metis batch_scope.select_convs(1))
  obtain m where m: "dget payload ''batch_scope'' JNull = JObj m" "set (map fst m) = set SCOPE_FIELDS"
    "map (\<lambda>k. dget m k JNull) SCOPE_FIELDS = map snd (batch_scope_to_dict s)"
    using p unfolding proves_scope_def by blast
  have "fields_of m (bs_batch_number s) (bs_task_ids s) (bs_sense_check_ids s) (JStr (bs_task_set_digest s))"
    using m(2,3) mk v unfolding mk_batch_scope_iff
    by (simp add: fields_of_def SCOPE_FIELDS_def batch_scope_to_dict_def)
  moreover have "scope_identity sha source known_tasks known_checks expected
      (bs_batch_number s, bs_task_ids s, bs_sense_check_ids s, JStr (bs_task_set_digest s)) =
      Inr (bs_batch_number s, bs_task_ids s, bs_sense_check_ids s, bs_task_set_digest s)"
    using p mk unfolding scope_identity_iff mk_batch_scope_iff proves_scope_def by blast
  ultimately show ?R using m(1) v by blast
next
  assume ?R
  then obtain m where m: "dget payload ''batch_scope'' JNull = JObj m"
    "fields_of m (bs_batch_number s) (bs_task_ids s) (bs_sense_check_ids s) (JStr (bs_task_set_digest s))"
    and i: "scope_identity sha source known_tasks known_checks expected
      (bs_batch_number s, bs_task_ids s, bs_sense_check_ids s, JStr (bs_task_set_digest s)) =
      Inr (bs_batch_number s, bs_task_ids s, bs_sense_check_ids s, bs_task_set_digest s)"
    and v: "bs_schema_version s = 1"
    by blast
  have "mk_batch_scope sha 1 (bs_batch_number s) (bs_task_ids s) (bs_sense_check_ids s) (bs_task_set_digest s) = Inr s"
    using m(2) i v unfolding mk_batch_scope_iff scope_identity_iff fields_of_def by simp
  moreover have "map (\<lambda>k. dget m k JNull) SCOPE_FIELDS = map snd (batch_scope_to_dict s)"
    "set (map fst m) = set SCOPE_FIELDS"
    using m(2) v by (simp_all add: fields_of_def SCOPE_FIELDS_def batch_scope_to_dict_def)
  ultimately show "proves_scope sha payload source known_tasks known_checks expected s"
    using m(1) i unfolding proves_scope_def created_scope_iff scope_identity_iff by blast
qed

text \<open>C24. The resolution of a batch scope never raises, and it proves a scope exactly when the artifact holds
  the dictionary of a scope that can be created, all of whose subjects are known, and lies at the path that
  names the number and the digest of this scope, under the number that was expected.
\<close>

theorem proven_scopes_are_created_scopes:
  "\<not> isl (resolve_batch_scope sha payload source known_tasks known_checks expected) \<and>
   (resolve_batch_scope sha payload source known_tasks known_checks expected = Inr (Proven s) \<longleftrightarrow>
    proves_scope sha payload source known_tasks known_checks expected s)"
proof (cases "\<exists>m n ts cs dg. dget payload ''batch_scope'' JNull = JObj m \<and>
    res_bind (scope_fields m) (scope_identity sha source known_tasks known_checks expected) = Inr (n, ts, cs, dg)")
  case True
  then obtain m n ts cs dg where m: "dget payload ''batch_scope'' JNull = JObj m"
    and b: "res_bind (scope_fields m) (scope_identity sha source known_tasks known_checks expected) = Inr (n, ts, cs, dg)"
    by blast
  obtain n' ts' cs' raw where f: "scope_fields m = Inr (n', ts', cs', raw)"
    and i: "scope_identity sha source known_tasks known_checks expected (n', ts', cs', raw) = Inr (n, ts, cs, dg)"
    using b by (auto simp: res_bind_Inr_iff)
  note fields' = f [unfolded scope_fields_iff]
  have same: "n = n'" "ts = ts'" "cs = cs'" "raw = JStr dg" using i unfolding scope_identity_iff by blast+
  let ?s = "\<lparr>bs_schema_version = 1, bs_batch_number = n, bs_task_ids = ts, bs_sense_check_ids = cs,
    bs_task_set_digest = dg\<rparr>"
  have mk: "mk_batch_scope sha 1 n ts cs dg = Inr ?s"
    using i fields' unfolding mk_batch_scope_iff scope_identity_iff fields_of_def same by simp
  have r: "resolve_batch_scope sha payload source known_tasks known_checks expected = Inr (Proven ?s)"
    unfolding resolve_batch_scope_def by (simp add: m b mk del: res_bind_Inr_iff)
  have "proves_scope sha payload source known_tasks known_checks expected s \<longleftrightarrow> s = ?s"
  proof
    assume "proves_scope sha payload source known_tasks known_checks expected s"
    then have "fields_of m (bs_batch_number s) (bs_task_ids s) (bs_sense_check_ids s) (JStr (bs_task_set_digest s))"
      "bs_schema_version s = 1"
      unfolding proven_fields using m by auto
    then show "s = ?s"
      using fields' unfolding scope_fields_iff [symmetric] f same
      by (cases s) (auto simp: same)
  next
    assume s: "s = ?s"
    have "fields_of m n ts cs (JStr dg)" using fields' by (simp add: same)
    moreover have "scope_identity sha source known_tasks known_checks expected (n, ts, cs, JStr dg) = Inr (n, ts, cs, dg)"
      using i by (simp add: same)
    ultimately show "proves_scope sha payload source known_tasks known_checks expected s"
      unfolding proven_fields s using m by simp
  qed
  then show ?thesis by (auto simp: r)
next
  case False
  have "\<not> proves_scope sha payload source known_tasks known_checks expected s"
    using False unfolding proven_fields scope_fields_iff [symmetric] by (metis res_bind.simps(2))
  moreover have "\<exists>q. resolve_batch_scope sha payload source known_tasks known_checks expected = Inr (Refused q)"
  proof (cases "dget payload ''batch_scope'' JNull")
    case (JObj m)
    then obtain reason where "res_bind (scope_fields m) (scope_identity sha source known_tasks known_checks expected) = Inl reason"
      using False by (cases "res_bind (scope_fields m) (scope_identity sha source known_tasks known_checks expected)") auto
    then show ?thesis unfolding resolve_batch_scope_def by (simp add: JObj refuse_scope_def del: res_bind_Inr_iff)
  qed (simp_all add: resolve_batch_scope_def refuse_scope_def)
  ultimately show ?thesis by auto
qed

end
