(* ===== verification/Collector_Facts.thy ===== *)
theory Collector_Facts
  imports Attempt_Collector Dispatch_Facts Frontier_Facts
begin

section \<open>What the collection of accepted attempts guarantees\<close>

text \<open>
  A row lives when it is in the scope of an artifact with dispatch metadata. The collector walks the live rows
  from the newest artifact to the oldest, and what it grants comes from the first live row of a subject alone.
  A task that is complete by the accepted attempts therefore rests on a newest row with an accepted validation
  and a well-formed envelope of the run.
\<close>

subsection \<open>Live rows\<close>








lemma set_sorted_waves [simp]: "set (sorted_waves waves) = set waves"
  by (simp add: sorted_waves_def)








subsection \<open>What a row grants\<close>










subsection \<open>The collector\<close>














subsection \<open>Where the rows diverge\<close>

text \<open>An envelope is found by its digest whatever subject the row has: the row of one subject can grant the
  completion of another.\<close>

lemma digest_names_any_subject:
  "entry_digest entry validation = Some (result_envelope_digest sha e) \<Longrightarrow>
     entry_envelope sha [e] entry validation = Some e"
  by (simp add: entry_envelope_def)

text \<open>With a budget receipt an accepted decision is minted although the envelope carries a decision that does
  not accept.\<close>

lemma receipt_overrides_rejection:
  assumes "validation_of entry = Some v" and "dget v ''outcome'' JNull = JStr ''accepted''"
    and "entry_envelope sha envelopes entry v = Some e" and "is_task_claim (en_claim e)"
    and "(gr_run_id (di_grant (en_dispatch e)), gr_run_revision (di_grant (en_dispatch e))) = run"
    and "en_decision e = Some d" and "de_outcome d \<noteq> Accepted" and "budget_debt_acceptance_receipt_exists receipts i"
  shows "row_grant sha receipts run source envelopes entry i =
    res_bind (mint_accepted_projection_decision sha e v source) (\<lambda>m. Inr (Some (e, m)))"
proof -
  have "accepted_projection_decision sha e v source = Inr None"
    using assms(6,7) by (simp add: accepted_projection_decision_def)
  then show ?thesis using assms by (simp add: row_grant_def Let_def)
qed

subsection \<open>The properties at concrete inputs\<close>

definition wave_grant :: capability_grant where
  "wave_grant = sample_grant\<lparr>gr_capabilities := [TASK_RESULT_CAPABILITY]\<rparr>"

definition wave_dispatch :: dispatch_identity where
  "wave_dispatch = the_result (mk_dispatch_identity wave_grant sample_fence (JStr ''p'') (JStr ''w'') None (JInt 1))"

definition wave_claim :: authority_claim where
  "wave_claim = plan_claim\<lparr>cl_payload := JObj [(''status'', JStr ''done'')]\<rparr>"

definition wave_envelope :: result_envelope where
  "wave_envelope = the_result (mk_result_envelope wave_dispatch sample_attempt wave_claim [sample_evidence]
     (Some linked_decision) None (JInt 1))"













theorem dispatch_metadata_reads_back_witness:
  "resolve_batch_authority_metadata sample_sha
     [(''dispatch_identity'', dispatch_identity_to_dict wave_dispatch),
      (''result_envelopes'', JArr [result_envelope_to_dict wave_envelope])] ''w1'' =
   Inr (Proven \<lparr>ba_dispatch_identity = wave_dispatch, ba_result_envelopes = [wave_envelope]\<rparr>)"
proof (rule dispatch_metadata_reads_back)
  show "wf_dispatch sample_sha wave_dispatch" by code_simp
  have "wf_envelope sample_sha wave_envelope" "en_dispatch wave_envelope = wave_dispatch" by code_simp+
  then show "list_all (\<lambda>e. wf_envelope sample_sha e \<and> en_dispatch e = wave_dispatch) [wave_envelope]" by simp
qed (simp_all add: dget_def)

end
