(* ===== verification/Spec2Isabelle.thy ===== *)
theory Spec2Isabelle
  imports Plan_Lifecycle Gate_Properties Authority_View Supervision_Facts Capacity Effect_Facts Scheduler_Facts
    Recovery_Facts Blocker_Facts Execution_Facts Plan_View_Facts Frontier_Facts
    Collector_Facts
begin

section \<open>A verification library for Arnold and Megaplan\<close>

text \<open>
  Arnold runs long agent workflows; Megaplan is the planning pipeline on top of it. A \<^emph>\<open>plan\<close> moves
  through a lifecycle of phases; its tasks are executed in batches; every claim of progress is a
  record that a \<^emph>\<open>run authority\<close> reduces to one view; external effects go through a \<^emph>\<open>ledger\<close>; and a
  \<^emph>\<open>supervisor\<close> watches the runs of many worktrees through leases on a shared store. This library
  models the parts that decide, as executable definitions, and leaves out the parts that talk to
  models, processes, files and networks.

  \<^bold>\<open>Parts and theories.\<close> Each theory opens with the files it models; paths are below \<^verbatim>\<open>src/\<close>.

  \<^item> \<^verbatim>\<open>Prelude\<close>: JSON-like values, dictionaries in insertion order, results with errors, sorted sets,
    decimal text, and the lemmas on them that all components share.
  \<^item> \<^verbatim>\<open>Plan_Workflow\<close>, \<^verbatim>\<open>Plan_Lifecycle\<close> (\<^verbatim>\<open>arnold_pipelines/megaplan/planning/state.py\<close>,
    \<^verbatim>\<open>_core/workflow_data.py\<close>, \<^verbatim>\<open>_core/workflow.py\<close>, \<^verbatim>\<open>_core/topology.py\<close>, \<^verbatim>\<open>_core/modes.py\<close>,
    \<^verbatim>\<open>profiles/policy.py\<close>): the states of a plan, the transition tables, the overlays by robustness
    level, \<open>workflow_next\<close> and \<open>workflow_transition\<close> on the decoded plan state, and the realized graph
    with its queries. The overlay fold is shown equal to a closed-form table; from it follow which
    steps a plan is offered, that execution passes through the gate and finalize, and what stays
    reachable.
  \<^item> \<^verbatim>\<open>Py_Text\<close>, \<^verbatim>\<open>Flag_Registry\<close> (\<^verbatim>\<open>megaplan/flags.py\<close>, \<^verbatim>\<open>_core/registries.py\<close>): text operations of Python,
    and the flags a critique raises about a plan with every operation on their registry.
  \<^item> \<^verbatim>\<open>North_Star\<close> (\<^verbatim>\<open>megaplan/north_star_actions.py\<close>): the actions that keep a plan to its North Star,
    the recorded decisions of a user that settle them, and the carry they are read back from.
    Normalization is idempotent, and a carried action reads back as itself with its settlement.
  \<^item> \<^verbatim>\<open>Gate_Routing\<close>, \<^verbatim>\<open>Gate_Facts\<close>, \<^verbatim>\<open>Gate_Properties\<close> (\<^verbatim>\<open>megaplan/handlers/gate.py\<close>,
    \<^verbatim>\<open>orchestration/gate_checks.py\<close>, \<^verbatim>\<open>rubber_stamp.py\<close>, \<^verbatim>\<open>critique_runtime.py\<close>, \<^verbatim>\<open>workflows/components.py\<close>): one
    round of the gate on the plan state of \<^verbatim>\<open>Plan_Workflow\<close> and the registry of \<^verbatim>\<open>Flag_Registry\<close>, from
    the preflight checks through routing, tiebreaker and reprompt to the verdict that the next step is
    chosen by. An ordinary PROCEED leaves no significant flag unsettled, and a model that keeps
    answering ITERATE is stopped at the cap; a downgraded PROCEED is not, and the tiebreaker path does
    not look at the flags.
  \<^item> \<^verbatim>\<open>Py_Object\<close>, \<^verbatim>\<open>Py_Regex\<close>: values read by \<^verbatim>\<open>getattr\<close>, their text, and the part of \<^verbatim>\<open>re\<close> the code uses.
  \<^item> \<^verbatim>\<open>Phase_Result\<close>, \<^verbatim>\<open>Phase_Facts\<close> (\<^verbatim>\<open>megaplan/orchestration/phase_result.py\<close>): the record every phase
    leaves, its codec, the lenient read side and the strict write side, emission by a handler and by
    the guard around it. What is emitted reads back, and what the read side accepts the write side
    accepts too.
  \<^item> \<^verbatim>\<open>Recovery_Policy\<close>, \<^verbatim>\<open>Plan_Circuit\<close>, \<^verbatim>\<open>Auto_Retry\<close>, \<^verbatim>\<open>Recovery_Facts\<close>
    (\<^verbatim>\<open>orchestration/recovery_policy.py\<close>, \<^verbatim>\<open>plan_circuit.py\<close>, the retry loops of \<^verbatim>\<open>megaplan/auto.py\<close>, the
    circuit calls of \<^verbatim>\<open>execute/policy.py\<close> and \<^verbatim>\<open>handlers/execute.py\<close>): what is tried again after a failure. A
    circuit opens exactly on a run of equal failures, the budgets bound the retries however failures
    are classified, both loops of the driver end, and the circuit of the handler never blocks.
  \<^item> \<^verbatim>\<open>Resolution_Contract\<close>, \<^verbatim>\<open>Blocker_Recovery\<close>, \<^verbatim>\<open>State_Merge\<close>, \<^verbatim>\<open>Resolution_Commands\<close>, \<^verbatim>\<open>Blocker_Facts\<close>
    (\<^verbatim>\<open>megaplan/resolution_contract.py\<close>, \<^verbatim>\<open>resolutions.py\<close>, \<^verbatim>\<open>quality_resolutions.py\<close>, \<^verbatim>\<open>user_actions.py\<close>,
    \<^verbatim>\<open>blocker_recovery.py\<close>, \<^verbatim>\<open>cli/resolutions.py\<close>, parts of \<^verbatim>\<open>_core/state.py\<close>, \<^verbatim>\<open>planning/control_binding.py\<close> and
    \<^verbatim>\<open>control_interface.py\<close>): how a person settles what blocks an execution. The resolve commands append
    an event and save the state by merging; the evaluation reads the events back and decides which
    blockers still hold; recover-blocked rests on it. A resolve command clears the blocker it names,
    the merge loses nothing, and recover-blocked applies once and supersedes the stored result.
  \<^item> \<^verbatim>\<open>Execute_Policy\<close>, \<^verbatim>\<open>Evidence_Contract\<close>, \<^verbatim>\<open>Task_Satisfaction\<close>, \<^verbatim>\<open>Execution_Facts\<close>
    (\<^verbatim>\<open>megaplan/execute/policy.py\<close>, \<^verbatim>\<open>orchestration/evidence_contract.py\<close>, \<^verbatim>\<open>task_satisfaction.py\<close>): who may
    execute, on which worker tier, what a resumed execution runs again, and when evidence satisfies a
    task. Admission agrees with the lifecycle, a resume splits the settled tasks, and a task is
    satisfied exactly by fresh linked evidence that covers its outputs.
  \<^item> \<^verbatim>\<open>Canonical_Json\<close>, \<^verbatim>\<open>Authority_Contracts\<close>, \<^verbatim>\<open>Authority_Facts\<close>
    (\<^verbatim>\<open>arnold_pipelines/run_authority/contracts.py\<close>): the contract records, their validation, canonical
    text and dictionary codec, and the relationship checks. Decoding inverts encoding, the canonical
    text determines the record, and a dispatchable observation has a coherent capture.
  \<^item> \<^verbatim>\<open>Authority_Reducer\<close>, \<^verbatim>\<open>Authority_Reducer_Facts\<close>, \<^verbatim>\<open>Authority_View\<close>
    (\<^verbatim>\<open>run_authority/reducer.py\<close>): the reduction of supplied records to one view. It is independent of
    the order of the records, it excludes identities with conflicting payloads, and it accepts a claim
    or a decision exactly when the relationship validation of the contracts accepts it on records of
    the view.
  \<^item> \<^verbatim>\<open>Plan_View\<close>, \<^verbatim>\<open>Plan_View_Facts\<close> (\<^verbatim>\<open>megaplan/authority/views.py\<close>, \<^verbatim>\<open>AuthorityDecision\<close> of
    \<^verbatim>\<open>orchestration/authority_readers.py\<close>): the reduced authority bound to the tasks of a plan, with the
    verdicts of the evidence policy as an argument. An accepted task rests on a decision and a claim the
    contracts accept, the complete tasks are the least dependency-closed set of accepted ones, status
    labels grant nothing, and the next wave is empty only when nothing is left or nothing can be scheduled.
  \<^item> \<^verbatim>\<open>Completion_Reader\<close> (\<^verbatim>\<open>orchestration/authority_readers.py\<close>): the evidence nucleus of a plan and the tasks
    that count as complete, from the view of the accepted attempts or, without one, from corroborated
    tasks, explained skips and no-ops, and command checkpoints.
  \<^item> \<^verbatim>\<open>Execute_Frontier\<close>, \<^verbatim>\<open>Frontier_Facts\<close> (\<^verbatim>\<open>megaplan/execute/batch.py\<close>): what execute does to the task rows
    before and next to its batches: the retry of blocked tasks, resolved prerequisites, demotion and
    adoption by authority, deferral without a baseline, parking, and the batches that can still run. The
    retry agrees with the resume policy, the relation \<open>frontier_step\<close> of all row changes but deferral
    keeps the test budget gate, demotion and adoption settle at once, authority alone completes when
    there is a view, and parked tasks hold back exactly their dependents.
  \<^item> \<^verbatim>\<open>Dispatch_Binding\<close>, \<^verbatim>\<open>Dispatch_Facts\<close> (\<^verbatim>\<open>megaplan/authority/binding.py\<close>, \<^verbatim>\<open>authority/batch_scope.py\<close>): the
    identity of a dispatch and the envelopes of its results over the contract records, and the scope of a
    batch, with what is persisted beside a batch and how it is resolved. Well-formedness is an invariant of
    every constructor and decoder, what is persisted reads back, and a scope is proven exactly when it
    could have been created and lies at its own path.
  \<^item> \<^verbatim>\<open>Attempt_Collector\<close>, \<^verbatim>\<open>Collector_Facts\<close> (the collector of \<^verbatim>\<open>orchestration/authority_readers.py\<close>): which
    accepted attempts of the artifacts of a plan count, newest first. The state of the collector after any
    artifacts is described by their live rows (\<open>collected_from\<close>), and so a task that is complete by the
    accepted attempts rests on a newest row.
  \<^item> \<^verbatim>\<open>Iso_Time\<close>: instants as microseconds since the epoch, their ISO 8601 text and its parsing.
  \<^item> \<^verbatim>\<open>Project_Leases\<close>, \<^verbatim>\<open>Lease_Facts\<close>, \<^verbatim>\<open>Lease_Properties\<close> (\<^verbatim>\<open>arnold/supervisor/leases.py\<close>,
    \<^verbatim>\<open>store.py\<close>): the lease record and every operation of the file-backed store, as functions from
    the dictionary of the file to an error or a lease and the new dictionary. The locale
    \<open>versioned_store\<close> is the contract of a store whose requests each raise the version of one key;
    it is interpreted on the lease store. An active lease is exclusive, a terminal one rests, a stale
    optimistic update is refused, and the guards of claiming and failing are given exactly.
  \<^item> \<^verbatim>\<open>Capacity\<close> (\<^verbatim>\<open>arnold/supervisor/capacity.py\<close>, \<^verbatim>\<open>capacity_context.py\<close>): capacity pools and the
    context manager that holds a grant around an operation. Usage stays within the limits, a repeated
    grant is suppressed and a release undoes it.
  \<^item> \<^verbatim>\<open>Progress\<close>, \<^verbatim>\<open>Restart\<close> (\<^verbatim>\<open>progress.py\<close>, \<^verbatim>\<open>restart.py\<close>): the snapshot of a run computed from its
    journal rows and its classification, and the restart policy on top of the lease store. A run
    without new signals only ages; restart delays are bounded, and a recorded failure blocks early
    claims.
  \<^item> \<^verbatim>\<open>Supervision\<close>, \<^verbatim>\<open>Supervision_Facts\<close> (\<^verbatim>\<open>loop.py\<close>, \<^verbatim>\<open>reconcile.py\<close>): one scan of the supervision loop
    over leases, snapshots and the takeover gate. On a store that served any requests a scan never
    raises, decides about every leased record and leaves no expired lease; it restarts only runs the
    takeover gate allowed.
  \<^item> \<^verbatim>\<open>Effect_Ledger\<close>, \<^verbatim>\<open>Effect_Facts\<close> (\<^verbatim>\<open>arnold/kernel/effect_ledger.py\<close>, \<^verbatim>\<open>effect.py\<close>, \<^verbatim>\<open>ids.py\<close>): the ledger
    of external effects and its fold from a journal. The step relation \<open>effect_step\<close> is the lifecycle
    every operation implements; the locale \<open>at_most_once\<close> is the contract of a recording store,
    interpreted on the ledger; a journal folds exactly when no key is settled twice.
  \<^item> \<^verbatim>\<open>Scheduler\<close>, \<^verbatim>\<open>Scheduler_Facts\<close> (\<^verbatim>\<open>megaplan/_core/io.py\<close>, \<^verbatim>\<open>_core/scheduler/\<close>): batching of the tasks
    of a plan by their dependencies. A schedule is complete and respects the dependencies, and
    batching succeeds exactly on acyclic graphs with known dependencies.
  \<^bold>\<open>Conventions.\<close> A Python \<^verbatim>\<open>str\<close> is its UTF-8 text, a float its \<^verbatim>\<open>repr\<close>, an integer an \<open>int\<close>, a
  dictionary an association list in insertion order, a dataclass a \<open>record\<close>, an enumeration a
  \<open>datatype\<close>. A raise is the left side of a sum; error values carry the class of the exception and
  not its message. State that a method changes is passed and returned. An operation that runs under
  a lock is one atomic step, and interleaving of processes is a sequence of such steps.

  \<^bold>\<open>Termination and bounds.\<close> No definition uses fuel: every loop of the modelled code is structural, or
  decreases a measure (\<open>batch_loop\<close> the tasks not yet scheduled, \<open>close_loop\<close> the accepted tasks not yet closed, \<open>closure_loop\<close> the rows not yet in the closure,
  \<open>string_values\<close> the size of the value, \<open>chunks\<close>, \<open>utf8_chars\<close> and \<open>runs\<close> the
  rest of the list, the retry loops of the driver the retries left), and is proved total with it.

  \<^bold>\<open>Parameters.\<close> The SHA-256 digest is an argument (\<open>sha\<close>, \<open>sha256\<close>, or \<open>digest8\<close> where its first bytes are read
  as a number), and nothing is assumed about it. The supervision loop takes the callables the code
  injects into it: scope and snapshot builders, the reconcile decision, and whether a restart
  callback is set, whose calls are recorded. The rows of the persistence backend and the evidence
  recorder of the effect ledger are arguments in the same way, as are the answers of the model to a
  gate, what its checks see of the machine, whether a critique recurs, the result the \<open>k\<close>-th run of a
  phase leaves, whether a named test passes now, and what Git says about commits and ancestry. What the completion readers see
  of files and Git is the record \<open>reader_env\<close>, whose collected attempts are what the collector makes of the
  decoded artifacts (\<open>batch_wave\<close>) and receipts; the stages of the frontier take the reader as a function of the rows.

  \<^bold>\<open>Not modelled.\<close> Code whose behaviour is that of a model, a subprocess, a network peer, a database or
  the file system: the phase handlers other than the gate, the resolve commands and the decisions of
  execute, the workers, the automatic driver around its retry loops, the chain runner, the cloud and
  resident services, the native runtime and its persistence backends, the Postgres lease store (its
  guards are SQL), and the git probes behind the reconcile decision. Of execute, the dispatch and merge of
  a batch, review rework and receipts are left out; of the completion readers, the divergence
  ledger and the table of routes. Pure code that is left
  out for its extent: the registry of accepted debt, the run-state classifiers, custody records, the
  journal of the kernel, and the supervisor's action records. Text messages of errors,
  logging, and the layout of files on disk are left out everywhere.
\<close>

end
